(* ===== verification/Prelude.thy ===== *)
theory Prelude
  imports
    Main
    "HOL-Library.Word"
    "HOL-Library.Sublist"
begin

text \<open>
  Shared vocabulary of the development: fallible actions over an explicit state (what a
  Rust \<open>async fn\<close> returning \<open>Result\<close> is here), their invariant and Hoare rules, row
  operations on tables kept as lists, and a locale for state machines given by a step
  relation. Nothing in this theory is specific to one component of the backend.
\<close>

section \<open>Fallible actions over a state\<close>

text \<open>
  An action reads and writes a state and ends in \<open>Inl\<close> of an error or \<open>Inr\<close> of a
  value; the state reached is returned in both cases, because an early \<open>return Err\<close> of the
  source keeps the effects made before it.
\<close>

type_synonym ('w, 'e, 'a) action = "'w \<Rightarrow> ('e + 'a) \<times> 'w"

named_theorems action_defs "definitions of the action combinators, for evaluation"
named_theorems preserves_rules "introduction rules for invariants of actions"

definition returnOk :: "'a \<Rightarrow> ('w, 'e, 'a) action" where
  [action_defs]: "returnOk x = (\<lambda>w. (Inr x, w))"

definition throwErr :: "'e \<Rightarrow> ('w, 'e, 'a) action" where
  [action_defs]: "throwErr e = (\<lambda>w. (Inl e, w))"

text \<open>\<open>catchE m f k\<close> is \<open>match m { Err(e) => f(e), Ok(x) => k(x) }\<close>.\<close>

definition catchE ::
  "('w, 'e, 'a) action \<Rightarrow> ('e \<Rightarrow> ('w, 'f, 'b) action) \<Rightarrow> ('a \<Rightarrow> ('w, 'f, 'b) action)
     \<Rightarrow> ('w, 'f, 'b) action" where
  [action_defs]: "catchE m f k =
     (\<lambda>w. case m w of (Inl e, w') \<Rightarrow> f e w' | (Inr x, w') \<Rightarrow> k x w')"

text \<open>\<open>bindE m k\<close> is \<open>let x = m?; k(x)\<close>.\<close>

definition bindE ::
  "('w, 'e, 'a) action \<Rightarrow> ('a \<Rightarrow> ('w, 'e, 'b) action) \<Rightarrow> ('w, 'e, 'b) action" where
  [action_defs]: "bindE m k =
     (\<lambda>w. case m w of (Inl e, w') \<Rightarrow> (Inl e, w') | (Inr x, w') \<Rightarrow> k x w')"

text \<open>\<open>bindErr g m k\<close> is \<open>let x = m.map_err(g)?; k(x)\<close>.\<close>

definition bindErr ::
  "('e \<Rightarrow> 'f) \<Rightarrow> ('w, 'e, 'a) action \<Rightarrow> ('a \<Rightarrow> ('w, 'f, 'b) action) \<Rightarrow> ('w, 'f, 'b) action" where
  [action_defs]: "bindErr g m k =
     (\<lambda>w. case m w of (Inl e, w') \<Rightarrow> (Inl (g e), w') | (Inr x, w') \<Rightarrow> k x w')"

text \<open>\<open>ignoreE m k\<close> is \<open>let _ = m; k\<close>: the result is dropped, the effects stay.\<close>

definition ignoreE ::
  "('w, 'e, 'a) action \<Rightarrow> ('w, 'f, 'b) action \<Rightarrow> ('w, 'f, 'b) action" where
  [action_defs]: "ignoreE m k = (\<lambda>w. k (snd (m w)))"

definition getsE :: "('w \<Rightarrow> 'a) \<Rightarrow> ('w, 'e, 'a) action" where
  [action_defs]: "getsE f = (\<lambda>w. (Inr (f w), w))"

definition modifyE :: "('w \<Rightarrow> 'w) \<Rightarrow> ('w, 'e, unit) action" where
  [action_defs]: "modifyE f = (\<lambda>w. (Inr (), f w))"

text \<open>\<open>guardE b e k\<close> is \<open>if !b { return Err(e) } k\<close>.\<close>

definition guardE :: "bool \<Rightarrow> 'e \<Rightarrow> ('w, 'e, 'a) action \<Rightarrow> ('w, 'e, 'a) action" where
  [action_defs]: "guardE b e k = (if b then k else throwErr e)"

text \<open>\<open>okOrE e v k\<close> is \<open>let x = v.ok_or(e)?; k(x)\<close>.\<close>

definition okOrE :: "'e \<Rightarrow> 'a option \<Rightarrow> ('a \<Rightarrow> ('w, 'e, 'b) action) \<Rightarrow> ('w, 'e, 'b) action" where
  [action_defs]: "okOrE e v k = (case v of None \<Rightarrow> throwErr e | Some x \<Rightarrow> k x)"

text \<open>A loop \<open>for x in xs { m(x)? }\<close> that stops at the first error.\<close>

fun forE :: "'a list \<Rightarrow> ('a \<Rightarrow> ('w, 'e, unit) action) \<Rightarrow> ('w, 'e, unit) action" where
  "forE [] m = returnOk ()"
| "forE (x # xs) m = bindE (m x) (\<lambda>_. forE xs m)"

lemma bindE_returnOk [simp]: "bindE (returnOk x) k = k x"
  by (simp add: bindE_def returnOk_def)

lemma bindE_throwErr [simp]: "bindE (throwErr e) k = throwErr e"
  by (simp add: bindE_def throwErr_def)

lemma bindE_right [simp]: "bindE m returnOk = m"
  by (rule ext) (simp add: bindE_def returnOk_def split: prod.splits sum.splits)

lemma bindE_assoc: "bindE (bindE m k) h = bindE m (\<lambda>x. bindE (k x) h)"
  by (rule ext) (simp add: bindE_def split: prod.splits sum.splits)

lemma guardE_simps [simp]:
  "guardE True e k = k" "guardE False e k = throwErr e"
  by (simp_all add: guardE_def)

lemma okOrE_simps [simp]:
  "okOrE e None k = throwErr e" "okOrE e (Some x) k = k x"
  by (simp_all add: okOrE_def)

text \<open>Outcomes, for the statements: what an action returned and the state it left.\<close>

abbreviation result :: "('e + 'a) \<times> 'w \<Rightarrow> 'e + 'a" where
  "result \<equiv> fst"

abbreviation final :: "('e + 'a) \<times> 'w \<Rightarrow> 'w" where
  "final \<equiv> snd"

definition isOk :: "('e + 'a) \<times> 'w \<Rightarrow> bool" where
  "isOk r = (case fst r of Inl _ \<Rightarrow> False | Inr _ \<Rightarrow> True)"

lemma isOk_simps [simp]: "isOk (Inr x, w)" "\<not> isOk (Inl e, w)"
  by (simp_all add: isOk_def)

section \<open>Invariants and Hoare rules for actions\<close>

definition preserves :: "('w \<Rightarrow> bool) \<Rightarrow> ('w, 'e, 'a) action \<Rightarrow> bool" where
  "preserves P m \<longleftrightarrow> (\<forall>w. P w \<longrightarrow> P (snd (m w)))"

lemma preservesI: "(\<And>w. P w \<Longrightarrow> P (snd (m w))) \<Longrightarrow> preserves P m"
  by (simp add: preserves_def)

lemma preservesD: "preserves P m \<Longrightarrow> P w \<Longrightarrow> P (snd (m w))"
  by (simp add: preserves_def)

lemma preserves_returnOk [preserves_rules]: "preserves P (returnOk x)"
  by (simp add: preserves_def returnOk_def)

lemma preserves_throwErr [preserves_rules]: "preserves P (throwErr e)"
  by (simp add: preserves_def throwErr_def)

lemma preserves_getsE [preserves_rules]: "preserves P (getsE f)"
  by (simp add: preserves_def getsE_def)

lemma preserves_modifyE: "(\<And>w. P w \<Longrightarrow> P (f w)) \<Longrightarrow> preserves P (modifyE f)"
  by (simp add: preserves_def modifyE_def)

lemma preserves_catchE [preserves_rules]:
  assumes "preserves P m" and "\<And>e. preserves P (f e)" and "\<And>x. preserves P (k x)"
  shows "preserves P (catchE m f k)"
proof (rule preservesI)
  fix w assume "P w"
  with assms(1) have "P (snd (m w))" by (rule preservesD)
  with assms(2,3) show "P (snd (catchE m f k w))"
    by (auto simp: catchE_def preserves_def split: prod.splits sum.splits)
qed

lemma bindE_catchE: "bindE m k = catchE m throwErr k"
  by (rule ext) (simp add: action_defs split: prod.splits sum.splits)

lemma bindErr_catchE: "bindErr g m k = catchE m (\<lambda>e. throwErr (g e)) k"
  by (rule ext) (simp add: action_defs split: prod.splits sum.splits)

lemma preserves_bindE [preserves_rules]:
  "preserves P m \<Longrightarrow> (\<And>x. preserves P (k x)) \<Longrightarrow> preserves P (bindE m k)"
  unfolding bindE_catchE by (intro preserves_rules)

lemma preserves_bindErr [preserves_rules]:
  "preserves P m \<Longrightarrow> (\<And>x. preserves P (k x)) \<Longrightarrow> preserves P (bindErr g m k)"
  unfolding bindErr_catchE by (intro preserves_rules)

lemma preserves_ignoreE [preserves_rules]:
  "preserves P m \<Longrightarrow> preserves P k \<Longrightarrow> preserves P (ignoreE m k)"
  by (simp add: preserves_def ignoreE_def)

lemma preserves_guardE [preserves_rules]: "preserves P k \<Longrightarrow> preserves P (guardE b e k)"
  by (simp add: guardE_def preserves_throwErr)

lemma preserves_okOrE [preserves_rules]:
  "(\<And>x. preserves P (k x)) \<Longrightarrow> preserves P (okOrE e v k)"
  by (simp add: okOrE_def preserves_throwErr split: option.split)

lemma preserves_if [preserves_rules]:
  "preserves P m \<Longrightarrow> preserves P n \<Longrightarrow> preserves P (if b then m else n)"
  by simp

lemma preserves_case_option [preserves_rules]:
  "preserves P m \<Longrightarrow> (\<And>x. preserves P (k x))
     \<Longrightarrow> preserves P (case v of None \<Rightarrow> m | Some x \<Rightarrow> k x)"
  by (simp split: option.split)

lemma preserves_case_sum [preserves_rules]:
  "(\<And>e. preserves P (m e)) \<Longrightarrow> (\<And>x. preserves P (k x))
     \<Longrightarrow> preserves P (case v of Inl e \<Rightarrow> m e | Inr x \<Rightarrow> k x)"
  by (simp split: sum.split)

lemma preserves_case_prod [preserves_rules]:
  "(\<And>x y. preserves P (k x y)) \<Longrightarrow> preserves P (case v of (x, y) \<Rightarrow> k x y)"
  by (simp split: prod.split)

lemma preserves_Let [preserves_rules]:
  "(\<And>x. preserves P (k x)) \<Longrightarrow> preserves P (let x = v in k x)"
  by simp

lemma preserves_forE [preserves_rules]:
  "(\<And>x. preserves P (m x)) \<Longrightarrow> preserves P (forE xs m)"
  by (induction xs) (auto intro: preserves_rules)

text \<open>
  The value-carrying form: from \<open>P\<close>, an \<open>Ok(x)\<close> ends in \<open>Q x\<close> and an \<open>Err(e)\<close>
  in \<open>R e\<close>.
\<close>

definition hoareE ::
  "('w \<Rightarrow> bool) \<Rightarrow> ('w, 'e, 'a) action \<Rightarrow> ('a \<Rightarrow> 'w \<Rightarrow> bool) \<Rightarrow> ('e \<Rightarrow> 'w \<Rightarrow> bool) \<Rightarrow> bool" where
  "hoareE P m Q R \<longleftrightarrow>
     (\<forall>w. P w \<longrightarrow> (case m w of (Inr x, w') \<Rightarrow> Q x w' | (Inl e, w') \<Rightarrow> R e w'))"

lemma hoareE_Ok: "hoareE P m Q R \<Longrightarrow> P w \<Longrightarrow> m w = (Inr x, w') \<Longrightarrow> Q x w'"
  by (auto simp: hoareE_def)

lemma hoareE_Err: "hoareE P m Q R \<Longrightarrow> P w \<Longrightarrow> m w = (Inl e, w') \<Longrightarrow> R e w'"
  by (auto simp: hoareE_def)

lemma hoareE_bindE:
  assumes "hoareE P m Q R" and "\<And>x. hoareE (Q x) (k x) Q' R"
  shows "hoareE P (bindE m k) Q' R"
  using assms by (fastforce simp: hoareE_def bindE_def split: prod.splits sum.splits)

lemma hoareE_weaken:
  assumes "hoareE P m Q R" and "\<And>w. P' w \<Longrightarrow> P w" and "\<And>x w. Q x w \<Longrightarrow> Q' x w"
    and "\<And>e w. R e w \<Longrightarrow> R' e w"
  shows "hoareE P' m Q' R'"
  using assms by (fastforce simp: hoareE_def split: prod.splits sum.splits)

text \<open>An action that leaves a part of the state alone, whatever it returns.\<close>

definition keeps :: "('w \<Rightarrow> 'b) \<Rightarrow> ('w, 'e, 'a) action \<Rightarrow> bool" where
  "keeps f m \<longleftrightarrow> (\<forall>w. f (snd (m w)) = f w)"

lemma keeps_preserves: "keeps f m \<Longrightarrow> preserves (\<lambda>w. P (f w)) m"
  by (simp add: keeps_def preserves_def)

lemma keeps_iff_preserves: "keeps f m \<longleftrightarrow> (\<forall>v. preserves (\<lambda>w. f w = v) m)"
  by (auto simp: keeps_def preserves_def)

lemma keepsI: "(\<And>v. preserves (\<lambda>w. f w = v) m) \<Longrightarrow> keeps f m"
  by (simp add: keeps_iff_preserves)

lemma keepsD: "keeps f m \<Longrightarrow> f (snd (m w)) = f w"
  by (simp add: keeps_def)

named_theorems keeps_rules "introduction rules for the frames of actions"

lemma keeps_returnOk [keeps_rules]: "keeps f (returnOk x)"
  by (intro keepsI preserves_rules)

lemma keeps_throwErr [keeps_rules]: "keeps f (throwErr e)"
  by (intro keepsI preserves_rules)

lemma keeps_getsE [keeps_rules]: "keeps f (getsE g)"
  by (intro keepsI preserves_rules)

lemma keeps_catchE [keeps_rules]:
  "keeps f m \<Longrightarrow> (\<And>e. keeps f (h e)) \<Longrightarrow> (\<And>x. keeps f (k x)) \<Longrightarrow> keeps f (catchE m h k)"
  by (intro keepsI preserves_rules) (simp_all add: keeps_iff_preserves)

lemma keeps_bindE [keeps_rules]:
  "keeps f m \<Longrightarrow> (\<And>x. keeps f (k x)) \<Longrightarrow> keeps f (bindE m k)"
  unfolding bindE_catchE by (intro keeps_rules)

lemma keeps_bindErr [keeps_rules]:
  "keeps f m \<Longrightarrow> (\<And>x. keeps f (k x)) \<Longrightarrow> keeps f (bindErr g m k)"
  unfolding bindErr_catchE by (intro keeps_rules)

lemma keeps_ignoreE [keeps_rules]: "keeps f m \<Longrightarrow> keeps f k \<Longrightarrow> keeps f (ignoreE m k)"
  by (intro keepsI preserves_rules) (simp_all add: keeps_iff_preserves)

lemma keeps_guardE [keeps_rules]: "keeps f k \<Longrightarrow> keeps f (guardE b e k)"
  by (simp add: guardE_def keeps_throwErr)

lemma keeps_okOrE [keeps_rules]: "(\<And>x. keeps f (k x)) \<Longrightarrow> keeps f (okOrE e v k)"
  by (simp add: okOrE_def keeps_throwErr split: option.split)

lemma keeps_if [keeps_rules]: "keeps f m \<Longrightarrow> keeps f n \<Longrightarrow> keeps f (if b then m else n)"
  by simp

lemma keeps_case_option [keeps_rules]:
  "keeps f m \<Longrightarrow> (\<And>x. keeps f (k x)) \<Longrightarrow> keeps f (case v of None \<Rightarrow> m | Some x \<Rightarrow> k x)"
  by (simp split: option.split)

lemma keeps_case_sum [keeps_rules]:
  "(\<And>e. keeps f (m e)) \<Longrightarrow> (\<And>x. keeps f (k x))
     \<Longrightarrow> keeps f (case v of Inl e \<Rightarrow> m e | Inr x \<Rightarrow> k x)"
  by (simp split: sum.split)

lemma keeps_case_prod [keeps_rules]:
  "(\<And>x y. keeps f (k x y)) \<Longrightarrow> keeps f (case v of (x, y) \<Rightarrow> k x y)"
  by (simp split: prod.split)

lemma keeps_Let [keeps_rules]: "(\<And>x. keeps f (k x)) \<Longrightarrow> keeps f (let x = v in k x)"
  by simp

lemma keeps_forE [keeps_rules]: "(\<And>x. keeps f (m x)) \<Longrightarrow> keeps f (forE xs m)"
  by (induction xs) (auto intro: keeps_rules)

text \<open>\<open>mapErr g m\<close> is \<^verbatim>\<open>m.map_err(g)\<close>.\<close>

definition mapErr :: "('e \<Rightarrow> 'f) \<Rightarrow> ('w, 'e, 'a) action \<Rightarrow> ('w, 'f, 'a) action" where
  [action_defs]: "mapErr g m = bindErr g m returnOk"

lemma preserves_mapErr [preserves_rules]: "preserves P m \<Longrightarrow> preserves P (mapErr g m)"
  unfolding mapErr_def by (intro preserves_rules)

lemma keeps_mapErr [keeps_rules]: "keeps f m \<Longrightarrow> keeps f (mapErr g m)"
  unfolding mapErr_def by (intro keeps_rules)

section \<open>Successful runs\<close>

lemma keepsE: "keeps f m \<Longrightarrow> m w = (r, w') \<Longrightarrow> f w' = f w"
  by (auto simp: keeps_def dest!: spec [where x = w])

lemma bindE_Inr: "bindE m k w = (Inr x, w') \<Longrightarrow> \<exists>y w1. m w = (Inr y, w1) \<and> k y w1 = (Inr x, w')"
  by (auto simp: bindE_def split: prod.splits sum.splits)

lemma bindErr_Inr:
  "bindErr g m k w = (Inr x, w') \<Longrightarrow> \<exists>y w1. m w = (Inr y, w1) \<and> k y w1 = (Inr x, w')"
  by (auto simp: bindErr_def split: prod.splits sum.splits)

lemma okOrE_Inr: "okOrE e v k w = (Inr x, w') \<Longrightarrow> \<exists>y. v = Some y \<and> k y w = (Inr x, w')"
  by (cases v) (auto simp: throwErr_def)

lemma guardE_Inr: "guardE b e k w = (Inr x, w') \<Longrightarrow> b \<and> k w = (Inr x, w')"
  by (cases b) (auto simp: throwErr_def)

lemma mapErr_Inr: "mapErr g m w = (Inr x, w') \<Longrightarrow> m w = (Inr x, w')"
  by (auto simp: mapErr_def bindErr_def returnOk_def split: prod.splits sum.splits)

lemmas run_Inr = bindE_Inr bindErr_Inr okOrE_Inr guardE_Inr mapErr_Inr

text \<open>The same as elimination rules: \<^verbatim>\<open>elim run_InrE\<close> takes a successful run apart.\<close>

lemma bindE_InrE:
  "bindE m k w = (Inr x, w') \<Longrightarrow> (\<And>y w1. m w = (Inr y, w1) \<Longrightarrow> k y w1 = (Inr x, w') \<Longrightarrow> R) \<Longrightarrow> R"
  by (drule bindE_Inr) blast

lemma bindErr_InrE:
  "bindErr g m k w = (Inr x, w') \<Longrightarrow> (\<And>y w1. m w = (Inr y, w1) \<Longrightarrow> k y w1 = (Inr x, w') \<Longrightarrow> R) \<Longrightarrow> R"
  by (drule bindErr_Inr) blast

lemma okOrE_InrE: "okOrE e v k w = (Inr x, w') \<Longrightarrow> (\<And>y. v = Some y \<Longrightarrow> k y w = (Inr x, w') \<Longrightarrow> R) \<Longrightarrow> R"
  by (drule okOrE_Inr) blast

lemma guardE_InrE: "guardE b e k w = (Inr x, w') \<Longrightarrow> (b \<Longrightarrow> k w = (Inr x, w') \<Longrightarrow> R) \<Longrightarrow> R"
  by (drule guardE_Inr) blast

lemma mapErr_InrE: "mapErr g m w = (Inr x, w') \<Longrightarrow> (m w = (Inr x, w') \<Longrightarrow> R) \<Longrightarrow> R"
  by (drule mapErr_Inr) blast

lemma ignoreE_InrE: "ignoreE m k w = (r, w') \<Longrightarrow> (\<And>v w1. m w = (v, w1) \<Longrightarrow> k w1 = (r, w') \<Longrightarrow> R) \<Longrightarrow> R"
  by (cases "m w") (auto simp: ignoreE_def)

lemmas run_InrE = bindE_InrE bindErr_InrE okOrE_InrE guardE_InrE mapErr_InrE

section \<open>Tables as lists of rows\<close>

text \<open>
  A table is the list of its rows in insertion order. \<open>one_by_desc\<close> is
  \<open>filter(p).order_by_desc(key).one()\<close>: a stable descending sort, then the first row.
\<close>

definition order_by_desc :: "('r \<Rightarrow> int) \<Rightarrow> 'r list \<Rightarrow> 'r list" where
  "order_by_desc key rows = sort_key (\<lambda>r. - key r) rows"

definition one_by_desc :: "('r \<Rightarrow> int) \<Rightarrow> ('r \<Rightarrow> bool) \<Rightarrow> 'r list \<Rightarrow> 'r option" where
  "one_by_desc key p rows =
     (case order_by_desc key (filter p rows) of [] \<Rightarrow> None | r # _ \<Rightarrow> Some r)"

definition update_where :: "('r \<Rightarrow> bool) \<Rightarrow> ('r \<Rightarrow> 'r) \<Rightarrow> 'r list \<Rightarrow> 'r list" where
  "update_where p f rows = map (\<lambda>r. if p r then f r else r) rows"

definition delete_where :: "('r \<Rightarrow> bool) \<Rightarrow> 'r list \<Rightarrow> 'r list" where
  "delete_where p rows = filter (\<lambda>r. \<not> p r) rows"

lemma set_order_by_desc [simp]: "set (order_by_desc key rows) = set rows"
  by (simp add: order_by_desc_def)

lemma one_by_desc_Some:
  assumes "one_by_desc key p rows = Some r"
  shows "r \<in> set rows" and "p r"
proof -
  from assms obtain rs where "order_by_desc key (filter p rows) = r # rs"
    by (auto simp: one_by_desc_def split: list.splits)
  then have "r \<in> set (order_by_desc key (filter p rows))" by simp
  then show "r \<in> set rows" and "p r" by auto
qed

lemma order_by_desc_Nil [simp]: "order_by_desc key rows = [] \<longleftrightarrow> rows = []"
  by (metis set_order_by_desc set_empty)

lemma one_by_desc_None: "one_by_desc key p rows = None \<longleftrightarrow> (\<forall>r \<in> set rows. \<not> p r)"
proof -
  have "one_by_desc key p rows = None \<longleftrightarrow> order_by_desc key (filter p rows) = []"
    unfolding one_by_desc_def by (cases "order_by_desc key (filter p rows)") (simp_all del: order_by_desc_Nil)
  also have "\<dots> \<longleftrightarrow> (\<forall>r \<in> set rows. \<not> p r)"
    by (auto simp: filter_empty_conv)
  finally show ?thesis .
qed

lemma set_update_where: "set (update_where p f rows) = (\<lambda>r. if p r then f r else r) ` set rows"
  by (simp add: update_where_def)

lemma length_update_where [simp]: "length (update_where p f rows) = length rows"
  by (simp add: update_where_def)

lemma map_update_where: "(\<And>r. g (f r) = g r) \<Longrightarrow> map g (update_where p f rows) = map g rows"
  by (auto simp: update_where_def)

lemma set_delete_where [simp]: "set (delete_where p rows) = {r \<in> set rows. \<not> p r}"
  by (auto simp: delete_where_def)

lemma same_id_same_row:
  "distinct (map key rows) \<Longrightarrow> b \<in> set rows \<Longrightarrow> c \<in> set rows \<Longrightarrow> key b = key c \<Longrightarrow> b = c"
  by (metis distinct_map inj_onD)

lemma find_Some_set: "find p xs = Some x \<Longrightarrow> x \<in> set xs \<and> p x"
  by (auto simp: find_Some_iff)

section \<open>State machines\<close>

text \<open>
  A state machine is an initial predicate and a step relation; an inductive invariant holds
  in every reachable state. Every protocol and every interleaving analysis of the
  development is an interpretation of this locale.
\<close>

inductive reach :: "('s \<Rightarrow> bool) \<Rightarrow> ('s \<Rightarrow> 's \<Rightarrow> bool) \<Rightarrow> 's \<Rightarrow> bool"
  for init :: "'s \<Rightarrow> bool" and step :: "'s \<Rightarrow> 's \<Rightarrow> bool" where
  reach_init: "init s \<Longrightarrow> reach init step s"
| reach_step: "reach init step s \<Longrightarrow> step s t \<Longrightarrow> reach init step t"

locale inductive_invariant =
  fixes init :: "'s \<Rightarrow> bool" and step :: "'s \<Rightarrow> 's \<Rightarrow> bool" and inv :: "'s \<Rightarrow> bool"
  assumes inv_init: "init s \<Longrightarrow> inv s"
    and inv_step: "inv s \<Longrightarrow> step s t \<Longrightarrow> inv t"
begin

lemma inv_reach: "reach init step s \<Longrightarrow> inv s"
  by (induction rule: reach.induct) (auto intro: inv_init inv_step)

lemma inv_steps: "step\<^sup>*\<^sup>* s t \<Longrightarrow> inv s \<Longrightarrow> inv t"
  by (induction rule: rtranclp_induct) (auto intro: inv_step)

lemma reach_steps: "step\<^sup>*\<^sup>* s t \<Longrightarrow> reach init step s \<Longrightarrow> reach init step t"
  by (induction rule: rtranclp_induct) (auto intro: reach.intros)

end

end
