(* ===== verification/Entities.thy ===== *)
theory Entities
  imports Text
begin

text \<open>
  The data of the backend: one record per table of \<^verbatim>\<open>shared/src/entities\<close>, with the
  columns in the source's order, the enumerations of \<^verbatim>\<open>video_status.rs\<close> and
  \<^verbatim>\<open>download_jobs.rs\<close>, the values the services serialise into Valkey, and the database as
  a record of tables with the integrity constraints of the migrations. A \<open>Uuid\<close> is its
  canonical text, a time is an \<open>int\<close> of nanoseconds since the epoch, a table the list of its
  rows in insertion order.
\<close>

type_synonym uuid = string
type_synonym time = int

definition nanos_per_sec :: int where
  "nanos_per_sec = 1000000000"

text \<open>\<open>DateTime::timestamp\<close> floors to seconds; \<open>Duration::num_seconds\<close> truncates toward zero.\<close>

definition timestamp :: "time \<Rightarrow> int" where
  "timestamp t = t div nanos_per_sec"

definition num_seconds :: "int \<Rightarrow> int" where
  "num_seconds d = (if 0 \<le> d then d div nanos_per_sec else - ((- d) div nanos_per_sec))"

definition secs :: "int \<Rightarrow> int" where
  "secs n = n * nanos_per_sec"

definition days :: "int \<Rightarrow> int" where
  "days n = secs (86400 * n)"

lemma timestamp_mono: "s \<le> t \<Longrightarrow> timestamp s \<le> timestamp t"
  by (simp add: timestamp_def nanos_per_sec_def zdiv_mono1)

lemma num_seconds_less_iff:
  assumes "0 < n"
  shows "num_seconds d < n \<longleftrightarrow> d < secs n"
proof (cases "0 \<le> d")
  case True
  then show ?thesis
    by (simp add: num_seconds_def secs_def nanos_per_sec_def) linarith
next
  case False
  then have "0 \<le> (- d) div 1000000000" by (simp add: pos_imp_zdiv_nonneg_iff)
  with False assms show ?thesis
    by (simp add: num_seconds_def secs_def nanos_per_sec_def)
qed

section \<open>JSON values\<close>

datatype json =
    JNull
  | JBool bool
  | JNum int
  | JStr string
  | JArr "json list"
  | JObj "(string \<times> json) list"

fun json_field :: "string \<Rightarrow> json \<Rightarrow> json option" where
  "json_field k (JObj fs) = map_of fs k"
| "json_field k _ = None"

fun json_str :: "json \<Rightarrow> string option" where
  "json_str (JStr s) = Some s"
| "json_str _ = None"

fun json_nat :: "json \<Rightarrow> nat option" where
  "json_nat (JNum n) = (if 0 \<le> n then Some (nat n) else None)"
| "json_nat _ = None"

fun json_strs :: "json list \<Rightarrow> string list option" where
  "json_strs [] = Some []"
| "json_strs (v # vs) =
     (case (json_str v, json_strs vs) of (Some s, Some ss) \<Rightarrow> Some (s # ss) | _ \<Rightarrow> None)"

fun json_str_list :: "json \<Rightarrow> string list option" where
  "json_str_list (JArr vs) = json_strs vs"
| "json_str_list _ = None"

lemma json_strs_map [simp]: "json_strs (map JStr ss) = Some ss"
  by (induction ss) auto

section \<open>Rows\<close>

record user =
  u_id :: uuid
  u_google_id :: string
  u_username :: string
  u_username_normalized :: "string option"
  u_email :: string
  u_avatar_url :: "string option"
  u_username_updated_at :: "time option"
  u_age_confirmed_at :: "time option"
  u_terms_accepted_at :: "time option"
  u_terms_accepted_version :: "string option"
  u_deleted_at :: "time option"
  u_created_at :: time
  u_updated_at :: time

record video =
  v_id :: uuid
  v_user_id :: uuid
  v_title :: "string option"
  v_description :: "string option"
  v_s3_bucket :: string
  v_s3_key :: string
  v_status :: string
  v_size_bytes :: int
  v_duration_seconds :: "int option"
  v_like_count :: int
  v_is_anonymous :: bool
  v_is_nsfw :: "bool option"
  v_moderation_state :: string
  v_moderation_reason_code :: "string option"
  v_moderation_updated_at :: "time option"
  v_moderation_updated_by :: "string option"
  v_moderation_source_report_id :: "uuid option"
  v_processing_error_code :: "string option"
  v_processing_error_message :: "string option"
  v_failed_at :: "time option"
  v_deleted_at :: "time option"
  v_created_at :: time
  v_updated_at :: time

record like =
  l_user_id :: uuid
  l_video_id :: uuid
  l_created_at :: time

record refresh_token =
  rt_id :: uuid
  rt_user_id :: uuid
  rt_token_hash :: string
  rt_expires_at :: time
  rt_created_at :: time
  rt_replaced_by :: "uuid option"
  rt_replaced_at :: "time option"

record extension_session =
  es_jti :: uuid
  es_user_id :: uuid
  es_device_id_hash :: string
  es_platform :: string
  es_scope :: "string list"
  es_issued_at :: time
  es_expires_at :: time
  es_revoked_at :: "time option"

record user_ban =
  ub_id :: uuid
  ub_user_id :: uuid
  ub_reason :: "string option"
  ub_banned_until :: "time option"
  ub_created_by_admin_sub :: string
  ub_created_at :: time
  ub_lifted_at :: "time option"
  ub_lifted_by_admin_sub :: "string option"
  ub_lift_reason :: "string option"

record ip_ban =
  ib_id :: uuid
  ib_target :: string
  ib_target_kind :: string
  ib_ip_family :: int
  ib_cidr_prefix :: "int option"
  ib_reason :: "string option"
  ib_banned_until :: "time option"
  ib_created_by_admin_sub :: string
  ib_created_at :: time
  ib_lifted_at :: "time option"
  ib_lifted_by_admin_sub :: "string option"
  ib_lift_reason :: "string option"

record abuse_report =
  ar_id :: uuid
  ar_video_id :: uuid
  ar_reporter_user_id :: uuid
  ar_reason_codes :: "string list"
  ar_details :: "string option"
  ar_timestamp_seconds :: "int option"
  ar_severity_score :: int
  ar_status :: string
  ar_client_ip :: string
  ar_user_agent :: "string option"
  ar_auto_quarantined :: bool
  ar_auto_rule :: "string option"
  ar_created_at :: time
  ar_updated_at :: time
  ar_closed_at :: "time option"
  ar_closed_by_admin_sub :: "string option"
  ar_resolution_code :: "string option"
  ar_resolution_note :: "string option"

record download_job =
  dj_id :: uuid
  dj_user_id :: uuid
  dj_video_ids :: "uuid list"
  dj_status :: string
  dj_idempotency_key :: "string option"
  dj_zip_s3_key :: "string option"
  dj_zip_url :: "string option"
  dj_zip_size_bytes :: "int option"
  dj_error_message :: "string option"
  dj_partial_manifest :: "json option"
  dj_retry_count :: int
  dj_created_at :: time
  dj_updated_at :: "time option"
  dj_completed_at :: "time option"
  dj_expires_at :: "time option"

record send_ticket =
  st_ticket_id :: uuid
  st_user_id :: uuid
  st_video_id :: uuid
  st_device_id_hash :: string
  st_host_app_hint :: "string option"
  st_created_at :: time
  st_expires_at :: time
  st_redeemed_at :: "time option"
  st_status :: string

record security_event =
  se_id :: uuid
  se_user_id :: "uuid option"
  se_event_type :: string
  se_ip :: string
  se_request_id :: "string option"
  se_user_agent :: "string option"
  se_metadata_json :: json
  se_created_at :: time

record admin_audit_log =
  al_id :: uuid
  al_actor_sub :: string
  al_action :: string
  al_target_table :: string
  al_target_id :: "string option"
  al_request_id :: string
  al_ip :: "string option"
  al_user_agent :: "string option"
  al_outcome :: string
  al_metadata_json :: json
  al_created_at :: time

section \<open>Values kept in Valkey\<close>

record ban_cache_entry =
  bce_banned :: bool
  bce_expires_at_unix :: "int option"

record user_dto =
  ud_id :: uuid
  ud_username :: string
  ud_email :: string
  ud_avatar_url :: "string option"
  ud_age_confirmed :: bool
  ud_terms_accepted :: bool
  ud_required_terms_version :: string
  ud_accepted_terms_version :: "string option"

record auth_response =
  aur_access_token :: string
  aur_refresh_token :: string
  aur_user :: user_dto

record otc_auth_token_data =
  oat_access_token :: string
  oat_refresh_token :: string
  oat_user_id :: uuid
  oat_username :: string
  oat_email :: string
  oat_avatar_url :: "string option"
  oat_age_confirmed :: bool
  oat_terms_accepted :: bool
  oat_required_terms_version :: string
  oat_accepted_terms_version :: "string option"

record otc_signup_required_data =
  osr_signup_ticket :: string
  osr_suggested_username :: string
  osr_required_terms_version :: string
  osr_terms_url :: "string option"
  osr_requires_age_confirmation :: bool

datatype otc_token_data =
    AuthSuccess otc_auth_token_data
  | SignupRequired otc_signup_required_data

record signup_ticket_data =
  std_google_id :: string
  std_email :: string
  std_avatar_url :: string
  std_source :: string
  std_created_at :: time

record cached_uploader_info =
  cui_id :: uuid
  cui_username :: string

record cached_video_feed_item =
  cvf_id :: uuid
  cvf_title :: "string option"
  cvf_url :: string
  cvf_thumbnail_url :: "string option"
  cvf_like_count :: int
  cvf_created_at :: time
  cvf_deleted_at :: "time option"
  cvf_is_anonymous :: bool
  cvf_is_nsfw :: "bool option"
  cvf_uploader :: "cached_uploader_info option"

record user_ip_activity =
  uia_ip :: string
  uia_last_seen :: time
  uia_event_count :: int

record ip_user_activity =
  iua_user_id :: uuid
  iua_last_seen :: time
  iua_event_count :: int

record 'a investigation_page =
  ivp_items :: "'a list"
  ivp_next_cursor :: "nat option"

record uploader_info =
  upi_id :: uuid
  upi_username :: string

record video_feed_item =
  vf_id :: uuid
  vf_title :: "string option"
  vf_url :: string
  vf_thumbnail_url :: "string option"
  vf_like_count :: int
  vf_created_at :: time
  vf_uploader :: "uploader_info option"
  vf_is_nsfw :: bool
  vf_is_liked :: bool

record user_video_dto =
  uv_id :: uuid
  uv_title :: "string option"
  uv_description :: "string option"
  uv_status :: string
  uv_created_at :: time
  uv_updated_at :: time
  uv_is_anonymous :: bool
  uv_is_nsfw :: "bool option"
  uv_is_liked :: bool
  uv_like_count :: int
  uv_url :: "string option"
  uv_thumbnail_url :: "string option"
  uv_processing_error_code :: "string option"
  uv_processing_error_message :: "string option"

record username_update_record =
  unr_request_fingerprint :: string
  unr_response :: user_dto

text \<open>
  A Valkey string is kept as what the program wrote: the counter of \<^verbatim>\<open>INCR\<close>, a plain text,
  or the record a JSON text was made from. Reading a value at another type fails the way
  parsing its text would.
\<close>

datatype kv_value =
    KInt int
  | KText string
  | KBan ban_cache_entry
  | KOtc otc_token_data
  | KTicket signup_ticket_data
  | KAuth auth_response
  | KFeed "cached_video_feed_item list"
  | KIps "user_ip_activity investigation_page"
  | KUsers "ip_user_activity investigation_page"
  | KSearch "video_feed_item list"
  | KVideos "user_video_dto list"
  | KUser user_dto
  | KNameUpdate username_update_record
  | KJson json

fun as_ban :: "kv_value \<Rightarrow> ban_cache_entry option" where
  "as_ban (KBan e) = Some e"
| "as_ban _ = None"

fun as_otc :: "kv_value \<Rightarrow> otc_token_data option" where
  "as_otc (KOtc d) = Some d"
| "as_otc _ = None"

fun as_ticket :: "kv_value \<Rightarrow> signup_ticket_data option" where
  "as_ticket (KTicket d) = Some d"
| "as_ticket _ = None"

fun as_auth :: "kv_value \<Rightarrow> auth_response option" where
  "as_auth (KAuth d) = Some d"
| "as_auth _ = None"

fun as_feed :: "kv_value \<Rightarrow> cached_video_feed_item list option" where
  "as_feed (KFeed d) = Some d"
| "as_feed _ = None"

fun as_ips :: "kv_value \<Rightarrow> user_ip_activity investigation_page option" where
  "as_ips (KIps d) = Some d"
| "as_ips _ = None"

fun as_users :: "kv_value \<Rightarrow> ip_user_activity investigation_page option" where
  "as_users (KUsers d) = Some d"
| "as_users _ = None"

fun as_search :: "kv_value \<Rightarrow> video_feed_item list option" where
  "as_search (KSearch d) = Some d"
| "as_search _ = None"

fun as_videos :: "kv_value \<Rightarrow> user_video_dto list option" where
  "as_videos (KVideos d) = Some d"
| "as_videos _ = None"

fun as_user :: "kv_value \<Rightarrow> user_dto option" where
  "as_user (KUser d) = Some d"
| "as_user _ = None"

fun as_name_update :: "kv_value \<Rightarrow> username_update_record option" where
  "as_name_update (KNameUpdate d) = Some d"
| "as_name_update _ = None"

fun as_text :: "kv_value \<Rightarrow> string option" where
  "as_text (KText s) = Some s"
| "as_text (KInt i) = Some (show_int i)"
| "as_text _ = None"

fun as_integer :: "kv_value \<Rightarrow> int option" where
  "as_integer (KInt i) = Some i"
| "as_integer (KText s) = map_option int (parse_nat s)"
| "as_integer _ = None"

section \<open>Enumerations\<close>

datatype video_status = Draft | Processing | Published | Failed

fun video_status_as_str :: "video_status \<Rightarrow> string" where
  "video_status_as_str Draft = ''DRAFT''"
| "video_status_as_str Processing = ''PROCESSING''"
| "video_status_as_str Published = ''PUBLISHED''"
| "video_status_as_str Failed = ''FAILED''"

definition video_status_from_str :: "string \<Rightarrow> video_status option" where
  "video_status_from_str s =
     (if s = ''DRAFT'' then Some Draft
      else if s = ''PROCESSING'' then Some Processing
      else if s = ''PUBLISHED'' then Some Published
      else if s = ''FAILED'' then Some Failed
      else None)"

datatype job_status = JobPending | JobProcessing | JobCompleted | JobFailed

fun job_status_as_str :: "job_status \<Rightarrow> string" where
  "job_status_as_str JobPending = ''PENDING''"
| "job_status_as_str JobProcessing = ''PROCESSING''"
| "job_status_as_str JobCompleted = ''COMPLETED''"
| "job_status_as_str JobFailed = ''FAILED''"

definition job_status_from_str :: "string \<Rightarrow> job_status option" where
  "job_status_from_str s =
     (if s = ''PENDING'' then Some JobPending
      else if s = ''PROCESSING'' then Some JobProcessing
      else if s = ''COMPLETED'' then Some JobCompleted
      else if s = ''FAILED'' then Some JobFailed
      else None)"

lemma video_status_from_as_str [simp]: "video_status_from_str (video_status_as_str x) = Some x"
  by (cases x) (simp_all add: video_status_from_str_def)

lemma video_status_from_str_Some:
  "video_status_from_str s = Some x \<longleftrightarrow> s = video_status_as_str x"
  by (cases x) (auto simp: video_status_from_str_def)

lemma job_status_from_as_str [simp]: "job_status_from_str (job_status_as_str x) = Some x"
  by (cases x) (simp_all add: job_status_from_str_def)

end
