(* ===== verification/World.thy ===== *)
theory World
  imports Entities "HOL-Library.AList"
begin

text \<open>
  The state the services act on: the PostgreSQL database with the constraints of
  \<^verbatim>\<open>shared/migration\<close>, the Valkey store with expiring keys, the job queues and the
  pub/sub channel of \<^verbatim>\<open>shared/src/queue.rs\<close>, the object store, the clock, and the random
  values drawn. Every call to an outside service goes through \<open>external\<close>, which lets it
  succeed, fail before it takes effect, or take effect and lose its answer.
\<close>

section \<open>Database\<close>

record database =
  db_users :: "user list"
  db_videos :: "video list"
  db_likes :: "like list"
  db_refresh_tokens :: "refresh_token list"
  db_extension_sessions :: "extension_session list"
  db_user_bans :: "user_ban list"
  db_ip_bans :: "ip_ban list"
  db_abuse_reports :: "abuse_report list"
  db_download_jobs :: "download_job list"
  db_send_tickets :: "send_ticket list"
  db_security_events :: "security_event list"
  db_admin_audit_logs :: "admin_audit_log list"

definition empty_db :: database where
  "empty_db = \<lparr> db_users = [], db_videos = [], db_likes = [], db_refresh_tokens = [],
     db_extension_sessions = [], db_user_bans = [], db_ip_bans = [], db_abuse_reports = [],
     db_download_jobs = [], db_send_tickets = [], db_security_events = [],
     db_admin_audit_logs = [] \<rparr>"

datatype db_error = DbConn | DbUnique string | DbForeignKey string | RecordNotUpdated

datatype failure =
    DbError db_error
  | RedisError
  | StorageError
  | OtherError string

definition user_exists :: "database \<Rightarrow> uuid \<Rightarrow> bool" where
  "user_exists d i \<longleftrightarrow> list_ex (\<lambda>u. u_id u = i) (db_users d)"

definition video_exists :: "database \<Rightarrow> uuid \<Rightarrow> bool" where
  "video_exists d i \<longleftrightarrow> list_ex (\<lambda>v. v_id v = i) (db_videos d)"

text \<open>
  The unique indexes and foreign keys, named as the migrations name them. A write that
  breaks one is refused and leaves the table as it was.
\<close>

definition check :: "bool \<Rightarrow> db_error \<Rightarrow> db_error + 'a \<Rightarrow> db_error + 'a" where
  "check b e r = (if b then r else Inl e)"

definition user_unique :: "user \<Rightarrow> user list \<Rightarrow> db_error + unit" where
  "user_unique u us =
     check (\<not> list_ex (\<lambda>r. u_google_id r = u_google_id u) us) (DbUnique ''users_google_id_key'')
    (check (\<not> list_ex (\<lambda>r. u_username_normalized u \<noteq> None
                            \<and> u_username_normalized r = u_username_normalized u) us)
       (DbUnique ''idx_users_username_normalized_unique'') (Inr ()))"

definition insert_user :: "user \<Rightarrow> database \<Rightarrow> db_error + database" where
  "insert_user u d =
     check (\<not> user_exists d (u_id u)) (DbUnique ''users_pkey'')
       (case user_unique u (db_users d) of
          Inl e \<Rightarrow> Inl e
        | Inr _ \<Rightarrow> Inr (d\<lparr>db_users := db_users d @ [u]\<rparr>))"

text \<open>\<open>ActiveModel::update\<close>: the set columns of the row with this key, which must exist.\<close>

definition update_user :: "uuid \<Rightarrow> (user \<Rightarrow> user) \<Rightarrow> database \<Rightarrow> db_error + database" where
  "update_user i f d =
     (case find (\<lambda>u. u_id u = i) (db_users d) of
        None \<Rightarrow> Inl RecordNotUpdated
      | Some u \<Rightarrow>
          (case user_unique (f u) (delete_where (\<lambda>r. u_id r = i) (db_users d)) of
             Inl e \<Rightarrow> Inl e
           | Inr _ \<Rightarrow> Inr (d\<lparr>db_users := update_where (\<lambda>r. u_id r = i) f (db_users d)\<rparr>)))"

definition insert_video :: "video \<Rightarrow> database \<Rightarrow> db_error + database" where
  "insert_video v d =
     check (\<not> video_exists d (v_id v)) (DbUnique ''videos_pkey'')
    (check (user_exists d (v_user_id v)) (DbForeignKey ''fk_videos_users'')
       (Inr (d\<lparr>db_videos := db_videos d @ [v]\<rparr>)))"

definition update_video :: "uuid \<Rightarrow> (video \<Rightarrow> video) \<Rightarrow> database \<Rightarrow> db_error + database" where
  "update_video i f d =
     check (video_exists d i) RecordNotUpdated
       (Inr (d\<lparr>db_videos := update_where (\<lambda>v. v_id v = i) f (db_videos d)\<rparr>))"

definition insert_like :: "like \<Rightarrow> database \<Rightarrow> db_error + database" where
  "insert_like l d =
     check (\<not> list_ex (\<lambda>r. l_user_id r = l_user_id l \<and> l_video_id r = l_video_id l) (db_likes d))
       (DbUnique ''pk_likes'')
    (check (user_exists d (l_user_id l)) (DbForeignKey ''fk_likes_users'')
    (check (video_exists d (l_video_id l)) (DbForeignKey ''fk_likes_videos'')
       (Inr (d\<lparr>db_likes := db_likes d @ [l]\<rparr>))))"

definition replaced_by_ok :: "refresh_token \<Rightarrow> refresh_token list \<Rightarrow> bool" where
  "replaced_by_ok t ts =
     (case rt_replaced_by t of None \<Rightarrow> True | Some n \<Rightarrow> list_ex (\<lambda>r. rt_id r = n) ts)"

definition insert_refresh_token :: "refresh_token \<Rightarrow> database \<Rightarrow> db_error + database" where
  "insert_refresh_token t d =
     check (\<not> list_ex (\<lambda>r. rt_id r = rt_id t) (db_refresh_tokens d))
       (DbUnique ''refresh_tokens_pkey'')
    (check (user_exists d (rt_user_id t)) (DbForeignKey ''fk_refresh_tokens_users'')
    (check (replaced_by_ok t (db_refresh_tokens d @ [t]))
       (DbForeignKey ''fk-refresh_tokens-replaced_by'')
       (Inr (d\<lparr>db_refresh_tokens := db_refresh_tokens d @ [t]\<rparr>))))"

definition update_refresh_token ::
  "uuid \<Rightarrow> (refresh_token \<Rightarrow> refresh_token) \<Rightarrow> database \<Rightarrow> db_error + database" where
  "update_refresh_token i f d =
     (let ts = update_where (\<lambda>r. rt_id r = i) f (db_refresh_tokens d) in
      check (list_ex (\<lambda>r. rt_id r = i) (db_refresh_tokens d)) RecordNotUpdated
     (check (list_all (\<lambda>t. rt_id t = i \<longrightarrow> replaced_by_ok t ts) ts)
        (DbForeignKey ''fk-refresh_tokens-replaced_by'')
        (Inr (d\<lparr>db_refresh_tokens := ts\<rparr>))))"

text \<open>
  Deleting refresh tokens sets \<open>replaced_by\<close> to null in the rows that name them
  (\<^verbatim>\<open>ON DELETE SET NULL\<close>).
\<close>

definition clear_replaced_by :: "uuid set \<Rightarrow> refresh_token \<Rightarrow> refresh_token" where
  "clear_replaced_by gone t =
     (case rt_replaced_by t of
        Some n \<Rightarrow> if n \<in> gone then t\<lparr>rt_replaced_by := None\<rparr> else t
      | None \<Rightarrow> t)"

definition delete_refresh_tokens :: "(refresh_token \<Rightarrow> bool) \<Rightarrow> database \<Rightarrow> database" where
  "delete_refresh_tokens p d =
     (let gone = set (map rt_id (filter p (db_refresh_tokens d))) in
      d\<lparr>db_refresh_tokens :=
          map (clear_replaced_by gone) (delete_where p (db_refresh_tokens d))\<rparr>)"

definition insert_extension_session :: "extension_session \<Rightarrow> database \<Rightarrow> db_error + database" where
  "insert_extension_session s d =
     check (\<not> list_ex (\<lambda>r. es_jti r = es_jti s) (db_extension_sessions d))
       (DbUnique ''extension_sessions_pkey'')
    (check (user_exists d (es_user_id s)) (DbForeignKey ''fk_extension_sessions_users'')
       (Inr (d\<lparr>db_extension_sessions := db_extension_sessions d @ [s]\<rparr>)))"

definition insert_user_ban :: "user_ban \<Rightarrow> database \<Rightarrow> db_error + database" where
  "insert_user_ban b d =
     check (\<not> list_ex (\<lambda>r. ub_id r = ub_id b) (db_user_bans d)) (DbUnique ''user_bans_pkey'')
    (check (\<not> (ub_lifted_at b = None
          \<and> list_ex (\<lambda>r. ub_user_id r = ub_user_id b \<and> ub_lifted_at r = None) (db_user_bans d)))
       (DbUnique ''uniq_user_bans_active_user'')
    (check (user_exists d (ub_user_id b)) (DbForeignKey ''fk_user_bans_user_id'')
       (Inr (d\<lparr>db_user_bans := db_user_bans d @ [b]\<rparr>))))"

definition update_user_ban ::
  "uuid \<Rightarrow> (user_ban \<Rightarrow> user_ban) \<Rightarrow> database \<Rightarrow> db_error + database" where
  "update_user_ban i f d =
     check (list_ex (\<lambda>r. ub_id r = i) (db_user_bans d)) RecordNotUpdated
       (Inr (d\<lparr>db_user_bans := update_where (\<lambda>r. ub_id r = i) f (db_user_bans d)\<rparr>))"

definition insert_ip_ban :: "ip_ban \<Rightarrow> database \<Rightarrow> db_error + database" where
  "insert_ip_ban b d =
     check (\<not> list_ex (\<lambda>r. ib_id r = ib_id b) (db_ip_bans d)) (DbUnique ''ip_bans_pkey'')
    (check (\<not> (ib_lifted_at b = None
          \<and> list_ex (\<lambda>r. ib_target r = ib_target b \<and> ib_lifted_at r = None) (db_ip_bans d)))
       (DbUnique ''uniq_ip_bans_active_target'')
       (Inr (d\<lparr>db_ip_bans := db_ip_bans d @ [b]\<rparr>)))"

definition update_ip_ban :: "uuid \<Rightarrow> (ip_ban \<Rightarrow> ip_ban) \<Rightarrow> database \<Rightarrow> db_error + database" where
  "update_ip_ban i f d =
     check (list_ex (\<lambda>r. ib_id r = i) (db_ip_bans d)) RecordNotUpdated
       (Inr (d\<lparr>db_ip_bans := update_where (\<lambda>r. ib_id r = i) f (db_ip_bans d)\<rparr>))"

definition insert_abuse_report :: "abuse_report \<Rightarrow> database \<Rightarrow> db_error + database" where
  "insert_abuse_report r d =
     check (\<not> list_ex (\<lambda>q. ar_id q = ar_id r) (db_abuse_reports d))
       (DbUnique ''abuse_reports_pkey'')
    (check (\<not> (ar_closed_at r = None
          \<and> list_ex (\<lambda>q. ar_video_id q = ar_video_id r
                \<and> ar_reporter_user_id q = ar_reporter_user_id r \<and> ar_closed_at q = None)
              (db_abuse_reports d)))
       (DbUnique ''uniq_abuse_reports_open_video_reporter'')
    (check (video_exists d (ar_video_id r)) (DbForeignKey ''fk_abuse_reports_video_id'')
    (check (user_exists d (ar_reporter_user_id r)) (DbForeignKey ''fk_abuse_reports_reporter_user_id'')
       (Inr (d\<lparr>db_abuse_reports := db_abuse_reports d @ [r]\<rparr>)))))"

definition update_abuse_report ::
  "uuid \<Rightarrow> (abuse_report \<Rightarrow> abuse_report) \<Rightarrow> database \<Rightarrow> db_error + database" where
  "update_abuse_report i f d =
     check (list_ex (\<lambda>r. ar_id r = i) (db_abuse_reports d)) RecordNotUpdated
       (Inr (d\<lparr>db_abuse_reports := update_where (\<lambda>r. ar_id r = i) f (db_abuse_reports d)\<rparr>))"

definition insert_download_job :: "download_job \<Rightarrow> database \<Rightarrow> db_error + database" where
  "insert_download_job j d =
     check (\<not> list_ex (\<lambda>r. dj_id r = dj_id j) (db_download_jobs d))
       (DbUnique ''download_jobs_pkey'')
    (check (\<not> (dj_idempotency_key j \<noteq> None
          \<and> list_ex (\<lambda>r. dj_idempotency_key r = dj_idempotency_key j) (db_download_jobs d)))
       (DbUnique ''idx_download_jobs_idempotency_key'')
       (Inr (d\<lparr>db_download_jobs := db_download_jobs d @ [j]\<rparr>)))"

definition update_download_job ::
  "uuid \<Rightarrow> (download_job \<Rightarrow> download_job) \<Rightarrow> database \<Rightarrow> db_error + database" where
  "update_download_job i f d =
     check (list_ex (\<lambda>r. dj_id r = i) (db_download_jobs d)) RecordNotUpdated
       (Inr (d\<lparr>db_download_jobs := update_where (\<lambda>r. dj_id r = i) f (db_download_jobs d)\<rparr>))"

definition insert_send_ticket :: "send_ticket \<Rightarrow> database \<Rightarrow> db_error + database" where
  "insert_send_ticket t d =
     check (\<not> list_ex (\<lambda>r. st_ticket_id r = st_ticket_id t) (db_send_tickets d))
       (DbUnique ''send_tickets_pkey'')
    (check (user_exists d (st_user_id t)) (DbForeignKey ''fk_send_tickets_users'')
    (check (video_exists d (st_video_id t)) (DbForeignKey ''fk_send_tickets_videos'')
       (Inr (d\<lparr>db_send_tickets := db_send_tickets d @ [t]\<rparr>))))"

definition insert_security_event :: "security_event \<Rightarrow> database \<Rightarrow> db_error + database" where
  "insert_security_event e d =
     check (\<not> list_ex (\<lambda>r. se_id r = se_id e) (db_security_events d))
       (DbUnique ''security_events_pkey'')
    (check (case se_user_id e of None \<Rightarrow> True | Some u \<Rightarrow> user_exists d u)
       (DbForeignKey ''fk_security_events_user_id'')
       (Inr (d\<lparr>db_security_events := db_security_events d @ [e]\<rparr>)))"

definition insert_admin_audit_log :: "admin_audit_log \<Rightarrow> database \<Rightarrow> db_error + database" where
  "insert_admin_audit_log l d =
     check (\<not> list_ex (\<lambda>r. al_id r = al_id l) (db_admin_audit_logs d))
       (DbUnique ''admin_audit_logs_pkey'')
       (Inr (d\<lparr>db_admin_audit_logs := db_admin_audit_logs d @ [l]\<rparr>))"

lemma check_Inr [simp]: "check b e r = Inr x \<longleftrightarrow> b \<and> r = Inr x"
  by (simp add: check_def)

lemma check_simps [simp]: "check True e r = r" "check False e r = Inl e"
  by (simp_all add: check_def)

section \<open>The world\<close>

record video_process_job =
  vpj_video_id :: uuid
  vpj_user_id :: uuid
  vpj_raw_bucket :: string
  vpj_raw_key :: string

text \<open>An object of the store: its length and the bytes of its beginning.\<close>

record stored_object =
  so_size :: nat
  so_head :: string

datatype fault = Answered | Not_done | Answer_lost

text \<open>The local files of the process, by path.\<close>

type_synonym files = "string \<Rightarrow> stored_object option"

type_synonym kv_store = "(string \<times> (kv_value \<times> time option)) list"

record world =
  clock :: time
  db :: database
  kv :: kv_store
  video_queue :: "video_process_job list"
  bulk_queue :: "json list"
  published :: "(uuid \<times> json) list"
  objects :: "(string \<times> string) \<Rightarrow> stored_object option"
  local_files :: files
  faults :: "fault list"
  uuid_src :: "nat \<Rightarrow> uuid"
  secret_src :: "nat \<Rightarrow> string"
  drawn :: nat

type_synonym 'a io = "(world, failure, 'a) action"

text \<open>
  \<open>external e f\<close> is one call to a service: \<^verbatim>\<open>Answered\<close> is the normal case (and what an
  exhausted list means), \<^verbatim>\<open>Not_done\<close> an error before the service acts, \<^verbatim>\<open>Answer_lost\<close> an
  error after it has acted.
\<close>

fun external :: "failure \<Rightarrow> (world \<Rightarrow> (failure + 'a) \<times> world) \<Rightarrow> 'a io" where
  "external e f w =
     (case faults w of
        [] \<Rightarrow> f w
      | Answered # fs \<Rightarrow> f (w\<lparr>faults := fs\<rparr>)
      | Not_done # fs \<Rightarrow> (Inl e, w\<lparr>faults := fs\<rparr>)
      | Answer_lost # fs \<Rightarrow> (Inl e, snd (f (w\<lparr>faults := fs\<rparr>))))"

declare external.simps [simp del]

lemma external_ok [simp]: "faults w = [] \<Longrightarrow> external e f w = f w"
  by (simp add: external.simps)

text \<open>An invariant that does not read the fault list is kept by a call that keeps it.\<close>

definition fault_blind :: "(world \<Rightarrow> bool) \<Rightarrow> bool" where
  "fault_blind P \<longleftrightarrow> (\<forall>w fs. P (w\<lparr>faults := fs\<rparr>) = P w)"

lemma fault_blindD [simp]: "fault_blind P \<Longrightarrow> P (w\<lparr>faults := fs\<rparr>) = P w"
  by (simp add: fault_blind_def)

lemma preserves_external [preserves_rules]:
  assumes "fault_blind P" and "preserves P f"
  shows "preserves P (external e f)"
proof (rule preservesI)
  fix w assume "P w"
  then have P: "P (w\<lparr>faults := fs\<rparr>)" for fs using assms(1) by simp
  show "P (snd (external e f w))"
    using \<open>P w\<close> P assms(2)
    by (auto simp: external.simps preserves_def split: list.splits fault.splits)
qed

section \<open>Database calls\<close>

definition db_read :: "(database \<Rightarrow> 'a) \<Rightarrow> 'a io" where
  "db_read f = external (DbError DbConn) (\<lambda>w. (Inr (f (db w)), w))"

definition db_write :: "(database \<Rightarrow> db_error + database) \<Rightarrow> unit io" where
  "db_write f = external (DbError DbConn)
     (\<lambda>w. case f (db w) of Inl e \<Rightarrow> (Inl (DbError e), w) | Inr d \<Rightarrow> (Inr (), w\<lparr>db := d\<rparr>))"

text \<open>
  \<open>transaction m\<close> is \<^verbatim>\<open>db.begin()\<close>, the body, \<^verbatim>\<open>commit()\<close>: an error of the body drops the
  transaction, which undoes its writes; so does a commit that does not happen.
\<close>

definition commit :: "database \<Rightarrow> unit io" where
  "commit d0 w =
     (case faults w of
        [] \<Rightarrow> (Inr (), w)
      | Answered # fs \<Rightarrow> (Inr (), w\<lparr>faults := fs\<rparr>)
      | Not_done # fs \<Rightarrow> (Inl (DbError DbConn), w\<lparr>faults := fs, db := d0\<rparr>)
      | Answer_lost # fs \<Rightarrow> (Inl (DbError DbConn), w\<lparr>faults := fs\<rparr>))"

definition begin_txn :: "unit io" where
  "begin_txn = external (DbError DbConn) (\<lambda>w. (Inr (), w))"

definition transaction ::
  "(failure \<Rightarrow> 'e) \<Rightarrow> (world, 'e, 'a) action \<Rightarrow> (world, 'e, 'a) action" where
  "transaction lift_err m w =
     (case begin_txn w of
        (Inl e, w1) \<Rightarrow> (Inl (lift_err e), w1)
      | (Inr _, w1) \<Rightarrow>
          (case m w1 of
             (Inl e, w2) \<Rightarrow> (Inl e, w2\<lparr>db := db w1\<rparr>)
           | (Inr x, w2) \<Rightarrow>
               (case commit (db w1) w2 of
                  (Inl e, w3) \<Rightarrow> (Inl (lift_err e), w3)
                | (Inr _, w3) \<Rightarrow> (Inr x, w3))))"

lemma db_read_ok [simp]: "faults w = [] \<Longrightarrow> db_read f w = (Inr (f (db w)), w)"
  by (simp add: db_read_def)

lemma db_write_ok [simp]:
  "faults w = [] \<Longrightarrow> db_write f w =
     (case f (db w) of Inl e \<Rightarrow> (Inl (DbError e), w) | Inr d \<Rightarrow> (Inr (), w\<lparr>db := d\<rparr>))"
  by (simp add: db_write_def)

lemma db_read_Inr: "db_read f w = (Inr x, w') \<Longrightarrow> x = f (db w)"
  by (auto simp: db_read_def external.simps split: list.splits fault.splits)

lemma preserves_db_read [preserves_rules]: "fault_blind P \<Longrightarrow> preserves P (db_read f)"
  unfolding db_read_def by (intro preserves_external) (auto simp: preserves_def)

lemma preserves_db_write:
  assumes "fault_blind P" and "\<And>w d. P w \<Longrightarrow> f (db w) = Inr d \<Longrightarrow> P (w\<lparr>db := d\<rparr>)"
  shows "preserves P (db_write f)"
  unfolding db_write_def
  using assms by (intro preserves_external) (auto simp: preserves_def split: sum.splits)

lemma begin_txn_ok [simp]: "faults w = [] \<Longrightarrow> begin_txn w = (Inr (), w)"
  by (simp add: begin_txn_def)

lemma commit_ok [simp]: "faults w = [] \<Longrightarrow> commit d w = (Inr (), w)"
  by (simp add: commit_def)

text \<open>A transaction that does not end in \<open>Ok\<close> leaves the database as it was, up to a commit
  whose answer was lost.\<close>

lemma transaction_Inl_body:
  "begin_txn w = (Inr u, w1) \<Longrightarrow> m w1 = (Inl e, w2)
     \<Longrightarrow> transaction lift_err m w = (Inl e, w2\<lparr>db := db w1\<rparr>)"
  by (simp add: transaction_def)

lemma db_begin_txn [simp]: "db (snd (begin_txn w)) = db w"
  by (simp add: begin_txn_def external.simps split: list.splits fault.splits)

section \<open>Valkey calls\<close>

definition kv_live :: "world \<Rightarrow> string \<Rightarrow> kv_value option" where
  "kv_live w k =
     (case map_of (kv w) k of
        None \<Rightarrow> None
      | Some (v, None) \<Rightarrow> Some v
      | Some (v, Some t) \<Rightarrow> if clock w < t then Some v else None)"

definition kv_put :: "string \<Rightarrow> kv_value \<Rightarrow> time option \<Rightarrow> world \<Rightarrow> world" where
  "kv_put k v t w = w\<lparr>kv := AList.update k (v, t) (kv w)\<rparr>"

definition kv_drop :: "string \<Rightarrow> world \<Rightarrow> world" where
  "kv_drop k w = w\<lparr>kv := AList.delete k (kv w)\<rparr>"

definition get_conn :: "unit io" where
  "get_conn = external RedisError (\<lambda>w. (Inr (), w))"

definition kv_get :: "string \<Rightarrow> kv_value option io" where
  "kv_get k = external RedisError (\<lambda>w. (Inr (kv_live w k), w))"

text \<open>\<open>conn.get::<Option<u64>>\<close>: a value that is no \<open>u64\<close> is an error.\<close>

definition to_u64 :: "int \<Rightarrow> 64 word option" where
  "to_u64 i = (if 0 \<le> i \<and> i < 2 ^ 64 then Some (word_of_int i) else None)"

definition kv_get_u64 :: "string \<Rightarrow> 64 word option io" where
  "kv_get_u64 k = external RedisError
     (\<lambda>w. case kv_live w k of
            None \<Rightarrow> (Inr None, w)
          | Some v \<Rightarrow>
              (case Option.bind (as_integer v) to_u64 of
                 None \<Rightarrow> (Inl RedisError, w)
               | Some n \<Rightarrow> (Inr (Some n), w)))"

text \<open>\<open>SET key value EX ttl\<close>, which Valkey refuses for a \<open>ttl\<close> of zero.\<close>

definition kv_set_ex :: "string \<Rightarrow> kv_value \<Rightarrow> nat \<Rightarrow> unit io" where
  "kv_set_ex k v ttl = external RedisError
     (\<lambda>w. if ttl = 0 then (Inl RedisError, w)
          else (Inr (), kv_put k v (Some (clock w + secs (int ttl))) w))"

definition kv_set_nx_ex :: "string \<Rightarrow> kv_value \<Rightarrow> nat \<Rightarrow> bool io" where
  "kv_set_nx_ex k v ttl = external RedisError
     (\<lambda>w. if ttl = 0 then (Inl RedisError, w)
          else if kv_live w k \<noteq> None then (Inr False, w)
          else (Inr True, kv_put k v (Some (clock w + secs (int ttl))) w))"

definition kv_del :: "string \<Rightarrow> unit io" where
  "kv_del k = external RedisError (\<lambda>w. (Inr (), kv_drop k w))"

definition kv_del_all :: "string list \<Rightarrow> unit io" where
  "kv_del_all ks = external RedisError (\<lambda>w. (Inr (), fold kv_drop ks w))"

definition kv_keys :: "string \<Rightarrow> string list io" where
  "kv_keys p = external RedisError
     (\<lambda>w. (Inr (filter (\<lambda>k. prefix p k \<and> kv_live w k \<noteq> None) (map fst (kv w))), w))"

definition kv_exists :: "string \<Rightarrow> bool io" where
  "kv_exists k = external RedisError (\<lambda>w. (Inr (kv_live w k \<noteq> None), w))"

text \<open>
  \<open>INCRBY\<close> works on a signed 64-bit integer, starts from zero when the key is missing or has
  expired, and keeps the expiry of a key that is there.
\<close>

definition kv_expiry :: "world \<Rightarrow> string \<Rightarrow> time option" where
  "kv_expiry w k = (if kv_live w k = None then None else Option.bind (map_of (kv w) k) snd)"

definition incr_value :: "int \<Rightarrow> kv_value option \<Rightarrow> int option" where
  "incr_value n v =
     (case v of None \<Rightarrow> Some n | Some x \<Rightarrow> map_option (\<lambda>i. i + n) (as_integer x))"

definition kv_incr :: "string \<Rightarrow> int \<Rightarrow> int io" where
  "kv_incr k n = external RedisError
     (\<lambda>w. case incr_value n (kv_live w k) of
            None \<Rightarrow> (Inl RedisError, w)
          | Some i \<Rightarrow>
              if - (2 ^ 63) \<le> i \<and> i < 2 ^ 63
              then (Inr i, kv_put k (KInt i) (kv_expiry w k) w)
              else (Inl RedisError, w))"

definition kv_expire :: "string \<Rightarrow> int \<Rightarrow> unit io" where
  "kv_expire k s = external RedisError
     (\<lambda>w. case kv_live w k of
            None \<Rightarrow> (Inr (), w)
          | Some v \<Rightarrow> (Inr (), if s \<le> 0 then kv_drop k w
                              else kv_put k v (Some (clock w + secs s)) w))"

lemmas kv_defs = get_conn_def kv_get_def kv_get_u64_def kv_set_ex_def kv_set_nx_ex_def kv_del_def
  kv_del_all_def kv_keys_def kv_exists_def kv_incr_def kv_expire_def

section \<open>Queues, events and objects\<close>

definition push_video_job :: "video_process_job \<Rightarrow> unit io" where
  "push_video_job j =
     bindE get_conn (\<lambda>_. external RedisError
       (\<lambda>w. (Inr (), w\<lparr>video_queue := j # video_queue w\<rparr>)))"

definition pop_video_job :: "video_process_job option io" where
  "pop_video_job =
     bindE get_conn (\<lambda>_. external RedisError
       (\<lambda>w. if video_queue w = [] then (Inr None, w)
            else (Inr (Some (last (video_queue w))),
                  w\<lparr>video_queue := butlast (video_queue w)\<rparr>)))"

definition publish_video_status_event :: "uuid \<Rightarrow> json \<Rightarrow> unit io" where
  "publish_video_status_event u payload =
     bindE get_conn (\<lambda>_. external RedisError
       (\<lambda>w. (Inr (), w\<lparr>published := published w @ [(u, payload)]\<rparr>)))"

definition delete_file :: "string \<Rightarrow> string \<Rightarrow> unit io" where
  "delete_file bucket key = external StorageError
     (\<lambda>w. (Inr (), w\<lparr>objects := (objects w)((bucket, key) := None)\<rparr>))"

text \<open>
  \<open>download_file\<close> writes the object to a local path and \<open>upload_file\<close> stores a local file as
  an object; either fails when its source is not there.
\<close>

definition download_file :: "string \<Rightarrow> string \<Rightarrow> string \<Rightarrow> unit io" where
  "download_file bucket key dest = external StorageError
     (\<lambda>w. case objects w (bucket, key) of
            None \<Rightarrow> (Inl StorageError, w)
          | Some ob \<Rightarrow> (Inr (), w\<lparr>local_files := (local_files w)(dest := Some ob)\<rparr>))"

definition upload_file :: "string \<Rightarrow> string \<Rightarrow> string \<Rightarrow> unit io" where
  "upload_file bucket key src = external StorageError
     (\<lambda>w. case local_files w src of
            None \<Rightarrow> (Inl StorageError, w)
          | Some ob \<Rightarrow> (Inr (), w\<lparr>objects := (objects w)((bucket, key) := Some ob)\<rparr>))"

definition file_exists :: "string \<Rightarrow> string \<Rightarrow> bool io" where
  "file_exists bucket key = external StorageError
     (\<lambda>w. (Inr (objects w (bucket, key) \<noteq> None), w))"

definition get_file_size :: "string \<Rightarrow> string \<Rightarrow> nat io" where
  "get_file_size bucket key = external StorageError
     (\<lambda>w. (case objects w (bucket, key) of
             None \<Rightarrow> Inl StorageError | Some ob \<Rightarrow> Inr (so_size ob), w))"

definition read_prefix :: "string \<Rightarrow> string \<Rightarrow> nat \<Rightarrow> string io" where
  "read_prefix bucket key n =
     (if n = 0 then returnOk []
      else external StorageError
        (\<lambda>w. (case objects w (bucket, key) of
                None \<Rightarrow> Inl StorageError | Some ob \<Rightarrow> Inr (take n (so_head ob)), w)))"

section \<open>Random values\<close>

definition new_v4 :: "(world, 'e, uuid) action" where
  "new_v4 w = (Inr (uuid_src w (drawn w)), w\<lparr>drawn := Suc (drawn w)\<rparr>)"

definition draw_secret :: "(world, 'e, string) action" where
  "draw_secret w = (Inr (secret_src w (drawn w)), w\<lparr>drawn := Suc (drawn w)\<rparr>)"

section \<open>Frames and evaluation rules of the calls\<close>

lemma kv_ok [simp]:
  assumes "faults w = []"
  shows "get_conn w = (Inr (), w)"
    and "kv_get k w = (Inr (kv_live w k), w)"
    and "kv_del k w = (Inr (), kv_drop k w)"
    and "kv_exists k w = (Inr (kv_live w k \<noteq> None), w)"
  using assms by (simp_all add: kv_defs)

lemma kv_set_ex_ok [simp]:
  "faults w = [] \<Longrightarrow> 0 < ttl
     \<Longrightarrow> kv_set_ex k v ttl w = (Inr (), kv_put k v (Some (clock w + secs (int ttl))) w)"
  by (simp add: kv_set_ex_def)

lemma world_kv_put [simp]:
  "clock (kv_put k v t w) = clock w" "db (kv_put k v t w) = db w"
  "faults (kv_put k v t w) = faults w" "objects (kv_put k v t w) = objects w"
  "video_queue (kv_put k v t w) = video_queue w" "published (kv_put k v t w) = published w"
  "drawn (kv_put k v t w) = drawn w" "uuid_src (kv_put k v t w) = uuid_src w"
  "secret_src (kv_put k v t w) = secret_src w" "bulk_queue (kv_put k v t w) = bulk_queue w"
  "local_files (kv_put k v t w) = local_files w"
  by (simp_all add: kv_put_def)

lemma world_kv_drop [simp]:
  "clock (kv_drop k w) = clock w" "db (kv_drop k w) = db w"
  "faults (kv_drop k w) = faults w" "objects (kv_drop k w) = objects w"
  "video_queue (kv_drop k w) = video_queue w" "published (kv_drop k w) = published w"
  "drawn (kv_drop k w) = drawn w" "uuid_src (kv_drop k w) = uuid_src w"
  "secret_src (kv_drop k w) = secret_src w" "bulk_queue (kv_drop k w) = bulk_queue w"
  "local_files (kv_drop k w) = local_files w"
  by (simp_all add: kv_drop_def)

lemma world_fold_kv_drop [simp]:
  "clock (fold kv_drop ks w) = clock w" "db (fold kv_drop ks w) = db w"
  "faults (fold kv_drop ks w) = faults w" "objects (fold kv_drop ks w) = objects w"
  "video_queue (fold kv_drop ks w) = video_queue w" "published (fold kv_drop ks w) = published w"
  "drawn (fold kv_drop ks w) = drawn w" "uuid_src (fold kv_drop ks w) = uuid_src w"
  "secret_src (fold kv_drop ks w) = secret_src w" "bulk_queue (fold kv_drop ks w) = bulk_queue w"
  "local_files (fold kv_drop ks w) = local_files w"
  by (induction ks arbitrary: w) simp_all

lemma kv_live_put:
  "kv_live (kv_put k v t w) k' =
     (if k' = k then (case t of None \<Rightarrow> Some v | Some e \<Rightarrow> if clock w < e then Some v else None)
      else kv_live w k')"
  by (auto simp: kv_live_def kv_put_def update_conv' split: option.splits)

lemma kv_live_put_fresh [simp]:
  "0 < s \<Longrightarrow> kv_live (kv_put k v (Some (clock w + secs s)) w) k = Some v"
  by (simp add: kv_live_put secs_def nanos_per_sec_def)

lemma kv_live_put_other [simp]: "k' \<noteq> k \<Longrightarrow> kv_live (kv_put k v t w) k' = kv_live w k'"
  by (simp add: kv_live_put)

lemma kv_live_drop [simp]:
  "kv_live (kv_drop k w) k' = (if k' = k then None else kv_live w k')"
  by (cases "map_of (kv w) k'") (auto simp: kv_live_def kv_drop_def delete_conv' split: option.splits)

lemma kv_live_fold_drop [simp]:
  "kv_live (fold kv_drop ks w) k = (if k \<in> set ks then None else kv_live w k)"
  by (induction ks arbitrary: w) simp_all

lemma kv_live_cong: "kv w = kv w' \<Longrightarrow> clock w = clock w' \<Longrightarrow> kv_live w = kv_live w'"
  by (rule ext) (simp add: kv_live_def split: option.splits prod.splits)

lemma kv_live_faults [simp]: "kv_live (w\<lparr>faults := fs\<rparr>) = kv_live w"
  by (rule kv_live_cong) simp_all

lemma kv_live_db [simp]: "kv_live (w\<lparr>db := d\<rparr>) = kv_live w"
  by (rule kv_live_cong) simp_all

lemma kv_live_drawn [simp]: "kv_live (w\<lparr>drawn := n\<rparr>) = kv_live w"
  by (rule kv_live_cong) simp_all

text \<open>Calls to one service leave the others alone, whatever the outcome.\<close>

lemma keeps_external:
  "(\<And>w fs. g (w\<lparr>faults := fs\<rparr>) = g w) \<Longrightarrow> (\<And>w. g (snd (f w)) = g w) \<Longrightarrow> keeps g (external e f)"
  by (auto simp: keeps_def external.simps split: list.splits fault.splits)

lemma keeps_db_calls [keeps_rules]:
  "keeps db get_conn" "keeps db (kv_get k)" "keeps db (kv_get_u64 k)" "keeps db (kv_set_ex k v t)"
  "keeps db (kv_set_nx_ex k v t)" "keeps db (kv_del k)" "keeps db (kv_del_all ks)"
  "keeps db (kv_keys p)" "keeps db (kv_exists k)" "keeps db (kv_incr k n)" "keeps db (kv_expire k s)"
  "keeps db (db_read f)" "keeps db (delete_file b k)" "keeps db (file_exists b k)"
  "keeps db (get_file_size b k)" "keeps db (download_file b k p)" "keeps db (upload_file b k p)"
  unfolding kv_defs db_read_def delete_file_def file_exists_def get_file_size_def
    download_file_def upload_file_def
  by (rule keeps_external; simp split: option.split)+

lemma keeps_db_queue [keeps_rules]:
  "keeps db (push_video_job j)" "keeps db pop_video_job"
  "keeps db (publish_video_status_event u p)" "keeps db (read_prefix b k n)"
  unfolding push_video_job_def pop_video_job_def publish_video_status_event_def read_prefix_def
  by (intro keeps_rules keeps_external; simp)+

lemma keeps_db_draws [keeps_rules]: "keeps db new_v4" "keeps db draw_secret"
  by (simp_all add: keeps_def new_v4_def draw_secret_def)

lemma keeps_clock_calls [keeps_rules]:
  "keeps clock get_conn" "keeps clock (kv_get k)" "keeps clock (kv_get_u64 k)"
  "keeps clock (kv_set_ex k v t)" "keeps clock (kv_set_nx_ex k v t)" "keeps clock (kv_del k)"
  "keeps clock (kv_del_all ks)" "keeps clock (kv_keys p)" "keeps clock (kv_exists k)"
  "keeps clock (kv_incr k n)" "keeps clock (kv_expire k s)" "keeps clock (db_read f)"
  "keeps clock (db_write g)"
  unfolding kv_defs db_read_def db_write_def
  by (rule keeps_external; simp split: option.split sum.split)+

lemma keeps_kv_calls [keeps_rules]:
  "keeps kv get_conn" "keeps kv (kv_get k)" "keeps kv (kv_get_u64 k)" "keeps kv (kv_keys p)"
  "keeps kv (kv_exists k)" "keeps kv (db_read f)" "keeps kv (db_write g)"
  "keeps kv (delete_file b k')" "keeps kv (file_exists b k')" "keeps kv (get_file_size b k')"
  "keeps kv (download_file b k' p)" "keeps kv (upload_file b k' p)"
  unfolding kv_defs db_read_def db_write_def delete_file_def file_exists_def get_file_size_def
    download_file_def upload_file_def
  by (rule keeps_external; simp split: option.split sum.split)+

text \<open>A run that starts with an exhausted list of faults ends with one.\<close>

lemma keeps_faults_external:
  "(\<And>w. faults (snd (f w)) = faults w) \<Longrightarrow> preserves (\<lambda>w. faults w = []) (external e f)"
  by (auto simp: preserves_def external.simps split: list.splits fault.splits)

lemma no_faults_calls [preserves_rules]:
  "preserves (\<lambda>w. faults w = []) get_conn" "preserves (\<lambda>w. faults w = []) (kv_get k)"
  "preserves (\<lambda>w. faults w = []) (kv_get_u64 k)" "preserves (\<lambda>w. faults w = []) (kv_set_ex k v t)"
  "preserves (\<lambda>w. faults w = []) (kv_set_nx_ex k v t)" "preserves (\<lambda>w. faults w = []) (kv_del k)"
  "preserves (\<lambda>w. faults w = []) (kv_del_all ks)" "preserves (\<lambda>w. faults w = []) (kv_keys p)"
  "preserves (\<lambda>w. faults w = []) (kv_exists k)" "preserves (\<lambda>w. faults w = []) (kv_incr k n)"
  "preserves (\<lambda>w. faults w = []) (kv_expire k s)" "preserves (\<lambda>w. faults w = []) (db_read g)"
  "preserves (\<lambda>w. faults w = []) (db_write h)" "preserves (\<lambda>w. faults w = []) (delete_file b k)"
  "preserves (\<lambda>w. faults w = []) (file_exists b k)" "preserves (\<lambda>w. faults w = []) (get_file_size b k)"
  "preserves (\<lambda>w. faults w = []) (download_file b k p)" "preserves (\<lambda>w. faults w = []) (upload_file b k p)"
  unfolding kv_defs db_read_def db_write_def delete_file_def file_exists_def get_file_size_def
    download_file_def upload_file_def
  by (rule keeps_faults_external; simp split: option.split sum.split)+

lemma no_faults_queue [preserves_rules]:
  "preserves (\<lambda>w. faults w = []) (push_video_job j)" "preserves (\<lambda>w. faults w = []) pop_video_job"
  "preserves (\<lambda>w. faults w = []) (publish_video_status_event u p)"
  "preserves (\<lambda>w. faults w = []) (read_prefix b k n)"
  unfolding push_video_job_def pop_video_job_def publish_video_status_event_def read_prefix_def
  by (intro preserves_rules keeps_faults_external; simp)+

lemma no_faults_draws [preserves_rules]:
  "preserves (\<lambda>w. faults w = []) new_v4" "preserves (\<lambda>w. faults w = []) draw_secret"
  by (simp_all add: preserves_def new_v4_def draw_secret_def)

text \<open>Writes that leave a part of the database alone.\<close>

lemma keeps_db_write:
  "(\<And>d d'. h d = Inr d' \<Longrightarrow> g d' = g d) \<Longrightarrow> keeps (\<lambda>w. g (db w)) (db_write h)"
  unfolding db_write_def by (rule keeps_external) (auto split: sum.split)

lemma keeps_db_part: "keeps db m \<Longrightarrow> keeps (\<lambda>w. g (db w)) m"
  by (simp add: keeps_def)

end
