(* ===== verification/Ip.thy ===== *)
theory Ip
  imports Text
begin

text \<open>
  \<open>std::net::IpAddr\<close> as the code uses it: addresses of both families, the standard
  library's strict parser (\<^verbatim>\<open>FromStr\<close>: four decimal octets without leading zeros, or eight
  hexadecimal groups with one \<^verbatim>\<open>::\<close> and an optional embedded IPv4 tail) and its canonical
  form (\<^verbatim>\<open>Display\<close>), which the services use as cache keys and stored targets.
\<close>

datatype ip_addr = V4 "32 word" | V6 "128 word"

fun is_ipv4 :: "ip_addr \<Rightarrow> bool" where
  "is_ipv4 (V4 _) = True"
| "is_ipv4 (V6 _) = False"

section \<open>Digits in a base\<close>

definition hex_val :: "char \<Rightarrow> nat option" where
  "hex_val c =
     (if is_ascii_digit c then Some (byte c - 48)
      else if 97 \<le> byte c \<and> byte c \<le> 102 then Some (byte c - 87)
      else if 65 \<le> byte c \<and> byte c \<le> 70 then Some (byte c - 55)
      else None)"

definition dec_val :: "char \<Rightarrow> nat option" where
  "dec_val c = (if is_ascii_digit c then Some (byte c - 48) else None)"

definition hex_digit :: "nat \<Rightarrow> char" where
  "hex_digit n = char_of (if n mod 16 < 10 then 48 + n mod 16 else 87 + n mod 16)"

fun show_hex :: "nat \<Rightarrow> string" where
  "show_hex n = (if n < 16 then [hex_digit n] else show_hex (n div 16) @ [hex_digit n])"

declare show_hex.simps [simp del]

section \<open>Parser\<close>

text \<open>
  A parser takes the rest of the input and gives the value read with what is left.
  \<open>read_digits\<close> is the digit loop of \<open>read_number\<close>: it stops at the first other character.
\<close>

fun read_digits :: "(char \<Rightarrow> nat option) \<Rightarrow> nat \<Rightarrow> string \<Rightarrow> nat \<times> nat \<times> string" where
  "read_digits val base [] = (0, 0, [])"
| "read_digits val base (c # cs) =
     (case val c of
        None \<Rightarrow> (0, 0, c # cs)
      | Some d \<Rightarrow>
          (case read_digits val base cs of (n, k, r) \<Rightarrow> (d * base ^ k + n, Suc k, r)))"

definition read_number ::
  "(char \<Rightarrow> nat option) \<Rightarrow> nat \<Rightarrow> nat \<Rightarrow> bool \<Rightarrow> nat \<Rightarrow> string \<Rightarrow> (nat \<times> string) option" where
  "read_number val base max_digits zero_prefix bound s =
     (case read_digits val base s of (n, k, r) \<Rightarrow>
        if k = 0 \<or> max_digits < k \<or> bound \<le> n
           \<or> (\<not> zero_prefix \<and> 1 < k \<and> hd s = CHR ''0'') then None
        else Some (n, r))"

definition read_char :: "char \<Rightarrow> string \<Rightarrow> string option" where
  "read_char c s = (case s of d # r \<Rightarrow> if d = c then Some r else None | [] \<Rightarrow> None)"

definition read_octet :: "string \<Rightarrow> (nat \<times> string) option" where
  "read_octet = read_number dec_val 10 3 False 256"

fun read_octets :: "nat \<Rightarrow> string \<Rightarrow> (nat list \<times> string) option" where
  "read_octets 0 s = Some ([], s)"
| "read_octets (Suc n) s =
     (case read_octet s of
        None \<Rightarrow> None
      | Some (x, r) \<Rightarrow>
          if n = 0 then Some ([x], r)
          else (case read_char (CHR ''.'') r of
                  None \<Rightarrow> None
                | Some r' \<Rightarrow>
                    (case read_octets n r' of
                       None \<Rightarrow> None | Some (xs, r'') \<Rightarrow> Some (x # xs, r''))))"

definition from_digits :: "nat \<Rightarrow> nat list \<Rightarrow> nat" where
  "from_digits b xs = foldl (\<lambda>a x. a * b + x) 0 xs"

definition read_separator :: "nat \<Rightarrow> string \<Rightarrow> string option" where
  "read_separator i s = (if i = 0 then Some s else read_char (CHR '':'') s)"

definition read_group :: "nat \<Rightarrow> string \<Rightarrow> (nat \<times> string) option" where
  "read_group i s = Option.bind (read_separator i s) (read_number hex_val 16 4 True 65536)"

text \<open>
  \<open>read_groups limit i s\<close> reads the groups from index \<open>i\<close> on; the flag tells that the last
  two came from an embedded IPv4 address.
\<close>

function read_groups :: "nat \<Rightarrow> nat \<Rightarrow> string \<Rightarrow> nat list \<times> bool \<times> string" where
  "read_groups limit i s =
     (if limit \<le> i then ([], False, s)
      else
        (case (if i < limit - 1
               then Option.bind (read_separator i s) (read_octets 4) else None) of
           Some (xs, r) \<Rightarrow>
             ([xs ! 0 * 256 + xs ! 1, xs ! 2 * 256 + xs ! 3], True, r)
         | None \<Rightarrow>
             (case read_group i s of
                None \<Rightarrow> ([], False, s)
              | Some (g, r) \<Rightarrow>
                  (case read_groups limit (Suc i) r of (gs, v4, r') \<Rightarrow> (g # gs, v4, r')))))"
  by pat_completeness auto
termination
  by (relation "measure (\<lambda>(limit, i, s). limit - i)") auto

declare read_groups.simps [simp del]

definition read_ipv6 :: "string \<Rightarrow> (nat list \<times> string) option" where
  "read_ipv6 s =
     (case read_groups 8 0 s of (hs, v4, r) \<Rightarrow>
        if length hs = 8 then Some (hs, r)
        else if v4 then None
        else
          (case Option.bind (read_char (CHR '':'') r) (read_char (CHR '':'')) of
             None \<Rightarrow> None
           | Some r' \<Rightarrow>
               (case read_groups (8 - (length hs + 1)) 0 r' of (ts, _, r'') \<Rightarrow>
                  Some (hs @ replicate (8 - length hs - length ts) 0 @ ts, r''))))"

definition parse_ipv4 :: "string \<Rightarrow> 32 word option" where
  "parse_ipv4 s =
     (if 15 < length s then None
      else case read_octets 4 s of
        Some (xs, []) \<Rightarrow> Some (of_nat (from_digits 256 xs))
      | _ \<Rightarrow> None)"

definition parse_ipv6 :: "string \<Rightarrow> 128 word option" where
  "parse_ipv6 s =
     (case read_ipv6 s of Some (xs, []) \<Rightarrow> Some (of_nat (from_digits 65536 xs)) | _ \<Rightarrow> None)"

definition parse_ip :: "string \<Rightarrow> ip_addr option" where
  "parse_ip s =
     (case parse_ipv4 s of
        Some a \<Rightarrow> Some (V4 a) | None \<Rightarrow> map_option V6 (parse_ipv6 s))"

section \<open>Canonical form\<close>

definition octets :: "32 word \<Rightarrow> nat list" where
  "octets a = (let n = unat a in [n div 2 ^ 24, n div 2 ^ 16 mod 256, n div 2 ^ 8 mod 256, n mod 256])"

definition segments :: "128 word \<Rightarrow> nat list" where
  "segments a = map (\<lambda>i. unat a div 65536 ^ i mod 65536) (rev [0..<8])"

definition show_ipv4 :: "32 word \<Rightarrow> string" where
  "show_ipv4 a = join_with ''.'' (map show_nat (octets a))"

text \<open>The first of the longest runs of zero segments, as start and length.\<close>

fun zero_run :: "nat list \<Rightarrow> nat \<Rightarrow> nat \<times> nat \<Rightarrow> nat \<times> nat \<Rightarrow> nat \<times> nat" where
  "zero_run [] i cur best = best"
| "zero_run (x # xs) i (st, len) best =
     (if x = 0 then
        (let cur = (if len = 0 then (i, 1) else (st, Suc len)) in
         zero_run xs (Suc i) cur (if snd best < snd cur then cur else best))
      else zero_run xs (Suc i) (0, 0) best)"

definition show_groups :: "nat list \<Rightarrow> string" where
  "show_groups xs = join_with '':'' (map show_hex xs)"

definition show_ipv6 :: "128 word \<Rightarrow> string" where
  "show_ipv6 a =
     (let xs = segments a in
      if take 6 xs = [0, 0, 0, 0, 0, 0xffff]
      then ''::ffff:'' @ show_ipv4 (ucast a)
      else (case zero_run xs 0 (0, 0) (0, 0) of (st, len) \<Rightarrow>
        if 1 < len
        then show_groups (take st xs) @ ''::'' @ show_groups (drop (st + len) xs)
        else show_groups xs))"

fun show_ip :: "ip_addr \<Rightarrow> string" where
  "show_ip (V4 a) = show_ipv4 a"
| "show_ip (V6 a) = show_ipv6 a"

section \<open>The parser inverts the canonical form of IPv4\<close>

lemma digits_val_Cons: "digits_val (c # s) = digit_val c * 10 ^ length s + digits_val s"
proof -
  have "foldl (\<lambda>a c. 10 * a + digit_val c) a s = a * 10 ^ length s + digits_val s" for a
  proof (induction s arbitrary: a)
    case (Cons d s)
    show ?case
      using Cons [of "10 * a + digit_val d"] Cons [of "digit_val d"]
      by (simp add: digits_val_def algebra_simps)
  qed (simp add: digits_val_def)
  from this [of "digit_val c"] show ?thesis by (simp add: digits_val_def)
qed

lemma read_digits_dec:
  assumes "list_all is_ascii_digit s" and "r = [] \<or> \<not> is_ascii_digit (hd r)"
  shows "read_digits dec_val 10 (s @ r) = (digits_val s, length s, r)"
  using assms
proof (induction s)
  case Nil
  then show ?case by (cases r) (auto simp: dec_val_def digits_val_def)
next
  case (Cons c s)
  then show ?case by (simp add: dec_val_def digits_val_Cons digit_val_def)
qed

lemma length_show_nat: "n < 10 ^ k \<Longrightarrow> 0 < k \<Longrightarrow> length (show_nat n) \<le> k"
proof (induction k arbitrary: n)
  case (Suc k)
  show ?case
  proof (cases "n < 10")
    case True
    then show ?thesis by (simp add: show_nat.simps [of n])
  next
    case False
    with Suc.prems have "0 < k" by (cases k) auto
    moreover have "n div 10 < 10 ^ k"
      using Suc.prems by (simp add: less_mult_imp_div_less mult.commute)
    ultimately show ?thesis
      using Suc.IH [of "n div 10"] False by (simp add: show_nat.simps [of n])
  qed
qed simp

lemma byte_zero [simp]: "byte (CHR ''0'') = 48"
  by (simp add: byte_def)

lemma hd_show_nat: "0 < n \<Longrightarrow> hd (show_nat n) \<noteq> CHR ''0''"
proof (induction n rule: show_nat.induct)
  case (1 n)
  show ?case
  proof (cases "n < 10")
    case True
    with 1(2) show ?thesis
      by (metis byte_digit_char byte_zero add_cancel_right_right list.sel(1) mod_less not_gr_zero show_nat.simps)
  next
    case False
    then have "hd (show_nat n) = hd (show_nat (n div 10))"
      by (simp add: show_nat.simps [of n])
    with 1(1) False show ?thesis by simp
  qed
qed

lemma read_octet_show_nat:
  assumes "n < 256" and "r = [] \<or> \<not> is_ascii_digit (hd r)"
  shows "read_octet (show_nat n @ r) = Some (n, r)"
proof -
  have "length (show_nat n) \<le> 3" using assms(1) by (intro length_show_nat) simp_all
  moreover have "hd (show_nat n) \<noteq> CHR ''0''" if "1 < length (show_nat n)"
  proof (rule hd_show_nat)
    show "0 < n" using that by (cases n) (auto simp: show_nat.simps [of 0])
  qed
  ultimately show ?thesis
    using assms read_digits_dec [OF show_nat_digits [of n] assms(2)]
    by (auto simp: read_octet_def read_number_def)
qed

lemma read_octets_show:
  "xs \<noteq> [] \<Longrightarrow> (\<And>x. x \<in> set xs \<Longrightarrow> x < 256)
     \<Longrightarrow> read_octets (length xs) (join_with ''.'' (map show_nat xs)) = Some (xs, [])"
proof (induction xs)
  case (Cons x xs)
  have dot: "\<not> is_ascii_digit (CHR ''.'')" by (simp add: is_ascii_digit_def byte_def)
  show ?case
  proof (cases xs)
    case Nil
    with Cons.prems read_octet_show_nat [of x "[]"] show ?thesis by simp
  next
    case (Cons y ys)
    let ?r = "join_with ''.'' (map show_nat xs)"
    have "read_octet (show_nat x @ CHR ''.'' # ?r) = Some (x, CHR ''.'' # ?r)"
      using Cons.prems(2) dot by (intro read_octet_show_nat) simp_all
    moreover have "read_octets (length xs) ?r = Some (xs, [])"
      using Cons Cons.IH Cons.prems(2) by simp
    ultimately show ?thesis
      using Cons by (simp add: read_char_def)
  qed
qed simp

lemma length_octets [simp]: "length (octets a) = 4"
  by (simp add: octets_def Let_def)

lemma unat_word32: "unat (a :: 32 word) < 2 ^ 32"
  using unsigned_less [of a, where ?'a = nat] by simp

lemma octets_bound: "x \<in> set (octets a) \<Longrightarrow> x < 256"
  using unat_word32 [of a]
  by (auto simp: octets_def Let_def less_mult_imp_div_less)

lemma from_digits_octets: "from_digits 256 (octets a) = unat a"
proof -
  let ?n = "unat a"
  have "?n = ?n div 256 * 256 + ?n mod 256" by simp
  moreover have "?n div 256 = ?n div 65536 * 256 + ?n div 256 mod 256"
    using div_mult_mod_eq [of "?n div 256" 256] by (simp add: div_mult2_eq [symmetric])
  moreover have "?n div 65536 = ?n div 16777216 * 256 + ?n div 65536 mod 256"
    using div_mult_mod_eq [of "?n div 65536" 256] by (simp add: div_mult2_eq [symmetric])
  ultimately show ?thesis
    by (simp add: from_digits_def octets_def Let_def)
qed

lemma length_show_ipv4: "length (show_ipv4 a) \<le> 15"
proof -
  have *: "length (show_nat x) \<le> 3" if "x \<in> set (octets a)" for x
    using octets_bound [OF that] by (intro length_show_nat) simp_all
  have "length (join_with ''.'' (map show_nat xs)) \<le> 4 * length xs - 1"
    if "xs \<noteq> []" "\<forall>x \<in> set xs. length (show_nat x) \<le> 3" for xs
    using that
  proof (induction xs)
    case (Cons x xs)
    then show ?case by (cases xs) auto
  qed simp
  from this [of "octets a"] * show ?thesis
    by (simp add: show_ipv4_def) (metis length_0_conv length_octets zero_neq_numeral)
qed

lemma parse_show_ipv4: "parse_ipv4 (show_ipv4 a) = Some a"
proof -
  have "octets a \<noteq> []" by (metis length_0_conv length_octets zero_neq_numeral)
  then have "read_octets (length (octets a)) (show_ipv4 a) = Some (octets a, [])"
    unfolding show_ipv4_def by (rule read_octets_show) (rule octets_bound)
  then show ?thesis
    using length_show_ipv4 [of a] by (simp add: parse_ipv4_def from_digits_octets)
qed

lemma show_ipv4_inject [simp]: "show_ipv4 a = show_ipv4 b \<longleftrightarrow> a = b"
  by (metis option.inject parse_show_ipv4)

end
