(* ===== verification/App.thy ===== *)
theory App
  imports World Ip
begin

text \<open>
  What every handler shares: the error responses of \<^verbatim>\<open>api/src/error.rs\<close>, the settings of
  \<^verbatim>\<open>shared/src/config.rs\<close> the modelled code reads, and the third-party code it calls
  (\<^verbatim>\<open>jsonwebtoken\<close>, \<^verbatim>\<open>argon2\<close>, \<^verbatim>\<open>sha2\<close>/\<^verbatim>\<open>base64\<close>, \<^verbatim>\<open>hex\<close>, \<^verbatim>\<open>ipnet\<close>, Google's
  OAuth endpoints) as the fields of a record of parameters, with the documented laws that
  some theorems assume of them.
\<close>

section \<open>Error responses\<close>

record api_error =
  ae_status :: nat
  ae_error :: string
  ae_details :: "string option"

definition api_error_new :: "nat \<Rightarrow> string \<Rightarrow> api_error" where
  "api_error_new status msg = \<lparr> ae_status = status, ae_error = msg, ae_details = None \<rparr>"

definition with_details :: "nat \<Rightarrow> string \<Rightarrow> string \<Rightarrow> api_error" where
  "with_details status msg d = \<lparr> ae_status = status, ae_error = msg, ae_details = Some d \<rparr>"

definition bad_request :: "string \<Rightarrow> api_error" where
  "bad_request msg = api_error_new 400 msg"

definition unauthorized :: "string \<Rightarrow> api_error" where
  "unauthorized msg = api_error_new 401 msg"

definition forbidden :: "string \<Rightarrow> api_error" where
  "forbidden msg = api_error_new 403 msg"

definition not_found :: "string \<Rightarrow> api_error" where
  "not_found msg = api_error_new 404 msg"

definition conflict :: "string \<Rightarrow> api_error" where
  "conflict msg = api_error_new 409 msg"

definition too_many_requests :: "string \<Rightarrow> api_error" where
  "too_many_requests msg = api_error_new 429 msg"

definition internal_error :: "string \<Rightarrow> api_error" where
  "internal_error msg = api_error_new 500 msg"

definition service_unavailable :: "string \<Rightarrow> api_error" where
  "service_unavailable msg = api_error_new 503 msg"

lemmas api_error_defs = api_error_new_def with_details_def bad_request_def unauthorized_def
  forbidden_def not_found_def conflict_def too_many_requests_def internal_error_def
  service_unavailable_def

text \<open>
  \<open>From<anyhow::Error>\<close> and \<open>From<DbErr>\<close> of a release build: whatever failed, the client
  sees a plain 500.
\<close>

definition from_failure :: "failure \<Rightarrow> api_error" where
  "from_failure e = internal_error ''Internal server error''"

type_synonym 'a api = "(world, api_error, 'a) action"

text \<open>\<open>callE m k\<close> is \<open>let x = m?; k(x)\<close> in a handler, \<open>callE\<close> converting the error.\<close>

definition callE :: "'a io \<Rightarrow> ('a \<Rightarrow> 'b api) \<Rightarrow> 'b api" where
  [action_defs]: "callE m k = bindErr from_failure m k"

lemma preserves_callE [preserves_rules]:
  "preserves P m \<Longrightarrow> (\<And>x. preserves P (k x)) \<Longrightarrow> preserves P (callE m k)"
  unfolding callE_def by (intro preserves_rules)

lemma keeps_callE [keeps_rules]: "keeps f m \<Longrightarrow> (\<And>x. keeps f (k x)) \<Longrightarrow> keeps f (callE m k)"
  unfolding callE_def by (intro keeps_rules)

section \<open>Settings\<close>

record localized_terms_document =
  ltd_language :: string
  ltd_version :: string
  ltd_url :: "string option"
  ltd_content_type :: "string option"
  ltd_content_sha256 :: "string option"
  ltd_content :: "string option"
  ltd_effective_at :: "string option"
  ltd_jurisdictions :: "string list"

record terms_frontmatter =
  tf_version :: "string option"
  tf_effective_at :: "string option"
  tf_jurisdictions :: "string list option"

record config =
  cf_environment :: string
  cf_require_cloudflare_headers :: bool
  cf_jwt_secret :: string
  cf_access_token_ttl_secs :: nat
  cf_refresh_token_ttl_days :: nat
  cf_terms_current_version :: string
  cf_read_only_mode_enabled :: bool
  cf_maintenance_mode_enabled :: bool
  cf_username_reserved_values :: string
  cf_oauth_redirect_base_url :: string
  cf_frontend_app_url :: string
  cf_mobile_app_scheme :: string
  cf_minio_bucket_videos :: string
  cf_minio_bucket_raw :: string
  cf_minio_public_endpoint :: string
  cf_max_file_size_bytes :: int
  cf_limit_upload_bytes_hourly :: int
  cf_upload_size_tolerance_bytes :: nat
  cf_min_video_size_bytes :: nat
  cf_feed_cache_ttl_secs :: nat
  cf_ip_rate_limit_rpm :: "64 word"
  cf_like_actions_rpm_limit :: "64 word"
  cf_like_actions_window_secs :: nat
  cf_username_signup_rpm_per_ip :: "64 word"
  cf_username_signup_attempts_per_ticket :: "64 word"
  cf_username_update_rpm_per_user :: "64 word"
  cf_report_create_rpm_per_user :: "64 word"
  cf_report_create_rpm_per_ip :: "64 word"
  cf_report_details_max_chars :: nat
  cf_report_reason_max_count :: nat
  cf_auto_quarantine_enabled :: bool
  cf_auto_quarantine_window_secs :: nat
  cf_auto_quarantine_severe_distinct_reporters :: nat
  cf_security_events_retention_days :: int
  cf_abuse_report_retention_days :: int
  cf_ban_user_cache_negative_ttl_secs :: nat
  cf_ban_user_cache_permanent_ttl_secs :: nat
  cf_ban_ip_cache_negative_ttl_secs :: nat
  cf_ban_ip_cache_permanent_ttl_secs :: nat
  cf_ban_ip_verdict_ttl_secs :: nat
  cf_extension_token_ttl_secs :: nat
  cf_keyboard_send_ticket_rpm :: "64 word"
  cf_keyboard_daily_send_cap :: nat
  cf_keyboard_nonce_ttl_secs :: nat
  cf_keyboard_ticket_ttl_secs :: nat
  cf_worker_retry_max_attempts :: "8 word"
  cf_worker_retry_backoff_base_secs :: "64 word"
  cf_admin_api_enabled :: bool
  cf_admin_jwt_issuer :: "string option"
  cf_admin_jwt_audience :: "string option"
  cf_admin_jwt_public_keys :: "(string \<times> string) list"
  cf_admin_jwt_max_ttl_secs :: nat
  cf_admin_jwt_clock_skew_secs :: nat
  cf_admin_replay_protection_enabled :: bool
  cf_admin_allowed_ip_cidrs :: string
  cf_ffmpeg_transcode_timeout_secs :: nat
  cf_ffmpeg_thumbnail_timeout_secs :: nat
  cf_presigned_url_expiry_secs :: nat
  cf_feed_page_size :: nat
  cf_limit_feed_rpm :: "64 word"
  cf_rate_limit_window_secs :: nat
  cf_read_only_status_rpm_per_user :: "64 word"
  cf_maintenance_status_rpm_per_user :: "64 word"
  cf_onboarding_status_rpm_per_user :: "64 word"
  cf_onboarding_complete_rpm_per_user :: "64 word"
  cf_search_max_tokens :: nat
  cf_search_max_token_length :: nat
  cf_search_max_query_chars :: nat
  cf_search_cache_ttl_secs :: nat
  cf_search_rpm_limit :: "64 word"
  cf_keyboard_search_rpm :: "64 word"
  cf_keyboard_search_max_limit :: nat
  cf_keyboard_media_url_ttl_secs :: nat
  cf_video_ws_enabled :: bool
  cf_video_ws_max_conn_per_user :: nat
  cf_video_ws_max_conn_global :: nat
  cf_video_ws_connect_rpm_per_ip :: "64 word"
  cf_video_ws_connect_rpm_per_user :: "64 word"
  cf_video_ws_send_buffer :: nat
  cf_video_ws_heartbeat_secs :: nat
  cf_cors_allowed_origins :: string
  cf_terms_default_language :: string
  cf_terms_documents :: "(string \<times> localized_terms_document) list"
  cf_terms_legal_contact_email :: "string option"
  cf_terms_abuse_contact_email :: "string option"
  cf_terms_bundle_content_sha256 :: string

section \<open>Third-party code\<close>

record google_user =
  gu_id :: string
  gu_email :: string
  gu_verified_email :: bool
  gu_name :: string
  gu_picture :: string

text \<open>
  The parameters: signing and decoding a JWT (decoding takes whether the expiry is checked
  and the time in seconds), reading a JWT's header (algorithm and key id) and decoding an EdDSA
  JWT (token, key, leeway, issuer, audience, time), hashing and checking a token with a salt, the code challenge of
  PKCE, the exchange of a Google code (with its PKCE verifier) for a profile, Google's
  authorization URL for a state and a verifier, hexadecimal text, the CIDR blocks of \<^verbatim>\<open>ipnet\<close>;
  presigned URLs (bucket, key, lifetime, time), full-text search and MD5 of the database,
  \<^verbatim>\<open>str::to_lowercase\<close> over Unicode, the text of a failure, JSON texts, \<^verbatim>\<open>f64\<close> parsing and
  rounding, UUIDs, SHA-256 in hexadecimal, the frontmatter of a text in YAML, the text of a JSON value,
  ZIP archives, and the programs the worker starts (the number of the run, program,
  arguments and the local files give what it did and the files it left).
\<close>

record command_output =
  co_success :: bool
  co_stdout :: string
  co_stderr :: string

datatype exec_result =
    ExecFinished command_output
  | ExecFailed string
  | ExecTimedOut

record libs =
  lib_jwt_sign :: "json \<Rightarrow> string \<Rightarrow> string option"
  lib_jwt_decode :: "bool \<Rightarrow> int \<Rightarrow> string \<Rightarrow> string \<Rightarrow> json option"
  lib_decode_header :: "string \<Rightarrow> (string \<times> string option) option"
  lib_ed_pem_ok :: "string \<Rightarrow> bool"
  lib_ed_decode :: "string \<Rightarrow> string \<Rightarrow> nat \<Rightarrow> string \<Rightarrow> string \<Rightarrow> int \<Rightarrow> json option"
  lib_argon2_hash :: "string \<Rightarrow> string \<Rightarrow> string option"
  lib_argon2_verify :: "string \<Rightarrow> string \<Rightarrow> bool"
  lib_challenge :: "string \<Rightarrow> string"
  lib_google :: "string \<Rightarrow> string option \<Rightarrow> google_user option"
  lib_auth_url :: "string \<Rightarrow> string option \<Rightarrow> string"
  lib_hex_encode :: "string \<Rightarrow> string"
  lib_ipnet_parse :: "string \<Rightarrow> (ip_addr \<times> nat) option"
  lib_ipnet_show :: "ip_addr \<times> nat \<Rightarrow> string"
  lib_ipnet_contains :: "ip_addr \<times> nat \<Rightarrow> ip_addr \<Rightarrow> bool"
  lib_presigned_get :: "string \<Rightarrow> string \<Rightarrow> nat \<Rightarrow> time \<Rightarrow> string option"
  lib_presigned_put :: "string \<Rightarrow> string \<Rightarrow> nat \<Rightarrow> time \<Rightarrow> string option"
  lib_fts_match :: "string \<Rightarrow> video \<Rightarrow> bool"
  lib_fts_rank :: "string \<Rightarrow> video \<Rightarrow> int"
  lib_md5 :: "string \<Rightarrow> string"
  lib_to_lowercase :: "string \<Rightarrow> string"
  lib_failure_text :: "failure \<Rightarrow> string"
  lib_json_parse :: "string \<Rightarrow> json option"
  lib_f64_round_i32 :: "string \<Rightarrow> int option"
  lib_parse_uuid :: "string \<Rightarrow> uuid option"
  lib_sha256_hex :: "string \<Rightarrow> string"
  lib_yaml_frontmatter :: "string \<Rightarrow> terms_frontmatter option"
  lib_json_text :: "json \<Rightarrow> string"
  lib_zip :: "json \<Rightarrow> (string \<times> stored_object) list \<Rightarrow> stored_object"
  lib_exec :: "nat \<Rightarrow> string \<Rightarrow> string list \<Rightarrow> files \<Rightarrow> exec_result \<times> files"

record app =
  ap_config :: config
  ap_libs :: libs

section \<open>A sample state\<close>

text \<open>Concrete rows and a concrete world on which the theorems are evaluated.\<close>

definition user0 :: user where
  "user0 = \<lparr> u_id = ''u1'', u_google_id = ''g1'', u_username = ''alice'',
     u_username_normalized = Some ''alice'', u_email = ''a@x'', u_avatar_url = None,
     u_username_updated_at = None, u_age_confirmed_at = Some 1, u_terms_accepted_at = Some 1,
     u_terms_accepted_version = Some ''v1'', u_deleted_at = None, u_created_at = 1,
     u_updated_at = 1 \<rparr>"

definition video0 :: video where
  "video0 = \<lparr> v_id = ''v1'', v_user_id = ''u1'', v_title = Some ''cat'', v_description = None,
     v_s3_bucket = ''videos'', v_s3_key = ''v1.mp4'', v_status = ''PUBLISHED'',
     v_size_bytes = 1000, v_duration_seconds = Some 5, v_like_count = 0,
     v_is_anonymous = False, v_is_nsfw = None, v_moderation_state = ''VISIBLE'',
     v_moderation_reason_code = None, v_moderation_updated_at = None,
     v_moderation_updated_by = None, v_moderation_source_report_id = None,
     v_processing_error_code = None, v_processing_error_message = None, v_failed_at = None,
     v_deleted_at = None, v_created_at = 1, v_updated_at = 1 \<rparr>"

definition world0 :: world where
  "world0 = \<lparr> clock = 1700000000000000000, db = empty_db, kv = [], video_queue = [],
     bulk_queue = [], published = [], objects = (\<lambda>_. None), local_files = (\<lambda>_. None), faults = [],
     uuid_src = (\<lambda>n. ''uuid-'' @ show_nat n), secret_src = (\<lambda>n. ''secret-'' @ show_nat n),
     drawn = 0 \<rparr>"

definition world1 :: world where
  "world1 = world0\<lparr> db := empty_db\<lparr> db_users := [user0], db_videos := [video0] \<rparr> \<rparr>"

definition libs0 :: libs where
  "libs0 = \<lparr> lib_jwt_sign = (\<lambda>p s. None), lib_jwt_decode = (\<lambda>e n t s. None),
     lib_decode_header = (\<lambda>t. None), lib_ed_pem_ok = (\<lambda>k. False),
     lib_ed_decode = (\<lambda>t k l i a n. None),
     lib_argon2_hash = (\<lambda>t s. Some (''h:'' @ t)), lib_argon2_verify = (\<lambda>t h. h = ''h:'' @ t),
     lib_challenge = (\<lambda>v. v), lib_google = (\<lambda>c v. None), lib_auth_url = (\<lambda>st v. ''http://google''), lib_hex_encode = (\<lambda>s. s),
     lib_ipnet_parse = (\<lambda>s. if s = ''0.0.0.0/0'' then Some (V4 0, 0) else None),
     lib_ipnet_show = (\<lambda>c. ''0.0.0.0/0''), lib_ipnet_contains = (\<lambda>c ip. is_ipv4 ip),
     lib_presigned_get = (\<lambda>b k n t. Some (''get:'' @ b @ ''/'' @ k)),
     lib_presigned_put = (\<lambda>b k n t. Some (''put:'' @ b @ ''/'' @ k)),
     lib_fts_match = (\<lambda>q v. False), lib_fts_rank = (\<lambda>q v. 0), lib_md5 = (\<lambda>s. s),
     lib_to_lowercase = to_ascii_lowercase, lib_failure_text = (\<lambda>f. ''failure''),
     lib_json_parse = (\<lambda>s. if s = ''probe'' then Some (JObj
        [(''streams'', JArr [JObj [(''codec_type'', JStr ''video'')]]),
         (''format'', JObj [(''duration'', JStr ''5.0'')])]) else None),
     lib_f64_round_i32 = (\<lambda>s. Some 5),
     lib_parse_uuid = (\<lambda>s. if s = [] then None else Some s), lib_sha256_hex = (\<lambda>s. s),
     lib_yaml_frontmatter = (\<lambda>s. Some \<lparr> tf_version = None, tf_effective_at = None, tf_jurisdictions = None \<rparr>),
     lib_json_text = (\<lambda>j. ''{}''),
     lib_zip = (\<lambda>m fs. \<lparr> so_size = 100 + sum_list (map (so_size \<circ> snd) fs), so_head = ''PK'' \<rparr>),
     lib_exec = (\<lambda>n p args fs.
       if p = ''ffprobe'' then (ExecFinished \<lparr> co_success = True, co_stdout = ''probe'', co_stderr = [] \<rparr>, fs)
       else (ExecFinished \<lparr> co_success = True, co_stdout = [], co_stderr = [] \<rparr>,
             fs(last args := Some \<lparr> so_size = 500, so_head = ''out'' \<rparr>))) \<rparr>"

definition config0 :: config where
  "config0 = \<lparr> cf_environment = ''test'', cf_require_cloudflare_headers = False,
     cf_jwt_secret = ''secret'', cf_access_token_ttl_secs = 900, cf_refresh_token_ttl_days = 30,
     cf_terms_current_version = ''v1'', cf_read_only_mode_enabled = False,
     cf_maintenance_mode_enabled = False, cf_username_reserved_values = ''admin'',
     cf_oauth_redirect_base_url = ''http://api'', cf_frontend_app_url = ''http://app'',
     cf_mobile_app_scheme = ''memegy://'', cf_minio_bucket_videos = ''videos'',
     cf_minio_bucket_raw = ''raw'', cf_minio_public_endpoint = ''http://cdn'',
     cf_max_file_size_bytes = 10000000, cf_limit_upload_bytes_hourly = 50000000,
     cf_upload_size_tolerance_bytes = 1024, cf_min_video_size_bytes = 100,
     cf_feed_cache_ttl_secs = 60, cf_ip_rate_limit_rpm = 100, cf_like_actions_rpm_limit = 60,
     cf_like_actions_window_secs = 60, cf_username_signup_rpm_per_ip = 10,
     cf_username_signup_attempts_per_ticket = 5, cf_username_update_rpm_per_user = 5,
     cf_report_create_rpm_per_user = 5, cf_report_create_rpm_per_ip = 10,
     cf_report_details_max_chars = 1000, cf_report_reason_max_count = 5,
     cf_auto_quarantine_enabled = True, cf_auto_quarantine_window_secs = 86400,
     cf_auto_quarantine_severe_distinct_reporters = 3, cf_security_events_retention_days = 90,
     cf_abuse_report_retention_days = 365, cf_ban_user_cache_negative_ttl_secs = 30,
     cf_ban_user_cache_permanent_ttl_secs = 86400, cf_ban_ip_cache_negative_ttl_secs = 30,
     cf_ban_ip_cache_permanent_ttl_secs = 86400, cf_ban_ip_verdict_ttl_secs = 30,
     cf_extension_token_ttl_secs = 3600, cf_keyboard_send_ticket_rpm = 30,
     cf_keyboard_daily_send_cap = 100, cf_keyboard_nonce_ttl_secs = 300,
     cf_keyboard_ticket_ttl_secs = 60, cf_worker_retry_max_attempts = 3,
     cf_worker_retry_backoff_base_secs = 2, cf_admin_api_enabled = True,
     cf_admin_jwt_issuer = Some ''iss'', cf_admin_jwt_audience = Some ''aud'',
     cf_admin_jwt_public_keys = [(''k1'', ''pem'')], cf_admin_jwt_max_ttl_secs = 300,
     cf_admin_jwt_clock_skew_secs = 60, cf_admin_replay_protection_enabled = True,
     cf_admin_allowed_ip_cidrs = [], cf_ffmpeg_transcode_timeout_secs = 300,
     cf_ffmpeg_thumbnail_timeout_secs = 30, cf_presigned_url_expiry_secs = 900,
     cf_feed_page_size = 20, cf_limit_feed_rpm = 60, cf_rate_limit_window_secs = 3600,
     cf_read_only_status_rpm_per_user = 60, cf_maintenance_status_rpm_per_user = 60,
     cf_onboarding_status_rpm_per_user = 60, cf_onboarding_complete_rpm_per_user = 10,
     cf_search_max_tokens = 10, cf_search_max_token_length = 50, cf_search_max_query_chars = 200,
     cf_search_cache_ttl_secs = 300, cf_search_rpm_limit = 30, cf_keyboard_search_rpm = 60,
     cf_keyboard_search_max_limit = 20, cf_keyboard_media_url_ttl_secs = 60,
     cf_video_ws_enabled = True, cf_video_ws_max_conn_per_user = 3,
     cf_video_ws_max_conn_global = 1000, cf_video_ws_connect_rpm_per_ip = 30,
     cf_video_ws_connect_rpm_per_user = 30, cf_video_ws_send_buffer = 64,
     cf_video_ws_heartbeat_secs = 30, cf_cors_allowed_origins = [], cf_terms_default_language = ''en'',
     cf_terms_documents = map (\<lambda>l. (l, \<lparr> ltd_language = l, ltd_version = ''v1'', ltd_url = None,
       ltd_content_type = Some ''text/markdown'', ltd_content_sha256 = Some ''d'', ltd_content = Some ''t'',
       ltd_effective_at = None, ltd_jurisdictions = [''US''] \<rparr>)) [''en'', ''tr''],
     cf_terms_legal_contact_email = None, cf_terms_abuse_contact_email = None,
     cf_terms_bundle_content_sha256 = ''d'' \<rparr>"

lemma world0_simps [simp]:
  "faults world0 = []" "db world0 = empty_db" "kv world0 = []" "drawn world0 = 0"
  "clock world0 = 1700000000000000000" "uuid_src world0 n = ''uuid-'' @ show_nat n"
  "secret_src world0 n = ''secret-'' @ show_nat n" "video_queue world0 = []"
  "published world0 = []" "objects world0 = (\<lambda>_. None)" "local_files world0 = (\<lambda>_. None)"
  "bulk_queue world0 = []"
  by (simp_all add: world0_def)

lemma world1_simps [simp]:
  "faults world1 = []" "db world1 = empty_db\<lparr> db_users := [user0], db_videos := [video0] \<rparr>"
  "kv world1 = []" "drawn world1 = 0" "clock world1 = 1700000000000000000"
  "uuid_src world1 n = ''uuid-'' @ show_nat n" "secret_src world1 n = ''secret-'' @ show_nat n"
  "video_queue world1 = []" "published world1 = []" "objects world1 = (\<lambda>_. None)"
  "local_files world1 = (\<lambda>_. None)" "bulk_queue world1 = []"
  by (simp_all add: world1_def)

lemma kv_live_empty [simp]: "kv w = [] \<Longrightarrow> kv_live w k = None"
  by (simp add: kv_live_def)

end
