(* ===== verification/Realtime.thy ===== *)
theory Realtime
  imports App "HOL-Library.AList"
begin

text \<open>
  The hub of websocket connections (\<^verbatim>\<open>api/src/realtime/hub.rs\<close>) with the task of each connection
  (\<^verbatim>\<open>handle_ws_connection\<close> in \<^verbatim>\<open>users/handlers.rs\<close>) and the subscriber that fans messages out
  (\<^verbatim>\<open>realtime/subscriber.rs\<close>). A fan-out locks the hub, sends outside the lock and locks again, and
  the other parties may act in between. Together they refine a simple picture: every connection is
  a subscriber that receives, in order and without a gap, what was published to its user since it
  joined, until it is lost.
\<close>

section \<open>The hub\<close>

datatype hub_register_error = GlobalLimitExceeded | PerUserLimitExceeded

text \<open>
  A connection and its bounded channel go by the same identifier; \<open>rh_queue\<close> is what the channel
  holds and \<open>rh_receiver\<close> says whether its receiver is still there.
\<close>

record connection_entry =
  ce_bootstrapping :: bool
  ce_pending :: "string list"

record realtime_hub =
  rh_users :: "(uuid \<times> (uuid \<times> connection_entry) list) list"
  rh_queue :: "uuid \<Rightarrow> string list"
  rh_receiver :: "uuid \<Rightarrow> bool"

record hub_limits =
  hl_max_conn_per_user :: nat
  hl_max_conn_global :: nat
  hl_send_buffer :: nat

definition hub_new :: realtime_hub where
  "hub_new = \<lparr> rh_users = [], rh_queue = (\<lambda>_. []), rh_receiver = (\<lambda>_. False) \<rparr>"

definition total_connections :: "(uuid \<times> (uuid \<times> connection_entry) list) list \<Rightarrow> nat" where
  "total_connections users = sum_list (map (length \<circ> snd) users)"

definition set_connections :: "uuid \<Rightarrow> (uuid \<times> connection_entry) list \<Rightarrow> realtime_hub \<Rightarrow> realtime_hub" where
  "set_connections u cs h = h\<lparr>rh_users := AList.update u cs (rh_users h)\<rparr>"

definition put_back :: "uuid \<Rightarrow> (uuid \<times> connection_entry) list \<Rightarrow> realtime_hub \<Rightarrow> realtime_hub" where
  "put_back u cs h =
     (if cs = [] then h\<lparr>rh_users := AList.delete u (rh_users h)\<rparr> else set_connections u cs h)"

definition connections_of :: "realtime_hub \<Rightarrow> uuid \<Rightarrow> (uuid \<times> connection_entry) list" where
  "connections_of h u = (case map_of (rh_users h) u of None \<Rightarrow> [] | Some cs \<Rightarrow> cs)"

text \<open>The entry of the user is made before the limit of the user is looked at.\<close>

definition register_connection ::
  "hub_limits \<Rightarrow> uuid \<Rightarrow> uuid \<Rightarrow> realtime_hub \<Rightarrow> (hub_register_error + uuid) \<times> realtime_hub" where
  "register_connection lim u c h =
     (if hl_max_conn_global lim \<le> total_connections (rh_users h) then (Inl GlobalLimitExceeded, h)
      else let cs = connections_of h u; h = set_connections u cs h in
        if hl_max_conn_per_user lim \<le> length cs then (Inl PerUserLimitExceeded, h)
        else (Inr c, (set_connections u (AList.update c \<lparr> ce_bootstrapping = True, ce_pending = [] \<rparr> cs) h)
                \<lparr>rh_queue := (rh_queue h)(c := []), rh_receiver := (rh_receiver h)(c := True)\<rparr>))"

definition mark_bootstrapped_and_take_pending ::
  "uuid \<Rightarrow> uuid \<Rightarrow> realtime_hub \<Rightarrow> string list \<times> realtime_hub" where
  "mark_bootstrapped_and_take_pending u c h =
     (case map_of (rh_users h) u of
        None \<Rightarrow> ([], h)
      | Some cs \<Rightarrow>
          (case map_of cs c of
             None \<Rightarrow> ([], h)
           | Some e \<Rightarrow> (ce_pending e,
               set_connections u (AList.update c \<lparr> ce_bootstrapping = False, ce_pending = [] \<rparr> cs) h)))"

definition remove_connection :: "uuid \<Rightarrow> uuid \<Rightarrow> realtime_hub \<Rightarrow> realtime_hub" where
  "remove_connection u c h =
     (case map_of (rh_users h) u of None \<Rightarrow> h | Some cs \<Rightarrow> put_back u (AList.delete c cs) h)"

text \<open>The first half of a fan-out: under the lock, connections that are still starting buffer the
  message or are dropped, and the channels of the others are taken down.\<close>

definition buffer_entry :: "nat \<Rightarrow> string \<Rightarrow> connection_entry \<Rightarrow> connection_entry option" where
  "buffer_entry n payload e =
     (if ce_bootstrapping e
      then if n \<le> length (ce_pending e) then None else Some (e\<lparr>ce_pending := ce_pending e @ [payload]\<rparr>)
      else Some e)"

definition fanout_lock :: "hub_limits \<Rightarrow> uuid \<Rightarrow> string \<Rightarrow> realtime_hub \<Rightarrow> uuid list \<times> realtime_hub" where
  "fanout_lock lim u payload h =
     (case map_of (rh_users h) u of
        None \<Rightarrow> ([], h)
      | Some cs \<Rightarrow>
          (map fst (filter (\<lambda>(c, e). \<not> ce_bootstrapping e) cs),
           put_back u (List.map_filter (\<lambda>(c, e). map_option (Pair c) (buffer_entry (hl_send_buffer lim) payload e)) cs) h))"

definition try_send :: "hub_limits \<Rightarrow> string \<Rightarrow> uuid \<Rightarrow> realtime_hub \<Rightarrow> bool \<times> realtime_hub" where
  "try_send lim payload c h =
     (if rh_receiver h c \<and> length (rh_queue h c) < hl_send_buffer lim
      then (True, h\<lparr>rh_queue := (rh_queue h)(c := rh_queue h c @ [payload])\<rparr>) else (False, h))"

fun try_sends :: "hub_limits \<Rightarrow> string \<Rightarrow> uuid list \<Rightarrow> realtime_hub \<Rightarrow> uuid list \<times> realtime_hub" where
  "try_sends lim payload [] h = ([], h)"
| "try_sends lim payload (c # cs) h =
     (case try_send lim payload c h of
        (sent, h) \<Rightarrow> (case try_sends lim payload cs h of (failed, h) \<Rightarrow> (if sent then failed else c # failed, h)))"

definition remove_failed :: "uuid \<Rightarrow> uuid list \<Rightarrow> realtime_hub \<Rightarrow> realtime_hub" where
  "remove_failed u failed h =
     (if failed = [] then h
      else case map_of (rh_users h) u of
             None \<Rightarrow> h
           | Some cs \<Rightarrow> put_back u (filter (\<lambda>(c, e). c \<notin> set failed) cs) h)"

definition fanout_to_user :: "hub_limits \<Rightarrow> uuid \<Rightarrow> string \<Rightarrow> realtime_hub \<Rightarrow> realtime_hub" where
  "fanout_to_user lim u payload h =
     (case fanout_lock lim u payload h of
        (targets, h) \<Rightarrow> (case try_sends lim payload targets h of (failed, h) \<Rightarrow> remove_failed u failed h))"

section \<open>What the operations do to an entry\<close>

definition entry_of :: "realtime_hub \<Rightarrow> uuid \<Rightarrow> uuid \<Rightarrow> connection_entry option" where
  "entry_of h u c = map_of (connections_of h u) c"

definition wf_hub :: "realtime_hub \<Rightarrow> bool" where
  "wf_hub h \<longleftrightarrow> distinct (map fst (rh_users h)) \<and> (\<forall>u. distinct (map fst (connections_of h u)))"

lemma connections_of_set [simp]:
  "connections_of (set_connections u cs h) u' = (if u' = u then cs else connections_of h u')"
  by (simp add: connections_of_def set_connections_def update_conv')

lemma connections_of_put_back [simp]:
  "connections_of (put_back u cs h) u' = (if u' = u then cs else connections_of h u')"
  by (simp add: put_back_def) (simp add: connections_of_def delete_conv')

lemma connections_of_channels [simp]:
  "connections_of (h\<lparr>rh_queue := q\<rparr>) = connections_of h" "connections_of (h\<lparr>rh_receiver := r\<rparr>) = connections_of h"
  by (simp_all add: connections_of_def fun_eq_iff)

lemma wf_put_back: "wf_hub h \<Longrightarrow> distinct (map fst cs) \<Longrightarrow> wf_hub (put_back u cs h)"
  unfolding wf_hub_def connections_of_put_back
  by (auto simp: put_back_def set_connections_def distinct_update distinct_delete)

lemma wf_set_connections: "wf_hub h \<Longrightarrow> distinct (map fst cs) \<Longrightarrow> wf_hub (set_connections u cs h)"
  unfolding wf_hub_def connections_of_set by (auto simp: set_connections_def distinct_update)

lemma map_of_map_filter:
  "distinct (map fst cs) \<Longrightarrow>
     map_of (List.map_filter (\<lambda>(c, e). map_option (Pair c) (g e)) cs) c = Option.bind (map_of cs c) g"
proof (induction cs)
  case (Cons x cs)
  obtain d e where x: "x = (d, e)" by (cases x)
  show ?case
  proof (cases "g e")
    case None
    then show ?thesis using Cons x by (cases "c = d") (auto simp: map_filter_simps map_of_eq_None_iff [THEN iffD2])
  qed (use Cons x in \<open>auto simp: map_filter_simps\<close>)
qed (simp add: map_filter_simps)

lemma map_fst_map_filter:
  "map fst (List.map_filter (\<lambda>(c, e). map_option (Pair c) (g e)) cs) = map fst (filter (\<lambda>(c, e). g e \<noteq> None) cs)"
  by (induction cs) (auto simp: map_filter_simps split: option.splits)

lemma map_of_filter_fst: "map_of (filter (\<lambda>(c, e). P c) cs) c = (if P c then map_of cs c else None)"
  by (induction cs) auto

lemma distinct_filter_fst: "distinct (map fst cs) \<Longrightarrow> distinct (map fst (filter P cs))"
  by (induction cs) auto

lemma entry_of_simps [simp]:
  "entry_of (set_connections u cs h) u' c = (if u' = u then map_of cs c else entry_of h u' c)"
  "entry_of (put_back u cs h) u' c = (if u' = u then map_of cs c else entry_of h u' c)"
  "entry_of (h\<lparr>rh_queue := q\<rparr>) u' c = entry_of h u' c" "entry_of (h\<lparr>rh_receiver := r\<rparr>) u' c = entry_of h u' c"
  by (simp_all add: entry_of_def)

lemma connections_of_Some: "map_of (rh_users h) u = Some cs \<Longrightarrow> connections_of h u = cs"
  by (simp add: connections_of_def)

lemma entry_of_Some: "map_of (rh_users h) u = Some cs \<Longrightarrow> entry_of h u c = map_of cs c"
  by (simp add: entry_of_def connections_of_def)

lemma entry_of_None: "map_of (rh_users h) u = None \<Longrightarrow> entry_of h u c = None"
  by (simp add: entry_of_def connections_of_def)

lemma wf_connections: "wf_hub h \<Longrightarrow> distinct (map fst (connections_of h u))"
  by (simp add: wf_hub_def)

lemma wf_channels [simp]: "wf_hub (h\<lparr>rh_queue := q\<rparr>) = wf_hub h" "wf_hub (h\<lparr>rh_receiver := r\<rparr>) = wf_hub h"
  by (simp_all add: wf_hub_def)

lemma channels_put_back [simp]:
  "rh_queue (put_back u cs h) = rh_queue h" "rh_receiver (put_back u cs h) = rh_receiver h"
  "rh_queue (set_connections u cs h) = rh_queue h" "rh_receiver (set_connections u cs h) = rh_receiver h"
  by (simp_all add: put_back_def set_connections_def)

lemma entry_register:
  assumes "register_connection lim u c h = (Inr c', h')"
  shows "c' = c" and "wf_hub h \<Longrightarrow> wf_hub h'"
    and "entry_of h' u' d = (if u' = u \<and> d = c then Some \<lparr> ce_bootstrapping = True, ce_pending = [] \<rparr> else entry_of h u' d)"
    and "rh_queue h' = (rh_queue h)(c := [])" and "rh_receiver h' = (rh_receiver h)(c := True)"
  using assms
  by (auto simp: register_connection_def Let_def update_conv' entry_of_def distinct_update wf_connections
      intro!: wf_set_connections split: if_splits)

lemma entry_refused:
  assumes "register_connection lim u c h = (Inl e, h')"
  shows "wf_hub h \<Longrightarrow> wf_hub h'" and "entry_of h' = entry_of h"
    and "rh_queue h' = rh_queue h" and "rh_receiver h' = rh_receiver h"
  using assms
  by (auto simp: register_connection_def Let_def fun_eq_iff entry_of_def wf_connections
      intro!: wf_set_connections split: if_splits)

lemma entry_mark:
  assumes "mark_bootstrapped_and_take_pending u c h = (ms, h')"
  shows "wf_hub h \<Longrightarrow> wf_hub h'"
    and "ms = (case entry_of h u c of None \<Rightarrow> [] | Some e \<Rightarrow> ce_pending e)"
    and "entry_of h' u' d = (if u' = u \<and> d = c \<and> entry_of h u c \<noteq> None
           then Some \<lparr> ce_bootstrapping = False, ce_pending = [] \<rparr> else entry_of h u' d)"
    and "rh_queue h' = rh_queue h" and "rh_receiver h' = rh_receiver h"
  using assms wf_connections [of h u]
  by (auto simp: mark_bootstrapped_and_take_pending_def update_conv' distinct_update entry_of_Some entry_of_None
      connections_of_Some intro!: wf_set_connections split: option.splits if_splits)

lemma entry_remove:
  shows "wf_hub h \<Longrightarrow> wf_hub (remove_connection u c h)"
    and "entry_of (remove_connection u c h) u' d = (if u' = u \<and> d = c then None else entry_of h u' d)"
    and "rh_queue (remove_connection u c h) = rh_queue h" and "rh_receiver (remove_connection u c h) = rh_receiver h"
  using wf_connections [of h u]
  by (auto simp: remove_connection_def delete_conv' distinct_delete entry_of_Some entry_of_None connections_of_Some
      intro!: wf_put_back split: option.split)

lemma entry_remove_failed:
  shows "wf_hub h \<Longrightarrow> wf_hub (remove_failed u fs h)"
    and "entry_of (remove_failed u fs h) u' d = (if u' = u \<and> d \<in> set fs then None else entry_of h u' d)"
    and "rh_queue (remove_failed u fs h) = rh_queue h" and "rh_receiver (remove_failed u fs h) = rh_receiver h"
  using wf_connections [of h u]
  by (auto simp: remove_failed_def map_of_filter_fst distinct_filter_fst entry_of_Some entry_of_None
      connections_of_Some intro!: wf_put_back split: option.split)

lemma entry_fanout_lock:
  assumes "fanout_lock lim u p h = (ts, h')" and "wf_hub h"
  shows "wf_hub h'" and "distinct ts"
    and "d \<in> set ts \<longleftrightarrow> (\<exists>e. entry_of h u d = Some e \<and> \<not> ce_bootstrapping e)"
    and "entry_of h' u' d = (if u' = u then Option.bind (entry_of h u d) (buffer_entry (hl_send_buffer lim) p)
           else entry_of h u' d)"
    and "rh_queue h' = rh_queue h" and "rh_receiver h' = rh_receiver h"
proof -
  note w = wf_connections [OF assms(2), of u]
  show "wf_hub h'" "distinct ts"
    using assms w
    by (auto simp: fanout_lock_def connections_of_Some map_fst_map_filter distinct_filter_fst
        intro!: wf_put_back split: option.splits)
  show "d \<in> set ts \<longleftrightarrow> (\<exists>e. entry_of h u d = Some e \<and> \<not> ce_bootstrapping e)"
    using assms(1) w
    by (cases "map_of (rh_users h) u")
      (force simp: fanout_lock_def connections_of_Some entry_of_Some entry_of_None map_of_eq_Some_iff)+
  show "entry_of h' u' d = (if u' = u then Option.bind (entry_of h u d) (buffer_entry (hl_send_buffer lim) p)
           else entry_of h u' d)" "rh_queue h' = rh_queue h" "rh_receiver h' = rh_receiver h"
    using assms(1) w
    by (auto simp: fanout_lock_def connections_of_Some entry_of_Some entry_of_None map_of_map_filter
        split: option.splits)
qed

lemma entry_try_send:
  assumes "try_send lim p c h = (ok, h')"
  shows "wf_hub h' = wf_hub h" and "entry_of h' = entry_of h" and "rh_receiver h' = rh_receiver h"
    and "rh_queue h' = (if ok then (rh_queue h)(c := rh_queue h c @ [p]) else rh_queue h)"
  using assms by (auto simp: try_send_def fun_eq_iff split: if_splits)

section \<open>Connections, subscriber and hub side by side\<close>

text \<open>
  A connection task is starting, flushing what was buffered for it, live, or gone; \<open>hw_sent\<close> is what
  went out on its socket. The subscriber is idle or between the two locks of a fan-out, with the
  channels it has still to serve and those that refused.
\<close>

datatype ws_phase = Unused | Opening | Flushing "string list" | Live | Gone

datatype publisher = PubIdle | PubSending uuid string "uuid list" "uuid list"

record hub_world =
  hw_hub :: realtime_hub
  hw_user :: "uuid \<Rightarrow> uuid"
  hw_phase :: "uuid \<Rightarrow> ws_phase"
  hw_sent :: "uuid \<Rightarrow> string list"
  hw_pub :: publisher

inductive hub_step :: "hub_limits \<Rightarrow> hub_world \<Rightarrow> hub_world \<Rightarrow> bool" for lim :: hub_limits where
  ws_join: "\<lbrakk> hw_phase s c = Unused; register_connection lim u c (hw_hub s) = (Inr c', h) \<rbrakk>
    \<Longrightarrow> hub_step lim s (s\<lparr>hw_hub := h, hw_user := (hw_user s)(c := u), hw_phase := (hw_phase s)(c := Opening),
          hw_sent := (hw_sent s)(c := [])\<rparr>)"
| ws_refused: "register_connection lim u c (hw_hub s) = (Inl e, h) \<Longrightarrow> hub_step lim s (s\<lparr>hw_hub := h\<rparr>)"
| ws_bootstrapped: "\<lbrakk> hw_phase s c = Opening;
      mark_bootstrapped_and_take_pending (hw_user s c) c (hw_hub s) = (ms, h) \<rbrakk>
    \<Longrightarrow> hub_step lim s (s\<lparr>hw_hub := h, hw_phase := (hw_phase s)(c := Flushing ms)\<rparr>)"
| ws_flush: "hw_phase s c = Flushing (m # ms)
    \<Longrightarrow> hub_step lim s (s\<lparr>hw_phase := (hw_phase s)(c := Flushing ms), hw_sent := (hw_sent s)(c := hw_sent s c @ [m])\<rparr>)"
| ws_live: "hw_phase s c = Flushing [] \<Longrightarrow> hub_step lim s (s\<lparr>hw_phase := (hw_phase s)(c := Live)\<rparr>)"
| ws_recv: "\<lbrakk> hw_phase s c = Live; rh_queue (hw_hub s) c = m # ms \<rbrakk>
    \<Longrightarrow> hub_step lim s (s\<lparr>hw_hub := (hw_hub s)\<lparr>rh_queue := (rh_queue (hw_hub s))(c := ms)\<rparr>,
          hw_sent := (hw_sent s)(c := hw_sent s c @ [m])\<rparr>)"
| ws_leave: "\<lbrakk> hw_phase s c \<notin> {Unused, Gone}; h = remove_connection (hw_user s c) c (hw_hub s) \<rbrakk>
    \<Longrightarrow> hub_step lim s (s\<lparr>hw_hub := h\<lparr>rh_receiver := (rh_receiver h)(c := False)\<rparr>,
          hw_phase := (hw_phase s)(c := Gone)\<rparr>)"
| pub_lock: "\<lbrakk> hw_pub s = PubIdle; fanout_lock lim u p (hw_hub s) = (ts, h) \<rbrakk>
    \<Longrightarrow> hub_step lim s (s\<lparr>hw_hub := h, hw_pub := PubSending u p ts []\<rparr>)"
| pub_send: "\<lbrakk> hw_pub s = PubSending u p (c # ts) fs; try_send lim p c (hw_hub s) = (ok, h) \<rbrakk>
    \<Longrightarrow> hub_step lim s (s\<lparr>hw_hub := h, hw_pub := PubSending u p ts (if ok then fs else fs @ [c])\<rparr>)"
| pub_done: "hw_pub s = PubSending u p [] fs
    \<Longrightarrow> hub_step lim s (s\<lparr>hw_hub := remove_failed u fs (hw_hub s), hw_pub := PubIdle\<rparr>)"

definition hub_init :: "hub_world \<Rightarrow> bool" where
  "hub_init s \<longleftrightarrow> hw_hub s = hub_new \<and> (\<forall>c. hw_phase s c = Unused) \<and> hw_pub s = PubIdle"

text \<open>Without interference the three steps of the subscriber are \<^const>\<open>fanout_to_user\<close>.\<close>

lemma sends_run:
  "hw_pub s = PubSending u p ts fs \<Longrightarrow> try_sends lim p ts (hw_hub s) = (failed, h)
     \<Longrightarrow> (hub_step lim)\<^sup>*\<^sup>* s (s\<lparr>hw_hub := h, hw_pub := PubSending u p [] (fs @ failed)\<rparr>)"
proof (induction ts arbitrary: s fs failed h)
  case Nil
  then have "s\<lparr>hw_hub := h, hw_pub := PubSending u p [] (fs @ failed)\<rparr> = s" by (cases s) simp
  then show ?case by (simp only:)
next
  case (Cons c ts)
  obtain ok h1 where c: "try_send lim p c (hw_hub s) = (ok, h1)" by (cases "try_send lim p c (hw_hub s)")
  obtain failed' where f: "try_sends lim p ts h1 = (failed', h)" "failed = (if ok then failed' else c # failed')"
    using Cons.prems(2) c by (auto split: prod.splits)
  let ?s = "s\<lparr>hw_hub := h1, hw_pub := PubSending u p ts (if ok then fs else fs @ [c])\<rparr>"
  have "hub_step lim s ?s" by (rule pub_send [OF Cons.prems(1) c])
  moreover have "(hub_step lim)\<^sup>*\<^sup>* ?s (?s\<lparr>hw_hub := h, hw_pub := PubSending u p [] ((if ok then fs else fs @ [c]) @ failed')\<rparr>)"
    using f(1) by (intro Cons.IH) simp_all
  ultimately show ?case using f(2) by (simp add: converse_rtranclp_into_rtranclp split: if_splits)
qed

lemma fanout_runs:
  assumes "hw_pub s = PubIdle"
  shows "(hub_step lim)\<^sup>*\<^sup>* s (s\<lparr>hw_hub := fanout_to_user lim u p (hw_hub s)\<rparr>)"
proof -
  obtain ts h1 where l: "fanout_lock lim u p (hw_hub s) = (ts, h1)" by (cases "fanout_lock lim u p (hw_hub s)")
  obtain failed h2 where t: "try_sends lim p ts h1 = (failed, h2)" by (cases "try_sends lim p ts h1")
  let ?s1 = "s\<lparr>hw_hub := h1, hw_pub := PubSending u p ts []\<rparr>"
  let ?s2 = "s\<lparr>hw_hub := h2, hw_pub := PubSending u p [] failed\<rparr>"
  have "hub_step lim s ?s1" by (rule pub_lock [OF assms l])
  moreover have "(hub_step lim)\<^sup>*\<^sup>* ?s1 ?s2" using sends_run [of ?s1 u p ts "[]" lim failed h2] t by simp
  moreover have "hub_step lim ?s2 (s\<lparr>hw_hub := remove_failed u failed h2\<rparr>)"
    using pub_done [of ?s2 u p failed lim] assms by (cases s) simp
  ultimately show ?thesis
    by (simp add: fanout_to_user_def l t)
qed

section \<open>The subscribers\<close>

text \<open>
  The specification: a subscriber has received a list of messages, is owed a backlog, and may be
  lost, after which nothing is added; publishing adds to the backlog of every subscriber of the user
  or loses it; losing cuts off the end of a backlog, never its middle.
\<close>

record subscriber =
  sub_user :: uuid
  sub_got :: "string list"
  sub_backlog :: "string list"
  sub_lost :: bool

definition lose :: "nat \<Rightarrow> subscriber \<Rightarrow> subscriber" where
  "lose k b = b\<lparr>sub_backlog := take k (sub_backlog b), sub_lost := True\<rparr>"

definition published_to :: "uuid \<Rightarrow> string \<Rightarrow> subscriber option \<Rightarrow> subscriber option \<Rightarrow> bool" where
  "published_to u p x y \<longleftrightarrow>
     (case x of
        None \<Rightarrow> y = None
      | Some b \<Rightarrow>
          if sub_user b = u \<and> \<not> sub_lost b
          then y = Some (b\<lparr>sub_backlog := sub_backlog b @ [p]\<rparr>) \<or> (\<exists>k. y = Some (lose k b))
          else y = x)"

inductive subscriber_step :: "(uuid \<Rightarrow> subscriber option) \<Rightarrow> (uuid \<Rightarrow> subscriber option) \<Rightarrow> bool" where
  sub_join: "f c = None
    \<Longrightarrow> subscriber_step f (f(c \<mapsto> \<lparr> sub_user = u, sub_got = [], sub_backlog = [], sub_lost = False \<rparr>))"
| sub_receive: "\<lbrakk> f c = Some b; sub_backlog b = m # ms \<rbrakk>
    \<Longrightarrow> subscriber_step f (f(c \<mapsto> b\<lparr>sub_got := sub_got b @ [m], sub_backlog := ms\<rparr>))"
| sub_lose: "f c = Some b \<Longrightarrow> subscriber_step f (f(c \<mapsto> lose k b))"
| sub_publish: "(\<And>c. published_to u p (f c) (g c)) \<Longrightarrow> subscriber_step f g"

text \<open>
  What the hub is an implementation of: the backlog is spread over the list the task is flushing, the
  buffer of a starting connection, the channel, and a fan-out that has not reached the channel yet.
\<close>

definition pending_of :: "hub_world \<Rightarrow> uuid \<Rightarrow> string list" where
  "pending_of s c = (case entry_of (hw_hub s) (hw_user s c) c of None \<Rightarrow> [] | Some e \<Rightarrow> ce_pending e)"

definition in_flight :: "publisher \<Rightarrow> uuid \<Rightarrow> string list" where
  "in_flight pub c = (case pub of PubIdle \<Rightarrow> [] | PubSending u p ts fs \<Rightarrow> if c \<in> set ts then [p] else [])"

definition flushing :: "ws_phase \<Rightarrow> string list" where
  "flushing ph = (case ph of Flushing ms \<Rightarrow> ms | _ \<Rightarrow> [])"

definition refused_by :: "publisher \<Rightarrow> uuid \<Rightarrow> bool" where
  "refused_by pub c = (case pub of PubIdle \<Rightarrow> False | PubSending u p ts fs \<Rightarrow> c \<in> set fs)"

definition abs_subscriber :: "hub_world \<Rightarrow> uuid \<Rightarrow> subscriber option" where
  "abs_subscriber s c =
     (case hw_phase s c of
        Unused \<Rightarrow> None
      | Gone \<Rightarrow> Some \<lparr> sub_user = hw_user s c, sub_got = hw_sent s c, sub_backlog = [], sub_lost = True \<rparr>
      | ph \<Rightarrow> Some \<lparr> sub_user = hw_user s c, sub_got = hw_sent s c,
          sub_backlog = flushing ph @ pending_of s c @ rh_queue (hw_hub s) c @ in_flight (hw_pub s) c,
          sub_lost = (entry_of (hw_hub s) (hw_user s c) c = None \<or> refused_by (hw_pub s) c) \<rparr>)"

definition active :: "hub_world \<Rightarrow> uuid \<Rightarrow> bool" where
  "active s c \<longleftrightarrow> hw_phase s c \<notin> {Unused, Gone}"

definition hub_inv :: "hub_world \<Rightarrow> bool" where
  "hub_inv s \<longleftrightarrow> wf_hub (hw_hub s)
     \<and> (\<forall>u c e. entry_of (hw_hub s) u c = Some e \<longrightarrow> hw_user s c = u \<and> active s c
          \<and> (ce_bootstrapping e \<longleftrightarrow> hw_phase s c = Opening) \<and> (\<not> ce_bootstrapping e \<longrightarrow> ce_pending e = []))
     \<and> (\<forall>c. hw_phase s c = Opening \<longrightarrow> rh_queue (hw_hub s) c = [])
     \<and> (\<forall>c. rh_receiver (hw_hub s) c \<longleftrightarrow> active s c)
     \<and> (case hw_pub s of
          PubIdle \<Rightarrow> True
        | PubSending u p ts fs \<Rightarrow> distinct (ts @ fs)
            \<and> (\<forall>c \<in> set ts \<union> set fs. hw_phase s c \<notin> {Unused, Opening} \<and> hw_user s c = u)
            \<and> (\<forall>c \<in> set ts. active s c \<longrightarrow> entry_of (hw_hub s) u c \<noteq> None))"

lemma hub_init_inv: "hub_init s \<Longrightarrow> hub_inv s"
  by (auto simp: hub_init_def hub_inv_def hub_new_def wf_hub_def connections_of_def entry_of_def active_def)

lemma hub_invD:
  assumes "hub_inv s"
  shows "wf_hub (hw_hub s)"
    and "entry_of (hw_hub s) u c = Some e \<Longrightarrow> hw_user s c = u \<and> active s c
          \<and> (ce_bootstrapping e \<longleftrightarrow> hw_phase s c = Opening) \<and> (\<not> ce_bootstrapping e \<longrightarrow> ce_pending e = [])"
    and "hw_phase s c = Opening \<Longrightarrow> rh_queue (hw_hub s) c = []"
    and "rh_receiver (hw_hub s) c \<longleftrightarrow> active s c"
    and "hw_pub s = PubSending v p ts fs \<Longrightarrow> distinct (ts @ fs)"
    and "hw_pub s = PubSending v p ts fs \<Longrightarrow> c \<in> set ts \<union> set fs \<Longrightarrow> hw_phase s c \<notin> {Unused, Opening} \<and> hw_user s c = v"
    and "hw_pub s = PubSending v p ts fs \<Longrightarrow> c \<in> set ts \<Longrightarrow> active s c \<Longrightarrow> entry_of (hw_hub s) v c \<noteq> None"
  using assms by (auto simp: hub_inv_def split: publisher.splits)

lemma hub_invI:
  assumes "wf_hub (hw_hub s)"
    and "\<And>u c e. entry_of (hw_hub s) u c = Some e \<Longrightarrow> hw_user s c = u \<and> active s c
          \<and> (ce_bootstrapping e \<longleftrightarrow> hw_phase s c = Opening) \<and> (\<not> ce_bootstrapping e \<longrightarrow> ce_pending e = [])"
    and "\<And>c. hw_phase s c = Opening \<Longrightarrow> rh_queue (hw_hub s) c = []"
    and "\<And>c. rh_receiver (hw_hub s) c \<longleftrightarrow> active s c"
    and "\<And>v p ts fs. hw_pub s = PubSending v p ts fs \<Longrightarrow> distinct (ts @ fs)"
    and "\<And>v p ts fs c. hw_pub s = PubSending v p ts fs \<Longrightarrow> c \<in> set ts \<union> set fs
          \<Longrightarrow> hw_phase s c \<notin> {Unused, Opening} \<and> hw_user s c = v"
    and "\<And>v p ts fs c. hw_pub s = PubSending v p ts fs \<Longrightarrow> c \<in> set ts \<Longrightarrow> active s c \<Longrightarrow> entry_of (hw_hub s) v c \<noteq> None"
  shows "hub_inv s"
  unfolding hub_inv_def using assms by (auto split: publisher.split)

text \<open>Steps that leave the hub's entries, users and phases of activity alone keep the invariant.\<close>

lemma hub_inv_phase:
  assumes "hub_inv s" and "wf_hub (hw_hub t)" and "entry_of (hw_hub t) = entry_of (hw_hub s)"
    and "hw_user t = hw_user s" and "hw_pub t = hw_pub s" and "rh_receiver (hw_hub t) = rh_receiver (hw_hub s)"
    and "\<And>c. active t c \<longleftrightarrow> active s c" and "\<And>c. hw_phase t c = Opening \<longleftrightarrow> hw_phase s c = Opening"
    and "\<And>c. hw_phase s c = Opening \<Longrightarrow> rh_queue (hw_hub t) c = rh_queue (hw_hub s) c"
    and "\<And>c. hw_phase t c = Unused \<longleftrightarrow> hw_phase s c = Unused"
  shows "hub_inv t"
proof -
  note i = hub_invD [OF assms(1)]
  show ?thesis
  proof (rule hub_invI)
    fix v p ts fs assume "hw_pub t = PubSending v p ts fs"
    then have p: "hw_pub s = PubSending v p ts fs" using assms(5) by simp
    show "distinct (ts @ fs)" by (rule i(5) [OF p])
    show "hw_phase t c \<notin> {Unused, Opening} \<and> hw_user t c = v" if "c \<in> set ts \<union> set fs" for c
      using i(6) [OF p that] assms(4,8,10) by simp
    show "entry_of (hw_hub t) v c \<noteq> None" if "c \<in> set ts" "active t c" for c
      using i(7) [OF p that(1)] that(2) assms(3,7) by simp
  qed (use i assms(2-4,6-10) in simp_all)
qed

lemma hub_inv_step:
  assumes "hub_inv s" and "hub_step lim s t"
  shows "hub_inv t"
  using assms(2)
proof (cases rule: hub_step.cases)
  case (ws_join c u c' h)
  note e = entry_register [OF ws_join(3)]
  note i = hub_invD [OF assms(1)]
  have c: "entry_of (hw_hub s) v c = None" for v using i(2) [of v c] ws_join(2) by (cases "entry_of (hw_hub s) v c") (auto simp: active_def)
  have a: "active t d \<longleftrightarrow> d = c \<or> active s d" for d using ws_join(1,2) by (simp add: active_def)
  show ?thesis
  proof (rule hub_invI)
    fix v d x assume x: "entry_of (hw_hub t) v d = Some x"
    show "hw_user t d = v \<and> active t d \<and> (ce_bootstrapping x \<longleftrightarrow> hw_phase t d = Opening) \<and> (\<not> ce_bootstrapping x \<longrightarrow> ce_pending x = [])"
      using x i(2) [of v d x] c [of v] ws_join(1) a e(3) by (cases "d = c") (auto split: if_splits)
  next
    fix v p ts fs d assume p: "hw_pub t = PubSending v p ts fs" and d: "d \<in> set ts \<union> set fs"
    have "d \<noteq> c" using i(6) [of v p ts fs d] p d ws_join(1,2) by auto
    then show "hw_phase t d \<notin> {Unused, Opening} \<and> hw_user t d = v" using i(6) [of v p ts fs d] p d ws_join(1) by auto
  next
    fix v p ts fs d assume p: "hw_pub t = PubSending v p ts fs" and d: "d \<in> set ts" "active t d"
    have "d \<noteq> c" using i(6) [of v p ts fs d] p d ws_join(1,2) by auto
    then show "entry_of (hw_hub t) v d \<noteq> None" using i(7) [of v p ts fs d] p d ws_join(1) a e(3) by auto
  qed (use i e a ws_join(1) in auto)
next
  case (ws_refused u c e h)
  then show ?thesis using entry_refused [OF ws_refused(2)] hub_invD(1) [OF assms(1)]
    by (intro hub_inv_phase [OF assms(1)]) (simp_all add: active_def)
next
  case (ws_bootstrapped c ms h)
  note e = entry_mark [OF ws_bootstrapped(3)]
  note i = hub_invD [OF assms(1)]
  have a: "active t d \<longleftrightarrow> active s d" for d using ws_bootstrapped(1,2) by (simp add: active_def)
  have n: "entry_of (hw_hub t) v d = None \<longleftrightarrow> entry_of (hw_hub s) v d = None" for v d using e(3) [of v d] ws_bootstrapped(1) by auto
  show ?thesis
  proof (rule hub_invI)
    fix v d x assume x: "entry_of (hw_hub t) v d = Some x"
    then obtain y where y: "entry_of (hw_hub s) v d = Some y" using n [of v d] by (cases "entry_of (hw_hub s) v d") auto
    show "hw_user t d = v \<and> active t d \<and> (ce_bootstrapping x \<longleftrightarrow> hw_phase t d = Opening) \<and> (\<not> ce_bootstrapping x \<longrightarrow> ce_pending x = [])"
      using x y i(2) [OF y] ws_bootstrapped(1,2) a e(3) by (cases "d = c") (auto split: if_splits)
  next
    fix v p ts fs d assume p: "hw_pub t = PubSending v p ts fs" and d: "d \<in> set ts \<union> set fs"
    show "hw_phase t d \<notin> {Unused, Opening} \<and> hw_user t d = v" using i(6) [of v p ts fs d] p d ws_bootstrapped(1) by auto
  next
    fix v p ts fs d assume p: "hw_pub t = PubSending v p ts fs" and d: "d \<in> set ts" "active t d"
    then show "entry_of (hw_hub t) v d \<noteq> None" using i(7) [of v p ts fs d] ws_bootstrapped(1) a n by simp
  qed (use i e a ws_bootstrapped(1) in \<open>auto split: if_splits\<close>)
next
  case (ws_flush c m ms)
  then show ?thesis using hub_invD(1) [OF assms(1)] by (intro hub_inv_phase [OF assms(1)]) (simp_all add: active_def)
next
  case (ws_live c)
  then show ?thesis using hub_invD(1) [OF assms(1)] by (intro hub_inv_phase [OF assms(1)]) (simp_all add: active_def)
next
  case (ws_recv c m ms)
  then show ?thesis using hub_invD(1) [OF assms(1)]
    by (intro hub_inv_phase [OF assms(1)]) (auto simp: active_def fun_eq_iff)
next
  case (ws_leave c h)
  note e = entry_remove [where h = "hw_hub s" and u = "hw_user s c" and c = c]
  note i = hub_invD [OF assms(1)]
  have a: "active t d \<longleftrightarrow> d \<noteq> c \<and> active s d" for d using ws_leave(1) by (simp add: active_def)
  have other: "entry_of (hw_hub t) v d = (if d = c then None else entry_of (hw_hub s) v d)" for v d
    using e(2) [where u' = v and d = d] i(2) [of v c] ws_leave(1,3) by (cases "entry_of (hw_hub s) v c") auto
  show ?thesis
  proof (rule hub_invI)
    fix v d x assume "entry_of (hw_hub t) v d = Some x"
    then show "hw_user t d = v \<and> active t d \<and> (ce_bootstrapping x \<longleftrightarrow> hw_phase t d = Opening) \<and> (\<not> ce_bootstrapping x \<longrightarrow> ce_pending x = [])"
      using i(2) [of v d x] other [of v d] a ws_leave(1) by (auto split: if_splits)
  next
    fix v p ts fs d assume p: "hw_pub t = PubSending v p ts fs" and d: "d \<in> set ts \<union> set fs"
    then show "hw_phase t d \<notin> {Unused, Opening} \<and> hw_user t d = v" using i(6) [of v p ts fs d] ws_leave(1) by auto
  next
    fix v p ts fs d assume p: "hw_pub t = PubSending v p ts fs" and d: "d \<in> set ts" "active t d"
    then show "entry_of (hw_hub t) v d \<noteq> None" using i(7) [of v p ts fs d] ws_leave(1) a other by simp
  qed (use i e a ws_leave(1,3) in \<open>auto split: if_splits\<close>)
next
  case (pub_lock u p ts h)
  note i = hub_invD [OF assms(1)]
  note e = entry_fanout_lock [OF pub_lock(3) i(1)]
  have a: "active t d \<longleftrightarrow> active s d" for d using pub_lock(1) by (simp add: active_def)
  have ts: "active s d \<and> hw_phase s d \<noteq> Opening \<and> hw_user s d = u \<and> entry_of h u d \<noteq> None" if "d \<in> set ts" for d
    using that e(3) [of d] e(4) [of u d] i(2) [of u d] by (auto simp: buffer_entry_def)
  show ?thesis
  proof (rule hub_invI)
    fix v d x assume x: "entry_of (hw_hub t) v d = Some x"
    then obtain y where y: "entry_of (hw_hub s) v d = Some y" "x = y \<or> buffer_entry (hl_send_buffer lim) p y = Some x"
      using e(4) [of v d] pub_lock(1) by (auto split: if_splits simp: bind_eq_Some_conv)
    then show "hw_user t d = v \<and> active t d \<and> (ce_bootstrapping x \<longleftrightarrow> hw_phase t d = Opening) \<and> (\<not> ce_bootstrapping x \<longrightarrow> ce_pending x = [])"
      using i(2) [OF y(1)] a pub_lock(1) by (auto simp: buffer_entry_def split: if_splits)
  next
    fix v q us fs d assume "hw_pub t = PubSending v q us fs" and "d \<in> set us \<union> set fs"
    then show "hw_phase t d \<notin> {Unused, Opening} \<and> hw_user t d = v" using ts [of d] pub_lock(1) by (auto simp: active_def)
  next
    fix v q us fs d assume "hw_pub t = PubSending v q us fs" and "d \<in> set us" "active t d"
    then show "entry_of (hw_hub t) v d \<noteq> None" using ts [of d] pub_lock(1) by auto
  qed (use i e a pub_lock(1) in auto)
next
  case (pub_send u p c ts fs ok h)
  note i = hub_invD [OF assms(1)]
  note e = entry_try_send [OF pub_send(3)]
  have a: "active t d \<longleftrightarrow> active s d" for d using pub_send(1) by (simp add: active_def)
  have c: "hw_phase s c \<noteq> Opening" using i(6) [OF pub_send(2), of c] by auto
  show ?thesis
  proof (rule hub_invI)
    fix v q us gs d assume "hw_pub t = PubSending v q us gs" and "d \<in> set us \<union> set gs"
    then show "hw_phase t d \<notin> {Unused, Opening} \<and> hw_user t d = v"
      using i(6) [OF pub_send(2), of d] pub_send(1) by (auto split: if_splits)
  next
    fix v q us gs d assume "hw_pub t = PubSending v q us gs" and "d \<in> set us" "active t d"
    then show "entry_of (hw_hub t) v d \<noteq> None"
      using i(7) [OF pub_send(2), of d] pub_send(1) e a by auto
  next
    fix v q us gs assume "hw_pub t = PubSending v q us gs"
    then show "distinct (us @ gs)" using i(5) [OF pub_send(2)] pub_send(1) by (auto split: if_splits)
  next
    fix d assume "hw_phase t d = Opening"
    then show "rh_queue (hw_hub t) d = []" using i(3) [of d] e(4) c pub_send(1) by (cases "d = c") (auto split: if_splits)
  next
    fix v d x assume "entry_of (hw_hub t) v d = Some x"
    then show "hw_user t d = v \<and> active t d \<and> (ce_bootstrapping x \<longleftrightarrow> hw_phase t d = Opening) \<and> (\<not> ce_bootstrapping x \<longrightarrow> ce_pending x = [])"
      using i(2) [of v d x] e a pub_send(1) by simp
  qed (use i e a pub_send(1) in auto)
next
  case (pub_done u p fs)
  note e = entry_remove_failed [where h = "hw_hub s" and u = u and fs = fs]
  note i = hub_invD [OF assms(1)]
  have a: "active t d \<longleftrightarrow> active s d" for d using pub_done(1) by (simp add: active_def)
  show ?thesis
  proof (rule hub_invI)
    fix v d x assume "entry_of (hw_hub t) v d = Some x"
    then show "hw_user t d = v \<and> active t d \<and> (ce_bootstrapping x \<longleftrightarrow> hw_phase t d = Opening) \<and> (\<not> ce_bootstrapping x \<longrightarrow> ce_pending x = [])"
      using i(2) [of v d x] e(2) [where u' = v and d = d] a pub_done(1) by (auto split: if_splits)
  qed (use i e a pub_done(1) in auto)
qed

interpretation hub: inductive_invariant hub_init "hub_step lim" hub_inv
  by unfold_locales (auto intro: hub_init_inv hub_inv_step)

section \<open>The refinement\<close>

lemma abs_active:
  "active s c \<Longrightarrow> abs_subscriber s c = Some \<lparr> sub_user = hw_user s c, sub_got = hw_sent s c,
     sub_backlog = flushing (hw_phase s c) @ pending_of s c @ rh_queue (hw_hub s) c @ in_flight (hw_pub s) c,
     sub_lost = (entry_of (hw_hub s) (hw_user s c) c = None \<or> refused_by (hw_pub s) c) \<rparr>"
  by (auto simp: abs_subscriber_def active_def split: ws_phase.splits)

lemma abs_unused: "hw_phase s c = Unused \<Longrightarrow> abs_subscriber s c = None"
  by (simp add: abs_subscriber_def)

lemma abs_gone: "hw_phase s c = Gone \<Longrightarrow> abs_subscriber s c
    = Some \<lparr> sub_user = hw_user s c, sub_got = hw_sent s c, sub_backlog = [], sub_lost = True \<rparr>"
  by (simp add: abs_subscriber_def)

text \<open>What a subscriber is depends on the parts of the state that belong to its connection.\<close>

lemma abs_cong:
  assumes "hw_phase t c = hw_phase s c" "hw_user t c = hw_user s c" "hw_sent t c = hw_sent s c"
    and "rh_queue (hw_hub t) c = rh_queue (hw_hub s) c"
    and "entry_of (hw_hub t) (hw_user s c) c = entry_of (hw_hub s) (hw_user s c) c"
    and "in_flight (hw_pub t) c = in_flight (hw_pub s) c" "refused_by (hw_pub t) c = refused_by (hw_pub s) c"
  shows "abs_subscriber t c = abs_subscriber s c"
  using assms by (simp add: abs_subscriber_def pending_of_def split: ws_phase.split)

lemma abs_upd:
  assumes "\<And>d. d \<noteq> c \<Longrightarrow> abs_subscriber t d = abs_subscriber s d" and "abs_subscriber t c = Some b"
  shows "abs_subscriber t = (abs_subscriber s)(c \<mapsto> b)"
  using assms by (auto simp: fun_eq_iff)

lemma hub_idle_unused:
  assumes "hub_inv s" and "hw_phase s c = Unused"
  shows "in_flight (hw_pub s) c = []" "\<not> refused_by (hw_pub s) c" "entry_of (hw_hub s) u c = None"
proof -
  have "c \<notin> set ts" "c \<notin> set fs" if "hw_pub s = PubSending v p ts fs" for v p ts fs
    using hub_invD(6) [OF assms(1) that, of c] assms(2) by auto
  then show "in_flight (hw_pub s) c = []" "\<not> refused_by (hw_pub s) c"
    by (simp_all add: in_flight_def refused_by_def split: publisher.split)
  show "entry_of (hw_hub s) u c = None"
    using hub_invD(2) [OF assms(1), of u c] assms(2) by (cases "entry_of (hw_hub s) u c") (auto simp: active_def)
qed

lemma refine_join:
  assumes "hub_inv s" and "hw_phase s c = Unused" and "register_connection lim u c (hw_hub s) = (Inr c', h)"
    and "t = s\<lparr>hw_hub := h, hw_user := (hw_user s)(c := u), hw_phase := (hw_phase s)(c := Opening), hw_sent := (hw_sent s)(c := [])\<rparr>"
  shows "subscriber_step (abs_subscriber s) (abs_subscriber t)"
proof -
  note e = entry_register [OF assms(3)]
  have "abs_subscriber t = (abs_subscriber s)(c \<mapsto> \<lparr> sub_user = u, sub_got = [], sub_backlog = [], sub_lost = False \<rparr>)"
  proof (rule abs_upd)
    fix d assume "d \<noteq> c"
    then show "abs_subscriber t d = abs_subscriber s d"
      using assms(4) e by (intro abs_cong) simp_all
  next
    show "abs_subscriber t c = Some \<lparr> sub_user = u, sub_got = [], sub_backlog = [], sub_lost = False \<rparr>"
      using assms(4) e hub_idle_unused [OF assms(1,2)] by (simp add: abs_subscriber_def flushing_def pending_of_def)
  qed
  then show ?thesis using sub_join [where f = "abs_subscriber s" and c = c and u = u] abs_unused [OF assms(2)] by simp
qed

lemma refine_bootstrapped:
  assumes "hub_inv s" and "hw_phase s c = Opening"
    and "mark_bootstrapped_and_take_pending (hw_user s c) c (hw_hub s) = (ms, h)"
    and "t = s\<lparr>hw_hub := h, hw_phase := (hw_phase s)(c := Flushing ms)\<rparr>"
  shows "abs_subscriber t = abs_subscriber s"
proof (rule ext)
  note e = entry_mark [OF assms(3)]
  fix d
  show "abs_subscriber t d = abs_subscriber s d"
  proof (cases "d = c")
    case True
    have "active s c" "active t c" using assms(2,4) by (simp_all add: active_def)
    then show ?thesis
      using True assms(2,4) e by (auto simp: abs_active flushing_def pending_of_def split: option.split)
  next
    case False
    then show ?thesis using assms(4) e by (intro abs_cong) simp_all
  qed
qed

lemma refine_receive:
  assumes "active s c" and "active t c" and "\<And>d. d \<noteq> c \<Longrightarrow> abs_subscriber t d = abs_subscriber s d"
    and "hw_user t c = hw_user s c" "hw_sent t c = hw_sent s c @ [m]" "hw_pub t = hw_pub s"
    and "entry_of (hw_hub t) = entry_of (hw_hub s)"
    and "m # flushing (hw_phase t c) @ pending_of t c @ rh_queue (hw_hub t) c
         = flushing (hw_phase s c) @ pending_of s c @ rh_queue (hw_hub s) c"
  shows "subscriber_step (abs_subscriber s) (abs_subscriber t)"
proof -
  obtain b where b: "abs_subscriber s c = Some b" "sub_got b = hw_sent s c"
    "sub_backlog b = m # flushing (hw_phase t c) @ pending_of t c @ rh_queue (hw_hub t) c @ in_flight (hw_pub s) c"
    using abs_active [OF assms(1)] assms(8) by (metis append_assoc append_Cons subscriber.select_convs(2,3))
  have t: "abs_subscriber t c = Some (b\<lparr>sub_got := sub_got b @ [m],
      sub_backlog := flushing (hw_phase t c) @ pending_of t c @ rh_queue (hw_hub t) c @ in_flight (hw_pub s) c\<rparr>)"
    using abs_active [OF assms(2)] abs_active [OF assms(1)] b assms(4-7) by simp
  show ?thesis
    using sub_receive [where f = "abs_subscriber s" and c = c, OF b(1,3)] abs_upd [of c t s, OF assms(3) t] by simp
qed

lemma refine_lose:
  assumes "abs_subscriber s c = Some b" and "\<And>d. d \<noteq> c \<Longrightarrow> abs_subscriber t d = abs_subscriber s d"
    and "abs_subscriber t c = Some (lose k b)"
  shows "subscriber_step (abs_subscriber s) (abs_subscriber t)"
  using sub_lose [where f = "abs_subscriber s" and c = c and k = k, OF assms(1)] abs_upd [of c t s, OF assms(2,3)] by simp

lemma refine_publish:
  assumes "hub_inv s" and "hw_pub s = PubIdle" and "fanout_lock lim u p (hw_hub s) = (ts, h)"
    and "t = s\<lparr>hw_hub := h, hw_pub := PubSending u p ts []\<rparr>"
  shows "subscriber_step (abs_subscriber s) (abs_subscriber t)"
proof (rule sub_publish)
  fix c
  note i = hub_invD [OF assms(1)]
  note e = entry_fanout_lock [OF assms(3) i(1)]
  show "published_to u p (abs_subscriber s c) (abs_subscriber t c)"
  proof (cases "active s c")
    case False
    then have "abs_subscriber t c = abs_subscriber s c" "\<not> (\<exists>b. abs_subscriber s c = Some b \<and> \<not> sub_lost b)"
      using assms(4) by (auto simp: active_def abs_unused abs_gone)
    then show ?thesis by (auto simp: published_to_def split: option.split)
  next
    case True
    then have at: "active t c" using assms(4) by (simp add: active_def)
    show ?thesis
    proof (cases "entry_of (hw_hub s) u c")
      case None
      have "in_flight (hw_pub t) c = []" using e(3) [of c] None assms(4) by (simp add: in_flight_def)
      moreover have "entry_of h (hw_user s c) c = entry_of (hw_hub s) (hw_user s c) c"
        using e(4) [of "hw_user s c" c] None by auto
      ultimately have "abs_subscriber t c = abs_subscriber s c"
        using assms(2,4) e by (intro abs_cong) (simp_all add: in_flight_def refused_by_def)
      moreover have "hw_user s c = u \<Longrightarrow> sub_lost (the (abs_subscriber s c))"
        using abs_active [OF True] None by simp
      ultimately show ?thesis using abs_active [OF True] by (auto simp: published_to_def)
    next
      case (Some x)
      note x = i(2) [OF Some]
      have bt: "entry_of h u c = buffer_entry (hl_send_buffer lim) p x" using e(4) [of u c] Some by simp
      show ?thesis
      proof (cases "ce_bootstrapping x")
        case True': True
        have ph: "hw_phase s c = Opening" using x True' by blast
        have nin: "c \<notin> set ts" using e(3) [of c] Some True' by simp
        obtain b where b: "abs_subscriber s c = Some b" "sub_user b = u" "\<not> sub_lost b"
          using abs_active [OF True] x Some assms(2) by (simp add: refused_by_def)
        have "abs_subscriber t c = Some (b\<lparr>sub_backlog := sub_backlog b @ [p]\<rparr>) \<or> abs_subscriber t c = Some (lose 0 b)"
          using abs_active [OF True] abs_active [OF at] b(1) x Some bt i(3) [OF ph] ph assms(2,4) e(5) nin True'
          by (auto simp: in_flight_def refused_by_def pending_of_def flushing_def lose_def
              buffer_entry_def split: if_splits)
        then show ?thesis using b by (auto simp: published_to_def)
      next
        case False
        have "c \<in> set ts" using e(3) [of c] Some False by simp
        then show ?thesis
          using abs_active [OF True] abs_active [OF at] x Some bt assms(2,4) e(5) False
          by (auto simp: published_to_def in_flight_def refused_by_def pending_of_def buffer_entry_def)
      qed
    qed
  qed
qed

lemma refine_send:
  assumes "hub_inv s" and "hw_pub s = PubSending u p (c # ts) fs" and "try_send lim p c (hw_hub s) = (ok, h)"
    and "t = s\<lparr>hw_hub := h, hw_pub := PubSending u p ts (if ok then fs else fs @ [c])\<rparr>"
  shows "abs_subscriber t = abs_subscriber s \<or> subscriber_step (abs_subscriber s) (abs_subscriber t)"
proof -
  note i = hub_invD [OF assms(1)]
  note e = entry_try_send [OF assms(3)]
  have other: "abs_subscriber t d = abs_subscriber s d" if "d \<noteq> c" for d
    using that assms(2,4) e by (intro abs_cong) (auto simp: in_flight_def refused_by_def)
  have c: "c \<notin> set ts" "c \<notin> set fs" using i(5) [OF assms(2)] by auto
  show ?thesis
  proof (cases "active s c")
    case False
    then have "abs_subscriber t c = abs_subscriber s c"
      using assms(4) by (auto simp: active_def abs_unused abs_gone)
    then show ?thesis using other by (metis ext)
  next
    case True
    then have at: "active t c" using assms(4) by (simp add: active_def)
    obtain x where x: "entry_of (hw_hub s) u c = Some x" "hw_user s c = u"
      using i(7) [OF assms(2), of c] i(6) [OF assms(2), of c] True by auto
    have pt: "pending_of t c = pending_of s c" using e(2) assms(4) by (simp add: pending_of_def)
    show ?thesis
    proof (cases ok)
      case ok: True
      have "abs_subscriber t c = abs_subscriber s c"
        using abs_active [OF True] abs_active [OF at] ok assms(2,4) e c pt
        by (simp add: in_flight_def refused_by_def)
      then show ?thesis using other by (metis ext)
    next
      case False
      obtain b where b: "abs_subscriber s c = Some b" using abs_active [OF True] by blast
      have "abs_subscriber t c = Some (lose (length (sub_backlog b) - 1) b)"
        using abs_active [OF True] abs_active [OF at] False assms(2,4) e c pt b
        by (auto simp: in_flight_def refused_by_def lose_def)
      then show ?thesis using refine_lose [OF b other] by blast
    qed
  qed
qed

lemma refine_done:
  assumes "hub_inv s" and "hw_pub s = PubSending u p [] fs"
    and "t = s\<lparr>hw_hub := remove_failed u fs (hw_hub s), hw_pub := PubIdle\<rparr>"
  shows "abs_subscriber t = abs_subscriber s"
proof (rule ext)
  fix c
  note i = hub_invD [OF assms(1)]
  note e = entry_remove_failed [where h = "hw_hub s" and u = u and fs = fs]
  show "abs_subscriber t c = abs_subscriber s c"
  proof (cases "c \<in> set fs")
    case False
    then show ?thesis using assms(2,3) e by (intro abs_cong) (auto simp: in_flight_def refused_by_def)
  next
    case True
    then have f: "hw_phase s c \<notin> {Unused, Opening}" "hw_user s c = u" using i(6) [OF assms(2), of c] by auto
    show ?thesis
    proof (cases "active s c")
      case a: True
      then have at: "active t c" using assms(3) by (simp add: active_def)
      have "pending_of s c = []" "pending_of t c = []"
        using i(2) [of u c] f assms(3) e True by (auto simp: pending_of_def split: option.split)
      then show ?thesis
        using abs_active [OF a] abs_active [OF at] assms(2,3) e True f
        by (simp add: in_flight_def refused_by_def)
    next
      case False
      then show ?thesis using f assms(3) by (simp add: active_def abs_gone)
    qed
  qed
qed

lemma refine_step:
  assumes "hub_inv s" and "hub_step lim s t"
  shows "abs_subscriber t = abs_subscriber s \<or> subscriber_step (abs_subscriber s) (abs_subscriber t)"
  using assms(2)
proof (cases rule: hub_step.cases)
  case (ws_join c u c' h)
  then show ?thesis using refine_join [OF assms(1) ws_join(2,3,1)] by blast
next
  case (ws_refused u c e h)
  have "abs_subscriber t d = abs_subscriber s d" for d
    using ws_refused(1) entry_refused [OF ws_refused(2)] by (intro abs_cong) simp_all
  then show ?thesis by blast
next
  case (ws_bootstrapped c ms h)
  then show ?thesis using refine_bootstrapped [OF assms(1) ws_bootstrapped(2,3,1)] by blast
next
  case (ws_flush c m ms)
  have "abs_subscriber t d = abs_subscriber s d" if "d \<noteq> c" for d
    using that ws_flush(1) by (intro abs_cong) simp_all
  then show ?thesis
    using ws_flush by (intro disjI2 refine_receive [of s c t m]) (simp_all add: active_def flushing_def pending_of_def)
next
  case (ws_live c)
  have "abs_subscriber t d = abs_subscriber s d" for d
    using ws_live by (cases "d = c") (simp_all add: abs_subscriber_def flushing_def pending_of_def split: ws_phase.split)
  then show ?thesis by blast
next
  case (ws_recv c m ms)
  have "abs_subscriber t d = abs_subscriber s d" if "d \<noteq> c" for d
    using that ws_recv(1) by (intro abs_cong) simp_all
  moreover have "pending_of s c = []" "pending_of t c = []"
    using hub_invD(2) [OF assms(1), of "hw_user s c" c] ws_recv by (auto simp: pending_of_def split: option.split)
  ultimately show ?thesis
    using ws_recv by (intro disjI2 refine_receive [of s c t m]) (simp_all add: active_def flushing_def fun_eq_iff)
next
  case (ws_leave c h)
  have e: "entry_of (hw_hub t) v d = entry_of (hw_hub s) v d" if "d \<noteq> c" for v d
    using that entry_remove(2) [of "hw_user s c" c "hw_hub s" v d] ws_leave(1,3) by simp
  have "abs_subscriber t d = abs_subscriber s d" if "d \<noteq> c" for d
    using that ws_leave(1,3) e entry_remove(3) [of "hw_user s c" c "hw_hub s"] by (intro abs_cong) simp_all
  moreover have "active s c" using ws_leave(2) by (simp add: active_def)
  then obtain b where b: "abs_subscriber s c = Some b" "sub_user b = hw_user s c" "sub_got b = hw_sent s c"
    using abs_active by simp
  moreover have "abs_subscriber t c = Some (lose 0 b)"
    using ws_leave(1) b by (simp add: abs_gone lose_def)
  ultimately show ?thesis using refine_lose by blast
next
  case (pub_lock u p ts h)
  then show ?thesis using refine_publish [OF assms(1) pub_lock(2,3,1)] by blast
next
  case (pub_send u p c ts fs ok h)
  then show ?thesis using refine_send [OF assms(1) pub_send(2,3,1)] by blast
next
  case (pub_done u p fs)
  then show ?thesis using refine_done [OF assms(1) pub_done(2,1)] by blast
qed

text \<open>C5: the hub with its connections and its subscriber implements the simple picture: every step
  that can happen, in any order, either changes nothing for the subscribers or is a step of theirs:
  a subscriber joins, receives the first message it is owed, is owed one more published message, or
  is lost.\<close>

theorem hub_refines_subscribers:
  assumes "reach hub_init (hub_step lim) s" and "hub_step lim s t"
  shows "abs_subscriber t = abs_subscriber s \<or> subscriber_step (abs_subscriber s) (abs_subscriber t)"
  by (rule refine_step [OF hub.inv_reach [OF assms(1)] assms(2)])

lemma hub_refines_subscribers_witness:
  "\<exists>s t. reach hub_init (hub_step \<lparr> hl_max_conn_per_user = 1, hl_max_conn_global = 1, hl_send_buffer = 1 \<rparr>) s
     \<and> (abs_subscriber t = abs_subscriber s \<or> subscriber_step (abs_subscriber s) (abs_subscriber t))
     \<and> abs_subscriber t ''c'' \<noteq> None"
proof -
  let ?lim = "\<lparr> hl_max_conn_per_user = 1, hl_max_conn_global = 1, hl_send_buffer = 1 \<rparr>"
  define s where "s = \<lparr> hw_hub = hub_new, hw_user = (\<lambda>_. []), hw_phase = (\<lambda>_. Unused), hw_sent = (\<lambda>_. []), hw_pub = PubIdle \<rparr>"
  obtain r h where r: "register_connection ?lim ''u'' ''c'' (hw_hub s) = (r, h)"
    by (cases "register_connection ?lim ''u'' ''c'' (hw_hub s)")
  have "r = Inr ''c''"
    using r by (simp add: register_connection_def s_def hub_new_def total_connections_def connections_of_def Let_def)
  with r have j: "register_connection ?lim ''u'' ''c'' (hw_hub s) = (Inr ''c'', h)" by simp
  have s: "reach hub_init (hub_step ?lim) s" by (rule reach_init) (simp add: hub_init_def s_def)
  have "hw_phase s ''c'' = Unused" by (simp add: s_def)
  from ws_join [OF this j] obtain t where t: "hub_step ?lim s t" "hw_phase t ''c'' = Opening" by simp
  from hub_refines_subscribers [OF s t(1)] s t(2) show ?thesis
    by (intro exI [of _ s] exI [of _ t]) (simp add: abs_subscriber_def)
qed

section \<open>Capacity\<close>

lemma total_set:
  "total_connections (AList.update u cs us) + length (case map_of us u of None \<Rightarrow> [] | Some ds \<Rightarrow> ds)
     = total_connections us + length cs"
  by (induction us) (auto simp: total_connections_def)

lemma total_delete: "total_connections (AList.delete u us) \<le> total_connections us"
  by (induction us) (auto simp: total_connections_def)

definition within_limits :: "hub_limits \<Rightarrow> realtime_hub \<Rightarrow> bool" where
  "within_limits lim h \<longleftrightarrow> total_connections (rh_users h) \<le> hl_max_conn_global lim
     \<and> (\<forall>u. length (connections_of h u) \<le> hl_max_conn_per_user lim)"

lemma within_limits_channels [simp]:
  "within_limits lim (h\<lparr>rh_queue := q\<rparr>) = within_limits lim h"
  "within_limits lim (h\<lparr>rh_receiver := r\<rparr>) = within_limits lim h"
  by (simp_all add: within_limits_def)

lemma within_limits_set:
  assumes "within_limits lim h" and "length cs \<le> length (connections_of h u)"
  shows "within_limits lim (set_connections u cs h)" and "within_limits lim (put_back u cs h)"
proof -
  have "total_connections (AList.update u cs (rh_users h)) \<le> total_connections (rh_users h)"
    using total_set [of u cs "rh_users h"] assms(2) by (simp add: connections_of_def)
  then show 1: "within_limits lim (set_connections u cs h)"
    using assms unfolding within_limits_def connections_of_set
    by (auto simp: set_connections_def intro: order_trans)
  show "within_limits lim (put_back u cs h)"
  proof (cases "cs = []")
    case True
    then show ?thesis
      using assms(1) total_delete [of u "rh_users h"] unfolding within_limits_def connections_of_put_back
      by (auto simp: put_back_def intro: order_trans)
  qed (use 1 in \<open>simp add: put_back_def\<close>)
qed

lemma length_update: "length (AList.update c e cs) \<le> Suc (length cs)"
  by (induction cs) auto

lemma within_limits_register:
  assumes "within_limits lim h" and "register_connection lim u c h = (r, h')"
  shows "within_limits lim h'"
proof -
  let ?cs = "connections_of h u"
  have w: "within_limits lim (set_connections u ?cs h)" using within_limits_set(1) [OF assms(1), of ?cs u] by simp
  show ?thesis
  proof (cases "total_connections (rh_users h) < hl_max_conn_global lim \<and> length ?cs < hl_max_conn_per_user lim")
    case False
    then show ?thesis using assms w by (auto simp: register_connection_def Let_def split: if_splits)
  next
    case True
    let ?e = "\<lparr> ce_bootstrapping = True, ce_pending = [] \<rparr>"
    let ?h = "set_connections u (AList.update c ?e ?cs) (set_connections u ?cs h)"
    have l: "length (AList.update c ?e ?cs) \<le> Suc (length ?cs)" by (rule length_update)
    have t: "total_connections (AList.update u (AList.update c ?e ?cs) (AList.update u ?cs (rh_users h)))
        \<le> Suc (total_connections (rh_users h))"
      using total_set [of u "AList.update c ?e ?cs" "AList.update u ?cs (rh_users h)"]
        total_set [of u ?cs "rh_users h"] l by (simp add: update_conv' connections_of_def)
    have "within_limits lim ?h"
      using assms(1) True l t unfolding within_limits_def connections_of_set by (auto simp: set_connections_def)
    moreover have "h' = ?h\<lparr>rh_queue := (rh_queue h)(c := []), rh_receiver := (rh_receiver h)(c := True)\<rparr>"
      using assms(2) True by (auto simp: register_connection_def Let_def split: if_splits)
    ultimately show ?thesis by simp
  qed
qed

lemma length_map_filter: "length (List.map_filter f xs) \<le> length xs"
  by (induction xs) (auto simp: map_filter_simps split: option.split)

lemma length_update_present: "map_of cs c \<noteq> None \<Longrightarrow> length (AList.update c e cs) = length cs"
  by (induction cs) auto

lemma length_delete: "length (AList.delete c cs) \<le> length cs"
  by (induction cs) auto

lemma within_limits_step:
  assumes "within_limits lim (hw_hub s)" and "hub_step lim s t"
  shows "within_limits lim (hw_hub t)"
  using assms(2)
proof (cases rule: hub_step.cases)
  case (ws_bootstrapped c ms h)
  then show ?thesis
    using assms(1)
    by (auto simp: mark_bootstrapped_and_take_pending_def connections_of_Some length_update_present
        split: option.splits intro!: within_limits_set(1))
next
  case (ws_leave c h)
  then show ?thesis
    using assms(1)
    by (auto simp: remove_connection_def connections_of_Some length_delete
        split: option.splits intro!: within_limits_set(2))
next
  case (pub_lock u p ts h)
  then show ?thesis
    using assms(1)
    by (auto simp: fanout_lock_def connections_of_Some length_map_filter
        split: option.splits intro!: within_limits_set(2))
next
  case (pub_send u p c ts fs ok h)
  then show ?thesis using assms(1) by (auto simp: try_send_def split: if_splits)
next
  case (pub_done u p fs)
  then show ?thesis
    using assms(1)
    by (auto simp: remove_failed_def connections_of_Some split: option.splits intro!: within_limits_set(2))
qed (use assms(1) within_limits_register in auto)

interpretation hub_capacity: inductive_invariant hub_init "hub_step lim" "\<lambda>s. within_limits lim (hw_hub s)"
proof unfold_locales
  fix s :: hub_world assume "hub_init s"
  then show "within_limits lim (hw_hub s)"
    by (simp add: hub_init_def hub_new_def within_limits_def total_connections_def connections_of_def)
qed (rule within_limits_step)

text \<open>However connections come and go, there are never more than the limits allow, in total and
  for a user.\<close>

theorem hub_stays_within_limits:
  assumes "reach hub_init (hub_step lim) s"
  shows "total_connections (rh_users (hw_hub s)) \<le> hl_max_conn_global lim
     \<and> length (connections_of (hw_hub s) u) \<le> hl_max_conn_per_user lim"
  using hub_capacity.inv_reach [OF assms] by (simp add: within_limits_def)

lemma hub_stays_within_limits_witness:
  "\<exists>s. reach hub_init (hub_step \<lparr> hl_max_conn_per_user = 1, hl_max_conn_global = 1, hl_send_buffer = 1 \<rparr>) s
     \<and> total_connections (rh_users (hw_hub s)) \<le> 1"
proof -
  let ?s = "\<lparr> hw_hub = hub_new, hw_user = (\<lambda>_. []), hw_phase = (\<lambda>_. Unused), hw_sent = (\<lambda>_. []), hw_pub = PubIdle \<rparr> :: hub_world"
  have s: "reach hub_init (hub_step \<lparr> hl_max_conn_per_user = 1, hl_max_conn_global = 1, hl_send_buffer = 1 \<rparr>) ?s"
    by (rule reach_init) (simp add: hub_init_def)
  from hub_stays_within_limits [OF s] s show ?thesis by auto
qed

end
