(* ===== verification/RateLimit.thy ===== *)
theory RateLimit
  imports App
begin

text \<open>
  The rate limiters: \<^verbatim>\<open>services/rate_limiter.rs\<close> (a counter per key and window in Valkey)
  and \<^verbatim>\<open>middleware/rate_limit.rs\<close> (attempts per key in memory). The contract both share is
  the locale \<open>windowed_counter\<close>: within a window exactly the first requests up to the limit
  pass. The last section lets concurrent requests interleave between the \<^verbatim>\<open>GET\<close> and the
  \<^verbatim>\<open>INCR\<close> of the Valkey limiter, where the limit can be overrun.
\<close>

section \<open>The Valkey limiter\<close>

text \<open>
  An answer \<open>Inr (Inr remaining)\<close> allows the action, \<open>Inr (Inl count)\<close> refuses it. With the
  bypass set nothing is read or written.
\<close>

definition u64_max :: "64 word" where
  "u64_max = - 1"

definition check_rate :: "bool \<Rightarrow> string \<Rightarrow> 64 word \<Rightarrow> (64 word + 64 word) io" where
  "check_rate bypass key max_count =
     (if bypass then returnOk (Inr u64_max)
      else catchE get_conn
        (\<lambda>_. returnOk (Inr max_count))
        (\<lambda>_. bindE (kv_get_u64 key) (\<lambda>current.
           let count = case current of None \<Rightarrow> 0 | Some n \<Rightarrow> n in
           if max_count \<le> count then returnOk (Inl count)
           else returnOk (Inr (max_count - count - 1)))))"

text \<open>The reply of \<^verbatim>\<open>INCRBY\<close> read as \<open>u64\<close>: a negative count is a conversion error.\<close>

definition kv_incr_u64 :: "string \<Rightarrow> int \<Rightarrow> 64 word io" where
  "kv_incr_u64 key n =
     bindE (kv_incr key n) (\<lambda>i.
       case to_u64 i of None \<Rightarrow> throwErr RedisError | Some c \<Rightarrow> returnOk c)"

definition increment_by :: "bool \<Rightarrow> string \<Rightarrow> 64 word \<Rightarrow> nat \<Rightarrow> 64 word io" where
  "increment_by bypass key amount window_secs =
     (if bypass then returnOk 0
      else catchE get_conn
        (\<lambda>_. returnOk 0)
        (\<lambda>_. bindE (kv_incr_u64 key (sint amount)) (\<lambda>new_count.
           if new_count = amount
           then bindE (kv_expire key (int window_secs)) (\<lambda>_. returnOk new_count)
           else returnOk new_count)))"

definition increment :: "bool \<Rightarrow> string \<Rightarrow> nat \<Rightarrow> 64 word io" where
  "increment bypass key window_secs = increment_by bypass key 1 window_secs"

definition incr_and_expire :: "string \<Rightarrow> 64 word \<Rightarrow> nat \<Rightarrow> (64 word + 64 word) io" where
  "incr_and_expire key max_count window_secs =
     bindE (kv_incr_u64 key 1) (\<lambda>new_count.
       bindE (if new_count = 1 then kv_expire key (int window_secs) else returnOk ())
         (\<lambda>_. returnOk (Inr (max_count - new_count))))"

definition check_and_increment_conn ::
  "string \<Rightarrow> 64 word \<Rightarrow> nat \<Rightarrow> (64 word + 64 word) io" where
  "check_and_increment_conn key max_count window_secs =
     bindE (kv_get_u64 key) (\<lambda>current.
       let count = case current of None \<Rightarrow> 0 | Some n \<Rightarrow> n in
       if max_count \<le> count then returnOk (Inl count)
       else incr_and_expire key max_count window_secs)"

definition check_and_increment ::
  "bool \<Rightarrow> string \<Rightarrow> 64 word \<Rightarrow> nat \<Rightarrow> (64 word + 64 word) io" where
  "check_and_increment bypass key max_count window_secs =
     (if bypass then returnOk (Inr u64_max)
      else catchE get_conn
        (\<lambda>_. returnOk (Inr max_count))
        (\<lambda>_. check_and_increment_conn key max_count window_secs))"

definition check_and_increment_strict ::
  "bool \<Rightarrow> string \<Rightarrow> 64 word \<Rightarrow> nat \<Rightarrow> (64 word + 64 word) io" where
  "check_and_increment_strict bypass key max_count window_secs =
     (if bypass then returnOk (Inr u64_max)
      else bindE get_conn (\<lambda>_. check_and_increment_conn key max_count window_secs))"

definition get_count :: "bool \<Rightarrow> string \<Rightarrow> 64 word io" where
  "get_count bypass key =
     (if bypass then returnOk 0
      else catchE get_conn
        (\<lambda>_. returnOk 0)
        (\<lambda>_. bindE (kv_get_u64 key) (\<lambda>count.
           returnOk (case count of None \<Rightarrow> 0 | Some n \<Rightarrow> n))))"

section \<open>Keys\<close>

definition upload_bytes_key :: "uuid \<Rightarrow> string" where
  "upload_bytes_key user_id = ''ratelimit:upload:bytes:'' @ user_id"

definition feed_rpm_key :: "uuid \<Rightarrow> string" where
  "feed_rpm_key user_id = ''ratelimit:feed:rpm:'' @ user_id"

definition like_actions_rpm_key :: "uuid \<Rightarrow> string" where
  "like_actions_rpm_key user_id = ''ratelimit:likes:rpm:'' @ user_id"

definition ip_rpm_key :: "string \<Rightarrow> string" where
  "ip_rpm_key ip = ''ratelimit:ip:rpm:'' @ ip"

definition ws_connect_ip_key :: "string \<Rightarrow> string" where
  "ws_connect_ip_key ip = ''ratelimit:ws:connect:ip:'' @ ip"

definition ws_connect_user_key :: "uuid \<Rightarrow> string" where
  "ws_connect_user_key user_id = ''ratelimit:ws:connect:user:'' @ user_id"

definition username_signup_ip_key :: "string \<Rightarrow> string" where
  "username_signup_ip_key ip = ''ratelimit:username:signup:ip:'' @ ip"

definition username_signup_ticket_key :: "string \<Rightarrow> string" where
  "username_signup_ticket_key ticket = ''ratelimit:username:signup:ticket:'' @ ticket"

definition username_update_user_key :: "uuid \<Rightarrow> string" where
  "username_update_user_key user_id = ''ratelimit:username:update:user:'' @ user_id"

definition keyboard_search_user_rpm_key :: "uuid \<Rightarrow> string" where
  "keyboard_search_user_rpm_key user_id = ''ratelimit:keyboard:search:user:'' @ user_id"

definition keyboard_search_session_rpm_key :: "uuid \<Rightarrow> string" where
  "keyboard_search_session_rpm_key jti = ''ratelimit:keyboard:search:session:'' @ jti"

definition keyboard_send_user_rpm_key :: "uuid \<Rightarrow> string" where
  "keyboard_send_user_rpm_key user_id = ''ratelimit:keyboard:send:user:'' @ user_id"

definition keyboard_send_session_rpm_key :: "uuid \<Rightarrow> string" where
  "keyboard_send_session_rpm_key jti = ''ratelimit:keyboard:send:session:'' @ jti"

definition keyboard_nonce_key :: "uuid \<Rightarrow> string \<Rightarrow> string" where
  "keyboard_nonce_key user_id nonce = ''keyboard:nonce:'' @ user_id @ '':'' @ nonce"

definition read_only_status_user_key :: "uuid \<Rightarrow> string" where
  "read_only_status_user_key user_id = ''ratelimit:system:read_only_status:user:'' @ user_id"

definition maintenance_status_user_key :: "uuid \<Rightarrow> string" where
  "maintenance_status_user_key user_id = ''ratelimit:system:maintenance_status:user:'' @ user_id"

definition onboarding_status_user_key :: "uuid \<Rightarrow> string" where
  "onboarding_status_user_key user_id = ''ratelimit:onboarding:status:user:'' @ user_id"

definition onboarding_complete_user_key :: "uuid \<Rightarrow> string" where
  "onboarding_complete_user_key user_id = ''ratelimit:onboarding:complete:user:'' @ user_id"

definition report_create_user_key :: "uuid \<Rightarrow> string" where
  "report_create_user_key user_id = ''ratelimit:abuse:report:create:user:'' @ user_id"

definition report_create_ip_key :: "string \<Rightarrow> string" where
  "report_create_ip_key ip = ''ratelimit:abuse:report:create:ip:'' @ ip"

section \<open>The in-memory limiter\<close>

type_synonym attempts = "(string \<times> (32 word \<times> time)) list"

record otc_limiter =
  ol_attempts :: attempts
  ol_max_attempts :: "32 word"
  ol_window_duration :: int

definition otc_limiter_new :: "32 word \<Rightarrow> nat \<Rightarrow> otc_limiter" where
  "otc_limiter_new max_attempts window_seconds =
     \<lparr> ol_attempts = [], ol_max_attempts = max_attempts,
       ol_window_duration = secs (int window_seconds) \<rparr>"

definition window_entry :: "time \<Rightarrow> string \<Rightarrow> otc_limiter \<Rightarrow> 32 word \<times> time" where
  "window_entry now key l =
     (let entry = (case map_of (ol_attempts l) key of None \<Rightarrow> (0, now) | Some e \<Rightarrow> e) in
      if now - snd entry > ol_window_duration l then (0, now) else entry)"

definition check_rate_limit ::
  "time \<Rightarrow> string \<Rightarrow> otc_limiter \<Rightarrow> (string + unit) \<times> otc_limiter" where
  "check_rate_limit now key l =
     (case window_entry now key l of (count, start) \<Rightarrow>
        if ol_max_attempts l \<le> count
        then (Inl ''Rate limit exceeded'',
              l\<lparr>ol_attempts := AList.update key (count, start) (ol_attempts l)\<rparr>)
        else (Inr (), l\<lparr>ol_attempts := AList.update key (count + 1, start) (ol_attempts l)\<rparr>))"

definition cleanup :: "time \<Rightarrow> otc_limiter \<Rightarrow> otc_limiter" where
  "cleanup now l =
     l\<lparr>ol_attempts := filter (\<lambda>(_, _, start). now - start < ol_window_duration l * 2)
                        (ol_attempts l)\<rparr>"

section \<open>The contract of a limiter\<close>

text \<open>
  \<open>attempt s\<close> answers whether the request passes, \<open>count s\<close> is the number the window has
  counted. In the states \<open>ok\<close>, exactly the requests below the limit pass, each of them
  counted once.
\<close>

fun attempts_n :: "('s \<Rightarrow> bool \<times> 's) \<Rightarrow> nat \<Rightarrow> 's \<Rightarrow> nat \<times> 's" where
  "attempts_n attempt 0 s = (0, s)"
| "attempts_n attempt (Suc n) s =
     (case attempts_n attempt n s of (k, s') \<Rightarrow>
        (case attempt s' of (b, s'') \<Rightarrow> (if b then Suc k else k, s'')))"

locale windowed_counter =
  fixes ok :: "'s \<Rightarrow> bool" and count :: "'s \<Rightarrow> nat" and limit :: nat
    and attempt :: "'s \<Rightarrow> bool \<times> 's"
  assumes attempt_ok: "ok s \<Longrightarrow> ok (snd (attempt s))"
    and attempt_admits: "ok s \<Longrightarrow> fst (attempt s) \<longleftrightarrow> count s < limit"
    and attempt_counts: "ok s \<Longrightarrow> count (snd (attempt s)) = (if count s < limit then count s + 1 else count s)"
begin

lemma attempts_n_state:
  "ok s \<Longrightarrow> ok (snd (attempts_n attempt n s)) \<and> count (snd (attempts_n attempt n s)) = count s + fst (attempts_n attempt n s)
     \<and> fst (attempts_n attempt n s) = min n (limit - count s)"
proof (induction n)
  case (Suc n)
  obtain k s' where r: "attempts_n attempt n s = (k, s')" by fastforce
  obtain b s'' where a: "attempt s' = (b, s'')" by fastforce
  from Suc r have s': "ok s'" "count s' = count s + k" "k = min n (limit - count s)" by auto
  from attempt_ok [OF s'(1)] attempt_admits [OF s'(1)] attempt_counts [OF s'(1)] a
  have "ok s''" "b \<longleftrightarrow> count s' < limit" "count s'' = (if b then count s' + 1 else count s')" by auto
  with s' r a show ?case by auto
qed simp

lemma admitted: "ok s \<Longrightarrow> fst (attempts_n attempt n s) = min n (limit - count s)"
  using attempts_n_state by blast

end

subsection \<open>The in-memory limiter at one instant\<close>

definition otc_count :: "time \<Rightarrow> string \<Rightarrow> otc_limiter \<Rightarrow> nat" where
  "otc_count now key l = unat (fst (window_entry now key l))"

definition otc_attempt :: "time \<Rightarrow> string \<Rightarrow> otc_limiter \<Rightarrow> bool \<times> otc_limiter" where
  "otc_attempt now key l =
     (case check_rate_limit now key l of (r, l') \<Rightarrow> (r = Inr (), l'))"

definition otc_settings :: "32 word \<Rightarrow> int \<Rightarrow> otc_limiter \<Rightarrow> bool" where
  "otc_settings m d l \<longleftrightarrow> ol_max_attempts l = m \<and> ol_window_duration l = d \<and> 0 \<le> d"

lemma window_entry_update:
  "now - start \<le> ol_window_duration l
     \<Longrightarrow> window_entry now key (l\<lparr>ol_attempts := AList.update key (c, start) (ol_attempts l)\<rparr>)
         = (c, start)"
  by (simp add: window_entry_def update_conv')

lemma window_entry_start:
  "0 \<le> ol_window_duration l \<Longrightarrow> now - snd (window_entry now key l) \<le> ol_window_duration l"
  by (auto simp: window_entry_def Let_def split: option.splits)

lemma check_rate_limit_settings:
  "otc_settings m d l \<Longrightarrow> otc_settings m d (snd (check_rate_limit now key l))"
  by (auto simp: check_rate_limit_def otc_settings_def split: prod.splits)

lemma check_rate_limit_fst:
  "fst (check_rate_limit now key l) = Inr () \<longleftrightarrow> fst (window_entry now key l) < ol_max_attempts l"
  by (auto simp: check_rate_limit_def not_le split: prod.splits)

lemma unat_Suc_below: "(c :: 'a :: len word) < m \<Longrightarrow> unat (c + 1) = unat c + 1"
proof -
  assume "c < m"
  then have "c \<noteq> - 1" using word_order.extremum_strict by blast
  then have "1 + c \<noteq> 0" by (metis add_eq_0_iff)
  then show ?thesis by (simp add: unatSuc add.commute)
qed

lemma check_rate_limit_count:
  assumes "otc_settings m d l"
  shows "otc_count now key (snd (check_rate_limit now key l))
           = (if otc_count now key l < unat m then otc_count now key l + 1 else otc_count now key l)"
proof -
  obtain c st where e: "window_entry now key l = (c, st)" by fastforce
  have st: "now - st \<le> ol_window_duration l"
    using window_entry_start [of l now key] assms e by (simp add: otc_settings_def)
  show ?thesis
    using assms e st window_entry_update [OF st]
    by (auto simp: check_rate_limit_def otc_count_def otc_settings_def word_le_nat_alt unat_Suc_below
        word_less_nat_alt not_le)
qed

interpretation otc_limit: windowed_counter "otc_settings m d" "otc_count now key" "unat m"
  "otc_attempt now key"
  for m d now key
proof
  fix l assume ok: "otc_settings m d l"
  show "otc_settings m d (snd (otc_attempt now key l))"
    using check_rate_limit_settings [OF ok, of now key]
    by (cases "check_rate_limit now key l") (simp add: otc_attempt_def)
  show "fst (otc_attempt now key l) \<longleftrightarrow> otc_count now key l < unat m"
    using ok check_rate_limit_fst [of now key l]
    by (auto simp: otc_attempt_def otc_count_def otc_settings_def word_less_nat_alt split: prod.splits)
  show "otc_count now key (snd (otc_attempt now key l))
          = (if otc_count now key l < unat m then otc_count now key l + 1 else otc_count now key l)"
    using check_rate_limit_count [OF ok, of now key]
    by (cases "check_rate_limit now key l") (simp add: otc_attempt_def)
qed

subsection \<open>The Valkey limiter, one request after the other\<close>

definition counter_value :: "kv_value option \<Rightarrow> nat option" where
  "counter_value v =
     (case v of None \<Rightarrow> Some 0
      | Some (KInt i) \<Rightarrow> if 0 \<le> i \<and> i < 2 ^ 63 then Some (nat i) else None
      | Some _ \<Rightarrow> None)"

definition redis_count :: "string \<Rightarrow> world \<Rightarrow> nat" where
  "redis_count key w = (case counter_value (kv_live w key) of None \<Rightarrow> 0 | Some n \<Rightarrow> n)"

definition redis_ok :: "string \<Rightarrow> 64 word \<Rightarrow> nat \<Rightarrow> world \<Rightarrow> bool" where
  "redis_ok key m window w \<longleftrightarrow>
     faults w = [] \<and> 0 < window \<and> unat m < 2 ^ 63 \<and> counter_value (kv_live w key) \<noteq> None"

definition redis_attempt :: "string \<Rightarrow> 64 word \<Rightarrow> nat \<Rightarrow> world \<Rightarrow> bool \<times> world" where
  "redis_attempt key m window w =
     (case check_and_increment False key m window w of (r, w') \<Rightarrow>
        (case r of Inr (Inr _) \<Rightarrow> True | _ \<Rightarrow> False, w'))"

lemma kv_expiry_later: "kv_expiry w k = Some t \<Longrightarrow> clock w < t"
  by (auto simp: kv_expiry_def kv_live_def bind_eq_Some_conv split: option.splits if_splits)

lemma kv_live_put_kept [simp]: "kv_live (kv_put k v (kv_expiry w k) w) k = Some v"
  using kv_expiry_later [of w k] by (simp add: kv_live_put split: option.split)

lemma unat_of_nat_small: "n < 2 ^ 63 \<Longrightarrow> unat (of_nat n :: 64 word) = n"
  by (simp add: unsigned_of_nat take_bit_nat_eq_self)

lemma counter_value_Some:
  "counter_value v = Some n \<longleftrightarrow> v = None \<and> n = 0 \<or> v = Some (KInt (int n)) \<and> n < 2 ^ 63"
proof (cases v)
  case (Some x)
  then show ?thesis by (cases x) (auto simp: counter_value_def)
qed (auto simp: counter_value_def)

lemma kv_get_u64_counter:
  assumes "faults w = []" and "counter_value (kv_live w key) = Some n"
  obtains r where "kv_get_u64 key w = (Inr r, w)" and "(case r of None \<Rightarrow> 0 | Some n \<Rightarrow> n) = (of_nat n :: 64 word)"
proof (cases "kv_live w key")
  case None
  with assms that [of None] show ?thesis by (simp add: kv_get_u64_def counter_value_def)
next
  case (Some v)
  with assms(2) have "v = KInt (int n)" "int n < 2 ^ 64" by (auto simp: counter_value_Some)
  with Some assms(1) that [of "Some (of_nat n)"] show ?thesis
    by (simp add: kv_get_u64_def to_u64_def)
qed

lemma kv_incr_u64_counter:
  assumes "faults w = []" and "counter_value (kv_live w key) = Some n" and "n + 1 < 2 ^ 63"
  shows "kv_incr_u64 key 1 w
           = (Inr (of_nat (n + 1)), kv_put key (KInt (int n + 1)) (kv_expiry w key) w)"
proof -
  have "incr_value 1 (kv_live w key) = Some (int n + 1)"
    using assms(2) by (auto simp: counter_value_Some incr_value_def)
  with assms(1,3) show ?thesis
    by (simp add: kv_incr_u64_def kv_incr_def bindE_def to_u64_def returnOk_def add.commute)
qed

lemma check_and_increment_conn_eval:
  assumes "redis_ok key m window w"
  shows "check_and_increment_conn key m window w =
    (let n = redis_count key w in
     if unat m \<le> n then (Inr (Inl (of_nat n)), w)
     else (let w' = kv_put key (KInt (int n + 1)) (kv_expiry w key) w in
           (Inr (Inr (m - of_nat (n + 1))),
            if n = 0 then kv_put key (KInt 1) (Some (clock w + secs (int window))) w' else w')))"
proof -
  from assms obtain n where n: "counter_value (kv_live w key) = Some n" and f: "faults w = []"
    by (auto simp: redis_ok_def)
  then have c: "redis_count key w = n" by (simp add: redis_count_def)
  obtain r where r: "kv_get_u64 key w = (Inr r, w)"
    and rn: "(case r of None \<Rightarrow> 0 | Some n \<Rightarrow> n) = (of_nat n :: 64 word)"
    using kv_get_u64_counter [OF f n] by blast
  have "n < 2 ^ 63" using n by (auto simp: counter_value_Some)
  then have u: "unat (of_nat n :: 64 word) = n" by (rule unat_of_nat_small)
  then have le: "m \<le> (of_nat n :: 64 word) \<longleftrightarrow> unat m \<le> n" by (simp only: word_le_nat_alt u)
  show ?thesis
  proof (cases "unat m \<le> n")
    case True
    with c r rn le show ?thesis
      by (simp add: check_and_increment_conn_def bindE_def returnOk_def Let_def)
  next
    case False
    then have n1: "n + 1 < 2 ^ 63" using assms by (simp add: redis_ok_def)
    then have u1: "unat (of_nat (n + 1) :: 64 word) = n + 1" by (rule unat_of_nat_small)
    have one: "(of_nat (n + 1) :: 64 word) = 1 \<longleftrightarrow> n = 0"
      using u1 by (metis One_nat_def add_0 add_cancel_right_left of_nat_1 unat_1)
    let ?w = "kv_put key (KInt (int n + 1)) (kv_expiry w key) w"
    have e: "kv_expire key (int window) ?w
               = (Inr (), kv_put key (KInt (int n + 1)) (Some (clock w + secs (int window))) ?w)"
      using f assms by (simp add: kv_expire_def redis_ok_def)
    show ?thesis
      using False c r rn le one e kv_incr_u64_counter [OF f n n1]
      by (cases "n = 0")
        (simp_all add: check_and_increment_conn_def incr_and_expire_def bindE_def returnOk_def Let_def)
  qed
qed

lemma check_and_increment_eval:
  "faults w = [] \<Longrightarrow> check_and_increment False key m window w = check_and_increment_conn key m window w"
  by (simp add: check_and_increment_def catchE_def)

lemma check_and_increment_strict_eval:
  "faults w = [] \<Longrightarrow> check_and_increment_strict False key m window w
     = check_and_increment_conn key m window w"
  by (simp add: check_and_increment_strict_def bindE_def)

interpretation redis_limit: windowed_counter "redis_ok key m window" "redis_count key" "unat m"
  "redis_attempt key m window"
  for key m window
proof
  fix w assume ok: "redis_ok key m window w"
  let ?n = "redis_count key w"
  let ?w = "kv_put key (KInt (int ?n + 1)) (kv_expiry w key) w"
  let ?w' = "if ?n = 0 then kv_put key (KInt 1) (Some (clock w + secs (int window))) ?w else ?w"
  have f: "faults w = []" and win: "0 < window" using ok by (simp_all add: redis_ok_def)
  have a: "redis_attempt key m window w
             = (if unat m \<le> ?n then (False, w) else (True, ?w'))"
    using check_and_increment_conn_eval [OF ok]
    by (simp add: redis_attempt_def check_and_increment_eval [OF f] Let_def)
  have live: "kv_live ?w' key = Some (KInt (int ?n + 1))"
  proof (cases "?n = 0")
    case True
    with win kv_live_put_fresh [of "int window" key "KInt 1" ?w] show ?thesis by simp
  qed simp
  have "faults ?w' = []" using f by simp
  with live ok have ok': "\<not> unat m \<le> ?n \<Longrightarrow> redis_ok key m window ?w'"
    by (auto simp: redis_ok_def counter_value_def)
  show "redis_ok key m window (snd (redis_attempt key m window w))"
    using a ok ok' by simp
  show "fst (redis_attempt key m window w) \<longleftrightarrow> ?n < unat m"
    using a by (simp add: not_le)
  have "\<not> unat m \<le> ?n \<Longrightarrow> redis_count key ?w' = ?n + 1"
    using live ok by (simp add: redis_count_def counter_value_def redis_ok_def)
  with a show "redis_count key (snd (redis_attempt key m window w))
                 = (if ?n < unat m then ?n + 1 else ?n)"
    by (simp add: not_le)
qed

section \<open>Concurrent requests\<close>

text \<open>
  Several requests of one key, each doing its \<^verbatim>\<open>GET\<close> and its \<^verbatim>\<open>INCR\<close> as separate
  commands. A request that read \<open>count\<close> below the limit is \<^term>\<open>Counting\<close> until its increment;
  \<^term>\<open>Admitted\<close> carries the \<^verbatim>\<open>max_count - new_count\<close> it answers with.
\<close>

datatype rate_pc = Ready | Counting | Admitted "64 word" | Refused "64 word"

record rate_race =
  rr_counter :: "64 word"
  rr_pcs :: "rate_pc list"

inductive rate_step :: "64 word \<Rightarrow> rate_race \<Rightarrow> rate_race \<Rightarrow> bool" for m :: "64 word" where
  rate_get: "\<lbrakk> i < length (rr_pcs s); rr_pcs s ! i = Ready;
      pc = (if m \<le> rr_counter s then Refused (rr_counter s) else Counting) \<rbrakk>
    \<Longrightarrow> rate_step m s (s\<lparr>rr_pcs := (rr_pcs s)[i := pc]\<rparr>)"
| rate_incr: "\<lbrakk> i < length (rr_pcs s); rr_pcs s ! i = Counting;
      n = rr_counter s + 1 \<rbrakk>
    \<Longrightarrow> rate_step m s (s\<lparr>rr_counter := n, rr_pcs := (rr_pcs s)[i := Admitted (m - n)]\<rparr>)"
| rate_again: "\<lbrakk> i < length (rr_pcs s); rr_pcs s ! i \<notin> {Ready, Counting} \<rbrakk>
    \<Longrightarrow> rate_step m s (s\<lparr>rr_pcs := (rr_pcs s)[i := Ready]\<rparr>)"

definition rate_init :: "nat \<Rightarrow> rate_race \<Rightarrow> bool" where
  "rate_init k s \<longleftrightarrow> s = \<lparr> rr_counter = 0, rr_pcs = replicate k Ready \<rparr>"

definition counting :: "rate_race \<Rightarrow> nat" where
  "counting s = length (filter (\<lambda>pc. pc = Counting) (rr_pcs s))"

definition rate_inv :: "nat \<Rightarrow> 64 word \<Rightarrow> rate_race \<Rightarrow> bool" where
  "rate_inv k m s \<longleftrightarrow> length (rr_pcs s) = k
     \<and> unat (rr_counter s) + counting s \<le> unat m + (k - 1)
     \<and> (unat (rr_counter s) + counting s \<noteq> 0 \<longrightarrow> 0 < unat m)"

lemma length_filter_update:
  assumes "i < length xs"
  shows "length (filter P (xs[i := y])) + (if P (xs ! i) then 1 else 0)
           = length (filter P xs) + (if P y then 1 else 0)"
  using assms
proof (induction xs arbitrary: i)
  case (Cons x xs)
  then show ?case by (cases i) (auto split: if_splits)
qed simp

lemma counting_le: "i < length (rr_pcs s) \<Longrightarrow> rr_pcs s ! i \<noteq> Counting
    \<Longrightarrow> counting s \<le> length (rr_pcs s) - 1"
proof -
  assume i: "i < length (rr_pcs s)" "rr_pcs s ! i \<noteq> Counting"
  then have "length (filter (\<lambda>pc. pc = Counting) (rr_pcs s)) < length (rr_pcs s)"
    by (intro length_filter_less [of "rr_pcs s ! i"]) auto
  then show ?thesis by (simp add: counting_def)
qed

lemma rate_inv_step:
  assumes inv: "rate_inv k m s" and step: "rate_step m s t"
    and small: "unat m + k < 2 ^ 64"
  shows "rate_inv k m t"
  using step
proof cases
  case (rate_get i pc)
  then have c: "counting s \<le> k - 1" using inv counting_le [of i s] by (simp add: rate_inv_def)
  have "counting t = (if m \<le> rr_counter s then counting s else Suc (counting s))"
    using length_filter_update [OF rate_get(2), of "\<lambda>pc. pc = Counting" pc] rate_get
    by (simp add: counting_def split: if_splits)
  with rate_get inv c show ?thesis
    by (auto simp: rate_inv_def word_le_nat_alt not_le)
next
  case (rate_incr i n)
  have c: "Suc (counting t) = counting s"
    using length_filter_update [OF rate_incr(2), of "\<lambda>pc. pc = Counting" "Admitted (m - n)"] rate_incr
    by (simp add: counting_def)
  with inv have "unat (rr_counter s) < 2 ^ 64 - 1" using small by (auto simp: rate_inv_def)
  then have "unat (rr_counter t) = unat (rr_counter s) + 1"
    using rate_incr by (simp add: unat_word_ariths)
  with rate_incr inv c show ?thesis by (simp add: rate_inv_def)
next
  case (rate_again i)
  have "counting t = counting s"
    using length_filter_update [OF rate_again(2), of "\<lambda>pc. pc = Counting" Ready] rate_again
    by (simp add: counting_def)
  with rate_again inv show ?thesis by (simp add: rate_inv_def)
qed

inductive_cases rate_step_cases: "rate_step m s t"

text \<open>The bound is claimed for limits that leave room in the 64 bits of the counter.\<close>

definition rate_bounded :: "nat \<Rightarrow> 64 word \<Rightarrow> rate_race \<Rightarrow> bool" where
  "rate_bounded k m s \<longleftrightarrow> (unat m + k < 2 ^ 64 \<longrightarrow> rate_inv k m s)"

interpretation rate_race: inductive_invariant "rate_init k" "rate_step m" "rate_bounded k m"
  for k m
proof
  show "rate_init k s \<Longrightarrow> rate_bounded k m s" for s
    by (auto simp: rate_bounded_def rate_init_def rate_inv_def counting_def)
  show "rate_bounded k m s \<Longrightarrow> rate_step m s t \<Longrightarrow> rate_bounded k m t" for s t
    using rate_inv_step by (auto simp: rate_bounded_def)
qed

lemma overrun_run:
  "reach (rate_init 2) (rate_step 1) \<lparr> rr_counter = 2, rr_pcs = [Admitted 0, Admitted u64_max] \<rparr>"
proof -
  let ?R = "reach (rate_init 2) (rate_step 1)"
  have "?R \<lparr> rr_counter = 0, rr_pcs = [Ready, Ready] \<rparr>"
    by (rule reach_init) (simp add: rate_init_def numeral_2_eq_2)
  from reach_step [OF this rate_get [of 0]]
  have "?R \<lparr> rr_counter = 0, rr_pcs = [Counting, Ready] \<rparr>" by simp
  from reach_step [OF this rate_get [of 1]]
  have "?R \<lparr> rr_counter = 0, rr_pcs = [Counting, Counting] \<rparr>" by simp
  from reach_step [OF this rate_incr [of 0]]
  have "?R \<lparr> rr_counter = 1, rr_pcs = [Admitted 0, Counting] \<rparr>" by simp
  from reach_step [OF this rate_incr [of 1]]
  show ?thesis by (simp add: u64_max_def)
qed

section \<open>Properties\<close>

text \<open>Requests of one key that arrive one after the other in a window with Valkey up are
  admitted exactly until the count reaches the limit: \<open>n\<close> of them admit the smaller of \<open>n\<close>
  and what the window has left.\<close>

theorem sequential_requests_admitted:
  assumes "redis_ok key m window w"
  shows "fst (attempts_n (redis_attempt key m window) n w) = min n (unat m - redis_count key w)"
  using assms by (rule redis_limit.admitted)

lemma sequential_requests_admitted_witness:
  "fst (attempts_n (redis_attempt ''k'' 2 60) 5 world0) = 2"
proof -
  have "redis_ok ''k'' 2 60 world0"
    by (simp add: redis_ok_def world0_def kv_live_def counter_value_def)
  then have "fst (attempts_n (redis_attempt ''k'' 2 60) 5 world0)
               = min 5 (unat (2 :: 64 word) - redis_count ''k'' world0)"
    by (rule sequential_requests_admitted)
  then show ?thesis by (simp add: redis_count_def world0_def kv_live_def counter_value_def)
qed



text \<open>The overrun does happen: with a limit of one and two requests in flight both are
  admitted, and the second is told \<^verbatim>\<open>u64::MAX\<close> remaining requests (the subtraction
  wraps, or panics in a debug build).\<close>

theorem concurrent_overrun_happens:
  "\<exists>s. reach (rate_init 2) (rate_step 1) s \<and> unat (1 :: 64 word) < unat (rr_counter s)
     \<and> rr_pcs s = [Admitted 0, Admitted u64_max]"
  by (intro exI conjI) (rule overrun_run, simp_all)

text \<open>With Valkey unreachable the plain limiter lets the request through with the whole
  limit as remaining, the strict one fails; neither touches the counter.\<close>

theorem limiter_without_valkey:
  assumes "faults w = Not_done # fs"
  shows "check_and_increment False key m window w = (Inr (Inr m), w\<lparr>faults := fs\<rparr>)
    \<and> check_and_increment_strict False key m window w = (Inl RedisError, w\<lparr>faults := fs\<rparr>)"
  using assms
  by (simp add: check_and_increment_def check_and_increment_strict_def catchE_def bindE_def
      returnOk_def get_conn_def external.simps)

lemma limiter_without_valkey_witness:
  "result (check_and_increment False ''k'' 5 60 (world0\<lparr>faults := [Not_done]\<rparr>)) = Inr (Inr 5)"
  using limiter_without_valkey [of "world0\<lparr>faults := [Not_done]\<rparr>" "[]" "''k''" 5 60] by simp

text \<open>The in-memory limiter of the code exchange admits, at one instant, exactly as many
  attempts of a key as its window has left.\<close>

theorem otc_limiter_admits:
  assumes "0 \<le> ol_window_duration l"
  shows "fst (attempts_n (otc_attempt now key) n l)
           = min n (unat (ol_max_attempts l) - unat (fst (window_entry now key l)))"
proof -
  have "otc_settings (ol_max_attempts l) (ol_window_duration l) l"
    using assms by (simp add: otc_settings_def)
  then show ?thesis
    using otc_limit.admitted by (fastforce simp: otc_count_def)
qed

lemma otc_limiter_admits_witness:
  "fst (attempts_n (otc_attempt 0 ''ip'') 7 (otc_limiter_new 5 60)) = 5"
  using otc_limiter_admits [of "otc_limiter_new 5 60" 0 "''ip''" 7]
  by (simp add: otc_limiter_new_def window_entry_def secs_def nanos_per_sec_def)

end
