(* ===== verification/VideoStore.thy ===== *)
theory VideoStore
  imports App
begin

text \<open>
  What the API's handlers and the worker share about videos: reading and updating a row, the
  Valkey caches of public lists (\<^verbatim>\<open>api/src/cache/feed_cache.rs\<close>) and their invalidation, the
  view of a video its owner gets, and the realtime message about a change of its status.
\<close>

section \<open>Rows\<close>

definition find_video :: "uuid \<Rightarrow> video option io" where
  "find_video i = db_read (\<lambda>d. find (\<lambda>v. v_id v = i) (db_videos d))"

text \<open>\<^verbatim>\<open>ActiveModel::update\<close> returns the row as it is after the update.\<close>

definition update_video_row :: "uuid \<Rightarrow> (video \<Rightarrow> video) \<Rightarrow> video io" where
  "update_video_row i f = external (DbError DbConn)
     (\<lambda>w. case update_video i f (db w) of
            Inl e \<Rightarrow> (Inl (DbError e), w)
          | Inr d \<Rightarrow>
              (case find (\<lambda>v. v_id v = i) (db_videos (db w)) of
                 None \<Rightarrow> (Inl (DbError RecordNotUpdated), w)
               | Some v \<Rightarrow> (Inr (f v), w\<lparr>db := d\<rparr>)))"

definition likes_video :: "database \<Rightarrow> uuid \<Rightarrow> uuid \<Rightarrow> bool" where
  "likes_video d u i \<longleftrightarrow> list_ex (\<lambda>l. l_user_id l = u \<and> l_video_id l = i) (db_likes d)"

definition is_liked :: "uuid \<Rightarrow> uuid \<Rightarrow> bool io" where
  "is_liked u i = db_read (\<lambda>d. likes_video d u i)"

text \<open>Being published, for the queries that also accept the older spellings of the state.\<close>

definition published_like :: "config \<Rightarrow> video \<Rightarrow> bool" where
  "published_like cf v \<longleftrightarrow>
     v_status v \<in> {''PUBLISHED'', ''published'', ''COMPLETED'', ''completed''}
     \<or> v_s3_bucket v = cf_minio_bucket_videos cf"

definition eq_ignore_ascii_case :: "string \<Rightarrow> string \<Rightarrow> bool" where
  "eq_ignore_ascii_case s t \<longleftrightarrow> to_ascii_lowercase s = to_ascii_lowercase t"

section \<open>Caches\<close>

text \<open>
  \<^verbatim>\<open>KEYS prefix*\<close> and \<^verbatim>\<open>DEL\<close> of what it found; a failure of either ends it silently.
\<close>

definition drop_keys :: "string \<Rightarrow> (world, 'e, unit) action" where
  "drop_keys p =
     catchE (kv_keys p) (\<lambda>_. returnOk ()) (\<lambda>ks.
       if ks = [] then returnOk () else ignoreE (kv_del_all ks) (returnOk ()))"

definition user_videos_prefix :: "uuid \<Rightarrow> string" where
  "user_videos_prefix u = ''user:'' @ u @ '':videos:''"

definition invalidate_user_video_cache :: "uuid \<Rightarrow> (world, 'e, unit) action" where
  "invalidate_user_video_cache u =
     catchE get_conn (\<lambda>_. returnOk ()) (\<lambda>_. drop_keys (user_videos_prefix u))"

definition worker_invalidate_feed_cache :: "(world, 'e, unit) action" where
  "worker_invalidate_feed_cache =
     catchE get_conn (\<lambda>_. returnOk ()) (\<lambda>_. drop_keys ''feed:'')"

definition feed_cache_key :: "string \<Rightarrow> string option \<Rightarrow> nat \<Rightarrow> string" where
  "feed_cache_key order tag page =
     (case tag of
        Some t \<Rightarrow> ''feed:v4:'' @ order @ '':tag:'' @ t @ '':page:'' @ show_nat page
      | None \<Rightarrow> ''feed:v4:'' @ order @ '':page:'' @ show_nat page)"

definition get_feed_cache ::
  "string \<Rightarrow> string option \<Rightarrow> nat \<Rightarrow> cached_video_feed_item list option io" where
  "get_feed_cache order tag page =
     catchE get_conn (\<lambda>_. returnOk None) (\<lambda>_.
       bindE (kv_get (feed_cache_key order tag page)) (\<lambda>v.
         case v of
           None \<Rightarrow> returnOk None
         | Some x \<Rightarrow>
             okOrE (OtherError ''json'') (as_feed x) (\<lambda>items.
               returnOk (Some (filter (\<lambda>i. cvf_deleted_at i = None) items)))))"

definition set_feed_cache ::
  "string \<Rightarrow> string option \<Rightarrow> nat \<Rightarrow> cached_video_feed_item list \<Rightarrow> nat \<Rightarrow> unit io" where
  "set_feed_cache order tag page items ttl =
     catchE get_conn (\<lambda>_. returnOk ()) (\<lambda>_.
       kv_set_ex (feed_cache_key order tag page) (KFeed items) ttl)"

text \<open>The script that deletes every key \<^verbatim>\<open>feed:*\<close> runs as one command.\<close>

definition invalidate_all_feeds :: "unit io" where
  "invalidate_all_feeds =
     catchE get_conn (\<lambda>_. returnOk ()) (\<lambda>_.
       external RedisError (\<lambda>w. (Inr (),
         fold kv_drop (filter (\<lambda>k. prefix ''feed:'' k \<and> kv_live w k \<noteq> None) (map fst (kv w))) w)))"

section \<open>The owner's view of a video\<close>

definition has_published_status :: "video \<Rightarrow> bool" where
  "has_published_status v \<longleftrightarrow>
     eq_ignore_ascii_case (v_status v) ''PUBLISHED'' \<or> eq_ignore_ascii_case (v_status v) ''COMPLETED''"

definition video_model_to_user_dto :: "config \<Rightarrow> video \<Rightarrow> bool \<Rightarrow> user_video_dto" where
  "video_model_to_user_dto cf v liked =
     (let published = has_published_status v;
          public_object = published \<or> v_s3_bucket v = cf_minio_bucket_videos cf;
          url_bucket = (if published then cf_minio_bucket_videos cf else v_s3_bucket v) in
      \<lparr> uv_id = v_id v, uv_title = v_title v, uv_description = v_description v,
        uv_status = v_status v, uv_created_at = v_created_at v, uv_updated_at = v_updated_at v,
        uv_is_anonymous = v_is_anonymous v, uv_is_nsfw = v_is_nsfw v, uv_is_liked = liked,
        uv_like_count = v_like_count v,
        uv_url = (if public_object
                  then Some (cf_minio_public_endpoint cf @ ''/'' @ url_bucket @ ''/'' @ v_s3_key v)
                  else None),
        uv_thumbnail_url =
          (if public_object
           then Some (cf_minio_public_endpoint cf @ ''/'' @ cf_minio_bucket_videos cf @ ''/''
                        @ v_id v @ ''_thumb.jpg'')
           else None),
        uv_processing_error_code = v_processing_error_code v,
        uv_processing_error_message = v_processing_error_message v \<rparr>)"

text \<open>The JSON of a view (a time stands for its RFC 3339 text).\<close>

definition json_opt_str :: "string option \<Rightarrow> json" where
  "json_opt_str x = (case x of None \<Rightarrow> JNull | Some s \<Rightarrow> JStr s)"

definition json_opt_bool :: "bool option \<Rightarrow> json" where
  "json_opt_bool x = (case x of None \<Rightarrow> JNull | Some b \<Rightarrow> JBool b)"

definition user_video_json :: "user_video_dto \<Rightarrow> json" where
  "user_video_json d = JObj
     [(''id'', JStr (uv_id d)), (''title'', json_opt_str (uv_title d)),
      (''description'', json_opt_str (uv_description d)), (''status'', JStr (uv_status d)),
      (''created_at'', JNum (uv_created_at d)), (''updated_at'', JNum (uv_updated_at d)),
      (''is_anonymous'', JBool (uv_is_anonymous d)), (''is_nsfw'', json_opt_bool (uv_is_nsfw d)),
      (''is_liked'', JBool (uv_is_liked d)), (''like_count'', JNum (uv_like_count d)),
      (''url'', json_opt_str (uv_url d)), (''thumbnail_url'', json_opt_str (uv_thumbnail_url d)),
      (''processing_error_code'', json_opt_str (uv_processing_error_code d)),
      (''processing_error_message'', json_opt_str (uv_processing_error_message d))]"

section \<open>Frames\<close>

text \<open>The rules for runs in which no call fails.\<close>

lemmas quiet_rules = no_faults_calls no_faults_queue no_faults_draws preserves_returnOk
  preserves_throwErr preserves_getsE preserves_catchE preserves_bindE preserves_bindErr
  preserves_ignoreE preserves_guardE preserves_okOrE preserves_if preserves_case_option
  preserves_case_sum preserves_case_prod preserves_Let preserves_forE preserves_mapErr
  preserves_callE

lemma keeps_db_video_calls [keeps_rules]:
  "keeps db (find_video i)" "keeps db (is_liked u i)" "keeps db (drop_keys p)"
  "keeps db (invalidate_user_video_cache u)" "keeps db worker_invalidate_feed_cache"
  "keeps db (get_feed_cache s t n)" "keeps db (set_feed_cache s t n items ttl)"
  "keeps db invalidate_all_feeds"
  unfolding find_video_def is_liked_def drop_keys_def invalidate_user_video_cache_def
    worker_invalidate_feed_cache_def get_feed_cache_def set_feed_cache_def invalidate_all_feeds_def
  by ((rule keeps_external; simp; fail) | intro keeps_rules)+

lemma keeps_clock_video_calls [keeps_rules]:
  "keeps clock (find_video i)" "keeps clock (is_liked u i)" "keeps clock (drop_keys p)"
  "keeps clock (invalidate_user_video_cache u)" "keeps clock worker_invalidate_feed_cache"
  "keeps clock (update_video_row i f)"
  unfolding find_video_def is_liked_def drop_keys_def invalidate_user_video_cache_def
    worker_invalidate_feed_cache_def update_video_row_def
  by ((rule keeps_external; simp split: sum.split option.split; fail) | intro keeps_rules)+

lemma no_faults_video_calls [preserves_rules]:
  "preserves (\<lambda>w. faults w = []) (find_video i)" "preserves (\<lambda>w. faults w = []) (is_liked u i)"
  "preserves (\<lambda>w. faults w = []) (drop_keys p)"
  "preserves (\<lambda>w. faults w = []) (invalidate_user_video_cache u)"
  "preserves (\<lambda>w. faults w = []) worker_invalidate_feed_cache"
  "preserves (\<lambda>w. faults w = []) (update_video_row i f)"
  "preserves (\<lambda>w. faults w = []) invalidate_all_feeds"
  unfolding find_video_def is_liked_def drop_keys_def invalidate_user_video_cache_def
    worker_invalidate_feed_cache_def update_video_row_def invalidate_all_feeds_def
  by ((rule keeps_faults_external; simp split: sum.split option.split; fail) | intro quiet_rules)+

lemma find_video_ok [simp]:
  "faults w = [] \<Longrightarrow> find_video i w = (Inr (find (\<lambda>v. v_id v = i) (db_videos (db w))), w)"
  by (simp add: find_video_def)

lemma update_video_row_ok:
  "faults w = [] \<Longrightarrow> find (\<lambda>v. v_id v = i) (db_videos (db w)) = Some v
     \<Longrightarrow> update_video_row i f w =
         (Inr (f v), w\<lparr>db := (db w)\<lparr>db_videos := update_where (\<lambda>v. v_id v = i) f (db_videos (db w))\<rparr>\<rparr>)"
  by (auto simp: update_video_row_def update_video_def video_exists_def check_def list_ex_iff
      dest: find_Some_set)

lemma update_video_row_Inr:
  assumes "update_video_row i f w = (Inr v', w')"
  shows "\<exists>v. find (\<lambda>v. v_id v = i) (db_videos (db w)) = Some v \<and> v' = f v
     \<and> db w' = (db w)\<lparr>db_videos := update_where (\<lambda>v. v_id v = i) f (db_videos (db w))\<rparr>"
  using assms
  by (auto simp: update_video_row_def external.simps update_video_def check_def
      split: list.splits fault.splits option.splits if_splits)

text \<open>Invalidation: afterwards no key with the prefix has a value.\<close>

lemma kv_keys_ok [simp]:
  "faults w = [] \<Longrightarrow> kv_keys p w =
     (Inr (filter (\<lambda>k. prefix p k \<and> kv_live w k \<noteq> None) (map fst (kv w))), w)"
  by (simp add: kv_keys_def)

lemma kv_live_known: "kv_live w k \<noteq> None \<Longrightarrow> k \<in> set (map fst (kv w))"
  by (auto simp: kv_live_def split: option.splits dest: map_of_SomeD intro: rev_image_eqI)

lemma drop_keys_run:
  assumes "faults w = []"
  shows "\<exists>w'. drop_keys p w = (Inr (), w') \<and> db w' = db w \<and> faults w' = [] \<and> clock w' = clock w
     \<and> (\<forall>k. kv_live w' k = (if prefix p k then None else kv_live w k))"
proof -
  obtain ks where keys: "kv_keys p w = (Inr ks, w)"
    and known: "\<And>k. prefix p k \<Longrightarrow> kv_live w k \<noteq> None \<Longrightarrow> k \<in> set ks"
    and in_ks: "\<And>k. k \<in> set ks \<Longrightarrow> prefix p k"
    using kv_keys_ok [OF assms, of p] kv_live_known [of w] by fastforce
  have run: "drop_keys p w = (Inr (), fold kv_drop ks w)"
    using assms by (cases ks) (simp_all add: drop_keys_def catchE_def keys ignoreE_def returnOk_def kv_del_all_def)
  have "kv_live (fold kv_drop ks w) k = (if prefix p k then None else kv_live w k)" for k
    using known [of k] in_ks [of k] by (cases "kv_live w k") auto
  with run assms show ?thesis by auto
qed

section \<open>Handlers\<close>

text \<open>
  A limit that fails open, whose refusal tells the caller the count, and an explicit
  \<^verbatim>\<open>txn.rollback()\<close> before an error is returned.
\<close>

definition limited_count ::
  "(64 word + 64 word) io \<Rightarrow> (64 word \<Rightarrow> api_error) \<Rightarrow> 'a api \<Rightarrow> 'a api" where
  "limited_count verdict e k =
     catchE verdict (\<lambda>_. k) (\<lambda>v. case v of Inl count \<Rightarrow> throwErr (e count) | Inr _ \<Rightarrow> k)"

definition rollback_with :: "api_error \<Rightarrow> 'a api" where
  "rollback_with e = callE (external (DbError DbConn) (\<lambda>w. (Inr (), w))) (\<lambda>_. throwErr e)"

lemma keeps_limited_count [keeps_rules]:
  "keeps f verdict \<Longrightarrow> keeps f k \<Longrightarrow> keeps f (limited_count verdict e k)"
  unfolding limited_count_def by (intro keeps_rules)

lemma preserves_limited_count [preserves_rules]:
  "preserves P verdict \<Longrightarrow> preserves P k \<Longrightarrow> preserves P (limited_count verdict e k)"
  unfolding limited_count_def by (intro preserves_rules)

lemma limited_count_Inr:
  "limited_count verdict e k w = (Inr x, w') \<Longrightarrow> \<exists>v w1. verdict w = (v, w1) \<and> k w1 = (Inr x, w')"
  by (cases "verdict w")
    (auto simp: limited_count_def catchE_def throwErr_def split: sum.splits)

section \<open>Transactions\<close>

lemma db_commit_Inr: "commit d w = (Inr u, w') \<Longrightarrow> db w' = db w"
  by (auto simp: commit_def split: list.splits fault.splits)

lemma transaction_Inr:
  assumes "transaction g m w = (Inr x, w')"
  shows "\<exists>w1 w2. m w1 = (Inr x, w2) \<and> db w1 = db w \<and> db w' = db w2"
proof -
  obtain r w1 where b: "begin_txn w = (r, w1)" by (cases "begin_txn w")
  obtain y w2 where m: "m w1 = (y, w2)" by (cases "m w1")
  obtain c w3 where c: "commit (db w1) w2 = (c, w3)" by (cases "commit (db w1) w2")
  have d: "db w1 = db w" using db_begin_txn [of w] b by simp
  obtain z where r: "r = Inr z" using assms b by (cases r) (auto simp: transaction_def)
  obtain x' where y: "y = Inr x'" using assms b m r by (cases y) (auto simp: transaction_def)
  obtain u where u: "c = Inr u" using assms b m c r y by (cases c) (auto simp: transaction_def)
  have "x' = x" "w' = w3" using assms b m c r y u by (simp_all add: transaction_def)
  then show ?thesis using m y d db_commit_Inr [OF c [unfolded u]] by blast
qed

lemma fault_blind_db [simp]: "fault_blind (\<lambda>w. P (db w))"
  by (simp add: fault_blind_def)

lemma preserves_transaction_db:
  assumes "preserves (\<lambda>w. P (db w)) m"
  shows "preserves (\<lambda>w. P (db w)) (transaction g m)"
proof (rule preservesI)
  fix w :: world assume p: "P (db w)"
  obtain rb w1 where b: "begin_txn w = (rb, w1)" by fastforce
  have p1: "P (db w1)" using p db_begin_txn [of w] b by simp
  obtain rm w2 where m: "m w1 = (rm, w2)" by fastforce
  have p2: "P (db w2)" using preservesD [OF assms p1] m by simp
  have p3: "P (db (snd (commit (db w1) w2)))"
    using p1 p2 by (auto simp: commit_def split: list.splits fault.splits)
  show "P (db (snd (transaction g m w)))"
    using p1 p3 by (auto simp: transaction_def b m split: sum.splits prod.splits)
qed

lemma find_update_where:
  "(\<And>v. key (f v) = key v)
     \<Longrightarrow> find (\<lambda>v. key v = i) (update_where (\<lambda>v. key v = i) f vs) = map_option f (find (\<lambda>v. key v = i) vs)"
  by (induction vs) (auto simp: update_where_def)

lemma quiet_transaction:
  assumes "preserves (\<lambda>w. faults w = []) m"
  shows "preserves (\<lambda>w. faults w = []) (transaction g m)"
proof (rule preservesI)
  fix w :: world assume q: "faults w = []"
  obtain r w1 where m: "m w = (r, w1)" by fastforce
  have "faults w1 = []" using preservesD [OF assms q] m by simp
  then show "faults (snd (transaction g m w)) = []"
    using q by (cases r) (simp_all add: transaction_def m)
qed

end
