(* ===== verification/Calls.thy ===== *)
theory Calls
  imports VideoStore
begin

text \<open>
  Successful calls and transactions taken apart: a call that answers has run on the state it was
  made in, up to the list of faults still to come. With these rules a property of a handler
  follows its source line by line.
\<close>

lemma external_InrE:
  assumes "external e f w = (Inr x, w')"
  obtains fs where "f (w\<lparr>faults := fs\<rparr>) = (Inr x, w')"
proof (cases "faults w")
  case Nil
  have e: "w\<lparr>faults := []\<rparr> = w" using Nil by (cases w) simp
  have "f (w\<lparr>faults := []\<rparr>) = (Inr x, w')" using assms Nil by (subst e) simp
  then show ?thesis by (rule that)
next
  case (Cons a fs)
  then show ?thesis using assms that by (cases a) (auto simp: external.simps)
qed

lemma db_read_InrE:
  assumes "db_read f w = (Inr x, w')"
  obtains fs where "x = f (db w)" "w' = w\<lparr>faults := fs\<rparr>"
  using assms unfolding db_read_def by (elim external_InrE) auto

lemma begin_txn_run: "begin_txn w = (Inr z, w1) \<Longrightarrow> \<exists>fs. w1 = w\<lparr>faults := fs\<rparr>"
  unfolding begin_txn_def by (elim external_InrE) auto

lemma commit_run: "commit d w = (Inr z, w1) \<Longrightarrow> \<exists>fs. w1 = w\<lparr>faults := fs\<rparr>"
  by (auto simp: commit_def split: list.splits fault.splits intro: exI [of _ "[]"])

lemma transaction_InrE:
  assumes "transaction g m w = (Inr x, w')"
  obtains fs w2 fs' where "m (w\<lparr>faults := fs\<rparr>) = (Inr x, w2)" "w' = w2\<lparr>faults := fs'\<rparr>"
proof -
  obtain r w1 where b: "begin_txn w = (r, w1)" by (cases "begin_txn w")
  obtain y w2 where m: "m w1 = (y, w2)" by (cases "m w1")
  obtain c w3 where c: "commit (db w1) w2 = (c, w3)" by (cases "commit (db w1) w2")
  obtain z where r: "r = Inr z" using assms b by (cases r) (auto simp: transaction_def)
  obtain x' where y: "y = Inr x'" using assms b m r by (cases y) (auto simp: transaction_def)
  obtain u where u: "c = Inr u" using assms b m c r y by (cases c) (auto simp: transaction_def)
  have "x' = x" "w' = w3" using assms b m c r y u by (simp_all add: transaction_def)
  moreover obtain fs where "w1 = w\<lparr>faults := fs\<rparr>" using begin_txn_run [OF b [unfolded r]] by blast
  moreover obtain fs' where "w3 = w2\<lparr>faults := fs'\<rparr>" using commit_run [OF c [unfolded u]] by blast
  ultimately show ?thesis using that m y by simp
qed

lemma rollback_with_no_Inr: "rollback_with e w \<noteq> (Inr x, w')"
  by (auto simp: rollback_with_def callE_def bindErr_def throwErr_def split: prod.splits sum.splits)

lemma get_file_size_InrE:
  assumes "get_file_size b k w = (Inr n, w')"
  obtains ob fs where "objects w (b, k) = Some ob" "n = so_size ob" "w' = w\<lparr>faults := fs\<rparr>"
  using assms unfolding get_file_size_def by (elim external_InrE) (auto split: option.splits)

lemma read_prefix_InrE:
  assumes "read_prefix b k n w = (Inr s, w')" and "0 < n"
  obtains ob fs where "objects w (b, k) = Some ob" "s = take n (so_head ob)" "w' = w\<lparr>faults := fs\<rparr>"
  using assms unfolding read_prefix_def by (auto split: option.splits elim!: external_InrE)

lemma update_video_row_InrE:
  assumes "update_video_row i f w = (Inr u, w')"
  obtains v fs where "find (\<lambda>v. v_id v = i) (db_videos (db w)) = Some v" "u = f v"
    "w' = w\<lparr>faults := fs, db := (db w)\<lparr>db_videos := update_where (\<lambda>v. v_id v = i) f (db_videos (db w))\<rparr>\<rparr>"
  using assms unfolding update_video_row_def
  by (elim external_InrE) (auto simp: update_video_def check_def split: option.splits if_splits)

lemma push_video_job_InrE:
  assumes "push_video_job j w = (Inr u, w')"
  obtains fs where "w' = w\<lparr>faults := fs, video_queue := j # video_queue w\<rparr>"
  using assms unfolding push_video_job_def get_conn_def
  by (elim run_InrE external_InrE) auto

text \<open>The steps after a commit that leave the queue of videos alone.\<close>

lemma keeps_video_queue_calls [keeps_rules]:
  "keeps video_queue get_conn" "keeps video_queue (kv_get k)" "keeps video_queue (kv_get_u64 k)"
  "keeps video_queue (kv_set_ex k v t)" "keeps video_queue (kv_del k)" "keeps video_queue (kv_del_all ks)"
  "keeps video_queue (kv_keys p)" "keeps video_queue (kv_incr k n)" "keeps video_queue (kv_expire k s)"
  "keeps video_queue (db_read f)" "keeps video_queue (drop_keys p)"
  "keeps video_queue (invalidate_user_video_cache u)"
  "keeps video_queue (publish_video_status_event u q)"
  "keeps video_queue new_v4"
  unfolding kv_defs db_read_def drop_keys_def invalidate_user_video_cache_def publish_video_status_event_def
  by ((rule keeps_external; simp split: option.split; fail) | intro keeps_rules
      | (simp add: keeps_def new_v4_def; fail))+

end
