(* ===== verification/Downloads.thy ===== *)
theory Downloads
  imports RateLimit Calls
begin

text \<open>
  Downloads of one video (\<^verbatim>\<open>api/src/videos/handlers.rs\<close>): the redirect to a presigned address with
  its limits on requests and bytes, and the renewal of such an address.
\<close>

section \<open>Operations\<close>

definition downloadable :: "uuid \<Rightarrow> video \<Rightarrow> bool" where
  "downloadable i v \<longleftrightarrow> v_id v = i \<and> v_deleted_at v = None \<and> v_status v = ''PUBLISHED''
     \<and> v_moderation_state v = ''VISIBLE''"

definition find_downloadable :: "uuid \<Rightarrow> video api" where
  "find_downloadable i =
     bindErr (\<lambda>_. internal_error ''Failed to fetch video'') (db_read (\<lambda>d. find (downloadable i) (db_videos d)))
       (\<lambda>row. okOrE (not_found ''Video not found or has been deleted'') row returnOk)"

text \<open>A limit that is only read, and fails with a plain error.\<close>

definition limited_read :: "(64 word + 64 word) io \<Rightarrow> (64 word \<Rightarrow> api_error) \<Rightarrow> 'a api \<Rightarrow> 'a api" where
  "limited_read verdict e k =
     bindErr (\<lambda>_. internal_error ''Rate limit check failed'') verdict
       (\<lambda>v. case v of Inl current \<Rightarrow> throwErr (e current) | Inr _ \<Rightarrow> k)"

definition presigned_get_60 :: "app \<Rightarrow> string \<Rightarrow> (string \<Rightarrow> 'a api) \<Rightarrow> 'a api" where
  "presigned_get_60 ap key k =
     bindE (getsE clock) (\<lambda>now.
       okOrE (internal_error ''Failed to generate download URL'')
         (lib_presigned_get (ap_libs ap) (cf_minio_bucket_videos (ap_config ap)) key 60 now) k)"

definition download_request_key :: "uuid \<Rightarrow> string" where
  "download_request_key u = ''download:'' @ u @ '':rpm''"

definition download_bandwidth_key :: "uuid \<Rightarrow> string" where
  "download_bandwidth_key u = ''download:'' @ u @ '':bandwidth''"

definition download_refresh_key :: "uuid \<Rightarrow> string" where
  "download_refresh_key u = ''download:'' @ u @ '':refresh:rpm''"

text \<open>
  \<^verbatim>\<open>GET\<close> read as an \<^verbatim>\<open>i64\<close>: a failure and a value that is no number both count as zero. Sums are
  those of \<^verbatim>\<open>i64\<close>, division by the bytes of a megabyte rounds towards zero.
\<close>

definition to_i64 :: "int \<Rightarrow> int option" where
  "to_i64 n = (if - (2 ^ 63) \<le> n \<and> n < 2 ^ 63 then Some n else None)"

definition current_bandwidth :: "uuid \<Rightarrow> int api" where
  "current_bandwidth u =
     catchE (kv_get (download_bandwidth_key u)) (\<lambda>_. returnOk 0)
       (\<lambda>v. returnOk (case Option.bind (Option.bind v as_integer) to_i64 of None \<Rightarrow> 0 | Some n \<Rightarrow> n))"

definition i64_add :: "int \<Rightarrow> int \<Rightarrow> int" where
  "i64_add m n = sint (word_of_int m + word_of_int n :: 64 word)"

definition mebibytes :: "int \<Rightarrow> int" where
  "mebibytes n = (if n < 0 then - ((- n) div 1048576) else n div 1048576)"

definition bandwidth_limit_bytes :: int where
  "bandwidth_limit_bytes = 500 * 1024 * 1024"

text \<open>The counters after a download; every failure in them is dropped.\<close>

definition count_bandwidth :: "uuid \<Rightarrow> int \<Rightarrow> 'a api \<Rightarrow> 'a api" where
  "count_bandwidth u n k =
     bindE (catchE (kv_incr (download_bandwidth_key u) n) (\<lambda>_. returnOk n) returnOk) (\<lambda>new_total.
       if new_total = n then ignoreE (kv_expire (download_bandwidth_key u) 3600) k else k)"

definition count_request :: "string \<Rightarrow> 'a api \<Rightarrow> 'a api" where
  "count_request key k = ignoreE (kv_incr key 1) (ignoreE (kv_expire key 60) k)"

definition serve_download :: "app \<Rightarrow> uuid \<Rightarrow> video \<Rightarrow> string api" where
  "serve_download ap u v =
     bindErr (\<lambda>_. internal_error ''Bandwidth tracking unavailable'') get_conn (\<lambda>_.
     bindE (current_bandwidth u) (\<lambda>used.
     guardE (i64_add used (v_size_bytes v) \<le> bandwidth_limit_bytes)
       (too_many_requests (''Bandwidth limit exceeded (500 MB/hour). Current usage: ''
          @ show_int (mebibytes used) @ '' MB''))
    (presigned_get_60 ap (v_s3_key v) (\<lambda>url.
     count_bandwidth u (v_size_bytes v)
    (count_request (download_request_key u) (returnOk url))))))"

definition download_video :: "app \<Rightarrow> bool \<Rightarrow> uuid \<Rightarrow> uuid \<Rightarrow> string api" where
  "download_video ap bypass u i =
     limited_read (check_rate bypass (download_request_key u) 30)
       (\<lambda>current. too_many_requests (''Download rate limit exceeded (30 downloads/minute). Current: ''
          @ show_nat (unat current)))
    (bindE (find_downloadable i) (serve_download ap u))"

record refresh_download_response =
  rdr_download_url :: string
  rdr_expires_in_seconds :: nat

definition refresh_download_url :: "app \<Rightarrow> bool \<Rightarrow> uuid \<Rightarrow> uuid \<Rightarrow> refresh_download_response api" where
  "refresh_download_url ap bypass u i =
     limited_read (check_rate bypass (download_refresh_key u) 10)
       (\<lambda>current. too_many_requests (''URL refresh rate limit exceeded (10 refreshes/minute). Current: ''
          @ show_nat (unat current)))
    (bindE (find_downloadable i) (\<lambda>v.
     presigned_get_60 ap (v_s3_key v) (\<lambda>url.
     let response = returnOk \<lparr> rdr_download_url = url, rdr_expires_in_seconds = 60 \<rparr> in
     catchE get_conn (\<lambda>_. response) (\<lambda>_. count_request (download_refresh_key u) response))))"

section \<open>Only public videos are handed out\<close>

lemma find_downloadable_InrE:
  assumes "find_downloadable i w = (Inr v, w')"
  obtains fs where "v \<in> set (db_videos (db w))" "downloadable i v" "w' = w\<lparr>faults := fs\<rparr>"
  using assms unfolding find_downloadable_def
  by (elim run_InrE db_read_InrE) (auto simp: returnOk_def dest!: find_Some_set)

lemma limited_read_InrE:
  assumes "limited_read verdict e k w = (Inr x, w')"
  obtains v w1 where "verdict w = (Inr (Inr v), w1)" "k w1 = (Inr x, w')"
  using assms unfolding limited_read_def
  by (elim run_InrE) (auto simp: throwErr_def split: sum.splits)

lemma keeps_check_rate: "keeps db (check_rate b k n)" "keeps clock (check_rate b k n)"
  unfolding check_rate_def Let_def by (intro keeps_rules)+

lemma keeps_clock_bandwidth: "keeps clock (current_bandwidth u)"
  unfolding current_bandwidth_def by (intro keeps_rules)

text \<open>The counters change neither the outcome nor its value.\<close>

lemma counted_InrE:
  assumes "count_bandwidth u n (count_request k (returnOk url)) w = (Inr url', w')"
  shows "url' = url"
  using assms
  by (auto simp: count_bandwidth_def count_request_def ignoreE_def returnOk_def
      elim!: run_InrE split: if_splits)

lemma serve_download_InrE:
  assumes "serve_download ap u v w = (Inr url, w')"
  shows "lib_presigned_get (ap_libs ap) (cf_minio_bucket_videos (ap_config ap)) (v_s3_key v) 60 (clock w) = Some url"
proof -
  obtain c w1 used w2 where
    s1: "get_conn w = (Inr c, w1)" and s2: "current_bandwidth u w1 = (Inr used, w2)" and
    p: "presigned_get_60 ap (v_s3_key v) (\<lambda>url. count_bandwidth u (v_size_bytes v)
      (count_request (download_request_key u) (returnOk url))) w2 = (Inr url, w')"
    using assms unfolding serve_download_def by (elim run_InrE)
  have w2: "clock w2 = clock w"
    using keepsE [OF keeps_clock_bandwidth s2] keepsE [OF keeps_clock_calls(1) s1] by simp
  show ?thesis
    using p w2 unfolding presigned_get_60_def
    by (elim run_InrE) (auto simp: getsE_def dest: counted_InrE)
qed

text \<open>An address is only handed out for a video that is published, visible and not deleted, and
  it is one for its object in the public bucket that expires after a minute.\<close>

theorem download_only_public_videos:
  assumes "download_video ap bypass u i w = (Inr url, w')"
  shows "\<exists>v \<in> set (db_videos (db w)). downloadable i v
     \<and> lib_presigned_get (ap_libs ap) (cf_minio_bucket_videos (ap_config ap)) (v_s3_key v) 60 (clock w) = Some url"
proof -
  obtain x w1 where s1: "check_rate bypass (download_request_key u) 30 w = (Inr (Inr x), w1)"
    and r1: "bindE (find_downloadable i) (serve_download ap u) w1 = (Inr url, w')"
    using assms unfolding download_video_def by (elim limited_read_InrE)
  obtain v w2 where s2: "find_downloadable i w1 = (Inr v, w2)" and r2: "serve_download ap u v w2 = (Inr url, w')"
    using r1 by (elim run_InrE)
  from s2 obtain fs where "v \<in> set (db_videos (db w1))" "downloadable i v" "w2 = w1\<lparr>faults := fs\<rparr>"
    by (elim find_downloadable_InrE)
  then show ?thesis
    using serve_download_InrE [OF r2] keepsE [OF keeps_check_rate(1) s1] keepsE [OF keeps_check_rate(2) s1]
    by auto
qed

section \<open>The window of the request limit\<close>

text \<open>
  A user who downloads, waits, downloads again, and so on: the results of the downloads.
\<close>

fun downloads :: "app \<Rightarrow> uuid \<Rightarrow> uuid \<Rightarrow> time list \<Rightarrow> world \<Rightarrow> (api_error + string) list" where
  "downloads ap u i [] w = []"
| "downloads ap u i (gap # gaps) w =
     (case download_video ap False u i w of
        (r, w') \<Rightarrow> r # downloads ap u i gaps (w'\<lparr>clock := clock w' + gap\<rparr>))"

lemma kv_incr_quiet:
  assumes "faults w = []"
  shows "\<exists>r w'. kv_incr k n w = (r, w') \<and> faults w' = [] \<and> clock w' = clock w
     \<and> (\<forall>k'. k' \<noteq> k \<longrightarrow> kv_live w' k' = kv_live w k')"
  using assms by (auto simp: kv_incr_def split: option.split)

lemma kv_expire_quiet:
  assumes "faults w = []"
  shows "faults (snd (kv_expire k n w)) = [] \<and> clock (snd (kv_expire k n w)) = clock w
     \<and> (\<forall>k'. k' \<noteq> k \<longrightarrow> kv_live (snd (kv_expire k n w)) k' = kv_live w k')"
  using assms by (auto simp: kv_expire_def split: option.split)

lemma count_bandwidth_quiet:
  assumes "faults w = []"
  shows "\<exists>w2. count_bandwidth u n k w = k w2 \<and> faults w2 = [] \<and> clock w2 = clock w
     \<and> (\<forall>k'. k' \<noteq> download_bandwidth_key u \<longrightarrow> kv_live w2 k' = kv_live w k')"
proof -
  obtain r w1 where i: "kv_incr (download_bandwidth_key u) n w = (r, w1)" "faults w1 = []" "clock w1 = clock w"
    "\<And>k'. k' \<noteq> download_bandwidth_key u \<Longrightarrow> kv_live w1 k' = kv_live w k'"
    using kv_incr_quiet [OF assms, of "download_bandwidth_key u" n] by blast
  show ?thesis
    using i kv_expire_quiet [OF i(2), of "download_bandwidth_key u" 3600]
    by (cases r) (auto simp: count_bandwidth_def bindE_def catchE_def returnOk_def ignoreE_def)
qed

lemma count_request_quiet:
  assumes "faults w = []" and "counter_value (kv_live w key) = Some n" and "n + 1 < 2 ^ 63"
  shows "\<exists>w2. count_request key k w = k w2 \<and> faults w2 = [] \<and> clock w2 = clock w
     \<and> map_of (kv w2) key = Some (KInt (int (Suc n)), Some (clock w + secs 60))"
proof -
  have inc: "incr_value 1 (kv_live w key) = Some (int n + 1)"
    using assms(2) by (auto simp: counter_value_Some incr_value_def)
  let ?w1 = "kv_put key (KInt (int n + 1)) (kv_expiry w key) w"
  have "kv_incr key 1 w = (Inr (int n + 1), ?w1)"
    using assms(1,3) inc by (simp add: kv_incr_def)
  then have "count_request key k w = k (kv_put key (KInt (int n + 1)) (Some (clock w + secs 60)) ?w1)"
    using assms(1) by (simp add: count_request_def ignoreE_def kv_expire_def)
  then show ?thesis using assms(1) by (auto simp: kv_put_def update_conv')
qed

lemma check_rate_counter:
  assumes "faults w = []" and "counter_value (kv_live w key) = Some n"
  shows "\<exists>x. check_rate False key 30 w = (Inr (if n < 30 then Inr x else Inl x), w)"
proof -
  obtain r where r: "kv_get_u64 key w = (Inr r, w)" "(case r of None \<Rightarrow> 0 | Some n \<Rightarrow> n) = (of_nat n :: 64 word)"
    using kv_get_u64_counter [OF assms] .
  have "n < 2 ^ 63" using assms(2) by (auto simp: counter_value_Some)
  then have "(30 :: 64 word) \<le> of_nat n \<longleftrightarrow> 30 \<le> n" by (simp add: word_le_nat_alt unat_of_nat_small)
  then show ?thesis
    using assms(1) r by (auto simp: check_rate_def catchE_def bindE_def returnOk_def Let_def)
qed

lemma serve_download_quiet:
  assumes "faults w = []" and "serve_download ap u v w = (Inr url, w')"
    and "counter_value (kv_live w (download_request_key u)) = Some n" and "n < 30"
  shows "faults w' = [] \<and> clock w' = clock w
     \<and> map_of (kv w') (download_request_key u) = Some (KInt (int (Suc n)), Some (clock w + secs 60))"
proof -
  have bw: "current_bandwidth u w = (Inr x, w) \<or> current_bandwidth u w = (Inr 0, w)"
    if "x = (case Option.bind (Option.bind (kv_live w (download_bandwidth_key u)) as_integer) to_i64 of None \<Rightarrow> 0 | Some n \<Rightarrow> n)" for x
    using assms(1) that by (simp add: current_bandwidth_def catchE_def returnOk_def)
  then obtain used where used: "current_bandwidth u w = (Inr used, w)" by blast
  have "\<exists>url'. count_bandwidth u (v_size_bytes v) (count_request (download_request_key u) (returnOk url')) w = (Inr url, w')"
    using assms(1,2) used
    by (auto simp: serve_download_def bindErr_def bindE_def guardE_def throwErr_def presigned_get_60_def getsE_def
        okOrE_def split: if_splits option.splits)
  then obtain url' where c: "count_bandwidth u (v_size_bytes v)
      (count_request (download_request_key u) (returnOk url')) w = (Inr url, w')" by blast
  have ne: "download_request_key u \<noteq> download_bandwidth_key u"
    by (simp add: download_request_key_def download_bandwidth_key_def)
  obtain w2 where w2: "count_request (download_request_key u) (returnOk url') w2 = (Inr url, w')"
    "faults w2 = []" "clock w2 = clock w" "kv_live w2 (download_request_key u) = kv_live w (download_request_key u)"
    using count_bandwidth_quiet [OF assms(1)] c ne by metis
  have n: "counter_value (kv_live w2 (download_request_key u)) = Some n" "n + 1 < 2 ^ 63"
    using assms(3,4) w2(4) by simp_all
  show ?thesis
    using count_request_quiet [OF w2(2) n, of "returnOk url'"] w2(1,3) by (auto simp: returnOk_def)
qed

text \<open>Every accepted download counts one up and starts the minute anew.\<close>

lemma download_counts:
  assumes "faults w = []" and "counter_value (kv_live w (download_request_key u)) = Some n"
    and "download_video ap False u i w = (Inr url, w')"
  shows "n < 30 \<and> faults w' = [] \<and> clock w' = clock w
     \<and> map_of (kv w') (download_request_key u) = Some (KInt (int (Suc n)), Some (clock w + secs 60))"
proof -
  obtain x where c: "check_rate False (download_request_key u) 30 w = (Inr (if n < 30 then Inr x else Inl x), w)"
    using check_rate_counter [OF assms(1,2)] by blast
  have n: "n < 30" and r: "bindE (find_downloadable i) (serve_download ap u) w = (Inr url, w')"
    using assms(3) c by (auto simp: download_video_def limited_read_def bindErr_def throwErr_def split: if_splits)
  have "\<exists>v. find_downloadable i w = (Inr v, w) \<and> serve_download ap u v w = (Inr url, w')"
    using r assms(1) by (auto simp: find_downloadable_def bindErr_def bindE_def okOrE_def returnOk_def throwErr_def
        split: option.splits)
  then show ?thesis using serve_download_quiet [OF assms(1) _ assms(2) n] n by blast
qed

lemma downloads_in_a_row:
  assumes "faults w = []" and "counter_value (kv_live w (download_request_key u)) = Some n"
    and "list_all (\<lambda>r. \<not> isl r) (downloads ap u i gaps w)"
    and "list_all (\<lambda>g. 0 \<le> g \<and> g < secs 60) gaps"
  shows "n + length gaps \<le> 30 \<or> gaps = []"
  using assms
proof (induction gaps arbitrary: w n)
  case (Cons gap gaps)
  obtain r w1 where d: "download_video ap False u i w = (r, w1)" by (cases "download_video ap False u i w")
  then obtain url where r: "r = Inr url" using Cons.prems(3) by (cases r) auto
  note c = download_counts [OF Cons.prems(1,2) d [unfolded r]]
  let ?w = "w1\<lparr>clock := clock w1 + gap\<rparr>"
  have "kv_live ?w (download_request_key u) = Some (KInt (int (Suc n)))"
    using c Cons.prems(4) by (simp add: kv_live_def)
  then have live: "counter_value (kv_live ?w (download_request_key u)) = Some (Suc n)"
    using c by (simp add: counter_value_Some)
  have "Suc n + length gaps \<le> 30 \<or> gaps = []"
    using Cons.prems(3,4) d r c by (intro Cons.IH [OF _ live]) auto
  then show ?case using c by auto
qed simp

text \<open>The limit is meant for a minute, but its window starts anew with every download: a user
  who never lets a whole minute pass can download at most thirty times in a row, however long
  that takes.\<close>

theorem download_window_never_ends:
  assumes "faults w = []" and "kv_live w (download_request_key u) = None"
    and "list_all (\<lambda>r. \<not> isl r) (downloads ap u i gaps w)"
    and "list_all (\<lambda>g. 0 \<le> g \<and> g < secs 60) gaps"
  shows "length gaps \<le> 30"
proof -
  have "counter_value (kv_live w (download_request_key u)) = Some 0"
    using assms(2) by (simp add: counter_value_Some)
  from downloads_in_a_row [OF assms(1) this assms(3,4)] show ?thesis by auto
qed

section \<open>A sample download\<close>

definition download_app :: app where
  "download_app = \<lparr> ap_config = config0, ap_libs = libs0 \<rparr>"

lemma sample_download:
  "\<exists>w'. download_video download_app False ''u1'' ''v1'' world1 = (Inr ''get:videos/v1.mp4'', w')"
proof -
  have f: "find_downloadable ''v1'' world1 = (Inr video0, world1)"
    by (simp add: find_downloadable_def bindErr_def downloadable_def video0_def returnOk_def)
  have c: "counter_value (kv_live world1 (download_request_key ''u1'')) = Some 0"
    by (simp add: counter_value_Some)
  obtain x where x: "check_rate False (download_request_key ''u1'') 30 world1 = (Inr (Inr x), world1)"
    using check_rate_counter [OF _ c] by auto
  have p: "lib_presigned_get libs0 ''videos'' ''v1.mp4'' 60 t = Some ''get:videos/v1.mp4''" for t
    by (simp add: libs0_def)
  have bucket: "cf_minio_bucket_videos config0 = ''videos''" by (simp add: config0_def)
  have b: "current_bandwidth ''u1'' world1 = (Inr 0, world1)"
    by (simp add: current_bandwidth_def catchE_def returnOk_def)
  have v: "v_s3_key video0 = ''v1.mp4''" "v_size_bytes video0 = 1000" by (simp_all add: video0_def)
  obtain w2 where w2: "count_bandwidth ''u1'' 1000 (count_request (download_request_key ''u1'')
      (returnOk ''get:videos/v1.mp4'' :: string api)) world1
      = count_request (download_request_key ''u1'') (returnOk ''get:videos/v1.mp4'') w2"
    using count_bandwidth_quiet [OF world1_simps(1)] by blast
  have "serve_download download_app ''u1'' video0 world1
      = count_request (download_request_key ''u1'') (returnOk ''get:videos/v1.mp4'') w2"
    using w2 by (simp add: serve_download_def bindErr_def bindE_def b v i64_add_def bandwidth_limit_bytes_def
        presigned_get_60_def getsE_def download_app_def p bucket okOrE_def)
  then show ?thesis
    using x f by (auto simp: download_video_def limited_read_def bindErr_def bindE_def count_request_def
        ignoreE_def returnOk_def)
qed

lemma download_only_public_videos_witness:
  "\<exists>w' v. download_video download_app False ''u1'' ''v1'' world1 = (Inr ''get:videos/v1.mp4'', w')
     \<and> v \<in> set (db_videos (db world1)) \<and> downloadable ''v1'' v"
  using sample_download download_only_public_videos by metis

lemma download_window_never_ends_witness:
  "list_all (\<lambda>r. \<not> isl r) (downloads download_app ''u1'' ''v1'' [0] world1) \<and> length [0 :: time] \<le> 30"
proof -
  have ok: "list_all (\<lambda>r. \<not> isl r) (downloads download_app ''u1'' ''v1'' [0] world1)"
    using sample_download by auto
  moreover have "list_all (\<lambda>g. 0 \<le> g \<and> g < secs 60) [0]" by (simp add: secs_def nanos_per_sec_def)
  ultimately show ?thesis
    using download_window_never_ends [of world1 "''u1''" download_app "''v1''" "[0]"] by simp
qed

end
