(* ===== verification/Likes.thy ===== *)
theory Likes
  imports RateLimit VideoStore
begin

text \<open>
  Likes (\<^verbatim>\<open>api/src/videos/handlers.rs\<close>): setting and unsetting the like of a user on a video, the
  counter on the video's row they maintain in the same transaction, and the caches they drop.
\<close>

section \<open>Operations\<close>

record like_video_response =
  lvr_is_liked :: bool
  lvr_like_count :: int

definition enforce_like_rate_limit :: "config \<Rightarrow> bool \<Rightarrow> uuid \<Rightarrow> 'a api \<Rightarrow> 'a api" where
  "enforce_like_rate_limit cf bypass user_id k =
     limited_count (check_and_increment bypass (like_actions_rpm_key user_id)
                      (cf_like_actions_rpm_limit cf) (cf_like_actions_window_secs cf))
       (\<lambda>count. too_many_requests (''Like rate limit exceeded: '' @ show_nat (unat (cf_like_actions_rpm_limit cf))
          @ '' actions per '' @ show_nat (cf_like_actions_window_secs cf)
          @ '' seconds (current: '' @ show_nat (unat count) @ '')'')) k"

text \<open>The query asks for the state and the visibility of the row, and not whether it was deleted.\<close>

definition likeable :: "uuid \<Rightarrow> video \<Rightarrow> bool" where
  "likeable i v \<longleftrightarrow> v_id v = i \<and> v_status v = ''PUBLISHED'' \<and> v_moderation_state v = ''VISIBLE''"

definition get_published_video_or_404 :: "uuid \<Rightarrow> video api" where
  "get_published_video_or_404 i =
     callE (db_read (\<lambda>d. find (likeable i) (db_videos d))) (\<lambda>row.
       okOrE (not_found ''Video not found or not published'') row returnOk)"

definition get_video_like_count :: "uuid \<Rightarrow> int api" where
  "get_video_like_count i =
     callE (find_video i) (\<lambda>row.
       okOrE (not_found ''Video not found or not published'') row (\<lambda>v. returnOk (v_like_count v)))"

text \<open>\<^verbatim>\<open>INSERT \<dots> ON CONFLICT DO NOTHING\<close>, which tells whether a row was inserted.\<close>

definition insert_like_if_missing :: "uuid \<Rightarrow> uuid \<Rightarrow> bool io" where
  "insert_like_if_missing u i = external (DbError DbConn)
     (\<lambda>w. if likes_video (db w) u i then (Inr False, w)
          else case insert_like \<lparr> l_user_id = u, l_video_id = i, l_created_at = clock w \<rparr> (db w) of
                 Inl e \<Rightarrow> (Inl (DbError e), w)
               | Inr d \<Rightarrow> (Inr True, w\<lparr>db := d\<rparr>))"

text \<open>\<^verbatim>\<open>DELETE \<dots> WHERE user_id = $1 AND video_id = $2\<close>, which tells whether a row was deleted.\<close>

definition delete_like :: "uuid \<Rightarrow> uuid \<Rightarrow> bool io" where
  "delete_like u i = external (DbError DbConn)
     (\<lambda>w. (Inr (likes_video (db w) u i),
           w\<lparr>db := (db w)\<lparr>db_likes :=
               delete_where (\<lambda>l. l_user_id l = u \<and> l_video_id l = i) (db_likes (db w))\<rparr>\<rparr>))"

text \<open>The update of the counter touches the rows with the id, and fails for none.\<close>

definition change_like_count :: "uuid \<Rightarrow> (int \<Rightarrow> int) \<Rightarrow> unit io" where
  "change_like_count i f = db_write (\<lambda>d. Inr (d\<lparr>db_videos :=
     update_where (\<lambda>v. v_id v = i) (\<lambda>v. v\<lparr>v_like_count := f (v_like_count v)\<rparr>) (db_videos d)\<rparr>))"

definition count_up :: "int \<Rightarrow> int" where
  "count_up n = n + 1"

definition count_down :: "int \<Rightarrow> int" where
  "count_down n = (if n > 0 then n - 1 else 0)"

definition set_like_txn :: "uuid \<Rightarrow> uuid \<Rightarrow> int api" where
  "set_like_txn u i =
     callE (insert_like_if_missing u i) (\<lambda>inserted.
     bindE (if inserted then mapErr from_failure (change_like_count i count_up) else returnOk ()) (\<lambda>_.
       get_video_like_count i))"

definition unset_like_txn :: "uuid \<Rightarrow> uuid \<Rightarrow> int api" where
  "unset_like_txn u i =
     callE (delete_like u i) (\<lambda>deleted.
     bindE (if deleted then mapErr from_failure (change_like_count i count_down) else returnOk ()) (\<lambda>_.
       get_video_like_count i))"

definition actor_search_prefix :: "uuid \<Rightarrow> string" where
  "actor_search_prefix u = ''search:cache:'' @ u @ '':''"

text \<open>Both lists of keys are collected, a failing \<^verbatim>\<open>KEYS\<close> counting as empty, before one \<^verbatim>\<open>DEL\<close>.\<close>

definition keys_or_none :: "string \<Rightarrow> (world, 'e, string list) action" where
  "keys_or_none p = catchE (kv_keys p) (\<lambda>_. returnOk []) returnOk"

definition invalidate_like_related_caches :: "uuid \<Rightarrow> uuid \<Rightarrow> (world, 'e, unit) action" where
  "invalidate_like_related_caches owner actor =
     ignoreE invalidate_all_feeds
       (catchE get_conn (\<lambda>_. returnOk ()) (\<lambda>_.
          bindE (keys_or_none (user_videos_prefix owner)) (\<lambda>ks1.
          bindE (keys_or_none (actor_search_prefix actor)) (\<lambda>ks2.
            if ks1 @ ks2 = [] then returnOk ()
            else ignoreE (kv_del_all (ks1 @ ks2)) (returnOk ())))))"

definition set_like_video :: "config \<Rightarrow> bool \<Rightarrow> uuid \<Rightarrow> uuid \<Rightarrow> like_video_response api" where
  "set_like_video cf bypass u i =
     enforce_like_rate_limit cf bypass u
    (bindE (get_published_video_or_404 i) (\<lambda>v.
     bindE (transaction from_failure (set_like_txn u i)) (\<lambda>count.
     bindE (invalidate_like_related_caches (v_user_id v) u) (\<lambda>_.
       returnOk \<lparr> lvr_is_liked = True, lvr_like_count = count \<rparr>))))"

definition unset_like_video :: "config \<Rightarrow> bool \<Rightarrow> uuid \<Rightarrow> uuid \<Rightarrow> like_video_response api" where
  "unset_like_video cf bypass u i =
     enforce_like_rate_limit cf bypass u
    (bindE (get_published_video_or_404 i) (\<lambda>v.
     bindE (transaction from_failure (unset_like_txn u i)) (\<lambda>count.
     bindE (invalidate_like_related_caches (v_user_id v) u) (\<lambda>_.
       returnOk \<lparr> lvr_is_liked = False, lvr_like_count = count \<rparr>))))"

section \<open>The counter is the number of likes\<close>

definition likes_of :: "database \<Rightarrow> uuid \<Rightarrow> nat" where
  "likes_of d i = length (filter (\<lambda>l. l_video_id l = i) (db_likes d))"

definition like_pair :: "like \<Rightarrow> uuid \<times> uuid" where
  "like_pair l = (l_user_id l, l_video_id l)"

definition counters_true :: "database \<Rightarrow> bool" where
  "counters_true d \<longleftrightarrow> distinct (map like_pair (db_likes d))
     \<and> (\<forall>v \<in> set (db_videos d). v_like_count v = int (likes_of d (v_id v)))"

lemma likes_video_iff: "likes_video d u i \<longleftrightarrow> (u, i) \<in> set (map like_pair (db_likes d))"
  by (auto simp: likes_video_def like_pair_def list_ex_iff)

text \<open>
  The transactions keep a weaker relation in between: the counters of one video are off by
  the change that is still to be made.
\<close>

definition counters_off :: "uuid \<Rightarrow> int \<Rightarrow> database \<Rightarrow> bool" where
  "counters_off i n d \<longleftrightarrow> distinct (map like_pair (db_likes d))
     \<and> (\<forall>v \<in> set (db_videos d). v_like_count v + (if v_id v = i then n else 0) = int (likes_of d (v_id v)))"

lemma counters_off_0: "counters_off i 0 d \<longleftrightarrow> counters_true d"
  by (auto simp: counters_off_def counters_true_def)

lemma counters_after_insert:
  assumes "counters_true d" and "\<not> likes_video d (l_user_id l) (l_video_id l)"
    and "insert_like l d = Inr d'"
  shows "counters_off (l_video_id l) 1 d'"
proof -
  have d': "d' = d\<lparr>db_likes := db_likes d @ [l]\<rparr>"
    using assms(3) by (auto simp: insert_like_def check_def split: if_splits)
  have new: "like_pair l \<notin> like_pair ` set (db_likes d)"
    using assms(2) by (auto simp: likes_video_iff like_pair_def)
  show ?thesis
    using assms(1) new by (auto simp: counters_true_def counters_off_def d' likes_of_def)
qed

lemma length_filter_delete_one:
  assumes "distinct (map f xs)" and "x \<in> set xs" and "p x"
  shows "length (filter p xs) = Suc (length (filter p (delete_where (\<lambda>y. f y = f x) xs)))"
  using assms
proof (induction xs)
  case (Cons a xs)
  show ?case
  proof (cases "f a = f x")
    case True
    then have "x = a" using Cons.prems by (auto simp: rev_image_eqI)
    moreover have "delete_where (\<lambda>y. f y = f x) xs = xs"
      using Cons.prems True unfolding delete_where_def
      by (intro filter_True) (auto simp: rev_image_eqI)
    ultimately show ?thesis using Cons.prems by (simp add: delete_where_def)
  next
    case False
    then show ?thesis using Cons by (auto simp: delete_where_def)
  qed
qed simp

lemma counters_after_delete:
  assumes "counters_true d" and "likes_video d u i"
  shows "counters_off i (- 1) (d\<lparr>db_likes := delete_where (\<lambda>l. l_user_id l = u \<and> l_video_id l = i) (db_likes d)\<rparr>)"
proof -
  obtain x where x: "x \<in> set (db_likes d)" "like_pair x = (u, i)"
    using assms(2) by (auto simp: likes_video_iff)
  have p: "(\<lambda>l. l_user_id l = u \<and> l_video_id l = i) = (\<lambda>l. like_pair l = like_pair x)"
    using x(2) by (auto simp: like_pair_def)
  have dist: "distinct (map like_pair (db_likes d))" using assms(1) by (simp add: counters_true_def)
  have at_i: "length (filter (\<lambda>l. l_video_id l = i) (db_likes d))
      = Suc (length (filter (\<lambda>l. l_video_id l = i) (delete_where (\<lambda>l. like_pair l = like_pair x) (db_likes d))))"
    using x(2) by (intro length_filter_delete_one [OF dist x(1)]) (simp add: like_pair_def)
  have off_i: "filter (\<lambda>l. l_video_id l = j) (delete_where (\<lambda>l. like_pair l = like_pair x) (db_likes d))
      = filter (\<lambda>l. l_video_id l = j) (db_likes d)" if "j \<noteq> i" for j
    using that x(2) by (auto simp: delete_where_def like_pair_def intro: filter_cong)
  have d2: "distinct (map like_pair (delete_where q (db_likes d)))" for q
    using dist by (simp add: delete_where_def distinct_map_filter)
  show ?thesis
    using assms(1) at_i off_i d2 unfolding p
    by (auto simp: counters_true_def counters_off_def likes_of_def)
qed

lemma counters_after_change:
  assumes "counters_off i n d"
    and "\<And>v. v \<in> set (db_videos d) \<Longrightarrow> v_id v = i \<Longrightarrow> f (v_like_count v) = v_like_count v + n"
  shows "counters_true (d\<lparr>db_videos := update_where (\<lambda>v. v_id v = i)
            (\<lambda>v. v\<lparr>v_like_count := f (v_like_count v)\<rparr>) (db_videos d)\<rparr>)"
  using assms by (auto simp: counters_off_def counters_true_def set_update_where likes_of_def)

text \<open>A transaction keeps what its successful runs keep.\<close>

lemma preserves_transaction_success:
  assumes "\<And>w x w'. P (db w) \<Longrightarrow> m w = (Inr x, w') \<Longrightarrow> P (db w')"
  shows "preserves (\<lambda>w. P (db w)) (transaction g m)"
proof (rule preservesI)
  fix w :: world assume p: "P (db w)"
  obtain r w1 where b: "begin_txn w = (r, w1)" by (cases "begin_txn w")
  have p1: "P (db w1)" using p db_begin_txn [of w] b by simp
  obtain y w2 where m: "m w1 = (y, w2)" by (cases "m w1")
  have p2: "P (db (snd (commit (db w1) w2)))" if "y = Inr x" for x
    using assms [OF p1] m that p1 by (auto simp: commit_def split: list.splits fault.splits)
  show "P (db (snd (transaction g m w)))"
    using p1 p2 by (auto simp: transaction_def b m split: sum.splits prod.splits)
qed

lemma insert_like_if_missing_Inr:
  assumes "insert_like_if_missing u i w = (Inr inserted, w')"
  shows "if inserted
    then \<not> likes_video (db w) u i
       \<and> (\<exists>l. l_user_id l = u \<and> l_video_id l = i \<and> insert_like l (db w) = Inr (db w'))
    else likes_video (db w) u i \<and> db w' = db w"
  using assms unfolding insert_like_if_missing_def
  by (auto simp: external.simps split: list.splits fault.splits if_splits sum.splits
      intro!: exI [of _ "\<lparr> l_user_id = u, l_video_id = i, l_created_at = clock w \<rparr>"])

lemma delete_like_Inr:
  assumes "delete_like u i w = (Inr deleted, w')"
  shows "deleted = likes_video (db w) u i \<and> db w' = (db w)\<lparr>db_likes :=
     delete_where (\<lambda>l. l_user_id l = u \<and> l_video_id l = i) (db_likes (db w))\<rparr>"
  using assms unfolding delete_like_def
  by (auto simp: external.simps split: list.splits fault.splits)

lemma change_like_count_Inr:
  assumes "change_like_count i f w = (Inr x, w')"
  shows "db w' = (db w)\<lparr>db_videos := update_where (\<lambda>v. v_id v = i)
      (\<lambda>v. v\<lparr>v_like_count := f (v_like_count v)\<rparr>) (db_videos (db w))\<rparr>"
  using assms unfolding change_like_count_def db_write_def
  by (auto simp: external.simps split: list.splits fault.splits)

lemma get_video_like_count_Inr:
  assumes "get_video_like_count i w = (Inr n, w')"
  shows "db w' = db w \<and> (\<exists>v \<in> set (db_videos (db w)). v_id v = i \<and> v_like_count v = n)"
proof -
  obtain row w1 v where f: "find_video i w = (Inr row, w1)" and row: "row = Some v"
    and e: "n = v_like_count v" "w' = w1"
    using assms unfolding get_video_like_count_def callE_def
    by (elim run_InrE) (auto simp: returnOk_def)
  have "find (\<lambda>v. v_id v = i) (db_videos (db w)) = Some v"
    using db_read_Inr [OF f [unfolded find_video_def]] row by simp
  then have "v \<in> set (db_videos (db w)) \<and> v_id v = i" by (rule find_Some_set)
  then show ?thesis using keepsE [OF keeps_db_video_calls(1) f] e by auto
qed

lemma set_like_txn_Inr:
  assumes "counters_true (db w)" and "set_like_txn u i w = (Inr n, w')"
  shows "counters_true (db w') \<and> likes_video (db w') u i \<and> n = int (likes_of (db w') i)"
proof -
  obtain inserted w1 x w2 where
    s1: "insert_like_if_missing u i w = (Inr inserted, w1)" and
    s2: "(if inserted then mapErr from_failure (change_like_count i count_up) else returnOk ()) w1 = (Inr x, w2)" and
    s3: "get_video_like_count i w2 = (Inr n, w')"
    using assms(2) unfolding set_like_txn_def callE_def by (elim run_InrE) simp
  have c: "counters_true (db w2) \<and> likes_video (db w2) u i"
  proof (cases inserted)
    case True
    then obtain l where l: "l_user_id l = u" "l_video_id l = i" "insert_like l (db w) = Inr (db w1)"
      "\<not> likes_video (db w) u i"
      using insert_like_if_missing_Inr [OF s1] by auto
    have off: "counters_off i 1 (db w1)"
      using counters_after_insert [OF assms(1), of l] l by simp
    have d1: "db w1 = (db w)\<lparr>db_likes := db_likes (db w) @ [l]\<rparr>"
      using l(3) by (auto simp: insert_like_def check_def split: if_splits)
    have "change_like_count i count_up w1 = (Inr x, w2)"
      using s2 True mapErr_Inr [of from_failure "change_like_count i count_up" w1 x w2] by simp
    note d = change_like_count_Inr [OF this]
    have "counters_true (db w2)"
      unfolding d by (rule counters_after_change [OF off]) (simp add: count_up_def)
    moreover have "likes_video (db w2) u i"
      using l(1,2) unfolding d by (simp add: likes_video_def d1)
    ultimately show ?thesis ..
  next
    case False
    then show ?thesis
      using s2 assms(1) insert_like_if_missing_Inr [OF s1] by (simp add: returnOk_def)
  qed
  then show ?thesis
    using get_video_like_count_Inr [OF s3] by (auto simp: counters_true_def)
qed

lemma unset_like_txn_Inr:
  assumes "counters_true (db w)" and "unset_like_txn u i w = (Inr n, w')"
  shows "counters_true (db w') \<and> \<not> likes_video (db w') u i \<and> n = int (likes_of (db w') i)"
proof -
  obtain deleted w1 x w2 where
    s1: "delete_like u i w = (Inr deleted, w1)" and
    s2: "(if deleted then mapErr from_failure (change_like_count i count_down) else returnOk ()) w1 = (Inr x, w2)" and
    s3: "get_video_like_count i w2 = (Inr n, w')"
    using assms(2) unfolding unset_like_txn_def callE_def by (elim run_InrE) simp
  note del = delete_like_Inr [OF s1]
  have gone: "\<not> likes_video (db w1) u i"
    using del by (auto simp: likes_video_def list_ex_iff)
  have c: "counters_true (db w2) \<and> \<not> likes_video (db w2) u i"
  proof (cases deleted)
    case True
    have off: "counters_off i (- 1) (db w1)"
      using counters_after_delete [OF assms(1)] del True by simp
    have "change_like_count i count_down w1 = (Inr x, w2)" using s2 True mapErr_Inr [of from_failure "change_like_count i count_down" w1 x w2] by simp
    note d = change_like_count_Inr [OF this]
    have "counters_true (db w2)"
      unfolding d
    proof (rule counters_after_change [OF off])
      fix v assume "v \<in> set (db_videos (db w1))" "v_id v = i"
      then have "v_like_count v - 1 = int (likes_of (db w1) i)"
        using off by (auto simp: counters_off_def)
      then show "count_down (v_like_count v) = v_like_count v + - 1" by (simp add: count_down_def)
    qed
    moreover have "\<not> likes_video (db w2) u i" using gone unfolding d by (simp add: likes_video_def)
    ultimately show ?thesis ..
  next
    case False
    then have "delete_where (\<lambda>l. l_user_id l = u \<and> l_video_id l = i) (db_likes (db w)) = db_likes (db w)"
      using del unfolding delete_where_def
      by (intro filter_True) (auto simp: likes_video_def list_ex_iff)
    then show ?thesis
      using s2 assms(1) del gone False by (simp add: returnOk_def)
  qed
  then show ?thesis
    using get_video_like_count_Inr [OF s3] by (auto simp: counters_true_def)
qed

lemma keeps_db_like_calls [keeps_rules]:
  "keeps db (invalidate_like_related_caches o1 a)" "keeps db (get_published_video_or_404 i)"
  unfolding invalidate_like_related_caches_def keys_or_none_def get_published_video_or_404_def
  by (intro keeps_rules)+

lemma keeps_db_check_and_increment [keeps_rules]: "keeps db (check_and_increment b k n t)"
  unfolding check_and_increment_def check_and_increment_conn_def incr_and_expire_def kv_incr_u64_def
  by (intro keeps_rules)

lemma like_txns_keep_counters:
  "preserves (\<lambda>w. counters_true (db w)) (transaction g (set_like_txn u i))"
  "preserves (\<lambda>w. counters_true (db w)) (transaction g (unset_like_txn u i))"
  by (rule preserves_transaction_success, drule (1) set_like_txn_Inr unset_like_txn_Inr, simp)+

lemmas counters_frames = keeps_preserves [OF keeps_db_like_calls(1), of counters_true]
  keeps_preserves [OF keeps_db_like_calls(2), of counters_true]
  keeps_preserves [OF keeps_db_check_and_increment, of counters_true]


lemma set_like_video_Inr:
  assumes "set_like_video cf bypass u i w = (Inr r, w')"
  shows "\<exists>w1 w2 n. set_like_txn u i w1 = (Inr n, w2) \<and> db w1 = db w \<and> db w' = db w2
     \<and> r = \<lparr> lvr_is_liked = True, lvr_like_count = n \<rparr>"
proof -
  obtain v0 w0 where lim: "check_and_increment bypass (like_actions_rpm_key u)
      (cf_like_actions_rpm_limit cf) (cf_like_actions_window_secs cf) w = (v0, w0)"
    and rest: "bindE (get_published_video_or_404 i) (\<lambda>v.
     bindE (transaction from_failure (set_like_txn u i)) (\<lambda>count.
     bindE (invalidate_like_related_caches (v_user_id v) u) (\<lambda>_.
       returnOk \<lparr> lvr_is_liked = True, lvr_like_count = count \<rparr>))) w0 = (Inr r, w')"
    using limited_count_Inr [OF assms [unfolded set_like_video_def enforce_like_rate_limit_def]] by blast
  obtain v w1 n w2 x w3 where
    g: "get_published_video_or_404 i w0 = (Inr v, w1)" and
    t: "transaction from_failure (set_like_txn u i) w1 = (Inr n, w2)" and
    c: "(invalidate_like_related_caches (v_user_id v) u :: unit api) w2 = (Inr x, w3)" and
    e: "r = \<lparr> lvr_is_liked = True, lvr_like_count = n \<rparr>" "w' = w3"
    using rest by (elim run_InrE) (auto simp: returnOk_def)
  obtain wa wb where t': "set_like_txn u i wa = (Inr n, wb)" "db wa = db w1" "db w2 = db wb"
    using transaction_Inr [OF t] by blast
  show ?thesis
    using t' e keepsE [OF keeps_db_check_and_increment lim] keepsE [OF keeps_db_like_calls(2) g]
      keepsE [OF keeps_db_like_calls(1) c] by metis
qed

text \<open>An accepted like answers the true number of likes, and the like is there.\<close>

theorem set_like_answers_the_count:
  assumes "counters_true (db w)" and "set_like_video cf bypass u i w = (Inr r, w')"
  shows "lvr_is_liked r \<and> likes_video (db w') u i \<and> lvr_like_count r = int (likes_of (db w') i)"
proof -
  obtain w1 w2 n where t: "set_like_txn u i w1 = (Inr n, w2)" "db w1 = db w" "db w' = db w2"
    "r = \<lparr> lvr_is_liked = True, lvr_like_count = n \<rparr>"
    using set_like_video_Inr [OF assms(2)] by blast
  then show ?thesis using set_like_txn_Inr [OF _ t(1)] assms(1) by simp
qed


section \<open>A sample like\<close>

lemma sample_like_runs: "\<exists>r w'. set_like_video config0 True ''u1'' ''v1'' world1 = (Inr r, w')"
proof -
  let ?d = "db world1"
  let ?l = "\<lparr> l_user_id = ''u1'', l_video_id = ''v1'', l_created_at = clock world1 \<rparr>"
  have pub: "get_published_video_or_404 ''v1'' world1 = (Inr video0, world1)"
    by (simp add: get_published_video_or_404_def callE_def bindErr_def likeable_def video0_def returnOk_def)
  have ins: "insert_like_if_missing ''u1'' ''v1'' world1 = (Inr True, world1\<lparr>db := ?d\<lparr>db_likes := [?l]\<rparr>\<rparr>)"
    by (simp add: insert_like_if_missing_def likes_video_def empty_db_def insert_like_def check_def
        user_exists_def video_exists_def user0_def video0_def)
  let ?w = "world1\<lparr>db := ?d\<lparr>db_likes := [?l], db_videos := [video0\<lparr>v_like_count := 1\<rparr>]\<rparr>\<rparr>"
  have txn: "set_like_txn ''u1'' ''v1'' world1 = (Inr 1, ?w)"
    by (simp add: set_like_txn_def callE_def bindErr_def ins bindE_def mapErr_def change_like_count_def
        update_where_def count_up_def get_video_like_count_def video0_def returnOk_def empty_db_def)
  have inval: "\<exists>w'. (invalidate_like_related_caches owner actor :: unit api) w = (Inr (), w')"
    if "faults w = []" for owner actor w
  proof -
    have "\<exists>w1. invalidate_all_feeds w = (Inr (), w1) \<and> faults w1 = []"
      using that by (simp add: invalidate_all_feeds_def catchE_def)
    then show ?thesis
      by (auto simp: invalidate_like_related_caches_def ignoreE_def catchE_def keys_or_none_def bindE_def returnOk_def)
  qed
  have "faults ?w = []" by simp
  then show ?thesis
    using inval [of ?w "v_user_id video0" "''u1''"]
    by (auto simp: set_like_video_def enforce_like_rate_limit_def limited_count_def check_and_increment_def
        catchE_def returnOk_def bindE_def pub transaction_def txn)
qed

lemma sample_counters: "counters_true (db world1)"
  by (simp add: counters_true_def empty_db_def likes_of_def video0_def)

lemma set_like_answers_the_count_witness:
  "\<exists>r w'. set_like_video config0 True ''u1'' ''v1'' world1 = (Inr r, w') \<and> lvr_is_liked r
     \<and> likes_video (db w') ''u1'' ''v1''"
  using set_like_answers_the_count [OF sample_counters] sample_like_runs by metis

section \<open>A deleted video can be liked\<close>

text \<open>
  The row of a deleted video still passes the query: its published state and its visibility
  are asked for, its deletion is not.
\<close>

lemma deleted_video_is_likeable:
  "likeable i v \<Longrightarrow> likeable i (v\<lparr>v_deleted_at := Some t\<rparr>)"
  by (simp add: likeable_def)

end
