(* ===== verification/Feed.thy ===== *)
theory Feed
  imports Downloads Likes "HOL-Library.List_Lexorder" "HOL-Library.Char_ord"
begin

text \<open>
  The public feed and the changes an owner makes to a video (\<^verbatim>\<open>api/src/videos/handlers.rs\<close>): the
  pages of the feed with their cache, the deletion of one or of several videos and the update of
  the metadata, with the caches each of them drops.
\<close>

section \<open>The feed\<close>

record feed_query =
  fq_sort :: "string option"
  fq_page :: "nat option"
  fq_random_seed :: "string option"
  fq_include_nsfw :: "bool option"

definition normalize_random_seed :: "string option \<Rightarrow> string option" where
  "normalize_random_seed seed =
     Option.bind seed (\<lambda>raw.
       let s = trim raw in
       if s = [] \<or> length s > 64 then None
       else if list_all (\<lambda>c. is_ascii_alphanumeric c \<or> c = CHR ''-'' \<or> c = CHR ''_'') s then Some s
       else None)"

datatype feed_sort = Latest | Popular | Random

definition feed_sort_of :: "string option \<Rightarrow> feed_sort" where
  "feed_sort_of requested =
     (let s = to_ascii_lowercase (case requested of None \<Rightarrow> ''random'' | Some x \<Rightarrow> x) in
      if s = ''latest'' \<or> s = ''newest'' then Latest
      else if s = ''popular'' then Popular else Random)"

fun feed_sort_name :: "feed_sort \<Rightarrow> string" where
  "feed_sort_name Latest = ''latest''"
| "feed_sort_name Popular = ''popular''"
| "feed_sort_name Random = ''random''"

definition feed_visible :: "config \<Rightarrow> bool \<Rightarrow> video \<Rightarrow> bool" where
  "feed_visible cf include_nsfw v \<longleftrightarrow>
     v_deleted_at v = None \<and> v_moderation_state v = ''VISIBLE'' \<and> published_like cf v
     \<and> (include_nsfw \<or> v_is_nsfw v = Some False)"

text \<open>
  The order of a page. Identifiers are compared as texts, as the database compares them; a random
  order is that of the digests of the identifier with the seed.
\<close>

definition id_desc :: "video list \<Rightarrow> video list" where
  "id_desc vs = rev (sort_key v_id vs)"

definition feed_order :: "libs \<Rightarrow> feed_sort \<Rightarrow> string \<Rightarrow> video list \<Rightarrow> video list" where
  "feed_order L s seed vs =
     (case s of
        Latest \<Rightarrow> order_by_desc v_created_at (id_desc vs)
      | Popular \<Rightarrow> order_by_desc v_like_count (order_by_desc v_created_at (id_desc vs))
      | Random \<Rightarrow> sort_key (\<lambda>v. lib_md5 L (v_id v @ seed)) (sort_key v_id vs))"

definition page_slice :: "nat \<Rightarrow> nat \<Rightarrow> 'a list \<Rightarrow> 'a list" where
  "page_slice page_size page xs = take page_size (drop (page * page_size) xs)"

definition uploader_row :: "database \<Rightarrow> video \<Rightarrow> user option" where
  "uploader_row d v = find (\<lambda>u. u_id u = v_user_id v) (db_users d)"

definition feed_page ::
  "app \<Rightarrow> bool \<Rightarrow> feed_sort \<Rightarrow> string \<Rightarrow> nat \<Rightarrow> database \<Rightarrow> (video \<times> user option) list" where
  "feed_page ap include_nsfw s seed page d =
     map (\<lambda>v. (v, uploader_row d v))
       (page_slice (cf_feed_page_size (ap_config ap)) page
         (feed_order (ap_libs ap) s seed (filter (feed_visible (ap_config ap) include_nsfw) (db_videos d))))"

definition feed_base_url :: "config \<Rightarrow> string" where
  "feed_base_url cf = cf_minio_public_endpoint cf @ ''/'' @ cf_minio_bucket_videos cf"

definition thumb_url :: "config \<Rightarrow> uuid \<Rightarrow> string" where
  "thumb_url cf i = feed_base_url cf @ ''/'' @ i @ ''_thumb.jpg''"

definition feed_item :: "config \<Rightarrow> video \<times> user option \<Rightarrow> video_feed_item" where
  "feed_item cf p =
     (case p of (v, u) \<Rightarrow>
      \<lparr> vf_id = v_id v, vf_title = v_title v, vf_url = feed_base_url cf @ ''/'' @ v_s3_key v,
        vf_thumbnail_url = Some (thumb_url cf (v_id v)), vf_like_count = v_like_count v,
        vf_created_at = v_created_at v,
        vf_uploader = (if v_is_anonymous v then None
          else map_option (\<lambda>x. \<lparr> upi_id = u_id x, upi_username = u_username x \<rparr>) u),
        vf_is_nsfw = (case v_is_nsfw v of None \<Rightarrow> True | Some b \<Rightarrow> b), vf_is_liked = False \<rparr>)"

definition cached_item :: "config \<Rightarrow> video \<times> user option \<Rightarrow> cached_video_feed_item" where
  "cached_item cf p =
     (case p of (v, u) \<Rightarrow>
      \<lparr> cvf_id = v_id v, cvf_title = v_title v, cvf_url = v_s3_key v,
        cvf_thumbnail_url = Some (thumb_url cf (v_id v)), cvf_like_count = v_like_count v,
        cvf_created_at = v_created_at v, cvf_deleted_at = v_deleted_at v,
        cvf_is_anonymous = v_is_anonymous v, cvf_is_nsfw = v_is_nsfw v,
        cvf_uploader = (if v_is_anonymous v then None
          else map_option (\<lambda>x. \<lparr> cui_id = u_id x, cui_username = u_username x \<rparr>) u) \<rparr>)"

text \<open>\<^verbatim>\<open>c.url.split('/').next_back()\<close>: the last piece of the stored key.\<close>

definition from_cached_item :: "config \<Rightarrow> cached_video_feed_item \<Rightarrow> video_feed_item" where
  "from_cached_item cf c =
     \<lparr> vf_id = cvf_id c, vf_title = cvf_title c,
       vf_url = feed_base_url cf @ ''/'' @ last (split_on CHR ''/'' (cvf_url c)),
       vf_thumbnail_url = (case cvf_thumbnail_url c of
           Some t \<Rightarrow> Some t | None \<Rightarrow> Some (thumb_url cf (cvf_id c))),
       vf_like_count = cvf_like_count c, vf_created_at = cvf_created_at c,
       vf_uploader = (if cvf_is_anonymous c then None
          else map_option (\<lambda>u. \<lparr> upi_id = cui_id u, upi_username = cui_username u \<rparr>) (cvf_uploader c)),
       vf_is_nsfw = (case cvf_is_nsfw c of None \<Rightarrow> True | Some b \<Rightarrow> b), vf_is_liked = False \<rparr>"

text \<open>One query for the likes of the user among the items.\<close>

definition mark_liked :: "app \<Rightarrow> uuid \<Rightarrow> video_feed_item list \<Rightarrow> video_feed_item list api" where
  "mark_liked ap user_id items =
     bindErr (\<lambda>e. internal_error (lib_failure_text (ap_libs ap) e))
       (db_read (\<lambda>d. set (map l_video_id (filter (\<lambda>l. l_user_id l = user_id
            \<and> l_video_id l \<in> set (map vf_id items)) (db_likes d))))) (\<lambda>liked.
       returnOk (map (\<lambda>i. i\<lparr>vf_is_liked := (vf_id i \<in> liked)\<rparr>) items))"

definition nsfw_cache_tag :: "bool \<Rightarrow> string" where
  "nsfw_cache_tag include_nsfw = (if include_nsfw then ''include_nsfw'' else ''exclude_nsfw'')"

text \<open>A cache that cannot be read is a miss; a random feed is never cached.\<close>

definition cached_feed ::
  "feed_sort \<Rightarrow> bool \<Rightarrow> nat \<Rightarrow> cached_video_feed_item list option api" where
  "cached_feed s include_nsfw page =
     (if s = Random then returnOk None
      else catchE (get_feed_cache (feed_sort_name s) (Some (nsfw_cache_tag include_nsfw)) page)
             (\<lambda>_. returnOk None) returnOk)"

definition fresh_feed ::
  "app \<Rightarrow> uuid \<Rightarrow> feed_sort \<Rightarrow> bool \<Rightarrow> string \<Rightarrow> nat \<Rightarrow> video_feed_item list api" where
  "fresh_feed ap user_id s include_nsfw seed page =
     (let cf = ap_config ap in
      callE (db_read (feed_page ap include_nsfw s seed page)) (\<lambda>rows.
      bindE (if rows = [] then returnOk [] else mark_liked ap user_id (map (feed_item cf) rows)) (\<lambda>items.
      if s \<noteq> Random \<and> rows \<noteq> []
      then ignoreE (set_feed_cache (feed_sort_name s) (Some (nsfw_cache_tag include_nsfw)) page
                      (map (cached_item cf) rows) 300) (returnOk items)
      else returnOk items)))"

definition get_feed :: "app \<Rightarrow> bool \<Rightarrow> uuid \<Rightarrow> feed_query \<Rightarrow> video_feed_item list api" where
  "get_feed ap bypass user_id q =
     (let cf = ap_config ap in
      okOrE (bad_request ''include_nsfw query parameter is required'') (fq_include_nsfw q) (\<lambda>include_nsfw.
      limited_count (check_and_increment bypass (feed_rpm_key user_id) (cf_limit_feed_rpm cf) 60)
        (\<lambda>count. too_many_requests (''Feed rate limit exceeded: '' @ show_nat (unat count) @ '' requests/minute''))
     (let s = feed_sort_of (fq_sort q);
          page = (case fq_page q of None \<Rightarrow> 0 | Some n \<Rightarrow> n);
          seed = (case normalize_random_seed (fq_random_seed q) of None \<Rightarrow> user_id | Some x \<Rightarrow> x) in
      bindE (cached_feed s include_nsfw page) (\<lambda>hit.
        case hit of
          Some cached \<Rightarrow> mark_liked ap user_id (map (from_cached_item cf) cached)
        | None \<Rightarrow> fresh_feed ap user_id s include_nsfw seed page))))"

section \<open>Changes by the owner\<close>

definition owned_row :: "uuid \<Rightarrow> uuid \<Rightarrow> video \<Rightarrow> bool" where
  "owned_row user_id i v \<longleftrightarrow> v_id v = i \<and> v_user_id v = user_id"

text \<open>The deletion transaction answers whether a published video went away.\<close>

definition delete_video_txn :: "uuid \<Rightarrow> uuid \<Rightarrow> bool option api" where
  "delete_video_txn user_id i =
     callE (db_read (\<lambda>d. find (owned_row user_id i) (db_videos d))) (\<lambda>row.
     okOrE (not_found ''Video not found or not owned by you'') row (\<lambda>v.
     if v_deleted_at v \<noteq> None then returnOk None
     else
       bindE (getsE clock) (\<lambda>now.
       callE (update_video_row (v_id v) (\<lambda>v. v\<lparr>v_deleted_at := Some now\<rparr>)) (\<lambda>_.
         returnOk (Some (v_status v = ''PUBLISHED''))))))"

text \<open>\<^verbatim>\<open>invalidate_feed_cache\<close> of the handlers: here a failing call ends it, and the caller ignores that.\<close>

definition invalidate_feed_cache :: "unit io" where
  "invalidate_feed_cache =
     bindE get_conn (\<lambda>_.
     bindE (kv_keys ''feed:'') (\<lambda>ks.
       if ks = [] then returnOk () else kv_del_all ks))"

definition delete_video :: "bool \<Rightarrow> uuid \<Rightarrow> uuid \<Rightarrow> nat api" where
  "delete_video bypass user_id i =
     limited_count (check_and_increment bypass (''delete:'' @ user_id @ '':hourly'') 10 3600)
       (\<lambda>count. too_many_requests (''Deletion rate limit exceeded: '' @ show_nat (unat count)
          @ '' deletions/hour. Contact support for bulk deletion.''))
    (bindE (transaction from_failure (delete_video_txn user_id i)) (\<lambda>done.
       case done of
         None \<Rightarrow> returnOk 204
       | Some was_published \<Rightarrow>
           ignoreE (if was_published then invalidate_feed_cache else returnOk ())
          (bindE (invalidate_user_video_cache user_id) (\<lambda>_. returnOk 204))))"

record update_video_request =
  uvr_title :: "string option"
  uvr_description :: "string option"
  uvr_is_anonymous :: "bool option"
  uvr_is_nsfw :: "bool option"

definition changed_metadata :: "update_video_request \<Rightarrow> video \<Rightarrow> video" where
  "changed_metadata p v =
     v\<lparr> v_title := (case uvr_title p of None \<Rightarrow> v_title v | Some t \<Rightarrow> Some t),
        v_description := (case uvr_description p of None \<Rightarrow> v_description v | Some t \<Rightarrow> Some t),
        v_is_anonymous := (case uvr_is_anonymous p of None \<Rightarrow> v_is_anonymous v | Some b \<Rightarrow> b),
        v_is_nsfw := (case uvr_is_nsfw p of None \<Rightarrow> v_is_nsfw v | Some b \<Rightarrow> Some b) \<rparr>"

definition update_video_metadata :: "bool \<Rightarrow> uuid \<Rightarrow> uuid \<Rightarrow> update_video_request \<Rightarrow> nat api" where
  "update_video_metadata bypass user_id i p =
     guardE (case uvr_title p of None \<Rightarrow> True | Some t \<Rightarrow> length t \<le> 200)
       (bad_request ''Title too long. Maximum 200 characters.'')
    (guardE (case uvr_description p of None \<Rightarrow> True | Some t \<Rightarrow> length t \<le> 2000)
       (bad_request ''Description too long. Maximum 2000 characters.'')
    (callE (db_read (\<lambda>d. find (\<lambda>v. owned_row user_id i v \<and> v_deleted_at v = None) (db_videos d))) (\<lambda>row.
     okOrE (not_found ''Video not found or not owned by you'') row (\<lambda>v.
     if changed_metadata p v = v then returnOk 200
     else
       limited_count (check_and_increment bypass (''update:'' @ user_id @ '':hourly'') 30 3600)
         (\<lambda>count. too_many_requests (''Update rate limit exceeded: '' @ show_nat (unat count) @ '' updates/hour''))
      (bindE (getsE clock) (\<lambda>now.
       callE (update_video_row (v_id v) (\<lambda>v. (changed_metadata p v)\<lparr>v_updated_at := now\<rparr>)) (\<lambda>_.
       ignoreE (if v_status v = ''PUBLISHED'' then invalidate_feed_cache else returnOk ())
      (bindE (invalidate_user_video_cache user_id) (\<lambda>_. returnOk 200)))))))))"

definition bulk_delete_videos :: "uuid \<Rightarrow> uuid list \<Rightarrow> unit api" where
  "bulk_delete_videos user_id is =
     (if is = [] then returnOk ()
      else
        bindE (getsE clock) (\<lambda>now.
        callE (db_write (\<lambda>d. Inr (d\<lparr>db_videos := update_where (\<lambda>v. v_user_id v = user_id \<and> v_id v \<in> set is)
                 (\<lambda>v. v\<lparr>v_deleted_at := Some now\<rparr>) (db_videos d)\<rparr>))) (\<lambda>_.
          invalidate_user_video_cache user_id)))"

section \<open>What the feed shows\<close>

lemma set_feed_order: "set (feed_order L s seed vs) = set vs"
  by (simp add: feed_order_def id_desc_def split: feed_sort.split)

lemma length_feed_order: "length (feed_order L s seed vs) = length vs"
  by (simp add: feed_order_def id_desc_def order_by_desc_def split: feed_sort.split)

lemma distinct_feed_order: "distinct vs \<Longrightarrow> distinct (feed_order L s seed vs)"
  using card_distinct [of "feed_order L s seed vs"] by (simp add: set_feed_order length_feed_order distinct_card)

text \<open>Pages of a list: all of them together are the list.\<close>

lemma page_slices:
  assumes "0 < n" and "length xs \<le> k * n"
  shows "concat (map (\<lambda>p. page_slice n p xs) [0..<k]) = xs"
proof -
  have "concat (map (\<lambda>p. page_slice n p xs) [0..<k]) = take (k * n) xs" for k
  proof (induction k)
    case (Suc k)
    have "take (Suc k * n) xs = take (k * n) xs @ take n (drop (k * n) xs)"
      by (simp add: take_add [symmetric] add.commute)
    then show ?case using Suc by (simp add: page_slice_def)
  qed simp
  then show ?thesis using assms(2) by simp
qed



section \<open>A page from the cache\<close>

text \<open>A page read back from the cache is the page that was stored, for objects whose key has no
  folder, as those of published videos.\<close>

theorem cached_page_is_the_page:
  assumes "list_all (\<lambda>p. CHR ''/'' \<notin> set (v_s3_key (fst p)) \<and> v_deleted_at (fst p) = None) rows"
  shows "map (from_cached_item cf) (filter (\<lambda>i. cvf_deleted_at i = None) (map (cached_item cf) rows))
       = map (feed_item cf) rows"
  using assms
proof (induction rows)
  case (Cons p rows)
  obtain v u where p: "p = (v, u)" by (cases p)
  have "from_cached_item cf (cached_item cf p) = feed_item cf p"
    using Cons.prems p
    by (cases u) (simp_all add: from_cached_item_def cached_item_def feed_item_def split_on_no_sep)
  moreover have "cvf_deleted_at (cached_item cf p) = None" using Cons.prems p by (simp add: cached_item_def)
  ultimately show ?case using Cons by simp
qed simp

lemma cached_page_is_the_page_witness:
  "map (from_cached_item config0) (filter (\<lambda>i. cvf_deleted_at i = None) (map (cached_item config0) [(video0, Some user0)]))
     = map (feed_item config0) [(video0, Some user0)]"
  using cached_page_is_the_page [of "[(video0, Some user0)]" config0] by (simp add: video0_def)

text \<open>Only letters, digits and two marks of a seed reach the text of the query.\<close>

lemma random_seed_is_plain:
  assumes "normalize_random_seed raw = Some s"
  shows "s \<noteq> [] \<and> length s \<le> 64 \<and> list_all (\<lambda>c. is_ascii_alphanumeric c \<or> c \<in> {CHR ''-'', CHR ''_''}) s"
  using assms by (auto simp: normalize_random_seed_def Let_def bind_eq_Some_conv split: if_splits)

section \<open>Deletion and the caches\<close>

definition no_feed_cached :: "world \<Rightarrow> bool" where
  "no_feed_cached w \<longleftrightarrow> (\<forall>k. prefix ''feed:'' k \<longrightarrow> kv_live w k = None)"

lemma invalidate_feed_cache_run:
  assumes "faults w = []"
  shows "\<exists>w'. invalidate_feed_cache w = (Inr (), w') \<and> db w' = db w \<and> faults w' = [] \<and> no_feed_cached w'"
proof -
  obtain ks where keys: "kv_keys ''feed:'' w = (Inr ks, w)"
    and known: "\<And>k. prefix ''feed:'' k \<Longrightarrow> kv_live w k \<noteq> None \<Longrightarrow> k \<in> set ks"
    using kv_keys_ok [OF assms, of "''feed:''"] kv_live_known [of w] by fastforce
  have "invalidate_feed_cache w = (Inr (), fold kv_drop ks w)"
    using assms by (cases ks) (simp_all add: invalidate_feed_cache_def bindE_def keys returnOk_def kv_del_all_def)
  moreover have "no_feed_cached (fold kv_drop ks w)"
    unfolding no_feed_cached_def kv_live_fold_drop using known by metis
  ultimately show ?thesis using assms by auto
qed

lemma invalidate_user_run:
  assumes "faults w = []" and "no_feed_cached w"
  shows "\<exists>w'. (invalidate_user_video_cache u :: unit api) w = (Inr (), w') \<and> db w' = db w \<and> no_feed_cached w'"
proof -
  obtain w' where w': "(drop_keys (user_videos_prefix u) :: unit api) w = (Inr (), w')" "db w' = db w"
    and k: "\<And>k. kv_live w' k = (if prefix (user_videos_prefix u) k then None else kv_live w k)"
    using drop_keys_run [OF assms(1), of "user_videos_prefix u"] by blast
  have "no_feed_cached w'" using assms(2) unfolding no_feed_cached_def k by simp
  then show ?thesis using w' assms(1) by (auto simp: invalidate_user_video_cache_def catchE_def)
qed

text \<open>When the owner deletes a published video and no call fails, the row is marked as deleted
  and no page of the public feed is left in the cache.\<close>

theorem delete_video_leaves_the_feed:
  assumes "faults w = []" and "find (owned_row user_id i) (db_videos (db w)) = Some v"
    and "v_deleted_at v = None" and "v_status v = ''PUBLISHED''"
  shows "\<exists>w'. delete_video True user_id i w = (Inr 204, w') \<and> no_feed_cached w'
     \<and> (\<forall>x \<in> set (db_videos (db w')). v_id x = i \<longrightarrow> v_deleted_at x = Some (clock w))"
proof -
  have vi: "v_id v = i" using find_Some_set [OF assms(2)] by (simp add: owned_row_def)
  obtain x where x: "find (\<lambda>v. v_id v = i) (db_videos (db w)) = Some x"
    using find_Some_set [OF assms(2)] vi by (cases "find (\<lambda>v. v_id v = i) (db_videos (db w))") (auto simp: find_None_iff)
  let ?f = "\<lambda>v. v\<lparr>v_deleted_at := Some (clock w)\<rparr>"
  let ?w = "w\<lparr>db := (db w)\<lparr>db_videos := update_where (\<lambda>v. v_id v = i) ?f (db_videos (db w))\<rparr>\<rparr>"
  have t: "delete_video_txn user_id i w = (Inr (Some True), ?w)"
    using assms vi update_video_row_ok [OF assms(1) x, of ?f]
    by (simp add: delete_video_txn_def callE_def bindErr_def okOrE_def bindE_def getsE_def returnOk_def)
  obtain w1 where w1: "invalidate_feed_cache ?w = (Inr (), w1)" "db w1 = db ?w" "faults w1 = []" "no_feed_cached w1"
    using invalidate_feed_cache_run [of ?w] assms(1) by auto
  obtain w2 where w2: "(invalidate_user_video_cache user_id :: unit api) w1 = (Inr (), w2)" "db w2 = db w1" "no_feed_cached w2"
    using invalidate_user_run [OF w1(3,4)] by blast
  have "delete_video True user_id i w = (Inr 204, w2)"
    using assms(1) t w1(1) w2(1)
    by (simp add: delete_video_def limited_count_def check_and_increment_def catchE_def returnOk_def bindE_def
        transaction_def ignoreE_def)
  moreover have "\<forall>x \<in> set (db_videos (db w2)). v_id x = i \<longrightarrow> v_deleted_at x = Some (clock w)"
  proof (intro ballI impI)
    fix x assume "x \<in> set (db_videos (db w2))" and xi: "v_id x = i"
    then have "x \<in> (\<lambda>v. if v_id v = i then ?f v else v) ` set (db_videos (db w))"
      using w2(2) w1(2) by (simp add: set_update_where)
    then obtain y where "x = (if v_id y = i then ?f y else y)" by blast
    then show "v_deleted_at x = Some (clock w)" using xi by (simp split: if_splits)
  qed
  ultimately show ?thesis using w2(3) by blast
qed

lemma delete_video_leaves_the_feed_witness:
  "\<exists>w'. delete_video True ''u1'' ''v1'' world1 = (Inr 204, w') \<and> no_feed_cached w'"
  using delete_video_leaves_the_feed [of world1 "''u1''" "''v1''" video0]
  by (auto simp: owned_row_def video0_def)

lemma kv_del_all_other:
  assumes "k \<notin> set ks"
  shows "kv_live (snd (kv_del_all ks w)) k = kv_live w k"
  using assms by (auto simp: kv_del_all_def external.simps split: list.split fault.split)

lemma drop_keys_other:
  assumes "\<not> prefix p k"
  shows "kv_live (snd (drop_keys p w)) k = kv_live w k"
proof -
  obtain r w1 where s: "kv_keys p w = (r, w1)" by (cases "kv_keys p w")
  have w1: "kv_live w1 = kv_live w"
    using keepsE [OF keeps_kv_calls(4) s] keepsE [OF keeps_clock_calls(8) s] by (intro kv_live_cong)
  show ?thesis
  proof (cases r)
    case (Inr ks)
    from s [unfolded Inr] have "k \<notin> set ks"
      unfolding kv_keys_def by (elim external_InrE) (use assms in auto)
    then show ?thesis
      using s Inr w1 kv_del_all_other [of k ks w1] by (simp add: drop_keys_def catchE_def returnOk_def ignoreE_def)
  qed (use s w1 in \<open>simp add: drop_keys_def catchE_def returnOk_def\<close>)
qed

text \<open>A bulk deletion marks the same rows, and leaves every cached page of the feed as it was,
  however calls fail: the deleted videos are shown until the cache expires.\<close>

theorem bulk_delete_keeps_cached_feed:
  "prefix ''feed:'' k \<Longrightarrow> kv_live (snd (bulk_delete_videos user_id is w)) k = kv_live w k"
proof -
  assume k: "prefix ''feed:'' k"
  have ne: "\<not> prefix (user_videos_prefix user_id) k"
    using k by (cases k) (auto simp: user_videos_prefix_def)
  define P where "P s \<longleftrightarrow> kv_live s k = kv_live w k" for s :: world
  have b: "fault_blind P" by (simp add: fault_blind_def P_def)
  have drop: "preserves P (drop_keys (user_videos_prefix user_id) :: unit api)"
    by (rule preservesI) (simp add: P_def drop_keys_other [OF ne])
  have "preserves P (bulk_delete_videos user_id is)"
    unfolding bulk_delete_videos_def invalidate_user_video_cache_def callE_def get_conn_def
    by (intro preserves_rules b drop preserves_db_write) (simp_all add: P_def preserves_def)
  then show ?thesis using preservesD [of P _ w] by (simp add: P_def)
qed

lemma bulk_delete_keeps_cached_feed_witness:
  "kv_live (snd (bulk_delete_videos ''u1'' [''v1''] (kv_put ''feed:v4:latest'' (KFeed []) None world1))) ''feed:v4:latest''
     = Some (KFeed [])"
  using bulk_delete_keeps_cached_feed [of "''feed:v4:latest''" "''u1''" "[''v1'']"] by (simp add: kv_live_put)

end
