(* ===== verification/Bans.thy ===== *)
theory Bans
  imports RateLimit
begin

text \<open>
  \<^verbatim>\<open>services/ban_service.rs\<close>: bans of users and of addresses or CIDR blocks, kept in
  PostgreSQL and cached in Valkey. A user's verdict is cached under one key, an exact
  address ban likewise; a CIDR verdict is cached under a key that carries the ban version,
  which every change of the address bans bumps.
\<close>

section \<open>Targets, keys and cache entries\<close>

definition temp_ban_cache_cap_secs :: nat where
  "temp_ban_cache_cap_secs = 300"

datatype ban_enforcement_error = Banned | Unavailable

datatype parsed_ip_target = TargetIp ip_addr | TargetCidr "ip_addr \<times> nat"

definition parse_ip_target :: "libs \<Rightarrow> string \<Rightarrow> parsed_ip_target option" where
  "parse_ip_target L raw =
     (let trimmed = trim raw in
      if trimmed = [] then None
      else if contains_char trimmed (CHR ''/'')
      then map_option TargetCidr (lib_ipnet_parse L trimmed)
      else map_option TargetIp (parse_ip trimmed))"

fun target_canonical :: "libs \<Rightarrow> parsed_ip_target \<Rightarrow> string" where
  "target_canonical L (TargetIp ip) = show_ip ip"
| "target_canonical L (TargetCidr cidr) = lib_ipnet_show L cidr"

fun target_kind :: "parsed_ip_target \<Rightarrow> string" where
  "target_kind (TargetIp _) = ''ip''"
| "target_kind (TargetCidr _) = ''cidr''"

fun target_ip_family :: "parsed_ip_target \<Rightarrow> int" where
  "target_ip_family (TargetIp ip) = (if is_ipv4 ip then 4 else 6)"
| "target_ip_family (TargetCidr cidr) = (if is_ipv4 (fst cidr) then 4 else 6)"

fun target_cidr_prefix :: "parsed_ip_target \<Rightarrow> int option" where
  "target_cidr_prefix (TargetIp _) = None"
| "target_cidr_prefix (TargetCidr cidr) = Some (int (snd cidr))"

definition user_cache_key :: "uuid \<Rightarrow> string" where
  "user_cache_key user_id = ''ban:user:v1:'' @ user_id"

definition ip_cache_key :: "ip_addr \<Rightarrow> string" where
  "ip_cache_key ip = ''ban:ip:v1:'' @ show_ip ip"

definition ip_verdict_cache_key :: "string \<Rightarrow> ip_addr \<Rightarrow> string" where
  "ip_verdict_cache_key version ip = ''ban:ipverdict:v1:'' @ version @ '':'' @ show_ip ip"

definition ip_ban_version_key :: string where
  "ip_ban_version_key = ''ban:ip:version''"

definition active_ttl :: "time \<Rightarrow> time option \<Rightarrow> nat \<Rightarrow> nat" where
  "active_ttl now banned_until permanent_ttl_secs =
     (case banned_until of
        Some until \<Rightarrow> min (nat (max (num_seconds (until - now)) 1)) temp_ban_cache_cap_secs
      | None \<Rightarrow> max permanent_ttl_secs 1)"

definition read_cache_entry :: "string \<Rightarrow> ban_cache_entry option io" where
  "read_cache_entry key =
     bindE get_conn (\<lambda>_. bindE (kv_get key) (\<lambda>raw. returnOk (Option.bind raw as_ban)))"

definition write_cache_entry :: "string \<Rightarrow> ban_cache_entry \<Rightarrow> nat \<Rightarrow> unit io" where
  "write_cache_entry key entry ttl_secs =
     bindE get_conn (\<lambda>_. kv_set_ex key (KBan entry) (max ttl_secs 1))"

definition delete_cache_key :: "string \<Rightarrow> unit io" where
  "delete_cache_key key = bindE get_conn (\<lambda>_. kv_del key)"

definition cache_entry_is_expired :: "time \<Rightarrow> ban_cache_entry \<Rightarrow> bool" where
  "cache_entry_is_expired now entry =
     (if \<not> bce_banned entry then False
      else case bce_expires_at_unix entry of
             Some ts \<Rightarrow> ts \<le> timestamp now
           | None \<Rightarrow> False)"

definition ban_entry :: "time option \<Rightarrow> ban_cache_entry" where
  "ban_entry banned_until =
     \<lparr> bce_banned = True, bce_expires_at_unix = map_option timestamp banned_until \<rparr>"

definition no_ban_entry :: ban_cache_entry where
  "no_ban_entry = \<lparr> bce_banned = False, bce_expires_at_unix = None \<rparr>"

section \<open>Bans of users\<close>

definition in_force :: "time \<Rightarrow> time option \<Rightarrow> bool" where
  "in_force now banned_until = (case banned_until of None \<Rightarrow> True | Some until \<Rightarrow> now < until)"

definition user_ban_active :: "time \<Rightarrow> uuid \<Rightarrow> user_ban \<Rightarrow> bool" where
  "user_ban_active now user_id b \<longleftrightarrow>
     ub_user_id b = user_id \<and> ub_lifted_at b = None \<and> in_force now (ub_banned_until b)"

definition query_active_user_ban :: "uuid \<Rightarrow> user_ban option io" where
  "query_active_user_ban user_id =
     bindE (getsE clock) (\<lambda>now.
       db_read (\<lambda>d. one_by_desc ub_created_at (user_ban_active now user_id) (db_user_bans d)))"

definition is_user_banned_uncached :: "config \<Rightarrow> uuid \<Rightarrow> bool io" where
  "is_user_banned_uncached cf user_id =
     bindE (getsE clock) (\<lambda>now.
     bindE (query_active_user_ban user_id) (\<lambda>active.
       case active of
         Some ban \<Rightarrow>
           ignoreE (write_cache_entry (user_cache_key user_id) (ban_entry (ub_banned_until ban))
                      (active_ttl now (ub_banned_until ban) (cf_ban_user_cache_permanent_ttl_secs cf)))
             (returnOk True)
       | None \<Rightarrow>
           ignoreE (write_cache_entry (user_cache_key user_id) no_ban_entry
                      (max (cf_ban_user_cache_negative_ttl_secs cf) 1))
             (returnOk False)))"

definition is_user_banned_internal :: "config \<Rightarrow> uuid \<Rightarrow> bool io" where
  "is_user_banned_internal cf user_id =
     bindE (getsE clock) (\<lambda>now.
     bindE (read_cache_entry (user_cache_key user_id)) (\<lambda>cached.
       case cached of
         Some entry \<Rightarrow>
           if cache_entry_is_expired now entry
           then ignoreE (delete_cache_key (user_cache_key user_id))
                  (is_user_banned_uncached cf user_id)
           else returnOk (bce_banned entry)
       | None \<Rightarrow> is_user_banned_uncached cf user_id))"

type_synonym 'a enforce = "(world, ban_enforcement_error, 'a) action"

definition enforce :: "bool io \<Rightarrow> unit enforce" where
  "enforce verdict =
     catchE verdict (\<lambda>_. throwErr Unavailable)
       (\<lambda>banned. if banned then throwErr Banned else returnOk ())"

definition ensure_user_not_banned :: "config \<Rightarrow> uuid \<Rightarrow> unit enforce" where
  "ensure_user_not_banned cf user_id = enforce (is_user_banned_internal cf user_id)"

definition get_active_user_ban :: "uuid \<Rightarrow> user_ban option io" where
  "get_active_user_ban user_id = query_active_user_ban user_id"

definition find_open_user_ban :: "uuid \<Rightarrow> user_ban option io" where
  "find_open_user_ban user_id =
     db_read (\<lambda>d. one_by_desc ub_created_at
       (\<lambda>b. ub_user_id b = user_id \<and> ub_lifted_at b = None) (db_user_bans d))"

definition user_ban_set ::
  "time \<Rightarrow> time option \<Rightarrow> string option \<Rightarrow> string \<Rightarrow> user_ban \<Rightarrow> user_ban" where
  "user_ban_set now banned_until reason actor_sub b =
     b\<lparr> ub_reason := reason, ub_banned_until := banned_until,
        ub_created_by_admin_sub := actor_sub, ub_created_at := now,
        ub_lifted_at := None, ub_lifted_by_admin_sub := None, ub_lift_reason := None \<rparr>"

definition save_user_ban ::
  "uuid \<Rightarrow> time option \<Rightarrow> string option \<Rightarrow> string \<Rightarrow> user_ban io" where
  "save_user_ban user_id banned_until reason actor_sub =
     bindE (find_open_user_ban user_id) (\<lambda>existing.
     bindE (getsE clock) (\<lambda>now.
       case existing of
         Some row \<Rightarrow>
           (let f = user_ban_set now banned_until reason actor_sub in
            bindE (db_write (update_user_ban (ub_id row) f)) (\<lambda>_. returnOk (f row)))
       | None \<Rightarrow>
           bindE new_v4 (\<lambda>i.
             let row = \<lparr> ub_id = i, ub_user_id = user_id, ub_reason = reason,
                         ub_banned_until = banned_until, ub_created_by_admin_sub = actor_sub,
                         ub_created_at = now, ub_lifted_at = None,
                         ub_lifted_by_admin_sub = None, ub_lift_reason = None \<rparr> in
             bindE (db_write (insert_user_ban row)) (\<lambda>_. returnOk row))))"

definition upsert_user_ban ::
  "config \<Rightarrow> uuid \<Rightarrow> time option \<Rightarrow> string option \<Rightarrow> string \<Rightarrow> user_ban io" where
  "upsert_user_ban cf user_id banned_until reason actor_sub =
     bindE (save_user_ban user_id banned_until reason actor_sub) (\<lambda>model.
     bindE (getsE clock) (\<lambda>now.
     bindE (write_cache_entry (user_cache_key user_id) (ban_entry (ub_banned_until model))
              (active_ttl now (ub_banned_until model) (cf_ban_user_cache_permanent_ttl_secs cf)))
       (\<lambda>_. returnOk model)))"

definition lift_user_ban :: "uuid \<Rightarrow> string \<Rightarrow> string option \<Rightarrow> bool io" where
  "lift_user_ban user_id actor_sub lift_reason =
     bindE (find_open_user_ban user_id) (\<lambda>existing.
       case existing of
         Some model \<Rightarrow>
           bindE (getsE clock) (\<lambda>now.
           bindE (db_write (update_user_ban (ub_id model)
                    (\<lambda>b. b\<lparr> ub_lifted_at := Some now, ub_lifted_by_admin_sub := Some actor_sub,
                            ub_lift_reason := lift_reason \<rparr>))) (\<lambda>_.
           bindE (delete_cache_key (user_cache_key user_id)) (\<lambda>_. returnOk True)))
       | None \<Rightarrow>
           bindE (delete_cache_key (user_cache_key user_id)) (\<lambda>_. returnOk False))"

section \<open>Bans of addresses\<close>

definition exact_ip_ban_active :: "time \<Rightarrow> string \<Rightarrow> string \<Rightarrow> ip_ban \<Rightarrow> bool" where
  "exact_ip_ban_active now target kind b \<longleftrightarrow>
     ib_target b = target \<and> ib_target_kind b = kind \<and> ib_lifted_at b = None
     \<and> in_force now (ib_banned_until b)"

definition query_exact_ip_ban :: "ip_addr \<Rightarrow> ip_ban option io" where
  "query_exact_ip_ban ip =
     bindE (getsE clock) (\<lambda>now.
       db_read (\<lambda>d. one_by_desc ib_created_at (exact_ip_ban_active now (show_ip ip) ''ip'')
                      (db_ip_bans d)))"

definition current_ip_ban_version :: "string io" where
  "current_ip_ban_version =
     bindE get_conn (\<lambda>_. bindE (kv_get ip_ban_version_key) (\<lambda>version.
       returnOk (case Option.bind version as_text of None \<Rightarrow> ''0'' | Some v \<Rightarrow> v)))"

definition bump_ip_ban_version :: "unit io" where
  "bump_ip_ban_version =
     bindE get_conn (\<lambda>_. bindE (kv_incr ip_ban_version_key 1) (\<lambda>_. returnOk ()))"

definition cidr_ban_active :: "time \<Rightarrow> int \<Rightarrow> ip_ban \<Rightarrow> bool" where
  "cidr_ban_active now family b \<longleftrightarrow>
     ib_target_kind b = ''cidr'' \<and> ib_ip_family b = family \<and> ib_lifted_at b = None
     \<and> in_force now (ib_banned_until b)"

text \<open>\<^verbatim>\<open>ORDER BY cidr_prefix DESC, created_at DESC\<close>: nulls come first in PostgreSQL.\<close>

definition cidr_order :: "ip_ban list \<Rightarrow> ip_ban list" where
  "cidr_order rows =
     sort_key (\<lambda>b. case ib_cidr_prefix b of None \<Rightarrow> - 1000000 | Some p \<Rightarrow> - p)
       (order_by_desc ib_created_at rows)"

definition query_cidr_ip_bans :: "ip_addr \<Rightarrow> ip_ban list io" where
  "query_cidr_ip_bans ip =
     bindE (getsE clock) (\<lambda>now.
       let family = (if is_ipv4 ip then 4 else 6) in
       db_read (\<lambda>d. cidr_order (filter (cidr_ban_active now family) (db_ip_bans d))))"

definition cidr_match_for_ip :: "libs \<Rightarrow> ip_addr \<Rightarrow> ip_ban list \<Rightarrow> ip_ban option" where
  "cidr_match_for_ip L ip rows =
     find (\<lambda>row. case lib_ipnet_parse L (ib_target row) of
                   None \<Rightarrow> False
                 | Some cidr \<Rightarrow> lib_ipnet_contains L cidr ip) rows"

definition cidr_verdict :: "app \<Rightarrow> ip_addr \<Rightarrow> bool io" where
  "cidr_verdict ap ip =
     bindE (getsE clock) (\<lambda>now.
     bindE (catchE current_ip_ban_version (\<lambda>_. returnOk ''0'') returnOk) (\<lambda>version.
       let verdict_key = ip_verdict_cache_key version ip in
       bindE (read_cache_entry verdict_key) (\<lambda>cached.
         case (case cached of Some e \<Rightarrow> if cache_entry_is_expired now e then None else Some e
                            | None \<Rightarrow> None) of
           Some e \<Rightarrow> returnOk (bce_banned e)
         | None \<Rightarrow>
             bindE (query_cidr_ip_bans ip) (\<lambda>rows.
               let matched = cidr_match_for_ip (ap_libs ap) ip rows;
                   entry = \<lparr> bce_banned = (matched \<noteq> None),
                             bce_expires_at_unix =
                               Option.bind matched (\<lambda>r. map_option timestamp (ib_banned_until r)) \<rparr>;
                   ttl = (case matched of
                            Some r \<Rightarrow> active_ttl now (ib_banned_until r)
                                       (cf_ban_ip_cache_permanent_ttl_secs (ap_config ap))
                          | None \<Rightarrow> max (cf_ban_ip_verdict_ttl_secs (ap_config ap)) 1) in
               ignoreE (write_cache_entry verdict_key entry ttl)
                 (returnOk (bce_banned entry))))))"

definition is_ip_banned_internal :: "app \<Rightarrow> ip_addr \<Rightarrow> bool io" where
  "is_ip_banned_internal ap ip =
     bindE (getsE clock) (\<lambda>now.
     bindE (read_cache_entry (ip_cache_key ip)) (\<lambda>cached.
       if (case cached of Some e \<Rightarrow> \<not> cache_entry_is_expired now e \<and> bce_banned e | None \<Rightarrow> False)
       then returnOk True
       else
         bindE (query_exact_ip_ban ip) (\<lambda>exact.
           case exact of
             Some b \<Rightarrow>
               ignoreE (write_cache_entry (ip_cache_key ip) (ban_entry (ib_banned_until b))
                          (active_ttl now (ib_banned_until b)
                             (cf_ban_ip_cache_permanent_ttl_secs (ap_config ap))))
                 (returnOk True)
           | None \<Rightarrow>
               ignoreE (write_cache_entry (ip_cache_key ip) no_ban_entry
                          (max (cf_ban_ip_cache_negative_ttl_secs (ap_config ap)) 1))
                 (cidr_verdict ap ip))))"

definition ensure_ip_not_banned :: "app \<Rightarrow> ip_addr \<Rightarrow> unit enforce" where
  "ensure_ip_not_banned ap ip = enforce (is_ip_banned_internal ap ip)"

definition get_active_ip_ban :: "libs \<Rightarrow> parsed_ip_target \<Rightarrow> ip_ban option io" where
  "get_active_ip_ban L target =
     bindE (getsE clock) (\<lambda>now.
       db_read (\<lambda>d. one_by_desc ib_created_at
         (exact_ip_ban_active now (target_canonical L target) (target_kind target))
         (db_ip_bans d)))"

definition find_open_ip_ban :: "libs \<Rightarrow> parsed_ip_target \<Rightarrow> ip_ban option io" where
  "find_open_ip_ban L target =
     db_read (\<lambda>d. one_by_desc ib_created_at
       (\<lambda>b. ib_target b = target_canonical L target \<and> ib_target_kind b = target_kind target
            \<and> ib_lifted_at b = None) (db_ip_bans d))"

definition ip_ban_set ::
  "time \<Rightarrow> parsed_ip_target \<Rightarrow> time option \<Rightarrow> string option \<Rightarrow> string \<Rightarrow> ip_ban \<Rightarrow> ip_ban" where
  "ip_ban_set now target banned_until reason actor_sub b =
     b\<lparr> ib_reason := reason, ib_banned_until := banned_until,
        ib_created_by_admin_sub := actor_sub, ib_created_at := now,
        ib_ip_family := target_ip_family target, ib_cidr_prefix := target_cidr_prefix target,
        ib_lifted_at := None, ib_lifted_by_admin_sub := None, ib_lift_reason := None \<rparr>"

definition save_ip_ban ::
  "libs \<Rightarrow> parsed_ip_target \<Rightarrow> time option \<Rightarrow> string option \<Rightarrow> string \<Rightarrow> ip_ban io" where
  "save_ip_ban L target banned_until reason actor_sub =
     bindE (find_open_ip_ban L target) (\<lambda>existing.
     bindE (getsE clock) (\<lambda>now.
       case existing of
         Some row \<Rightarrow>
           (let f = ip_ban_set now target banned_until reason actor_sub in
            bindE (db_write (update_ip_ban (ib_id row) f)) (\<lambda>_. returnOk (f row)))
       | None \<Rightarrow>
           bindE new_v4 (\<lambda>i.
             let row = \<lparr> ib_id = i, ib_target = target_canonical L target,
                         ib_target_kind = target_kind target,
                         ib_ip_family = target_ip_family target,
                         ib_cidr_prefix = target_cidr_prefix target, ib_reason = reason,
                         ib_banned_until = banned_until, ib_created_by_admin_sub = actor_sub,
                         ib_created_at = now, ib_lifted_at = None,
                         ib_lifted_by_admin_sub = None, ib_lift_reason = None \<rparr> in
             bindE (db_write (insert_ip_ban row)) (\<lambda>_. returnOk row))))"

definition upsert_ip_ban ::
  "app \<Rightarrow> parsed_ip_target \<Rightarrow> time option \<Rightarrow> string option \<Rightarrow> string \<Rightarrow> ip_ban io" where
  "upsert_ip_ban ap target banned_until reason actor_sub =
     bindE (save_ip_ban (ap_libs ap) target banned_until reason actor_sub) (\<lambda>model.
     bindE (getsE clock) (\<lambda>now.
     bindE (case target of
              TargetIp ip \<Rightarrow>
                write_cache_entry (ip_cache_key ip) (ban_entry (ib_banned_until model))
                  (active_ttl now (ib_banned_until model)
                     (cf_ban_ip_cache_permanent_ttl_secs (ap_config ap)))
            | TargetCidr _ \<Rightarrow> returnOk ()) (\<lambda>_.
     bindE bump_ip_ban_version (\<lambda>_. returnOk model))))"

definition lift_ip_ban :: "libs \<Rightarrow> parsed_ip_target \<Rightarrow> string \<Rightarrow> string option \<Rightarrow> bool io" where
  "lift_ip_ban L target actor_sub lift_reason =
     (let forget = (\<lambda>k. case target of
                          TargetIp ip \<Rightarrow> ignoreE (delete_cache_key (ip_cache_key ip)) k
                        | TargetCidr _ \<Rightarrow> k) in
      bindE (find_open_ip_ban L target) (\<lambda>existing.
        case existing of
          Some model \<Rightarrow>
            bindE (getsE clock) (\<lambda>now.
            bindE (db_write (update_ip_ban (ib_id model)
                     (\<lambda>b. b\<lparr> ib_lifted_at := Some now, ib_lifted_by_admin_sub := Some actor_sub,
                             ib_lift_reason := lift_reason \<rparr>))) (\<lambda>_.
            forget (bindE bump_ip_ban_version (\<lambda>_. returnOk True))))
        | None \<Rightarrow> forget (bindE bump_ip_ban_version (\<lambda>_. returnOk False))))"

section \<open>What the checks decide\<close>

text \<open>The verdict the cache gives: none when it has no entry, or one whose ban has run out.\<close>

definition cached_ban :: "world \<Rightarrow> string \<Rightarrow> bool option" where
  "cached_ban w key =
     (case Option.bind (kv_live w key) as_ban of
        None \<Rightarrow> None
      | Some e \<Rightarrow> if cache_entry_is_expired (clock w) e then None else Some (bce_banned e))"

definition user_banned_in_db :: "time \<Rightarrow> uuid \<Rightarrow> database \<Rightarrow> bool" where
  "user_banned_in_db now user_id d \<longleftrightarrow> list_ex (user_ban_active now user_id) (db_user_bans d)"

lemma one_by_desc_case:
  "(case one_by_desc key p rows of None \<Rightarrow> a | Some r \<Rightarrow> b) = (if list_ex p rows then b else a)"
  using one_by_desc_None [of key p rows]
  by (auto simp: list_ex_iff split: option.split)

lemma read_cache_entry_ok:
  "faults w = [] \<Longrightarrow> read_cache_entry key w = (Inr (Option.bind (kv_live w key) as_ban), w)"
  by (simp add: read_cache_entry_def bindE_def returnOk_def)

lemma write_cache_entry_ok:
  "faults w = [] \<Longrightarrow> write_cache_entry key e ttl w
     = (Inr (), kv_put key (KBan e) (Some (clock w + secs (int (max ttl 1)))) w)"
  by (simp add: write_cache_entry_def bindE_def)

lemma delete_cache_key_ok: "faults w = [] \<Longrightarrow> delete_cache_key key w = (Inr (), kv_drop key w)"
  by (simp add: delete_cache_key_def bindE_def)

lemma query_active_user_ban_ok:
  "faults w = [] \<Longrightarrow> query_active_user_ban u w
     = (Inr (one_by_desc ub_created_at (user_ban_active (clock w) u) (db_user_bans (db w))), w)"
  by (simp add: query_active_user_ban_def bindE_def getsE_def)

lemmas ban_cache_ok = read_cache_entry_ok write_cache_entry_ok delete_cache_key_ok
  query_active_user_ban_ok

lemma is_user_banned_uncached_result:
  assumes "faults w = []"
  shows "fst (is_user_banned_uncached cf u w) = Inr (user_banned_in_db (clock w) u (db w))"
proof (cases "one_by_desc ub_created_at (user_ban_active (clock w) u) (db_user_bans (db w))")
  case None
  then have "\<not> user_banned_in_db (clock w) u (db w)"
    by (simp add: one_by_desc_None user_banned_in_db_def list_ex_iff)
  with None assms show ?thesis
    by (simp add: is_user_banned_uncached_def action_defs ban_cache_ok)
next
  case (Some b)
  from one_by_desc_Some [OF Some] have "user_banned_in_db (clock w) u (db w)"
    by (auto simp: user_banned_in_db_def list_ex_iff)
  with Some assms show ?thesis
    by (simp add: is_user_banned_uncached_def action_defs ban_cache_ok)
qed

lemma is_user_banned_result:
  assumes "faults w = []"
  shows "fst (is_user_banned_internal cf u w) =
    Inr (case cached_ban w (user_cache_key u) of
           Some b \<Rightarrow> b | None \<Rightarrow> user_banned_in_db (clock w) u (db w))"
  using assms is_user_banned_uncached_result [OF assms, of cf u]
    is_user_banned_uncached_result [of "kv_drop (user_cache_key u) w" cf u]
  by (cases "Option.bind (kv_live w (user_cache_key u)) as_ban")
    (auto simp: is_user_banned_internal_def cached_ban_def action_defs ban_cache_ok
      split: prod.splits sum.splits)

lemma fst_enforce:
  "fst (enforce m w) =
     (case fst (m w) of Inl _ \<Rightarrow> Inl Unavailable | Inr b \<Rightarrow> if b then Inl Banned else Inr ())"
  by (simp add: enforce_def action_defs split: prod.splits sum.splits)

section \<open>The table of user bans\<close>

definition open_for :: "uuid \<Rightarrow> user_ban \<Rightarrow> bool" where
  "open_for u b \<longleftrightarrow> ub_user_id b = u \<and> ub_lifted_at b = None"

text \<open>Keys are unique and a user has at most one ban that is not lifted.\<close>

definition user_bans_wf :: "database \<Rightarrow> bool" where
  "user_bans_wf d \<longleftrightarrow> distinct (map ub_id (db_user_bans d)) \<and>
     (\<forall>b \<in> set (db_user_bans d). \<forall>c \<in> set (db_user_bans d).
        ub_user_id b = ub_user_id c \<and> ub_lifted_at b = None \<and> ub_lifted_at c = None \<longrightarrow> b = c)"

lemma user_bans_wfD:
  "user_bans_wf d \<Longrightarrow> b \<in> set (db_user_bans d) \<Longrightarrow> c \<in> set (db_user_bans d)
     \<Longrightarrow> open_for u b \<Longrightarrow> open_for u c \<Longrightarrow> b = c"
  by (auto simp: user_bans_wf_def open_for_def)

lemma insert_user_ban_wf:
  "user_bans_wf d \<Longrightarrow> insert_user_ban b d = Inr d' \<Longrightarrow> user_bans_wf d'"
  by (fastforce simp: insert_user_ban_def user_bans_wf_def list_ex_iff)

lemma update_user_ban_wf:
  assumes wf: "user_bans_wf d" and upd: "update_user_ban (ub_id row) f d = Inr d'"
    and row: "row \<in> set (db_user_bans d)" "ub_lifted_at row = None"
    and f: "\<And>b. ub_id (f b) = ub_id b" "\<And>b. ub_user_id (f b) = ub_user_id b"
  shows "user_bans_wf d'"
proof -
  let ?g = "\<lambda>r. if ub_id r = ub_id row then f r else r"
  have rows: "db_user_bans d' = map ?g (db_user_bans d)"
    using upd by (auto simp: update_user_ban_def update_where_def)
  have only: "r = row" if "r \<in> set (db_user_bans d)" "ub_id r = ub_id row" for r
    using wf that row(1) by (auto simp: user_bans_wf_def intro: same_id_same_row)
  have ids: "map ub_id (db_user_bans d') = map ub_id (db_user_bans d)"
    by (simp add: rows f(1))
  have "?g b = ?g c"
    if "b \<in> set (db_user_bans d)" "c \<in> set (db_user_bans d)"
      "ub_user_id (?g b) = ub_user_id (?g c)" "ub_lifted_at (?g b) = None" "ub_lifted_at (?g c) = None"
    for b c
  proof -
    have "ub_user_id b = ub_user_id c" using that(3) by (simp add: f(2) split: if_splits)
    moreover have "ub_lifted_at b = None" "ub_lifted_at c = None"
      using that row(2) only by (auto split: if_splits)
    ultimately have "b = c" using wf that(1,2) by (auto simp: user_bans_wf_def)
    then show ?thesis by simp
  qed
  then have "\<forall>b \<in> set (db_user_bans d'). \<forall>c \<in> set (db_user_bans d').
      ub_user_id b = ub_user_id c \<and> ub_lifted_at b = None \<and> ub_lifted_at c = None \<longrightarrow> b = c"
    unfolding rows set_map by blast
  moreover have "distinct (map ub_id (db_user_bans d'))"
    using wf unfolding ids by (simp add: user_bans_wf_def)
  ultimately show ?thesis by (simp add: user_bans_wf_def)
qed

lemma find_open_user_ban_ok:
  "faults w = [] \<Longrightarrow> find_open_user_ban u w
     = (Inr (one_by_desc ub_created_at (open_for u) (db_user_bans (db w))), w)"
  by (simp add: find_open_user_ban_def open_for_def [abs_def])

lemma save_user_ban_post:
  assumes ok: "faults w = []" and wf: "user_bans_wf (db w)"
    and save: "save_user_ban u until reason actor w = (Inr m, w')"
  shows "user_bans_wf (db w') \<and> m \<in> set (db_user_bans (db w')) \<and> open_for u m
    \<and> ub_banned_until m = until \<and> faults w' = [] \<and> clock w' = clock w \<and> kv w' = kv w"
proof (cases "one_by_desc ub_created_at (open_for u) (db_user_bans (db w))")
  case None
  from save None ok obtain d where
    ins: "insert_user_ban m (db w) = Inr d" and d: "db w' = d" and m: "open_for u m" "ub_banned_until m = until"
    and w': "faults w' = []" "clock w' = clock w" "kv w' = kv w"
    by (auto simp: save_user_ban_def action_defs find_open_user_ban_ok new_v4_def Let_def open_for_def
        split: sum.splits)
  from ins have "m \<in> set (db_user_bans d)" by (auto simp: insert_user_ban_def)
  with insert_user_ban_wf [OF wf ins] d m w' show ?thesis by simp
next
  case (Some row)
  let ?f = "user_ban_set (clock w) until reason actor"
  from one_by_desc_Some [OF Some] have row: "row \<in> set (db_user_bans (db w))" "open_for u row" by auto
  from save Some ok obtain d where
    upd: "update_user_ban (ub_id row) ?f (db w) = Inr d" and d: "db w' = d" and m: "m = ?f row"
    and w': "faults w' = []" "clock w' = clock w" "kv w' = kv w"
    by (auto simp: save_user_ban_def action_defs find_open_user_ban_ok Let_def split: sum.splits)
  have "user_bans_wf d"
    by (rule update_user_ban_wf [OF wf upd]) (use row in \<open>simp_all add: user_ban_set_def open_for_def\<close>)
  moreover have "m \<in> set (db_user_bans d)"
    using upd row(1) m by (auto simp: update_user_ban_def set_update_where)
  ultimately show ?thesis
    using row m w' d by (simp add: user_ban_set_def open_for_def)
qed

lemma user_ban_active_open:
  "user_ban_active t u b \<longleftrightarrow> open_for u b \<and> in_force t (ub_banned_until b)"
  by (auto simp: user_ban_active_def open_for_def)

lemma user_banned_in_db_open:
  assumes "user_bans_wf d" and "m \<in> set (db_user_bans d)" and "open_for u m"
  shows "user_banned_in_db t u d \<longleftrightarrow> in_force t (ub_banned_until m)"
  using assms user_bans_wfD [OF assms(1) _ assms(2) _ assms(3)]
  unfolding user_banned_in_db_def list_ex_iff user_ban_active_open by blast

lemma kv_live_put_later:
  "kv_live ((kv_put k v (Some e) w)\<lparr>clock := t\<rparr>) k = (if t < e then Some v else None)"
  by (simp add: kv_live_def kv_put_def update_conv')

lemma cached_ban_later:
  "cached_ban ((kv_put k (KBan (ban_entry until)) (Some e) w)\<lparr>clock := t\<rparr>) k = Some b
     \<Longrightarrow> b \<and> in_force t until"
  by (cases until) (auto simp: cached_ban_def kv_live_put_later cache_entry_is_expired_def ban_entry_def
      in_force_def split: if_splits dest: timestamp_mono simp flip: not_le)

lemma upsert_user_ban_post:
  assumes ok: "faults w = []" and wf: "user_bans_wf (db w)"
    and up: "upsert_user_ban cf u until reason actor w = (Inr m, w')"
  shows "user_bans_wf (db w') \<and> m \<in> set (db_user_bans (db w')) \<and> open_for u m
    \<and> ub_banned_until m = until \<and> faults w' = []
    \<and> (\<exists>e w1. w' = kv_put (user_cache_key u) (KBan (ban_entry until)) (Some e) w1)"
proof -
  obtain r w1 where save: "save_user_ban u until reason actor w = (r, w1)" by fastforce
  with up obtain m1 where r: "r = Inr m1"
    by (cases r) (auto simp: upsert_user_ban_def bindE_def)
  from save_user_ban_post [OF ok wf save [unfolded r]]
  have w1: "user_bans_wf (db w1)" "m1 \<in> set (db_user_bans (db w1))" "open_for u m1"
    "ub_banned_until m1 = until" "faults w1 = []" by auto
  with up save r show ?thesis
    by (auto simp: upsert_user_ban_def action_defs write_cache_entry_ok)
qed

lemma lift_user_ban_post:
  assumes ok: "faults w = []" and wf: "user_bans_wf (db w)"
    and lift: "lift_user_ban u actor reason w = (Inr b, w')"
  shows "user_bans_wf (db w') \<and> (\<forall>r \<in> set (db_user_bans (db w')). \<not> open_for u r)
    \<and> faults w' = [] \<and> kv_live w' (user_cache_key u) = None
    \<and> (b \<longleftrightarrow> (\<exists>r \<in> set (db_user_bans (db w)). open_for u r))"
proof (cases "one_by_desc ub_created_at (open_for u) (db_user_bans (db w))")
  case None
  with lift ok have "b = False" "w' = kv_drop (user_cache_key u) w"
    by (auto simp: lift_user_ban_def action_defs find_open_user_ban_ok delete_cache_key_ok)
  with None ok wf show ?thesis by (auto simp: one_by_desc_None)
next
  case (Some row)
  let ?f = "\<lambda>b. b\<lparr>ub_lifted_at := Some (clock w), ub_lifted_by_admin_sub := Some actor,
                   ub_lift_reason := reason\<rparr>"
  from one_by_desc_Some [OF Some] have row: "row \<in> set (db_user_bans (db w))" "open_for u row" by auto
  from lift Some ok obtain d where upd: "update_user_ban (ub_id row) ?f (db w) = Inr d"
    and w': "b = True" "w' = kv_drop (user_cache_key u) (w\<lparr>db := d\<rparr>)"
    by (auto simp: lift_user_ban_def action_defs find_open_user_ban_ok delete_cache_key_ok
        split: sum.splits)
  have "user_bans_wf d"
    by (rule update_user_ban_wf [OF wf upd]) (use row in \<open>simp_all add: open_for_def\<close>)
  moreover have "\<not> open_for u r" if "r \<in> set (db_user_bans d)" for r
  proof -
    from that upd obtain b where b: "b \<in> set (db_user_bans (db w))"
      and r: "r = (if ub_id b = ub_id row then ?f b else b)"
      by (auto simp: update_user_ban_def set_update_where)
    show ?thesis
    proof (cases "ub_id b = ub_id row")
      case True
      then show ?thesis by (simp add: r open_for_def)
    next
      case False
      then have "b \<noteq> row" by blast
      then have "\<not> open_for u b" using user_bans_wfD [OF wf b row(1) _ row(2)] by blast
      with False show ?thesis by (simp add: r)
    qed
  qed
  moreover have "\<exists>r \<in> set (db_user_bans (db w)). open_for u r" using row by blast
  ultimately show ?thesis by (simp add: w' ok)
qed

section \<open>Properties of the user bans\<close>

text \<open>An open ban decides the check as long as the cache has no entry that is older.\<close>

lemma ban_decides:
  assumes "user_bans_wf (db w)" and "m \<in> set (db_user_bans (db w))" and "open_for u m" and "faults w = []"
    and kv: "kv w = kv (kv_put (user_cache_key u) (KBan (ban_entry (ub_banned_until m))) (Some e) w1)"
  shows "result (ensure_user_not_banned cf u w)
    = (if in_force (clock w) (ub_banned_until m) then Inl Banned else Inr ())"
proof -
  let ?v = "(kv_put (user_cache_key u) (KBan (ban_entry (ub_banned_until m))) (Some e) w1)\<lparr>clock := clock w\<rparr>"
  have c: "clock ?v = clock w" and k: "kv w = kv ?v" by (simp_all add: kv)
  have "cached_ban w (user_cache_key u) = cached_ban ?v (user_cache_key u)"
    unfolding cached_ban_def kv_live_def c k by (rule refl)
  then have "fst (is_user_banned_internal cf u w) = Inr (in_force (clock w) (ub_banned_until m))"
    using is_user_banned_result [OF assms(4), of cf u] user_banned_in_db_open [OF assms(1-3), of "clock w"]
      cached_ban_later [where k = "user_cache_key u" and until = "ub_banned_until m" and e = e and w = w1 and t = "clock w"]
    by (auto split: option.splits)
  then show ?thesis by (simp add: ensure_user_not_banned_def fst_enforce)
qed

text \<open>C12: once a ban of a user is recorded, every later check is exact, whatever the cache
  still holds: it answers banned as long as the ban is in force and lets the user in from
  the moment it runs out.\<close>

theorem user_ban_enforced_until_it_ends:
  assumes "faults w = []" and "user_bans_wf (db w)"
    and "upsert_user_ban cf u until reason actor w = (Inr m, w')"
  shows "result (ensure_user_not_banned cf u (w'\<lparr>clock := t\<rparr>))
           = (if in_force t until then Inl Banned else Inr ())"
proof -
  from upsert_user_ban_post [OF assms] obtain e w1 where
    p: "user_bans_wf (db w')" "m \<in> set (db_user_bans (db w'))" "open_for u m"
      "ub_banned_until m = until" "faults w' = []"
    and w': "w' = kv_put (user_cache_key u) (KBan (ban_entry until)) (Some e) w1" by blast
  have "kv w' = kv (kv_put (user_cache_key u) (KBan (ban_entry (ub_banned_until m))) (Some e) w1)"
    by (simp only: w' p(4))
  then show ?thesis using ban_decides [of "w'\<lparr>clock := t\<rparr>" m u e w1 cf] p by simp
qed

text \<open>After a lift the user passes the check at any later time, and the lift reports
  whether there was a ban to lift.\<close>

theorem lifted_user_passes:
  assumes "faults w = []" and "user_bans_wf (db w)"
    and "lift_user_ban u actor reason w = (Inr b, w')"
  shows "result (ensure_user_not_banned cf u w') = Inr ()
    \<and> (b \<longleftrightarrow> (\<exists>r \<in> set (db_user_bans (db w)). open_for u r))"
proof -
  from lift_user_ban_post [OF assms]
  have p: "\<forall>r \<in> set (db_user_bans (db w')). \<not> open_for u r" "faults w' = []"
    "kv_live w' (user_cache_key u) = None" "b \<longleftrightarrow> (\<exists>r \<in> set (db_user_bans (db w)). open_for u r)"
    by auto
  then have "\<not> user_banned_in_db (clock w') u (db w')"
    by (auto simp: user_banned_in_db_def list_ex_iff user_ban_active_def open_for_def)
  with is_user_banned_result [OF p(2), of cf u] p(3,4) show ?thesis
    by (simp add: ensure_user_not_banned_def fst_enforce cached_ban_def)
qed

lemma read_cache_entry_Inr:
  assumes "read_cache_entry key w = (Inr c, w1)"
  shows "c = Option.bind (kv_live w key) as_ban" and "db w1 = db w" and "clock w1 = clock w"
proof -
  from assms show "c = Option.bind (kv_live w key) as_ban"
    by (auto simp: read_cache_entry_def action_defs kv_get_def get_conn_def external.simps
        split: list.splits fault.splits)
  have "keeps db (read_cache_entry key)" "keeps clock (read_cache_entry key)"
    unfolding read_cache_entry_def by (intro keeps_rules)+
  from keepsD [OF this(1), of w] keepsD [OF this(2), of w] assms
  show "db w1 = db w" "clock w1 = clock w" by simp_all
qed

lemma delete_cache_key_keeps: "keeps db (delete_cache_key k)" "keeps clock (delete_cache_key k)"
  unfolding delete_cache_key_def by (intro keeps_rules)+

lemma is_user_banned_uncached_False:
  assumes "is_user_banned_uncached cf u w = (Inr False, w')"
  shows "\<not> user_banned_in_db (clock w) u (db w)"
proof -
  from assms obtain w1 where q: "query_active_user_ban u w = (Inr None, w1)"
    by (auto simp: is_user_banned_uncached_def action_defs split: prod.splits sum.splits option.splits)
  then have "one_by_desc ub_created_at (user_ban_active (clock w) u) (db_user_bans (db w)) = None"
    by (auto simp: query_active_user_ban_def action_defs dest: db_read_Inr)
  then show ?thesis by (simp add: one_by_desc_None user_banned_in_db_def list_ex_iff)
qed

text \<open>The check fails closed. Whatever goes wrong with Valkey or the database, a user
  passes only if the cache held a negative verdict or the database has no ban in force.\<close>

theorem user_ban_check_fails_closed:
  assumes "ensure_user_not_banned cf u w = (Inr (), w')"
  shows "(\<exists>e. kv_live w (user_cache_key u) = Some (KBan e) \<and> \<not> bce_banned e)
    \<or> \<not> user_banned_in_db (clock w) u (db w)"
proof -
  from assms have i: "is_user_banned_internal cf u w = (Inr False, w')"
    by (auto simp: ensure_user_not_banned_def enforce_def action_defs split: prod.splits sum.splits if_splits)
  then obtain c w1 where r: "read_cache_entry (user_cache_key u) w = (Inr c, w1)"
    by (auto simp: is_user_banned_internal_def action_defs split: prod.splits sum.splits)
  note c = read_cache_entry_Inr [OF r]
  let ?w = "snd (delete_cache_key (user_cache_key u) w1)"
  have w: "db ?w = db w1" "clock ?w = clock w1"
    by (rule keepsD [OF delete_cache_key_keeps(1)], rule keepsD [OF delete_cache_key_keeps(2)])
  consider "is_user_banned_uncached cf u w1 = (Inr False, w')"
    | "is_user_banned_uncached cf u ?w = (Inr False, w')"
    | e where "c = Some e" "\<not> bce_banned e"
    using i r by (auto simp: is_user_banned_internal_def action_defs split: option.splits if_splits)
  then show ?thesis
  proof cases
    case 1
    from is_user_banned_uncached_False [OF this] c show ?thesis by simp
  next
    case 2
    from is_user_banned_uncached_False [OF this] c w show ?thesis by simp
  next
    case 3
    then have "kv_live w (user_cache_key u) = Some (KBan e)"
      using c(1) by (auto simp: bind_eq_Some_conv elim: as_ban.elims)
    with 3 show ?thesis by blast
  qed
qed

lemmas ban_eval = upsert_user_ban_def save_user_ban_def lift_user_ban_def action_defs
  find_open_user_ban_ok write_cache_entry_ok delete_cache_key_ok new_v4_def Let_def
  one_by_desc_def order_by_desc_def insert_user_ban_def user_exists_def empty_db_def user0_def

definition banned_world1 :: world where
  "banned_world1 = snd (upsert_user_ban config0 ''u1'' None None ''admin'' world1)"

lemma banned_world1_ban: "\<exists>m. upsert_user_ban config0 ''u1'' None None ''admin'' world1 = (Inr m, banned_world1)"
  unfolding banned_world1_def by (simp add: ban_eval)

lemma user_ban_enforced_until_it_ends_witness:
  "result (ensure_user_not_banned config0 ''u1'' (banned_world1\<lparr>clock := 1800000000000000000\<rparr>))
     = Inl Banned"
proof -
  obtain m where "upsert_user_ban config0 ''u1'' None None ''admin'' world1 = (Inr m, banned_world1)"
    using banned_world1_ban by blast
  from user_ban_enforced_until_it_ends [OF _ _ this] show ?thesis
    by (simp add: in_force_def user_bans_wf_def empty_db_def)
qed

lemma lifted_user_passes_witness:
  "\<exists>w'. result (ensure_user_not_banned config0 ''u1'' w') = Inr ()
     \<and> w' = final (lift_user_ban ''u1'' ''admin'' None world1)"
proof -
  have "lift_user_ban ''u1'' ''admin'' None world1
          = (Inr False, final (lift_user_ban ''u1'' ''admin'' None world1))"
    by (simp add: ban_eval)
  from lifted_user_passes [OF _ _ this] show ?thesis
    by (auto simp: user_bans_wf_def empty_db_def)
qed

lemma user_ban_check_fails_closed_witness:
  "\<not> user_banned_in_db (clock world1) ''u1'' (db world1)"
proof -
  have "ensure_user_not_banned config0 ''u1'' world1
          = (Inr (), final (ensure_user_not_banned config0 ''u1'' world1))"
    by (simp add: ensure_user_not_banned_def enforce_def is_user_banned_internal_def
        is_user_banned_uncached_def action_defs ban_cache_ok one_by_desc_def order_by_desc_def empty_db_def)
  from user_ban_check_fails_closed [OF this] show ?thesis by simp
qed

section \<open>Properties of the address bans\<close>

lemma save_ip_ban_post:
  assumes ok: "faults w = []"
    and save: "save_ip_ban L target until reason actor w = (Inr m, w')"
  shows "m \<in> set (db_ip_bans (db w')) \<and> ib_target m = target_canonical L target
    \<and> ib_target_kind m = target_kind target \<and> ib_ip_family m = target_ip_family target
    \<and> ib_lifted_at m = None \<and> ib_banned_until m = until
    \<and> faults w' = [] \<and> clock w' = clock w \<and> kv w' = kv w"
proof -
  let ?p = "\<lambda>b. ib_target b = target_canonical L target \<and> ib_target_kind b = target_kind target
                  \<and> ib_lifted_at b = None"
  have find: "find_open_ip_ban L target w = (Inr (one_by_desc ib_created_at ?p (db_ip_bans (db w))), w)"
    using ok by (simp add: find_open_ip_ban_def)
  show ?thesis
  proof (cases "one_by_desc ib_created_at ?p (db_ip_bans (db w))")
    case None
    with save ok find show ?thesis
      by (auto simp: save_ip_ban_def action_defs new_v4_def Let_def insert_ip_ban_def split: sum.splits)
  next
    case (Some row)
    let ?f = "ip_ban_set (clock w) target until reason actor"
    from one_by_desc_Some [OF Some] have row: "row \<in> set (db_ip_bans (db w))" "?p row" by auto
    from save Some ok find obtain d where upd: "update_ip_ban (ib_id row) ?f (db w) = Inr d"
      and d: "db w' = d" "m = ?f row" "faults w' = []" "clock w' = clock w" "kv w' = kv w"
      by (auto simp: save_ip_ban_def action_defs Let_def split: sum.splits)
    from upd row(1) d(2) have "m \<in> set (db_ip_bans d)"
      by (auto simp: update_ip_ban_def set_update_where)
    with row(2) d show ?thesis by (simp add: ip_ban_set_def)
  qed
qed

lemma query_exact_ip_ban_ok:
  "faults w = [] \<Longrightarrow> query_exact_ip_ban ip w
     = (Inr (one_by_desc ib_created_at (exact_ip_ban_active (clock w) (show_ip ip) ''ip'')
               (db_ip_bans (db w))), w)"
  by (simp add: query_exact_ip_ban_def bindE_def getsE_def)

lemma exact_ip_ban_found:
  assumes "faults w = []" and "b \<in> set (db_ip_bans (db w))"
    and "exact_ip_ban_active (clock w) (show_ip ip) ''ip'' b"
  shows "fst (is_ip_banned_internal ap ip w) = Inr True"
proof -
  obtain x where "one_by_desc ib_created_at (exact_ip_ban_active (clock w) (show_ip ip) ''ip'')
               (db_ip_bans (db w)) = Some x"
    using assms(2,3) one_by_desc_None by (metis not_None_eq)
  with assms(1) show ?thesis
    by (simp add: is_ip_banned_internal_def action_defs read_cache_entry_ok write_cache_entry_ok
        query_exact_ip_ban_ok)
qed

lemma bump_keeps: "keeps db bump_ip_ban_version" "keeps clock bump_ip_ban_version"
  unfolding bump_ip_ban_version_def by (intro keeps_rules)+

lemma faults_kv_incr: "faults w = [] \<Longrightarrow> faults (snd (kv_incr k n w)) = []"
  by (auto simp: kv_incr_def split: option.splits)

lemma faults_bump: "faults w = [] \<Longrightarrow> faults (snd (bump_ip_ban_version w)) = []"
  using faults_kv_incr [of w ip_ban_version_key 1]
  by (auto simp: bump_ip_ban_version_def action_defs split: prod.splits sum.splits)

text \<open>An exact address ban holds from the moment it is recorded until it ends: every
  later check of that address answers banned while the ban is in force.\<close>

theorem exact_ip_ban_enforced:
  assumes "faults w = []"
    and "upsert_ip_ban ap (TargetIp ip) until reason actor w = (Inr m, w')"
    and "in_force t until"
  shows "result (ensure_ip_not_banned ap ip (w'\<lparr>clock := t\<rparr>)) = Inl Banned"
proof -
  obtain r w1 where save: "save_ip_ban (ap_libs ap) (TargetIp ip) until reason actor w = (r, w1)"
    by fastforce
  with assms(2) obtain m1 where r: "r = Inr m1"
    by (cases r) (auto simp: upsert_ip_ban_def bindE_def)
  from save_ip_ban_post [OF assms(1) save [unfolded r]]
  have w1: "m1 \<in> set (db_ip_bans (db w1))" "ib_target m1 = show_ip ip" "ib_target_kind m1 = ''ip''"
    "ib_lifted_at m1 = None" "ib_banned_until m1 = until" "faults w1 = []" by auto
  let ?w2 = "snd (write_cache_entry (ip_cache_key ip) (ban_entry until)
                (active_ttl (clock w1) until (cf_ban_ip_cache_permanent_ttl_secs (ap_config ap))) w1)"
  have w2: "faults ?w2 = []" "db ?w2 = db w1" using w1(6) by (simp_all add: write_cache_entry_ok)
  have "w' = snd (bump_ip_ban_version ?w2)"
    using assms(2) save r w1(5,6)
    by (auto simp: upsert_ip_ban_def action_defs write_cache_entry_ok split: prod.splits sum.splits)
  with w2 faults_bump [of ?w2] keepsD [OF bump_keeps(1), of ?w2]
  have w': "faults w' = []" "db w' = db w1" by simp_all
  have "fst (is_ip_banned_internal ap ip (w'\<lparr>clock := t\<rparr>)) = Inr True"
    by (rule exact_ip_ban_found [where b = m1]) (use w1 w' assms(3) in \<open>simp_all add: exact_ip_ban_active_def\<close>)
  then show ?thesis by (simp add: ensure_ip_not_banned_def fst_enforce)
qed

lemma exact_ip_ban_enforced_witness:
  "\<exists>w'. result (ensure_ip_not_banned \<lparr> ap_config = config0, ap_libs = libs0 \<rparr> (V4 1) w') = Inl Banned"
proof -
  let ?ap = "\<lparr> ap_config = config0, ap_libs = libs0 \<rparr>"
  have "\<exists>m w'. upsert_ip_ban ?ap (TargetIp (V4 1)) None None ''admin'' world1 = (Inr m, w')"
    by (simp add: upsert_ip_ban_def save_ip_ban_def find_open_ip_ban_def action_defs new_v4_def Let_def
        one_by_desc_def order_by_desc_def insert_ip_ban_def empty_db_def write_cache_entry_ok
        bump_ip_ban_version_def kv_incr_def incr_value_def kv_live_put ip_ban_version_key_def
        ip_cache_key_def)
  then obtain m w' where up: "upsert_ip_ban ?ap (TargetIp (V4 1)) None None ''admin'' world1 = (Inr m, w')"
    by blast
  from exact_ip_ban_enforced [OF _ up, of "clock w'"] show ?thesis
    by (intro exI [of _ w']) (simp add: in_force_def)
qed

definition ban_version :: "world \<Rightarrow> string" where
  "ban_version w =
     (case Option.bind (kv_live w ip_ban_version_key) as_text of None \<Rightarrow> ''0'' | Some v \<Rightarrow> v)"

lemma current_ip_ban_version_ok:
  "faults w = [] \<Longrightarrow> current_ip_ban_version w = (Inr (ban_version w), w)"
  by (simp add: current_ip_ban_version_def ban_version_def action_defs)

lemma set_cidr_order [simp]: "set (cidr_order rows) = set rows"
  by (simp add: cidr_order_def)

lemma cidr_verdict_matches:
  assumes ok: "faults w = []" and none: "kv_live w (ip_verdict_cache_key (ban_version w) ip) = None"
    and b: "b \<in> set (db_ip_bans (db w))"
      "cidr_ban_active (clock w) (if is_ipv4 ip then 4 else 6) b"
      "lib_ipnet_parse (ap_libs ap) (ib_target b) = Some cidr"
      "lib_ipnet_contains (ap_libs ap) cidr ip"
  shows "fst (cidr_verdict ap ip w) = Inr True"
proof -
  let ?rows = "cidr_order (filter (cidr_ban_active (clock w) (if is_ipv4 ip then 4 else 6))
                 (db_ip_bans (db w)))"
  have "b \<in> set ?rows" using b(1,2) by simp
  then have "cidr_match_for_ip (ap_libs ap) ip ?rows \<noteq> None"
    using b(3,4) unfolding cidr_match_for_ip_def find_None_iff by auto
  then obtain r where r: "cidr_match_for_ip (ap_libs ap) ip ?rows = Some r" by blast
  have q: "query_cidr_ip_bans ip w = (Inr ?rows, w)"
    using ok by (simp add: query_cidr_ip_bans_def action_defs Let_def)
  show ?thesis
    using ok none q r
    by (simp add: cidr_verdict_def action_defs current_ip_ban_version_ok read_cache_entry_ok
        write_cache_entry_ok Let_def)
qed

lemma ip_cache_key_ne_version [simp]: "ip_cache_key ip \<noteq> ip_ban_version_key"
  by (simp add: ip_cache_key_def ip_ban_version_key_def)

lemma ip_cache_key_ne_verdict [simp]: "ip_verdict_cache_key v ip \<noteq> ip_cache_key ip'"
  by (simp add: ip_cache_key_def ip_verdict_cache_key_def)

lemma ban_version_put [simp]:
  "k \<noteq> ip_ban_version_key \<Longrightarrow> ban_version (kv_put k v t w) = ban_version w"
  by (simp add: ban_version_def)

lemma is_ip_banned_cidr:
  assumes ok: "faults w = []" and "fst (cidr_verdict ap ip
      (snd (write_cache_entry (ip_cache_key ip) no_ban_entry
              (max (cf_ban_ip_cache_negative_ttl_secs (ap_config ap)) 1) w))) = Inr True"
  shows "fst (is_ip_banned_internal ap ip w) = Inr True"
  using assms
  by (auto simp: is_ip_banned_internal_def action_defs read_cache_entry_ok write_cache_entry_ok
      query_exact_ip_ban_ok split: option.split)

text \<open>A ban of a CIDR block takes effect at once for every address in it: recording it
  bumps the ban version, and under the new version, which has no cached verdict yet, the
  check reads the block from the database. The block is assumed to parse back from its
  canonical form, and to be of the family of the address.\<close>

theorem cidr_ban_enforced_at_once:
  assumes "faults w = []"
    and "upsert_ip_ban ap (TargetCidr cidr) until reason actor w = (Inr m, w')"
    and "in_force (clock w) until"
    and "kv_live w' (ip_verdict_cache_key (ban_version w') ip) = None"
    and "lib_ipnet_parse (ap_libs ap) (lib_ipnet_show (ap_libs ap) cidr) = Some cidr"
    and "lib_ipnet_contains (ap_libs ap) cidr ip" and "is_ipv4 ip = is_ipv4 (fst cidr)"
  shows "result (ensure_ip_not_banned ap ip w') = Inl Banned"
proof -
  obtain r w1 where save: "save_ip_ban (ap_libs ap) (TargetCidr cidr) until reason actor w = (r, w1)"
    by fastforce
  with assms(2) obtain m1 where r: "r = Inr m1"
    by (cases r) (auto simp: upsert_ip_ban_def bindE_def)
  from save_ip_ban_post [OF assms(1) save [unfolded r]]
  have w1: "m1 \<in> set (db_ip_bans (db w1))" "ib_target m1 = lib_ipnet_show (ap_libs ap) cidr"
    "ib_target_kind m1 = ''cidr''" "ib_ip_family m1 = (if is_ipv4 (fst cidr) then 4 else 6)"
    "ib_lifted_at m1 = None" "ib_banned_until m1 = until" "faults w1 = []" "clock w1 = clock w"
    by auto
  have "w' = snd (bump_ip_ban_version w1)"
    using assms(2) save r by (auto simp: upsert_ip_ban_def action_defs split: prod.splits sum.splits)
  with w1 faults_bump [of w1] keepsD [OF bump_keeps(1), of w1] keepsD [OF bump_keeps(2), of w1]
  have w': "faults w' = []" "db w' = db w1" "clock w' = clock w" by simp_all
  let ?w = "snd (write_cache_entry (ip_cache_key ip) no_ban_entry
              (max (cf_ban_ip_cache_negative_ttl_secs (ap_config ap)) 1) w')"
  have w: "faults ?w = []" "db ?w = db w'" "clock ?w = clock w'" "ban_version ?w = ban_version w'"
    "kv_live ?w (ip_verdict_cache_key v ip) = kv_live w' (ip_verdict_cache_key v ip)" for v
    using w'(1) by (simp_all add: write_cache_entry_ok)
  have "fst (cidr_verdict ap ip ?w) = Inr True"
    by (rule cidr_verdict_matches [where b = m1 and cidr = cidr])
      (use w w' w1 assms in \<open>simp_all add: cidr_ban_active_def\<close>)
  then have "fst (is_ip_banned_internal ap ip w') = Inr True"
    by (rule is_ip_banned_cidr [OF w'(1)])
  then show ?thesis by (simp add: ensure_ip_not_banned_def fst_enforce)
qed

lemma cidr_ban_enforced_at_once_witness:
  "\<exists>w'. result (ensure_ip_not_banned \<lparr> ap_config = config0, ap_libs = libs0 \<rparr> (V4 7) w') = Inl Banned"
proof -
  let ?ap = "\<lparr> ap_config = config0, ap_libs = libs0 \<rparr>"
  have "\<exists>m w'. upsert_ip_ban ?ap (TargetCidr (V4 0, 0)) None None ''admin'' world1 = (Inr m, w')
      \<and> kv_live w' (ip_verdict_cache_key (ban_version w') (V4 7)) = None"
    by (simp add: upsert_ip_ban_def save_ip_ban_def find_open_ip_ban_def action_defs new_v4_def Let_def
        one_by_desc_def order_by_desc_def insert_ip_ban_def empty_db_def
        bump_ip_ban_version_def kv_incr_def incr_value_def kv_live_put ban_version_def
        ip_verdict_cache_key_def ip_ban_version_key_def)
  then obtain m w' where up: "upsert_ip_ban ?ap (TargetCidr (V4 0, 0)) None None ''admin'' world1 = (Inr m, w')"
    and none: "kv_live w' (ip_verdict_cache_key (ban_version w') (V4 7)) = None"
    by blast
  from cidr_ban_enforced_at_once [OF _ up _ none] show ?thesis
    by (intro exI [of _ w']) (simp add: in_force_def libs0_def)
qed

end
