(* ===== verification/Tokens.thy ===== *)
theory Tokens
  imports RateLimit
begin

text \<open>
  Tokens: \<^verbatim>\<open>shared/src/security.rs\<close> (access and extension JWTs, refresh tokens, one-time
  codes, PKCE), \<^verbatim>\<open>auth/revocation.rs\<close> (revoked token ids in Valkey), \<^verbatim>\<open>cache/otc_cache.rs\<close>
  (one-time codes) and the refresh token rotation of \<^verbatim>\<open>auth/service.rs\<close>.
\<close>

section \<open>JWTs\<close>

record claims =
  cl_sub :: uuid
  cl_jti :: uuid
  cl_exp :: nat
  cl_iat :: nat

record extension_claims =
  ec_sub :: uuid
  ec_jti :: uuid
  ec_exp :: nat
  ec_iat :: nat
  ec_scope :: "string list"
  ec_platform :: string
  ec_device_id_hash :: string
  ec_token_use :: string

definition claims_json :: "claims \<Rightarrow> json" where
  "claims_json c = JObj [(''sub'', JStr (cl_sub c)), (''jti'', JStr (cl_jti c)),
     (''exp'', JNum (int (cl_exp c))), (''iat'', JNum (int (cl_iat c)))]"

definition extension_claims_json :: "extension_claims \<Rightarrow> json" where
  "extension_claims_json c = JObj [(''sub'', JStr (ec_sub c)), (''jti'', JStr (ec_jti c)),
     (''exp'', JNum (int (ec_exp c))), (''iat'', JNum (int (ec_iat c))),
     (''scope'', JArr (map JStr (ec_scope c))), (''platform'', JStr (ec_platform c)),
     (''device_id_hash'', JStr (ec_device_id_hash c)), (''token_use'', JStr (ec_token_use c))]"

text \<open>
  Deserialising looks every field up by name; a field the type does not have is ignored, one
  that is missing or of another type is an error.
\<close>

definition str_field :: "string \<Rightarrow> json \<Rightarrow> string option" where
  "str_field k j = Option.bind (json_field k j) json_str"

definition nat_field :: "string \<Rightarrow> json \<Rightarrow> nat option" where
  "nat_field k j = Option.bind (json_field k j) json_nat"

definition claims_of_json :: "json \<Rightarrow> claims option" where
  "claims_of_json j =
     Option.bind (str_field ''sub'' j) (\<lambda>s. Option.bind (str_field ''jti'' j) (\<lambda>i.
     Option.bind (nat_field ''exp'' j) (\<lambda>e. Option.bind (nat_field ''iat'' j) (\<lambda>a.
       Some \<lparr> cl_sub = s, cl_jti = i, cl_exp = e, cl_iat = a \<rparr>))))"

definition extension_claims_of_json :: "json \<Rightarrow> extension_claims option" where
  "extension_claims_of_json j =
     Option.bind (claims_of_json j) (\<lambda>c.
     Option.bind (Option.bind (json_field ''scope'' j) json_str_list) (\<lambda>sc.
     Option.bind (str_field ''platform'' j) (\<lambda>p.
     Option.bind (str_field ''device_id_hash'' j) (\<lambda>d.
     Option.bind (str_field ''token_use'' j) (\<lambda>u.
       Some \<lparr> ec_sub = cl_sub c, ec_jti = cl_jti c, ec_exp = cl_exp c, ec_iat = cl_iat c,
              ec_scope = sc, ec_platform = p, ec_device_id_hash = d, ec_token_use = u \<rparr>)))))"

lemma claims_of_json_inverse [simp]: "claims_of_json (claims_json c) = Some c"
  by (simp add: claims_of_json_def claims_json_def str_field_def nat_field_def)

lemma extension_claims_of_json_inverse [simp]:
  "extension_claims_of_json (extension_claims_json c) = Some c"
  by (simp add: extension_claims_of_json_def claims_of_json_def extension_claims_json_def
      str_field_def nat_field_def)

definition now_secs :: "world \<Rightarrow> nat" where
  "now_secs w = nat (timestamp (clock w))"

definition some_or :: "string \<Rightarrow> 'a option \<Rightarrow> 'a io" where
  "some_or msg v = okOrE (OtherError msg) v returnOk"

definition create_access_token :: "libs \<Rightarrow> uuid \<Rightarrow> string \<Rightarrow> nat \<Rightarrow> string io" where
  "create_access_token L user_id secret ttl_secs =
     bindE (getsE now_secs) (\<lambda>now.
     bindE new_v4 (\<lambda>jti.
       let claims = \<lparr> cl_sub = user_id, cl_jti = jti, cl_exp = now + ttl_secs, cl_iat = now \<rparr> in
       some_or ''jwt'' (lib_jwt_sign L (claims_json claims) secret)))"

definition decode_claims :: "libs \<Rightarrow> bool \<Rightarrow> string \<Rightarrow> string \<Rightarrow> world \<Rightarrow> claims option" where
  "decode_claims L validate_exp token secret w =
     Option.bind (lib_jwt_decode L validate_exp (timestamp (clock w)) token secret) claims_of_json"

definition verify_jwt :: "libs \<Rightarrow> string \<Rightarrow> string \<Rightarrow> claims io" where
  "verify_jwt L token secret =
     bindE (getsE (decode_claims L True token secret)) (some_or ''jwt'')"

definition create_extension_access_token ::
  "libs \<Rightarrow> uuid \<Rightarrow> uuid \<Rightarrow> string \<Rightarrow> string \<Rightarrow> string list \<Rightarrow> string \<Rightarrow> nat \<Rightarrow> string io" where
  "create_extension_access_token L user_id session_jti platform device_id_hash scope secret ttl_secs =
     bindE (getsE now_secs) (\<lambda>now.
       let claims = \<lparr> ec_sub = user_id, ec_jti = session_jti, ec_exp = now + ttl_secs,
                      ec_iat = now, ec_scope = scope, ec_platform = platform,
                      ec_device_id_hash = device_id_hash, ec_token_use = ''extension'' \<rparr> in
       some_or ''jwt'' (lib_jwt_sign L (extension_claims_json claims) secret))"

definition verify_extension_jwt :: "libs \<Rightarrow> string \<Rightarrow> string \<Rightarrow> extension_claims io" where
  "verify_extension_jwt L token secret =
     bindE (getsE (\<lambda>w. Option.bind (lib_jwt_decode L True (timestamp (clock w)) token secret)
                         extension_claims_of_json)) (\<lambda>v.
     bindE (some_or ''jwt'' v) (\<lambda>claims.
       if ec_token_use claims \<noteq> ''extension'' then throwErr (OtherError ''Invalid token_use'')
       else returnOk claims))"

text \<open>\<^verbatim>\<open>AuthService::validate_token\<close> and \<^verbatim>\<open>get_claims_ignoring_expiry\<close>.\<close>

definition validate_token :: "libs \<Rightarrow> string \<Rightarrow> string \<Rightarrow> claims io" where
  "validate_token L token secret =
     bindE (getsE (decode_claims L True token secret)) (some_or ''jwt'')"

definition get_claims_ignoring_expiry :: "libs \<Rightarrow> string \<Rightarrow> string \<Rightarrow> claims io" where
  "get_claims_ignoring_expiry L token secret =
     bindE (getsE (decode_claims L False token secret)) (some_or ''jwt'')"

section \<open>Hashes, random tokens and PKCE\<close>

definition hash_token :: "libs \<Rightarrow> string \<Rightarrow> string io" where
  "hash_token L token =
     bindE draw_secret (\<lambda>salt. some_or ''argon2'' (lib_argon2_hash L token salt))"

definition verify_token_hash :: "libs \<Rightarrow> string \<Rightarrow> string \<Rightarrow> bool" where
  "verify_token_hash L token hash = lib_argon2_verify L token hash"

definition generate_refresh_token :: "libs \<Rightarrow> (world, 'e, string) action" where
  "generate_refresh_token L = bindE draw_secret (\<lambda>bytes. returnOk (lib_hex_encode L bytes))"

definition generate_otc :: "libs \<Rightarrow> (world, 'e, string) action" where
  "generate_otc L = bindE draw_secret (\<lambda>bytes. returnOk (lib_hex_encode L bytes))"

definition verifier_char :: "char \<Rightarrow> bool" where
  "verifier_char c \<longleftrightarrow>
     is_ascii_alphanumeric c \<or> c = CHR ''-'' \<or> c = CHR ''.'' \<or> c = CHR ''_'' \<or> c = CHR ''~''"

definition validate_code_verifier :: "string \<Rightarrow> bool" where
  "validate_code_verifier verifier \<longleftrightarrow>
     43 \<le> length verifier \<and> length verifier \<le> 128 \<and> list_all verifier_char verifier"

definition compute_code_challenge :: "libs \<Rightarrow> string \<Rightarrow> string" where
  "compute_code_challenge L verifier = lib_challenge L verifier"

definition verify_pkce_challenge :: "libs \<Rightarrow> string \<Rightarrow> string \<Rightarrow> bool" where
  "verify_pkce_challenge L verifier expected_challenge =
     (if \<not> validate_code_verifier verifier then False
      else compute_code_challenge L verifier = expected_challenge)"

section \<open>Revoked access tokens\<close>

definition revoked_key :: "uuid \<Rightarrow> string" where
  "revoked_key jti = ''revoked:token:'' @ jti"

definition revoke_token :: "uuid \<Rightarrow> nat \<Rightarrow> unit io" where
  "revoke_token jti ttl_secs =
     bindE get_conn (\<lambda>_. kv_set_ex (revoked_key jti) (KText ''1'') ttl_secs)"

definition is_revoked :: "uuid \<Rightarrow> (world, 'e, bool) action" where
  "is_revoked jti =
     catchE get_conn (\<lambda>_. returnOk False)
       (\<lambda>_. catchE (kv_exists (revoked_key jti)) (\<lambda>_. returnOk False) returnOk)"

section \<open>One-time codes\<close>

definition otc_key :: "string \<Rightarrow> string" where
  "otc_key code = ''otc:'' @ code"

definition store_otc :: "string \<Rightarrow> otc_token_data \<Rightarrow> unit io" where
  "store_otc code tokens = bindE get_conn (\<lambda>_. kv_set_ex (otc_key code) (KOtc tokens) 60)"

definition consume_otc :: "string \<Rightarrow> otc_token_data option io" where
  "consume_otc code =
     bindE get_conn (\<lambda>_.
     bindE (kv_get (otc_key code)) (\<lambda>cached.
       case cached of
         None \<Rightarrow> returnOk None
       | Some v \<Rightarrow>
           bindE (kv_del (otc_key code)) (\<lambda>_.
             case as_otc v of
               None \<Rightarrow> throwErr (OtherError ''json'')
             | Some tokens \<Rightarrow> returnOk (Some tokens))))"

section \<open>Refresh tokens\<close>

definition new_refresh_row :: "uuid \<Rightarrow> uuid \<Rightarrow> string \<Rightarrow> nat \<Rightarrow> time \<Rightarrow> refresh_token" where
  "new_refresh_row i user_id h ttl_days now =
     \<lparr> rt_id = i, rt_user_id = user_id, rt_token_hash = h,
       rt_expires_at = now + days (int ttl_days), rt_created_at = now,
       rt_replaced_by = None, rt_replaced_at = None \<rparr>"

definition issue_tokens_for_user :: "libs \<Rightarrow> user \<Rightarrow> string \<Rightarrow> nat \<Rightarrow> nat \<Rightarrow> (string \<times> string) io" where
  "issue_tokens_for_user L user jwt_secret access_token_ttl_secs refresh_token_ttl_days =
     bindE (create_access_token L (u_id user) jwt_secret access_token_ttl_secs) (\<lambda>access_token.
     bindE (generate_refresh_token L) (\<lambda>refresh_token.
     bindE (hash_token L refresh_token) (\<lambda>refresh_token_hash.
     bindE (getsE clock) (\<lambda>now.
     bindE new_v4 (\<lambda>i.
     bindE (db_write (insert_refresh_token
              (new_refresh_row i (u_id user) refresh_token_hash refresh_token_ttl_days now)))
       (\<lambda>_. returnOk (access_token, refresh_token)))))))"

datatype refresh_access_token_error =
    InvalidAccessToken
  | InvalidOrExpiredRefreshToken
  | ReuseDetected
  | Internal failure

type_synonym 'a refresh = "(world, refresh_access_token_error, 'a) action"

definition user_refresh_tokens :: "uuid \<Rightarrow> database \<Rightarrow> refresh_token list" where
  "user_refresh_tokens user_id d = filter (\<lambda>t. rt_user_id t = user_id) (db_refresh_tokens d)"

text \<open>The loop that finds the row of the presented token, deleting matching rows that have
  expired.\<close>

fun match_refresh_token :: "libs \<Rightarrow> string \<Rightarrow> time \<Rightarrow> refresh_token list \<Rightarrow> refresh_token option refresh" where
  "match_refresh_token L raw now [] = returnOk None"
| "match_refresh_token L raw now (t # ts) =
     (if verify_token_hash L raw (rt_token_hash t)
      then if rt_expires_at t < now
           then ignoreE (db_write (\<lambda>d. Inr (delete_refresh_tokens (\<lambda>r. rt_id r = rt_id t) d)))
                  (match_refresh_token L raw now ts)
           else returnOk (Some t)
      else match_refresh_token L raw now ts)"

definition grace_period_secs :: int where
  "grace_period_secs = 30"

definition in_grace :: "time \<Rightarrow> time \<Rightarrow> bool" where
  "in_grace now replaced_at \<longleftrightarrow> num_seconds (now - replaced_at) < grace_period_secs"

definition lift_internal :: "'a io \<Rightarrow> ('a \<Rightarrow> 'b refresh) \<Rightarrow> 'b refresh" where
  [action_defs]: "lift_internal m k = bindErr Internal m k"

definition rotate_tokens ::
  "libs \<Rightarrow> claims \<Rightarrow> refresh_token \<Rightarrow> string \<Rightarrow> nat \<Rightarrow> nat \<Rightarrow> (string \<times> string) refresh" where
  "rotate_tokens L old_claims old_refresh jwt_secret access_token_ttl_secs refresh_token_ttl_days =
     bindE (getsE now_secs) (\<lambda>now_s.
       let remaining_ttl = cl_exp old_claims - now_s;
           user_id = cl_sub old_claims in
       ignoreE (if 0 < remaining_ttl then revoke_token (cl_jti old_claims) remaining_ttl
                else returnOk ())
      (lift_internal (create_access_token L user_id jwt_secret access_token_ttl_secs) (\<lambda>new_access.
       bindE (generate_refresh_token L) (\<lambda>new_refresh.
       lift_internal (hash_token L new_refresh) (\<lambda>new_hash.
       bindE new_v4 (\<lambda>new_id.
       bindE (getsE clock) (\<lambda>now.
       lift_internal (db_write (insert_refresh_token
           (new_refresh_row new_id user_id new_hash refresh_token_ttl_days now))) (\<lambda>_.
       lift_internal (if rt_replaced_by old_refresh = None
              then db_write (update_refresh_token (rt_id old_refresh)
                     (\<lambda>t. t\<lparr> rt_replaced_by := Some new_id, rt_replaced_at := Some now \<rparr>))
              else returnOk ())
         (\<lambda>_. returnOk (new_access, new_refresh))))))))))"

text \<open>
  The body of the transaction. The inner sum is what the function returns after a commit:
  reuse deletes every token of the user, commits, and then reports \<^term>\<open>ReuseDetected\<close>.
\<close>

definition refresh_body ::
  "libs \<Rightarrow> claims \<Rightarrow> string \<Rightarrow> string \<Rightarrow> nat \<Rightarrow> nat
     \<Rightarrow> (refresh_access_token_error + string \<times> string) refresh" where
  "refresh_body L old_claims raw jwt_secret access_token_ttl_secs refresh_token_ttl_days =
     lift_internal (db_read (user_refresh_tokens (cl_sub old_claims))) (\<lambda>user_tokens.
     bindE (getsE clock) (\<lambda>now.
     bindE (match_refresh_token L raw now user_tokens) (\<lambda>matching.
     okOrE InvalidOrExpiredRefreshToken matching (\<lambda>old_refresh.
       if (case rt_replaced_at old_refresh of
             Some replaced_at \<Rightarrow> \<not> in_grace now replaced_at | None \<Rightarrow> False)
       then lift_internal (db_write (\<lambda>d. Inr (delete_refresh_tokens
                (\<lambda>t. rt_user_id t = cl_sub old_claims) d)))
              (\<lambda>_. returnOk (Inl ReuseDetected))
       else bindE (rotate_tokens L old_claims old_refresh jwt_secret access_token_ttl_secs
                     refresh_token_ttl_days)
              (\<lambda>tokens. returnOk (Inr tokens))))))"

definition refresh_access_token ::
  "libs \<Rightarrow> string \<Rightarrow> string \<Rightarrow> string \<Rightarrow> nat \<Rightarrow> nat \<Rightarrow> (string \<times> string) refresh" where
  "refresh_access_token L old_access_token refresh_token_raw jwt_secret
      access_token_ttl_secs refresh_token_ttl_days =
     bindErr (\<lambda>_. InvalidAccessToken) (get_claims_ignoring_expiry L old_access_token jwt_secret)
       (\<lambda>old_claims.
     bindE (transaction Internal
              (refresh_body L old_claims refresh_token_raw jwt_secret access_token_ttl_secs
                 refresh_token_ttl_days))
       (\<lambda>outcome. case outcome of Inl e \<Rightarrow> throwErr e | Inr tokens \<Rightarrow> returnOk tokens))"

definition logout_all :: "uuid \<Rightarrow> unit io" where
  "logout_all user_id =
     db_write (\<lambda>d. Inr (delete_refresh_tokens (\<lambda>t. rt_user_id t = user_id) d))"

definition revoke_extension_sessions :: "uuid \<Rightarrow> unit io" where
  "revoke_extension_sessions user_id =
     bindE (getsE clock) (\<lambda>now.
       db_write (\<lambda>d. Inr (d\<lparr>db_extension_sessions :=
         update_where (\<lambda>s. es_user_id s = user_id \<and> es_revoked_at s = None)
           (\<lambda>s. s\<lparr>es_revoked_at := Some now\<rparr>) (db_extension_sessions d)\<rparr>)))"

section \<open>Lemmas on rotation\<close>

lemma lift_internal_Inl: "lift_internal m k w = (Inl e, w') \<Longrightarrow>
    (\<exists>f. e = Internal f) \<or> (\<exists>x w1. m w = (Inr x, w1) \<and> k x w1 = (Inl e, w'))"
  by (auto simp: lift_internal_def bindErr_def split: prod.splits sum.splits)

text \<open>The row the loop settles on.\<close>

definition live_match :: "libs \<Rightarrow> string \<Rightarrow> time \<Rightarrow> refresh_token list \<Rightarrow> refresh_token option" where
  "live_match L raw now ts =
     find (\<lambda>t. verify_token_hash L raw (rt_token_hash t) \<and> \<not> rt_expires_at t < now) ts"

lemma match_refresh_token_result:
  "fst (match_refresh_token L raw now ts w) = Inr (live_match L raw now ts)"
proof (induction ts arbitrary: w)
  case (Cons t ts)
  then show ?case by (simp add: live_match_def ignoreE_def returnOk_def)
qed (simp add: live_match_def returnOk_def)

lemma live_match_Some:
  "live_match L raw now ts = Some t \<Longrightarrow>
     t \<in> set ts \<and> verify_token_hash L raw (rt_token_hash t) \<and> now \<le> rt_expires_at t"
  unfolding live_match_def by (auto dest!: find_Some_set)

lemma match_refresh_token_clock: "keeps clock (match_refresh_token L raw now ts)"
  by (induction ts) (auto intro!: keeps_rules)

lemma match_refresh_token_ok:
  "faults w = [] \<Longrightarrow> faults (snd (match_refresh_token L raw now ts w)) = []"
  by (induction ts arbitrary: w) (simp_all add: ignoreE_def returnOk_def)

lemma in_delete_refresh_tokens:
  assumes "t \<in> set (db_refresh_tokens d)" and "\<not> p t" and "rt_replaced_by t = None"
  shows "t \<in> set (db_refresh_tokens (delete_refresh_tokens p d))"
proof -
  have "clear_replaced_by gone t = t" for gone
    using assms(3) by (simp add: clear_replaced_by_def)
  moreover have "t \<in> set (delete_where p (db_refresh_tokens d))"
    using assms(1,2) by simp
  ultimately show ?thesis
    unfolding delete_refresh_tokens_def Let_def by (simp add: image_iff) metis
qed

lemma db_users_delete_refresh_tokens [simp]: "db_users (delete_refresh_tokens p d) = db_users d"
  by (simp add: delete_refresh_tokens_def Let_def)

lemma no_tokens_after_delete:
  "filter p (db_refresh_tokens (delete_refresh_tokens p d)) = []"
  if "\<And>gone t. p (clear_replaced_by gone t) = p t"
  using that by (auto simp: delete_refresh_tokens_def Let_def filter_empty_conv)

lemma rt_clear_replaced_by [simp]:
  "rt_user_id (clear_replaced_by g t) = rt_user_id t" "rt_id (clear_replaced_by g t) = rt_id t"
  "rt_token_hash (clear_replaced_by g t) = rt_token_hash t"
  "rt_expires_at (clear_replaced_by g t) = rt_expires_at t"
  "rt_replaced_at (clear_replaced_by g t) = rt_replaced_at t"
  by (auto simp: clear_replaced_by_def split: option.split)

lemma transaction_cases:
  assumes "transaction g m w = (r, w')"
  obtains (at_begin) e where "r = Inl (g e)" and "db w' = db w"
  | (body) w1 e w2 where "begin_txn w = (Inr (), w1)" and "m w1 = (Inl e, w2)" and "r = Inl e"
      and "db w' = db w"
  | (at_commit) e where "r = Inl (g e)"
  | (committed) w1 x w2 where "begin_txn w = (Inr (), w1)" and "m w1 = (Inr x, w2)" and "r = Inr x"
      and "db w' = db w2"
proof -
  have b: "db (snd (begin_txn w)) = db w" by simp
  have c: "fst (commit d w2) = Inr () \<Longrightarrow> db (snd (commit d w2)) = db w2" for d w2
    by (auto simp: commit_def split: list.splits fault.splits)
  obtain rb w1 where bt: "begin_txn w = (rb, w1)" by fastforce
  then have w1: "db w1 = db w" using b by simp
  show ?thesis
  proof (cases rb)
    case (Inl e)
    then show ?thesis using assms bt w1 at_begin by (auto simp: transaction_def)
  next
    case u: (Inr u)
    obtain rm w2 where m: "m w1 = (rm, w2)" by fastforce
    show ?thesis
    proof (cases rm)
      case (Inl e)
      then show ?thesis using assms bt w1 u m body by (auto simp: transaction_def)
    next
      case x: (Inr x)
      obtain rc w3 where cm: "commit (db w1) w2 = (rc, w3)" by fastforce
      have eqs: "(case rc of Inl e \<Rightarrow> (Inl (g e), w3) | Inr _ \<Rightarrow> (Inr x, w3)) = (r, w')"
        using assms by (simp add: transaction_def bt u m x cm)
      show ?thesis
      proof (cases rc)
        case (Inl e)
        with eqs have "r = Inl (g e)" by simp
        then show ?thesis by (rule at_commit)
      next
        case (Inr v)
        with eqs have "r = Inr x" "w' = w3" by simp_all
        moreover have "db w3 = db w2" using c [of "db w1" w2] cm Inr by simp
        ultimately show ?thesis using committed [of w1 x w2] bt m u x by simp
      qed
    qed
  qed
qed

lemma refresh_body_Inr:
  assumes "refresh_body L c raw sec att rtd w = (Inr (Inr toks), w')"
  shows "\<exists>t. t \<in> set (user_refresh_tokens (cl_sub c) (db w))
    \<and> verify_token_hash L raw (rt_token_hash t) \<and> clock w \<le> rt_expires_at t
    \<and> (case rt_replaced_at t of None \<Rightarrow> True | Some r \<Rightarrow> in_grace (clock w) r)"
proof -
  obtain ts w1 where r: "db_read (user_refresh_tokens (cl_sub c)) w = (Inr ts, w1)"
    using assms by (auto simp: refresh_body_def lift_internal_def bindErr_def split: prod.splits sum.splits)
  have ts: "ts = user_refresh_tokens (cl_sub c) (db w)" by (rule db_read_Inr [OF r])
  have cl: "clock w1 = clock w"
    using keepsD [OF keeps_clock_calls(12), of "user_refresh_tokens (cl_sub c)" w] r by simp
  obtain w2 where m: "match_refresh_token L raw (clock w1) ts w1
      = (Inr (live_match L raw (clock w1) ts), w2)"
    using match_refresh_token_result [of L raw "clock w1" ts w1] by (metis prod.collapse)
  show ?thesis
  proof (cases "live_match L raw (clock w1) ts")
    case None
    then show ?thesis using assms r m
      by (auto simp: refresh_body_def lift_internal_def action_defs)
  next
    case (Some t)
    have "case rt_replaced_at t of None \<Rightarrow> True | Some r \<Rightarrow> in_grace (clock w) r"
      using assms r m Some cl
      by (auto simp: refresh_body_def lift_internal_def action_defs split: option.splits prod.splits sum.splits if_splits)
    with live_match_Some [OF Some] ts cl show ?thesis by auto
  qed
qed

lemma rotate_tokens_ok:
  assumes ok: "faults w = []" and r: "rotate_tokens L c t sec att rtd w = (Inr (a, r), w')"
  shows "\<exists>n h d. insert_refresh_token (new_refresh_row n (cl_sub c) h rtd (clock w)) (db w) = Inr d
    \<and> faults w' = []
    \<and> (if rt_replaced_by t = None
       then update_refresh_token (rt_id t)
              (\<lambda>t. t\<lparr> rt_replaced_by := Some n, rt_replaced_at := Some (clock w) \<rparr>) d = Inr (db w')
       else db w' = d)"
proof -
  let ?m = "if 0 < cl_exp c - now_secs w then revoke_token (cl_jti c) (cl_exp c - now_secs w)
            else returnOk () :: unit io"
  let ?w1 = "snd (?m w)"
  have w1: "faults ?w1 = []" "db ?w1 = db w" "clock ?w1 = clock w"
    using ok by (auto simp: revoke_token_def bindE_def returnOk_def)
  from r w1 show ?thesis
    by (auto simp: rotate_tokens_def action_defs create_access_token_def some_or_def
        generate_refresh_token_def hash_token_def new_v4_def draw_secret_def Let_def
        split: sum.splits option.splits if_splits; blast)
qed

section \<open>One-time values\<close>

text \<open>
  The contract of a store of one-time values: what was put is taken once. \<open>holds\<close> is what
  a key would give, \<open>ok\<close> the states in which the store answers.
\<close>

locale one_time_store =
  fixes ok :: "'s \<Rightarrow> bool" and holds :: "'s \<Rightarrow> string \<Rightarrow> 'v option"
    and put :: "string \<Rightarrow> 'v \<Rightarrow> 's \<Rightarrow> 's" and take_once :: "string \<Rightarrow> 's \<Rightarrow> 'v option \<times> 's"
  assumes ok_put: "ok s \<Longrightarrow> ok (put k v s)"
    and ok_take: "ok s \<Longrightarrow> ok (snd (take_once k s))"
    and holds_put: "ok s \<Longrightarrow> holds (put k v s) k' = (if k' = k then Some v else holds s k')"
    and take_gives: "ok s \<Longrightarrow> fst (take_once k s) = holds s k"
    and take_removes: "ok s \<Longrightarrow> holds (snd (take_once k s)) k' = (if k' = k then None else holds s k')"
begin

lemma taken_once:
  assumes "ok s"
  shows "fst (take_once k (put k v s)) = Some v"
    and "fst (take_once k (snd (take_once k (put k v s)))) = None"
  using assms by (simp_all add: ok_put ok_take holds_put take_gives take_removes)

lemma others_untouched: "ok s \<Longrightarrow> k' \<noteq> k \<Longrightarrow> holds (snd (take_once k s)) k' = holds s k'"
  by (simp add: take_removes)

end

definition otc_holds :: "world \<Rightarrow> string \<Rightarrow> otc_token_data option" where
  "otc_holds w code = Option.bind (kv_live w (otc_key code)) as_otc"

definition otc_put :: "string \<Rightarrow> otc_token_data \<Rightarrow> world \<Rightarrow> world" where
  "otc_put code d w = snd (store_otc code d w)"

definition otc_take :: "string \<Rightarrow> world \<Rightarrow> otc_token_data option \<times> world" where
  "otc_take code w =
     (case consume_otc code w of (r, w') \<Rightarrow> (case r of Inr x \<Rightarrow> x | Inl _ \<Rightarrow> None, w'))"

lemma otc_key_inject [simp]: "otc_key a = otc_key b \<longleftrightarrow> a = b"
  by (simp add: otc_key_def)

lemma store_otc_ok:
  "faults w = [] \<Longrightarrow> store_otc code d w
     = (Inr (), kv_put (otc_key code) (KOtc d) (Some (clock w + secs 60)) w)"
  by (simp add: store_otc_def bindE_def)

lemma consume_otc_ok:
  "faults w = [] \<Longrightarrow> consume_otc code w =
     (case kv_live w (otc_key code) of
        None \<Rightarrow> (Inr None, w)
      | Some v \<Rightarrow> (case as_otc v of None \<Rightarrow> Inl (OtherError ''json'') | Some d \<Rightarrow> Inr (Some d),
                  kv_drop (otc_key code) w))"
  by (simp add: consume_otc_def action_defs split: option.split)

interpretation otc: one_time_store "\<lambda>w. faults w = []" otc_holds otc_put otc_take
proof
  fix w :: world and code code' d assume ok: "faults w = []"
  show "faults (otc_put code d w) = []"
    using ok by (simp add: otc_put_def store_otc_ok)
  show "faults (snd (otc_take code w)) = []"
    using ok by (simp add: otc_take_def consume_otc_ok split: option.split)
  show "otc_holds (otc_put code d w) code' = (if code' = code then Some d else otc_holds w code')"
    using ok by (simp add: otc_holds_def otc_put_def store_otc_ok)
  show "fst (otc_take code w) = otc_holds w code"
    using ok by (simp add: otc_holds_def otc_take_def consume_otc_ok split: option.split)
  show "otc_holds (snd (otc_take code w)) code' = (if code' = code then None else otc_holds w code')"
    using ok by (auto simp: otc_holds_def otc_take_def consume_otc_ok split: option.split)
qed

section \<open>Two clients, one code\<close>

text \<open>
  \<^verbatim>\<open>consume_otc\<close> reads and deletes in two commands; two exchanges of the same code
  interleave them.
\<close>

datatype otc_pc = OtcStart | OtcRead otc_token_data | OtcGot otc_token_data | OtcNothing

record otc_race =
  orc_value :: "otc_token_data option"
  orc_pcs :: "otc_pc list"

inductive otc_step :: "otc_race \<Rightarrow> otc_race \<Rightarrow> bool" where
  otc_get: "\<lbrakk> i < length (orc_pcs s); orc_pcs s ! i = OtcStart;
      pc = (case orc_value s of None \<Rightarrow> OtcNothing | Some d \<Rightarrow> OtcRead d) \<rbrakk>
    \<Longrightarrow> otc_step s (s\<lparr>orc_pcs := (orc_pcs s)[i := pc]\<rparr>)"
| otc_del: "\<lbrakk> i < length (orc_pcs s); orc_pcs s ! i = OtcRead d \<rbrakk>
    \<Longrightarrow> otc_step s (s\<lparr>orc_value := None, orc_pcs := (orc_pcs s)[i := OtcGot d]\<rparr>)"

definition otc_init :: "otc_token_data \<Rightarrow> otc_race \<Rightarrow> bool" where
  "otc_init d s \<longleftrightarrow> s = \<lparr> orc_value = Some d, orc_pcs = [OtcStart, OtcStart] \<rparr>"

section \<open>Properties\<close>

text \<open>C2: whatever fails on the way, new tokens are only issued to a caller whose access
  token was signed with the secret and who presents a refresh token of that user that is
  stored, has not expired, and was either never rotated or rotated less than the grace
  period ago.\<close>

theorem refresh_needs_a_live_token:
  assumes "refresh_access_token L old raw sec att rtd w = (Inr toks, w')"
  shows "\<exists>c t. decode_claims L False old sec w = Some c
    \<and> t \<in> set (user_refresh_tokens (cl_sub c) (db w))
    \<and> verify_token_hash L raw (rt_token_hash t) \<and> clock w \<le> rt_expires_at t
    \<and> (case rt_replaced_at t of None \<Rightarrow> True | Some r \<Rightarrow> in_grace (clock w) r)"
proof -
  obtain c where c: "decode_claims L False old sec w = Some c"
    using assms by (cases "decode_claims L False old sec w")
      (auto simp: refresh_access_token_def get_claims_ignoring_expiry_def some_or_def action_defs)
  obtain r w2 where t: "transaction Internal (refresh_body L c raw sec att rtd) w = (r, w2)"
    by fastforce
  with assms c have r: "r = Inr (Inr toks)"
    by (auto simp: refresh_access_token_def get_claims_ignoring_expiry_def some_or_def action_defs
        split: sum.splits)
  from t show ?thesis
  proof (cases rule: transaction_cases)
    case (committed w1 x w3)
    have d: "db w1 = db w" using db_begin_txn [of w] committed(1) by simp
    have k: "clock w1 = clock w"
      using keeps_external [of clock "\<lambda>w. (Inr (), w)"] committed(1)
      by (auto simp: begin_txn_def keeps_def) (metis snd_conv)
    show ?thesis
      using refresh_body_Inr [of L c raw sec att rtd w1 toks w3, unfolded d k] committed r c by auto
  qed (use r in auto)
qed


lemma refresh_ok_unfold:
  assumes "faults w = []" and "decode_claims L False old sec w = Some c"
  shows "refresh_access_token L old raw sec att rtd w =
    (case refresh_body L c raw sec att rtd w of
       (Inl e, w2) \<Rightarrow> (Inl e, w2\<lparr>db := db w\<rparr>)
     | (Inr x, w2) \<Rightarrow>
         (case commit (db w) w2 of
            (Inl e, w3) \<Rightarrow> (Inl (Internal e), w3)
          | (Inr _, w3) \<Rightarrow> (case x of Inl e \<Rightarrow> (Inl e, w3) | Inr toks \<Rightarrow> (Inr toks, w3))))"
  using assms
  by (simp add: refresh_access_token_def get_claims_ignoring_expiry_def some_or_def action_defs
      transaction_def split: prod.splits sum.splits)

text \<open>C22: presenting a refresh token again once it has been rotated for the grace period or
  longer is treated as theft: the call reports the reuse and every refresh token of the user
  is gone.\<close>

theorem reuse_revokes_all_sessions:
  assumes "faults w = []" and "decode_claims L False old sec w = Some c"
    and "live_match L raw (clock w) (user_refresh_tokens (cl_sub c) (db w)) = Some t"
    and "rt_replaced_at t = Some r" and "secs grace_period_secs \<le> clock w - r"
  shows "result (refresh_access_token L old raw sec att rtd w) = Inl ReuseDetected
    \<and> user_refresh_tokens (cl_sub c) (db (final (refresh_access_token L old raw sec att rtd w))) = []"
proof -
  let ?ts = "user_refresh_tokens (cl_sub c) (db w)"
  obtain w2 where m: "match_refresh_token L raw (clock w) ?ts w = (Inr (Some t), w2)"
    using match_refresh_token_result [of L raw "clock w" ?ts w] assms(3) by (metis prod.collapse)
  have f: "faults w2 = []" using match_refresh_token_ok [OF assms(1)] m by (metis snd_conv)
  have "\<not> in_grace (clock w) r"
    using assms(5) by (simp add: in_grace_def num_seconds_less_iff grace_period_secs_def not_less)
  then have b: "refresh_body L c raw sec att rtd w = (Inr (Inl ReuseDetected),
      w2\<lparr>db := delete_refresh_tokens (\<lambda>t. rt_user_id t = cl_sub c) (db w2)\<rparr>)"
    using assms(1,4) m f by (simp add: refresh_body_def action_defs)
  show ?thesis
    using f no_tokens_after_delete [of "\<lambda>t. rt_user_id t = cl_sub c" "db w2"]
    by (simp add: refresh_ok_unfold [OF assms(1,2)] b user_refresh_tokens_def)
qed

lemma match_refresh_token_keeps:
  assumes "faults w = []" and "t \<in> set (db_refresh_tokens (db w))" and "rt_replaced_by t = None"
    and "\<And>x. x \<in> set ts \<Longrightarrow> rt_expires_at x < now \<Longrightarrow> rt_id x \<noteq> rt_id t"
  shows "t \<in> set (db_refresh_tokens (db (snd (match_refresh_token L raw now ts w))))"
  using assms
proof (induction ts arbitrary: w)
  case (Cons x ts)
  let ?p = "\<lambda>r. rt_id r = rt_id x"
  let ?w = "w\<lparr>db := delete_refresh_tokens ?p (db w)\<rparr>"
  have "t \<in> set (db_refresh_tokens (db (snd (match_refresh_token L raw now ts ?w))))"
    if "rt_expires_at x < now"
  proof (rule Cons.IH)
    have "\<not> ?p t" using Cons.prems(4) [of x] that by auto
    then show "t \<in> set (db_refresh_tokens (db ?w))"
      using in_delete_refresh_tokens [of t "db w" ?p] Cons.prems(2,3) by simp
  qed (use Cons.prems in auto)
  moreover have "t \<in> set (db_refresh_tokens (db (snd (match_refresh_token L raw now ts w))))"
    by (rule Cons.IH) (use Cons.prems in auto)
  ultimately show ?case
    using Cons.prems by (simp add: ignoreE_def returnOk_def)
qed (simp add: returnOk_def)

lemma rotation_rows:
  assumes "insert_refresh_token row d0 = Inr d" and "t \<in> set (db_refresh_tokens d0)"
    and "update_refresh_token (rt_id t) f d = Inr d'"
  shows "f t \<in> set (db_refresh_tokens d') \<and> row \<in> set (db_refresh_tokens d')"
proof -
  from assms(1,2) have rows: "db_refresh_tokens d = db_refresh_tokens d0 @ [row]" "rt_id row \<noteq> rt_id t"
    by (auto simp: insert_refresh_token_def list_ex_iff)
  with assms(2,3) show ?thesis
    by (auto simp: update_refresh_token_def Let_def set_update_where)
qed

text \<open>A successful refresh of a token that was never rotated marks its row as replaced now
  by a new row of the same user with the configured lifetime.\<close>

theorem refresh_marks_old_token:
  assumes "faults w = []" and "decode_claims L False old sec w = Some c"
    and "distinct (map rt_id (db_refresh_tokens (db w)))"
    and "live_match L raw (clock w) (user_refresh_tokens (cl_sub c) (db w)) = Some t"
    and "rt_replaced_at t = None" and "rt_replaced_by t = None"
    and "refresh_access_token L old raw sec att rtd w = (Inr toks, w')"
  shows "\<exists>n h. t\<lparr> rt_replaced_by := Some n, rt_replaced_at := Some (clock w) \<rparr>
        \<in> set (db_refresh_tokens (db w'))
    \<and> new_refresh_row n (cl_sub c) h rtd (clock w) \<in> set (db_refresh_tokens (db w'))"
proof -
  let ?ts = "user_refresh_tokens (cl_sub c) (db w)"
  obtain w2 where m: "match_refresh_token L raw (clock w) ?ts w = (Inr (Some t), w2)"
    using match_refresh_token_result [of L raw "clock w" ?ts w] assms(4) by (metis prod.collapse)
  have f: "faults w2 = []" using match_refresh_token_ok [OF assms(1)] m by (metis snd_conv)
  have k: "clock w2 = clock w" using keepsD [OF match_refresh_token_clock] m by (metis snd_conv)
  from live_match_Some [OF assms(4)] have t: "t \<in> set (db_refresh_tokens (db w))"
    "\<not> rt_expires_at t < clock w" by (auto simp: user_refresh_tokens_def)
  have "t \<in> set (db_refresh_tokens (db (snd (match_refresh_token L raw (clock w) ?ts w))))"
    using assms(1,3,6) t
    by (intro match_refresh_token_keeps)
      (auto simp: user_refresh_tokens_def dest: same_id_same_row)
  with m have t2: "t \<in> set (db_refresh_tokens (db w2))" by simp
  have b: "refresh_body L c raw sec att rtd w =
      (case rotate_tokens L c t sec att rtd w2 of (Inl e, w3) \<Rightarrow> (Inl e, w3) | (Inr x, w3) \<Rightarrow> (Inr (Inr x), w3))"
    using assms(1,5) m by (simp add: refresh_body_def action_defs)
  obtain r w3 where ro: "rotate_tokens L c t sec att rtd w2 = (r, w3)" by fastforce
  with assms(7) b have r: "r = Inr toks"
    by (cases r) (auto simp: refresh_ok_unfold [OF assms(1,2)] split: prod.splits sum.splits)
  obtain a rt where toks: "toks = (a, rt)" by fastforce
  from rotate_tokens_ok [OF f ro [unfolded r toks]] obtain n h d where
    ins: "insert_refresh_token (new_refresh_row n (cl_sub c) h rtd (clock w)) (db w2) = Inr d"
    and f3: "faults w3 = []"
    and upd: "update_refresh_token (rt_id t)
              (\<lambda>t. t\<lparr> rt_replaced_by := Some n, rt_replaced_at := Some (clock w) \<rparr>) d = Inr (db w3)"
    using assms(6) k by auto
  from assms(7) b ro r f3 have "w' = w3"
    by (simp add: refresh_ok_unfold [OF assms(1,2)])
  with rotation_rows [OF ins t2 upd] show ?thesis by blast
qed

text \<open>A one-time code gives its data once: the first exchange after it was stored gets
  the data, the second gets nothing, and other codes are not affected.\<close>

theorem otc_single_use:
  assumes "faults w = []" and "code' \<noteq> code"
  shows "fst (otc_take code (otc_put code d w)) = Some d
    \<and> fst (otc_take code (snd (otc_take code (otc_put code d w)))) = None
    \<and> otc_holds (snd (otc_take code (otc_put code d w))) code' = otc_holds w code'"
  using otc.taken_once [OF assms(1)] otc.others_untouched [OF otc.ok_put [OF assms(1)] assms(2)]
    otc.holds_put [OF assms(1)] assms(2) by simp

text \<open>The code is not consumed atomically: two exchanges that both read it before either
  deletes it both get the tokens.\<close>

theorem otc_can_be_used_twice:
  "\<exists>s. reach (otc_init d) otc_step s \<and> orc_pcs s = [OtcGot d, OtcGot d]"
proof -
  let ?R = "reach (otc_init d) otc_step"
  have "?R \<lparr> orc_value = Some d, orc_pcs = [OtcStart, OtcStart] \<rparr>"
    by (rule reach_init) (simp add: otc_init_def)
  from reach_step [OF this otc_get [of 0]]
  have "?R \<lparr> orc_value = Some d, orc_pcs = [OtcRead d, OtcStart] \<rparr>" by simp
  from reach_step [OF this otc_get [of 1]]
  have "?R \<lparr> orc_value = Some d, orc_pcs = [OtcRead d, OtcRead d] \<rparr>" by simp
  from reach_step [OF this otc_del [where i = 0 and d = d]]
  have "?R \<lparr> orc_value = None, orc_pcs = [OtcGot d, OtcRead d] \<rparr>" by simp
  from reach_step [OF this otc_del [where i = 1 and d = d]]
  have "?R \<lparr> orc_value = None, orc_pcs = [OtcGot d, OtcGot d] \<rparr>" by simp
  then show ?thesis by (intro exI conjI) (assumption, simp)
qed

section \<open>Evaluations\<close>

definition token_row :: "time option \<Rightarrow> refresh_token" where
  "token_row replaced_at =
     \<lparr> rt_id = ''t1'', rt_user_id = ''u1'', rt_token_hash = ''h:raw'',
       rt_expires_at = 1800000000000000000, rt_created_at = 1, rt_replaced_by = None,
       rt_replaced_at = replaced_at \<rparr>"

definition token_world :: "time option \<Rightarrow> world" where
  "token_world replaced_at =
     world1\<lparr> db := (db world1)\<lparr> db_refresh_tokens := [token_row replaced_at] \<rparr> \<rparr>"

definition token_libs :: libs where
  "token_libs = libs0\<lparr> lib_jwt_sign := (\<lambda>p s. Some ''tok''),
     lib_jwt_decode := (\<lambda>e n t s. if t = ''tok''
       then Some (claims_json \<lparr> cl_sub = ''u1'', cl_jti = ''j'', cl_exp = 1700000100, cl_iat = 1 \<rparr>)
       else None) \<rparr>"

lemma token_world_simps [simp]:
  "faults (token_world r) = []" "clock (token_world r) = 1700000000000000000"
  "db (token_world r) = empty_db\<lparr> db_users := [user0], db_videos := [video0],
                                  db_refresh_tokens := [token_row r] \<rparr>"
  "drawn (token_world r) = 0" "kv (token_world r) = []"
  "uuid_src (token_world r) n = ''uuid-'' @ show_nat n"
  "secret_src (token_world r) n = ''secret-'' @ show_nat n"
  by (simp_all add: token_world_def empty_db_def)

lemma token_claims:
  "decode_claims token_libs False ''tok'' ''s'' w
     = Some \<lparr> cl_sub = ''u1'', cl_jti = ''j'', cl_exp = 1700000100, cl_iat = 1 \<rparr>"
  by (simp add: decode_claims_def token_libs_def)

lemma token_match:
  "live_match token_libs ''raw'' 1700000000000000000 (user_refresh_tokens ''u1'' (db (token_world r)))
     = Some (token_row r)"
  by (simp add: live_match_def user_refresh_tokens_def token_row_def token_libs_def libs0_def
      verify_token_hash_def)

definition refresh_run :: "string \<Rightarrow> time option \<Rightarrow> (refresh_access_token_error + string \<times> string) \<times> world" where
  "refresh_run raw r = refresh_access_token token_libs ''tok'' raw ''s'' 900 30 (token_world r)"

definition old_claims0 :: claims where
  "old_claims0 = \<lparr> cl_sub = ''u1'', cl_jti = ''j'', cl_exp = 1700000100, cl_iat = 1 \<rparr>"

lemma token_match_run:
  "match_refresh_token token_libs ''raw'' 1700000000000000000
      (user_refresh_tokens ''u1'' (db (token_world r))) (token_world r)
      = (Inr (Some (token_row r)), token_world r)"
  by (simp add: user_refresh_tokens_def token_row_def verify_token_hash_def token_libs_def libs0_def
        returnOk_def)

lemma refresh_run_body:
  "refresh_run ''raw'' r =
    (case refresh_body token_libs old_claims0 ''raw'' ''s'' 900 30 (token_world r) of
       (Inl e, w2) \<Rightarrow> (Inl e, w2\<lparr>db := db (token_world r)\<rparr>)
     | (Inr x, w2) \<Rightarrow>
         (case commit (db (token_world r)) w2 of
            (Inl e, w3) \<Rightarrow> (Inl (Internal e), w3)
          | (Inr _, w3) \<Rightarrow> (case x of Inl e \<Rightarrow> (Inl e, w3) | Inr toks \<Rightarrow> (Inr toks, w3))))"
  unfolding refresh_run_def old_claims0_def
  by (rule refresh_ok_unfold [OF _ token_claims]) simp

lemma token_libs_simps [simp]:
  "lib_jwt_sign token_libs p k = Some ''tok''" "lib_argon2_hash token_libs t s = Some (''h:'' @ t)"
  "lib_hex_encode token_libs s = s"
  by (simp_all add: token_libs_def libs0_def)

lemma token_row_simps [simp]:
  "rt_id (token_row r) = ''t1''" "rt_user_id (token_row r) = ''u1''"
  "rt_replaced_by (token_row r) = None" "rt_replaced_at (token_row r) = r"
  by (simp_all add: token_row_def)

lemma rotate_run:
  "\<exists>a b w. rotate_tokens token_libs old_claims0 (token_row None) ''s'' 900 30 (token_world None)
     = (Inr (a, b), w) \<and> faults w = []"
  by (simp add: rotate_tokens_def action_defs revoke_token_def create_access_token_def some_or_def
        generate_refresh_token_def hash_token_def new_v4_def draw_secret_def Let_def
        now_secs_def timestamp_def nanos_per_sec_def old_claims0_def
        insert_refresh_token_def update_refresh_token_def update_where_def new_refresh_row_def
        replaced_by_ok_def user_exists_def user0_def empty_db_def)

lemma refresh_run_fresh: "\<exists>a b w. refresh_run ''raw'' None = (Inr (a, b), w)"
proof -
  obtain a b w where r: "rotate_tokens token_libs old_claims0 (token_row None) ''s'' 900 30
      (token_world None) = (Inr (a, b), w)" and f: "faults w = []"
    using rotate_run by blast
  have "cl_sub old_claims0 = ''u1''" "rt_replaced_at (token_row None) = None"
    by (simp_all add: old_claims0_def token_row_def)
  with r have "refresh_body token_libs old_claims0 ''raw'' ''s'' 900 30 (token_world None)
      = (Inr (Inr (a, b)), w)"
    using token_match_run [of None] by (simp add: refresh_body_def action_defs del: token_world_simps(3))
  with f show ?thesis by (simp add: refresh_run_body)
qed

lemma refresh_needs_a_live_token_witness:
  "\<exists>t. t \<in> set (user_refresh_tokens ''u1'' (db (token_world None)))
     \<and> verify_token_hash token_libs ''raw'' (rt_token_hash t)"
proof -
  obtain a b w where "refresh_access_token token_libs ''tok'' ''raw'' ''s'' 900 30 (token_world None)
      = (Inr (a, b), w)"
    using refresh_run_fresh by (auto simp: refresh_run_def)
  from refresh_needs_a_live_token [OF this] show ?thesis
    by (auto simp: token_claims simp del: token_world_simps)
qed


lemma reuse_revokes_all_sessions_witness:
  "result (refresh_run ''raw'' (Some 1699999940000000000)) = Inl ReuseDetected"
  using reuse_revokes_all_sessions [where w = "token_world (Some 1699999940000000000)" and raw = "''raw''",
      OF _ token_claims, simplified, OF token_match [simplified]]
  by (simp add: refresh_run_def secs_def grace_period_secs_def nanos_per_sec_def)

lemma refresh_marks_old_token_witness:
  "\<exists>(w :: world) n. (token_row None)\<lparr> rt_replaced_by := Some n, rt_replaced_at := Some 1700000000000000000 \<rparr>
     \<in> set (db_refresh_tokens (db w))"
proof -
  obtain a b w where r: "refresh_access_token token_libs ''tok'' ''raw'' ''s'' 900 30 (token_world None)
      = (Inr (a, b), w)"
    using refresh_run_fresh by (auto simp: refresh_run_def)
  have "live_match token_libs ''raw'' (clock (token_world None))
      (user_refresh_tokens (cl_sub \<lparr> cl_sub = ''u1'', cl_jti = ''j'', cl_exp = 1700000100, cl_iat = 1 \<rparr>)
         (db (token_world None))) = Some (token_row None)"
    using token_match [of None] by simp
  from refresh_marks_old_token [OF _ token_claims _ this _ _ r] show ?thesis
    by (simp add: empty_db_def) blast
qed

definition otc_data0 :: otc_token_data where
  "otc_data0 = SignupRequired \<lparr> osr_signup_ticket = ''t'', osr_suggested_username = ''u'',
     osr_required_terms_version = ''v1'', osr_terms_url = None, osr_requires_age_confirmation = True \<rparr>"

lemma otc_single_use_witness:
  "fst (otc_take ''c'' (snd (otc_take ''c'' (otc_put ''c'' otc_data0 world0)))) = None"
  using otc_single_use [of world0 "''d''" "''c''" otc_data0] by simp

end
