(* ===== verification/Session.thy ===== *)
theory Session
  imports Bans Tokens
begin

text \<open>
  Who a request comes from: the client address of \<^verbatim>\<open>services/client_ip.rs\<close>, the guards of
  \<^verbatim>\<open>middleware/ip_rate_limit.rs\<close> and \<^verbatim>\<open>middleware/platform_mode_guard.rs\<close>, the user and
  extension extractors of \<^verbatim>\<open>auth/extractors.rs\<close> and the administrator's of
  \<^verbatim>\<open>admin/auth.rs\<close> and \<^verbatim>\<open>admin/extractors.rs\<close>.
\<close>

section \<open>Requests and client addresses\<close>

text \<open>
  A header value is \<open>None\<close> when it is no visible ASCII text (\<^verbatim>\<open>to_str\<close> fails). \<open>rq_bearer\<close>
  is what the bearer extractor gives, \<open>rq_connect_ip\<close> the peer address axum recorded.
\<close>

record request =
  rq_method :: string
  rq_path :: string
  rq_headers :: "(string \<times> string option) list"
  rq_bearer :: "string option"
  rq_connect_ip :: "ip_addr option"

definition parse_ip_header :: "request \<Rightarrow> string \<Rightarrow> api_error + ip_addr option" where
  "parse_ip_header rq name =
     (let malformed = bad_request (''Malformed '' @ name @ '' header'') in
      case map_of (rq_headers rq) name of
        None \<Rightarrow> Inr None
      | Some None \<Rightarrow> Inl malformed
      | Some (Some raw) \<Rightarrow>
          (case parse_ip raw of None \<Rightarrow> Inl malformed | Some ip \<Rightarrow> Inr (Some ip)))"

definition localhost :: ip_addr where
  "localhost = V4 0x7F000001"

definition extract_client_ip :: "config \<Rightarrow> request \<Rightarrow> api_error + ip_addr" where
  "extract_client_ip cf rq =
     (case parse_ip_header rq ''cf-connecting-ip'' of
        Inl e \<Rightarrow> Inl e
      | Inr (Some ip) \<Rightarrow> Inr ip
      | Inr None \<Rightarrow>
          (case parse_ip_header rq ''x-real-ip'' of
             Inl e \<Rightarrow> Inl e
           | Inr (Some ip) \<Rightarrow> Inr ip
           | Inr None \<Rightarrow>
               if cf_environment cf = ''production'' \<or> cf_require_cloudflare_headers cf
               then Inl (forbidden ''Direct access not allowed. Use Cloudflare endpoint.'')
               else Inr (case rq_connect_ip rq of Some ip \<Rightarrow> ip | None \<Rightarrow> localhost)))"

definition from_sum :: "('e + 'a) \<Rightarrow> (world, 'e, 'a) action" where
  [action_defs]: "from_sum v = (case v of Inl e \<Rightarrow> throwErr e | Inr x \<Rightarrow> returnOk x)"

section \<open>Middleware\<close>

definition ip_rate_limit :: "app \<Rightarrow> bool \<Rightarrow> request \<Rightarrow> 'a api \<Rightarrow> 'a api" where
  "ip_rate_limit ap bypass rq next_handler =
     bindE (from_sum (extract_client_ip (ap_config ap) rq)) (\<lambda>ip.
       catchE (check_and_increment bypass (ip_rpm_key (show_ip ip))
                 (cf_ip_rate_limit_rpm (ap_config ap)) 60)
         (\<lambda>_. next_handler)
         (\<lambda>verdict. case verdict of
            Inr _ \<Rightarrow> next_handler
          | Inl count \<Rightarrow> throwErr (too_many_requests
              (''Rate limit exceeded: '' @ show_nat (unat count) @ '' requests/minute''))))"

definition is_admin_path :: "string \<Rightarrow> bool" where
  "is_admin_path path \<longleftrightarrow> path = ''/admin'' \<or> starts_with path ''/admin/''"

definition is_maintenance_allowlisted :: "string \<Rightarrow> string \<Rightarrow> bool" where
  "is_maintenance_allowlisted verb path \<longleftrightarrow>
     (verb, path) \<in> set [(''GET'', ''/health''), (''GET'', ''/auth/google/login''),
       (''GET'', ''/auth/google/callback''), (''POST'', ''/auth/exchange-otc''),
       (''POST'', ''/auth/dev/login''), (''GET'', ''/system/maintenance'')]"

text \<open>How the handlers turn a ban verdict into a response.\<close>

definition deny :: "string \<Rightarrow> ban_enforcement_error \<Rightarrow> api_error" where
  "deny msg e = (case e of Banned \<Rightarrow> forbidden msg
                        | Unavailable \<Rightarrow> service_unavailable ''ban_check_unavailable'')"

definition require_not_banned :: "config \<Rightarrow> uuid \<Rightarrow> unit api" where
  "require_not_banned cf user_id = mapErr (deny ''user_banned'') (ensure_user_not_banned cf user_id)"

definition platform_mode_guard :: "app \<Rightarrow> request \<Rightarrow> 'a api \<Rightarrow> 'a api" where
  "platform_mode_guard ap rq next_handler =
     guardE (\<not> (cf_maintenance_mode_enabled (ap_config ap) \<and> \<not> is_admin_path (rq_path rq)
              \<and> \<not> is_maintenance_allowlisted (rq_method rq) (rq_path rq)))
       (service_unavailable ''maintenance_mode_enabled'')
    (bindE (from_sum (extract_client_ip (ap_config ap) rq)) (\<lambda>ip.
     bindE (mapErr (deny ''ip_banned'') (ensure_ip_not_banned ap ip)) (\<lambda>_. next_handler)))"

section \<open>Users and extensions\<close>

definition extract_session_user_id :: "app \<Rightarrow> request \<Rightarrow> uuid api" where
  "extract_session_user_id ap rq =
     okOrE (unauthorized ''Missing or invalid token'') (rq_bearer rq) (\<lambda>token.
     bindErr (\<lambda>_. unauthorized ''Invalid token'')
       (verify_jwt (ap_libs ap) token (cf_jwt_secret (ap_config ap))) (\<lambda>claims.
     bindE (is_revoked (cl_jti claims)) (\<lambda>revoked.
     guardE (\<not> revoked) (unauthorized ''Token revoked'')
    (bindE (require_not_banned (ap_config ap) (cl_sub claims)) (\<lambda>_.
       returnOk (cl_sub claims))))))"

definition onboarded :: "config \<Rightarrow> user \<Rightarrow> bool" where
  "onboarded cf u \<longleftrightarrow>
     u_age_confirmed_at u \<noteq> None \<and> u_terms_accepted_at u \<noteq> None
     \<and> u_terms_accepted_version u = Some (cf_terms_current_version cf)"

definition find_user :: "uuid \<Rightarrow> user option io" where
  "find_user i = db_read (\<lambda>d. find (\<lambda>u. u_id u = i) (db_users d))"

definition ensure_user_onboarding_complete :: "config \<Rightarrow> uuid \<Rightarrow> unit api" where
  "ensure_user_onboarding_complete cf user_id =
     bindE (require_not_banned cf user_id) (\<lambda>_.
     callE (find_user user_id) (\<lambda>u.
     okOrE (unauthorized ''User not found'') u (\<lambda>u.
     guardE (u_deleted_at u = None) (unauthorized ''Invalid token'')
       (if onboarded cf u then returnOk ()
        else throwErr (forbidden ''onboarding_required'')))))"

definition auth_user :: "app \<Rightarrow> request \<Rightarrow> uuid api" where
  "auth_user ap rq =
     bindE (extract_session_user_id ap rq) (\<lambda>user_id.
     bindE (ensure_user_onboarding_complete (ap_config ap) user_id) (\<lambda>_. returnOk user_id))"

record extension_auth =
  ea_user_id :: uuid
  ea_session_jti :: uuid
  ea_platform :: string
  ea_device_id_hash :: string
  ea_scope :: "string list"

definition has_scope :: "extension_auth \<Rightarrow> string \<Rightarrow> bool" where
  "has_scope ea required_scope \<longleftrightarrow> list_ex (\<lambda>s. s = required_scope) (ea_scope ea)"

definition find_extension_session :: "uuid \<Rightarrow> uuid \<Rightarrow> extension_session option io" where
  "find_extension_session jti user_id =
     db_read (\<lambda>d. find (\<lambda>s. es_jti s = jti \<and> es_user_id s = user_id \<and> es_revoked_at s = None)
                    (db_extension_sessions d))"

definition extension_auth_of :: "app \<Rightarrow> request \<Rightarrow> extension_auth api" where
  "extension_auth_of ap rq =
     okOrE (unauthorized ''Missing or invalid token'') (rq_bearer rq) (\<lambda>token.
     bindErr (\<lambda>_. unauthorized ''Invalid token'')
       (verify_extension_jwt (ap_libs ap) token (cf_jwt_secret (ap_config ap))) (\<lambda>claims.
     callE (find_extension_session (ec_jti claims) (ec_sub claims)) (\<lambda>session.
     okOrE (unauthorized ''Invalid session'') session (\<lambda>session.
     bindE (getsE clock) (\<lambda>now.
     guardE (\<not> es_expires_at session \<le> now) (unauthorized ''Session expired'')
    (bindE (require_not_banned (ap_config ap) (ec_sub claims)) (\<lambda>_.
     bindE (ensure_user_onboarding_complete (ap_config ap) (ec_sub claims)) (\<lambda>_.
       returnOk \<lparr> ea_user_id = ec_sub claims, ea_session_jti = ec_jti claims,
                  ea_platform = es_platform session,
                  ea_device_id_hash = es_device_id_hash session,
                  ea_scope = es_scope session \<rparr>))))))))"

section \<open>Administrators\<close>

datatype aud_claim = AudOne string | AudMany "string list"

fun aud_contains :: "aud_claim \<Rightarrow> string \<Rightarrow> bool" where
  "aud_contains (AudOne value) audience \<longleftrightarrow> value = audience"
| "aud_contains (AudMany values) audience \<longleftrightarrow> list_ex (\<lambda>value. value = audience) values"

record admin_claims =
  ac_iss :: string
  ac_sub :: string
  ac_aud :: aud_claim
  ac_jti :: string
  ac_iat :: nat
  ac_nbf :: nat
  ac_exp :: nat
  ac_role :: string

fun aud_of_json :: "json \<Rightarrow> aud_claim option" where
  "aud_of_json (JStr s) = Some (AudOne s)"
| "aud_of_json (JArr vs) = map_option AudMany (json_strs vs)"
| "aud_of_json _ = None"

definition admin_claims_of_json :: "json \<Rightarrow> admin_claims option" where
  "admin_claims_of_json j =
     Option.bind (str_field ''iss'' j) (\<lambda>i. Option.bind (str_field ''sub'' j) (\<lambda>s.
     Option.bind (Option.bind (json_field ''aud'' j) aud_of_json) (\<lambda>a.
     Option.bind (str_field ''jti'' j) (\<lambda>t. Option.bind (nat_field ''iat'' j) (\<lambda>ia.
     Option.bind (nat_field ''nbf'' j) (\<lambda>nb. Option.bind (nat_field ''exp'' j) (\<lambda>e.
     Option.bind (str_field ''role'' j) (\<lambda>r.
       Some \<lparr> ac_iss = i, ac_sub = s, ac_aud = a, ac_jti = t, ac_iat = ia, ac_nbf = nb,
              ac_exp = e, ac_role = r \<rparr>))))))))"

fun allowed_by_cidrs :: "libs \<Rightarrow> ip_addr \<Rightarrow> string list \<Rightarrow> api_error + bool" where
  "allowed_by_cidrs L ip [] = Inr False"
| "allowed_by_cidrs L ip (c # cs) =
     (case lib_ipnet_parse L c of
        None \<Rightarrow> Inl (internal_error ''Invalid ADMIN_ALLOWED_IP_CIDRS configuration'')
      | Some net \<Rightarrow> if lib_ipnet_contains L net ip then Inr True else allowed_by_cidrs L ip cs)"

definition enforce_ip_allowlist :: "libs \<Rightarrow> string \<Rightarrow> ip_addr \<Rightarrow> api_error + unit" where
  "enforce_ip_allowlist L configured ip =
     (let cidrs = filter (\<lambda>v. v \<noteq> []) (map trim (split_on (CHR '','') configured)) in
      if cidrs = [] then Inr ()
      else case allowed_by_cidrs L ip cidrs of
             Inl e \<Rightarrow> Inl e
           | Inr allowed \<Rightarrow>
               if allowed then Inr () else Inl (forbidden ''Admin IP is not allowed''))"

definition admin_replay_key :: "string \<Rightarrow> string" where
  "admin_replay_key jti = ''admin:replay:jti:'' @ jti"

definition admin_unavailable :: "failure \<Rightarrow> api_error" where
  "admin_unavailable e = service_unavailable ''Admin auth temporarily unavailable''"

definition replay_ttl :: "admin_claims \<Rightarrow> world \<Rightarrow> nat" where
  "replay_ttl c w = max (ac_exp c - now_secs w) 1"

definition admin_replay_guard :: "config \<Rightarrow> admin_claims \<Rightarrow> unit api" where
  "admin_replay_guard cf c =
     (if cf_admin_replay_protection_enabled cf then
        bindE (getsE (replay_ttl c)) (\<lambda>ttl.
        bindErr admin_unavailable get_conn (\<lambda>_.
        bindErr admin_unavailable (kv_set_nx_ex (admin_replay_key (ac_jti c)) (KText ''1'') ttl) (\<lambda>set.
        guardE set (unauthorized ''Admin token replay detected'') (returnOk ()))))
      else returnOk ())"

definition check_admin_claims :: "config \<Rightarrow> string \<Rightarrow> string \<Rightarrow> admin_claims \<Rightarrow> api_error + unit" where
  "check_admin_claims cf issuer audience c =
     (if ac_role c \<noteq> ''superadmin'' then Inl (forbidden ''Admin role is required'')
      else if ac_iss c \<noteq> issuer then Inl (unauthorized ''Invalid admin token issuer'')
      else if \<not> aud_contains (ac_aud c) audience
      then Inl (unauthorized ''Invalid admin token audience'')
      else if ac_exp c \<le> ac_iat c then Inl (unauthorized ''Invalid admin token lifetime'')
      else if cf_admin_jwt_max_ttl_secs cf < ac_exp c - ac_iat c
      then Inl (unauthorized ''Admin token TTL exceeds policy'')
      else if ac_exp c < ac_nbf c then Inl (unauthorized ''Invalid admin token validity range'')
      else Inr ())"

definition decode_admin_claims ::
  "app \<Rightarrow> string \<Rightarrow> string \<Rightarrow> string \<Rightarrow> string \<Rightarrow> world \<Rightarrow> admin_claims option" where
  "decode_admin_claims ap token pem issuer audience w =
     Option.bind (lib_ed_decode (ap_libs ap) token pem
                    (cf_admin_jwt_clock_skew_secs (ap_config ap)) issuer audience
                    (timestamp (clock w))) admin_claims_of_json"

definition verify_admin_claims :: "app \<Rightarrow> string \<Rightarrow> ip_addr \<Rightarrow> admin_claims api" where
  "verify_admin_claims ap token client_ip =
     (let cf = ap_config ap in
      okOrE (internal_error ''Admin JWT issuer is not configured'') (cf_admin_jwt_issuer cf) (\<lambda>issuer.
      okOrE (internal_error ''Admin JWT audience is not configured'') (cf_admin_jwt_audience cf) (\<lambda>audience.
      bindE (from_sum (enforce_ip_allowlist (ap_libs ap) (cf_admin_allowed_ip_cidrs cf) client_ip)) (\<lambda>_.
      okOrE (unauthorized ''Invalid admin token header'') (lib_decode_header (ap_libs ap) token) (\<lambda>header.
      guardE (fst header = ''EdDSA'') (unauthorized ''Invalid admin token algorithm'')
     (okOrE (unauthorized ''Admin token missing kid'') (snd header) (\<lambda>kid.
      okOrE (unauthorized ''Unknown admin key id'') (map_of (cf_admin_jwt_public_keys cf) kid) (\<lambda>pem.
      guardE (lib_ed_pem_ok (ap_libs ap) pem)
        (internal_error ''Invalid admin public key configuration'')
     (bindE (getsE (decode_admin_claims ap token pem issuer audience)) (\<lambda>v.
      okOrE (unauthorized ''Invalid admin token'') v (\<lambda>claims.
      bindE (from_sum (check_admin_claims cf issuer audience claims)) (\<lambda>_.
        returnOk claims))))))))))))"

definition verify_admin_jwt :: "app \<Rightarrow> string \<Rightarrow> ip_addr \<Rightarrow> admin_claims api" where
  "verify_admin_jwt ap token client_ip =
     bindE (verify_admin_claims ap token client_ip) (\<lambda>claims.
     bindE (admin_replay_guard (ap_config ap) claims) (\<lambda>_. returnOk claims))"

record admin_principal =
  pr_sub :: string
  pr_jti :: string
  pr_exp :: nat
  pr_client_ip :: ip_addr

definition admin_principal_of :: "app \<Rightarrow> request \<Rightarrow> admin_principal api" where
  "admin_principal_of ap rq =
     guardE (cf_admin_api_enabled (ap_config ap)) (not_found ''Admin API is disabled'')
    (okOrE (unauthorized ''Missing admin bearer token'') (rq_bearer rq) (\<lambda>token.
     bindE (from_sum (extract_client_ip (ap_config ap) rq)) (\<lambda>ip.
     bindE (verify_admin_jwt ap token ip) (\<lambda>claims.
       returnOk \<lparr> pr_sub = ac_sub claims, pr_jti = ac_jti claims, pr_exp = ac_exp claims,
                  pr_client_ip = ip \<rparr>))))"

section \<open>What a session token gives\<close>

lemma keeps_is_revoked [keeps_rules]: "keeps db (is_revoked j)" "keeps clock (is_revoked j)"
  unfolding is_revoked_def by (intro keeps_rules)+

lemma keeps_user_ban_check [keeps_rules]:
  "keeps db (ensure_user_not_banned cf u)" "keeps clock (ensure_user_not_banned cf u)"
  unfolding ensure_user_not_banned_def enforce_def is_user_banned_internal_def read_cache_entry_def
    is_user_banned_uncached_def query_active_user_ban_def write_cache_entry_def delete_cache_key_def
  by (intro keeps_rules)+

lemma keeps_require_not_banned [keeps_rules]:
  "keeps db (require_not_banned cf u)" "keeps clock (require_not_banned cf u)"
  unfolding require_not_banned_def by (intro keeps_rules)+

lemma keeps_extract_session [keeps_rules]: "keeps db (extract_session_user_id ap rq)"
  unfolding extract_session_user_id_def verify_jwt_def some_or_def by (intro keeps_rules)

lemma verify_jwt_run:
  "verify_jwt L t s w = (case decode_claims L True t s w of
      None \<Rightarrow> (Inl (OtherError ''jwt''), w) | Some c \<Rightarrow> (Inr c, w))"
  by (simp add: verify_jwt_def some_or_def action_defs split: option.split)

lemma is_revoked_run:
  "faults w = [] \<Longrightarrow> is_revoked j w = (Inr (kv_live w (revoked_key j) \<noteq> None), w)"
  by (simp add: is_revoked_def action_defs)

lemma extract_session_Inr:
  assumes "extract_session_user_id ap rq w = (Inr u, w')"
  obtains t c w1 w2 where "rq_bearer rq = Some t"
    and "decode_claims (ap_libs ap) True t (cf_jwt_secret (ap_config ap)) w = Some c"
    and "cl_sub c = u" and "(is_revoked (cl_jti c) :: bool api) w = (Inr False, w1)"
    and "ensure_user_not_banned (ap_config ap) u w1 = (Inr (), w2)"
  using assms unfolding extract_session_user_id_def callE_def verify_jwt_run
  by (auto dest!: run_Inr simp: require_not_banned_def verify_jwt_run returnOk_def
      split: option.splits)

lemma ensure_onboarding_Inr:
  assumes "ensure_user_onboarding_complete cf i w = (Inr (), w')"
  shows "\<exists>u \<in> set (db_users (db w)). u_id u = i \<and> u_deleted_at u = None \<and> onboarded cf u"
proof -
  from assms obtain w1 x w2 u where b: "require_not_banned cf i w = (Inr (), w1)"
    and f: "find_user i w1 = (Inr x, w2)" and x: "x = Some u" and d: "u_deleted_at u = None"
    and "(if onboarded cf u then returnOk () else throwErr (forbidden ''onboarding_required'')) w2
           = (Inr (), w')"
    unfolding ensure_user_onboarding_complete_def callE_def by (auto dest!: run_Inr)
  then have o: "onboarded cf u" by (auto simp: throwErr_def split: if_splits)
  have "db w1 = db w" by (rule keepsE [OF keeps_require_not_banned(1) b])
  then have "find (\<lambda>u. u_id u = i) (db_users (db w)) = Some u"
    using db_read_Inr [OF f [unfolded find_user_def]] x by simp
  then show ?thesis using d o by (auto dest!: find_Some_set)
qed

text \<open>C1: whatever service calls fail, a handler that takes an authenticated user runs only for
  the subject of a token signed with the server's secret and unexpired, whose account exists, is
  not deleted, has its age confirmed and has accepted the terms in force.\<close>

theorem auth_user_is_onboarded:
  assumes "auth_user ap rq w = (Inr i, w')"
  shows "(\<exists>t c. rq_bearer rq = Some t \<and> cl_sub c = i
            \<and> decode_claims (ap_libs ap) True t (cf_jwt_secret (ap_config ap)) w = Some c)
    \<and> (\<exists>u \<in> set (db_users (db w)). u_id u = i \<and> u_deleted_at u = None \<and> onboarded (ap_config ap) u)"
proof -
  from assms obtain w1 w2 where s: "extract_session_user_id ap rq w = (Inr i, w1)"
    and e: "ensure_user_onboarding_complete (ap_config ap) i w1 = (Inr (), w2)"
    unfolding auth_user_def by (auto dest!: run_Inr simp: returnOk_def)
  have "db w1 = db w" by (rule keepsE [OF keeps_extract_session s])
  then show ?thesis
    using ensure_onboarding_Inr [OF e] by (auto intro: extract_session_Inr [OF s])
qed

text \<open>An access token that was revoked (by a logout or a rotation) is refused until the
  revocation entry expires, which is the time the token had left.\<close>

theorem revoked_token_is_refused:
  assumes "faults w = []" and "revoke_token (cl_jti c) ttl w = (Inr (), w1)"
    and "clock w \<le> t" and "t < clock w + secs (int ttl)"
    and "rq_bearer rq = Some tok"
    and "decode_claims (ap_libs ap) True tok (cf_jwt_secret (ap_config ap)) (w1\<lparr>clock := t\<rparr>) = Some c"
  shows "extract_session_user_id ap rq (w1\<lparr>clock := t\<rparr>)
           = (Inl (unauthorized ''Token revoked''), w1\<lparr>clock := t\<rparr>)"
proof -
  let ?w = "w1\<lparr>clock := t\<rparr>"
  have w1: "w1 = kv_put (revoked_key (cl_jti c)) (KText ''1'') (Some (clock w + secs (int ttl))) w"
    and ttl: "0 < ttl"
    using assms(1,2) by (auto simp: revoke_token_def action_defs kv_set_ex_def split: if_splits)
  have "kv_live ?w (revoked_key (cl_jti c)) = Some (KText ''1'')"
    using assms(4) by (simp add: w1 kv_live_def kv_put_def update_conv')
  then have "(is_revoked (cl_jti c) :: bool api) ?w = (Inr True, ?w)"
    using assms(1) by (subst is_revoked_run) (simp_all add: w1)
  then show ?thesis
    using assms(5,6) by (simp add: extract_session_user_id_def bindErr_def verify_jwt_run bindE_def
        guardE_def throwErr_def)
qed

text \<open>
  The documented round trip of \<^verbatim>\<open>jsonwebtoken\<close>: decoding with the signing key gives the signed
  payload back while it has not expired.
\<close>

definition jwt_roundtrip :: "libs \<Rightarrow> bool" where
  "jwt_roundtrip L \<longleftrightarrow> (\<forall>p s t n e. lib_jwt_sign L p s = Some t \<longrightarrow> nat_field ''exp'' p = Some e
      \<longrightarrow> n \<le> int e \<longrightarrow> lib_jwt_decode L True n t s = Some p)"

lemma claims_of_extension_json:
  "claims_of_json (extension_claims_json c)
     = Some \<lparr> cl_sub = ec_sub c, cl_jti = ec_jti c, cl_exp = ec_exp c, cl_iat = ec_iat c \<rparr>"
  by (simp add: claims_of_json_def extension_claims_json_def str_field_def nat_field_def)

lemma exp_of_extension_json: "nat_field ''exp'' (extension_claims_json c) = Some (ec_exp c)"
  by (simp add: extension_claims_json_def nat_field_def)

lemma create_extension_Inr:
  assumes "create_extension_access_token L u j plat dev sc sec ttl w = (Inr tok, w1)"
  shows "lib_jwt_sign L (extension_claims_json \<lparr> ec_sub = u, ec_jti = j, ec_exp = now_secs w + ttl,
     ec_iat = now_secs w, ec_scope = sc, ec_platform = plat, ec_device_id_hash = dev,
     ec_token_use = ''extension'' \<rparr>) sec = Some tok"
  using assms unfolding create_extension_access_token_def Let_def some_or_def
  by (auto dest!: run_Inr simp: getsE_def returnOk_def)

text \<open>The access token of an extension session is accepted as a session token: a handler
  that asks for a session user gets the owner, whatever the scope of the token and even after the
  extension session was revoked, which the extension's own extractor refuses.\<close>

theorem extension_token_is_a_session_token:
  assumes "jwt_roundtrip (ap_libs ap)"
    and "create_extension_access_token (ap_libs ap) u j plat dev sc
           (cf_jwt_secret (ap_config ap)) ttl w = (Inr tok, w1)"
    and "rq_bearer rq = Some tok"
    and "faults w2 = []" and "timestamp (clock w2) \<le> int (now_secs w + ttl)"
    and "kv_live w2 (revoked_key j) = None"
    and "result (ensure_user_not_banned (ap_config ap) u w2) = Inr ()"
    and "\<forall>s \<in> set (db_extension_sessions (db w2)). es_jti s = j \<longrightarrow> es_revoked_at s \<noteq> None"
  shows "result (extract_session_user_id ap rq w2) = Inr u
    \<and> result (extension_auth_of ap rq w2) = Inl (unauthorized ''Invalid session'')"
proof -
  let ?c = "\<lparr> ec_sub = u, ec_jti = j, ec_exp = now_secs w + ttl, ec_iat = now_secs w,
    ec_scope = sc, ec_platform = plat, ec_device_id_hash = dev, ec_token_use = ''extension'' \<rparr>"
  let ?sec = "cf_jwt_secret (ap_config ap)"
  have "lib_jwt_sign (ap_libs ap) (extension_claims_json ?c) ?sec = Some tok"
    by (rule create_extension_Inr [OF assms(2)])
  then have dec: "lib_jwt_decode (ap_libs ap) True (timestamp (clock w2)) tok ?sec
      = Some (extension_claims_json ?c)"
    using assms(1,5) exp_of_extension_json [of ?c] by (simp add: jwt_roundtrip_def)
  have cl: "decode_claims (ap_libs ap) True tok ?sec w2
      = Some \<lparr> cl_sub = u, cl_jti = j, cl_exp = now_secs w + ttl, cl_iat = now_secs w \<rparr>"
    by (simp add: decode_claims_def dec claims_of_extension_json)
  have rev: "(is_revoked j :: bool api) w2 = (Inr False, w2)"
    using assms(4,6) by (simp add: is_revoked_run)
  obtain w3 where "ensure_user_not_banned (ap_config ap) u w2 = (Inr (), w3)"
    using assms(7) by (metis prod.collapse)
  then have s: "result (extract_session_user_id ap rq w2) = Inr u"
    using assms(3) cl rev
    by (simp add: extract_session_user_id_def bindErr_def verify_jwt_run bindE_def
        require_not_banned_def mapErr_def returnOk_def)
  have "find (\<lambda>s. es_jti s = j \<and> es_user_id s = u \<and> es_revoked_at s = None)
      (db_extension_sessions (db w2)) = None"
    using assms(8) by (auto simp: find_None_iff)
  then have "result (extension_auth_of ap rq w2) = Inl (unauthorized ''Invalid session'')"
    using assms(3,4) by (simp add: extension_auth_of_def verify_extension_jwt_def action_defs
        some_or_def dec find_extension_session_def)
  with s show ?thesis ..
qed

section \<open>Administrators\<close>

lemma admin_replay_guard_run:
  assumes "faults w = []" and "cf_admin_replay_protection_enabled cf"
  shows "admin_replay_guard cf c w =
    (if kv_live w (admin_replay_key (ac_jti c)) = None
     then (Inr (), kv_put (admin_replay_key (ac_jti c)) (KText ''1'')
             (Some (clock w + secs (int (replay_ttl c w)))) w)
     else (Inl (unauthorized ''Admin token replay detected''), w))"
  using assms by (simp add: admin_replay_guard_def action_defs kv_set_nx_ex_def replay_ttl_def)

lemma keeps_from_sum [keeps_rules]: "keeps f (from_sum v)"
  unfolding from_sum_def by (intro keeps_rules)

lemma verify_admin_claims_state: "verify_admin_claims ap tok ip w = (r, w') \<Longrightarrow> w' = w"
proof (rule keepsE [where f = "\<lambda>w. w"])
  show "keeps (\<lambda>w. w) (verify_admin_claims ap tok ip)"
    unfolding verify_admin_claims_def Let_def by (intro keeps_rules)
qed

lemma from_sum_Inr: "from_sum v w = (Inr x, w') \<Longrightarrow> v = Inr x \<and> w' = w"
  by (cases v) (auto simp: from_sum_def throwErr_def returnOk_def)

lemma getsE_Inr: "getsE f w = (Inr x, w') \<Longrightarrow> x = f w \<and> w' = w"
  by (auto simp: getsE_def)

lemma verify_admin_jwt_run:
  assumes "faults w = []" and "cf_admin_replay_protection_enabled (ap_config ap)"
    and "result (verify_admin_claims ap tok ip w) = Inr c"
  shows "verify_admin_jwt ap tok ip w =
    (if kv_live w (admin_replay_key (ac_jti c)) = None
     then (Inr c, kv_put (admin_replay_key (ac_jti c)) (KText ''1'')
             (Some (clock w + secs (int (replay_ttl c w)))) w)
     else (Inl (unauthorized ''Admin token replay detected''), w))"
proof -
  have "verify_admin_claims ap tok ip w = (Inr c, w)"
    using assms(3) verify_admin_claims_state [of ap tok ip w] by (cases "verify_admin_claims ap tok ip w") auto
  then show ?thesis
    using assms(1,2) by (simp add: verify_admin_jwt_def bindE_def admin_replay_guard_run returnOk_def)
qed

lemma verify_admin_jwt_Inr:
  assumes "faults w = []" and "cf_admin_replay_protection_enabled (ap_config ap)"
    and "verify_admin_jwt ap tok ip w = (Inr c, w1)"
  shows "result (verify_admin_claims ap tok ip w) = Inr c"
    and "w1 = kv_put (admin_replay_key (ac_jti c)) (KText ''1'')
             (Some (clock w + secs (int (replay_ttl c w)))) w"
proof -
  from assms(3) obtain c' w' where v: "verify_admin_claims ap tok ip w = (Inr c', w')"
    and k: "bindE (admin_replay_guard (ap_config ap) c') (\<lambda>_. returnOk c') w' = (Inr c, w1)"
    unfolding verify_admin_jwt_def by (erule bindE_InrE)
  from k have "c' = c" by (auto dest!: bindE_Inr simp: returnOk_def)
  with v show *: "result (verify_admin_claims ap tok ip w) = Inr c" by simp
  show "w1 = kv_put (admin_replay_key (ac_jti c)) (KText ''1'')
             (Some (clock w + secs (int (replay_ttl c w)))) w"
    using assms(3) verify_admin_jwt_run [OF assms(1,2) *] by (auto split: if_splits)
qed

text \<open>Once an administrator's token was accepted, another token of the same id that passes
  every other check is refused as a replay up to the expiry the token had left, and is accepted
  again from then on.\<close>

theorem admin_token_replay_window:
  assumes "faults w = []" and "cf_admin_replay_protection_enabled (ap_config ap)"
    and "verify_admin_jwt ap tok ip w = (Inr c, w1)"
    and "result (verify_admin_claims ap tok' ip' (w1\<lparr>clock := t\<rparr>)) = Inr c'"
    and "ac_jti c' = ac_jti c"
  shows "result (verify_admin_jwt ap tok' ip' (w1\<lparr>clock := t\<rparr>)) =
    (if t < clock w + secs (int (max (ac_exp c - now_secs w) 1))
     then Inl (unauthorized ''Admin token replay detected'') else Inr c')"
proof -
  note w1 = verify_admin_jwt_Inr(2) [OF assms(1-3)]
  have f: "faults (w1\<lparr>clock := t\<rparr>) = []" using assms(1) by (simp add: w1)
  have "kv_live (w1\<lparr>clock := t\<rparr>) (admin_replay_key (ac_jti c')) = None
      \<longleftrightarrow> \<not> t < clock w + secs (int (replay_ttl c w))"
    by (simp add: w1 assms(5) kv_live_def kv_put_def update_conv')
  then show ?thesis
    by (simp add: verify_admin_jwt_run [OF f assms(2,4)] replay_ttl_def)
qed

text \<open>
  The documented leeway of \<^verbatim>\<open>jsonwebtoken\<close>: a token that decodes keeps decoding until its expiry
  plus the leeway.
\<close>

definition ed_leeway :: "libs \<Rightarrow> bool" where
  "ed_leeway L \<longleftrightarrow> (\<forall>t k l i a n m j e. lib_ed_decode L t k l i a n = Some j
      \<longrightarrow> nat_field ''exp'' j = Some e \<longrightarrow> n \<le> m \<longrightarrow> m \<le> int (e + l)
      \<longrightarrow> lib_ed_decode L t k l i a m = Some j)"

lemma admin_claims_exp: "admin_claims_of_json j = Some c \<Longrightarrow> nat_field ''exp'' j = Some (ac_exp c)"
  by (auto simp: admin_claims_of_json_def Option.bind_eq_Some_conv)

lemma verify_admin_claims_later:
  assumes "ed_leeway (ap_libs ap)" and "result (verify_admin_claims ap tok ip w) = Inr c"
    and "timestamp (clock w) \<le> timestamp (clock w')"
    and "timestamp (clock w') \<le> int (ac_exp c + cf_admin_jwt_clock_skew_secs (ap_config ap))"
  shows "result (verify_admin_claims ap tok ip w') = Inr c"
proof -
  obtain w2 where v: "verify_admin_claims ap tok ip w = (Inr c, w2)"
    using assms(2) by (metis prod.collapse)
  obtain i a h k pem where cfg: "cf_admin_jwt_issuer (ap_config ap) = Some i"
      "cf_admin_jwt_audience (ap_config ap) = Some a"
      "enforce_ip_allowlist (ap_libs ap) (cf_admin_allowed_ip_cidrs (ap_config ap)) ip = Inr ()"
    and h: "lib_decode_header (ap_libs ap) tok = Some h" "fst h = ''EdDSA''" "snd h = Some k"
      "map_of (cf_admin_jwt_public_keys (ap_config ap)) k = Some pem"
      "lib_ed_pem_ok (ap_libs ap) pem"
    and d: "decode_admin_claims ap tok pem i a w = Some c"
    and ok: "check_admin_claims (ap_config ap) i a c = Inr ()"
    using v [unfolded verify_admin_claims_def Let_def]
    by (elim run_InrE) (auto dest!: from_sum_Inr getsE_Inr simp: returnOk_def)
  from d obtain j where "lib_ed_decode (ap_libs ap) tok pem
      (cf_admin_jwt_clock_skew_secs (ap_config ap)) i a (timestamp (clock w)) = Some j"
    and j: "admin_claims_of_json j = Some c"
    by (auto simp: decode_admin_claims_def Option.bind_eq_Some_conv)
  with assms(1,3,4) admin_claims_exp [OF j] have "lib_ed_decode (ap_libs ap) tok pem
      (cf_admin_jwt_clock_skew_secs (ap_config ap)) i a (timestamp (clock w')) = Some j"
    unfolding ed_leeway_def by blast
  with j have "decode_admin_claims ap tok pem i a w' = Some c"
    by (simp add: decode_admin_claims_def)
  then show ?thesis
    using cfg h ok by (simp add: verify_admin_claims_def getsE_def returnOk_def bindE_def from_sum_def)
qed

text \<open>The replay entry lives until the expiry of the token, but the token is accepted for the
  configured clock skew after that, so in this window the same token is accepted a second time.\<close>

theorem admin_token_replayed_in_clock_skew:
  assumes "ed_leeway (ap_libs ap)"
    and "faults w = []" and "cf_admin_replay_protection_enabled (ap_config ap)"
    and "verify_admin_jwt ap tok ip w = (Inr c, w1)"
    and "clock w + secs (int (max (ac_exp c - now_secs w) 1)) \<le> t"
    and "timestamp t \<le> int (ac_exp c + cf_admin_jwt_clock_skew_secs (ap_config ap))"
  shows "result (verify_admin_jwt ap tok ip (w1\<lparr>clock := t\<rparr>)) = Inr c"
proof -
  note v = verify_admin_jwt_Inr [OF assms(2-4)]
  have "0 \<le> secs (int (max (ac_exp c - now_secs w) 1))"
    by (simp add: secs_def nanos_per_sec_def)
  then have "clock w \<le> t" using assms(5) by linarith
  then have "result (verify_admin_claims ap tok ip (w1\<lparr>clock := t\<rparr>)) = Inr c"
    using assms(6) by (intro verify_admin_claims_later [OF assms(1) v(1)]) (simp_all add: timestamp_mono)
  moreover have "kv_live (w1\<lparr>clock := t\<rparr>) (admin_replay_key (ac_jti c)) = None"
    using assms(5) by (simp add: v(2) kv_live_def kv_put_def update_conv' replay_ttl_def)
  moreover have f: "faults (w1\<lparr>clock := t\<rparr>) = []" using assms(2) by (simp add: v(2))
  ultimately show ?thesis by (simp add: verify_admin_jwt_run [OF f assms(3)])
qed

section \<open>Evaluation on concrete tokens\<close>

definition session_payload :: json where
  "session_payload = claims_json
     \<lparr> cl_sub = ''u1'', cl_jti = ''j1'', cl_exp = 1700000900, cl_iat = 1700000000 \<rparr>"

definition extension_payload :: json where
  "extension_payload = extension_claims_json
     \<lparr> ec_sub = ''u1'', ec_jti = ''s1'', ec_exp = 1700003600, ec_iat = 1700000000,
       ec_scope = [''likes:read''], ec_platform = ''web'', ec_device_id_hash = ''d'',
       ec_token_use = ''extension'' \<rparr>"

definition admin_payload :: json where
  "admin_payload = JObj [(''iss'', JStr ''iss''), (''sub'', JStr ''root''), (''aud'', JStr ''aud''),
     (''jti'', JStr ''a1''), (''iat'', JNum 1700000000), (''nbf'', JNum 1700000000),
     (''exp'', JNum 1700000120), (''role'', JStr ''superadmin'')]"

definition session_libs :: libs where
  "session_libs = libs0\<lparr>
     lib_jwt_sign := (\<lambda>p s. if p = extension_payload \<and> s = ''secret'' then Some ''ext'' else None),
     lib_jwt_decode := (\<lambda>e n t s.
        if s \<noteq> ''secret'' then None
        else if t = ''ext'' \<and> n \<le> 1700003660 then Some extension_payload
        else if t = ''acc'' \<and> n \<le> 1700000960 then Some session_payload else None),
     lib_decode_header := (\<lambda>t. if t = ''adm'' then Some (''EdDSA'', Some ''k1'') else None),
     lib_ed_pem_ok := (\<lambda>k. k = ''pem''),
     lib_ed_decode := (\<lambda>t k l i a n.
        if t = ''adm'' \<and> n \<le> 1700000120 + int l then Some admin_payload else None) \<rparr>"

definition session_app :: app where
  "session_app = \<lparr> ap_config = config0, ap_libs = session_libs \<rparr>"

definition bearer :: "string \<Rightarrow> request" where
  "bearer t = \<lparr> rq_method = ''GET'', rq_path = ''/me'', rq_headers = [], rq_bearer = Some t,
     rq_connect_ip = Some localhost \<rparr>"

lemma session_libs_laws: "jwt_roundtrip session_libs" "ed_leeway session_libs"
  by (simp_all add: jwt_roundtrip_def ed_leeway_def session_libs_def extension_payload_def
      exp_of_extension_json) (simp add: admin_payload_def nat_field_def)

lemmas session_eval = session_app_def session_libs_def bearer_def config0_def libs0_def
  timestamp_def nanos_per_sec_def now_secs_def

lemma decode_acc:
  "decode_claims session_libs True ''acc'' ''secret'' w =
     (if timestamp (clock w) \<le> 1700000960
      then Some \<lparr> cl_sub = ''u1'', cl_jti = ''j1'', cl_exp = 1700000900, cl_iat = 1700000000 \<rparr>
      else None)"
  by (simp add: decode_claims_def session_libs_def session_payload_def)

text \<open>The check on a user who is not banned, with an empty and with a filled cache.\<close>

lemma not_banned_run:
  assumes "faults w = []" and "kv_live w (user_cache_key u) = None"
    and "\<not> user_banned_in_db (clock w) u (db w)"
  shows "require_not_banned cf u w = (Inr (), kv_put (user_cache_key u) (KBan no_ban_entry)
    (Some (clock w + secs (int (max (cf_ban_user_cache_negative_ttl_secs cf) 1)))) w)"
proof -
  have "one_by_desc ub_created_at (user_ban_active (clock w) u) (db_user_bans (db w)) = None"
    using assms(3) by (simp add: one_by_desc_None user_banned_in_db_def list_ex_iff)
  then show ?thesis using assms(1,2)
    by (simp add: require_not_banned_def ensure_user_not_banned_def enforce_def
        is_user_banned_internal_def is_user_banned_uncached_def action_defs ban_cache_ok)
qed

lemma not_banned_cached_run:
  assumes "faults w = []" and "kv_live w (user_cache_key u) = Some (KBan no_ban_entry)"
  shows "require_not_banned cf u w = (Inr (), w)"
  using assms by (simp add: require_not_banned_def ensure_user_not_banned_def enforce_def
      is_user_banned_internal_def action_defs ban_cache_ok cache_entry_is_expired_def no_ban_entry_def)

lemma not_banned_world1:
  "require_not_banned config0 u world1 = (Inr (), kv_put (user_cache_key u) (KBan no_ban_entry)
    (Some (clock world1 + secs 30)) world1)"
  by (subst not_banned_run) (simp_all add: user_banned_in_db_def empty_db_def config0_def)

lemma find_user_run:
  "faults w = [] \<Longrightarrow> find_user i w = (Inr (find (\<lambda>u. u_id u = i) (db_users (db w))), w)"
  by (simp add: find_user_def)

lemma auth_user_is_onboarded_witness:
  "result (auth_user session_app (bearer ''acc'') world1) = Inr ''u1'' \<and> onboarded config0 user0"
proof -
  have e: "rq_bearer (bearer ''acc'') = Some ''acc''" "ap_config session_app = config0"
    "ap_libs session_app = session_libs" "cf_jwt_secret config0 = ''secret''"
    by (simp_all add: session_app_def bearer_def config0_def)
  have x: "extract_session_user_id session_app (bearer ''acc'') world1
      = (Inr ''u1'', kv_put (user_cache_key ''u1'') (KBan no_ban_entry) (Some (clock world1 + secs 30)) world1)"
    by (simp add: extract_session_user_id_def e bindErr_def bindE_def verify_jwt_run
        decode_acc is_revoked_run not_banned_world1 timestamp_def nanos_per_sec_def returnOk_def)
  have u: "u_id user0 = ''u1''" "u_deleted_at user0 = None" by (simp_all add: user0_def)
  have o: "onboarded config0 user0" by (simp add: onboarded_def config0_def user0_def)
  have "result (auth_user session_app (bearer ''acc'') world1) = Inr ''u1''"
    by (simp add: auth_user_def x e bindE_def ensure_user_onboarding_complete_def callE_def
        bindErr_def not_banned_cached_run kv_live_put secs_def nanos_per_sec_def find_user_run)
       (simp add: o u returnOk_def)
  then obtain w' where w': "auth_user session_app (bearer ''acc'') world1 = (Inr ''u1'', w')"
    by (metis prod.collapse)
  from auth_user_is_onboarded [OF w'] w' show ?thesis by (simp add: e)
qed

lemma revoked_token_is_refused_witness:
  "result (extract_session_user_id session_app (bearer ''acc'')
     ((final (revoke_token ''j1'' 900 world1))\<lparr>clock := 1700000010000000000\<rparr>))
   = Inl (unauthorized ''Token revoked'')"
proof -
  let ?c = "\<lparr> cl_sub = ''u1'', cl_jti = ''j1'', cl_exp = 1700000900, cl_iat = 1700000000 \<rparr>"
  have "revoke_token (cl_jti ?c) 900 world1 = (Inr (), final (revoke_token ''j1'' 900 world1))"
    by (simp add: revoke_token_def action_defs)
  from revoked_token_is_refused [OF _ this, of 1700000010000000000 "bearer ''acc''" "''acc''" session_app]
  show ?thesis
    by (simp add: secs_def nanos_per_sec_def bearer_def session_app_def config0_def decode_acc timestamp_def)
qed

lemma extension_token_is_a_session_token_witness:
  "result (extract_session_user_id session_app (bearer ''ext'') world1) = Inr ''u1''
   \<and> result (extension_auth_of session_app (bearer ''ext'') world1) = Inl (unauthorized ''Invalid session'')"
proof -
  let ?m = "create_extension_access_token (ap_libs session_app) ''u1'' ''s1'' ''web'' ''d'' [''likes:read'']
      (cf_jwt_secret (ap_config session_app)) 3600"
  have c: "?m world1 = (Inr ''ext'', world1)"
    by (simp add: create_extension_access_token_def some_or_def action_defs session_eval
        extension_payload_def)
  have "require_not_banned config0 ''u1'' world1 = (Inr (), final (require_not_banned config0 ''u1'' world1))"
    by (simp add: not_banned_world1)
  then have "result (ensure_user_not_banned config0 ''u1'' world1) = Inr ()"
    by (metis mapErr_Inr require_not_banned_def fst_conv)
  then show ?thesis
    using extension_token_is_a_session_token [OF _ c, of "bearer ''ext''" world1]
    by (simp add: session_libs_laws session_app_def bearer_def config0_def now_secs_def
        timestamp_def nanos_per_sec_def empty_db_def)
qed

definition admin_sample :: admin_claims where
  "admin_sample = \<lparr> ac_iss = ''iss'', ac_sub = ''root'', ac_aud = AudOne ''aud'', ac_jti = ''a1'',
     ac_iat = 1700000000, ac_nbf = 1700000000, ac_exp = 1700000120, ac_role = ''superadmin'' \<rparr>"

lemma admin_sample_claims: "admin_claims_of_json admin_payload = Some admin_sample"
  by (simp add: admin_claims_of_json_def admin_payload_def admin_sample_def str_field_def nat_field_def)

lemma admin_setup:
  "ap_config session_app = config0" "ap_libs session_app = session_libs"
  "cf_admin_jwt_issuer config0 = Some ''iss''" "cf_admin_jwt_audience config0 = Some ''aud''"
  "cf_admin_jwt_public_keys config0 = [(''k1'', ''pem'')]" "cf_admin_allowed_ip_cidrs config0 = []"
  "lib_decode_header session_libs ''adm'' = Some (''EdDSA'', Some ''k1'')"
  "lib_ed_pem_ok session_libs ''pem''"
  by (simp_all add: session_app_def config0_def session_libs_def)

lemma admin_sample_ok:
  "timestamp (clock w) \<le> 1700000180
     \<Longrightarrow> result (verify_admin_claims session_app ''adm'' ip w) = Inr admin_sample"
proof -
  have a: "enforce_ip_allowlist L [] ip = Inr ()" for L
    by (simp add: enforce_ip_allowlist_def trim_def trim_end_def)
  have c: "check_admin_claims config0 ''iss'' ''aud'' admin_sample = Inr ()"
    by (simp add: check_admin_claims_def admin_sample_def config0_def)
  assume "timestamp (clock w) \<le> 1700000180"
  then have "decode_admin_claims session_app ''adm'' ''pem'' ''iss'' ''aud'' w = Some admin_sample"
    by (simp add: decode_admin_claims_def session_app_def session_libs_def config0_def admin_sample_claims)
  then show ?thesis
    using c a by (simp add: verify_admin_claims_def action_defs admin_setup)
qed

lemma admin_sample_accepted:
  "verify_admin_jwt session_app ''adm'' localhost world1
     = (Inr admin_sample, final (verify_admin_jwt session_app ''adm'' localhost world1))"
proof -
  have "cf_admin_replay_protection_enabled (ap_config session_app)"
    by (simp add: session_app_def config0_def)
  from verify_admin_jwt_run [OF _ this admin_sample_ok, of world1 localhost] show ?thesis
    by (simp add: timestamp_def nanos_per_sec_def)
qed

lemma admin_token_replay_window_witness:
  "result (verify_admin_jwt session_app ''adm'' localhost
     ((final (verify_admin_jwt session_app ''adm'' localhost world1))\<lparr>clock := 1700000100000000000\<rparr>))
   = Inl (unauthorized ''Admin token replay detected'')"
proof -
  have "cf_admin_replay_protection_enabled (ap_config session_app)"
    by (simp add: session_app_def config0_def)
  from admin_token_replay_window [OF _ this admin_sample_accepted admin_sample_ok, of 1700000100000000000 localhost]
  show ?thesis
    by (simp add: timestamp_def nanos_per_sec_def secs_def now_secs_def admin_sample_def)
qed

lemma admin_token_replayed_in_clock_skew_witness:
  "result (verify_admin_jwt session_app ''adm'' localhost
     ((final (verify_admin_jwt session_app ''adm'' localhost world1))\<lparr>clock := 1700000150000000000\<rparr>))
   = Inr admin_sample"
proof -
  have "cf_admin_replay_protection_enabled (ap_config session_app)" "ed_leeway (ap_libs session_app)"
    using session_libs_laws by (simp_all add: session_app_def config0_def)
  from admin_token_replayed_in_clock_skew [OF this(2) _ this(1) admin_sample_accepted, of 1700000150000000000]
  show ?thesis
    by (simp add: timestamp_def nanos_per_sec_def secs_def now_secs_def)
       (simp add: admin_sample_def session_app_def config0_def)
qed

end
