(* ===== verification/Search.thy ===== *)
theory Search
  imports Feed Session
begin

text \<open>
  Search (\<^verbatim>\<open>api/src/videos/handlers.rs\<close>): the validation of a query, the patterns built from it, the
  selection and order of the rows, the cache of results, and the variant for the keyboard
  extension. Full-text matching and ranking are parameters; \<^verbatim>\<open>LOWER\<close> of the database is taken to
  be the same function as \<^verbatim>\<open>to_lowercase\<close> of the program.
\<close>

section \<open>Queries\<close>

definition is_control :: "string \<Rightarrow> bool" where
  "is_control ch \<longleftrightarrow>
     (case ch of
        [c] \<Rightarrow> byte c < 32 \<or> byte c = 127
      | [c, d] \<Rightarrow> byte c = 194 \<and> 128 \<le> byte d \<and> byte d < 160
      | _ \<Rightarrow> False)"

text \<open>\<^verbatim>\<open>split_whitespace\<close>: the maximal runs of code points that are no white space.\<close>

function words_of :: "string list \<Rightarrow> string list list" where
  "words_of [] = []"
| "words_of (c # cs) =
     (if is_white_space c then words_of cs
      else (c # takeWhile (\<lambda>x. \<not> is_white_space x) cs) # words_of (dropWhile (\<lambda>x. \<not> is_white_space x) cs))"
  by pat_completeness auto
termination
  by (relation "measure length") (auto simp: le_imp_less_Suc length_dropWhile_le)

definition split_whitespace :: "string \<Rightarrow> string list" where
  "split_whitespace s = map concat (words_of (chars s))"

definition normalize_query :: "string \<Rightarrow> string" where
  "normalize_query s =
     join_with '' '' (split_whitespace (concat (filter (\<lambda>c. \<not> is_control c \<or> c = '' '') (chars s))))"

definition validate_search_query :: "config \<Rightarrow> string \<Rightarrow> api_error + string" where
  "validate_search_query cf query =
     (let normalized = normalize_query query;
          tokens = split_whitespace normalized in
      if normalized = [] then Inl (bad_request ''Query cannot be empty'')
      else if length (chars normalized) < 3
      then Inl (bad_request ''Query must be at least 3 characters'')
      else if length (chars normalized) > cf_search_max_query_chars cf
      then Inl (bad_request (''Query too long (max '' @ show_nat (cf_search_max_query_chars cf) @ '' characters)''))
      else if length tokens > cf_search_max_tokens cf
      then Inl (bad_request (''Too many search terms (max '' @ show_nat (cf_search_max_tokens cf) @ '')''))
      else if list_ex (\<lambda>t. length (chars t) > cf_search_max_token_length cf) tokens
      then Inl (bad_request (''Search term too long (max '' @ show_nat (cf_search_max_token_length cf)
              @ '' characters per word)''))
      else Inr normalized)"

definition build_search_like_pattern :: "libs \<Rightarrow> string \<Rightarrow> string" where
  "build_search_like_pattern L q = ''%'' @ lib_to_lowercase L q @ ''%''"

definition build_relaxed_like_pattern :: "libs \<Rightarrow> string \<Rightarrow> string option" where
  "build_relaxed_like_pattern L q =
     (case split_whitespace q of
        [t] \<Rightarrow>
          (let n = length (chars t); stem = concat (take (n - 1) (chars t)) in
           if n < 5 then None
           else if length (chars stem) < 3 then None
           else Some (''%'' @ lib_to_lowercase L stem @ ''%''))
      | _ \<Rightarrow> None)"

section \<open>Matching\<close>

text \<open>\<^verbatim>\<open>text LIKE pattern\<close>, over code points, with the backslash as escape.\<close>

function like_match :: "string list \<Rightarrow> string list \<Rightarrow> bool" where
  "like_match [] ts = (ts = [])"
| "like_match (p # ps) ts =
     (if p = ''%'' then like_match ps ts \<or> (case ts of [] \<Rightarrow> False | _ # us \<Rightarrow> like_match (p # ps) us)
      else case ts of
             [] \<Rightarrow> False
           | t # us \<Rightarrow>
               if p = ''_'' then like_match ps us
               else if p = [CHR 92] then (case ps of [] \<Rightarrow> False | q # qs \<Rightarrow> t = q \<and> like_match qs us)
               else t = p \<and> like_match ps us)"
  by pat_completeness auto
termination by (relation "measure (\<lambda>(ps, ts). length ps + length ts)") auto

definition sql_like :: "string \<Rightarrow> string \<Rightarrow> bool" where
  "sql_like s pattern = like_match (chars pattern) (chars s)"

definition lower_like :: "libs \<Rightarrow> string option \<Rightarrow> string \<Rightarrow> bool" where
  "lower_like L x pattern = sql_like (lib_to_lowercase L (case x of None \<Rightarrow> [] | Some s \<Rightarrow> s)) pattern"

definition search_matches :: "libs \<Rightarrow> string \<Rightarrow> video \<Rightarrow> bool" where
  "search_matches L q v \<longleftrightarrow>
     lib_fts_match L q v
     \<or> lower_like L (v_title v) (build_search_like_pattern L q)
     \<or> lower_like L (v_description v) (build_search_like_pattern L q)
     \<or> (case build_relaxed_like_pattern L q of
          None \<Rightarrow> False
        | Some r \<Rightarrow> lower_like L (v_title v) r \<or> lower_like L (v_description v) r)"

definition searchable :: "config \<Rightarrow> video \<Rightarrow> bool" where
  "searchable cf v \<longleftrightarrow> v_deleted_at v = None \<and> v_moderation_state v = ''VISIBLE''
     \<and> (to_ascii_uppercase (v_status v) \<in> {''PUBLISHED'', ''COMPLETED''}
        \<or> v_s3_bucket v = cf_minio_bucket_videos cf)"

definition search_order :: "libs \<Rightarrow> string \<Rightarrow> string \<Rightarrow> video list \<Rightarrow> video list" where
  "search_order L requested q vs =
     (if requested = ''recent'' then order_by_desc v_created_at vs
      else if requested = ''popular'' then order_by_desc v_like_count (order_by_desc v_created_at vs)
      else order_by_desc (lib_fts_rank L q) (order_by_desc v_like_count vs))"

definition limit_offset :: "nat \<Rightarrow> nat \<Rightarrow> 'a list \<Rightarrow> 'a list" where
  "limit_offset lim off xs = take lim (drop off xs)"

text \<open>
  One page of rows. An offset that is negative as an \<^verbatim>\<open>i64\<close> is refused by the database. The
  timeout around the statement is not a case of its own: it is a call that fails.
\<close>

definition read_page :: "nat \<Rightarrow> (database \<Rightarrow> 'a) \<Rightarrow> 'a io" where
  "read_page off f = (if off < 2 ^ 63 then db_read f else throwErr (DbError DbConn))"

lemma preserves_read_page [preserves_rules]:
  "preserves P (db_read f) \<Longrightarrow> preserves P (read_page off f)"
  by (simp add: read_page_def preserves_throwErr)

section \<open>Search for users\<close>

record search_videos_query =
  svq_q :: string
  svq_limit :: nat
  svq_offset :: nat
  svq_sort :: string
  svq_include_nsfw :: "bool option"

definition search_rpm_key :: "uuid \<Rightarrow> string" where
  "search_rpm_key u = ''search:'' @ u @ '':rpm''"

definition search_count_key :: "uuid \<Rightarrow> string" where
  "search_count_key u = ''search:user:'' @ u @ '':count''"

definition bool_text :: "bool \<Rightarrow> string" where
  "bool_text b = (if b then ''true'' else ''false'')"

definition search_cache_key :: "libs \<Rightarrow> uuid \<Rightarrow> string \<Rightarrow> string \<Rightarrow> bool \<Rightarrow> nat \<Rightarrow> nat \<Rightarrow> string" where
  "search_cache_key L u q requested nsfw lim off =
     ''search:cache:'' @ u @ '':v5:'' @ lib_to_lowercase L q @ '':'' @ requested @ '':''
       @ bool_text nsfw @ '':'' @ show_nat lim @ '':'' @ show_nat off"

text \<open>
  The analytics: the popularity of the query (a sorted set nothing reads) and the counter of the
  user; every failure in them is dropped.
\<close>

definition track_search_analytics :: "uuid \<Rightarrow> 'a api \<Rightarrow> 'a api" where
  "track_search_analytics u k =
     catchE get_conn (\<lambda>_. k) (\<lambda>_.
       ignoreE (external RedisError (\<lambda>w. (Inr (), w)))
      (ignoreE (kv_incr (search_count_key u) 1)
      (ignoreE (kv_expire (search_count_key u) 3600) k)))"

definition cached_search :: "string \<Rightarrow> video_feed_item list option api" where
  "cached_search key =
     catchE get_conn (\<lambda>_. returnOk None) (\<lambda>_.
       catchE (kv_get key) (\<lambda>_. returnOk None) (\<lambda>v. returnOk (Option.bind v as_search)))"

definition search_rows ::
  "app \<Rightarrow> string \<Rightarrow> string \<Rightarrow> bool \<Rightarrow> nat \<Rightarrow> nat \<Rightarrow> database \<Rightarrow> (video \<times> user option) list" where
  "search_rows ap q requested nsfw lim off d =
     (let L = ap_libs ap; cf = ap_config ap in
      map (\<lambda>v. (v, uploader_row d v))
        (limit_offset lim off
          (search_order L requested q
            (filter (\<lambda>v. searchable cf v \<and> search_matches L q v \<and> (nsfw \<or> v_is_nsfw v = Some False)) (db_videos d)))))"

definition search_item :: "config \<Rightarrow> video \<times> user option \<Rightarrow> video_feed_item" where
  "search_item cf p =
     (case p of (v, u) \<Rightarrow>
       (let bucket = (if has_published_status v then cf_minio_bucket_videos cf else v_s3_bucket v) in
        \<lparr> vf_id = v_id v, vf_title = v_title v,
          vf_url = cf_minio_public_endpoint cf @ ''/'' @ bucket @ ''/'' @ v_s3_key v,
          vf_thumbnail_url = Some (thumb_url cf (v_id v)), vf_like_count = v_like_count v,
          vf_created_at = v_created_at v,
          vf_uploader = (if v_is_anonymous v then None
            else map_option (\<lambda>x. \<lparr> upi_id = u_id x, upi_username = u_username x \<rparr>) u),
          vf_is_nsfw = (case v_is_nsfw v of None \<Rightarrow> True | Some b \<Rightarrow> b), vf_is_liked = False \<rparr>))"

definition run_search ::
  "app \<Rightarrow> uuid \<Rightarrow> string \<Rightarrow> string \<Rightarrow> bool \<Rightarrow> nat \<Rightarrow> nat \<Rightarrow> string \<Rightarrow> video_feed_item list api" where
  "run_search ap u q requested nsfw lim off key =
     (let cf = ap_config ap in
      bindErr (\<lambda>_. internal_error ''Search failed'') (read_page off (search_rows ap q requested nsfw lim off)) (\<lambda>rows.
      bindE (if rows = [] then returnOk [] else mark_liked ap u (map (search_item cf) rows)) (\<lambda>items.
      bindE (catchE get_conn (\<lambda>_. returnOk ())
               (\<lambda>_. ignoreE (kv_set_ex key (KSearch items) (cf_search_cache_ttl_secs cf)) (returnOk ()))) (\<lambda>_.
        track_search_analytics u (returnOk items)))))"

text \<open>
  The log line of a suspicious query shows the bytes before the fiftieth (warnings are on unless \<^verbatim>\<open>RUST_LOG\<close>
  says otherwise). Rust panics where a character straddles that position: the connection ends without
  an answer, which is the status 0 here.
\<close>

definition panicked :: api_error where
  "panicked = api_error_new 0 ''panic''"

definition is_char_boundary :: "string \<Rightarrow> nat \<Rightarrow> bool" where
  "is_char_boundary s n \<longleftrightarrow> n = length s \<or> n < length s \<and> \<not> is_continuation (s ! n)"

definition log_suspicious_query :: "string \<Rightarrow> 'a api \<Rightarrow> 'a api" where
  "log_suspicious_query q k = guardE (is_char_boundary q (min (length q) 50)) panicked k"

definition is_complex_query :: "string \<Rightarrow> bool" where
  "is_complex_query q \<longleftrightarrow> 150 < length q \<or> 30 < length (split_whitespace q)"

definition search_videos :: "app \<Rightarrow> bool \<Rightarrow> uuid \<Rightarrow> search_videos_query \<Rightarrow> video_feed_item list api" where
  "search_videos ap bypass u p =
     (let cf = ap_config ap; L = ap_libs ap in
      okOrE (bad_request ''include_nsfw query parameter is required'') (svq_include_nsfw p) (\<lambda>nsfw.
      limited_read (check_rate bypass (search_rpm_key u) (cf_search_rpm_limit cf))
        (\<lambda>current. if is_char_boundary (svq_q p) (min (length (svq_q p)) 50)
           then too_many_requests (''Search rate limit exceeded ('' @ show_nat (unat (cf_search_rpm_limit cf))
             @ '' searches/minute). Current: '' @ show_nat (unat current))
           else panicked)
     (bindE (from_sum (validate_search_query cf (svq_q p))) (\<lambda>q.
      (if is_complex_query q then log_suspicious_query q else (\<lambda>k. k))
     (let lim = min (svq_limit p) 100;
          key = search_cache_key L u q (svq_sort p) nsfw lim (svq_offset p) in
      bindE (cached_search key) (\<lambda>hit.
        case hit of
          Some items \<Rightarrow> track_search_analytics u (returnOk items)
        | None \<Rightarrow> run_search ap u q (svq_sort p) nsfw lim (svq_offset p) key))))))"

section \<open>Search for the keyboard extension\<close>

record keyboard_search_query =
  ksq_q :: string
  ksq_limit :: nat
  ksq_offset :: nat
  ksq_sort :: string

record keyboard_search_item_dto =
  ksi_id :: uuid
  ksi_title :: "string option"
  ksi_thumbnail_url :: "string option"
  ksi_duration_seconds :: "int option"
  ksi_safe_size_bytes :: nat
  ksi_published :: bool

definition enforce_keyboard_rpm :: "bool \<Rightarrow> 64 word \<Rightarrow> string \<Rightarrow> string \<Rightarrow> 'a api \<Rightarrow> 'a api" where
  "enforce_keyboard_rpm bypass lim user_key session_key k =
     limited_count (check_and_increment bypass user_key lim 60)
       (\<lambda>_. too_many_requests ''Keyboard rate limit exceeded'')
    (limited_count (check_and_increment bypass session_key lim 60)
       (\<lambda>_. too_many_requests ''Keyboard rate limit exceeded'') k)"

definition keyboard_item :: "config \<Rightarrow> video \<Rightarrow> keyboard_search_item_dto" where
  "keyboard_item cf v =
     \<lparr> ksi_id = v_id v, ksi_title = v_title v, ksi_thumbnail_url = Some (thumb_url cf (v_id v)),
       ksi_duration_seconds = v_duration_seconds v, ksi_safe_size_bytes = nat (max (v_size_bytes v) 0),
       ksi_published = (has_published_status v \<or> v_s3_bucket v = cf_minio_bucket_videos cf) \<rparr>"

definition search_videos_keyboard ::
  "app \<Rightarrow> bool \<Rightarrow> extension_auth \<Rightarrow> keyboard_search_query \<Rightarrow> keyboard_search_item_dto list api" where
  "search_videos_keyboard ap bypass ea p =
     (let cf = ap_config ap; L = ap_libs ap in
      guardE (has_scope ea ''keyboard.search'') (forbidden ''Missing scope: keyboard.search'')
     (enforce_keyboard_rpm bypass (cf_keyboard_search_rpm cf) (keyboard_search_user_rpm_key (ea_user_id ea))
        (keyboard_search_session_rpm_key (ea_session_jti ea))
     (bindE (from_sum (validate_search_query cf (ksq_q p))) (\<lambda>q.
      let lim = min (max (ksq_limit p) 1) (cf_keyboard_search_max_limit cf) in
      bindErr (\<lambda>e. internal_error (''Keyboard search failed: '' @ lib_failure_text L e))
        (read_page (ksq_offset p) (\<lambda>d. limit_offset lim (ksq_offset p)
            (search_order L (ksq_sort p) q
              (filter (\<lambda>v. searchable cf v \<and> search_matches L q v) (db_videos d))))) (\<lambda>rows.
        returnOk (map (keyboard_item cf) rows))))))"

section \<open>The normal form of a query\<close>

definition is_piece :: "string \<Rightarrow> bool" where
  "is_piece p \<longleftrightarrow> p \<noteq> [] \<and> \<not> is_continuation (hd p) \<and> list_all is_continuation (tl p)"

lemma chars_concat: "list_all is_piece ps \<Longrightarrow> chars (concat ps) = ps"
proof (induction ps)
  case (Cons p ps)
  obtain c cs where p: "p = c # cs" using Cons.prems by (cases p) (auto simp: is_piece_def)
  have cs: "\<forall>x \<in> set cs. is_continuation x" using Cons.prems p by (simp add: is_piece_def list_all_iff)
  have hd: "concat ps = [] \<or> \<not> is_continuation (hd (concat ps))"
    using Cons.prems by (cases ps) (auto simp: is_piece_def hd_append)
  have t: "takeWhile is_continuation (cs @ concat ps) = cs" "dropWhile is_continuation (cs @ concat ps) = concat ps"
  proof -
    have nil: "takeWhile P xs = [] \<and> dropWhile P xs = xs" if "xs = [] \<or> \<not> P (hd xs)" for P and xs :: string
      using that by (cases xs) auto
    have "takeWhile is_continuation (concat ps) = []" using nil [where P = is_continuation and xs = "concat ps"] hd by blast
    then show "takeWhile is_continuation (cs @ concat ps) = cs" using cs by (simp add: takeWhile_append2)
    have "dropWhile is_continuation (concat ps) = concat ps" using nil [where P = is_continuation and xs = "concat ps"] hd by blast
    then show "dropWhile is_continuation (cs @ concat ps) = concat ps" using cs by (simp add: dropWhile_append2)
  qed
  have r: "chars (concat ps) = ps" using Cons by simp
  have "concat (p # ps) = c # (cs @ concat ps)" by (simp add: p)
  then show ?case by (simp only: chars.simps t r p)
qed simp

fun join_words :: "string list list \<Rightarrow> string list" where
  "join_words [] = []"
| "join_words [w] = w"
| "join_words (w # v # vs) = w @ '' '' # join_words (v # vs)"

lemma concat_join_words: "concat (join_words ws) = join_with '' '' (map concat ws)"
  by (induction ws rule: join_words.induct) simp_all

definition is_word :: "string list \<Rightarrow> bool" where
  "is_word w \<longleftrightarrow> w \<noteq> [] \<and> list_all (\<lambda>c. \<not> is_white_space c) w"

lemma words_of_word: "list_all is_word (words_of cs)"
proof (induction cs rule: words_of.induct)
  case (2 c cs)
  have "list_all (\<lambda>x. \<not> is_white_space x) (takeWhile (\<lambda>x. \<not> is_white_space x) cs)"
    by (auto simp: list_all_iff dest: set_takeWhileD)
  then show ?case using 2 by (simp add: is_word_def)
qed simp

lemma words_of_mem: "w \<in> set (words_of cs) \<Longrightarrow> set w \<subseteq> set cs"
proof (induction cs rule: words_of.induct)
  case (2 c cs)
  then show ?case
    by (auto split: if_splits dest: set_takeWhileD set_dropWhileD)
qed simp

lemma is_white_space_byte: "is_white_space [c] \<longleftrightarrow> byte c \<in> {9, 10, 11, 12, 13, 32}"
  by (simp add: is_white_space_def white_space_def byte_def eq_commute [of c] char_of_eq_iff)

lemma space_white: "is_white_space '' ''"
  by (simp add: is_white_space_byte byte_def)

lemma words_of_append:
  assumes "is_word w"
  shows "words_of (w @ '' '' # cs) = w # words_of cs" and "words_of w = [w]"
proof -
  obtain c w' where w: "w = c # w'" "\<not> is_white_space c" "\<forall>x \<in> set w'. \<not> is_white_space x"
    using assms by (cases w) (auto simp: is_word_def list_all_iff)
  have "takeWhile (\<lambda>x. \<not> is_white_space x) w' = w'" "dropWhile (\<lambda>x. \<not> is_white_space x) w' = []"
    using w(3) by (simp_all add: takeWhile_eq_all_conv dropWhile_eq_Nil_conv)
  then have "words_of w = [w]" using w(1,2) by (simp del: dropWhile_eq_Nil_conv takeWhile_eq_all_conv)
  moreover have "words_of (w @ '' '' # cs) = w # words_of cs"
    using w space_white by (simp add: takeWhile_append2 dropWhile_append2)
  ultimately show "words_of (w @ '' '' # cs) = w # words_of cs" "words_of w = [w]" by blast+
qed

lemma words_of_join: "list_all is_word ws \<Longrightarrow> words_of (join_words ws) = ws"
  by (induction ws rule: join_words.induct) (simp_all add: words_of_append)

lemma set_join_words: "set (join_words ws) \<subseteq> insert '' '' (\<Union> (set ` set ws))"
  by (induction ws rule: join_words.induct) auto

text \<open>What a normalized query is made of: words of plain pieces, joined by single blanks.\<close>

lemma normalized_pieces:
  assumes "list_all is_piece (chars s)"
  shows "\<exists>ws. normalize_query s = concat (join_words ws) \<and> list_all is_word ws
     \<and> chars (normalize_query s) = join_words ws
     \<and> list_all (\<lambda>c. \<not> is_control c) (join_words ws)"
proof -
  let ?cs = "filter (\<lambda>c. \<not> is_control c \<or> c = '' '') (chars s)"
  have cs: "list_all is_piece ?cs" using assms by (auto simp: list_all_iff)
  let ?ws = "words_of ?cs"
  have n: "normalize_query s = concat (join_words ?ws)"
    unfolding normalize_query_def split_whitespace_def chars_concat [OF cs] concat_join_words ..
  have sub: "set (join_words ?ws) \<subseteq> insert '' '' (set ?cs)"
    using set_join_words [of ?ws] words_of_mem [of _ ?cs] by blast
  have sp: "is_piece '' ''" "\<not> is_control '' ''" by code_simp+
  have "list_all is_piece (join_words ?ws)"
    using sub cs sp(1) by (auto simp: list_all_iff)
  then have "chars (normalize_query s) = join_words ?ws" unfolding n by (rule chars_concat)
  moreover have "list_all (\<lambda>c. \<not> is_control c) (join_words ?ws)"
    using sub sp(2) by (auto simp: list_all_iff)
  ultimately show ?thesis using n words_of_word by blast
qed

text \<open>Validating an accepted query again gives the same text: it has no control characters and
  single blanks between its words.\<close>

theorem validated_query_is_normal:
  assumes "validate_search_query cf s = Inr q" and "list_all is_piece (chars s)"
  shows "validate_search_query cf q = Inr q \<and> list_all (\<lambda>c. \<not> is_control c) (chars q)
     \<and> q = join_with '' '' (split_whitespace q)"
proof -
  have q: "q = normalize_query s" using assms(1) by (auto simp: validate_search_query_def Let_def split: if_splits)
  obtain ws where n: "q = concat (join_words ws)" and w: "list_all is_word ws" and c: "chars q = join_words ws"
    and k: "list_all (\<lambda>c. \<not> is_control c) (join_words ws)"
    using normalized_pieces [OF assms(2)] unfolding q by blast
  have f: "filter (\<lambda>c. \<not> is_control c \<or> c = '' '') (join_words ws) = join_words ws"
    using k by (intro filter_True) (auto simp: list_all_iff)
  have s: "split_whitespace q = map concat ws" by (simp add: split_whitespace_def c words_of_join [OF w])
  have nq: "normalize_query q = q"
    unfolding normalize_query_def c f unfolding n [symmetric] s unfolding n concat_join_words ..
  have "validate_search_query cf q = validate_search_query cf s"
    unfolding validate_search_query_def nq unfolding q ..
  moreover have "q = join_with '' '' (split_whitespace q)" unfolding s unfolding n concat_join_words ..
  ultimately show ?thesis using assms(1) k c by simp
qed

lemma validated_query_is_normal_witness:
  "validate_search_query config0 ''  funny   cat '' = Inr ''funny cat''
   \<and> validate_search_query config0 ''funny cat'' = Inr ''funny cat''"
proof -
  have a: "chars ''  funny   cat '' = map (\<lambda>c. [c]) ''  funny   cat ''"
    "chars ''funny cat'' = map (\<lambda>c. [c]) ''funny cat''"
    "chars ''funny'' = map (\<lambda>c. [c]) ''funny''" "chars ''cat'' = map (\<lambda>c. [c]) ''cat''"
    by (rule chars_ascii; auto simp: byte_def)+
  have t: "split_whitespace ''funny cat'' = [''funny'', ''cat'']"
    unfolding split_whitespace_def a by (simp add: is_white_space_byte byte_def)
  have f: "filter (\<lambda>c. \<not> is_control c \<or> c = '' '') (map (\<lambda>c. [c]) ''  funny   cat '') = map (\<lambda>c. [c]) ''  funny   cat ''"
    by (simp add: is_control_def byte_def)
  have n: "normalize_query ''  funny   cat '' = ''funny cat''"
    unfolding normalize_query_def split_whitespace_def a f concat_map_singleton map_ident a
    by (simp add: is_white_space_byte byte_def)
  have l: "length (chars ''funny cat'') = 9" "length (chars ''funny'') = 5" "length (chars ''cat'') = 3"
    unfolding a by simp_all
  have "validate_search_query config0 ''  funny   cat '' = Inr ''funny cat''"
    unfolding validate_search_query_def n Let_def t l by (simp add: l config0_def)
  moreover have "list_all is_piece (chars ''  funny   cat '')"
    unfolding a by (simp add: is_piece_def is_continuation_def byte_def)
  ultimately show ?thesis using validated_query_is_normal by blast
qed

section \<open>Wildcards in queries\<close>

lemma like_match_percents: "ps \<noteq> [] \<Longrightarrow> set ps \<subseteq> {''%''} \<Longrightarrow> like_match ps ts"
proof (induction "length ps" arbitrary: ps)
  case (Suc n)
  then obtain qs where ps: "ps = ''%'' # qs" by (cases ps) auto
  show ?case
  proof (cases qs)
    case Nil
    have "like_match [''%''] ts" by (induction ts) simp_all
    then show ?thesis using ps Nil by simp
  next
    case (Cons q rs)
    have "like_match qs ts" by (rule Suc.hyps(1)) (use Suc.hyps(2) Suc.prems ps Cons in auto)
    then show ?thesis unfolding ps by (simp only: like_match.simps(2) simp_thms if_True)
  qed
qed simp

text \<open>The percent sign of a query is not escaped: a query of percent signs finds everything.\<close>

lemma percent_query_finds_all:
  assumes "lib_to_lowercase L ''%%%'' = ''%%%''"
  shows "search_matches L ''%%%'' v"
proof -
  have "chars ''%%%%%'' = map (\<lambda>c. [c]) ''%%%%%''" by (rule chars_ascii) (auto simp: byte_def)
  then have "sql_like s ''%%%%%''" for s
    by (simp add: sql_like_def del: like_match.simps) (rule like_match_percents; simp)
  then show ?thesis using assms by (simp add: search_matches_def lower_like_def build_search_like_pattern_def)
qed

section \<open>The limit of searches\<close>

text \<open>A sequence of requests of one user: the results, with the time that passes after each.\<close>

fun searches ::
  "app \<Rightarrow> bool \<Rightarrow> uuid \<Rightarrow> (search_videos_query \<times> time) list \<Rightarrow> world \<Rightarrow> (api_error + video_feed_item list) list" where
  "searches ap bypass u [] w = []"
| "searches ap bypass u ((p, gap) # ps) w =
     (case search_videos ap bypass u p w of
        (r, w') \<Rightarrow> r # searches ap bypass u ps (w'\<lparr>clock := clock w' + gap\<rparr>))"

definition quiet_without :: "string \<Rightarrow> world \<Rightarrow> bool" where
  "quiet_without k w \<longleftrightarrow> faults w = [] \<and> map_of (kv w) k = None"

lemma quiet_without_calls [preserves_rules]:
  "preserves (quiet_without k) get_conn" "preserves (quiet_without k) (kv_get k')"
  "preserves (quiet_without k) (db_read f)"
  unfolding kv_defs db_read_def quiet_without_def by (auto simp: preserves_def external.simps split: list.splits)

lemma quiet_without_writes:
  "k' \<noteq> k \<Longrightarrow> preserves (quiet_without k) (kv_set_ex k' v t)"
  "k' \<noteq> k \<Longrightarrow> preserves (quiet_without k) (kv_incr k' n)"
  "k' \<noteq> k \<Longrightarrow> preserves (quiet_without k) (kv_expire k' s)"
  unfolding kv_defs quiet_without_def
  by (auto simp: preserves_def external.simps kv_put_def kv_drop_def update_conv' delete_conv'
      split: list.splits option.splits)

lemma search_keys_differ:
  "search_count_key u \<noteq> search_rpm_key u" "search_cache_key L u q r n lim off \<noteq> search_rpm_key u"
proof -
  have "last (search_rpm_key u) = CHR ''m''" by (simp add: search_rpm_key_def)
  moreover have "last (search_count_key u) = CHR ''t''" by (simp add: search_count_key_def)
  moreover have "is_ascii_digit (last (search_cache_key L u q r n lim off))"
    using show_nat_char [of "last (show_nat off)" off] by (simp add: search_cache_key_def)
  moreover have "\<not> is_ascii_digit CHR ''m''" by (simp add: is_ascii_digit_def byte_def)
  ultimately show "search_count_key u \<noteq> search_rpm_key u" "search_cache_key L u q r n lim off \<noteq> search_rpm_key u"
    by auto
qed

lemma track_search_analytics_keeps:
  "preserves (quiet_without (search_rpm_key u)) k
     \<Longrightarrow> preserves (quiet_without (search_rpm_key u)) (track_search_analytics u k)"
  unfolding track_search_analytics_def
  by (intro preserves_rules quiet_without_calls(1) [unfolded get_conn_def] quiet_without_writes search_keys_differ)

lemma mark_liked_keeps: "preserves (quiet_without k) (mark_liked ap u items)"
  unfolding mark_liked_def by (intro preserves_rules)

lemma cached_search_keeps: "preserves (quiet_without k) (cached_search key)"
  unfolding cached_search_def by (intro preserves_rules)

lemma run_search_keeps:
  "preserves (quiet_without (search_rpm_key u))
     (run_search ap u q r n lim off (search_cache_key L u q' r' n' lim' off'))"
  unfolding run_search_def Let_def
  by (intro preserves_rules mark_liked_keeps track_search_analytics_keeps quiet_without_writes search_keys_differ)

lemma from_sum_keeps: "preserves P (from_sum x)"
  by (cases x) (simp_all add: preserves_def from_sum_def action_defs)

lemma log_suspicious_keeps: "preserves P k \<Longrightarrow> preserves P ((if b then log_suspicious_query q else (\<lambda>k. k)) k)"
  by (simp add: log_suspicious_query_def preserves_guardE)

lemma search_after_limit_keeps:
  "preserves (quiet_without (search_rpm_key u)) (search_videos ap True u p)"
  unfolding search_videos_def limited_read_def check_rate_def Let_def if_True
  by (intro log_suspicious_keeps preserves_rules cached_search_keeps track_search_analytics_keeps run_search_keeps from_sum_keeps)

lemma check_rate_absent:
  assumes "quiet_without k w" and "0 < n"
  shows "\<exists>x. check_rate False k n w = (Inr (Inr x), w)"
  using assms by (simp add: quiet_without_def check_rate_def catchE_def bindE_def kv_get_u64_def kv_live_def
      returnOk_def linorder_not_le)

lemma search_limit_skipped:
  assumes "quiet_without (search_rpm_key u) w" and "0 < cf_search_rpm_limit (ap_config ap)"
  shows "search_videos ap False u p w = search_videos ap True u p w"
proof -
  obtain x where "check_rate False (search_rpm_key u) (cf_search_rpm_limit (ap_config ap)) w = (Inr (Inr x), w)"
    using check_rate_absent [OF assms] by blast
  then have "limited_read (check_rate False (search_rpm_key u) (cf_search_rpm_limit (ap_config ap))) e k w = k w"
    for e and k :: "video_feed_item list api"
    by (simp add: limited_read_def bindErr_def)
  moreover have "limited_read (check_rate True (search_rpm_key u) (cf_search_rpm_limit (ap_config ap))) e k w = k w"
    for e and k :: "video_feed_item list api"
    by (simp add: limited_read_def bindErr_def check_rate_def returnOk_def)
  ultimately show ?thesis by (simp add: search_videos_def Let_def okOrE_def split: option.split)
qed

text \<open>The limit of searches per minute reads a counter that no search writes: however many
  requests a user makes, the answers are those without a limit.\<close>

theorem search_limit_has_no_effect:
  assumes "faults w = []" and "map_of (kv w) (search_rpm_key u) = None"
    and "0 < cf_search_rpm_limit (ap_config ap)"
  shows "searches ap False u ps w = searches ap True u ps w"
proof -
  have "quiet_without (search_rpm_key u) w" using assms(1,2) by (simp add: quiet_without_def)
  then show ?thesis
  proof (induction ps arbitrary: w)
    case (Cons x ps)
    obtain p gap where x: "x = (p, gap)" by (cases x)
    obtain r w' where s: "search_videos ap True u p w = (r, w')" by (cases "search_videos ap True u p w")
    have "quiet_without (search_rpm_key u) (w'\<lparr>clock := clock w' + gap\<rparr>)"
      using preservesD [OF search_after_limit_keeps Cons.prems, of ap p] s by (simp add: quiet_without_def)
    then show ?case
      using Cons.IH search_limit_skipped [OF Cons.prems assms(3)] s by (simp add: x)
  qed simp
qed

lemma search_limit_has_no_effect_witness:
  "searches download_app False ''u1'' [(\<lparr> svq_q = ''cat'', svq_limit = 20, svq_offset = 0, svq_sort = ''recent'',
       svq_include_nsfw = Some True \<rparr>, 5)] world1
   = searches download_app True ''u1'' [(\<lparr> svq_q = ''cat'', svq_limit = 20, svq_offset = 0, svq_sort = ''recent'',
       svq_include_nsfw = Some True \<rparr>, 5)] world1"
  by (rule search_limit_has_no_effect) (simp_all add: download_app_def config0_def)

end
