(* ===== verification/SecurityEvents.thy ===== *)
theory SecurityEvents
  imports App "HOL-Library.Multiset"
begin

text \<open>
  \<^verbatim>\<open>services/security_event_service.rs\<close>: the log of security events, its retention, and the
  paged investigation queries with their cache.
\<close>

definition investigation_cache_ttl_secs :: nat where
  "investigation_cache_ttl_secs = 300"

definition record_event ::
  "string \<Rightarrow> uuid option \<Rightarrow> string \<Rightarrow> string option \<Rightarrow> string option \<Rightarrow> json \<Rightarrow> unit io" where
  "record_event event_type user_id ip request_id user_agent metadata =
     bindE new_v4 (\<lambda>i.
     bindE (getsE clock) (\<lambda>now.
       db_write (insert_security_event
         \<lparr> se_id = i, se_user_id = user_id, se_event_type = event_type, se_ip = ip,
           se_request_id = request_id, se_user_agent = user_agent, se_metadata_json = metadata,
           se_created_at = now \<rparr>)))"

definition event_expired :: "config \<Rightarrow> time \<Rightarrow> security_event \<Rightarrow> bool" where
  "event_expired cf now e \<longleftrightarrow>
     se_created_at e < now - days (max (cf_security_events_retention_days cf) 1)"

definition purge_expired :: "config \<Rightarrow> nat io" where
  "purge_expired cf =
     bindE (getsE clock) (\<lambda>now.
     bindE (db_read (\<lambda>d. length (filter (event_expired cf now) (db_security_events d)))) (\<lambda>n.
     bindE (db_write (\<lambda>d. Inr (d\<lparr>db_security_events :=
              delete_where (event_expired cf now) (db_security_events d)\<rparr>))) (\<lambda>_.
       returnOk n)))"

section \<open>Investigation pages\<close>

definition user_ips_cache_key :: "uuid \<Rightarrow> nat \<Rightarrow> nat \<Rightarrow> nat \<Rightarrow> string" where
  "user_ips_cache_key user_id window_days limit cursor =
     ''user:ips:v1:'' @ user_id @ '':window:'' @ show_nat window_days @ '':limit:'' @ show_nat limit
       @ '':cursor:'' @ show_nat cursor"

definition ip_users_cache_key :: "string \<Rightarrow> nat \<Rightarrow> nat \<Rightarrow> nat \<Rightarrow> string" where
  "ip_users_cache_key ip window_days limit cursor =
     ''ip:users:v1:'' @ ip @ '':window:'' @ show_nat window_days @ '':limit:'' @ show_nat limit
       @ '':cursor:'' @ show_nat cursor"

definition read_cached_page ::
  "(kv_value \<Rightarrow> 'a investigation_page option) \<Rightarrow> string \<Rightarrow> (world, 'e, 'a investigation_page option) action" where
  "read_cached_page parse cache_key =
     catchE get_conn (\<lambda>_. returnOk None)
       (\<lambda>_. catchE (kv_get cache_key) (\<lambda>_. returnOk None) (\<lambda>raw. returnOk (Option.bind raw parse)))"

definition write_cached_page :: "string \<Rightarrow> kv_value \<Rightarrow> unit io" where
  "write_cached_page cache_key page =
     bindE get_conn (\<lambda>_. kv_set_ex cache_key page investigation_cache_ttl_secs)"

definition clamp :: "int \<Rightarrow> int \<Rightarrow> int \<Rightarrow> int" where
  "clamp x lo hi = max lo (min x hi)"

text \<open>
  \<^verbatim>\<open>GROUP BY key ORDER BY MAX(created_at) DESC\<close>: one entry per key, with the latest time and
  the number of events. Keys with the same latest time keep the order of their first event.
\<close>

definition group_events :: "(security_event \<Rightarrow> 'k) \<Rightarrow> security_event list \<Rightarrow> ('k \<times> time \<times> int) list" where
  "group_events key es =
     (let entry = (\<lambda>k. let ts = map se_created_at (filter (\<lambda>e. key e = k) es)
                       in (k, fold max (tl ts) (hd ts), int (length ts)))
      in order_by_desc (\<lambda>(_, t, _). t) (map entry (remdups (map key es))))"

definition in_window :: "time \<Rightarrow> int \<Rightarrow> security_event \<Rightarrow> bool" where
  "in_window now window_days e \<longleftrightarrow> now - days window_days \<le> se_created_at e"

definition user_ip_rows :: "uuid \<Rightarrow> int \<Rightarrow> time \<Rightarrow> database \<Rightarrow> user_ip_activity list" where
  "user_ip_rows user_id window_days now d =
     map (\<lambda>(i, t, n). \<lparr> uia_ip = i, uia_last_seen = t, uia_event_count = n \<rparr>)
       (group_events se_ip (filter (\<lambda>e. se_user_id e = Some user_id \<and> in_window now window_days e)
          (db_security_events d)))"

definition ip_user_rows :: "string \<Rightarrow> int \<Rightarrow> time \<Rightarrow> database \<Rightarrow> ip_user_activity list" where
  "ip_user_rows ip window_days now d =
     map (\<lambda>(u, t, n). \<lparr> iua_user_id = the u, iua_last_seen = t, iua_event_count = n \<rparr>)
       (group_events se_user_id (filter (\<lambda>e. se_ip e = ip \<and> se_user_id e \<noteq> None
            \<and> in_window now window_days e) (db_security_events d)))"

text \<open>\<^verbatim>\<open>LIMIT limit + 1 OFFSET cursor\<close>, and the page made of the rows it returns.\<close>

definition sql_page :: "nat \<Rightarrow> nat \<Rightarrow> 'a list \<Rightarrow> 'a list" where
  "sql_page n off rows = take n (drop off rows)"

definition page_of :: "nat \<Rightarrow> nat \<Rightarrow> 'a list \<Rightarrow> 'a investigation_page" where
  "page_of limit cursor items =
     (if limit < length items
      then \<lparr> ivp_items = take limit items, ivp_next_cursor = Some (cursor + limit) \<rparr>
      else \<lparr> ivp_items = items, ivp_next_cursor = None \<rparr>)"

definition query_rows :: "nat \<Rightarrow> nat \<Rightarrow> (time \<Rightarrow> database \<Rightarrow> 'a list) \<Rightarrow> 'a list io" where
  "query_rows n off rows =
     bindE (getsE clock) (\<lambda>now.
       if 2 ^ 63 \<le> off then throwErr (DbError DbConn)
       else db_read (\<lambda>d. sql_page n off (rows now d)))"

definition recent_ips_for_user ::
  "uuid \<Rightarrow> int \<Rightarrow> nat \<Rightarrow> nat \<Rightarrow> user_ip_activity investigation_page io" where
  "recent_ips_for_user user_id window_days limit cursor =
     (let window_days = clamp window_days 1 3650; limit = max 1 (min limit 200);
          cache_key = user_ips_cache_key user_id (nat window_days) limit cursor in
      bindE (read_cached_page as_ips cache_key) (\<lambda>cached.
        case cached of
          Some page \<Rightarrow> returnOk page
        | None \<Rightarrow>
            bindE (query_rows (limit + 1) cursor (user_ip_rows user_id window_days)) (\<lambda>items.
              let page = page_of limit cursor items in
              ignoreE (write_cached_page cache_key (KIps page)) (returnOk page))))"

definition recent_users_for_ip ::
  "string \<Rightarrow> int \<Rightarrow> nat \<Rightarrow> nat \<Rightarrow> ip_user_activity investigation_page io" where
  "recent_users_for_ip ip window_days limit cursor =
     (let window_days = clamp window_days 1 3650; limit = max 1 (min limit 200);
          cache_key = ip_users_cache_key ip (nat window_days) limit cursor in
      bindE (read_cached_page as_users cache_key) (\<lambda>cached.
        case cached of
          Some page \<Rightarrow> returnOk page
        | None \<Rightarrow>
            bindE (query_rows (limit + 1) cursor (ip_user_rows ip window_days)) (\<lambda>items.
              let page = page_of limit cursor items in
              ignoreE (write_cached_page cache_key (KUsers page)) (returnOk page))))"

section \<open>Properties\<close>

lemma page_of_sql_page:
  "page_of limit cursor (sql_page (Suc limit) cursor rows) =
     \<lparr> ivp_items = take limit (drop cursor rows),
       ivp_next_cursor = (if cursor + limit < length rows then Some (cursor + limit) else None) \<rparr>"
  by (auto simp: page_of_def sql_page_def)

lemma read_cached_page_miss:
  "faults w = [] \<Longrightarrow> Option.bind (kv_live w k) parse = None \<Longrightarrow> read_cached_page parse k w = (Inr None, w)"
  by (simp add: read_cached_page_def action_defs)

lemma fst_group_events:
  "set (map fst (group_events key es)) = key ` set es" "distinct (map fst (group_events key es))"
proof -
  let ?e = "\<lambda>k. let ts = map se_created_at (filter (\<lambda>e. key e = k) es)
                in (k, fold max (tl ts) (hd ts), int (length ts))"
  have "mset (group_events key es) = mset (map ?e (remdups (map key es)))"
    by (simp add: group_events_def order_by_desc_def)
  then have m: "mset (map fst (group_events key es)) = mset (remdups (map key es))"
    by (metis (no_types, lifting) fst_conv list.map_comp list.map_ident_strong mset_map o_apply)
  then show "distinct (map fst (group_events key es))"
    by (metis distinct_remdups mset_eq_imp_distinct_iff)
  show "set (map fst (group_events key es)) = key ` set es"
    using mset_eq_setD [OF m] by simp
qed

text \<open>The addresses the user was seen at in the window.\<close>

definition recent_addresses :: "uuid \<Rightarrow> int \<Rightarrow> world \<Rightarrow> string set" where
  "recent_addresses u wd w = se_ip ` set (filter (\<lambda>e. se_user_id e = Some u
     \<and> clock w - days wd \<le> se_created_at e) (db_security_events (db w)))"

lemma user_ip_rows_addresses:
  "map uia_ip (user_ip_rows u wd (clock w) (db w)) =
     map fst (group_events se_ip (filter (\<lambda>e. se_user_id e = Some u \<and> in_window (clock w) wd e)
       (db_security_events (db w))))"
  by (simp add: user_ip_rows_def o_def case_prod_beta)

lemma recent_addresses_rows:
  "set (map uia_ip (user_ip_rows u wd (clock w) (db w))) = recent_addresses u wd w"
  "distinct (map uia_ip (user_ip_rows u wd (clock w) (db w)))"
  by (simp_all only: user_ip_rows_addresses fst_group_events)
    (auto simp: recent_addresses_def in_window_def)

text \<open>The pages at the cursors a client is given, from the start.\<close>

fun follow :: "(nat \<Rightarrow> 'a investigation_page) \<Rightarrow> nat \<Rightarrow> nat \<Rightarrow> 'a list \<times> nat option" where
  "follow page 0 c = ([], Some c)"
| "follow page (Suc n) c =
     (case ivp_next_cursor (page c) of
        None \<Rightarrow> (ivp_items (page c), None)
      | Some c' \<Rightarrow> let (xs, r) = follow page n c' in (ivp_items (page c) @ xs, r))"

lemma take_then_drop: "take k (drop c xs) @ drop (c + k) xs = drop c xs"
  by (metis add.commute append_take_drop_id drop_drop)

lemma follow_pages:
  assumes "0 < limit" and "length rows - c < n * limit"
  shows "follow (\<lambda>c. page_of limit c (sql_page (Suc limit) c rows)) n c = (drop c rows, None)"
  using assms(2)
proof (induction n arbitrary: c)
  case (Suc n)
  let ?page = "\<lambda>c. page_of limit c (sql_page (Suc limit) c rows)"
  show ?case
  proof (cases "c + limit < length rows")
    case True
    then have "length rows - (c + limit) < n * limit" using Suc.prems by auto
    then have "follow ?page n (c + limit) = (drop (c + limit) rows, None)" by (rule Suc.IH)
    then show ?thesis using True
      by (simp add: page_of_sql_page take_then_drop)
  next
    case False
    then show ?thesis by (simp add: page_of_sql_page)
  qed
qed simp

lemma follow_cong:
  assumes "\<And>c. c \<le> m \<Longrightarrow> f c = g c"
    and "\<And>c c'. c \<le> m \<Longrightarrow> ivp_next_cursor (g c) = Some c' \<Longrightarrow> c' \<le> m" and "c \<le> m"
  shows "follow f n c = follow g n c"
  using assms(3)
proof (induction n arbitrary: c)
  case (Suc n)
  then show ?case using assms(1) [OF Suc.prems] assms(2) [OF Suc.prems]
    by (simp split: option.split)
qed simp

text \<open>An administrator who follows the cursors from the first page sees every address of the
  user in the window exactly once, in order, and the pages come to an end.\<close>

theorem investigation_pages_complete:
  assumes "1 \<le> limit" and "limit \<le> 200" and "1 \<le> wd" and "wd \<le> 3650"
    and "faults w = []"
    and "\<forall>c. Option.bind (kv_live w (user_ips_cache_key u (nat wd) limit c)) as_ips = None"
    and "length (user_ip_rows u wd (clock w) (db w)) < 2 ^ 63"
    and "length (user_ip_rows u wd (clock w) (db w)) < n * limit"
  shows "\<exists>items. follow (\<lambda>c. case result (recent_ips_for_user u wd limit c w) of
                    Inr p \<Rightarrow> p | Inl _ \<Rightarrow> \<lparr> ivp_items = [], ivp_next_cursor = None \<rparr>) n 0 = (items, None)
        \<and> distinct (map uia_ip items) \<and> set (map uia_ip items) = recent_addresses u wd w"
proof -
  let ?rows = "user_ip_rows u wd (clock w) (db w)"
  have lim: "max 1 (min limit 200) = limit" and wd: "clamp wd 1 3650 = wd"
    using assms(1-4) by (simp_all add: clamp_def)
  have page: "result (recent_ips_for_user u wd limit c w)
      = Inr (page_of limit c (sql_page (Suc limit) c ?rows))" if "c < 2 ^ 63" for c
    using that assms(5,6) lim wd
    by (simp add: recent_ips_for_user_def Let_def bindE_def read_cached_page_miss query_rows_def
        action_defs)
  let ?f = "\<lambda>c. case result (recent_ips_for_user u wd limit c w) of
      Inr p \<Rightarrow> p | Inl _ \<Rightarrow> \<lparr> ivp_items = [], ivp_next_cursor = None \<rparr>"
  have "follow ?f n 0 = follow (\<lambda>c. page_of limit c (sql_page (Suc limit) c ?rows)) n 0"
    using assms(7) page by (intro follow_cong [where m = "length ?rows"])
      (auto simp: page_of_sql_page split: if_splits)
  also have "\<dots> = (?rows, None)"
    using assms(1,8) follow_pages [of limit ?rows 0 n] by simp
  finally show ?thesis using recent_addresses_rows by blast
qed

definition event_of :: "string \<Rightarrow> string \<Rightarrow> time \<Rightarrow> security_event" where
  "event_of i a t = \<lparr> se_id = i, se_user_id = Some ''u1'', se_event_type = ''auth.refresh'', se_ip = a,
     se_request_id = None, se_user_agent = None, se_metadata_json = JObj [], se_created_at = t \<rparr>"

definition events_world :: world where
  "events_world = world1\<lparr>db := (db world1)\<lparr>db_security_events :=
     [event_of ''e1'' ''1.1.1.1'' 1699999999000000000, event_of ''e2'' ''2.2.2.2'' 1699999999500000000,
      event_of ''e3'' ''1.1.1.1'' 1699999999900000000] \<rparr> \<rparr>"

lemma investigation_pages_complete_witness:
  "\<exists>items. follow (\<lambda>c. case result (recent_ips_for_user ''u1'' 30 1 c events_world) of
      Inr p \<Rightarrow> p | Inl _ \<Rightarrow> \<lparr> ivp_items = [], ivp_next_cursor = None \<rparr>) 3 0 = (items, None)
    \<and> distinct (map uia_ip items) \<and> set (map uia_ip items) = {''1.1.1.1'', ''2.2.2.2''}"
proof -
  let ?rows = "user_ip_rows ''u1'' 30 (clock events_world) (db events_world)"
  have c: "clock events_world = 1700000000000000000" "faults events_world = []"
    "kv_live events_world = (\<lambda>_. None)"
    by (simp_all add: events_world_def fun_eq_iff)
  have a: "recent_addresses ''u1'' 30 events_world = {''1.1.1.1'', ''2.2.2.2''}"
    unfolding recent_addresses_def c days_def secs_def nanos_per_sec_def
    by (simp add: events_world_def event_of_def insert_commute del: set_filter)
  have "length ?rows = card (set (map uia_ip ?rows))"
    using recent_addresses_rows(2) [of "''u1''" 30 events_world] by (metis distinct_card length_map)
  also have "\<dots> = 2" by (simp only: recent_addresses_rows(1) a) simp
  finally show ?thesis
    using investigation_pages_complete [of 1 30 events_world "''u1''" 3] a by (simp add: c)
qed

lemma keeps_record_event [keeps_rules]:
  "keeps kv (record_event t u i r a m)" "keeps clock (record_event t u i r a m)"
  unfolding record_event_def
  by (intro keeps_rules; simp add: keeps_def new_v4_def)+

lemma record_event_users [keeps_rules]: "keeps (\<lambda>w. db_users (db w)) (record_event t u i r a m)"
  unfolding record_event_def db_write_def
  by (intro keeps_rules keeps_external)
    (auto simp: keeps_def new_v4_def insert_security_event_def split: sum.splits)

end
