(* ===== verification/Moderation.thy ===== *)
theory Moderation
  imports VideoStore "HOL-Library.List_Lexorder"
begin

text \<open>
  Abuse reports and moderation (\<^verbatim>\<open>api/src/services/abuse_report_service.rs\<close>): the reason codes
  and their severity, the submission of a report with the rules of automatic quarantine, the
  moderation actions on a video, and the retention of reports. A report and the quarantine it
  triggers are one transaction; the public caches are dropped after its commit.
\<close>

section \<open>Reasons\<close>

definition reason_csam :: string where
  "reason_csam = ''CHILD_SEXUAL_ABUSE_MATERIAL''"

definition reason_minor_sexual_exploitation :: string where
  "reason_minor_sexual_exploitation = ''MINOR_SEXUAL_EXPLOITATION''"

definition allowed_reason_codes :: "string list" where
  "allowed_reason_codes =
     [''PORNOGRAPHY'', reason_csam, reason_minor_sexual_exploitation, ''RAPE_GLORIFICATION'',
      ''PEDOPHILIC_CONTENT'', ''ZOOPHILIA_OR_BESTIALITY'', ''NECROPHILIA'', ''EXPLICIT_SEXUAL_CONTENT'',
      ''ILLEGAL_SUBSTANCE_PROMOTION'', ''MALICIOUS_OR_MANIPULATIVE'', ''GRAPHIC_OR_DISTURBING'',
      ''MURDER_OR_SERIOUS_INJURY'', ''CORPSE_CONTENT'', ''NSFW_MISTAGGED'', ''HATE_OR_RACISM'', ''OTHER'']"

definition severe_reason_codes :: "string list" where
  "severe_reason_codes =
     [reason_csam, reason_minor_sexual_exploitation, ''RAPE_GLORIFICATION'', ''PEDOPHILIC_CONTENT'',
      ''ZOOPHILIA_OR_BESTIALITY'', ''NECROPHILIA'', ''MURDER_OR_SERIOUS_INJURY'',
      ''GRAPHIC_OR_DISTURBING'', ''CORPSE_CONTENT'']"

text \<open>The loop over the submitted codes stops at the first one it refuses.\<close>

fun normalize_each :: "string list \<Rightarrow> string + string list" where
  "normalize_each [] = Inr []"
| "normalize_each (raw # raws) =
     (let code = to_ascii_uppercase (trim raw) in
      if code = [] then Inl ''reason_codes contains empty value''
      else if code \<notin> set allowed_reason_codes then Inl (''unsupported reason code: '' @ code)
      else (case normalize_each raws of Inl e \<Rightarrow> Inl e | Inr codes \<Rightarrow> Inr (code # codes)))"

definition normalize_reason_codes :: "config \<Rightarrow> string list \<Rightarrow> string + string list" where
  "normalize_reason_codes cf codes =
     (if codes = [] then Inl ''reason_codes must not be empty''
      else if length codes > cf_report_reason_max_count cf
      then Inl (''reason_codes exceeds max count '' @ show_nat (cf_report_reason_max_count cf))
      else (case normalize_each codes of
              Inl e \<Rightarrow> Inl e
            | Inr normalized \<Rightarrow> Inr (sorted_list_of_set (set normalized))))"

definition reason_severity :: "string \<Rightarrow> int" where
  "reason_severity code =
     (if code \<in> {reason_csam, reason_minor_sexual_exploitation} then 100
      else if code \<in> {''RAPE_GLORIFICATION'', ''PEDOPHILIC_CONTENT''} then 95
      else if code \<in> {''ZOOPHILIA_OR_BESTIALITY'', ''NECROPHILIA''} then 90
      else if code \<in> {''MURDER_OR_SERIOUS_INJURY'', ''CORPSE_CONTENT''} then 85
      else if code = ''GRAPHIC_OR_DISTURBING'' then 75
      else if code \<in> {''PORNOGRAPHY'', ''EXPLICIT_SEXUAL_CONTENT''} then 70
      else if code \<in> {''ILLEGAL_SUBSTANCE_PROMOTION'', ''MALICIOUS_OR_MANIPULATIVE''} then 65
      else if code = ''HATE_OR_RACISM'' then 60
      else if code = ''NSFW_MISTAGGED'' then 40
      else 30)"

definition severity_score_for_reasons :: "string list \<Rightarrow> int" where
  "severity_score_for_reasons codes =
     (if codes = [] then 0 else fold max (map reason_severity codes) (reason_severity (hd codes)))"

definition is_immediate_auto_quarantine :: "string list \<Rightarrow> bool" where
  "is_immediate_auto_quarantine codes \<longleftrightarrow>
     list_ex (\<lambda>c. c = reason_csam \<or> c = reason_minor_sexual_exploitation) codes"

definition has_severe_reason :: "string list \<Rightarrow> bool" where
  "has_severe_reason codes \<longleftrightarrow> list_ex (\<lambda>c. c \<in> set severe_reason_codes) codes"

section \<open>Moderation actions\<close>

datatype video_moderation_action = Quarantine | RemoveVideo | RestoreVideo

fun target_state :: "video_moderation_action \<Rightarrow> string" where
  "target_state Quarantine = ''QUARANTINED''"
| "target_state RemoveVideo = ''REMOVED''"
| "target_state RestoreVideo = ''VISIBLE''"

record moderation_outcome =
  mo_video :: video
  mo_changed :: bool

definition moderate_row ::
  "string \<Rightarrow> string option \<Rightarrow> string \<Rightarrow> uuid option \<Rightarrow> time \<Rightarrow> video \<Rightarrow> video" where
  "moderate_row state reason actor report now v =
     v\<lparr> v_moderation_state := state, v_moderation_reason_code := reason,
        v_moderation_updated_at := Some now, v_moderation_updated_by := Some actor,
        v_moderation_source_report_id := report \<rparr>"

text \<open>
  The update of these columns, under the foreign key
  \<^verbatim>\<open>fk_videos_moderation_source_report\<close> on the report named as the source.
\<close>

definition source_report_ok :: "database \<Rightarrow> uuid option \<Rightarrow> bool" where
  "source_report_ok d report =
     (case report of None \<Rightarrow> True | Some i \<Rightarrow> list_ex (\<lambda>r. ar_id r = i) (db_abuse_reports d))"

definition store_moderation :: "uuid \<Rightarrow> (video \<Rightarrow> video) \<Rightarrow> video io" where
  "store_moderation i f = external (DbError DbConn)
     (\<lambda>w. case find (\<lambda>v. v_id v = i) (db_videos (db w)) of
            None \<Rightarrow> (Inl (DbError RecordNotUpdated), w)
          | Some v \<Rightarrow>
              if source_report_ok (db w) (v_moderation_source_report_id (f v))
              then (Inr (f v), w\<lparr>db := (db w)\<lparr>db_videos :=
                      update_where (\<lambda>v. v_id v = i) f (db_videos (db w))\<rparr>\<rparr>)
              else (Inl (DbError (DbForeignKey ''fk_videos_moderation_source_report'')), w))"

definition apply_video_moderation_action_txn ::
  "uuid \<Rightarrow> video_moderation_action \<Rightarrow> string option \<Rightarrow> string \<Rightarrow> uuid option \<Rightarrow> moderation_outcome api" where
  "apply_video_moderation_action_txn i action reason actor report =
     callE (find_video i) (\<lambda>row.
     okOrE (not_found ''Video not found'') row (\<lambda>v.
     guardE (v_deleted_at v = None) (not_found ''Video not found'')
      (let next_reason = (if action = RestoreVideo then None else reason);
           next_report = (if action = RestoreVideo then None else report);
           changed = (v_moderation_state v \<noteq> target_state action
              \<or> v_moderation_reason_code v \<noteq> next_reason
              \<or> v_moderation_source_report_id v \<noteq> next_report) in
       if \<not> changed then returnOk \<lparr> mo_video = v, mo_changed = False \<rparr>
       else
         bindE (getsE clock) (\<lambda>now.
         callE (store_moderation (v_id v) (moderate_row (target_state action) next_reason actor next_report now))
           (\<lambda>updated. returnOk \<lparr> mo_video = updated, mo_changed = True \<rparr>)))))"

definition invalidate_public_video_caches :: "(world, 'e, unit) action" where
  "invalidate_public_video_caches =
     ignoreE invalidate_all_feeds
       (catchE get_conn (\<lambda>_. returnOk ()) (\<lambda>_. drop_keys ''search:cache:''))"

definition apply_video_moderation_action ::
  "uuid \<Rightarrow> video_moderation_action \<Rightarrow> string option \<Rightarrow> string \<Rightarrow> uuid option \<Rightarrow> moderation_outcome api" where
  "apply_video_moderation_action i action reason actor report =
     bindE (transaction from_failure (apply_video_moderation_action_txn i action reason actor report)) (\<lambda>outcome.
       if mo_changed outcome
       then bindE invalidate_public_video_caches (\<lambda>_. returnOk outcome)
       else returnOk outcome)"

section \<open>Reports\<close>

record submit_report_input =
  sri_video_id :: uuid
  sri_reporter_user_id :: uuid
  sri_reason_codes :: "string list"
  sri_details :: "string option"
  sri_timestamp_seconds :: "int option"
  sri_client_ip :: string
  sri_user_agent :: "string option"

record submit_report_outcome =
  sro_report :: abuse_report
  sro_created :: bool
  sro_auto_quarantined :: bool
  sro_auto_rule :: "string option"

definition reportable_video :: "config \<Rightarrow> uuid \<Rightarrow> database \<Rightarrow> video option" where
  "reportable_video cf i d =
     find (\<lambda>v. v_id v = i \<and> v_deleted_at v = None \<and> published_like cf v) (db_videos d)"

definition is_open_report :: "uuid \<Rightarrow> uuid \<Rightarrow> abuse_report \<Rightarrow> bool" where
  "is_open_report i u r \<longleftrightarrow> ar_video_id r = i \<and> ar_reporter_user_id r = u \<and> ar_closed_at r = None"

definition find_open_report :: "uuid \<Rightarrow> uuid \<Rightarrow> database \<Rightarrow> abuse_report option" where
  "find_open_report i u d = one_by_desc ar_created_at (is_open_report i u) (db_abuse_reports d)"

text \<open>\<^verbatim>\<open>ActiveModel::update\<close> of a report, with the row it returns.\<close>

definition update_report_row :: "uuid \<Rightarrow> (abuse_report \<Rightarrow> abuse_report) \<Rightarrow> abuse_report io" where
  "update_report_row i f = external (DbError DbConn)
     (\<lambda>w. case update_abuse_report i f (db w) of
            Inl e \<Rightarrow> (Inl (DbError e), w)
          | Inr d \<Rightarrow>
              (case find (\<lambda>r. ar_id r = i) (db_abuse_reports (db w)) of
                 None \<Rightarrow> (Inl (DbError RecordNotUpdated), w)
               | Some r \<Rightarrow> (Inr (f r), w\<lparr>db := d\<rparr>)))"

definition resubmitted :: "submit_report_input \<Rightarrow> time \<Rightarrow> abuse_report \<Rightarrow> abuse_report" where
  "resubmitted inp now r =
     r\<lparr> ar_reason_codes := sri_reason_codes inp, ar_details := sri_details inp,
        ar_timestamp_seconds := sri_timestamp_seconds inp,
        ar_severity_score := severity_score_for_reasons (sri_reason_codes inp),
        ar_client_ip := sri_client_ip inp, ar_user_agent := sri_user_agent inp,
        ar_updated_at := now \<rparr>"

definition new_report :: "submit_report_input \<Rightarrow> uuid \<Rightarrow> time \<Rightarrow> abuse_report" where
  "new_report inp i now =
     \<lparr> ar_id = i, ar_video_id = sri_video_id inp, ar_reporter_user_id = sri_reporter_user_id inp,
       ar_reason_codes = sri_reason_codes inp, ar_details = sri_details inp,
       ar_timestamp_seconds = sri_timestamp_seconds inp,
       ar_severity_score = severity_score_for_reasons (sri_reason_codes inp), ar_status = ''open'',
       ar_client_ip = sri_client_ip inp, ar_user_agent = sri_user_agent inp,
       ar_auto_quarantined = False, ar_auto_rule = None, ar_created_at = now, ar_updated_at = now,
       ar_closed_at = None, ar_closed_by_admin_sub = None, ar_resolution_code = None,
       ar_resolution_note = None \<rparr>"

definition store_report :: "submit_report_input \<Rightarrow> abuse_report option \<Rightarrow> time \<Rightarrow> abuse_report api" where
  "store_report inp existing now =
     (case existing of
        Some r \<Rightarrow> mapErr from_failure (update_report_row (ar_id r) (resubmitted inp now))
      | None \<Rightarrow>
          bindE new_v4 (\<lambda>i.
          let r = new_report inp i now in
          callE (db_write (insert_abuse_report r)) (\<lambda>_. returnOk r)))"

text \<open>The distinct reporters with an open report on the video made within the window.\<close>

definition distinct_reporters :: "uuid \<Rightarrow> time \<Rightarrow> database \<Rightarrow> uuid set" where
  "distinct_reporters i since d =
     set (map ar_reporter_user_id
       (filter (\<lambda>r. ar_video_id r = i \<and> ar_closed_at r = None \<and> since \<le> ar_created_at r) (db_abuse_reports d)))"

definition quarantine_threshold :: "config \<Rightarrow> nat" where
  "quarantine_threshold cf = max (cf_auto_quarantine_severe_distinct_reporters cf) 1"

definition auto_rule :: "config \<Rightarrow> submit_report_input \<Rightarrow> string option api" where
  "auto_rule cf inp =
     (if \<not> cf_auto_quarantine_enabled cf then returnOk None
      else if is_immediate_auto_quarantine (sri_reason_codes inp)
      then returnOk (Some ''immediate_minor_sexual_exploitation'')
      else if has_severe_reason (sri_reason_codes inp) then
        bindE (getsE clock) (\<lambda>now.
        callE (db_read (distinct_reporters (sri_video_id inp)
                 (now - secs (int (max (cf_auto_quarantine_window_secs cf) 1))))) (\<lambda>reporters.
          returnOk (if card reporters \<ge> quarantine_threshold cf
                    then Some (''severe_distinct_reporters_'' @ show_nat (quarantine_threshold cf))
                    else None)))
      else returnOk None)"

definition quarantined_report :: "string \<Rightarrow> time \<Rightarrow> abuse_report \<Rightarrow> abuse_report" where
  "quarantined_report rule now r =
     r\<lparr> ar_auto_quarantined := True, ar_auto_rule := Some rule, ar_status := ''auto_quarantined'',
        ar_updated_at := now \<rparr>"

text \<open>The transaction: it answers the outcome and whether the video's state changed.\<close>

definition submit_report_txn ::
  "config \<Rightarrow> submit_report_input \<Rightarrow> time \<Rightarrow> (submit_report_outcome \<times> bool) api" where
  "submit_report_txn cf inp now =
     callE (db_read (reportable_video cf (sri_video_id inp))) (\<lambda>row.
     okOrE (not_found ''Video not found'') row (\<lambda>v.
     guardE (v_moderation_state v \<noteq> ''REMOVED'') (not_found ''Video not found'')
    (callE (db_read (find_open_report (sri_video_id inp) (sri_reporter_user_id inp))) (\<lambda>existing.
     bindE (store_report inp existing now) (\<lambda>report.
     bindE (auto_rule cf inp) (\<lambda>rule.
       case rule of
         None \<Rightarrow> returnOk (\<lparr> sro_report = report, sro_created = (existing = None),
                            sro_auto_quarantined = False, sro_auto_rule = None \<rparr>, False)
       | Some name \<Rightarrow>
           bindE (apply_video_moderation_action_txn (sri_video_id inp) Quarantine
                    (Some ''AUTO_QUARANTINE'') ''system:auto_quarantine'' (Some (ar_id report))) (\<lambda>outcome.
           callE (update_report_row (ar_id report) (quarantined_report name now)) (\<lambda>report'.
             returnOk (\<lparr> sro_report = report', sro_created = (existing = None),
                         sro_auto_quarantined = True, sro_auto_rule = Some name \<rparr>,
                       mo_changed outcome)))))))))"

definition submit_or_update_report :: "config \<Rightarrow> submit_report_input \<Rightarrow> submit_report_outcome api" where
  "submit_or_update_report cf inp =
     bindE (getsE clock) (\<lambda>now.
     bindE (transaction from_failure (submit_report_txn cf inp now)) (\<lambda>(outcome, changed).
       if changed then bindE invalidate_public_video_caches (\<lambda>_. returnOk outcome)
       else returnOk outcome))"

text \<open>Deleting reports clears the columns that name them as a source (\<^verbatim>\<open>ON DELETE SET NULL\<close>).\<close>

definition clear_source_report :: "uuid set \<Rightarrow> video \<Rightarrow> video" where
  "clear_source_report gone v =
     (case v_moderation_source_report_id v of
        Some i \<Rightarrow> if i \<in> gone then v\<lparr>v_moderation_source_report_id := None\<rparr> else v
      | None \<Rightarrow> v)"

definition delete_abuse_reports :: "(abuse_report \<Rightarrow> bool) \<Rightarrow> database \<Rightarrow> database" where
  "delete_abuse_reports p d =
     (let gone = set (map ar_id (filter p (db_abuse_reports d))) in
      d\<lparr> db_abuse_reports := delete_where p (db_abuse_reports d),
         db_videos := map (clear_source_report gone) (db_videos d) \<rparr>)"

definition purge_expired_reports :: "config \<Rightarrow> nat io" where
  "purge_expired_reports cf =
     bindE (getsE clock) (\<lambda>now.
     let expired = (\<lambda>r. ar_created_at r < now - days (max (cf_abuse_report_retention_days cf) 1)) in
     external (DbError DbConn) (\<lambda>w.
       (Inr (length (filter expired (db_abuse_reports (db w)))), w\<lparr>db := delete_abuse_reports expired (db w)\<rparr>)))"

section \<open>At most one open report per video and reporter\<close>

definition report_pair :: "abuse_report \<Rightarrow> uuid \<times> uuid" where
  "report_pair r = (ar_video_id r, ar_reporter_user_id r)"

definition open_reports_unique :: "database \<Rightarrow> bool" where
  "open_reports_unique d \<longleftrightarrow> distinct (map report_pair (filter (\<lambda>r. ar_closed_at r = None) (db_abuse_reports d)))"

lemma map_filter_update_where:
  "(\<And>r. p (f r) = p r) \<Longrightarrow> (\<And>r. h (f r) = h r)
     \<Longrightarrow> map h (filter p (update_where q f rows)) = map h (filter p rows)"
  by (induction rows) (auto simp: update_where_def)

lemma open_reports_unique_update:
  assumes "\<And>r. report_pair (f r) = report_pair r" and "\<And>r. ar_closed_at (f r) = ar_closed_at r"
  shows "preserves (\<lambda>w. open_reports_unique (db w)) (update_report_row i f)"
proof -
  have k: "open_reports_unique (d\<lparr>db_abuse_reports := update_where q f (db_abuse_reports d)\<rparr>)
      = open_reports_unique d" for d q
    using map_filter_update_where [of "\<lambda>r. ar_closed_at r = None" f report_pair q "db_abuse_reports d"] assms
    by (simp add: open_reports_unique_def)
  show ?thesis
    unfolding update_report_row_def
    by (rule preserves_external) (auto simp: preserves_def update_abuse_report_def check_def k split: option.split)
qed

lemma open_reports_unique_insert:
  assumes "ar_closed_at r = None"
  shows "preserves (\<lambda>w. open_reports_unique (db w)) (db_write (insert_abuse_report r))"
proof (rule preserves_db_write)
  fix w d assume u: "open_reports_unique (db w)" and i: "insert_abuse_report r (db w) = Inr d"
  from i assms have d: "d = (db w)\<lparr>db_abuse_reports := db_abuse_reports (db w) @ [r]\<rparr>"
    and n: "\<forall>q \<in> set (db_abuse_reports (db w)). ar_closed_at q = None \<longrightarrow> report_pair q \<noteq> report_pair r"
    by (auto simp: insert_abuse_report_def list_ex_iff report_pair_def)
  show "open_reports_unique (db (w\<lparr>db := d\<rparr>))"
    using u n assms by (auto simp: open_reports_unique_def d)
qed simp

lemma open_reports_unique_videos [simp]:
  "open_reports_unique (d\<lparr>db_videos := vs\<rparr>) = open_reports_unique d"
  by (simp add: open_reports_unique_def)

lemma open_reports_unique_moderate [preserves_rules]:
  "preserves (\<lambda>w. open_reports_unique (db w)) (store_moderation i f)"
  unfolding store_moderation_def
  by (rule preserves_external) (auto simp: preserves_def split: option.split)

lemma preserves_db_of_keeps: "keeps db m \<Longrightarrow> preserves (\<lambda>w. P (db w)) m"
  by (rule keeps_preserves)

lemma keeps_invalidate_public [keeps_rules]: "keeps db invalidate_public_video_caches"
  unfolding invalidate_public_video_caches_def by (intro keeps_rules)

lemma submit_report_txn_unique:
  "preserves (\<lambda>w. open_reports_unique (db w)) (submit_report_txn cf inp now)"
proof -
  have store: "preserves (\<lambda>w. open_reports_unique (db w)) (store_report inp existing now)" for existing
    unfolding store_report_def Let_def
    by (intro preserves_mapErr preserves_case_option preserves_bindE preserves_callE
          open_reports_unique_update open_reports_unique_insert preserves_returnOk
          preserves_db_of_keeps keeps_db_draws)
      (simp_all add: resubmitted_def report_pair_def new_report_def)
  have rule: "preserves (\<lambda>w. open_reports_unique (db w)) (auto_rule cf inp)"
    unfolding auto_rule_def by (intro preserves_db_of_keeps keeps_rules)
  have act: "preserves (\<lambda>w. open_reports_unique (db w)) (apply_video_moderation_action_txn i a r ac rep)"
    for i a r ac rep
    unfolding apply_video_moderation_action_txn_def Let_def find_video_def
    by (intro preserves_rules fault_blind_db)
  have upd: "preserves (\<lambda>w. open_reports_unique (db w)) (update_report_row i (quarantined_report n now))" for i n
    by (rule open_reports_unique_update) (simp_all add: quarantined_report_def report_pair_def)
  show ?thesis
    unfolding submit_report_txn_def
    by (intro preserves_rules fault_blind_db store rule act upd)
qed


section \<open>A grave report hides the video\<close>

lemma store_moderation_Inr:
  assumes "store_moderation i f w = (Inr u, w')"
  shows "\<exists>v. find (\<lambda>v. v_id v = i) (db_videos (db w)) = Some v \<and> u = f v
     \<and> db w' = (db w)\<lparr>db_videos := update_where (\<lambda>v. v_id v = i) f (db_videos (db w))\<rparr>"
  using assms
  by (auto simp: store_moderation_def external.simps split: list.splits fault.splits option.splits if_splits)

lemma apply_action_Inr:
  assumes "apply_video_moderation_action_txn i action reason actor report w = (Inr out, w')"
    and "find (\<lambda>v. v_id v = i) (db_videos (db w)) = Some v"
  shows "(\<exists>u. find (\<lambda>v. v_id v = i) (db_videos (db w')) = Some u \<and> v_moderation_state u = target_state action)
     \<and> (v_moderation_state v \<noteq> target_state action \<longrightarrow> mo_changed out)"
proof -
  obtain row w1 where
    f: "find_video i w = (Inr row, w1)" using assms(1)
    unfolding apply_video_moderation_action_txn_def callE_def by (elim run_InrE)
  have row: "row = Some v" using db_read_Inr [OF f [unfolded find_video_def]] assms(2) by simp
  have db1: "db w1 = db w" using keepsE [OF keeps_db_video_calls(1) f] .
  have vid: "v_id v = i" using find_Some_set [OF assms(2)] by simp
  show ?thesis
  proof (cases "mo_changed out")
    case False
    then have "w' = w1 \<and> v_moderation_state v = target_state action"
      using assms(1) unfolding apply_video_moderation_action_txn_def callE_def row Let_def
      by (auto simp: bindErr_def f row okOrE_def guardE_def returnOk_def throwErr_def bindE_def getsE_def
          split: if_splits prod.splits sum.splits)
    then show ?thesis using False db1 assms(2) by auto
  next
    case True
    then obtain r reason' now where
      s: "store_moderation (v_id v) (moderate_row (target_state action) reason' actor r now) w1 = (Inr (mo_video out), w')"
      using assms(1) unfolding apply_video_moderation_action_txn_def callE_def Let_def
      by (auto simp: bindErr_def f row okOrE_def guardE_def returnOk_def throwErr_def bindE_def getsE_def
          split: if_splits prod.splits sum.splits)
    have m: "v_id (moderate_row st r1 ac r2 t x) = v_id x" for st r1 ac r2 t x
      by (simp add: moderate_row_def)
    from store_moderation_Inr [OF s] show ?thesis
      using True by (auto simp: find_update_where [of v_id] m vid moderate_row_def)
  qed
qed

lemma keeps_videos_report:
  "keeps (\<lambda>w. db_videos (db w)) (update_report_row i f)"
  "keeps (\<lambda>w. db_videos (db w)) (store_report inp existing now)"
proof -
  show u: "keeps (\<lambda>w. db_videos (db w)) (update_report_row i f)" for i f
    unfolding update_report_row_def
    by (rule keeps_external) (auto simp: update_abuse_report_def check_def split: option.split)
  show "keeps (\<lambda>w. db_videos (db w)) (store_report inp existing now)"
    unfolding store_report_def Let_def callE_def
    by (intro keeps_rules u keeps_db_write keeps_db_part [OF keeps_db_draws(1)])
      (auto simp: insert_abuse_report_def)
qed

lemma invalidate_public_run:
  assumes "faults w = []"
  shows "\<exists>w'. (invalidate_public_video_caches :: unit api) w = (Inr (), w') \<and> db w' = db w
     \<and> (\<forall>k. prefix ''feed:'' k \<or> prefix ''search:cache:'' k \<longrightarrow> kv_live w' k = None)"
proof -
  let ?ks = "filter (\<lambda>k. prefix ''feed:'' k \<and> kv_live w k \<noteq> None) (map fst (kv w))"
  obtain w1 where w1: "invalidate_all_feeds w = (Inr (), w1)" "db w1 = db w" "faults w1 = []"
    and k1: "\<And>k. kv_live w1 k = (if k \<in> set ?ks then None else kv_live w k)"
    using assms by (simp add: invalidate_all_feeds_def catchE_def)
  have feed: "kv_live w1 k = None" if "prefix ''feed:'' k" for k
    using that kv_live_known [of w k] unfolding k1 by (cases "kv_live w k") auto
  obtain w2 where w2: "(drop_keys ''search:cache:'' :: unit api) w1 = (Inr (), w2)" "db w2 = db w1"
    and k2: "\<And>k. kv_live w2 k = (if prefix ''search:cache:'' k then None else kv_live w1 k)"
    using drop_keys_run [OF w1(3), of "''search:cache:''"] by blast
  have "(invalidate_public_video_caches :: unit api) w = (Inr (), w2)"
    using w1 w2 by (simp add: invalidate_public_video_caches_def ignoreE_def catchE_def)
  moreover have "\<forall>k. prefix ''feed:'' k \<or> prefix ''search:cache:'' k \<longrightarrow> kv_live w2 k = None"
    unfolding k2 using feed by auto
  ultimately show ?thesis using w1 w2 by auto
qed

lemma quiet_report_row: "preserves (\<lambda>w. faults w = []) (update_report_row i f)"
  "preserves (\<lambda>w. faults w = []) (store_moderation i g)"
  unfolding update_report_row_def store_moderation_def
  by (rule keeps_faults_external; simp split: sum.split option.split)+

lemma quiet_submit_txn: "preserves (\<lambda>w. faults w = []) (submit_report_txn cf inp now)"
  unfolding submit_report_txn_def store_report_def auto_rule_def apply_video_moderation_action_txn_def Let_def
  by (intro quiet_rules quiet_report_row no_faults_video_calls)

lemma submit_txn_quarantines:
  assumes "submit_report_txn cf inp now w = (Inr (out, changed), w')"
    and "cf_auto_quarantine_enabled cf" and "is_immediate_auto_quarantine (sri_reason_codes inp)"
    and "find (\<lambda>v. v_id v = sri_video_id inp) (db_videos (db w)) = Some v"
  shows "(\<exists>u. find (\<lambda>v. v_id v = sri_video_id inp) (db_videos (db w')) = Some u
            \<and> v_moderation_state u = ''QUARANTINED'')
     \<and> (v_moderation_state v \<noteq> ''QUARANTINED'' \<longrightarrow> changed)"
proof -
  let ?i = "sri_video_id inp"
  have rule: "auto_rule cf inp w0 = (Inr (Some ''immediate_minor_sexual_exploitation''), w0)" for w0
    using assms(2,3) by (simp add: auto_rule_def returnOk_def)
  obtain row w1 existing w2 report w3 oc w4 report' w5 where
    s1: "db_read (reportable_video cf ?i) w = (Inr row, w1)" and
    s2: "db_read (find_open_report ?i (sri_reporter_user_id inp)) w1 = (Inr existing, w2)" and
    s3: "store_report inp existing now w2 = (Inr report, w3)" and
    s4: "apply_video_moderation_action_txn ?i Quarantine (Some ''AUTO_QUARANTINE'')
           ''system:auto_quarantine'' (Some (ar_id report)) w3 = (Inr oc, w4)" and
    s5: "update_report_row (ar_id report) (quarantined_report ''immediate_minor_sexual_exploitation'' now) w4
           = (Inr report', w5)" and
    e: "changed = mo_changed oc" "w' = w5"
    using assms(1) unfolding submit_report_txn_def callE_def
    by (elim run_InrE) (auto simp: rule bindErr_def bindE_def returnOk_def split: prod.splits sum.splits)
  have "db_videos (db w3) = db_videos (db w)"
    using keepsE [OF keeps_db_calls(12) s1] keepsE [OF keeps_db_calls(12) s2]
      keepsE [OF keeps_videos_report(2) s3] by simp
  then have f: "find (\<lambda>v. v_id v = ?i) (db_videos (db w3)) = Some v" using assms(4) by simp
  show ?thesis
    using apply_action_Inr [OF s4 f] keepsE [OF keeps_videos_report(1) s5] e by simp
qed


section \<open>A sample report\<close>

definition sample_report :: submit_report_input where
  "sample_report = \<lparr> sri_video_id = ''v1'', sri_reporter_user_id = ''u1'',
     sri_reason_codes = [''CHILD_SEXUAL_ABUSE_MATERIAL''], sri_details = None,
     sri_timestamp_seconds = None, sri_client_ip = ''10.0.0.1'', sri_user_agent = None \<rparr>"

lemma sample_report_grave:
  "cf_auto_quarantine_enabled config0" "is_immediate_auto_quarantine (sri_reason_codes sample_report)"
  "severity_score_for_reasons (sri_reason_codes sample_report) = 100"
  by (simp_all add: config0_def sample_report_def is_immediate_auto_quarantine_def reason_csam_def
      severity_score_for_reasons_def reason_severity_def)

lemma sample_report_fields:
  "sri_video_id sample_report = ''v1''" "sri_reporter_user_id sample_report = ''u1''"
  by (simp_all add: sample_report_def)

lemma sample_reportable: "reportable_video config0 ''v1'' (db world1) = Some video0"
  by (simp add: reportable_video_def published_like_def video0_def config0_def)

text \<open>The run of a first report of this kind, step by step.\<close>

lemma first_grave_report_runs:
  assumes f: "faults w = []" and g: "cf_auto_quarantine_enabled cf" "is_immediate_auto_quarantine (sri_reason_codes inp)"
    and v: "reportable_video cf (sri_video_id inp) (db w) = Some v" "v_moderation_state v = ''VISIBLE''"
      "v_deleted_at v = None" "v_id v = sri_video_id inp"
      "find (\<lambda>v. v_id v = sri_video_id inp) (db_videos (db w)) = Some v"
    and n: "find_open_report (sri_video_id inp) (sri_reporter_user_id inp) (db w) = None"
    and r: "r = new_report inp (uuid_src w (drawn w)) (clock w)"
    and i: "insert_abuse_report r (db w) = Inr d" "d = (db w)\<lparr>db_abuse_reports := db_abuse_reports (db w) @ [r]\<rparr>"
  shows "\<exists>out w'. submit_or_update_report cf inp w = (Inr out, w')"
proof -
  let ?i = "sri_video_id inp" and ?now = "clock w"
  let ?w1 = "w\<lparr>drawn := Suc (drawn w), db := d\<rparr>"
  let ?f = "moderate_row ''QUARANTINED'' (Some ''AUTO_QUARANTINE'') ''system:auto_quarantine'' (Some (ar_id r)) ?now"
  let ?w2 = "?w1\<lparr>db := d\<lparr>db_videos := update_where (\<lambda>v. v_id v = ?i) ?f (db_videos (db w))\<rparr>\<rparr>"
  let ?rule = "''immediate_minor_sexual_exploitation''"
  have store: "store_report inp None ?now w = (Inr r, ?w1)"
    using f i by (simp add: store_report_def bindE_def new_v4_def callE_def bindErr_def Let_def returnOk_def flip: r)
  have vids: "db_videos d = db_videos (db w)" "db_abuse_reports d = db_abuse_reports (db w) @ [r]"
    by (simp_all add: i(2))
  have sm: "store_moderation ?i ?f ?w1 = (Inr (?f v), ?w2)"
    using f v by (simp add: store_moderation_def source_report_ok_def vids moderate_row_def)
  have act: "apply_video_moderation_action_txn ?i Quarantine (Some ''AUTO_QUARANTINE'')
      ''system:auto_quarantine'' (Some (ar_id r)) ?w1 = (Inr \<lparr> mo_video = ?f v, mo_changed = True \<rparr>, ?w2)"
    using f v sm by (simp add: apply_video_moderation_action_txn_def callE_def bindErr_def find_video_def
        vids okOrE_def guardE_def bindE_def getsE_def Let_def returnOk_def)
  obtain r' w3 where upd: "update_report_row (ar_id r) (quarantined_report ?rule ?now) ?w2 = (Inr r', w3)"
    and f3: "faults w3 = []"
  proof -
    have "find (\<lambda>q. ar_id q = ar_id r) (db_abuse_reports (db w) @ [r]) \<noteq> None"
      by (auto simp: find_None_iff)
    then show ?thesis
      using f that by (auto simp: update_report_row_def update_abuse_report_def check_def vids)
  qed
  have rule: "auto_rule cf inp w0 = (Inr (Some ?rule), w0)" for w0
    using g by (simp add: auto_rule_def returnOk_def)
  have "submit_report_txn cf inp ?now w = (Inr (\<lparr> sro_report = r', sro_created = True,
      sro_auto_quarantined = True, sro_auto_rule = Some ?rule \<rparr>, True), w3)"
    using f v(1,2) n upd by (simp add: submit_report_txn_def callE_def bindErr_def bindE_def okOrE_def
        guardE_def store rule act returnOk_def)
  then show ?thesis
    using f f3 invalidate_public_run [OF f3]
    by (auto simp: submit_or_update_report_def bindE_def getsE_def transaction_def returnOk_def)
qed

lemma sample_report_accepted: "\<exists>out w'. submit_or_update_report config0 sample_report world1 = (Inr out, w')"
proof (rule first_grave_report_runs)
  show "reportable_video config0 (sri_video_id sample_report) (db world1) = Some video0"
    using sample_reportable by (simp add: sample_report_fields)
  show "v_moderation_state video0 = ''VISIBLE''" "v_deleted_at video0 = None"
    "v_id video0 = sri_video_id sample_report"
    "find (\<lambda>v. v_id v = sri_video_id sample_report) (db_videos (db world1)) = Some video0"
    by (simp_all add: video0_def sample_report_fields)
  show "find_open_report (sri_video_id sample_report) (sri_reporter_user_id sample_report) (db world1) = None"
    by (simp add: find_open_report_def one_by_desc_def order_by_desc_def empty_db_def)
  show "insert_abuse_report (new_report sample_report (uuid_src world1 (drawn world1)) (clock world1)) (db world1)
      = Inr ((db world1)\<lparr>db_abuse_reports := db_abuse_reports (db world1)
          @ [new_report sample_report (uuid_src world1 (drawn world1)) (clock world1)]\<rparr>)"
    by (simp add: insert_abuse_report_def check_def empty_db_def video_exists_def user_exists_def
        new_report_def sample_report_fields video0_def user0_def)
qed (simp_all add: sample_report_grave)


end
