(* ===== verification/Uploads.thy ===== *)
theory Uploads
  imports Session SecurityEvents Moderation Calls
begin

text \<open>
  Uploads and reports (\<^verbatim>\<open>api/src/videos/handlers.rs\<close>): the draft row and the presigned address
  of a new upload, its confirmation, which inspects the object and hands it to the worker, and
  the handler through which a user reports a video.
\<close>

section \<open>Starting an upload\<close>

record init_upload_request =
  iur_filename :: string
  iur_size_bytes :: int
  iur_is_nsfw :: bool

record init_upload_response =
  ius_video_id :: uuid
  ius_upload_url :: string

definition enforce_read_only_upload_restriction :: "config \<Rightarrow> 'a api \<Rightarrow> 'a api" where
  "enforce_read_only_upload_restriction cf k =
     guardE (\<not> cf_read_only_mode_enabled cf) (api_error_new 503 ''read_only_mode_enabled'') k"

text \<open>
  \<^verbatim>\<open>Path::new(s).extension()\<close>: the last component of the path, without empty and \<^verbatim>\<open>.\<close> components,
  and what follows its last dot, unless the dot is the first character.
\<close>

definition path_file_name :: "string \<Rightarrow> string option" where
  "path_file_name s =
     (let parts = filter (\<lambda>p. p \<noteq> [] \<and> p \<noteq> ''.'') (split_on CHR ''/'' s) in
      if parts = [] \<or> last parts = ''..'' then None else Some (last parts))"

definition file_extension :: "string \<Rightarrow> string option" where
  "file_extension s =
     (case path_file_name s of
        None \<Rightarrow> None
      | Some name \<Rightarrow>
          (let after_dot = rev (takeWhile (\<lambda>c. c \<noteq> CHR ''.'') (rev name)) in
           if length after_dot \<ge> length name then None
           else if length after_dot + 1 = length name then None
           else Some after_dot))"

definition draft_key :: "uuid \<Rightarrow> uuid \<Rightarrow> string \<Rightarrow> string" where
  "draft_key user_id i filename =
     user_id @ ''/'' @ i @ ''.'' @ (case file_extension filename of None \<Rightarrow> ''bin'' | Some e \<Rightarrow> e)"

definition draft_video ::
  "config \<Rightarrow> uuid \<Rightarrow> bool \<Rightarrow> init_upload_request \<Rightarrow> uuid \<Rightarrow> time \<Rightarrow> video" where
  "draft_video cf user_id anonymous p i now =
     \<lparr> v_id = i, v_user_id = user_id, v_title = None, v_description = None,
       v_s3_bucket = cf_minio_bucket_raw cf, v_s3_key = draft_key user_id i (iur_filename p),
       v_status = ''DRAFT'', v_size_bytes = iur_size_bytes p, v_duration_seconds = None,
       v_like_count = 0, v_is_anonymous = anonymous, v_is_nsfw = Some (iur_is_nsfw p),
       v_moderation_state = ''VISIBLE'', v_moderation_reason_code = None,
       v_moderation_updated_at = None, v_moderation_updated_by = None,
       v_moderation_source_report_id = None, v_processing_error_code = None,
       v_processing_error_message = None, v_failed_at = None, v_deleted_at = None,
       v_created_at = now, v_updated_at = now \<rparr>"

text \<open>
  The bytes of the last hour (zero when the limiter cannot be read), read as \<^verbatim>\<open>i64\<close>; the sum
  with the declared size wraps like the release build's addition.
\<close>

definition current_usage :: "bool \<Rightarrow> uuid \<Rightarrow> (64 word) api" where
  "current_usage bypass user_id =
     catchE (get_count bypass (upload_bytes_key user_id)) (\<lambda>_. returnOk 0) returnOk"

definition usage_after :: "64 word \<Rightarrow> int \<Rightarrow> int" where
  "usage_after usage nbytes = sint (usage + word_of_int nbytes)"

text \<open>\<^verbatim>\<open>i64\<close> division by two rounds towards zero.\<close>

definition anonymous_limit :: "config \<Rightarrow> int" where
  "anonymous_limit cf = (let l = cf_limit_upload_bytes_hourly cf in if l < 0 then - ((- l) div 2) else l div 2)"

definition check_upload :: "config \<Rightarrow> bool \<Rightarrow> uuid \<Rightarrow> int \<Rightarrow> string \<Rightarrow> init_upload_request \<Rightarrow> 'a api \<Rightarrow> 'a api" where
  "check_upload cf bypass user_id limit message p k =
     enforce_read_only_upload_restriction cf
    (guardE (iur_size_bytes p \<le> cf_max_file_size_bytes cf)
       (bad_request (''File too large. Max size: '' @ show_int (cf_max_file_size_bytes cf) @ '' bytes''))
    (bindE (current_usage bypass user_id) (\<lambda>usage.
     guardE (usage_after usage (iur_size_bytes p) \<le> limit) (too_many_requests message) k)))"

definition create_draft :: "app \<Rightarrow> uuid \<Rightarrow> bool \<Rightarrow> init_upload_request \<Rightarrow> init_upload_response api" where
  "create_draft ap user_id anonymous p =
     (let cf = ap_config ap in
      bindE new_v4 (\<lambda>i.
      bindE (getsE clock) (\<lambda>now.
      callE (db_write (insert_video (draft_video cf user_id anonymous p i now))) (\<lambda>_.
      okOrE (internal_error (''Failed to generate upload URL: '' @ lib_failure_text (ap_libs ap) StorageError))
        (lib_presigned_put (ap_libs ap) (cf_minio_bucket_raw cf) (draft_key user_id i (iur_filename p))
           (cf_presigned_url_expiry_secs cf) now) (\<lambda>url.
      bindE (invalidate_user_video_cache user_id) (\<lambda>_.
        returnOk \<lparr> ius_video_id = i, ius_upload_url = url \<rparr>))))))"

definition init_upload :: "app \<Rightarrow> bool \<Rightarrow> uuid \<Rightarrow> init_upload_request \<Rightarrow> init_upload_response api" where
  "init_upload ap bypass user_id p =
     check_upload (ap_config ap) bypass user_id (cf_limit_upload_bytes_hourly (ap_config ap))
       ''Upload rate limit exceeded. Please try again later.'' p
       (create_draft ap user_id False p)"

definition init_anonymous_upload :: "app \<Rightarrow> bool \<Rightarrow> uuid \<Rightarrow> init_upload_request \<Rightarrow> init_upload_response api" where
  "init_anonymous_upload ap bypass user_id p =
     check_upload (ap_config ap) bypass user_id (anonymous_limit (ap_config ap))
       ''Anonymous upload rate limit exceeded. Please try again later.'' p
       (create_draft ap user_id True p)"

section \<open>Confirming an upload\<close>

definition looks_like_supported_video_container :: "string \<Rightarrow> bool" where
  "looks_like_supported_video_container s \<longleftrightarrow>
     length s \<ge> 8 \<and> take 4 (drop 4 s) = ''ftyp''
     \<or> length s \<ge> 4 \<and> map byte (take 4 s) = [26, 69, 223, 163]
     \<or> length s \<ge> 12 \<and> take 4 s = ''RIFF'' \<and> take 4 (drop 8 s) = ''AVI ''
     \<or> length s \<ge> 4 \<and> take 4 s = ''OggS''"

definition abs_diff :: "nat \<Rightarrow> nat \<Rightarrow> nat" where
  "abs_diff m n = (if m < n then n - m else m - n)"

definition max_file_size_u64 :: "config \<Rightarrow> nat" where
  "max_file_size_u64 cf = unat (word_of_int (cf_max_file_size_bytes cf) :: 64 word)"

text \<open>The row locked with \<^verbatim>\<open>SELECT \<dots> FOR UPDATE\<close>.\<close>

definition owned_video :: "uuid \<Rightarrow> uuid \<Rightarrow> video option io" where
  "owned_video user_id i = db_read (\<lambda>d. find (\<lambda>v. v_id v = i \<and> v_user_id v = user_id) (db_videos d))"

definition inspect_upload :: "config \<Rightarrow> video \<Rightarrow> nat api" where
  "inspect_upload cf v =
     bindErr (\<lambda>_. bad_request ''File not uploaded or not accessible'')
       (get_file_size (cf_minio_bucket_raw cf) (v_s3_key v)) (\<lambda>actual.
     let declared = nat (max (v_size_bytes v) 0) in
     if actual < cf_min_video_size_bytes cf
     then rollback_with (bad_request (''File too small. Minimum: '' @ show_nat (cf_min_video_size_bytes cf)
            @ '' bytes, Actual: '' @ show_nat actual @ '' bytes''))
     else if actual > max_file_size_u64 cf
     then rollback_with (bad_request ''File exceeds global size limit'')
     else if abs_diff actual declared > cf_upload_size_tolerance_bytes cf
     then rollback_with (bad_request (''File size mismatch. Declared: '' @ show_nat declared
            @ '' bytes, Actual: '' @ show_nat actual @ '' bytes, Allowed tolerance: ''
            @ show_nat (cf_upload_size_tolerance_bytes cf) @ '' bytes''))
     else
       bindErr (\<lambda>_. bad_request ''Uploaded file cannot be inspected'')
         (read_prefix (cf_minio_bucket_raw cf) (v_s3_key v) 4096) (\<lambda>first_bytes.
       if looks_like_supported_video_container first_bytes then returnOk actual
       else rollback_with (bad_request ''Unsupported or invalid video file signature. Supported containers: MP4/MOV/M4V/3GP, WebM/MKV, AVI, OGG.'')))"

definition processing_row :: "nat \<Rightarrow> time \<Rightarrow> video \<Rightarrow> video" where
  "processing_row actual now v =
     v\<lparr> v_status := ''PROCESSING'', v_processing_error_code := None,
        v_processing_error_message := None, v_failed_at := None,
        v_size_bytes := (if int actual \<noteq> v_size_bytes v then int actual else v_size_bytes v),
        v_updated_at := now \<rparr>"

text \<open>The transaction answers nothing for a video that is no draft, and the updated row otherwise.\<close>

definition hand_over :: "app \<Rightarrow> bool \<Rightarrow> uuid \<Rightarrow> uuid \<Rightarrow> video \<Rightarrow> (string \<times> video) option api" where
  "hand_over ap bypass user_id i v =
     (let cf = ap_config ap in
      bindE (inspect_upload cf v) (\<lambda>actual.
      ignoreE (increment_by bypass (upload_bytes_key user_id) (word_of_nat actual) (cf_rate_limit_window_secs cf))
     (bindE (getsE clock) (\<lambda>now.
      callE (update_video_row (v_id v) (processing_row actual now)) (\<lambda>updated.
      bindErr (\<lambda>e. internal_error (''Failed to queue job: '' @ lib_failure_text (ap_libs ap) e))
        (push_video_job \<lparr> vpj_video_id = i, vpj_user_id = user_id, vpj_raw_bucket = v_s3_bucket v,
                           vpj_raw_key = v_s3_key v \<rparr>) (\<lambda>_.
        returnOk (Some (v_status v, updated))))))))"

definition confirm_txn :: "app \<Rightarrow> bool \<Rightarrow> uuid \<Rightarrow> uuid \<Rightarrow> (string \<times> video) option api" where
  "confirm_txn ap bypass user_id i =
     callE (owned_video user_id i) (\<lambda>row.
     okOrE (not_found ''Video not found or not owned by you'') row (\<lambda>v.
       if v_status v \<noteq> ''DRAFT'' then returnOk None else hand_over ap bypass user_id i v))"

definition status_signal :: "string \<Rightarrow> uuid \<Rightarrow> time \<Rightarrow> string option \<Rightarrow> user_video_dto \<Rightarrow> json" where
  "status_signal event_type event_id now previous_status dto =
     JObj ([(''type'', JStr event_type), (''event_id'', JStr event_id), (''event_at'', JNum now),
            (''version'', JNum 1)]
          @ (case previous_status of None \<Rightarrow> [] | Some s \<Rightarrow> [(''previous_status'', JStr s)])
          @ [(''video'', user_video_json dto)])"

definition publish_video_status_signal ::
  "config \<Rightarrow> uuid \<Rightarrow> string \<Rightarrow> string option \<Rightarrow> video \<Rightarrow> unit io" where
  "publish_video_status_signal cf user_id event_type previous_status v =
     bindE (is_liked user_id (v_id v)) (\<lambda>liked.
     bindE new_v4 (\<lambda>event_id.
     bindE (getsE clock) (\<lambda>now.
       publish_video_status_event user_id
         (status_signal event_type event_id now previous_status (video_model_to_user_dto cf v liked)))))"

definition confirm_upload :: "app \<Rightarrow> bool \<Rightarrow> uuid \<Rightarrow> uuid \<Rightarrow> nat api" where
  "confirm_upload ap bypass user_id i =
     enforce_read_only_upload_restriction (ap_config ap)
    (bindE (transaction from_failure (confirm_txn ap bypass user_id i)) (\<lambda>confirmed.
       case confirmed of
         None \<Rightarrow> returnOk 202
       | Some (previous, v) \<Rightarrow>
           bindE (invalidate_user_video_cache user_id) (\<lambda>_.
           ignoreE (publish_video_status_signal (ap_config ap) user_id ''video.status.processing'' (Some previous) v)
             (returnOk 202))))"

section \<open>Reporting a video\<close>

record report_video_request =
  rvr_reason_codes :: "string list"
  rvr_details :: "string option"
  rvr_timestamp_seconds :: "int option"

record video_report_dto =
  vrd_id :: uuid
  vrd_video_id :: uuid
  vrd_reporter_user_id :: uuid
  vrd_reason_codes :: "string list"
  vrd_details :: "string option"
  vrd_timestamp_seconds :: "int option"
  vrd_severity_score :: int
  vrd_status :: string
  vrd_auto_quarantined :: bool
  vrd_auto_rule :: "string option"
  vrd_created_at :: time
  vrd_updated_at :: time
  vrd_closed_at :: "time option"
  vrd_resolution_code :: "string option"
  vrd_resolution_note :: "string option"

definition abuse_report_model_to_dto :: "abuse_report \<Rightarrow> video_report_dto" where
  "abuse_report_model_to_dto r =
     \<lparr> vrd_id = ar_id r, vrd_video_id = ar_video_id r, vrd_reporter_user_id = ar_reporter_user_id r,
       vrd_reason_codes = ar_reason_codes r, vrd_details = ar_details r,
       vrd_timestamp_seconds = ar_timestamp_seconds r, vrd_severity_score = ar_severity_score r,
       vrd_status = ar_status r, vrd_auto_quarantined = ar_auto_quarantined r,
       vrd_auto_rule = ar_auto_rule r, vrd_created_at = ar_created_at r,
       vrd_updated_at = ar_updated_at r, vrd_closed_at = ar_closed_at r,
       vrd_resolution_code = ar_resolution_code r, vrd_resolution_note = ar_resolution_note r \<rparr>"

text \<open>A limit that fails closed.\<close>

definition limited_strict ::
  "(64 word + 64 word) io \<Rightarrow> api_error \<Rightarrow> api_error \<Rightarrow> 'a api \<Rightarrow> 'a api" where
  "limited_strict verdict exceeded unavailable k =
     catchE verdict (\<lambda>_. throwErr unavailable)
       (\<lambda>v. case v of Inl _ \<Rightarrow> throwErr exceeded | Inr _ \<Rightarrow> k)"

definition user_agent_of :: "request \<Rightarrow> string option" where
  "user_agent_of rq =
     (case map_of (rq_headers rq) ''user-agent'' of
        Some (Some s) \<Rightarrow> (if trim s = [] then None else Some (trim s))
      | _ \<Rightarrow> None)"

definition json_strings :: "string list \<Rightarrow> json" where
  "json_strings ss = JArr (map JStr ss)"

definition report_limits :: "config \<Rightarrow> bool \<Rightarrow> uuid \<Rightarrow> string \<Rightarrow> 'a api \<Rightarrow> 'a api" where
  "report_limits cf bypass user_id ip k =
     (let unavailable = api_error_new 503 ''Abuse report rate limiter unavailable'' in
      limited_strict (check_and_increment_strict bypass (report_create_user_key user_id)
                        (cf_report_create_rpm_per_user cf) 60)
        (too_many_requests ''Abuse report rate limit exceeded for user'') unavailable
     (limited_strict (check_and_increment_strict bypass (report_create_ip_key ip)
                        (cf_report_create_rpm_per_ip cf) 60)
        (too_many_requests ''Abuse report rate limit exceeded for IP'') unavailable k))"

definition report_input_ok :: "config \<Rightarrow> report_video_request \<Rightarrow> 'a api \<Rightarrow> 'a api" where
  "report_input_ok cf p k =
     guardE (case rvr_details p of None \<Rightarrow> True
             | Some details \<Rightarrow> length (chars details) \<le> cf_report_details_max_chars cf)
       (bad_request (''details exceeds max length '' @ show_nat (cf_report_details_max_chars cf)))
    (guardE (case rvr_timestamp_seconds p of None \<Rightarrow> True | Some s \<Rightarrow> 0 \<le> s)
       (bad_request ''timestamp_seconds must be >= 0'') k)"

definition record_report_events ::
  "uuid \<Rightarrow> uuid \<Rightarrow> string list \<Rightarrow> string \<Rightarrow> string option \<Rightarrow> submit_report_outcome \<Rightarrow> unit api" where
  "record_report_events user_id i codes ip agent outcome =
     ignoreE (record_event
         (if sro_created outcome then ''abuse.report_submitted'' else ''abuse.report_updated'')
         (Some user_id) ip None agent
         (JObj [(''video_id'', JStr i), (''reason_codes'', json_strings codes),
                (''auto_quarantined'', JBool (sro_auto_quarantined outcome)),
                (''auto_rule'', json_opt_str (sro_auto_rule outcome))]))
       (if sro_auto_quarantined outcome
        then ignoreE (record_event ''abuse.auto_quarantined'' (Some user_id) ip None agent
               (JObj [(''video_id'', JStr i), (''report_id'', JStr (ar_id (sro_report outcome))),
                      (''auto_rule'', json_opt_str (sro_auto_rule outcome))])) (returnOk ())
        else returnOk ())"

definition report_video ::
  "config \<Rightarrow> bool \<Rightarrow> uuid \<Rightarrow> ip_addr \<Rightarrow> request \<Rightarrow> uuid \<Rightarrow> report_video_request
     \<Rightarrow> (nat \<times> video_report_dto) api" where
  "report_video cf bypass user_id ip rq i p =
     report_limits cf bypass user_id (show_ip ip)
    (case normalize_reason_codes cf (rvr_reason_codes p) of
       Inl message \<Rightarrow> throwErr (bad_request message)
     | Inr codes \<Rightarrow>
         report_input_ok cf p
        (bindE (submit_or_update_report cf
            \<lparr> sri_video_id = i, sri_reporter_user_id = user_id, sri_reason_codes = codes,
              sri_details = rvr_details p, sri_timestamp_seconds = rvr_timestamp_seconds p,
              sri_client_ip = show_ip ip, sri_user_agent = user_agent_of rq \<rparr>) (\<lambda>outcome.
         bindE (record_report_events user_id i codes (show_ip ip) (user_agent_of rq) outcome) (\<lambda>_.
           returnOk (if sro_created outcome then 201 else 200,
                     abuse_report_model_to_dto (sro_report outcome))))))"

section \<open>The key of an upload\<close>

lemma split_on_piece: "p \<in> set (split_on c s) \<Longrightarrow> c \<notin> set p"
  by (induction c s arbitrary: p rule: split_on.induct) (auto split: list.splits if_splits)

lemma file_extension_no_slash:
  assumes "file_extension s = Some e"
  shows "CHR ''/'' \<notin> set e \<and> CHR ''.'' \<notin> set e"
proof -
  obtain name where n: "path_file_name s = Some name"
    and e: "e = rev (takeWhile (\<lambda>c. c \<noteq> CHR ''.'') (rev name))"
    using assms by (auto simp: file_extension_def Let_def split: option.splits if_splits)
  have "name \<in> set (filter (\<lambda>p. p \<noteq> [] \<and> p \<noteq> ''.'') (split_on CHR ''/'' s))"
    using n last_in_set unfolding path_file_name_def Let_def
    by (smt (verit) option.distinct(1) option.inject)
  then have "CHR ''/'' \<notin> set name" by (auto dest: split_on_piece)
  then show ?thesis unfolding e by (auto dest: set_takeWhileD)
qed

text \<open>Whatever file name a client sends, the object of its upload lies directly in the
  folder of the uploader.\<close>

theorem upload_key_stays_in_folder:
  assumes "CHR ''/'' \<notin> set user_id" and "CHR ''/'' \<notin> set i"
  shows "\<exists>e. split_on CHR ''/'' (draft_key user_id i filename) = [user_id, i @ ''.'' @ e]
     \<and> CHR ''/'' \<notin> set e \<and> CHR ''.'' \<notin> set e"
proof -
  define e where "e = (case file_extension filename of None \<Rightarrow> ''bin'' | Some e \<Rightarrow> e)"
  have e: "CHR ''/'' \<notin> set e" "CHR ''.'' \<notin> set e"
    using file_extension_no_slash by (auto simp: e_def split: option.splits)
  have "split_on CHR ''/'' (user_id @ CHR ''/'' # (i @ ''.'' @ e)) = [user_id, i @ ''.'' @ e]"
    using assms e by (simp add: split_on_append split_on_no_sep)
  then show ?thesis using e by (auto simp: draft_key_def e_def)
qed

lemma upload_key_stays_in_folder_witness:
  "split_on CHR ''/'' (draft_key ''u1'' ''v1'' ''../../etc/passwd.mp4/'') = [''u1'', ''v1.mp4'']"
proof -
  have "file_extension ''../../etc/passwd.mp4/'' = Some ''mp4''" by code_simp
  then show ?thesis using upload_key_stays_in_folder [of "''u1''" "''v1''" "''../../etc/passwd.mp4/''"]
    by (simp add: draft_key_def)
qed

section \<open>Confirmation\<close>

lemma owned_video_InrE:
  assumes "owned_video user_id i w = (Inr row, w')"
  obtains fs where "row = find (\<lambda>v. v_id v = i \<and> v_user_id v = user_id) (db_videos (db w))" "w' = w\<lparr>faults := fs\<rparr>"
  using assms unfolding owned_video_def by (elim db_read_InrE)

lemma inspect_upload_run:
  assumes "inspect_upload cf v w = (Inr n, w')"
  shows "\<exists>ob fs. objects w (cf_minio_bucket_raw cf, v_s3_key v) = Some ob \<and> n = so_size ob
     \<and> cf_min_video_size_bytes cf \<le> n \<and> n \<le> max_file_size_u64 cf
     \<and> abs_diff n (nat (max (v_size_bytes v) 0)) \<le> cf_upload_size_tolerance_bytes cf
     \<and> looks_like_supported_video_container (take 4096 (so_head ob))
     \<and> w' = w\<lparr>faults := fs\<rparr>"
  using assms unfolding inspect_upload_def Let_def
  by (elim run_InrE get_file_size_InrE)
    (auto simp: rollback_with_no_Inr returnOk_def not_less split: if_splits
      elim!: run_InrE read_prefix_InrE)

definition uploaded_object_ok :: "config \<Rightarrow> video \<Rightarrow> stored_object \<Rightarrow> bool" where
  "uploaded_object_ok cf v ob \<longleftrightarrow>
     cf_min_video_size_bytes cf \<le> so_size ob \<and> so_size ob \<le> max_file_size_u64 cf
     \<and> abs_diff (so_size ob) (nat (max (v_size_bytes v) 0)) \<le> cf_upload_size_tolerance_bytes cf
     \<and> looks_like_supported_video_container (take 4096 (so_head ob))"

lemma keeps_objects_increment:
  "keeps objects (increment_by b k n t)" "keeps video_queue (increment_by b k n t)"
  "keeps db (increment_by b k n t)"
  unfolding increment_by_def kv_incr_u64_def kv_defs
  by (intro keeps_rules keeps_external; auto split: option.split)+

lemma keeps_publish_signal:
  "keeps db (publish_video_status_signal cf u t p v)"
  "keeps video_queue (publish_video_status_signal cf u t p v)"
  unfolding publish_video_status_signal_def is_liked_def
  by (intro keeps_rules)+

lemma hand_over_run:
  assumes "hand_over ap bypass user_id i v w = (Inr r, w')"
  shows "\<exists>ob now u. objects w (cf_minio_bucket_raw (ap_config ap), v_s3_key v) = Some ob
     \<and> uploaded_object_ok (ap_config ap) v ob \<and> r = Some (v_status v, u)
     \<and> db_videos (db w') = update_where (\<lambda>x. v_id x = v_id v) (processing_row (so_size ob) now) (db_videos (db w))
     \<and> video_queue w' = \<lparr> vpj_video_id = i, vpj_user_id = user_id, vpj_raw_bucket = v_s3_bucket v,
                          vpj_raw_key = v_s3_key v \<rparr> # video_queue w"
proof -
  let ?j = "\<lparr> vpj_video_id = i, vpj_user_id = user_id, vpj_raw_bucket = v_s3_bucket v, vpj_raw_key = v_s3_key v \<rparr>"
  let ?inc = "\<lambda>n. increment_by bypass (upload_bytes_key user_id) (word_of_nat n) (cf_rate_limit_window_secs (ap_config ap))"
  obtain n w2 where s2: "inspect_upload (ap_config ap) v w = (Inr n, w2)"
    and rest: "ignoreE (?inc n) (bindE (getsE clock) (\<lambda>now.
      callE (update_video_row (v_id v) (processing_row n now)) (\<lambda>updated.
      bindErr (\<lambda>e. internal_error (''Failed to queue job: '' @ lib_failure_text (ap_libs ap) e))
        (push_video_job ?j) (\<lambda>_. returnOk (Some (v_status v, updated)))))) w2 = (Inr r, w')"
    using assms unfolding hand_over_def Let_def by (elim run_InrE)
  obtain ob fs where ob: "objects w (cf_minio_bucket_raw (ap_config ap), v_s3_key v) = Some ob" "n = so_size ob"
    "uploaded_object_ok (ap_config ap) v ob" "w2 = w\<lparr>faults := fs\<rparr>"
    using inspect_upload_run [OF s2] unfolding uploaded_object_ok_def by blast
  define w3 where "w3 = snd (?inc n w2)"
  have w3: "db w3 = db w" "video_queue w3 = video_queue w"
    using keepsD [OF keeps_objects_increment(3)] keepsD [OF keeps_objects_increment(2)] ob(4)
    by (simp_all add: w3_def)
  have rest': "bindE (getsE clock) (\<lambda>now.
      callE (update_video_row (v_id v) (processing_row n now)) (\<lambda>updated.
      bindErr (\<lambda>e. internal_error (''Failed to queue job: '' @ lib_failure_text (ap_libs ap) e))
        (push_video_job ?j) (\<lambda>_. returnOk (Some (v_status v, updated))))) w3 = (Inr r, w')"
    using rest by (simp add: ignoreE_def w3_def)
  then obtain u w4 j where
    s4: "update_video_row (v_id v) (processing_row n (clock w3)) w3 = (Inr u, w4)" and
    s5: "push_video_job ?j w4 = (Inr j, w')" and r: "r = Some (v_status v, u)"
    unfolding callE_def by (elim run_InrE) (auto simp: getsE_def returnOk_def)
  from s4 obtain fs4 where w4: "w4 = w3\<lparr>faults := fs4, db := (db w3)\<lparr>db_videos :=
      update_where (\<lambda>x. v_id x = v_id v) (processing_row n (clock w3)) (db_videos (db w3))\<rparr>\<rparr>"
    by (elim update_video_row_InrE)
  from s5 obtain fs5 where "w' = w4\<lparr>faults := fs5, video_queue := ?j # video_queue w4\<rparr>"
    by (elim push_video_job_InrE)
  then have "db_videos (db w') = update_where (\<lambda>x. v_id x = v_id v) (processing_row n (clock w3)) (db_videos (db w))"
    "video_queue w' = ?j # video_queue w"
    using w3 w4 by simp_all
  then show ?thesis using ob r by blast
qed

lemma confirm_txn_run:
  assumes "confirm_txn ap bypass user_id i (w\<lparr>faults := fs0\<rparr>) = (Inr r, w')"
  shows "\<exists>v. find (\<lambda>v. v_id v = i \<and> v_user_id v = user_id) (db_videos (db w)) = Some v
     \<and> (if v_status v = ''DRAFT''
        then \<exists>fs. hand_over ap bypass user_id i v (w\<lparr>faults := fs\<rparr>) = (Inr r, w')
        else r = None \<and> (\<exists>fs. w' = w\<lparr>faults := fs\<rparr>))"
  using assms unfolding confirm_txn_def callE_def
  by (elim run_InrE owned_video_InrE) (simp add: returnOk_def split: if_splits; metis)

definition after_confirm :: "config \<Rightarrow> uuid \<Rightarrow> (string \<times> video) option \<Rightarrow> nat api" where
  "after_confirm cf user_id confirmed =
     (case confirmed of
        None \<Rightarrow> returnOk 202
      | Some (previous, v) \<Rightarrow>
          bindE (invalidate_user_video_cache user_id) (\<lambda>_.
          ignoreE (publish_video_status_signal cf user_id ''video.status.processing'' (Some previous) v)
            (returnOk 202)))"

lemma keeps_after_confirm: "keeps db (after_confirm cf u c)" "keeps video_queue (after_confirm cf u c)"
  unfolding after_confirm_def by (intro keeps_rules keeps_publish_signal)+

lemma confirm_upload_run:
  assumes "confirm_upload ap bypass user_id i w = (Inr st, w')"
  shows "\<exists>fs r w1 fs1. confirm_txn ap bypass user_id i (w\<lparr>faults := fs\<rparr>) = (Inr r, w1)
     \<and> after_confirm (ap_config ap) user_id r (w1\<lparr>faults := fs1\<rparr>) = (Inr st, w')"
proof -
  obtain r w1 where t: "transaction from_failure (confirm_txn ap bypass user_id i) w = (Inr r, w1)"
    and "after_confirm (ap_config ap) user_id r w1 = (Inr st, w')"
    using assms unfolding confirm_upload_def enforce_read_only_upload_restriction_def after_confirm_def
    by (elim run_InrE)
  with transaction_InrE [OF t] show ?thesis by metis
qed

text \<open>C11: a confirmation that hands a job to the worker has found the object in the raw bucket,
  within the size limits, close to the declared size and with the signature of a video
  container; the row is in processing with the true size.\<close>

theorem confirmed_upload_was_inspected:
  assumes "confirm_upload ap bypass user_id i w = (Inr st, w')" and "video_queue w' \<noteq> video_queue w"
  shows "\<exists>v ob now. find (\<lambda>v. v_id v = i \<and> v_user_id v = user_id) (db_videos (db w)) = Some v
     \<and> v_status v = ''DRAFT''
     \<and> objects w (cf_minio_bucket_raw (ap_config ap), v_s3_key v) = Some ob
     \<and> uploaded_object_ok (ap_config ap) v ob
     \<and> db_videos (db w') = update_where (\<lambda>v. v_id v = i) (processing_row (so_size ob) now) (db_videos (db w))
     \<and> video_queue w' = \<lparr> vpj_video_id = i, vpj_user_id = user_id, vpj_raw_bucket = v_s3_bucket v,
                          vpj_raw_key = v_s3_key v \<rparr> # video_queue w"
proof -
  obtain fs r w1 fs1 where t: "confirm_txn ap bypass user_id i (w\<lparr>faults := fs\<rparr>) = (Inr r, w1)"
    and a: "after_confirm (ap_config ap) user_id r (w1\<lparr>faults := fs1\<rparr>) = (Inr st, w')"
    using confirm_upload_run [OF assms(1)] by blast
  have w': "db w' = db w1" "video_queue w' = video_queue w1"
    using keepsE [OF keeps_after_confirm(1) a] keepsE [OF keeps_after_confirm(2) a] by simp_all
  obtain v where v: "find (\<lambda>v. v_id v = i \<and> v_user_id v = user_id) (db_videos (db w)) = Some v"
    and c: "if v_status v = ''DRAFT'' then \<exists>fs'. hand_over ap bypass user_id i v (w\<lparr>faults := fs'\<rparr>) = (Inr r, w1)
        else r = None \<and> (\<exists>fs'. w1 = w\<lparr>faults := fs'\<rparr>)"
    using confirm_txn_run [OF t] by blast
  have vi: "v_id v = i" using find_Some_set [OF v] by simp
  have d: "v_status v = ''DRAFT''" using c assms(2) w'(2) by (auto split: if_splits)
  then obtain fs' where h: "hand_over ap bypass user_id i v (w\<lparr>faults := fs'\<rparr>) = (Inr r, w1)"
    using c by auto
  show ?thesis using hand_over_run [OF h] v vi d w' by auto
qed

text \<open>Confirming again what was confirmed answers the same and changes nothing: no second job
  is handed over, no bytes are counted and no message is sent.\<close>

theorem confirm_upload_idempotent:
  assumes "confirm_upload ap bypass user_id i w = (Inr st, w1)"
    and "confirm_upload ap bypass' user_id i w1 = (Inr st', w2)"
  shows "st' = 202 \<and> (\<exists>fs. w2 = w1\<lparr>faults := fs\<rparr>)"
proof -
  obtain fs r wa fs1 where t: "confirm_txn ap bypass user_id i (w\<lparr>faults := fs\<rparr>) = (Inr r, wa)"
    and a: "after_confirm (ap_config ap) user_id r (wa\<lparr>faults := fs1\<rparr>) = (Inr st, w1)"
    using confirm_upload_run [OF assms(1)] by blast
  have d: "db w1 = db wa" using keepsE [OF keeps_after_confirm(1) a] by simp
  obtain v where v: "find (\<lambda>v. v_id v = i \<and> v_user_id v = user_id) (db_videos (db w)) = Some v"
    and c: "if v_status v = ''DRAFT'' then \<exists>fs'. hand_over ap bypass user_id i v (w\<lparr>faults := fs'\<rparr>) = (Inr r, wa)
        else r = None \<and> (\<exists>fs'. wa = w\<lparr>faults := fs'\<rparr>)"
    using confirm_txn_run [OF t] by blast
  have vi: "v_id v = i" using find_Some_set [OF v] by simp
  have now: "v_status x \<noteq> ''DRAFT''" if "find (\<lambda>v. v_id v = i \<and> v_user_id v = user_id) (db_videos (db w1)) = Some x" for x
  proof (cases "v_status v = ''DRAFT''")
    case True
    then obtain fs' where h: "hand_over ap bypass user_id i v (w\<lparr>faults := fs'\<rparr>) = (Inr r, wa)" using c by auto
    obtain n t where e: "db_videos (db w1) = update_where (\<lambda>x. v_id x = i) (processing_row n t) (db_videos (db w))"
      using hand_over_run [OF h] vi d by auto
    have x: "x \<in> set (db_videos (db w1))" "v_id x = i" using find_Some_set [OF that] by simp_all
    then obtain y where "x = (if v_id y = i then processing_row n t y else y)"
      unfolding e set_update_where by blast
    then show ?thesis using x(2) by (simp add: processing_row_def split: if_splits)
  next
    case False
    then have "db w1 = db w" using c d by auto
    then show ?thesis using False v that by simp
  qed
  obtain fs2 r2 wb fs3 where t2: "confirm_txn ap bypass' user_id i (w1\<lparr>faults := fs2\<rparr>) = (Inr r2, wb)"
    and a2: "after_confirm (ap_config ap) user_id r2 (wb\<lparr>faults := fs3\<rparr>) = (Inr st', w2)"
    using confirm_upload_run [OF assms(2)] by blast
  have "r2 = None \<and> (\<exists>fs. wb = w1\<lparr>faults := fs\<rparr>)"
    using confirm_txn_run [OF t2] now by metis
  then show ?thesis using a2 by (auto simp: after_confirm_def returnOk_def)
qed

section \<open>A sample upload\<close>

definition draft0 :: video where
  "draft0 = video0\<lparr>v_status := ''DRAFT'', v_s3_bucket := ''raw'', v_s3_key := ''u1/v1.mp4''\<rparr>"

definition mp4_object :: stored_object where
  "mp4_object = \<lparr> so_size = 1000, so_head = ''0000ftypisom'' \<rparr>"

definition upload_world :: world where
  "upload_world = world1\<lparr>db := empty_db\<lparr>db_users := [user0], db_videos := [draft0]\<rparr>,
     objects := (\<lambda>k. if k = (''raw'', ''u1/v1.mp4'') then Some mp4_object else None)\<rparr>"

definition upload_app :: app where
  "upload_app = \<lparr> ap_config = config0, ap_libs = libs0 \<rparr>"

lemma upload_world_simps:
  "faults upload_world = []" "db upload_world = empty_db\<lparr>db_users := [user0], db_videos := [draft0]\<rparr>"
  "objects upload_world (''raw'', ''u1/v1.mp4'') = Some mp4_object" "video_queue upload_world = []"
  "clock upload_world = 1700000000000000000"
  by (simp_all add: upload_world_def)

lemma draft0_simps:
  "v_id draft0 = ''v1''" "v_user_id draft0 = ''u1''" "v_status draft0 = ''DRAFT''"
  "v_s3_bucket draft0 = ''raw''" "v_s3_key draft0 = ''u1/v1.mp4''" "v_size_bytes draft0 = 1000"
  by (simp_all add: draft0_def video0_def)

lemma upload_limits:
  "cf_minio_bucket_raw config0 = ''raw''" "cf_min_video_size_bytes config0 = 100"
  "max_file_size_u64 config0 = 10000000" "cf_upload_size_tolerance_bytes config0 = 1024"
  "cf_read_only_mode_enabled config0 = False"
  by (simp_all add: config0_def max_file_size_u64_def)

lemma sample_inspection: "inspect_upload config0 draft0 upload_world = (Inr 1000, upload_world)"
  by (simp add: inspect_upload_def Let_def bindErr_def get_file_size_def upload_world_simps upload_limits
      draft0_simps mp4_object_def abs_diff_def read_prefix_def returnOk_def
      looks_like_supported_video_container_def)

lemma after_confirm_quiet:
  assumes "faults w = []"
  shows "\<exists>w'. after_confirm cf u r w = (Inr 202, w') \<and> faults w' = []"
proof (cases r)
  case (Some p)
  have q: "preserves (\<lambda>w. faults w = []) (publish_video_status_signal cf u t pr v)" for t pr v
    unfolding publish_video_status_signal_def by (intro quiet_rules no_faults_video_calls)
  have u: "\<exists>w1. (invalidate_user_video_cache u :: unit api) w = (Inr (), w1) \<and> faults w1 = []"
    using drop_keys_run [OF assms, of "user_videos_prefix u"] assms
    by (auto simp: invalidate_user_video_cache_def catchE_def)
  then show ?thesis
    using preservesD [OF q] by (cases p) (auto simp: Some after_confirm_def bindE_def ignoreE_def returnOk_def)
qed (use assms in \<open>simp add: after_confirm_def returnOk_def\<close>)

lemma confirm_upload_after:
  "confirm_upload ap bypass u i =
     enforce_read_only_upload_restriction (ap_config ap)
      (bindE (transaction from_failure (confirm_txn ap bypass u i)) (after_confirm (ap_config ap) u))"
  by (simp add: confirm_upload_def after_confirm_def [abs_def])

lemma sample_confirmation:
  "\<exists>w'. confirm_upload upload_app True ''u1'' ''v1'' upload_world = (Inr 202, w')
     \<and> faults w' = [] \<and> video_queue w' \<noteq> video_queue upload_world
     \<and> db_videos (db w') = [processing_row 1000 (clock upload_world) draft0]"
proof -
  let ?w = "upload_world\<lparr>db := (db upload_world)\<lparr>db_videos := [processing_row 1000 (clock upload_world) draft0]\<rparr>\<rparr>"
  let ?j = "\<lparr> vpj_video_id = ''v1'', vpj_user_id = ''u1'', vpj_raw_bucket = ''raw'', vpj_raw_key = ''u1/v1.mp4'' \<rparr>"
  let ?u = "processing_row 1000 (clock upload_world) draft0"
  have "update_video_row ''v1'' (processing_row 1000 (clock upload_world)) upload_world = (Inr ?u, ?w)"
    by (subst update_video_row_ok [where v = draft0])
      (simp_all add: upload_world_simps draft0_simps update_where_def empty_db_def)
  then have h: "hand_over upload_app True ''u1'' ''v1'' draft0 upload_world
      = (Inr (Some (''DRAFT'', ?u)), ?w\<lparr>video_queue := [?j]\<rparr>)"
    by (simp add: hand_over_def upload_app_def bindE_def sample_inspection ignoreE_def increment_by_def
        returnOk_def getsE_def callE_def bindErr_def draft0_simps push_video_job_def upload_world_simps)
  have t: "confirm_txn upload_app True ''u1'' ''v1'' upload_world
      = (Inr (Some (''DRAFT'', ?u)), ?w\<lparr>video_queue := [?j]\<rparr>)"
    using h by (simp add: confirm_txn_def callE_def bindErr_def owned_video_def upload_world_simps draft0_simps)
  obtain w' where a: "after_confirm config0 ''u1'' (Some (''DRAFT'', ?u)) (?w\<lparr>video_queue := [?j]\<rparr>) = (Inr 202, w')"
    "faults w' = []"
    using after_confirm_quiet [of "?w\<lparr>video_queue := [?j]\<rparr>" config0 "''u1''" "Some (''DRAFT'', ?u)"]
    by (auto simp: upload_world_simps)
  have "confirm_upload upload_app True ''u1'' ''v1'' upload_world = (Inr 202, w')"
    using t a(1) by (simp add: confirm_upload_after enforce_read_only_upload_restriction_def upload_app_def
        upload_limits bindE_def transaction_def upload_world_simps)
  moreover have "db_videos (db w') = [?u]" using keepsE [OF keeps_after_confirm(1) a(1)] by simp
  moreover have "video_queue w' = [?j]" using keepsE [OF keeps_after_confirm(2) a(1)] by simp
  ultimately show ?thesis using a(2) by (auto simp: upload_world_simps)
qed

lemma confirmed_upload_was_inspected_witness:
  "\<exists>w' ob. confirm_upload upload_app True ''u1'' ''v1'' upload_world = (Inr 202, w')
     \<and> objects upload_world (''raw'', ''u1/v1.mp4'') = Some ob \<and> uploaded_object_ok config0 draft0 ob"
proof -
  obtain w' where r: "confirm_upload upload_app True ''u1'' ''v1'' upload_world = (Inr 202, w')"
    and q: "video_queue w' \<noteq> video_queue upload_world" using sample_confirmation by blast
  show ?thesis using confirmed_upload_was_inspected [OF r q] r
    by (auto simp: upload_world_simps draft0_simps upload_app_def upload_limits)
qed

lemma confirm_upload_idempotent_witness:
  "\<exists>w1 w2 fs. confirm_upload upload_app True ''u1'' ''v1'' upload_world = (Inr 202, w1)
     \<and> confirm_upload upload_app True ''u1'' ''v1'' w1 = (Inr 202, w2) \<and> w2 = w1\<lparr>faults := fs\<rparr>"
proof -
  obtain w1 where r: "confirm_upload upload_app True ''u1'' ''v1'' upload_world = (Inr 202, w1)"
    and q: "faults w1 = []" and d: "db_videos (db w1) = [processing_row 1000 (clock upload_world) draft0]"
    using sample_confirmation by blast
  obtain x where "find (\<lambda>v. v_id v = ''v1'' \<and> v_user_id v = ''u1'') (db_videos (db w1)) = Some x" "v_status x \<noteq> ''DRAFT''"
    using d by (simp add: processing_row_def draft0_simps)
  then have "confirm_upload upload_app True ''u1'' ''v1'' w1 = (Inr 202, w1)"
    using q by (simp add: confirm_upload_after enforce_read_only_upload_restriction_def upload_app_def
        upload_limits bindE_def transaction_def confirm_txn_def callE_def bindErr_def owned_video_def
        after_confirm_def returnOk_def)
  then show ?thesis using confirm_upload_idempotent [OF r] r by blast
qed

section \<open>A job without its commit\<close>

text \<open>The eighth call of the sample confirmation, its commit, fails.\<close>

definition commit_fails :: world where
  "commit_fails = upload_world\<lparr>faults := replicate 7 Answered @ [Not_done]\<rparr>"

text \<open>The job is pushed inside the transaction, before its commit: when the commit fails the
  client gets an error and the row stays a draft, but the worker gets the job all the same.\<close>

theorem job_survives_failed_commit:
  "\<exists>e w'. confirm_upload upload_app True ''u1'' ''v1'' commit_fails = (Inl e, w')
     \<and> db w' = db upload_world \<and> length (video_queue w') = 1"
proof -
  have f: "faults commit_fails = [Answered, Answered, Answered, Answered, Answered, Answered, Answered, Not_done]"
    by (simp add: commit_fails_def numeral_eq_Suc)
  have w: "db commit_fails = db upload_world" "video_queue commit_fails = []" "clock commit_fails = clock upload_world"
    "objects commit_fails (''raw'', ''u1/v1.mp4'') = Some mp4_object"
    by (simp_all add: commit_fails_def upload_world_simps)
  show ?thesis
    by (simp add: confirm_upload_after enforce_read_only_upload_restriction_def upload_app_def
        upload_limits bindE_def transaction_def begin_txn_def external.simps f w upload_world_simps
        confirm_txn_def owned_video_def db_read_def callE_def bindErr_def draft0_simps hand_over_def
        inspect_upload_def get_file_size_def mp4_object_def abs_diff_def read_prefix_def Let_def
        looks_like_supported_video_container_def returnOk_def ignoreE_def increment_by_def getsE_def
        update_video_row_def update_video_def check_def video_exists_def push_video_job_def get_conn_def
        commit_def)
qed

end
