(* ===== verification/Username.thy ===== *)
theory Username
  imports App
begin

text \<open>
  \<^verbatim>\<open>users/username.rs\<close>: the rules of a user name, the reserved names, the name suggested
  from a Google profile, and the uniqueness query. The theorems give the rules as one
  equivalence, and relate the suggestion to them.
\<close>

section \<open>Rules\<close>

definition username_min_len :: nat where
  "username_min_len = 3"

definition username_max_len :: nat where
  "username_max_len = 20"

record validated_username =
  vu_original :: string
  vu_normalized :: string

datatype username_validation_error =
    InvalidWhitespace
  | InvalidLength
  | InvalidCharacters
  | Reserved

fun username_error_message :: "username_validation_error \<Rightarrow> string" where
  "username_error_message InvalidWhitespace =
     ''Username must not contain leading or trailing whitespace''"
| "username_error_message InvalidLength = ''Username length must be between 3 and 20''"
| "username_error_message InvalidCharacters =
     ''Username may only contain lowercase letters, numbers, and underscore''"
| "username_error_message Reserved = ''Username is reserved''"

definition default_reserved_usernames :: "string list" where
  "default_reserved_usernames =
     [''admin'', ''support'', ''api'', ''root'', ''system'', ''me'', ''users'', ''auth'', ''feed'',
      ''www'', ''null'', ''undefined'', ''help'', ''contact'', ''info'', ''security'', ''abuse'',
      ''postmaster'', ''webmaster'', ''host'', ''superuser'', ''staff'', ''moderator'',
      ''manager'', ''editor'', ''superadmin'', ''sysadmin'', ''sys'', ''administrator'',
      ''operator'', ''dev'', ''developer'', ''qa'', ''test'', ''testing'']"

definition collect_reserved_usernames :: "config \<Rightarrow> string list" where
  "collect_reserved_usernames cf =
     default_reserved_usernames
     @ filter (\<lambda>s. s \<noteq> []) (map (\<lambda>v. to_ascii_lowercase (trim v))
                              (split_on (CHR '','') (cf_username_reserved_values cf)))"

definition normalize_for_reserved_match :: "string \<Rightarrow> string" where
  "normalize_for_reserved_match value = filter is_ascii_lower value"

definition is_reserved_username_variant :: "string \<Rightarrow> string list \<Rightarrow> bool" where
  "is_reserved_username_variant normalized_username reserved =
     (if normalized_username \<in> set reserved then True
      else let folded_username = normalize_for_reserved_match normalized_username in
        if folded_username = [] then False
        else list_ex (\<lambda>value.
          let folded_reserved = normalize_for_reserved_match value in
          folded_reserved \<noteq> [] \<and> contains_str folded_username folded_reserved) reserved)"

definition username_char :: "char \<Rightarrow> bool" where
  "username_char c \<longleftrightarrow> is_ascii_lower c \<or> is_ascii_digit c \<or> c = CHR ''_''"

definition validate_username :: "string \<Rightarrow> config \<Rightarrow> username_validation_error + validated_username" where
  "validate_username input cf =
     (if trim input \<noteq> input then Inl InvalidWhitespace
      else if length input < username_min_len \<or> username_max_len < length input
      then Inl InvalidLength
      else if \<not> list_all username_char input then Inl InvalidCharacters
      else let normalized = to_ascii_lowercase input in
        if is_reserved_username_variant normalized (collect_reserved_usernames cf)
        then Inl Reserved
        else Inr \<lparr> vu_original = input, vu_normalized = normalized \<rparr>)"

section \<open>Suggestion\<close>

text \<open>
  The loop over the characters of the Google name; a character is its bytes, so only a
  one-byte character can be alphanumeric.
\<close>

fun suggest_loop :: "string list \<Rightarrow> string \<Rightarrow> bool \<Rightarrow> string" where
  "suggest_loop [] out sep = out"
| "suggest_loop (c # cs) out sep =
     (if username_max_len \<le> length out then out
      else if length c = 1 \<and> is_ascii_alphanumeric (hd c)
      then suggest_loop cs (out @ [ascii_lower (hd c)]) False
      else if \<not> sep \<and> out \<noteq> []
      then suggest_loop cs (out @ ''_'') True
      else suggest_loop cs out sep)"

definition trim_matches :: "char \<Rightarrow> string \<Rightarrow> string" where
  "trim_matches c s =
     rev (dropWhile (\<lambda>x. x = c) (rev (dropWhile (\<lambda>x. x = c) s)))"

definition suggest_username_from_google_name :: "string \<Rightarrow> string" where
  "suggest_username_from_google_name name =
     (let out = trim_matches (CHR ''_'') (suggest_loop (chars name) [] False) in
      if out = [] then ''user''
      else if length out < username_min_len then out @ ''_user''
      else out)"

section \<open>Uniqueness\<close>

definition username_taken :: "string \<Rightarrow> uuid option \<Rightarrow> database \<Rightarrow> bool" where
  "username_taken normalized_username exclude_user_id d \<longleftrightarrow>
     list_ex (\<lambda>u. to_ascii_lowercase (u_username u) = normalized_username
                  \<and> (case exclude_user_id of None \<Rightarrow> True | Some i \<Rightarrow> u_id u \<noteq> i)) (db_users d)"

definition username_exists_case_insensitive :: "string \<Rightarrow> uuid option \<Rightarrow> bool io" where
  "username_exists_case_insensitive normalized_username exclude_user_id =
     db_read (username_taken normalized_username exclude_user_id)"

text \<open>A unique violation is recognised by the name of its index in the message.\<close>

definition is_username_unique_violation :: "failure \<Rightarrow> bool" where
  "is_username_unique_violation e =
     (case e of
        DbError (DbUnique index) \<Rightarrow> contains_str (to_ascii_lowercase index) ''username_normalized''
      | _ \<Rightarrow> False)"

section \<open>Lemmas\<close>

lemma username_char_ascii: "username_char c \<Longrightarrow> byte c < 128"
  by (auto simp: username_char_def is_ascii_lower_def is_ascii_digit_def byte_def)

lemma username_char_not_space: "username_char c \<Longrightarrow> \<not> is_white_space [c]"
  by (auto simp: is_white_space_def username_char_def is_ascii_lower_def is_ascii_digit_def
      byte_def dest!: white_space_single)

lemma trim_username: "list_all username_char s \<Longrightarrow> trim s = s"
  by (rule trim_solid) (auto simp: list_all_iff username_char_ascii username_char_not_space)

lemma ascii_lower_username: "username_char c \<Longrightarrow> ascii_lower c = c"
  by (auto simp: username_char_def ascii_lower_def is_ascii_upper_def is_ascii_lower_def
      is_ascii_digit_def byte_def)

lemma to_ascii_lowercase_username: "list_all username_char s \<Longrightarrow> to_ascii_lowercase s = s"
  by (induction s) (auto simp: to_ascii_lowercase_def ascii_lower_username)

lemma username_char_lower: "is_ascii_alphanumeric c \<Longrightarrow> username_char (ascii_lower c)"
  by (auto simp: is_ascii_alphanumeric_def username_char_def ascii_lower_def is_ascii_upper_def
      is_ascii_lower_def is_ascii_digit_def byte_char_of)

lemma username_char_underscore [simp]: "username_char (CHR ''_'')"
  by (simp add: username_char_def)

lemma suggest_loop_chars:
  "list_all username_char out \<Longrightarrow> list_all username_char (suggest_loop cs out sep)"
  by (induction cs out sep rule: suggest_loop.induct) (simp_all add: username_char_lower)

lemma suggest_loop_length: "length out \<le> username_max_len \<Longrightarrow> length (suggest_loop cs out sep) \<le> username_max_len"
  by (induction cs out sep rule: suggest_loop.induct) auto

lemma trim_matches_sub: "set (trim_matches c s) \<subseteq> set s" "length (trim_matches c s) \<le> length s"
proof -
  show "set (trim_matches c s) \<subseteq> set s"
    unfolding trim_matches_def by (auto dest!: set_dropWhileD)
  have "length (trim_matches c s) \<le> length (dropWhile (\<lambda>x. x = c) s)"
    unfolding trim_matches_def using length_dropWhile_le [of _ "rev (dropWhile (\<lambda>x. x = c) s)"] by simp
  then show "length (trim_matches c s) \<le> length s"
    using length_dropWhile_le [of "\<lambda>x. x = c" s] by (rule order_trans)
qed

lemma reserved_by_fragment:
  assumes "v \<in> set reserved" and "normalize_for_reserved_match v \<noteq> []"
    and "contains_str (normalize_for_reserved_match u) (normalize_for_reserved_match v)"
  shows "is_reserved_username_variant u reserved"
  using assms by (cases "normalize_for_reserved_match u")
    (auto simp: is_reserved_username_variant_def Let_def list_ex_iff prefix_Nil)

section \<open>Properties\<close>

definition wellformed_username :: "string \<Rightarrow> bool" where
  "wellformed_username s \<longleftrightarrow>
     username_min_len \<le> length s \<and> length s \<le> username_max_len \<and> list_all username_char s"

lemma validate_username_accepts:
  "validate_username s cf = Inr v \<longleftrightarrow>
     wellformed_username s \<and> \<not> is_reserved_username_variant s (collect_reserved_usernames cf)
     \<and> v = \<lparr> vu_original = s, vu_normalized = s \<rparr>"
proof (cases "list_all username_char s")
  case True
  then show ?thesis
    by (auto simp: validate_username_def wellformed_username_def trim_username
        to_ascii_lowercase_username Let_def not_less)
next
  case False
  then show ?thesis by (auto simp: validate_username_def wellformed_username_def)
qed


text \<open>The name suggested for any Google profile has the length and the characters the
  rules ask for.\<close>

theorem suggestion_wellformed: "wellformed_username (suggest_username_from_google_name name)"
proof -
  let ?out = "trim_matches (CHR ''_'') (suggest_loop (chars name) [] False)"
  have "list_all username_char ?out"
    using suggest_loop_chars [of "[]" "chars name" False] trim_matches_sub(1)
    by (fastforce simp: list_all_iff)
  moreover have "length ?out \<le> username_max_len"
    using suggest_loop_length [of "[]" "chars name" False] trim_matches_sub(2) order_trans
    by (simp add: username_max_len_def) blast
  ultimately show ?thesis
    by (auto simp: suggest_username_from_google_name_def Let_def wellformed_username_def
        username_min_len_def username_max_len_def username_char_def is_ascii_lower_def byte_def)
qed

text \<open>A suggestion can still be refused: a name is reserved as soon as its letters
  contain those of a reserved name, so the profile name \<^verbatim>\<open>James\<close> is suggested \<^verbatim>\<open>james\<close> and
  then rejected for containing \<^verbatim>\<open>me\<close>.\<close>

theorem suggestion_can_be_refused:
  "suggest_username_from_google_name ''James'' = ''james''
     \<and> validate_username ''james'' cf = Inl Reserved"
proof -
  have "''me'' \<in> set (collect_reserved_usernames cf)"
    by (simp add: collect_reserved_usernames_def default_reserved_usernames_def)
  moreover have "normalize_for_reserved_match ''me'' = ''me''"
    "contains_str (normalize_for_reserved_match ''james'') ''me''" by code_simp+
  ultimately have "is_reserved_username_variant ''james'' (collect_reserved_usernames cf)"
    by (intro reserved_by_fragment [where v = "''me''"]) simp_all
  moreover have "wellformed_username ''james''" by code_simp
  ultimately have "validate_username ''james'' cf = Inl Reserved"
    by (simp add: validate_username_def wellformed_username_def trim_username
        to_ascii_lowercase_username Let_def not_less)
  moreover have "suggest_username_from_google_name ''James'' = ''james''" by code_simp
  ultimately show ?thesis by simp
qed

end
