(* ===== verification/AuthHandlers.thy ===== *)
theory AuthHandlers
  imports Session SecurityEvents Username "HOL-Library.Char_ord" "HOL-Library.List_Lexorder"
begin

text \<open>
  \<^verbatim>\<open>auth/handlers.rs\<close> and the login and registration half of \<^verbatim>\<open>auth/service.rs\<close>: the OAuth
  round trip with its state and PKCE cookies, the signup ticket and its lock, extension
  sessions, token refresh, logout, the development login and the exchange of one-time codes.
\<close>

section \<open>Requests and responses\<close>

record google_login_query =
  glq_source :: "string option"
  glq_code_challenge :: "string option"
  glq_code_challenge_method :: "string option"
  glq_code_verifier :: "string option"

record google_callback_query =
  gcq_code :: string
  gcq_state :: string

record signup_complete_request =
  scr_signup_ticket :: string
  scr_username :: string
  scr_age_confirmed :: bool
  scr_terms_version :: string

record extension_session_request =
  esr_platform :: string
  esr_device_id_hash :: string
  esr_requested_scopes :: "string list option"

record extension_session_response =
  esp_extension_access_token :: string
  esp_expires_in_seconds :: nat
  esp_session_jti :: uuid
  esp_scope :: "string list"

record username_required_response =
  urr_error :: string
  urr_signup_ticket :: string
  urr_suggested_username :: string
  urr_requires_age_confirmation :: bool
  urr_required_terms_version :: string
  urr_terms_url :: "string option"
  urr_min_length :: nat
  urr_max_length :: nat

datatype exchange_response = Exchanged auth_response | UsernameRequired username_required_response

definition terms_accepted :: "string \<Rightarrow> user \<Rightarrow> bool" where
  "terms_accepted terms_current u \<longleftrightarrow>
     u_terms_accepted_at u \<noteq> None \<and> u_terms_accepted_version u = Some terms_current"

definition from_user_model :: "user \<Rightarrow> string \<Rightarrow> user_dto" where
  "from_user_model u terms_current =
     \<lparr> ud_id = u_id u, ud_username = u_username u, ud_email = u_email u,
       ud_avatar_url = u_avatar_url u, ud_age_confirmed = (u_age_confirmed_at u \<noteq> None),
       ud_terms_accepted = terms_accepted terms_current u,
       ud_required_terms_version = terms_current,
       ud_accepted_terms_version = u_terms_accepted_version u \<rparr>"

section \<open>Login and registration (auth/service.rs)\<close>

definition user_by_google_id :: "string \<Rightarrow> user option io" where
  "user_by_google_id g = db_read (\<lambda>d. find (\<lambda>u. u_google_id u = g) (db_users d))"

text \<open>The columns a login sets: a deleted account is recovered, the picture refreshed.\<close>

definition recover_account :: "string \<Rightarrow> user \<Rightarrow> user" where
  "recover_account picture u = u\<lparr> u_deleted_at := None, u_avatar_url := Some picture \<rparr>"

definition login_existing_user ::
  "libs \<Rightarrow> google_user \<Rightarrow> string \<Rightarrow> nat \<Rightarrow> nat \<Rightarrow> (string \<times> string \<times> user) option io" where
  "login_existing_user L g jwt_secret access_ttl refresh_days =
     guardE (gu_verified_email g) (OtherError ''Email not verified by Google'')
    (bindE (user_by_google_id (gu_id g)) (\<lambda>u.
       case u of
         None \<Rightarrow> returnOk None
       | Some u \<Rightarrow>
           let u' = recover_account (gu_picture g) u in
           bindE (db_write (update_user (u_id u) (recover_account (gu_picture g)))) (\<lambda>_.
           bindE (issue_tokens_for_user L u' jwt_secret access_ttl refresh_days) (\<lambda>(a, r).
             returnOk (Some (a, r, u'))))))"

datatype register_user_error = UsernameTaken | RegisterOther failure

record register_input =
  ri_google_user :: google_user
  ri_username :: string
  ri_username_normalized :: string
  ri_terms_version :: string
  ri_jwt_secret :: string
  ri_access_token_ttl_secs :: nat
  ri_refresh_token_ttl_days :: nat

definition register_error :: "failure \<Rightarrow> register_user_error" where
  "register_error e = (if is_username_unique_violation e then UsernameTaken else RegisterOther e)"

definition registered_again :: "register_input \<Rightarrow> time \<Rightarrow> user \<Rightarrow> user" where
  "registered_again input now u = u\<lparr> u_deleted_at := None, u_username := ri_username input,
     u_username_normalized := Some (ri_username_normalized input),
     u_username_updated_at := Some now, u_age_confirmed_at := Some now,
     u_terms_accepted_at := Some now, u_terms_accepted_version := Some (ri_terms_version input),
     u_avatar_url := Some (gu_picture (ri_google_user input)) \<rparr>"

definition registered_user :: "register_input \<Rightarrow> uuid \<Rightarrow> time \<Rightarrow> user" where
  "registered_user input i now = \<lparr> u_id = i, u_google_id = gu_id (ri_google_user input),
     u_username = ri_username input,
     u_username_normalized = Some (ri_username_normalized input),
     u_email = gu_email (ri_google_user input),
     u_avatar_url = Some (gu_picture (ri_google_user input)),
     u_username_updated_at = Some now, u_age_confirmed_at = Some now,
     u_terms_accepted_at = Some now, u_terms_accepted_version = Some (ri_terms_version input),
     u_deleted_at = None, u_created_at = now, u_updated_at = now \<rparr>"

definition store_registered_user ::
  "register_input \<Rightarrow> user option \<Rightarrow> (world, register_user_error, user) action" where
  "store_registered_user input existing =
     (case existing of
        Some u \<Rightarrow>
          bindE (getsE clock) (\<lambda>now.
          bindErr register_error (db_write (update_user (u_id u) (registered_again input now)))
            (\<lambda>_. returnOk (registered_again input now u)))
      | None \<Rightarrow>
          bindE (getsE clock) (\<lambda>now.
          bindE new_v4 (\<lambda>i.
          bindErr register_error (db_write (insert_user (registered_user input i now)))
            (\<lambda>_. returnOk (registered_user input i now)))))"

definition register_with_username ::
  "libs \<Rightarrow> register_input \<Rightarrow> (world, register_user_error, string \<times> string \<times> user) action" where
  "register_with_username L input =
     guardE (gu_verified_email (ri_google_user input))
       (RegisterOther (OtherError ''Email not verified by Google''))
    (bindErr RegisterOther (username_exists_case_insensitive (ri_username_normalized input) None)
       (\<lambda>taken.
     guardE (\<not> taken) UsernameTaken
    (bindErr RegisterOther (user_by_google_id (gu_id (ri_google_user input))) (\<lambda>existing.
     bindE (store_registered_user input existing) (\<lambda>u.
     bindErr RegisterOther (issue_tokens_for_user L u (ri_jwt_secret input)
         (ri_access_token_ttl_secs input) (ri_refresh_token_ttl_days input)) (\<lambda>(a, r).
       returnOk (a, r, u)))))))"

definition login_or_register ::
  "libs \<Rightarrow> google_user \<Rightarrow> string \<Rightarrow> nat \<Rightarrow> nat \<Rightarrow> (string \<times> string \<times> user) io" where
  "login_or_register L g jwt_secret access_ttl refresh_days =
     bindE (login_existing_user L g jwt_secret access_ttl refresh_days) (\<lambda>v.
       okOrE (OtherError ''Direct auto-registration is disabled. Signup completion is required.'')
         v returnOk)"

section \<open>Signup tickets\<close>

definition signup_ticket_ttl_secs :: nat where "signup_ticket_ttl_secs = 600"
definition signup_result_ttl_secs :: nat where "signup_result_ttl_secs = 600"
definition signup_lock_ttl_secs :: nat where "signup_lock_ttl_secs = 15"
definition signup_lock_poll_retries :: nat where "signup_lock_poll_retries = 8"

definition signup_ticket_key :: "string \<Rightarrow> string" where
  "signup_ticket_key ticket = ''signup:ticket:'' @ ticket"

definition signup_result_key :: "string \<Rightarrow> string" where
  "signup_result_key ticket = ''signup:result:'' @ ticket"

definition signup_lock_key :: "string \<Rightarrow> string" where
  "signup_lock_key ticket = ''signup:lock:'' @ ticket"

definition read_signup_result :: "string \<Rightarrow> (world, 'e, auth_response option) action" where
  "read_signup_result ticket =
     catchE get_conn (\<lambda>_. returnOk None)
       (\<lambda>_. catchE (kv_get (signup_result_key ticket)) (\<lambda>_. returnOk None)
              (\<lambda>raw. returnOk (Option.bind raw as_auth)))"

definition write_signup_result :: "string \<Rightarrow> auth_response \<Rightarrow> unit io" where
  "write_signup_result ticket response =
     bindE get_conn (\<lambda>_. kv_set_ex (signup_result_key ticket) (KAuth response) signup_result_ttl_secs)"

definition read_signup_ticket :: "string \<Rightarrow> (world, 'e, signup_ticket_data option) action" where
  "read_signup_ticket ticket =
     catchE get_conn (\<lambda>_. returnOk None)
       (\<lambda>_. catchE (kv_get (signup_ticket_key ticket)) (\<lambda>_. returnOk None)
              (\<lambda>raw. returnOk (Option.bind raw as_ticket)))"

definition write_signup_ticket :: "string \<Rightarrow> signup_ticket_data \<Rightarrow> unit io" where
  "write_signup_ticket ticket data =
     bindE get_conn (\<lambda>_. kv_set_ex (signup_ticket_key ticket) (KTicket data) signup_ticket_ttl_secs)"

definition delete_signup_ticket :: "string \<Rightarrow> unit io" where
  "delete_signup_ticket ticket = bindE get_conn (\<lambda>_. kv_del (signup_ticket_key ticket))"

section \<open>The OAuth round trip\<close>

record oauth_state =
  os_source :: string
  os_code_challenge :: "string option"

definition parse_oauth_state :: "string \<Rightarrow> string + oauth_state" where
  "parse_oauth_state state =
     (let parts = split_on (CHR '':'') state in
      if length parts < 2 then Inl ''Invalid state format''
      else Inr \<lparr> os_source = parts ! 1,
                 os_code_challenge = (if 2 < length parts then Some (parts ! 2) else None) \<rparr>)"

definition check_challenge_method :: "google_login_query \<Rightarrow> api_error + unit" where
  "check_challenge_method q =
     (if glq_code_challenge q \<noteq> None \<or> glq_code_verifier q \<noteq> None
      then (if glq_code_challenge_method q = Some ''S256'' then Inr ()
            else if glq_code_challenge_method q = Some ''plain''
            then Inl (bad_request ''PKCE plain method not allowed, use S256'')
            else Inl (bad_request ''code_challenge_method must be S256''))
      else Inr ())"

definition challenge_char :: "char \<Rightarrow> bool" where
  "challenge_char c \<longleftrightarrow> is_ascii_alphanumeric c \<or> c = CHR ''-'' \<or> c = CHR ''_''"

definition check_challenge :: "string \<Rightarrow> string \<Rightarrow> api_error + unit" where
  "check_challenge challenge computed =
     (if challenge = [] \<or> length challenge \<noteq> 43 then Inl (bad_request ''Invalid code_challenge'')
      else if \<not> list_all challenge_char challenge
      then Inl (bad_request ''Invalid code_challenge format'')
      else if contains_char challenge (CHR ''+'') \<or> contains_char challenge (CHR ''/'')
           \<or> contains_char challenge (CHR ''='')
      then Inl (bad_request ''code_challenge must be base64url encoded'')
      else if challenge \<noteq> computed
      then Inl (bad_request ''code_challenge does not match code_verifier'')
      else Inr ())"

definition pkce_required :: api_error where
  "pkce_required = bad_request
     ''PKCE required for mobile flows: code_verifier and code_challenge_method=S256''"

text \<open>The challenge and the verifier the login goes on with.\<close>

definition pkce_of_query ::
  "libs \<Rightarrow> string \<Rightarrow> google_login_query \<Rightarrow> api_error + (string \<times> string) option" where
  "pkce_of_query L source q =
     (case check_challenge_method q of
        Inl e \<Rightarrow> Inl e
      | Inr _ \<Rightarrow>
          if source = ''mobile'' \<and> glq_code_verifier q = None then Inl pkce_required
          else (case glq_code_verifier q of
             Some verifier \<Rightarrow>
               if \<not> validate_code_verifier verifier then Inl (bad_request ''Invalid code_verifier'')
               else let computed = compute_code_challenge L verifier in
                 (case glq_code_challenge q of
                    None \<Rightarrow> Inr (Some (computed, verifier))
                  | Some challenge \<Rightarrow>
                      (case check_challenge challenge computed of
                         Inl e \<Rightarrow> Inl e | Inr _ \<Rightarrow> Inr (Some (computed, verifier))))
           | None \<Rightarrow>
               if glq_code_challenge q \<noteq> None
               then Inl (bad_request ''code_verifier required when code_challenge is provided'')
               else if source = ''mobile'' then Inl pkce_required
               else Inr None))"

type_synonym cookie_jar = "(string \<times> string) list"

definition combined_state :: "string \<Rightarrow> string \<Rightarrow> (string \<times> string) option \<Rightarrow> string" where
  "combined_state csrf source pkce =
     csrf @ '':'' @ source @ (case pkce of None \<Rightarrow> [] | Some (challenge, _) \<Rightarrow> '':'' @ challenge)"

definition login_cookies :: "string \<Rightarrow> (string \<times> string) option \<Rightarrow> cookie_jar \<Rightarrow> cookie_jar" where
  "login_cookies state pkce jar =
     (let jar = AList.update ''oauth_state'' state jar in
      case pkce of None \<Rightarrow> jar | Some (_, verifier) \<Rightarrow> AList.update ''oauth_pkce_verifier'' verifier jar)"

definition google_login :: "app \<Rightarrow> ip_addr \<Rightarrow> cookie_jar \<Rightarrow> google_login_query \<Rightarrow> (cookie_jar \<times> string) api" where
  "google_login ap client_ip jar q =
     (let source = (case glq_source q of Some s \<Rightarrow> s | None \<Rightarrow> ''web'') in
      bindE (from_sum (pkce_of_query (ap_libs ap) source q)) (\<lambda>pkce.
      ignoreE (record_event ''auth.google_login_initiated'' None (show_ip client_ip) None None
                 (JObj [(''source'', JStr source), (''has_pkce'', JBool (pkce \<noteq> None))]))
     (bindE draw_secret (\<lambda>csrf.
        let state = combined_state csrf source pkce in
        returnOk (login_cookies state pkce jar,
                  lib_auth_url (ap_libs ap) state (map_option snd pkce))))))"

datatype callback_response =
    RedirectTo string
  | PopupMessage string string

definition callback_redirect :: "config \<Rightarrow> string \<Rightarrow> string \<Rightarrow> callback_response" where
  "callback_redirect cf source otc =
     (if source = ''mobile''
      then RedirectTo (cf_mobile_app_scheme cf @ ''auth/callback?code='' @ otc)
      else if source = ''popup'' then PopupMessage otc (cf_frontend_app_url cf)
      else RedirectTo (cf_frontend_app_url cf @ ''/auth/callback?code='' @ otc))"

definition check_pkce :: "libs \<Rightarrow> string option \<Rightarrow> string option \<Rightarrow> api_error + unit" where
  "check_pkce L expected_challenge verifier =
     (case expected_challenge of
        None \<Rightarrow> Inr ()
      | Some challenge \<Rightarrow>
          (case verifier of
             None \<Rightarrow> Inl (bad_request ''Invalid OAuth state'')
           | Some v \<Rightarrow> if verify_pkce_challenge L v challenge then Inr ()
                      else Inl (unauthorized ''Authentication failed'')))"

definition auth_token_data :: "config \<Rightarrow> string \<Rightarrow> string \<Rightarrow> user \<Rightarrow> otc_auth_token_data" where
  "auth_token_data cf access refresh u =
     \<lparr> oat_access_token = access, oat_refresh_token = refresh, oat_user_id = u_id u,
       oat_username = u_username u, oat_email = u_email u, oat_avatar_url = u_avatar_url u,
       oat_age_confirmed = (u_age_confirmed_at u \<noteq> None),
       oat_terms_accepted = terms_accepted (cf_terms_current_version cf) u,
       oat_required_terms_version = cf_terms_current_version cf,
       oat_accepted_terms_version = u_terms_accepted_version u \<rparr>"

definition auth_incomplete :: "failure \<Rightarrow> api_error" where
  "auth_incomplete e = internal_error ''Failed to complete authentication''"

definition callback_token_data ::
  "app \<Rightarrow> ip_addr \<Rightarrow> oauth_state \<Rightarrow> google_user \<Rightarrow> otc_token_data api" where
  "callback_token_data ap client_ip st g =
     (let cf = ap_config ap in
      bindErr auth_incomplete (login_existing_user (ap_libs ap) g (cf_jwt_secret cf)
          (cf_access_token_ttl_secs cf) (cf_refresh_token_ttl_days cf)) (\<lambda>login.
        case login of
          Some (access, refresh, u) \<Rightarrow>
            bindE (require_not_banned cf (u_id u)) (\<lambda>_.
            ignoreE (record_event ''auth.google_callback_success'' (Some (u_id u))
                       (show_ip client_ip) None None
                       (JObj [(''source'', JStr (os_source st)),
                              (''pkce_validated'', JBool (os_code_challenge st \<noteq> None))]))
              (returnOk (AuthSuccess (auth_token_data cf access refresh u))))
        | None \<Rightarrow>
            bindE (generate_otc (ap_libs ap)) (\<lambda>signup_ticket.
            bindE (getsE clock) (\<lambda>now.
            bindErr auth_incomplete (write_signup_ticket signup_ticket
                \<lparr> std_google_id = gu_id g, std_email = gu_email g, std_avatar_url = gu_picture g,
                  std_source = os_source st, std_created_at = now \<rparr>) (\<lambda>_.
              returnOk (SignupRequired
                \<lparr> osr_signup_ticket = signup_ticket,
                  osr_suggested_username = suggest_username_from_google_name (gu_name g),
                  osr_required_terms_version = cf_terms_current_version cf,
                  osr_terms_url = Some ''/system/terms'',
                  osr_requires_age_confirmation = True \<rparr>))))))"

definition google_callback ::
  "app \<Rightarrow> ip_addr \<Rightarrow> cookie_jar \<Rightarrow> google_callback_query \<Rightarrow> (cookie_jar \<times> callback_response) api" where
  "google_callback ap client_ip jar q =
     (let cf = ap_config ap in
      okOrE (bad_request ''Missing state cookie'') (map_of jar ''oauth_state'') (\<lambda>stored.
        let verifier = map_of jar ''oauth_pkce_verifier'';
            jar = AList.delete ''oauth_pkce_verifier'' (AList.delete ''oauth_state'' jar) in
        if stored \<noteq> gcq_state q
        then ignoreE (record_event ''auth.google_callback_failure'' None (show_ip client_ip) None None
                        (JObj [(''reason'', JStr ''csrf_mismatch'')]))
               (throwErr (bad_request ''Invalid state''))
        else (case parse_oauth_state stored of
            Inl _ \<Rightarrow> throwErr (bad_request ''Malformed state'')
          | Inr st \<Rightarrow>
              bindE (from_sum (check_pkce (ap_libs ap) (os_code_challenge st) verifier)) (\<lambda>_.
              okOrE (unauthorized ''Failed to verify Google authentication'')
                (lib_google (ap_libs ap) (gcq_code q) verifier) (\<lambda>g.
              bindE (callback_token_data ap client_ip st g) (\<lambda>data.
              bindE (generate_otc (ap_libs ap)) (\<lambda>otc.
              bindErr auth_incomplete (store_otc otc data) (\<lambda>_.
                returnOk (jar, callback_redirect cf (os_source st) otc)))))))))"

section \<open>Refresh\<close>

definition refresh_error :: "refresh_access_token_error \<Rightarrow> api_error" where
  "refresh_error e = (case e of
      InvalidAccessToken \<Rightarrow> unauthorized ''Invalid or expired token''
    | InvalidOrExpiredRefreshToken \<Rightarrow> unauthorized ''Invalid or expired token''
    | ReuseDetected \<Rightarrow> unauthorized ''Session revoked due to refresh token reuse''
    | Internal _ \<Rightarrow> internal_error ''Failed to refresh token'')"

definition refresh_token_handler :: "app \<Rightarrow> ip_addr \<Rightarrow> string \<Rightarrow> string \<Rightarrow> (string \<times> string) api" where
  "refresh_token_handler ap client_ip access refresh =
     (let cf = ap_config ap in
      bindErr (\<lambda>_. unauthorized ''Invalid or expired token'')
        (get_claims_ignoring_expiry (ap_libs ap) access (cf_jwt_secret cf)) (\<lambda>claims.
      bindE (require_not_banned cf (cl_sub claims)) (\<lambda>_.
      bindErr refresh_error (refresh_access_token (ap_libs ap) access refresh (cf_jwt_secret cf)
          (cf_access_token_ttl_secs cf) (cf_refresh_token_ttl_days cf)) (\<lambda>tokens.
      ignoreE (record_event ''auth.refresh'' (Some (cl_sub claims)) (show_ip client_ip) None None
                 (JObj []))
        (returnOk tokens)))))"

section \<open>Signup\<close>

text \<open>A limit that fails open: only a verdict against the caller stops the request.\<close>

definition limited :: "(64 word + 64 word) io \<Rightarrow> api_error \<Rightarrow> 'a api \<Rightarrow> 'a api" where
  [action_defs]: "limited verdict e k =
     catchE verdict (\<lambda>_. k) (\<lambda>v. case v of Inl _ \<Rightarrow> throwErr e | Inr _ \<Rightarrow> k)"

definition register_failed :: "register_user_error \<Rightarrow> api_error" where
  "register_failed e = (case e of
      UsernameTaken \<Rightarrow> conflict ''Username already taken''
    | RegisterOther _ \<Rightarrow> internal_error ''Failed to complete signup'')"

definition ticket_user :: "signup_ticket_data \<Rightarrow> google_user" where
  "ticket_user t = \<lparr> gu_id = std_google_id t, gu_email = std_email t, gu_verified_email = True,
     gu_name = [], gu_picture = std_avatar_url t \<rparr>"

definition signup_input ::
  "config \<Rightarrow> signup_ticket_data \<Rightarrow> validated_username \<Rightarrow> string \<Rightarrow> register_input" where
  "signup_input cf t v terms_version =
     \<lparr> ri_google_user = ticket_user t, ri_username = vu_original v,
       ri_username_normalized = vu_normalized v, ri_terms_version = terms_version,
       ri_jwt_secret = cf_jwt_secret cf, ri_access_token_ttl_secs = cf_access_token_ttl_secs cf,
       ri_refresh_token_ttl_days = cf_refresh_token_ttl_days cf \<rparr>"

text \<open>The part that runs under the lock.\<close>

definition signup_locked ::
  "app \<Rightarrow> string \<Rightarrow> signup_complete_request \<Rightarrow> validated_username \<Rightarrow> auth_response api" where
  "signup_locked ap client_ip p validated =
     (let cf = ap_config ap; ticket = scr_signup_ticket p in
      bindE (read_signup_result ticket) (\<lambda>existing.
        case existing of
          Some r \<Rightarrow> returnOk r
        | None \<Rightarrow>
            bindE (read_signup_ticket ticket) (\<lambda>td.
            okOrE (unauthorized ''Invalid or expired signup ticket'') td (\<lambda>td.
            bindErr register_failed (register_with_username (ap_libs ap)
                (signup_input cf td validated (scr_terms_version p))) (\<lambda>(access, refresh, u).
              let response = \<lparr> aur_access_token = access, aur_refresh_token = refresh,
                               aur_user = from_user_model u (cf_terms_current_version cf) \<rparr> in
              ignoreE (write_signup_result ticket response)
             (ignoreE (delete_signup_ticket ticket)
             (ignoreE (record_event ''auth.signup_complete'' (Some (u_id u)) client_ip None None
                         (JObj [(''signup_ticket'', JStr ticket)]))
                (returnOk response))))))))"

text \<open>Waiting for the result of the request that holds the lock.\<close>

fun poll_signup_result :: "nat \<Rightarrow> string \<Rightarrow> auth_response api" where
  "poll_signup_result 0 ticket =
     throwErr (too_many_requests ''Signup completion already in progress, retry shortly'')"
| "poll_signup_result (Suc n) ticket =
     bindE (modifyE (\<lambda>w. w\<lparr>clock := clock w + 125000000\<rparr>)) (\<lambda>_.
     bindE (read_signup_result ticket) (\<lambda>existing.
       case existing of Some r \<Rightarrow> returnOk r | None \<Rightarrow> poll_signup_result n ticket))"

text \<open>
  Taking the lock: not enabled without Valkey, acquired when the key was free. A failing
  \<^verbatim>\<open>SET\<close> counts as a lock that is held.
\<close>

datatype signup_lock = NoLock | Held_by_other | Acquired

definition take_signup_lock :: "string \<Rightarrow> string \<Rightarrow> (world, 'e, signup_lock) action" where
  "take_signup_lock key lock_value =
     catchE get_conn (\<lambda>_. returnOk NoLock)
       (\<lambda>_. catchE (kv_set_nx_ex key (KText lock_value) signup_lock_ttl_secs)
              (\<lambda>_. returnOk Held_by_other)
              (\<lambda>set. returnOk (if set then Acquired else Held_by_other)))"

definition release_signup_lock :: "string \<Rightarrow> string \<Rightarrow> unit io" where
  "release_signup_lock key lock_value =
     bindE get_conn (\<lambda>_. external RedisError
       (\<lambda>w. (Inr (), if Option.bind (kv_live w key) as_text = Some lock_value
                     then kv_drop key w else w)))"

text \<open>\<open>finallyE m k\<close> runs \<open>k\<close> for its effects, whatever \<open>m\<close> gave.\<close>

definition finallyE :: "(world, 'e, 'a) action \<Rightarrow> unit io \<Rightarrow> (world, 'e, 'a) action" where
  [action_defs]: "finallyE m k = (\<lambda>w. case m w of (r, w') \<Rightarrow> (r, snd (k w')))"

definition signup_under_lock ::
  "app \<Rightarrow> string \<Rightarrow> signup_complete_request \<Rightarrow> validated_username \<Rightarrow> auth_response api" where
  "signup_under_lock ap client_ip p validated =
     (let key = signup_lock_key (scr_signup_ticket p) in
      bindE new_v4 (\<lambda>lock_value.
      bindE (take_signup_lock key lock_value) (\<lambda>lock.
        case lock of
          Held_by_other \<Rightarrow> poll_signup_result signup_lock_poll_retries (scr_signup_ticket p)
        | NoLock \<Rightarrow> signup_locked ap client_ip p validated
        | Acquired \<Rightarrow> finallyE (signup_locked ap client_ip p validated)
                       (release_signup_lock key lock_value))))"

definition signup_complete :: "app \<Rightarrow> bool \<Rightarrow> ip_addr \<Rightarrow> signup_complete_request \<Rightarrow> auth_response api" where
  "signup_complete ap bypass ip p =
     (let cf = ap_config ap; client_ip = show_ip ip; ticket = scr_signup_ticket p in
      guardE (scr_age_confirmed p) (bad_request ''age_confirmed must be true'')
     (guardE (scr_terms_version p = cf_terms_current_version cf)
        (bad_request (''terms_version must match current version: '' @ cf_terms_current_version cf))
     (bindE (from_sum (case validate_username (scr_username p) cf of
               Inl e \<Rightarrow> Inl (bad_request (username_error_message e)) | Inr v \<Rightarrow> Inr v)) (\<lambda>validated.
      limited (check_and_increment bypass (username_signup_ip_key client_ip)
                 (cf_username_signup_rpm_per_ip cf) 60)
        (too_many_requests ''Too many username setup attempts from this IP'')
     (limited (check_and_increment bypass (username_signup_ticket_key ticket)
                 (cf_username_signup_attempts_per_ticket cf) signup_ticket_ttl_secs)
        (too_many_requests ''Too many username setup attempts for this signup session'')
     (bindE (read_signup_result ticket) (\<lambda>existing.
        case existing of
          Some r \<Rightarrow> returnOk r
        | None \<Rightarrow> signup_under_lock ap client_ip p validated)))))))"

section \<open>Extension sessions and logout\<close>

definition normalize_extension_scopes :: "string list option \<Rightarrow> api_error + string list" where
  "normalize_extension_scopes requested =
     (let scopes = remdups_adj (sort (case requested of
                     Some ss \<Rightarrow> ss | None \<Rightarrow> [''keyboard.search'', ''keyboard.send''])) in
      if scopes = [] then Inl (bad_request ''requested_scopes cannot be empty'')
      else (case find (\<lambda>s. s \<notin> set [''keyboard.search'', ''keyboard.send'']) scopes of
              Some s \<Rightarrow> Inl (bad_request (''Invalid scope requested: '' @ s))
            | None \<Rightarrow> Inr scopes))"

definition create_extension_session ::
  "app \<Rightarrow> uuid \<Rightarrow> extension_session_request \<Rightarrow> extension_session_response api" where
  "create_extension_session ap user_id p =
     (let cf = ap_config ap;
          platform = to_ascii_lowercase (trim (esr_platform p));
          device = trim (esr_device_id_hash p) in
      guardE (platform = ''ios'' \<or> platform = ''android'')
        (bad_request ''platform must be one of: ios, android'')
     (guardE (16 \<le> length device \<and> length device \<le> 256)
        (bad_request ''device_id_hash length must be between 16 and 256'')
     (bindE (from_sum (normalize_extension_scopes (esr_requested_scopes p))) (\<lambda>scope.
      bindE new_v4 (\<lambda>jti.
      bindE (getsE clock) (\<lambda>issued_at.
      callE (db_write (insert_extension_session
          \<lparr> es_jti = jti, es_user_id = user_id, es_device_id_hash = device, es_platform = platform,
            es_scope = scope, es_issued_at = issued_at,
            es_expires_at = issued_at + secs (int (cf_extension_token_ttl_secs cf)),
            es_revoked_at = None \<rparr>)) (\<lambda>_.
      callE (create_extension_access_token (ap_libs ap) user_id jti platform device scope
               (cf_jwt_secret cf) (cf_extension_token_ttl_secs cf)) (\<lambda>token.
        returnOk \<lparr> esp_extension_access_token = token,
                   esp_expires_in_seconds = cf_extension_token_ttl_secs cf,
                   esp_session_jti = jti, esp_scope = scope \<rparr>))))))))"

definition logout :: "app \<Rightarrow> ip_addr \<Rightarrow> string \<Rightarrow> unit api" where
  "logout ap client_ip token =
     (let cf = ap_config ap in
      bindErr (\<lambda>_. unauthorized ''Invalid token'')
        (validate_token (ap_libs ap) token (cf_jwt_secret cf)) (\<lambda>claims.
      bindE (is_revoked (cl_jti claims)) (\<lambda>revoked.
      guardE (\<not> revoked) (unauthorized ''Token revoked'')
     (bindE (require_not_banned cf (cl_sub claims)) (\<lambda>_.
      callE (logout_all (cl_sub claims)) (\<lambda>_.
      callE (revoke_extension_sessions (cl_sub claims)) (\<lambda>_.
      bindE (getsE now_secs) (\<lambda>now.
      ignoreE (if now < cl_exp claims then revoke_token (cl_jti claims) (cl_exp claims - now)
               else returnOk ())
     (ignoreE (record_event ''auth.logout'' (Some (cl_sub claims)) (show_ip client_ip) None None
                 (JObj []))
        (returnOk ()))))))))))"

section \<open>Development login and one-time codes\<close>

definition dev_onboard :: "string \<Rightarrow> time \<Rightarrow> user \<Rightarrow> user" where
  "dev_onboard terms now u = u\<lparr> u_age_confirmed_at := Some now, u_terms_accepted_at := Some now,
     u_terms_accepted_version := Some terms \<rparr>"

definition dev_user :: "app \<Rightarrow> string \<Rightarrow> string \<Rightarrow> string \<Rightarrow> user api" where
  "dev_user ap google_id username email =
     (let cf = ap_config ap; terms = cf_terms_current_version cf in
      callE (db_read (\<lambda>d. find (\<lambda>u. u_email u = email) (db_users d))) (\<lambda>u.
        case u of
          Some u \<Rightarrow>
            bindE (require_not_banned cf (u_id u)) (\<lambda>_.
              if u_age_confirmed_at u = None \<or> u_terms_accepted_at u = None
                 \<or> u_terms_accepted_version u \<noteq> Some terms
              then bindE (getsE clock) (\<lambda>now.
                   callE (db_write (update_user (u_id u) (dev_onboard terms now)))
                     (\<lambda>_. returnOk (dev_onboard terms now u)))
              else returnOk u)
        | None \<Rightarrow>
            bindE (getsE clock) (\<lambda>now.
            bindE new_v4 (\<lambda>i.
              let u = \<lparr> u_id = i, u_google_id = google_id, u_username = username,
                        u_username_normalized = None, u_email = email, u_avatar_url = None,
                        u_username_updated_at = None, u_age_confirmed_at = Some now,
                        u_terms_accepted_at = Some now, u_terms_accepted_version = Some terms,
                        u_deleted_at = None, u_created_at = now, u_updated_at = now \<rparr> in
              callE (db_write (insert_user u)) (\<lambda>_. returnOk u)))))"

definition dev_login :: "app \<Rightarrow> string \<Rightarrow> ip_addr \<Rightarrow> string \<Rightarrow> string \<Rightarrow> auth_response api" where
  "dev_login ap rust_log client_ip username email =
     (let cf = ap_config ap in
      guardE (contains_str rust_log ''debug'' \<or> cf_environment cf = ''test'')
        (forbidden ''Dev login is only available in debug mode'')
     (bindE new_v4 (\<lambda>g.
      bindE (dev_user ap (''dev_'' @ g) username email) (\<lambda>u.
      callE (issue_tokens_for_user (ap_libs ap) u (cf_jwt_secret cf) (cf_access_token_ttl_secs cf)
               (cf_refresh_token_ttl_days cf)) (\<lambda>(access, refresh).
      ignoreE (record_event ''auth.dev_login'' (Some (u_id u)) (show_ip client_ip) None None
                 (JObj []))
        (returnOk \<lparr> aur_access_token = access, aur_refresh_token = refresh,
                    aur_user = from_user_model u (cf_terms_current_version cf) \<rparr>))))))"

definition exchanged_user :: "config \<Rightarrow> otc_auth_token_data \<Rightarrow> user option \<Rightarrow> user_dto" where
  "exchanged_user cf t u =
     (case u of
        Some u \<Rightarrow> from_user_model u (cf_terms_current_version cf)
      | None \<Rightarrow>
          \<lparr> ud_id = oat_user_id t, ud_username = oat_username t, ud_email = oat_email t,
            ud_avatar_url = oat_avatar_url t, ud_age_confirmed = oat_age_confirmed t,
            ud_terms_accepted = oat_terms_accepted t,
            ud_required_terms_version =
              (if oat_required_terms_version t = [] then cf_terms_current_version cf
               else oat_required_terms_version t),
            ud_accepted_terms_version = oat_accepted_terms_version t \<rparr>)"

definition exchange_body :: "app \<Rightarrow> string \<Rightarrow> string \<Rightarrow> exchange_response api" where
  "exchange_body ap client_ip code =
     bindErr (\<lambda>_. internal_error ''Failed to exchange code'') (consume_otc code) (\<lambda>data.
     okOrE (bad_request ''Invalid or expired code'') data (\<lambda>data.
       case data of
         AuthSuccess t \<Rightarrow>
           bindE (require_not_banned (ap_config ap) (oat_user_id t)) (\<lambda>_.
           ignoreE (record_event ''auth.exchange_otc_success'' (Some (oat_user_id t)) client_ip
                      None None (JObj []))
          (callE (find_user (oat_user_id t)) (\<lambda>u.
             returnOk (Exchanged \<lparr> aur_access_token = oat_access_token t,
                                   aur_refresh_token = oat_refresh_token t,
                                   aur_user = exchanged_user (ap_config ap) t u \<rparr>))))
       | SignupRequired s \<Rightarrow>
           ignoreE (record_event ''auth.exchange_otc_signup_required'' None client_ip None None
                      (JObj []))
             (returnOk (UsernameRequired
                \<lparr> urr_error = ''username_required'', urr_signup_ticket = osr_signup_ticket s,
                  urr_suggested_username = osr_suggested_username s,
                  urr_requires_age_confirmation = osr_requires_age_confirmation s,
                  urr_required_terms_version = osr_required_terms_version s,
                  urr_terms_url = osr_terms_url s, urr_min_length = username_min_len,
                  urr_max_length = username_max_len \<rparr>))))"

text \<open>The limiter of the route is kept in memory; it is a second piece of state.\<close>

definition exchange_otc ::
  "app \<Rightarrow> ip_addr \<Rightarrow> string \<Rightarrow> otc_limiter \<Rightarrow> world
     \<Rightarrow> ((api_error + exchange_response) \<times> world) \<times> otc_limiter" where
  "exchange_otc ap ip code l w =
     (case check_rate_limit (clock w) (show_ip ip) l of
        (Inl _, l') \<Rightarrow>
          ((Inl (too_many_requests ''Too many attempts, please try again later''), w), l')
      | (Inr _, l') \<Rightarrow> (exchange_body ap (show_ip ip) code w, l'))"

section \<open>The state and the PKCE challenge\<close>

lemma split_on_single: "split_on d s = [p] \<Longrightarrow> p = s \<and> d \<notin> set s"
  by (induction s arbitrary: p) (auto split: if_splits list.splits)

lemma keeps_secrets [keeps_rules]: "keeps secret_src (record_event t u i r a m)"
  unfolding record_event_def db_write_def
  by (intro keeps_rules keeps_external) (auto simp: keeps_def new_v4_def split: sum.splits)

lemma pkce_of_mobile: "pkce_of_query L ''mobile'' q = Inr r \<Longrightarrow> r \<noteq> None"
  by (auto simp: pkce_of_query_def Let_def split: sum.splits option.splits if_splits)

lemma combined_state_parts:
  assumes "CHR '':'' \<notin> set csrf"
  shows "parse_oauth_state (combined_state csrf source pkce) =
    (let parts = split_on (CHR '':'') (source @ (case pkce of None \<Rightarrow> [] | Some (c, _) \<Rightarrow> '':'' @ c)) in
     Inr \<lparr> os_source = hd parts, os_code_challenge = (if length parts = 1 then None else Some (parts ! 1)) \<rparr>)"
proof -
  let ?r = "source @ (case pkce of None \<Rightarrow> [] | Some (c, _) \<Rightarrow> '':'' @ c)"
  have "split_on (CHR '':'') (combined_state csrf source pkce) = csrf # split_on (CHR '':'') ?r"
    using split_on_append [OF assms, of ?r] by (simp add: combined_state_def)
  moreover obtain p ps where "split_on (CHR '':'') ?r = p # ps"
    by (meson list.exhaust split_on_not_Nil)
  ultimately show ?thesis by (simp add: parse_oauth_state_def Let_def)
qed

text \<open>Whatever source a client asks for, also one that contains the separator, the state
  cookie of a login never names the mobile flow without a PKCE challenge.\<close>

theorem mobile_login_carries_challenge:
  assumes "google_login ap ip jar q w = (Inr (jar', url), w')"
    and "\<forall>n. CHR '':'' \<notin> set (secret_src w n)"
  shows "\<exists>s st. map_of jar' ''oauth_state'' = Some s \<and> parse_oauth_state s = Inr st
    \<and> (os_source st = ''mobile'' \<longrightarrow> os_code_challenge st \<noteq> None)"
proof -
  define source where "source = (case glq_source q of Some s \<Rightarrow> s | None \<Rightarrow> ''web'')"
  let ?ev = "\<lambda>pkce. record_event ''auth.google_login_initiated'' None (show_ip ip) None None
    (JObj [(''source'', JStr source), (''has_pkce'', JBool (pkce \<noteq> None))])"
  obtain pkce w1 where f: "from_sum (pkce_of_query (ap_libs ap) source q) w = (Inr pkce, w1)"
    and k: "ignoreE (?ev pkce) (bindE draw_secret (\<lambda>csrf. returnOk
       (login_cookies (combined_state csrf source pkce) pkce jar,
        lib_auth_url (ap_libs ap) (combined_state csrf source pkce) (map_option snd pkce)))
         :: (cookie_jar \<times> string) api) w1
       = (Inr (jar', url), w')"
    using assms(1) unfolding google_login_def source_def [symmetric] Let_def
    by (rule bindE_InrE)
  from from_sum_Inr [OF f] have p: "pkce_of_query (ap_libs ap) source q = Inr pkce" and "w1 = w"
    by simp_all
  with k have j: "jar' = login_cookies (combined_state
        (secret_src (snd (?ev pkce w)) (drawn (snd (?ev pkce w)))) source pkce) pkce jar"
    by (simp add: ignoreE_def bindE_def draw_secret_def returnOk_def)
  define csrf where "csrf = secret_src (snd (?ev pkce w)) (drawn (snd (?ev pkce w)))"
  have "secret_src (snd (?ev pkce w)) = secret_src w" by (rule keepsD [OF keeps_secrets])
  then have c: "CHR '':'' \<notin> set csrf" using assms(2) by (simp add: csrf_def)
  have m: "map_of jar' ''oauth_state'' = Some (combined_state csrf source pkce)"
    by (auto simp: j csrf_def login_cookies_def Let_def update_conv' split: option.split)
  let ?parts = "split_on (CHR '':'') (source @ (case pkce of None \<Rightarrow> [] | Some (c, _) \<Rightarrow> '':'' @ c))"
  have "length ?parts \<noteq> 1" if h: "hd ?parts = ''mobile''"
  proof
    assume "length ?parts = 1"
    then obtain x where x: "?parts = [x]" by (auto simp: length_Suc_conv)
    note x' = split_on_single [OF x]
    have n: "pkce = None"
      using x' [THEN conjunct2] by (cases pkce) auto
    have s: "x = source" using x' [THEN conjunct1] by (simp add: n)
    from h s have "source = ''mobile''" by (simp only: x list.sel)
    with p have "pkce \<noteq> None" using pkce_of_mobile by blast
    with n show False by simp
  qed
  then show ?thesis
    unfolding m using combined_state_parts [OF c, of source pkce] by (auto simp: Let_def)
qed

text \<open>C14: a callback completes only for the state the browser's cookie holds and, when this state
  carries a challenge, only with a verifier cookie that answers it.\<close>

theorem callback_checks_state_and_challenge:
  assumes "google_callback ap ip jar q w = (Inr r, w')"
  shows "\<exists>st. map_of jar ''oauth_state'' = Some (gcq_state q) \<and> parse_oauth_state (gcq_state q) = Inr st
    \<and> (\<forall>ch. os_code_challenge st = Some ch \<longrightarrow> (\<exists>v. map_of jar ''oauth_pkce_verifier'' = Some v
          \<and> verify_pkce_challenge (ap_libs ap) v ch
          \<and> lib_google (ap_libs ap) (gcq_code q) (Some v) \<noteq> None))"
proof -
  from assms obtain s where s: "map_of jar ''oauth_state'' = Some s" "s = gcq_state q"
    and k: "(case parse_oauth_state s of Inl _ \<Rightarrow> False | Inr st \<Rightarrow>
       check_pkce (ap_libs ap) (os_code_challenge st) (map_of jar ''oauth_pkce_verifier'') = Inr ()
       \<and> lib_google (ap_libs ap) (gcq_code q) (map_of jar ''oauth_pkce_verifier'') \<noteq> None)"
    unfolding google_callback_def Let_def
    by (elim run_InrE) (auto simp: ignoreE_def throwErr_def split: sum.splits if_splits
        elim!: run_InrE dest!: from_sum_Inr)
  then show ?thesis
    by (auto simp: check_pkce_def split: sum.splits option.splits if_splits)
qed

section \<open>Logout\<close>

lemma record_event_keeps_db:
  assumes "\<And>d es. g (d\<lparr>db_security_events := es\<rparr>) = g d"
  shows "keeps (\<lambda>w. g (db w)) (record_event t u i r a m)"
  unfolding record_event_def
  by (intro keeps_rules keeps_db_write keeps_db_part)
    (auto simp: insert_security_event_def assms)

lemma record_event_no_faults [preserves_rules]:
  "preserves (\<lambda>w. faults w = []) (record_event t u i r a m)"
  unfolding record_event_def by (intro preserves_rules)

lemma no_faults_ban_check [preserves_rules]:
  "preserves (\<lambda>w. faults w = []) (require_not_banned cf u)"
  unfolding require_not_banned_def ensure_user_not_banned_def enforce_def is_user_banned_internal_def
    read_cache_entry_def is_user_banned_uncached_def query_active_user_ban_def write_cache_entry_def
    delete_cache_key_def
  by (intro preserves_rules)

lemma preservesE: "preserves P m \<Longrightarrow> m w = (r, w') \<Longrightarrow> P w \<Longrightarrow> P w'"
  by (auto simp: preserves_def dest!: spec [where x = w])

definition logged_out :: "uuid \<Rightarrow> database \<Rightarrow> bool" where
  "logged_out u d \<longleftrightarrow> (\<forall>t \<in> set (db_refresh_tokens d). rt_user_id t \<noteq> u)
     \<and> (\<forall>s \<in> set (db_extension_sessions d). es_user_id s = u \<longrightarrow> es_revoked_at s \<noteq> None)"

lemma revoked_rows:
  "\<forall>s \<in> set (update_where (\<lambda>s. es_user_id s = u \<and> es_revoked_at s = None)
      (\<lambda>s. s\<lparr>es_revoked_at := Some n\<rparr>) ss). es_user_id s = u \<longrightarrow> es_revoked_at s \<noteq> None"
proof (intro ballI impI)
  fix s
  assume "s \<in> set (update_where (\<lambda>s. es_user_id s = u \<and> es_revoked_at s = None)
      (\<lambda>s. s\<lparr>es_revoked_at := Some n\<rparr>) ss)" and "es_user_id s = u"
  then obtain r where "s = (if es_user_id r = u \<and> es_revoked_at r = None
      then r\<lparr>es_revoked_at := Some n\<rparr> else r)"
    unfolding set_update_where by (elim imageE)
  then show "es_revoked_at s \<noteq> None" using \<open>es_user_id s = u\<close>
    by (cases "es_user_id r = u \<and> es_revoked_at r = None") auto
qed

lemma logged_out_after:
  assumes "faults w = []" and "logout_all u w = (Inr (), w1)"
    and "revoke_extension_sessions u w1 = (Inr (), w2)"
  shows "logged_out u (db w2)" and "faults w2 = []" and "clock w2 = clock w" and "kv w2 = kv w"
proof -
  from assms(1,2) have w1: "w1 = w\<lparr>db := delete_refresh_tokens (\<lambda>t. rt_user_id t = u) (db w)\<rparr>"
    by (simp add: logout_all_def)
  with assms(1,3) have w2: "w2 = w1\<lparr>db := (db w1)\<lparr>db_extension_sessions :=
      update_where (\<lambda>s. es_user_id s = u \<and> es_revoked_at s = None)
        (\<lambda>s. s\<lparr>es_revoked_at := Some (clock w1)\<rparr>) (db_extension_sessions (db w1))\<rparr>\<rparr>"
    by (simp add: revoke_extension_sessions_def bindE_def getsE_def)
  have "\<forall>t \<in> set (db_refresh_tokens (delete_refresh_tokens (\<lambda>t. rt_user_id t = u) d)). rt_user_id t \<noteq> u" for d
    unfolding delete_refresh_tokens_def Let_def by simp
  then have "\<forall>t \<in> set (db_refresh_tokens (db w2)). rt_user_id t \<noteq> u" by (simp add: w2 w1)
  moreover have "\<forall>s \<in> set (db_extension_sessions (db w2)). es_user_id s = u \<longrightarrow> es_revoked_at s \<noteq> None"
    using revoked_rows [of u "clock w1" "db_extension_sessions (db w1)"] by (simp only: w2) simp
  ultimately show "logged_out u (db w2)" by (simp add: logged_out_def)
  show "faults w2 = []" "clock w2 = clock w" "kv w2 = kv w" using assms(1) by (simp_all add: w1 w2)
qed

lemma logged_out_events: "logged_out u (d\<lparr>db_security_events := es\<rparr>) = logged_out u d"
  by (simp add: logged_out_def)

lemma logout_tail:
  assumes "faults w = []" and "logged_out (cl_sub c) (db w)"
    and "ignoreE (if now_secs w < cl_exp c then revoke_token (cl_jti c) (cl_exp c - now_secs w)
           else returnOk ())
        (ignoreE (record_event t u i r a m) (returnOk ())) w = ((Inr () :: api_error + unit), w')"
  shows "logged_out (cl_sub c) (db w')" and "faults w' = []"
    and "now_secs w < cl_exp c \<Longrightarrow> map_of (kv w') (revoked_key (cl_jti c))
           = Some (KText ''1'', Some (clock w + secs (int (cl_exp c - now_secs w))))"
proof -
  define w1 where "w1 = (if now_secs w < cl_exp c
    then kv_put (revoked_key (cl_jti c)) (KText ''1'') (Some (clock w + secs (int (cl_exp c - now_secs w)))) w
    else w)"
  have w': "w' = snd (record_event t u i r a m w1)"
    using assms(1,3) by (auto simp: ignoreE_def returnOk_def w1_def revoke_token_def bindE_def split: if_splits)
  have w1: "faults w1 = []" "logged_out (cl_sub c) (db w1)"
    using assms(1,2) by (simp_all add: w1_def)
  show "faults w' = []" unfolding w' by (rule preservesD [OF record_event_no_faults w1(1)])
  show "logged_out (cl_sub c) (db w')"
    unfolding w' using w1(2) keepsD [OF record_event_keeps_db [where g = "logged_out (cl_sub c)", OF logged_out_events],
      of t u i r a m w1]
    by simp
  show "map_of (kv w') (revoked_key (cl_jti c))
      = Some (KText ''1'', Some (clock w + secs (int (cl_exp c - now_secs w))))" if "now_secs w < cl_exp c"
    unfolding w' keepsD [OF keeps_record_event(1)]
    using that by (simp add: w1_def kv_put_def update_conv')
qed

lemma validate_token_run:
  "validate_token L t s w = (case decode_claims L True t s w of
      None \<Rightarrow> (Inl (OtherError ''jwt''), w) | Some c \<Rightarrow> (Inr c, w))"
  by (simp add: validate_token_def some_or_def action_defs split: option.split)

lemma logout_run:
  assumes "faults w = []" and "logout ap ip tok w = (Inr (), w')"
  obtains c where "decode_claims (ap_libs ap) True tok (cf_jwt_secret (ap_config ap)) w = Some c"
    and "logged_out (cl_sub c) (db w')" and "faults w' = []"
    and "now_secs w < cl_exp c \<longrightarrow> map_of (kv w') (revoked_key (cl_jti c))
           = Some (KText ''1'', Some (clock w + secs (int (cl_exp c - now_secs w))))"
proof -
  obtain c where d: "decode_claims (ap_libs ap) True tok (cf_jwt_secret (ap_config ap)) w = Some c"
    using assms(2) by (cases "decode_claims (ap_libs ap) True tok (cf_jwt_secret (ap_config ap)) w")
      (auto simp: logout_def Let_def bindErr_def validate_token_run)
  let ?ev = "record_event ''auth.logout'' (Some (cl_sub c)) (show_ip ip) None None (JObj [])"
  let ?k = "(\<lambda>w. ignoreE (if now_secs w < cl_exp c then revoke_token (cl_jti c) (cl_exp c - now_secs w)
        else returnOk ()) (ignoreE ?ev (returnOk ())) w) :: unit api"
  have v: "validate_token (ap_libs ap) tok (cf_jwt_secret (ap_config ap)) w = (Inr c, w)"
    by (simp add: validate_token_run d)
  have rv: "(is_revoked (cl_jti c) :: bool api) w = (Inr (kv_live w (revoked_key (cl_jti c)) \<noteq> None), w)"
    by (rule is_revoked_run [OF assms(1)])
  from assms(2) obtain w3 w4 w5 where b: "require_not_banned (ap_config ap) (cl_sub c) w = (Inr (), w3)"
    and l: "logout_all (cl_sub c) w3 = (Inr (), w4)"
    and e: "revoke_extension_sessions (cl_sub c) w4 = (Inr (), w5)"
    and k: "?k w5 = (Inr (), w')"
    unfolding logout_def Let_def callE_def
    by (simp add: bindErr_def [of _ "validate_token _ _ _"] v bindE_def [of "is_revoked _"] rv)
      (elim guardE_InrE bindE_InrE bindErr_InrE, auto dest: getsE_Inr)
  have c3: "clock w3 = clock w" by (rule keepsE [OF keeps_require_not_banned(2) b])
  have f3: "faults w3 = []" by (rule preservesE [OF no_faults_ban_check b assms(1)])
  note lo = logged_out_after [OF f3 l e]
  have n: "now_secs w5 = now_secs w" by (simp add: now_secs_def lo(3) c3)
  have k': "ignoreE (if now_secs w5 < cl_exp c then revoke_token (cl_jti c) (cl_exp c - now_secs w5)
           else returnOk ()) (ignoreE ?ev (returnOk ())) w5 = ((Inr () :: api_error + unit), w')"
    using k by simp
  note t = logout_tail [OF lo(2) lo(1) k']
  show thesis using that [OF d t(1,2)] t(3) by (simp add: n lo(3) c3)
qed

text \<open>C23: a completed logout leaves the user no refresh token and no open extension session, and
  the access token it was called with counts as revoked until its expiry.\<close>

theorem logout_ends_every_session:
  assumes "faults w = []" and "0 \<le> clock w" and "logout ap ip tok w = (Inr (), w')"
  shows "\<exists>c. decode_claims (ap_libs ap) True tok (cf_jwt_secret (ap_config ap)) w = Some c
    \<and> logged_out (cl_sub c) (db w')
    \<and> (\<forall>t. now_secs w < cl_exp c \<longrightarrow> timestamp t < int (cl_exp c)
          \<longrightarrow> kv_live (w'\<lparr>clock := t\<rparr>) (revoked_key (cl_jti c)) = Some (KText ''1''))"
proof -
  obtain c where d: "decode_claims (ap_libs ap) True tok (cf_jwt_secret (ap_config ap)) w = Some c"
    and l: "logged_out (cl_sub c) (db w')" and "faults w' = []"
    and m: "now_secs w < cl_exp c \<longrightarrow> map_of (kv w') (revoked_key (cl_jti c))
           = Some (KText ''1'', Some (clock w + secs (int (cl_exp c - now_secs w))))"
    by (rule logout_run [OF assms(1,3)])
  have "kv_live (w'\<lparr>clock := t\<rparr>) (revoked_key (cl_jti c)) = Some (KText ''1'')"
    if "now_secs w < cl_exp c" and "timestamp t < int (cl_exp c)" for t
  proof -
    have "t < clock w + secs (int (cl_exp c - now_secs w))"
      using that assms(2)
      by (simp add: now_secs_def timestamp_def secs_def nanos_per_sec_def pos_imp_zdiv_nonneg_iff)
    then show ?thesis by (simp add: kv_live_def m [rule_format, OF that(1)])
  qed
  with d l show ?thesis by blast
qed

text \<open>The default leeway of \<^verbatim>\<open>jsonwebtoken\<close>: a token keeps decoding for sixty seconds after it
  expired.\<close>

definition jwt_leeway :: "libs \<Rightarrow> bool" where
  "jwt_leeway L \<longleftrightarrow> (\<forall>t s n m j e. lib_jwt_decode L True n t s = Some j \<longrightarrow> nat_field ''exp'' j = Some e
      \<longrightarrow> n \<le> m \<longrightarrow> m \<le> int (e + 60) \<longrightarrow> lib_jwt_decode L True m t s = Some j)"

lemma exp_of_claims: "claims_of_json j = Some c \<Longrightarrow> nat_field ''exp'' j = Some (cl_exp c)"
  by (auto simp: claims_of_json_def Option.bind_eq_Some_conv)

lemma decode_claims_later:
  assumes "jwt_leeway L" and "decode_claims L True t s w = Some c"
    and "timestamp (clock w) \<le> timestamp (clock w')"
    and "timestamp (clock w') \<le> int (cl_exp c + 60)"
  shows "decode_claims L True t s w' = Some c"
proof -
  from assms(2) obtain j where "lib_jwt_decode L True (timestamp (clock w)) t s = Some j"
    and j: "claims_of_json j = Some c"
    by (auto simp: decode_claims_def Option.bind_eq_Some_conv)
  with assms(1,3,4) exp_of_claims [OF j]
  have "lib_jwt_decode L True (timestamp (clock w')) t s = Some j"
    unfolding jwt_leeway_def by blast
  with j show ?thesis by (simp add: decode_claims_def)
qed

text \<open>The revocation of a logout ends with the expiry of the access token, but the token is
  accepted for a minute more, so in this minute the logged-out token opens sessions again.\<close>

theorem logged_out_token_works_again:
  assumes "jwt_leeway (ap_libs ap)"
    and "faults w = []" and "logout ap ip tok w = (Inr (), w')"
    and "decode_claims (ap_libs ap) True tok (cf_jwt_secret (ap_config ap)) w = Some c"
    and "now_secs w < cl_exp c" and "clock w + secs (int (cl_exp c - now_secs w)) \<le> t"
    and "timestamp t \<le> int (cl_exp c + 60)" and "rq_bearer rq = Some tok"
    and "result (ensure_user_not_banned (ap_config ap) (cl_sub c) (w'\<lparr>clock := t\<rparr>)) = Inr ()"
  shows "result (extract_session_user_id ap rq (w'\<lparr>clock := t\<rparr>)) = Inr (cl_sub c)"
proof -
  let ?w = "w'\<lparr>clock := t\<rparr>"
  from logout_run [OF assms(2,3)] assms(4,5) have f: "faults w' = []"
    and m: "map_of (kv w') (revoked_key (cl_jti c))
           = Some (KText ''1'', Some (clock w + secs (int (cl_exp c - now_secs w))))"
    by auto
  have "clock w \<le> t" using assms(6) by (simp add: secs_def nanos_per_sec_def)
  then have d: "decode_claims (ap_libs ap) True tok (cf_jwt_secret (ap_config ap)) ?w = Some c"
    using assms(7) by (intro decode_claims_later [OF assms(1,4)]) (simp_all add: timestamp_mono)
  have "kv_live ?w (revoked_key (cl_jti c)) = None"
    using assms(6) by (simp add: kv_live_def m)
  then have r: "(is_revoked (cl_jti c) :: bool api) ?w = (Inr False, ?w)"
    using f by (subst is_revoked_run) simp_all
  obtain w3 where "ensure_user_not_banned (ap_config ap) (cl_sub c) ?w = (Inr (), w3)"
    using assms(9) by (metis prod.collapse)
  then show ?thesis
    using assms(8) d r
    by (simp add: extract_session_user_id_def bindErr_def verify_jwt_run bindE_def
        require_not_banned_def mapErr_def returnOk_def)
qed

section \<open>Extension sessions\<close>

lemma timestamp_add: "t < s + secs n \<Longrightarrow> timestamp t \<le> timestamp s + n"
  by (simp add: timestamp_def secs_def nanos_per_sec_def)

lemma find_new: "(\<forall>x \<in> set xs. \<not> p x) \<Longrightarrow> p y \<Longrightarrow> find p (xs @ [y]) = Some y"
  by (induction xs) auto

lemma create_extension_session_run:
  assumes "faults w = []" and "create_extension_session ap u p w = (Inr r, w')"
  obtains dev plat w1 where "create_extension_access_token (ap_libs ap) u (esp_session_jti r) plat dev
      (esp_scope r) (cf_jwt_secret (ap_config ap)) (cf_extension_token_ttl_secs (ap_config ap)) w1
        = (Inr (esp_extension_access_token r), w')"
    and "clock w1 = clock w" and "faults w' = []" and "clock w' = clock w"
    and "find (\<lambda>s. es_jti s = esp_session_jti r \<and> es_user_id s = u \<and> es_revoked_at s = None)
      (db_extension_sessions (db w')) = Some \<lparr> es_jti = esp_session_jti r, es_user_id = u,
        es_device_id_hash = dev, es_platform = plat, es_scope = esp_scope r, es_issued_at = clock w,
        es_expires_at = clock w + secs (int (cf_extension_token_ttl_secs (ap_config ap))),
        es_revoked_at = None \<rparr>"
proof -
  let ?cf = "ap_config ap" and ?plat = "to_ascii_lowercase (trim (esr_platform p))"
    and ?dev = "trim (esr_device_id_hash p)"
  let ?row = "\<lambda>j sc. \<lparr> es_jti = j, es_user_id = u, es_device_id_hash = ?dev, es_platform = ?plat,
      es_scope = sc, es_issued_at = clock w,
      es_expires_at = clock w + secs (int (cf_extension_token_ttl_secs ?cf)), es_revoked_at = None \<rparr>"
  let ?w1 = "w\<lparr>drawn := Suc (drawn w)\<rparr>" and ?j = "uuid_src w (drawn w)"
  from assms(2) obtain sc tok w2 where
    i: "db_write (insert_extension_session (?row ?j sc)) ?w1 = (Inr (), w2)"
    and c: "create_extension_access_token (ap_libs ap) u ?j ?plat ?dev sc (cf_jwt_secret ?cf)
        (cf_extension_token_ttl_secs ?cf) w2 = (Inr tok, w')"
    and r: "r = \<lparr> esp_extension_access_token = tok,
        esp_expires_in_seconds = cf_extension_token_ttl_secs ?cf, esp_session_jti = ?j, esp_scope = sc \<rparr>"
    unfolding create_extension_session_def Let_def callE_def
    by (elim guardE_InrE bindE_InrE bindErr_InrE)
      (auto dest!: from_sum_Inr getsE_Inr simp: new_v4_def returnOk_def)
  have w': "w' = w2" using c unfolding create_extension_access_token_def Let_def some_or_def
    by (auto dest!: run_Inr simp: getsE_def returnOk_def)
  from i assms(1) have fresh: "\<not> list_ex (\<lambda>q. es_jti q = ?j) (db_extension_sessions (db w))"
    and w2: "w2 = ?w1\<lparr>db := (db w)\<lparr>db_extension_sessions := db_extension_sessions (db w) @ [?row ?j sc]\<rparr>\<rparr>"
    by (auto simp: insert_extension_session_def split: sum.splits)
  have "find (\<lambda>s. es_jti s = ?j \<and> es_user_id s = u \<and> es_revoked_at s = None)
      (db_extension_sessions (db w2)) = Some (?row ?j sc)"
    using fresh by (simp add: w2 find_new list_ex_iff)
  with c show thesis using that [of ?plat ?dev w2] assms(1) by (simp add: r w' w2)
qed

text \<open>C39: the token of a new extension session is accepted until the session ends, for the user,
  the session and exactly the scopes it was created with, as long as the user is in good
  standing.\<close>

theorem extension_session_authenticates:
  assumes "jwt_roundtrip (ap_libs ap)" and "faults w = []"
    and "create_extension_session ap u p w = (Inr r, w')"
    and "t < clock w + secs (int (cf_extension_token_ttl_secs (ap_config ap)))"
    and "rq_bearer rq = Some (esp_extension_access_token r)"
    and "kv_live (w'\<lparr>clock := t\<rparr>) (user_cache_key u) = None"
    and "\<not> user_banned_in_db t u (db w')"
    and "find (\<lambda>x. u_id x = u) (db_users (db w')) = Some x"
    and "u_deleted_at x = None" and "onboarded (ap_config ap) x"
  shows "\<exists>ea. result (extension_auth_of ap rq (w'\<lparr>clock := t\<rparr>)) = Inr ea
    \<and> ea_user_id ea = u \<and> ea_session_jti ea = esp_session_jti r
    \<and> (\<forall>sc. has_scope ea sc \<longleftrightarrow> sc \<in> set (esp_scope r))"
proof -
  let ?cf = "ap_config ap" and ?w = "w'\<lparr>clock := t\<rparr>"
  obtain dev plat w1 where c: "create_extension_access_token (ap_libs ap) u (esp_session_jti r) plat dev
      (esp_scope r) (cf_jwt_secret ?cf) (cf_extension_token_ttl_secs ?cf) w1
        = (Inr (esp_extension_access_token r), w')"
    and w1: "clock w1 = clock w" and f: "faults w' = []" and "clock w' = clock w"
    and s: "find (\<lambda>s. es_jti s = esp_session_jti r \<and> es_user_id s = u \<and> es_revoked_at s = None)
      (db_extension_sessions (db w')) = Some \<lparr> es_jti = esp_session_jti r, es_user_id = u,
        es_device_id_hash = dev, es_platform = plat, es_scope = esp_scope r, es_issued_at = clock w,
        es_expires_at = clock w + secs (int (cf_extension_token_ttl_secs ?cf)),
        es_revoked_at = None \<rparr>"
    by (rule create_extension_session_run [OF assms(2,3)])
  define ec where "ec = \<lparr> ec_sub = u, ec_jti = esp_session_jti r,
    ec_exp = now_secs w1 + cf_extension_token_ttl_secs ?cf, ec_iat = now_secs w1,
    ec_scope = esp_scope r, ec_platform = plat, ec_device_id_hash = dev, ec_token_use = ''extension'' \<rparr>"
  have sg: "lib_jwt_sign (ap_libs ap) (extension_claims_json ec) (cf_jwt_secret ?cf)
      = Some (esp_extension_access_token r)"
    using create_extension_Inr [OF c] by (simp add: ec_def)
  have "timestamp t \<le> int (now_secs w1 + cf_extension_token_ttl_secs ?cf)"
    using timestamp_add [OF assms(4)] by (simp add: now_secs_def w1)
  then have dec: "lib_jwt_decode (ap_libs ap) True (timestamp t) (esp_extension_access_token r)
      (cf_jwt_secret ?cf) = Some (extension_claims_json ec)"
    using assms(1) sg exp_of_extension_json [of ec] by (simp add: jwt_roundtrip_def ec_def)
  have v: "verify_extension_jwt (ap_libs ap) (esp_extension_access_token r) (cf_jwt_secret ?cf) ?w
      = (Inr ec, ?w)"
    by (simp add: verify_extension_jwt_def action_defs some_or_def dec) (simp add: ec_def)
  have b: "require_not_banned ?cf u ?w = (Inr (), kv_put (user_cache_key u) (KBan no_ban_entry)
      (Some (t + secs (int (max (cf_ban_user_cache_negative_ttl_secs ?cf) 1)))) ?w)"
    using not_banned_run [of ?w u ?cf] f assms(6,7) by simp
  let ?w2 = "kv_put (user_cache_key u) (KBan no_ban_entry)
      (Some (t + secs (int (max (cf_ban_user_cache_negative_ttl_secs ?cf) 1)))) ?w"
  have b2: "require_not_banned ?cf u ?w2 = (Inr (), ?w2)"
    using f by (intro not_banned_cached_run) (simp_all add: kv_live_put secs_def nanos_per_sec_def)
  have o: "ensure_user_onboarding_complete ?cf u ?w2 = (Inr (), ?w2)"
    using f assms(8-10) b2 by (simp add: ensure_user_onboarding_complete_def bindE_def callE_def
        bindErr_def find_user_run returnOk_def)
  let ?ea = "\<lparr> ea_user_id = u, ea_session_jti = esp_session_jti r, ea_platform = plat,
    ea_device_id_hash = dev, ea_scope = esp_scope r \<rparr>"
  have e: "ec_jti ec = esp_session_jti r" "ec_sub ec = u" by (simp_all add: ec_def)
  have "result (extension_auth_of ap rq ?w) = Inr ?ea"
    using assms(4,5) f s v b o
    by (simp add: extension_auth_of_def bindErr_def callE_def bindE_def find_extension_session_def
        getsE_def returnOk_def e)
  then show ?thesis by (auto simp: has_scope_def list_ex_iff)
qed

section \<open>Signup\<close>

text \<open>A key that no call of a run names keeps its entry.\<close>

definition holds_entry ::
  "string \<Rightarrow> (kv_value \<times> time option) option \<Rightarrow> time \<Rightarrow> world \<Rightarrow> bool" where
  "holds_entry k x c w \<longleftrightarrow> faults w = [] \<and> clock w = c \<and> map_of (kv w) k = x"

lemma holds_entry_external:
  "(\<And>w. faults (snd (f w)) = faults w) \<Longrightarrow> (\<And>w. clock (snd (f w)) = clock w)
     \<Longrightarrow> (\<And>w. map_of (kv (snd (f w))) k = map_of (kv w) k)
     \<Longrightarrow> preserves (holds_entry k x c) (external err f)"
  by (auto simp: preserves_def holds_entry_def external.simps split: list.splits fault.splits)

lemma map_of_kv_put [simp]:
  "map_of (kv (kv_put k v t w)) k' = (if k' = k then Some (v, t) else map_of (kv w) k')"
  by (simp add: kv_put_def update_conv')

lemma map_of_kv_drop [simp]:
  "map_of (kv (kv_drop k w)) k' = (if k' = k then None else map_of (kv w) k')"
  by (simp add: kv_drop_def delete_conv')

lemma holds_entry_calls [preserves_rules]:
  "preserves (holds_entry k x c) get_conn" "preserves (holds_entry k x c) (kv_get k')"
  "preserves (holds_entry k x c) (kv_get_u64 k')" "preserves (holds_entry k x c) (db_read g)"
  "preserves (holds_entry k x c) (db_write h)"
  unfolding kv_defs db_read_def db_write_def
  by (rule holds_entry_external; simp split: option.split sum.split)+

lemma holds_entry_writes:
  assumes "k' \<noteq> k"
  shows "preserves (holds_entry k x c) (kv_set_ex k' y n)" "preserves (holds_entry k x c) (kv_del k')"
    "preserves (holds_entry k x c) (kv_incr k' i)" "preserves (holds_entry k x c) (kv_expire k' j)"
    "preserves (holds_entry k x c) (kv_set_nx_ex k' y n)"
  unfolding kv_defs
  by (rule holds_entry_external; use assms in \<open>simp split: option.split\<close>)+

lemma holds_entry_draws [preserves_rules]:
  "preserves (holds_entry k x c) new_v4" "preserves (holds_entry k x c) draw_secret"
  by (simp_all add: preserves_def holds_entry_def new_v4_def draw_secret_def)

lemma holds_entry_record [preserves_rules]:
  "preserves (holds_entry k x c) (record_event t u i r a m)"
  unfolding record_event_def by (intro preserves_rules)

lemma holds_entry_limit:
  assumes "k' \<noteq> k"
  shows "preserves (holds_entry k x c) (check_and_increment bypass k' n win)"
  unfolding check_and_increment_def check_and_increment_conn_def incr_and_expire_def
    kv_incr_u64_def Let_def
  by (intro preserves_rules holds_entry_writes [OF assms])

lemma signup_keys_differ [simp]:
  "signup_ticket_key a \<noteq> signup_result_key b" "signup_result_key b \<noteq> signup_ticket_key a"
  "signup_result_key b \<noteq> signup_lock_key a" "signup_lock_key a \<noteq> signup_result_key b"
  "username_signup_ip_key a \<noteq> signup_result_key b" "username_signup_ticket_key a \<noteq> signup_result_key b"
  by (simp_all add: signup_ticket_key_def signup_lock_key_def signup_result_key_def
      username_signup_ip_key_def username_signup_ticket_key_def)

lemma read_signup_result_run:
  "faults w = [] \<Longrightarrow> read_signup_result t w = (Inr (Option.bind (kv_live w (signup_result_key t)) as_auth), w)"
  by (simp add: read_signup_result_def action_defs)

lemma no_faults_register [preserves_rules]:
  "preserves (\<lambda>w. faults w = []) (register_with_username L i)"
  unfolding register_with_username_def username_exists_case_insensitive_def user_by_google_id_def
    store_registered_user_def issue_tokens_for_user_def create_access_token_def
    generate_refresh_token_def hash_token_def some_or_def Let_def
  by (intro preserves_rules)

lemma keeps_kv_register [keeps_rules]:
  "keeps kv (register_with_username L i)" "keeps clock (register_with_username L i)"
  unfolding register_with_username_def username_exists_case_insensitive_def user_by_google_id_def
    store_registered_user_def issue_tokens_for_user_def create_access_token_def
    generate_refresh_token_def hash_token_def some_or_def Let_def
  by (intro keeps_rules; simp add: keeps_def new_v4_def draw_secret_def)+

lemma keeps_issue_users [keeps_rules]: "keeps (\<lambda>w. db_users (db w)) (issue_tokens_for_user L u s a r)"
  unfolding issue_tokens_for_user_def create_access_token_def generate_refresh_token_def
    hash_token_def some_or_def Let_def
  by (intro keeps_rules keeps_db_write keeps_db_part) (auto simp: insert_refresh_token_def)

lemma update_user_Inr:
  "update_user i f d = Inr d' \<Longrightarrow> db_users d' = update_where (\<lambda>r. u_id r = i) f (db_users d)"
  by (auto simp: update_user_def split: option.splits sum.splits)

lemma insert_user_Inr: "insert_user u d = Inr d' \<Longrightarrow> db_users d' = db_users d @ [u]"
  by (auto simp: insert_user_def split: sum.splits)

lemma db_write_Inr: "db_write g w = (Inr (), w') \<Longrightarrow> \<exists>d. g (db w) = Inr d \<and> db w' = d"
  by (auto simp: db_write_def external.simps split: list.splits fault.splits sum.splits)

text \<open>What a registration stores.\<close>

definition registered_as :: "register_input \<Rightarrow> user \<Rightarrow> bool" where
  "registered_as input u \<longleftrightarrow> u_username u = ri_username input
     \<and> u_username_normalized u = Some (ri_username_normalized input)
     \<and> u_google_id u = gu_id (ri_google_user input)
     \<and> u_age_confirmed_at u \<noteq> None \<and> u_terms_accepted_at u \<noteq> None
     \<and> u_terms_accepted_version u = Some (ri_terms_version input) \<and> u_deleted_at u = None"

lemma store_registered_user_Inr:
  assumes "store_registered_user input existing w = (Inr u, w')"
    and "\<forall>x. existing = Some x \<longrightarrow> x \<in> set (db_users (db w)) \<and> u_google_id x = gu_id (ri_google_user input)"
  shows "u \<in> set (db_users (db w')) \<and> registered_as input u"
proof (cases existing)
  case None
  with assms(1) obtain now i w1 where u: "u = registered_user input i now"
    and "db_write (insert_user u) w1 = (Inr (), w')"
    unfolding store_registered_user_def by (auto elim!: run_InrE simp: returnOk_def)
  then show ?thesis
    by (auto dest!: db_write_Inr insert_user_Inr simp: registered_as_def registered_user_def)
next
  case (Some x)
  with assms obtain now where u: "u = registered_again input now x"
    and wr: "db_write (update_user (u_id x) (registered_again input now)) w = (Inr (), w')"
    and x: "x \<in> set (db_users (db w))" "u_google_id x = gu_id (ri_google_user input)"
    unfolding store_registered_user_def by (auto elim!: run_InrE dest!: getsE_Inr simp: returnOk_def)
  from wr have "db_users (db w') = update_where (\<lambda>r. u_id r = u_id x) (registered_again input now) (db_users (db w))"
    by (auto dest!: db_write_Inr update_user_Inr)
  then have "u \<in> set (db_users (db w'))"
    using x(1) by (simp only: set_update_where u) (rule image_eqI [where x = x]; simp)
  moreover have "registered_as input u" using x(2) by (simp add: u registered_as_def registered_again_def)
  ultimately show ?thesis ..
qed

lemma keeps_user_by_google_id [keeps_rules]: "keeps db (user_by_google_id g)"
  unfolding user_by_google_id_def by (intro keeps_rules)

lemma register_Inr:
  assumes "register_with_username L input w = (Inr (a, r, u), w')"
  shows "u \<in> set (db_users (db w')) \<and> registered_as input u"
proof -
  obtain ex w1 w2 w3 where g: "user_by_google_id (gu_id (ri_google_user input)) w1 = (Inr ex, w2)"
    and s: "store_registered_user input ex w2 = (Inr u, w3)"
    and t: "issue_tokens_for_user L u (ri_jwt_secret input) (ri_access_token_ttl_secs input)
        (ri_refresh_token_ttl_days input) w3 = (Inr (a, r), w')"
    using assms unfolding register_with_username_def
    by (elim guardE_InrE bindE_InrE bindErr_InrE) (auto simp: returnOk_def split: prod.splits)
  have "db w2 = db w1"
    by (rule keepsE [where f = db, OF keeps_user_by_google_id g])
  then have "\<forall>x. ex = Some x \<longrightarrow> x \<in> set (db_users (db w2)) \<and> u_google_id x = gu_id (ri_google_user input)"
    using db_read_Inr [OF g [unfolded user_by_google_id_def]] by (auto dest!: find_Some_set)
  from store_registered_user_Inr [OF s this] keepsE [OF keeps_issue_users t] show ?thesis by simp
qed

lemma signup_locked_fresh:
  assumes "faults w = []" and "kv_live w (signup_result_key (scr_signup_ticket p)) = None"
    and "signup_locked ap ci p v w = (Inr resp, w')"
  obtains td a r u w1 where "register_with_username (ap_libs ap)
      (signup_input (ap_config ap) td v (scr_terms_version p)) w = (Inr (a, r, u), w1)"
    and "resp = \<lparr> aur_access_token = a, aur_refresh_token = r,
           aur_user = from_user_model u (cf_terms_current_version (ap_config ap)) \<rparr>"
    and "db_users (db w') = db_users (db w1)"
    and "holds_entry (signup_result_key (scr_signup_ticket p)) (Some (KAuth resp, Some (clock w + secs 600))) (clock w) w'"
proof -
  let ?t = "scr_signup_ticket p" and ?cf = "ap_config ap"
  have r0: "(read_signup_result ?t :: (world, api_error, auth_response option) action) w = (Inr None, w)"
    using assms(1,2) by (simp add: read_signup_result_run)
  have t0: "(read_signup_ticket ?t :: (world, api_error, signup_ticket_data option) action) w
      = (Inr (Option.bind (kv_live w (signup_ticket_key ?t)) as_ticket), w)"
    using assms(1) by (simp add: read_signup_ticket_def action_defs)
  obtain td a r u w1 where reg: "register_with_username (ap_libs ap)
      (signup_input ?cf td v (scr_terms_version p)) w = (Inr (a, r, u), w1)"
    and k: "(let response = \<lparr> aur_access_token = a, aur_refresh_token = r,
                 aur_user = from_user_model u (cf_terms_current_version ?cf) \<rparr> in
        ignoreE (write_signup_result ?t response)
       (ignoreE (delete_signup_ticket ?t)
       (ignoreE (record_event ''auth.signup_complete'' (Some (u_id u)) ci None None
                   (JObj [(''signup_ticket'', JStr ?t)]))
          (returnOk response)))) w1 = ((Inr resp :: api_error + auth_response), w')"
    using assms(3) unfolding signup_locked_def Let_def
    by (simp add: bindE_def r0 t0) (elim okOrE_InrE bindErr_InrE, auto split: prod.splits)
  let ?resp = "\<lparr> aur_access_token = a, aur_refresh_token = r,
                 aur_user = from_user_model u (cf_terms_current_version ?cf) \<rparr>"
  let ?ev = "record_event ''auth.signup_complete'' (Some (u_id u)) ci None None
                   (JObj [(''signup_ticket'', JStr ?t)])"
  have f1: "faults w1 = []" by (rule preservesE [OF no_faults_register reg assms(1)])
  have c1: "clock w1 = clock w" by (rule keepsE [OF keeps_kv_register(2) reg])
  define w2 where "w2 = kv_drop (signup_ticket_key ?t)
     (kv_put (signup_result_key ?t) (KAuth ?resp) (Some (clock w1 + secs 600)) w1)"
  have w': "w' = snd (?ev w2)" and resp: "resp = ?resp"
    using k f1 by (auto simp: Let_def ignoreE_def write_signup_result_def delete_signup_ticket_def
        bindE_def signup_result_ttl_secs_def returnOk_def w2_def)
  have "holds_entry (signup_result_key ?t) (Some (KAuth ?resp, Some (clock w + secs 600))) (clock w) w2"
    using f1 by (simp add: holds_entry_def w2_def c1)
  then have h: "holds_entry (signup_result_key ?t) (Some (KAuth resp, Some (clock w + secs 600))) (clock w) w'"
    unfolding w' resp by (rule preservesD [OF holds_entry_record])
  have "db_users (db w') = db_users (db w2)"
    unfolding w' by (rule keepsD [OF record_event_users])
  then have "db_users (db w') = db_users (db w1)" by (simp add: w2_def)
  from that [OF reg resp this h] show thesis .
qed

lemma holds_entry_limited:
  assumes "k' \<noteq> k" and "holds_entry k x c w"
    and "limited (check_and_increment bypass k' n win) e m w = (Inr r, w')"
  obtains w1 where "holds_entry k x c w1" and "m w1 = (Inr r, w')"
proof -
  obtain v w1 where v: "check_and_increment bypass k' n win w = (v, w1)" by fastforce
  have "holds_entry k x c w1" by (rule preservesE [OF holds_entry_limit [OF assms(1)] v assms(2)])
  moreover have "m w1 = (Inr r, w')"
    using assms(3) v by (auto simp: limited_def catchE_def throwErr_def split: sum.splits)
  ultimately show thesis by (rule that)
qed

lemma holds_entry_live:
  "holds_entry k x c w \<Longrightarrow> kv_live w k = (case x of None \<Rightarrow> None | Some (v, None) \<Rightarrow> Some v
     | Some (v, Some t) \<Rightarrow> if c < t then Some v else None)"
  by (auto simp: holds_entry_def kv_live_def split: option.splits)

text \<open>What a request that is past validation and the limits goes on with.\<close>

lemma signup_complete_Inr:
  assumes "signup_complete ap bypass ip p w = (Inr resp, w')"
    and "holds_entry (signup_result_key (scr_signup_ticket p)) x c w"
  obtains v w1 where "validate_username (scr_username p) (ap_config ap) = Inr v"
    and "scr_terms_version p = cf_terms_current_version (ap_config ap)"
    and "holds_entry (signup_result_key (scr_signup_ticket p)) x c w1"
    and "bindE (read_signup_result (scr_signup_ticket p)) (\<lambda>existing. case existing of
          Some r \<Rightarrow> returnOk r | None \<Rightarrow> signup_under_lock ap (show_ip ip) p v) w1 = (Inr resp, w')"
proof -
  let ?cf = "ap_config ap" and ?t = "scr_signup_ticket p"
  let ?body = "\<lambda>v. bindE (read_signup_result ?t) (\<lambda>existing. case existing of
          Some r \<Rightarrow> returnOk r | None \<Rightarrow> signup_under_lock ap (show_ip ip) p v)"
  let ?lim2 = "\<lambda>v. limited (check_and_increment bypass (username_signup_ticket_key ?t)
          (cf_username_signup_attempts_per_ticket ?cf) signup_ticket_ttl_secs)
        (too_many_requests ''Too many username setup attempts for this signup session'') (?body v)"
  let ?lim1 = "\<lambda>v. limited (check_and_increment bypass (username_signup_ip_key (show_ip ip))
          (cf_username_signup_rpm_per_ip ?cf) 60)
        (too_many_requests ''Too many username setup attempts from this IP'') (?lim2 v)"
  from assms(1) obtain v where v: "validate_username (scr_username p) ?cf = Inr v"
    and t: "scr_terms_version p = cf_terms_current_version ?cf"
    and l: "?lim1 v w = (Inr resp, w')"
    unfolding signup_complete_def Let_def
    by (elim guardE_InrE bindE_InrE) (auto dest!: from_sum_Inr split: sum.splits)
  obtain w2 where h: "holds_entry (signup_result_key ?t) x c w2" and l2: "?lim2 v w2 = (Inr resp, w')"
    by (rule holds_entry_limited [OF _ assms(2) l]) simp_all
  obtain w3 where "holds_entry (signup_result_key ?t) x c w3" and "?body v w3 = (Inr resp, w')"
    by (rule holds_entry_limited [OF _ h l2]) simp_all
  from that [OF v t this] show thesis .
qed

lemma poll_signup_result_absent:
  assumes "faults w = []" and "map_of (kv w) (signup_result_key t) = x"
    and "case x of None \<Rightarrow> True | Some (v, None) \<Rightarrow> False | Some (v, Some e) \<Rightarrow> e \<le> clock w"
  shows "\<exists>e w'. poll_signup_result n t w = (Inl e, w')"
  using assms
proof (induction n arbitrary: w)
  case 0
  then show ?case by (simp add: throwErr_def)
next
  case (Suc n)
  let ?w = "w\<lparr>clock := clock w + 125000000\<rparr>"
  have "kv_live ?w (signup_result_key t) = None"
    using Suc.prems by (auto simp: kv_live_def split: option.splits)
  then have r: "(read_signup_result t :: (world, api_error, auth_response option) action) ?w = (Inr None, ?w)"
    using Suc.prems(1) by (subst read_signup_result_run) simp_all
  have "\<exists>e w'. poll_signup_result n t ?w = (Inl e, w')"
    using Suc.prems by (intro Suc.IH) (auto split: option.splits)
  then show ?case by (simp add: bindE_def modifyE_def r)
qed

lemma keeps_release_lock [keeps_rules]: "keeps db (release_signup_lock k v)"
  unfolding release_signup_lock_def by (intro keeps_rules keeps_external; simp)

lemma holds_entry_release:
  "k' \<noteq> k \<Longrightarrow> preserves (holds_entry k x c) (release_signup_lock k' v)"
  unfolding release_signup_lock_def by (intro preserves_rules holds_entry_external) simp_all

lemma signup_fresh:
  assumes "signup_complete ap bypass ip p w = (Inr resp, w')" and "faults w = []"
    and "kv_live w (signup_result_key (scr_signup_ticket p)) = None"
  obtains td a r u v wi wj where "validate_username (scr_username p) (ap_config ap) = Inr v"
    and "register_with_username (ap_libs ap)
      (signup_input (ap_config ap) td v (cf_terms_current_version (ap_config ap))) wi = (Inr (a, r, u), wj)"
    and "resp = \<lparr> aur_access_token = a, aur_refresh_token = r,
           aur_user = from_user_model u (cf_terms_current_version (ap_config ap)) \<rparr>"
    and "db_users (db w') = db_users (db wj)"
    and "holds_entry (signup_result_key (scr_signup_ticket p))
           (Some (KAuth resp, Some (clock w + secs 600))) (clock w) w'"
proof -
  let ?t = "scr_signup_ticket p" and ?cf = "ap_config ap"
  define x where "x = map_of (kv w) (signup_result_key ?t)"
  have h: "holds_entry (signup_result_key ?t) x (clock w) w"
    using assms(2) by (simp add: holds_entry_def x_def)
  have live: "kv_live wa (signup_result_key ?t) = None"
    if "holds_entry (signup_result_key ?t) x (clock w) wa" for wa
    using assms(3) holds_entry_live [OF that] holds_entry_live [OF h] by simp
  obtain v w1 where v: "validate_username (scr_username p) ?cf = Inr v"
    and t: "scr_terms_version p = cf_terms_current_version ?cf"
    and h1: "holds_entry (signup_result_key ?t) x (clock w) w1"
    and k: "bindE (read_signup_result ?t) (\<lambda>existing. case existing of
          Some r \<Rightarrow> returnOk r | None \<Rightarrow> signup_under_lock ap (show_ip ip) p v) w1 = (Inr resp, w')"
    by (rule signup_complete_Inr [OF assms(1) h])
  have f1: "faults w1 = []" and c1: "clock w1 = clock w" using h1 by (simp_all add: holds_entry_def)
  have "(read_signup_result ?t :: (world, api_error, auth_response option) action) w1 = (Inr None, w1)"
    using f1 live [OF h1] by (simp add: read_signup_result_run)
  with k have k: "signup_under_lock ap (show_ip ip) p v w1 = (Inr resp, w')" by (simp add: bindE_def)
  let ?k = "signup_lock_key ?t" and ?v = "uuid_src w1 (drawn w1)"
  let ?w2 = "w1\<lparr>drawn := Suc (drawn w1)\<rparr>"
  let ?w3 = "kv_put ?k (KText ?v) (Some (clock w1 + secs 15)) ?w2"
  have n: "(new_v4 :: (world, api_error, uuid) action) w1 = (Inr ?v, ?w2)" by (simp add: new_v4_def)
  have "kv_live w1 ?k = None"
  proof (rule ccontr)
    assume "kv_live w1 ?k \<noteq> None"
    then have "(take_signup_lock ?k ?v :: (world, api_error, signup_lock) action) ?w2 = (Inr Held_by_other, ?w2)"
      using f1 by (simp add: take_signup_lock_def action_defs kv_set_nx_ex_def signup_lock_ttl_secs_def)
    with k have pl: "poll_signup_result signup_lock_poll_retries ?t ?w2 = (Inr resp, w')"
      by (simp add: signup_under_lock_def Let_def bindE_def n)
    have "case x of None \<Rightarrow> True | Some (v, None) \<Rightarrow> False | Some (v, Some e) \<Rightarrow> e \<le> clock w"
      using live [OF h1] holds_entry_live [OF h1] by (auto split: option.splits if_splits)
    then have "\<exists>e w'. poll_signup_result signup_lock_poll_retries ?t ?w2 = (Inl e, w')"
      using h1 by (intro poll_signup_result_absent [where x = x])
        (simp_all add: holds_entry_def cong: option.case_cong)
    with pl show False by auto
  qed
  then have "(take_signup_lock ?k ?v :: (world, api_error, signup_lock) action) ?w2 = (Inr Acquired, ?w3)"
    using f1 by (simp add: take_signup_lock_def action_defs kv_set_nx_ex_def signup_lock_ttl_secs_def)
  with k have "finallyE (signup_locked ap (show_ip ip) p v) (release_signup_lock ?k ?v) ?w3 = (Inr resp, w')"
    by (simp add: signup_under_lock_def Let_def bindE_def n)
  then obtain w4 where s: "signup_locked ap (show_ip ip) p v ?w3 = (Inr resp, w4)"
    and w': "w' = snd (release_signup_lock ?k ?v w4)"
    by (auto simp: finallyE_def split: prod.splits)
  have h3: "holds_entry (signup_result_key ?t) x (clock w) ?w3"
    using h1 by (simp add: holds_entry_def)
  have f3: "faults ?w3 = []" and c3: "clock ?w3 = clock w" using f1 c1 by simp_all
  obtain td a r u wj where reg: "register_with_username (ap_libs ap)
      (signup_input ?cf td v (scr_terms_version p)) ?w3 = (Inr (a, r, u), wj)"
    and resp: "resp = \<lparr> aur_access_token = a, aur_refresh_token = r,
           aur_user = from_user_model u (cf_terms_current_version ?cf) \<rparr>"
    and us: "db_users (db w4) = db_users (db wj)"
    and h4: "holds_entry (signup_result_key ?t)
        (Some (KAuth resp, Some (clock ?w3 + secs 600))) (clock ?w3) w4"
    by (rule signup_locked_fresh [OF f3 live [OF h3] s])
  have "holds_entry (signup_result_key ?t) (Some (KAuth resp, Some (clock w + secs 600))) (clock w) w'"
    unfolding w' using h4 by (intro preservesD [OF holds_entry_release]) (simp_all add: c1)
  moreover have "db w' = db w4" unfolding w' by (rule keepsD [OF keeps_release_lock])
  ultimately show thesis using that [OF v reg [unfolded t] resp] us by simp
qed

lemma keeps_limit [keeps_rules]: "keeps db (check_and_increment bypass k n win)"
  unfolding check_and_increment_def check_and_increment_conn_def incr_and_expire_def
    kv_incr_u64_def Let_def
  by (intro keeps_rules)

text \<open>A completed signup leaves an account under the chosen name that is onboarded for the
  terms in force and not deleted, and the answer describes this account.\<close>

theorem signup_creates_onboarded_account:
  assumes "signup_complete ap bypass ip p w = (Inr resp, w')" and "faults w = []"
    and "kv_live w (signup_result_key (scr_signup_ticket p)) = None"
  shows "\<exists>u \<in> set (db_users (db w')). u_username u = scr_username p
    \<and> u_username_normalized u = Some (scr_username p) \<and> wellformed_username (scr_username p)
    \<and> u_deleted_at u = None \<and> onboarded (ap_config ap) u
    \<and> aur_user resp = from_user_model u (cf_terms_current_version (ap_config ap))"
proof -
  obtain td a r u v wi wj where v: "validate_username (scr_username p) (ap_config ap) = Inr v"
    and reg: "register_with_username (ap_libs ap)
      (signup_input (ap_config ap) td v (cf_terms_current_version (ap_config ap))) wi = (Inr (a, r, u), wj)"
    and resp: "resp = \<lparr> aur_access_token = a, aur_refresh_token = r,
           aur_user = from_user_model u (cf_terms_current_version (ap_config ap)) \<rparr>"
    and us: "db_users (db w') = db_users (db wj)"
    and "holds_entry (signup_result_key (scr_signup_ticket p))
           (Some (KAuth resp, Some (clock w + secs 600))) (clock w) w'"
    by (rule signup_fresh [OF assms])
  have wf: "wellformed_username (scr_username p)"
    and veq: "v = \<lparr> vu_original = scr_username p, vu_normalized = scr_username p \<rparr>"
    using v [unfolded validate_username_accepts] by simp_all
  from register_Inr [OF reg] show ?thesis
    by (intro bexI [where x = u])
      (simp_all add: us resp wf registered_as_def signup_input_def veq onboarded_def)
qed

definition answers :: "string \<Rightarrow> auth_response \<Rightarrow> time \<Rightarrow> time \<Rightarrow> database \<Rightarrow> auth_response api \<Rightarrow> bool" where
  "answers k resp e c d m \<longleftrightarrow>
     hoareE (\<lambda>w. holds_entry k (Some (KAuth resp, Some e)) c w \<and> db w = d) m
       (\<lambda>r w. r = resp \<and> db w = d) (\<lambda>_ w. db w = d)"

lemma answers_guard: "answers k resp e c d m \<Longrightarrow> answers k resp e c d (guardE b err m)"
  by (simp add: answers_def hoareE_def guardE_def throwErr_def)

lemma answers_from_sum:
  "(\<And>x. answers k resp e c d (m x)) \<Longrightarrow> answers k resp e c d (bindE (from_sum v) m)"
  by (cases v) (simp_all add: from_sum_def, simp add: answers_def hoareE_def throwErr_def)

lemma answers_limited:
  assumes "k' \<noteq> k" and "answers k resp e c d m"
  shows "answers k resp e c d (limited (check_and_increment bypass k' n win) err m)"
  unfolding answers_def hoareE_def
proof (intro allI impI)
  fix w
  assume w: "holds_entry k (Some (KAuth resp, Some e)) c w \<and> db w = d"
  obtain v w1 where v: "check_and_increment bypass k' n win w = (v, w1)" by fastforce
  have "holds_entry k (Some (KAuth resp, Some e)) c w1"
    using w by (intro preservesE [OF holds_entry_limit [OF assms(1)] v]) simp
  moreover have d: "db w1 = d" using keepsE [OF keeps_limit v] w by simp
  ultimately have "case m w1 of (Inl e, w') \<Rightarrow> db w' = d | (Inr x, w') \<Rightarrow> x = resp \<and> db w' = d"
    using assms(2) [unfolded answers_def hoareE_def, rule_format, of w1] d by simp
  then show "case limited (check_and_increment bypass k' n win) err m w of
      (Inl e, w') \<Rightarrow> db w' = d | (Inr x, w') \<Rightarrow> x = resp \<and> db w' = d"
    using d by (simp add: limited_def catchE_def v throwErr_def split: sum.split)
qed

lemma answers_body:
  assumes "c < e"
  shows "answers (signup_result_key t) resp e c d (bindE (read_signup_result t) (\<lambda>existing.
      case existing of Some r \<Rightarrow> returnOk r | None \<Rightarrow> m))"
  unfolding answers_def hoareE_def
proof (intro allI impI)
  fix w
  assume w: "holds_entry (signup_result_key t) (Some (KAuth resp, Some e)) c w \<and> db w = d"
  then have "kv_live w (signup_result_key t) = Some (KAuth resp)" "faults w = []"
    using assms holds_entry_live by (fastforce simp: holds_entry_def)+
  then have "(read_signup_result t :: (world, api_error, auth_response option) action) w = (Inr (Some resp), w)"
    by (simp add: read_signup_result_run)
  then show "case bindE (read_signup_result t) (\<lambda>existing. case existing of None \<Rightarrow> m | Some r \<Rightarrow> returnOk r) w of
      (Inl e, w') \<Rightarrow> db w' = d | (Inr x, w') \<Rightarrow> x = resp \<and> db w' = d"
    using w by (simp add: bindE_def returnOk_def)
qed

text \<open>C29: for ten minutes after a completed signup, whatever request presents the same ticket
  again registers nothing: it leaves the database alone and gets the first answer or an error.\<close>

theorem signup_is_idempotent:
  assumes "signup_complete ap bypass ip p w = (Inr resp, w')" and "faults w = []"
    and "kv_live w (signup_result_key (scr_signup_ticket p)) = None"
    and "scr_signup_ticket p2 = scr_signup_ticket p" and "t < clock w + secs 600"
    and "signup_complete ap bypass2 ip2 p2 (w'\<lparr>clock := t\<rparr>) = (r2, w2)"
  shows "db w2 = db w' \<and> (r2 = Inr resp \<or> (\<exists>e. r2 = Inl e))"
proof -
  let ?k = "signup_result_key (scr_signup_ticket p2)"
  have "holds_entry ?k (Some (KAuth resp, Some (clock w + secs 600))) (clock w) w'"
    unfolding assms(4) by (rule signup_fresh [OF assms(1-3)])
  then have h: "holds_entry ?k (Some (KAuth resp, Some (clock w + secs 600))) t (w'\<lparr>clock := t\<rparr>)"
    by (simp add: holds_entry_def)
  have "answers ?k resp (clock w + secs 600) t (db w') (signup_complete ap bypass2 ip2 p2)"
    unfolding signup_complete_def Let_def
    by (intro answers_guard answers_from_sum answers_limited answers_body assms(5)) simp_all
  then show ?thesis
    using h assms(6) unfolding answers_def hoareE_def
    by (cases r2) (auto dest!: spec [where x = "w'\<lparr>clock := t\<rparr>"])
qed

section \<open>Evaluation on concrete requests\<close>

definition sample_google :: google_user where
  "sample_google = \<lparr> gu_id = ''g9'', gu_email = ''n@x'', gu_verified_email = True,
     gu_name = ''Nina'', gu_picture = ''pic'' \<rparr>"

definition auth_libs :: libs where
  "auth_libs = session_libs\<lparr> lib_google := (\<lambda>c v. if c = ''code'' then Some sample_google else None),
     lib_jwt_sign := (\<lambda>p s. Some ''acc'') \<rparr>"

definition auth_app :: app where
  "auth_app = \<lparr> ap_config = config0, ap_libs = auth_libs \<rparr>"

definition quiet_world :: world where
  "quiet_world = world1\<lparr>secret_src := (\<lambda>_. ''s'')\<rparr>"

lemma quiet_world_simps [simp]:
  "faults quiet_world = []" "db quiet_world = db world1" "kv quiet_world = []"
  "clock quiet_world = 1700000000000000000" "secret_src quiet_world = (\<lambda>_. ''s'')"
  "uuid_src quiet_world n = ''uuid-'' @ show_nat n" "drawn quiet_world = 0"
  by (simp_all add: quiet_world_def)

definition web_login :: google_login_query where
  "web_login = \<lparr> glq_source = None, glq_code_challenge = None, glq_code_challenge_method = None,
     glq_code_verifier = None \<rparr>"

lemma mobile_login_carries_challenge_witness:
  "\<exists>jar' url w' s st. google_login auth_app localhost [] web_login quiet_world = (Inr (jar', url), w')
     \<and> map_of jar' ''oauth_state'' = Some s \<and> parse_oauth_state s = Inr st
     \<and> (os_source st = ''mobile'' \<longrightarrow> os_code_challenge st \<noteq> None)"
proof -
  have "pkce_of_query (ap_libs auth_app) ''web'' web_login = Inr None"
    by (simp add: pkce_of_query_def check_challenge_method_def web_login_def)
  then obtain jar' url w' where "google_login auth_app localhost [] web_login quiet_world = (Inr (jar', url), w')"
    by (auto simp: google_login_def Let_def from_sum_def bindE_def returnOk_def ignoreE_def
        draw_secret_def web_login_def [THEN arg_cong [where f = glq_source]])
  from this mobile_login_carries_challenge [OF this] show ?thesis by auto
qed

definition sample_verifier :: string where
  "sample_verifier = replicate 43 (CHR ''a'')"

definition sample_jar :: cookie_jar where
  "sample_jar = [(''oauth_state'', ''s:web:'' @ sample_verifier), (''oauth_pkce_verifier'', sample_verifier)]"

definition sample_callback :: google_callback_query where
  "sample_callback = \<lparr> gcq_code = ''code'', gcq_state = ''s:web:'' @ sample_verifier \<rparr>"

lemma sample_state: "parse_oauth_state (''s:web:'' @ sample_verifier)
    = Inr \<lparr> os_source = ''web'', os_code_challenge = Some sample_verifier \<rparr>"
  by code_simp

lemma sample_verifier_ok: "verify_pkce_challenge auth_libs sample_verifier sample_verifier"
proof -
  have "validate_code_verifier sample_verifier" by code_simp
  then show ?thesis
    by (simp add: verify_pkce_challenge_def compute_code_challenge_def auth_libs_def session_libs_def libs0_def)
qed

lemma callback_checks_state_and_challenge_witness:
  "isOk (google_callback auth_app localhost sample_jar sample_callback quiet_world)
   \<and> verify_pkce_challenge auth_libs sample_verifier sample_verifier"
proof -
  have g: "lib_google auth_libs ''code'' v = Some sample_google" for v by (simp add: auth_libs_def)
  have h: "lib_hex_encode auth_libs = (\<lambda>s. s)" by (simp add: auth_libs_def session_libs_def libs0_def)
  let ?r = "google_callback auth_app localhost sample_jar sample_callback quiet_world"
  have ok: "isOk ?r"
    using sample_state sample_verifier_ok g
    by (simp add: google_callback_def sample_jar_def sample_callback_def auth_app_def check_pkce_def
        action_defs callback_token_data_def login_existing_user_def sample_google_def user_by_google_id_def
        user0_def generate_otc_def draw_secret_def write_signup_ticket_def signup_ticket_ttl_secs_def
        store_otc_def Let_def)
  then obtain r w' where "?r = (Inr r, w')" by (cases ?r; cases "fst ?r") (auto simp: isOk_def)
  from callback_checks_state_and_challenge [OF this] ok show ?thesis
    using sample_state by (simp add: sample_callback_def auth_app_def sample_jar_def)
qed

definition acc_claims :: claims where
  "acc_claims = \<lparr> cl_sub = ''u1'', cl_jti = ''j1'', cl_exp = 1700000900, cl_iat = 1700000000 \<rparr>"

lemma auth_app_simps [simp]:
  "ap_config auth_app = config0" "ap_libs auth_app = auth_libs" "cf_jwt_secret config0 = ''secret''"
  by (simp_all add: auth_app_def config0_def)

lemma auth_libs_decode:
  "decode_claims auth_libs True ''acc'' ''secret'' w
     = (if timestamp (clock w) \<le> 1700000960 then Some acc_claims else None)"
proof -
  have "lib_jwt_decode auth_libs = lib_jwt_decode session_libs" by (simp add: auth_libs_def)
  then have "decode_claims auth_libs True ''acc'' ''secret'' w = decode_claims session_libs True ''acc'' ''secret'' w"
    by (simp add: decode_claims_def)
  then show ?thesis by (simp add: decode_acc acc_claims_def)
qed

lemma sample_expiries:
  "nat_field ''exp'' session_payload = Some 1700000900"
  "nat_field ''exp'' extension_payload = Some 1700003600"
  by (simp_all add: session_payload_def claims_json_def nat_field_def)
    (simp add: extension_payload_def extension_claims_json_def)

lemma auth_libs_leeway: "jwt_leeway auth_libs"
  unfolding jwt_leeway_def
  by (auto simp: auth_libs_def session_libs_def sample_expiries split: if_splits)

lemma sample_now: "timestamp 1700000000000000000 = 1700000000"
  by (simp add: timestamp_def nanos_per_sec_def)

lemma logout_sample:
  "logout auth_app localhost ''acc'' world1 = (Inr (), final (logout auth_app localhost ''acc'' world1))"
  "kv_live ((final (logout auth_app localhost ''acc'' world1))\<lparr>clock := 1700000930000000000\<rparr>)
     (user_cache_key ''u1'') = None"
  "db_user_bans (db (final (logout auth_app localhost ''acc'' world1))) = []"
proof -
  have v: "validate_token auth_libs ''acc'' ''secret'' world1 = (Inr acc_claims, world1)"
    by (simp add: validate_token_run auth_libs_decode sample_now)
  have c: "cl_sub acc_claims = ''u1''" "cl_jti acc_claims = ''j1''" "cl_exp acc_claims = 1700000900"
    by (simp_all add: acc_claims_def)
  let ?w1 = "kv_put (user_cache_key ''u1'') (KBan no_ban_entry) (Some (clock world1 + secs 30)) world1"
  let ?w2 = "?w1\<lparr>db := (db ?w1)\<lparr>db_refresh_tokens := [], db_extension_sessions := []\<rparr>\<rparr>"
  let ?ev = "record_event ''auth.logout'' (Some ''u1'') (show_ip localhost) None None (JObj [])"
  let ?w3 = "kv_put (revoked_key ''j1'') (KText ''1'') (Some (clock world1 + secs 900)) ?w2"
  have r: "logout auth_app localhost ''acc'' world1 = (Inr (), snd (?ev ?w3))"
    by (simp add: logout_def Let_def bindErr_def v bindE_def is_revoked_run callE_def c
        not_banned_world1 logout_all_def revoke_extension_sessions_def getsE_def ignoreE_def returnOk_def
        now_secs_def sample_now revoke_token_def delete_refresh_tokens_def delete_where_def update_where_def
        empty_db_def)
  then show "logout auth_app localhost ''acc'' world1
      = (Inr (), final (logout auth_app localhost ''acc'' world1))" by simp
  have k: "kv (snd (?ev ?w3)) = kv ?w3" by (rule keepsD [OF keeps_record_event(1)])
  have ne: "user_cache_key ''u1'' \<noteq> revoked_key ''j1''"
    by (simp add: user_cache_key_def revoked_key_def)
  have m: "map_of (kv (snd (?ev ?w3))) (user_cache_key ''u1'')
      = Some (KBan no_ban_entry, Some (clock world1 + secs 30))"
    unfolding k using ne by simp
  have m: "map_of (kv (final (logout auth_app localhost ''acc'' world1))) (user_cache_key ''u1'')
      = Some (KBan no_ban_entry, Some (clock world1 + secs 30))"
    unfolding r by (simp only: snd_conv m)
  show "kv_live ((final (logout auth_app localhost ''acc'' world1))\<lparr>clock := 1700000930000000000\<rparr>)
     (user_cache_key ''u1'') = None"
    by (simp add: kv_live_def m) (simp add: secs_def nanos_per_sec_def)
  have "db_user_bans (db (snd (?ev ?w3))) = db_user_bans (db ?w3)"
    by (rule keepsD [OF record_event_keeps_db [where g = db_user_bans]]) simp
  then show "db_user_bans (db (final (logout auth_app localhost ''acc'' world1))) = []"
    by (simp add: r empty_db_def)
qed

lemma logout_ends_every_session_witness:
  "logged_out ''u1'' (db (final (logout auth_app localhost ''acc'' world1)))"
  using logout_ends_every_session [OF _ _ logout_sample(1)]
  by (auto simp: auth_libs_decode sample_now acc_claims_def)

lemma logged_out_token_works_again_witness:
  "result (extract_session_user_id auth_app (bearer ''acc'')
     ((final (logout auth_app localhost ''acc'' world1))\<lparr>clock := 1700000930000000000\<rparr>)) = Inr ''u1''"
proof -
  let ?w = "(final (logout auth_app localhost ''acc'' world1))\<lparr>clock := 1700000930000000000\<rparr>"
  have d: "decode_claims (ap_libs auth_app) True ''acc'' (cf_jwt_secret (ap_config auth_app)) world1 = Some acc_claims"
    by (simp add: auth_libs_decode sample_now)
  have f: "faults ?w = []"
    using logout_run [OF _ logout_sample(1)] by auto
  have "cached_ban ?w (user_cache_key ''u1'') = None"
    by (simp add: cached_ban_def logout_sample(2))
  then have nb: "result (ensure_user_not_banned config0 ''u1'' ?w) = Inr ()"
    using is_user_banned_result [OF f, of config0 "''u1''"] logout_sample(3)
    by (simp add: ensure_user_not_banned_def fst_enforce user_banned_in_db_def)
  show ?thesis
    using logged_out_token_works_again [OF _ _ logout_sample(1) d, of 1700000930000000000 "bearer ''acc''"]
      auth_libs_leeway nb
    by (simp add: acc_claims_def now_secs_def sample_now secs_def nanos_per_sec_def timestamp_def bearer_def)
qed

section \<open>A signup and an extension session, evaluated\<close>

definition sample_ticket :: signup_ticket_data where
  "sample_ticket = \<lparr> std_google_id = ''g9'', std_email = ''n@x'', std_avatar_url = ''pic'',
     std_source = ''web'', std_created_at = 1 \<rparr>"

definition signup_world :: world where
  "signup_world = kv_put (signup_ticket_key ''T'') (KTicket sample_ticket)
     (Some (clock quiet_world + secs 600)) quiet_world"

definition sample_signup :: signup_complete_request where
  "sample_signup = \<lparr> scr_signup_ticket = ''T'', scr_username = ''12345'', scr_age_confirmed = True,
     scr_terms_version = ''v1'' \<rparr>"

definition sample_name :: validated_username where
  "sample_name = \<lparr> vu_original = ''12345'', vu_normalized = ''12345'' \<rparr>"

lemma sample_name_valid: "validate_username ''12345'' config0 = Inr sample_name"
proof -
  have "normalize_for_reserved_match ''12345'' = []" "wellformed_username ''12345''"
    "''12345'' \<notin> set default_reserved_usernames" by code_simp+
  moreover have "filter (\<lambda>v. v \<noteq> []) (map (\<lambda>v. to_ascii_lowercase (trim v)) (split_on (CHR '','') ''admin'')) = [''admin'']"
    by code_simp
  then have "''12345'' \<notin> set (collect_reserved_usernames config0)"
    using \<open>''12345'' \<notin> set default_reserved_usernames\<close>
    by (simp add: collect_reserved_usernames_def config0_def)
  ultimately have "\<not> is_reserved_username_variant ''12345'' (collect_reserved_usernames config0)"
    by (simp add: is_reserved_username_variant_def)
  then show ?thesis
    using \<open>wellformed_username ''12345''\<close> by (simp add: validate_username_accepts sample_name_def)
qed

lemma register_sample:
  assumes "faults w = []" and "db w = db world1" and "uuid_src w = uuid_src quiet_world"
  shows "isOk (register_with_username auth_libs (signup_input config0 sample_ticket sample_name ''v1'') w)"
proof -
  have s: "lib_jwt_sign auth_libs = (\<lambda>p s. Some ''acc'')" "lib_argon2_hash auth_libs = (\<lambda>t s. Some (''h:'' @ t))"
    "lib_hex_encode auth_libs = (\<lambda>s. s)"
    by (simp_all add: auth_libs_def session_libs_def libs0_def)
  have a: "to_ascii_lowercase ''alice'' = ''alice''" by code_simp
  show ?thesis
    using assms s
    by (simp add: register_with_username_def signup_input_def ticket_user_def sample_ticket_def sample_name_def
        action_defs username_exists_case_insensitive_def username_taken_def user_by_google_id_def
        store_registered_user_def registered_user_def empty_db_def user0_def
        insert_user_def user_exists_def user_unique_def new_v4_def issue_tokens_for_user_def
        create_access_token_def some_or_def generate_refresh_token_def draw_secret_def hash_token_def
        insert_refresh_token_def new_refresh_row_def replaced_by_ok_def Let_def a)
qed

lemma signup_sample:
  "\<exists>resp w'. signup_complete auth_app True localhost sample_signup signup_world = (Inr resp, w')"
proof -
  let ?k = "signup_lock_key ''T''" and ?v = "uuid_src signup_world (drawn signup_world)"
  let ?w2 = "signup_world\<lparr>drawn := Suc (drawn signup_world)\<rparr>"
  let ?w3 = "kv_put ?k (KText ?v) (Some (clock signup_world + secs 15)) ?w2"
  have w: "faults signup_world = []" "db signup_world = db world1" "uuid_src signup_world = uuid_src quiet_world"
    by (simp_all add: signup_world_def)
  have kl: "kv_live signup_world (signup_result_key ''T'') = None" "kv_live signup_world ?k = None"
    "kv_live ?w3 (signup_result_key ''T'') = None"
    "kv_live ?w3 (signup_ticket_key ''T'') = Some (KTicket sample_ticket)"
    by (simp_all add: signup_world_def kv_live_put secs_def nanos_per_sec_def signup_lock_key_def
        signup_result_key_def signup_ticket_key_def)
  have r0: "(read_signup_result ''T'' :: (world, api_error, auth_response option) action) signup_world
      = (Inr None, signup_world)" using w kl by (simp add: read_signup_result_run)
  have r3: "(read_signup_result ''T'' :: (world, api_error, auth_response option) action) ?w3 = (Inr None, ?w3)"
    using w kl by (subst read_signup_result_run) simp_all
  have t3: "(read_signup_ticket ''T'' :: (world, api_error, signup_ticket_data option) action) ?w3
      = (Inr (Some sample_ticket), ?w3)"
    using w kl by (simp add: read_signup_ticket_def action_defs)
  have lk: "(take_signup_lock ?k ?v :: (world, api_error, signup_lock) action) ?w2 = (Inr Acquired, ?w3)"
    using w kl by (simp add: take_signup_lock_def action_defs kv_set_nx_ex_def signup_lock_ttl_secs_def)
  have "isOk (register_with_username auth_libs (signup_input config0 sample_ticket sample_name ''v1'') ?w3)"
    using w by (intro register_sample) simp_all
  then obtain a r u w4 where reg: "register_with_username auth_libs
      (signup_input config0 sample_ticket sample_name ''v1'') ?w3 = (Inr (a, r, u), w4)"
    by (cases "register_with_username auth_libs (signup_input config0 sample_ticket sample_name ''v1'') ?w3";
        cases "fst (register_with_username auth_libs (signup_input config0 sample_ticket sample_name ''v1'') ?w3)")
      (auto simp: isOk_def)
  have "\<exists>resp w5. signup_locked auth_app (show_ip localhost) sample_signup sample_name ?w3 = (Inr resp, w5)"
    by (simp add: signup_locked_def sample_signup_def bindE_def r3 t3 bindErr_def reg Let_def ignoreE_def returnOk_def)
  then have "\<exists>resp w5. signup_under_lock auth_app (show_ip localhost) sample_signup sample_name signup_world = (Inr resp, w5)"
    using lk by (auto simp: signup_under_lock_def sample_signup_def Let_def bindE_def new_v4_def finallyE_def)
  moreover have "cf_terms_current_version config0 = ''v1''" by (simp add: config0_def)
  ultimately show ?thesis
    using r0 sample_name_valid
    by (simp add: signup_complete_def sample_signup_def Let_def bindE_def from_sum_def returnOk_def
        limited_def catchE_def check_and_increment_def)
qed

lemma signup_sample_fresh:
  "faults signup_world = []" "kv_live signup_world (signup_result_key (scr_signup_ticket sample_signup)) = None"
  by (simp_all add: signup_world_def sample_signup_def kv_live_put signup_result_key_def signup_ticket_key_def)

lemma signup_creates_onboarded_account_witness:
  "\<exists>resp w'. signup_complete auth_app True localhost sample_signup signup_world = (Inr resp, w')
     \<and> (\<exists>u \<in> set (db_users (db w')). u_username u = ''12345'' \<and> onboarded config0 u)"
proof -
  obtain resp w' where r: "signup_complete auth_app True localhost sample_signup signup_world = (Inr resp, w')"
    using signup_sample by blast
  from signup_creates_onboarded_account [OF r signup_sample_fresh] r show ?thesis
    by (auto simp: sample_signup_def)
qed

lemma signup_is_idempotent_witness:
  "\<exists>resp w' r2 w2. signup_complete auth_app True localhost sample_signup signup_world = (Inr resp, w')
     \<and> signup_complete auth_app True localhost sample_signup (w'\<lparr>clock := 1700000100000000000\<rparr>) = (r2, w2)
     \<and> db w2 = db w'"
proof -
  obtain resp w' where r: "signup_complete auth_app True localhost sample_signup signup_world = (Inr resp, w')"
    using signup_sample by blast
  obtain r2 w2 where s: "signup_complete auth_app True localhost sample_signup
      (w'\<lparr>clock := 1700000100000000000\<rparr>) = (r2, w2)" by fastforce
  have t: "(1700000100000000000::int) < clock signup_world + secs 600"
    by (simp add: signup_world_def secs_def nanos_per_sec_def)
  from signup_is_idempotent [OF r signup_sample_fresh refl t s] r s show ?thesis by blast
qed

definition roundtrip_libs :: libs where
  "roundtrip_libs = libs0\<lparr>
     lib_jwt_sign := (\<lambda>p s. if p = extension_claims_json \<lparr> ec_sub = ''u1'', ec_jti = ''uuid-0'',
          ec_exp = 1700003600, ec_iat = 1700000000, ec_scope = [''keyboard.send''], ec_platform = ''ios'',
          ec_device_id_hash = ''0123456789abcdef'', ec_token_use = ''extension'' \<rparr> then Some ''ext'' else None),
     lib_jwt_decode := (\<lambda>e n t s. if t = ''ext'' \<and> n \<le> 1700003600 then
        Some (extension_claims_json \<lparr> ec_sub = ''u1'', ec_jti = ''uuid-0'',
          ec_exp = 1700003600, ec_iat = 1700000000, ec_scope = [''keyboard.send''], ec_platform = ''ios'',
          ec_device_id_hash = ''0123456789abcdef'', ec_token_use = ''extension'' \<rparr>) else None) \<rparr>"

lemma roundtrip_libs_law: "jwt_roundtrip roundtrip_libs"
  by (simp add: jwt_roundtrip_def roundtrip_libs_def exp_of_extension_json)

definition ios_request :: extension_session_request where
  "ios_request = \<lparr> esr_platform = ''ios'', esr_device_id_hash = ''0123456789abcdef'',
     esr_requested_scopes = Some [''keyboard.send''] \<rparr>"

definition roundtrip_app :: app where
  "roundtrip_app = \<lparr> ap_config = config0, ap_libs = roundtrip_libs \<rparr>"

lemma create_session_sample:
  "\<exists>r w'. create_extension_session roundtrip_app ''u1'' ios_request world1 = (Inr r, w')
     \<and> esp_extension_access_token r = ''ext'' \<and> esp_scope r = [''keyboard.send''] \<and> kv w' = []
     \<and> faults w' = [] \<and> db_users (db w') = [user0] \<and> db_user_bans (db w') = []"
proof -
  have t: "to_ascii_lowercase (trim ''ios'') = ''ios''" "trim ''0123456789abcdef'' = ''0123456789abcdef''"
    by code_simp+
  have c: "cf_extension_token_ttl_secs config0 = 3600" "u_id user0 = ''u1''"
    by (simp_all add: config0_def user0_def)
  have n: "show_nat 0 = ''0''" by code_simp
  have n': "normalize_extension_scopes (Some [''keyboard.send'']) = Inr [''keyboard.send'']"
    by (simp add: normalize_extension_scopes_def)
  show ?thesis
    by (simp add: create_extension_session_def roundtrip_app_def ios_request_def t c n' action_defs
        callE_def new_v4_def insert_extension_session_def empty_db_def user_exists_def
        create_extension_access_token_def some_or_def Let_def now_secs_def sample_now n roundtrip_libs_def)
qed

lemma extension_session_authenticates_witness:
  "\<exists>r w' ea. create_extension_session roundtrip_app ''u1'' ios_request world1 = (Inr r, w')
     \<and> result (extension_auth_of roundtrip_app (bearer ''ext'') (w'\<lparr>clock := 1700001000000000000\<rparr>)) = Inr ea
     \<and> has_scope ea ''keyboard.send'' \<and> \<not> has_scope ea ''keyboard.search''"
proof -
  obtain r w' where r: "create_extension_session roundtrip_app ''u1'' ios_request world1 = (Inr r, w')"
    "esp_extension_access_token r = ''ext''" "esp_scope r = [''keyboard.send'']" "kv w' = []"
    "faults w' = []" "db_users (db w') = [user0]" "db_user_bans (db w') = []"
    using create_session_sample by blast
  have o: "u_id user0 = ''u1''" "u_deleted_at user0 = None" "onboarded config0 user0"
    by (simp_all add: user0_def onboarded_def config0_def)
  have c: "jwt_roundtrip (ap_libs roundtrip_app)" "ap_config roundtrip_app = config0"
    "(1700001000000000000::int) < clock world1 + secs (int (cf_extension_token_ttl_secs config0))"
    by (simp_all add: roundtrip_app_def roundtrip_libs_law config0_def secs_def nanos_per_sec_def)
  have "\<exists>ea. result (extension_auth_of roundtrip_app (bearer ''ext'') (w'\<lparr>clock := 1700001000000000000\<rparr>)) = Inr ea
    \<and> ea_user_id ea = ''u1'' \<and> ea_session_jti ea = esp_session_jti r
    \<and> (\<forall>sc. has_scope ea sc \<longleftrightarrow> sc \<in> set (esp_scope r))"
  proof (rule extension_session_authenticates [OF c(1) _ r(1)])
    show "faults world1 = []" by simp
    show "(1700001000000000000::int) < clock world1 + secs (int (cf_extension_token_ttl_secs (ap_config roundtrip_app)))"
      unfolding c(2) by (rule c(3))
    show "rq_bearer (bearer ''ext'') = Some (esp_extension_access_token r)" by (simp add: bearer_def r(2))
    show "kv_live (w'\<lparr>clock := 1700001000000000000\<rparr>) (user_cache_key ''u1'') = None"
      by (rule kv_live_empty) (simp add: r(4))
    show "\<not> user_banned_in_db 1700001000000000000 ''u1'' (db w')"
      by (simp add: user_banned_in_db_def r(7))
    show "find (\<lambda>x. u_id x = ''u1'') (db_users (db w')) = Some user0" by (simp add: r(6) o(1))
    show "u_deleted_at user0 = None" by (rule o(2))
    show "onboarded (ap_config roundtrip_app) user0" unfolding c(2) by (rule o(3))
  qed
  then obtain ea where ea: "result (extension_auth_of roundtrip_app (bearer ''ext'')
      (w'\<lparr>clock := 1700001000000000000\<rparr>)) = Inr ea" and sc: "\<forall>sc. has_scope ea sc \<longleftrightarrow> sc \<in> set (esp_scope r)"
    by blast
  show ?thesis
  proof (intro exI conjI)
    show "create_extension_session roundtrip_app ''u1'' ios_request world1 = (Inr r, w')" by (rule r(1))
    show "result (extension_auth_of roundtrip_app (bearer ''ext'') (w'\<lparr>clock := 1700001000000000000\<rparr>)) = Inr ea"
      by (rule ea)
    show "has_scope ea ''keyboard.send''" "\<not> has_scope ea ''keyboard.search''"
      by (simp_all only: sc [rule_format] r(3)) simp_all
  qed
qed

end
