(* ===== verification/Users.thy ===== *)
theory Users
  imports Realtime Search Uploads AuthHandlers
begin

text \<open>
  The handlers of a user's own account (\<^verbatim>\<open>api/src/users/handlers.rs\<close>): profile, onboarding,
  deletion, the lists of videos and reports, the change of the name with its idempotency key, and
  the admission of websocket connections to the hub.
\<close>

section \<open>Cached answers\<close>

definition read_cached :: "(kv_value \<Rightarrow> 'b option) \<Rightarrow> string \<Rightarrow> 'b option api" where
  "read_cached as_type key =
     catchE get_conn (\<lambda>_. returnOk None) (\<lambda>_.
       catchE (kv_get key) (\<lambda>_. returnOk None) (\<lambda>v. returnOk (Option.bind v as_type)))"

definition store_cached :: "string \<Rightarrow> kv_value \<Rightarrow> nat \<Rightarrow> 'a api \<Rightarrow> 'a api" where
  "store_cached key v ttl k = catchE get_conn (\<lambda>_. k) (\<lambda>_. ignoreE (kv_set_ex key v ttl) k)"

definition user_profile_cache_key :: "uuid \<Rightarrow> string \<Rightarrow> string" where
  "user_profile_cache_key user_id terms = ''user:'' @ user_id @ '':profile:v2:'' @ terms"

definition forget_profile :: "config \<Rightarrow> uuid \<Rightarrow> 'a api \<Rightarrow> 'a api" where
  "forget_profile cf u k =
     catchE get_conn (\<lambda>_. k)
       (\<lambda>_. ignoreE (kv_del (user_profile_cache_key u (cf_terms_current_version cf))) k)"

definition get_me :: "config \<Rightarrow> uuid \<Rightarrow> user_dto api" where
  "get_me cf u =
     (let key = user_profile_cache_key u (cf_terms_current_version cf) in
      bindE (read_cached as_user key) (\<lambda>hit.
        case hit of
          Some d \<Rightarrow> returnOk d
        | None \<Rightarrow>
            callE (find_user u) (\<lambda>row.
            okOrE (not_found ''User not found'') row (\<lambda>x.
            guardE (u_deleted_at x = None) (unauthorized ''Invalid token'')
           (let d = from_user_model x (cf_terms_current_version cf) in
            store_cached key (KUser d) (24 * 3600) (returnOk d))))))"

section \<open>Onboarding\<close>

record onboarding_status_response =
  obs_completed :: bool
  obs_age_confirmed :: bool
  obs_terms_accepted :: bool
  obs_required_terms_version :: string
  obs_accepted_terms_version :: "string option"
  obs_terms_url :: "string option"

record complete_onboarding_request =
  cor_age_confirmed :: bool
  cor_terms_version :: string

definition build_onboarding_status :: "user \<Rightarrow> config \<Rightarrow> onboarding_status_response" where
  "build_onboarding_status x cf =
     (let age = u_age_confirmed_at x \<noteq> None;
          terms = terms_accepted (cf_terms_current_version cf) x in
      \<lparr> obs_completed = (age \<and> terms), obs_age_confirmed = age, obs_terms_accepted = terms,
        obs_required_terms_version = cf_terms_current_version cf,
        obs_accepted_terms_version = u_terms_accepted_version x, obs_terms_url = Some ''/system/terms'' \<rparr>)"

definition get_onboarding_status :: "config \<Rightarrow> bool \<Rightarrow> uuid \<Rightarrow> onboarding_status_response api" where
  "get_onboarding_status cf bypass u =
     limited_strict (check_and_increment bypass (onboarding_status_user_key u) (cf_onboarding_status_rpm_per_user cf) 60)
       (too_many_requests ''Too many onboarding status requests'')
       (service_unavailable ''Onboarding status temporarily unavailable'')
    (callE (find_user u) (\<lambda>row.
     okOrE (not_found ''User not found'') row (\<lambda>x. returnOk (build_onboarding_status x cf))))"

definition onboard_row :: "string \<Rightarrow> time \<Rightarrow> user \<Rightarrow> user" where
  "onboard_row terms now x =
     x\<lparr> u_age_confirmed_at := Some now, u_terms_accepted_at := Some now,
        u_terms_accepted_version := Some terms \<rparr>"

definition complete_onboarding ::
  "config \<Rightarrow> bool \<Rightarrow> string \<Rightarrow> uuid \<Rightarrow> complete_onboarding_request \<Rightarrow> onboarding_status_response api" where
  "complete_onboarding cf bypass ip u p =
     (let terms = cf_terms_current_version cf in
      limited_strict (check_and_increment bypass (onboarding_complete_user_key u) (cf_onboarding_complete_rpm_per_user cf) 60)
        (too_many_requests ''Too many onboarding completion attempts'')
        (service_unavailable ''Onboarding completion temporarily unavailable'')
     (guardE (cor_age_confirmed p) (bad_request ''age_confirmed must be true'')
     (guardE (cor_terms_version p = terms)
        (bad_request (''terms_version must match current version: '' @ terms))
     (callE (find_user u) (\<lambda>row.
      okOrE (not_found ''User not found'') row (\<lambda>x.
      bindE (getsE clock) (\<lambda>now.
      let already = onboarded cf x in
      bindE (if already then returnOk x
             else callE (db_write (update_user (u_id x) (onboard_row terms now)))
                    (\<lambda>_. returnOk (onboard_row terms now x))) (\<lambda>updated.
      forget_profile cf u
     (ignoreE (record_event ''users.onboarding_complete'' (Some u) ip None None
                (JObj [(''already_complete'', JBool already)]))
        (returnOk (build_onboarding_status updated cf)))))))))))"

section \<open>Deletion of the account\<close>

definition delete_account :: "config \<Rightarrow> string \<Rightarrow> uuid \<Rightarrow> nat api" where
  "delete_account cf ip u =
     bindE (getsE clock) (\<lambda>now.
     callE (db_write (update_user u (\<lambda>x. x\<lparr>u_deleted_at := Some now\<rparr>))) (\<lambda>_.
     callE (logout_all u) (\<lambda>_.
     callE (revoke_extension_sessions u) (\<lambda>_.
     forget_profile cf u
    (ignoreE (record_event ''users.delete_account'' (Some u) ip None None (JObj [])) (returnOk 204))))))"

section \<open>The user's videos and reports\<close>

definition load_liked_video_id_set :: "uuid \<Rightarrow> uuid list \<Rightarrow> uuid set api" where
  "load_liked_video_id_set u ids =
     (if ids = [] then returnOk {}
      else callE (db_read (\<lambda>d. set (map l_video_id
             (filter (\<lambda>l. l_user_id l = u \<and> l_video_id l \<in> set ids) (db_likes d))))) returnOk)"

definition videos_of :: "uuid \<Rightarrow> database \<Rightarrow> video list" where
  "videos_of u d =
     order_by_desc v_created_at (filter (\<lambda>v. v_user_id v = u \<and> v_deleted_at v = None) (db_videos d))"

definition user_dtos :: "config \<Rightarrow> uuid \<Rightarrow> video list \<Rightarrow> user_video_dto list api" where
  "user_dtos cf u items =
     bindE (load_liked_video_id_set u (map v_id items)) (\<lambda>liked.
       returnOk (map (\<lambda>v. video_model_to_user_dto cf v (v_id v \<in> liked)) items))"

definition clamp_nat :: "nat \<Rightarrow> nat \<Rightarrow> nat \<Rightarrow> nat" where
  "clamp_nat lo hi n = min (max n lo) hi"

definition my_videos_cache_key :: "uuid \<Rightarrow> nat \<Rightarrow> nat \<Rightarrow> string" where
  "my_videos_cache_key u page per_page =
     ''user:'' @ u @ '':videos:v5:'' @ show_nat page @ '':'' @ show_nat per_page"

definition get_my_videos :: "config \<Rightarrow> uuid \<Rightarrow> nat option \<Rightarrow> nat option \<Rightarrow> user_video_dto list api" where
  "get_my_videos cf u page_param per_page_param =
     (let page = max (case page_param of None \<Rightarrow> 1 | Some n \<Rightarrow> n) 1;
          per_page = clamp_nat 1 100 (case per_page_param of None \<Rightarrow> 20 | Some n \<Rightarrow> n);
          key = my_videos_cache_key u page per_page in
      bindE (read_cached as_videos key) (\<lambda>hit.
        case hit of
          Some ds \<Rightarrow> returnOk ds
        | None \<Rightarrow>
            callE (read_page ((page - 1) * per_page) (\<lambda>d. page_slice per_page (page - 1) (videos_of u d))) (\<lambda>items.
            bindE (user_dtos cf u items) (\<lambda>ds. store_cached key (KVideos ds) 300 (returnOk ds)))))"

record my_report_item =
  mri_report :: video_report_dto
  mri_video_title :: "string option"
  mri_video_status :: "string option"
  mri_video_moderation_state :: "string option"

record my_reports_response =
  mrr_items :: "my_report_item list"
  mrr_next_cursor :: "nat option"

definition reports_of :: "uuid \<Rightarrow> database \<Rightarrow> abuse_report list" where
  "reports_of u d = order_by_desc ar_created_at (filter (\<lambda>r. ar_reporter_user_id r = u) (db_abuse_reports d))"

definition my_report_item_of :: "video list \<Rightarrow> abuse_report \<Rightarrow> my_report_item" where
  "my_report_item_of vs r =
     (let v = find (\<lambda>v. v_id v = ar_video_id r) vs in
      \<lparr> mri_report = abuse_report_model_to_dto r, mri_video_title = Option.bind v v_title,
        mri_video_status = map_option v_status v, mri_video_moderation_state = map_option v_moderation_state v \<rparr>)"

text \<open>One row more than the limit is fetched, but the pages are laid out in steps of that size.\<close>

definition get_my_reports :: "uuid \<Rightarrow> nat option \<Rightarrow> nat option \<Rightarrow> my_reports_response api" where
  "get_my_reports u limit_param cursor_param =
     (let lim = clamp_nat 1 100 (case limit_param of None \<Rightarrow> 20 | Some n \<Rightarrow> n);
          cursor = (case cursor_param of None \<Rightarrow> 0 | Some n \<Rightarrow> n) in
      callE (read_page (cursor * (lim + 1)) (\<lambda>d. page_slice (lim + 1) cursor (reports_of u d))) (\<lambda>fetched.
      let reports = take lim fetched;
          next_cursor = (if length fetched > lim then Some (cursor + 1) else None) in
      bindE (if reports = [] then returnOk []
             else callE (db_read (\<lambda>d. filter (\<lambda>v. v_id v \<in> set (map ar_video_id reports)) (db_videos d))) returnOk) (\<lambda>vs.
        returnOk \<lparr> mrr_items = map (my_report_item_of vs) reports, mrr_next_cursor = next_cursor \<rparr>)))"

section \<open>The name\<close>

definition idempotency_key_of :: "request \<Rightarrow> string option" where
  "idempotency_key_of rq =
     (case map_of (rq_headers rq) ''idempotency-key'' of
        Some (Some s) \<Rightarrow> (if trim s = [] then None else Some (trim s))
      | _ \<Rightarrow> None)"

definition username_idempotency_key :: "uuid \<Rightarrow> string \<Rightarrow> string" where
  "username_idempotency_key u key = ''user:'' @ u @ '':username:update:idempotency:'' @ key"

definition remember_update :: "string option \<Rightarrow> string \<Rightarrow> user_dto \<Rightarrow> 'a api \<Rightarrow> 'a api" where
  "remember_update cache_key fingerprint response k =
     (case cache_key of
        None \<Rightarrow> k
      | Some key \<Rightarrow> store_cached key
          (KNameUpdate \<lparr> unr_request_fingerprint = fingerprint, unr_response = response \<rparr>) 600 k)"

definition rename_row :: "validated_username \<Rightarrow> time \<Rightarrow> user \<Rightarrow> user" where
  "rename_row v now x =
     x\<lparr> u_username := vu_original v, u_username_normalized := Some (vu_normalized v),
        u_username_updated_at := Some now \<rparr>"

definition rename_error :: "failure \<Rightarrow> api_error" where
  "rename_error e = (if is_username_unique_violation e then conflict ''Username already taken'' else from_failure e)"

definition change_username :: "config \<Rightarrow> string \<Rightarrow> uuid \<Rightarrow> validated_username \<Rightarrow> string option \<Rightarrow> user_dto api" where
  "change_username cf ip u v cache_key =
     (let terms = cf_terms_current_version cf in
      callE (find_user u) (\<lambda>row.
      okOrE (not_found ''User not found'') row (\<lambda>x.
      let current = (case u_username_normalized x of Some n \<Rightarrow> n | None \<Rightarrow> to_ascii_lowercase (u_username x)) in
      if current = vu_normalized v \<and> u_username x = vu_original v
      then remember_update cache_key (vu_normalized v) (from_user_model x terms) (returnOk (from_user_model x terms))
      else
        callE (username_exists_case_insensitive (vu_normalized v) (Some u)) (\<lambda>taken.
        guardE (\<not> taken) (conflict ''Username already taken'')
       (bindE (getsE clock) (\<lambda>now.
        bindErr rename_error (db_write (update_user u (rename_row v now))) (\<lambda>_.
        let response = from_user_model (rename_row v now x) terms in
        forget_profile cf u
       (remember_update cache_key (vu_normalized v) response
       (ignoreE (record_event ''users.username_update'' (Some u) ip None None (JObj [])) (returnOk response))))))))))"

definition update_username :: "config \<Rightarrow> bool \<Rightarrow> string \<Rightarrow> request \<Rightarrow> uuid \<Rightarrow> string \<Rightarrow> user_dto api" where
  "update_username cf bypass ip rq u name =
     limited_count (check_and_increment bypass (username_update_user_key u) (cf_username_update_rpm_per_user cf) 60)
       (\<lambda>_. too_many_requests ''Too many username update attempts'')
    (bindE (from_sum (case validate_username name cf of
                        Inl e \<Rightarrow> Inl (bad_request (username_error_message e)) | Inr v \<Rightarrow> Inr v)) (\<lambda>v.
     let cache_key = map_option (username_idempotency_key u) (idempotency_key_of rq) in
     bindE (case cache_key of None \<Rightarrow> returnOk None | Some key \<Rightarrow> read_cached as_name_update key) (\<lambda>hit.
       case hit of
         Some r \<Rightarrow> (if unr_request_fingerprint r \<noteq> vu_normalized v
                   then throwErr (conflict ''idempotency_key_reuse_mismatch'') else returnOk (unr_response r))
       | None \<Rightarrow> change_username cf ip u v cache_key)))"

section \<open>Websocket connections\<close>

definition extract_bearer_token :: "request \<Rightarrow> string option" where
  "extract_bearer_token rq =
     (case map_of (rq_headers rq) ''authorization'' of
        Some (Some raw) \<Rightarrow> (if prefix ''Bearer '' raw then Some (drop 7 raw) else None)
      | _ \<Rightarrow> None)"

definition validate_ws_origin :: "config \<Rightarrow> request \<Rightarrow> api_error + unit" where
  "validate_ws_origin cf rq =
     (let user_agent = (case map_of (rq_headers rq) ''user-agent'' of Some (Some s) \<Rightarrow> s | _ \<Rightarrow> []) in
      if \<not> contains_str user_agent ''Mozilla/'' then Inr ()
      else case map_of (rq_headers rq) ''origin'' of
             None \<Rightarrow> Inr ()
           | Some None \<Rightarrow> Inl (forbidden ''Invalid Origin header'')
           | Some (Some origin) \<Rightarrow>
               if origin = ''null'' then Inr ()
               else if cf_environment cf = ''development'' then Inr ()
               else if cf_cors_allowed_origins cf = [] then Inl (forbidden ''Origin is not allowed'')
               else if list_ex (\<lambda>s. s \<noteq> [] \<and> s = origin) (map trim (split_on CHR '','' (cf_cors_allowed_origins cf)))
               then Inr () else Inl (forbidden ''Origin is not allowed''))"

definition ws_client_ip :: "request \<Rightarrow> string" where
  "ws_client_ip rq =
     (case rq_connect_ip rq of
        Some ip \<Rightarrow> show_ip ip
      | None \<Rightarrow> (case map_of (rq_headers rq) ''x-real-ip'' of Some (Some s) \<Rightarrow> s | _ \<Rightarrow> ''unknown''))"

definition ws_admission :: "app \<Rightarrow> bool \<Rightarrow> request \<Rightarrow> claims api" where
  "ws_admission ap bypass rq =
     (let cf = ap_config ap in
      guardE (cf_video_ws_enabled cf) (not_found ''Realtime endpoint disabled'')
     (bindE (from_sum (validate_ws_origin cf rq)) (\<lambda>_.
      okOrE (unauthorized ''Missing or invalid bearer token'') (extract_bearer_token rq) (\<lambda>token.
      bindErr (\<lambda>_. unauthorized ''Invalid token'') (validate_token (ap_libs ap) token (cf_jwt_secret cf)) (\<lambda>c.
      bindE (is_revoked (cl_jti c)) (\<lambda>revoked.
      guardE (\<not> revoked) (unauthorized ''Token revoked'')
     (bindE (ensure_user_onboarding_complete cf (cl_sub c)) (\<lambda>_.
      limited_count (check_and_increment bypass (ws_connect_ip_key (ws_client_ip rq)) (cf_video_ws_connect_rpm_per_ip cf) 60)
        (\<lambda>_. too_many_requests ''Too many websocket connection attempts from this IP'')
     (limited_count (check_and_increment bypass (ws_connect_user_key (cl_sub c)) (cf_video_ws_connect_rpm_per_user cf) 60)
        (\<lambda>_. too_many_requests ''Too many websocket connection attempts for this user'')
        (returnOk c))))))))))"

text \<open>The hub takes its limits from the configuration when it is made, at start-up.\<close>

definition hub_limits_of :: "config \<Rightarrow> hub_limits" where
  "hub_limits_of cf = \<lparr> hl_max_conn_per_user = cf_video_ws_max_conn_per_user cf,
     hl_max_conn_global = cf_video_ws_max_conn_global cf, hl_send_buffer = cf_video_ws_send_buffer cf \<rparr>"

fun hub_error :: "hub_register_error \<Rightarrow> api_error" where
  "hub_error GlobalLimitExceeded = too_many_requests ''Realtime connection capacity reached''"
| "hub_error PerUserLimitExceeded = too_many_requests ''Too many concurrent realtime connections for this user''"

definition my_videos_ws ::
  "app \<Rightarrow> bool \<Rightarrow> hub_limits \<Rightarrow> request \<Rightarrow> realtime_hub \<Rightarrow> world \<Rightarrow> ((api_error + uuid \<times> claims) \<times> realtime_hub) \<times> world" where
  "my_videos_ws ap bypass lim rq h w =
     (case ws_admission ap bypass rq w of
        (Inl e, w) \<Rightarrow> ((Inl e, h), w)
      | (Inr c, w) \<Rightarrow>
          (case register_connection lim (cl_sub c) (uuid_src w (drawn w)) h of
             (Inl e, h) \<Rightarrow> ((Inl (hub_error e), h), w)
           | (Inr i, h) \<Rightarrow> ((Inr (i, c), h), w\<lparr>drawn := Suc (drawn w)\<rparr>)))"

definition load_user_videos_snapshot :: "config \<Rightarrow> uuid \<Rightarrow> user_video_dto list api" where
  "load_user_videos_snapshot cf u = callE (db_read (videos_of u)) (user_dtos cf u)"

section \<open>The task of a connection\<close>

text \<open>
  What wakes the task up: the hub, the client, or the heartbeat. Every wake-up has its time and says
  whether a frame sent then goes out. The task answers with a frame or not, or ends (\<^verbatim>\<open>break\<close>).
\<close>

datatype ws_event =
    FromHub "string option" | FromClientPong | FromClientPing string | FromClientClose | FromClientOther
  | FromClientError | FromClientEnd | HeartbeatTick

datatype ws_frame = TextFrame string | PongFrame string | PingFrame

definition ws_heartbeat_secs :: "config \<Rightarrow> nat" where
  "ws_heartbeat_secs cf = max (cf_video_ws_heartbeat_secs cf) 5"

definition ws_heartbeat :: "config \<Rightarrow> claims \<Rightarrow> time \<Rightarrow> (ws_frame option \<times> time) option api" where
  "ws_heartbeat cf c last_pong =
     bindE (getsE (\<lambda>w. (now_secs w, clock w))) (\<lambda>(now, instant).
       if cl_exp c \<le> now then returnOk None
       else bindE (is_revoked (cl_jti c)) (\<lambda>revoked.
         returnOk (if revoked \<or> secs (int (ws_heartbeat_secs cf * 3)) < instant - last_pong then None
                   else Some (Some PingFrame, last_pong))))"

fun ws_react :: "config \<Rightarrow> claims \<Rightarrow> time \<Rightarrow> time \<Rightarrow> ws_event \<Rightarrow> (ws_frame option \<times> time) option api" where
  "ws_react cf c last_pong now (FromHub (Some m)) = returnOk (Some (Some (TextFrame m), last_pong))"
| "ws_react cf c last_pong now FromClientPong = returnOk (Some (None, now))"
| "ws_react cf c last_pong now (FromClientPing payload) = returnOk (Some (Some (PongFrame payload), now))"
| "ws_react cf c last_pong now FromClientOther = returnOk (Some (None, last_pong))"
| "ws_react cf c last_pong now HeartbeatTick = ws_heartbeat cf c last_pong"
| "ws_react cf c last_pong now _ = returnOk None"

definition at_time :: "time \<Rightarrow> 'a api \<Rightarrow> 'a api" where
  "at_time t m w = m (w\<lparr>clock := t\<rparr>)"

text \<open>The frames sent with their times, and whether the task has ended.\<close>

fun ws_loop :: "config \<Rightarrow> claims \<Rightarrow> time \<Rightarrow> (time \<times> bool \<times> ws_event) list \<Rightarrow> ((time \<times> ws_frame) list \<times> bool) api" where
  "ws_loop cf c last_pong [] = returnOk ([], False)"
| "ws_loop cf c last_pong ((t, goes_out, ev) # evs) =
     at_time t (bindE (ws_react cf c last_pong t ev) (\<lambda>r.
       case r of
         None \<Rightarrow> returnOk ([], True)
       | Some (None, last_pong) \<Rightarrow> ws_loop cf c last_pong evs
       | Some (Some f, last_pong) \<Rightarrow>
           if goes_out
           then bindE (ws_loop cf c last_pong evs) (\<lambda>(sent, ended). returnOk ((t, f) # sent, ended))
           else returnOk ([], True)))"

section \<open>Calls to the database that answer\<close>

lemma db_write_InrE:
  assumes "db_write f w = (Inr x, w')"
  obtains d fs where "f (db w) = Inr d" "w' = w\<lparr>faults := fs, db := d\<rparr>"
  using assms unfolding db_write_def by (elim external_InrE) (auto split: sum.splits)

lemma keeps_db_cache_calls:
  "keeps (\<lambda>w. g (db w)) (get_conn :: unit io)" "keeps (\<lambda>w. g (db w)) (kv_del s)"
  "keeps (\<lambda>w. g (db w)) (kv_set_ex s v t)" "keeps (\<lambda>w. g (db w)) (kv_get s)"
  by (rule keeps_db_part, intro keeps_rules)+

lemma keeps_db_forget_profile:
  "keeps (\<lambda>w. g (db w)) k \<Longrightarrow> keeps (\<lambda>w. g (db w)) (forget_profile cf u k)"
  unfolding forget_profile_def by (intro keeps_catchE keeps_ignoreE keeps_db_cache_calls)

lemma keeps_db_store_cached:
  "keeps (\<lambda>w. g (db w)) k \<Longrightarrow> keeps (\<lambda>w. g (db w)) (store_cached key v t k)"
  unfolding store_cached_def by (intro keeps_catchE keeps_ignoreE keeps_db_cache_calls)

section \<open>Deleted accounts\<close>

lemma logged_out_rows:
  assumes "logout_all u w = (Inr x, w1)" and "revoke_extension_sessions u w1 = (Inr y, w2)"
  shows "logged_out u (db w2)" and "db_users (db w2) = db_users (db w)"
proof -
  obtain d1 fs where w1: "Inr (delete_refresh_tokens (\<lambda>t. rt_user_id t = u) (db w)) = (Inr d1 :: db_error + _)"
      "w1 = w\<lparr>faults := fs, db := d1\<rparr>"
    using assms(1) unfolding logout_all_def by (elim db_write_InrE)
  obtain fs2 where w2: "w2 = w1\<lparr>faults := fs2, db := (db w1)\<lparr>db_extension_sessions :=
      update_where (\<lambda>s. es_user_id s = u \<and> es_revoked_at s = None)
        (\<lambda>s. s\<lparr>es_revoked_at := Some (clock w1)\<rparr>) (db_extension_sessions (db w1))\<rparr>\<rparr>"
    using assms(2) unfolding revoke_extension_sessions_def
    by (elim run_InrE db_write_InrE) (auto simp: getsE_def)
  have "\<forall>t \<in> set (db_refresh_tokens (delete_refresh_tokens (\<lambda>t. rt_user_id t = u) d)). rt_user_id t \<noteq> u" for d
    unfolding delete_refresh_tokens_def Let_def by simp
  moreover have "d1 = delete_refresh_tokens (\<lambda>t. rt_user_id t = u) (db w)" using w1(1) by simp
  ultimately have "\<forall>t \<in> set (db_refresh_tokens d1). rt_user_id t \<noteq> u" by (simp only:)
  then show "logged_out u (db w2)"
    unfolding logged_out_def w2 w1(2) using w1(1) revoked_rows [of u "clock w1" "db_extension_sessions (db w1)"]
    by (simp add: w1(2))
  show "db_users (db w2) = db_users (db w)"
    unfolding w2 w1(2) using w1(1) by (auto simp: delete_refresh_tokens_def)
qed

lemma keeps_tables_record_event [keeps_rules]:
  "keeps (\<lambda>w. (db_users (db w), db_refresh_tokens (db w), db_extension_sessions (db w))) (record_event t u i r a m)"
  by (rule record_event_keeps_db) simp



section \<open>The reports of a user\<close>

lemma take_page_slice: "take n (page_slice (n + 1) p xs) = take n (drop (p * (n + 1)) xs)"
  by (simp add: page_slice_def)

text \<open>A page is as long as the limit, the step between two pages one longer: the report between two
  pages is on none of them.\<close>

lemma my_reports_Inr:
  assumes "get_my_reports u l c w = (Inr r, w')"
  shows "map (vrd_id \<circ> mri_report) (mrr_items r)
       = map ar_id (take (clamp_nat 1 100 (case l of None \<Rightarrow> 20 | Some n \<Rightarrow> n))
           (drop ((case c of None \<Rightarrow> 0 | Some n \<Rightarrow> n) * (clamp_nat 1 100 (case l of None \<Rightarrow> 20 | Some n \<Rightarrow> n) + 1))
             (reports_of u (db w))))"
proof -
  let ?l = "clamp_nat 1 100 (case l of None \<Rightarrow> 20 | Some n \<Rightarrow> n)" and ?c = "case c of None \<Rightarrow> 0 | Some n \<Rightarrow> n"
  have item: "(vrd_id \<circ> mri_report) (my_report_item_of vs x) = ar_id x" for vs x
    by (simp add: my_report_item_of_def abuse_report_model_to_dto_def Let_def)
  obtain w1 fetched vs w2 nx where f: "(read_page (?c * (?l + 1)) (\<lambda>d. page_slice (?l + 1) ?c (reports_of u d)) :: _ io) w
      = (Inr fetched, w1)" and r: "(returnOk \<lparr> mrr_items = map (my_report_item_of vs) (take ?l fetched),
      mrr_next_cursor = nx \<rparr> :: my_reports_response api) w2 = (Inr r, w')"
    using assms unfolding get_my_reports_def Let_def callE_def by (elim run_InrE) blast
  have "fetched = page_slice (?l + 1) ?c (reports_of u (db w))"
    using f by (auto simp: read_page_def throwErr_def elim: db_read_InrE split: if_splits)
  then show ?thesis using r item by (auto simp: take_page_slice comp_def returnOk_def simp del: One_nat_def)
qed

lemma my_reports_skip_a_row:
  assumes "distinct (map ar_id (reports_of u (db w)))" and "i < length (reports_of u (db w))"
    and "i mod (clamp_nat 1 100 (case l of None \<Rightarrow> 20 | Some n \<Rightarrow> n) + 1) = clamp_nat 1 100 (case l of None \<Rightarrow> 20 | Some n \<Rightarrow> n)"
    and "get_my_reports u l c w = (Inr r, w')"
  shows "ar_id (reports_of u (db w) ! i) \<notin> set (map (vrd_id \<circ> mri_report) (mrr_items r))"
proof
  define n where "n = clamp_nat 1 100 (case l of None \<Rightarrow> 20 | Some n \<Rightarrow> n)"
  define p where "p = (case c of None \<Rightarrow> 0 | Some n \<Rightarrow> (n :: nat))"
  let ?xs = "reports_of u (db w)"
  assume "ar_id (?xs ! i) \<in> set (map (vrd_id \<circ> mri_report) (mrr_items r))"
  then have "ar_id (?xs ! i) \<in> set (take n (drop (p * (n + 1)) (map ar_id ?xs)))"
    unfolding my_reports_Inr [OF assms(4)] n_def p_def by (simp add: take_map drop_map)
  then obtain j where j: "j < n" "p * (n + 1) + j < length ?xs"
      "map ar_id ?xs ! (p * (n + 1) + j) = ar_id (?xs ! i)"
    by (auto simp: in_set_conv_nth)
  then have "p * (n + 1) + j = i"
    using assms(1,2) nth_eq_iff_index_eq [OF assms(1), of "p * (n + 1) + j" i] by simp
  then have "i mod (n + 1) = j" using j(1) by (metis add.commute mod_mult_self3 mod_less less_Suc_eq Suc_eq_plus1)
  with assms(3) j(1) show False by (simp add: n_def)
qed

section \<open>Names stay well-formed and unique\<close>

text \<open>What the names of the users satisfy: a normalized name is the name itself, well-formed, and
  no other user has it.\<close>

definition names_ok :: "user list \<Rightarrow> bool" where
  "names_ok us \<longleftrightarrow>
     (\<forall>x \<in> set us. u_username_normalized x \<noteq> None \<longrightarrow>
        u_username_normalized x = Some (u_username x) \<and> wellformed_username (u_username x)
        \<and> (\<forall>y \<in> set us. u_username_normalized y = u_username_normalized x \<longrightarrow> u_id y = u_id x))"

lemma names_ok_rename:
  assumes ok: "names_ok (db_users d)" and v: "vu_normalized v = vu_original v" "wellformed_username (vu_original v)"
    and u: "update_user u (rename_row v now) d = Inr d'"
  shows "names_ok (db_users d')"
proof -
  have fresh: "\<forall>y \<in> set (db_users d). u_id y \<noteq> u \<longrightarrow> u_username_normalized y \<noteq> Some (vu_normalized v)"
    using u by (auto simp: update_user_def user_unique_def check_def list_ex_iff delete_where_def rename_row_def
        split: option.splits if_splits sum.splits)
  have e: "db_users d' = map (\<lambda>r. if u_id r = u then rename_row v now r else r) (db_users d)"
    using update_user_Inr [OF u] by (simp add: update_where_def)
  show ?thesis unfolding names_ok_def
  proof (intro ballI impI conjI)
    fix x assume x: "x \<in> set (db_users d')" and n: "u_username_normalized x \<noteq> None"
    obtain r where r: "r \<in> set (db_users d)" "x = (if u_id r = u then rename_row v now r else r)"
      using x by (auto simp: e)
    have o: "u_username_normalized r \<noteq> None \<Longrightarrow> u_username_normalized r = Some (u_username r) \<and> wellformed_username (u_username r)"
      using ok r(1) by (simp add: names_ok_def)
    show "u_username_normalized x = Some (u_username x)" "wellformed_username (u_username x)"
      using n o v r(2) by (simp_all add: rename_row_def split: if_splits)
    fix y assume y: "y \<in> set (db_users d')" and eq: "u_username_normalized y = u_username_normalized x"
    obtain q where q: "q \<in> set (db_users d)" "y = (if u_id q = u then rename_row v now q else q)"
      using y by (auto simp: e)
    have old: "u_username_normalized q = u_username_normalized r \<Longrightarrow> u_username_normalized r \<noteq> None \<Longrightarrow> u_id q = u_id r"
      using ok q(1) r(1) unfolding names_ok_def by blast
    show "u_id y = u_id x"
    proof (cases "u_id r = u"; cases "u_id q = u")
      assume "u_id r = u" "u_id q = u"
      then show ?thesis using r q by (simp add: rename_row_def)
    next
      assume "u_id r = u" "u_id q \<noteq> u"
      then show ?thesis using r q eq fresh by (simp add: rename_row_def)
    next
      assume "u_id r \<noteq> u" "u_id q = u"
      then show ?thesis using r(2) q(2) eq fresh [rule_format, OF r(1)] by (simp add: rename_row_def)
    next
      assume "u_id r \<noteq> u" "u_id q \<noteq> u"
      then show ?thesis using r q eq n old by simp
    qed
  qed
qed

lemma preserves_names: "keeps (\<lambda>w. db_users (db w)) m \<Longrightarrow> preserves (\<lambda>w. names_ok (db_users (db w))) m"
  by (rule keeps_preserves)

lemma update_username_preserves_names: "preserves (\<lambda>w. names_ok (db_users (db w))) (update_username cf bypass ip rq u name)"
proof (cases "validate_username name cf")
  case (Inl e)
  have k: "keeps (\<lambda>w. db_users (db w)) (check_and_increment bypass k n t)" for k n t
    by (rule keeps_db_part [OF keeps_db_check_and_increment])
  show ?thesis unfolding update_username_def Inl
    by (intro preserves_names keeps_limited_count k) (simp add: bindE_def from_sum_def throwErr_def keeps_def)
next
  case (Inr v)
  have v: "vu_normalized v = vu_original v" "wellformed_username (vu_original v)"
    using validate_username_accepts [of name cf v] Inr by auto
  have k: "keeps (\<lambda>w. db_users (db w)) (check_and_increment bypass k n t)" for k n t
    by (rule keeps_db_part [OF keeps_db_check_and_increment])
  have f: "preserves (\<lambda>w. names_ok (db_users (db w))) (find_user u)"
    "preserves (\<lambda>w. names_ok (db_users (db w))) (username_exists_case_insensitive n x)" for n x
    unfolding find_user_def username_exists_case_insensitive_def by (intro preserves_rules fault_blind_db)+
  have c: "preserves (\<lambda>w. names_ok (db_users (db w))) (get_conn :: unit io)"
    "preserves (\<lambda>w. names_ok (db_users (db w))) (kv_del s)"
    "preserves (\<lambda>w. names_ok (db_users (db w))) (kv_set_ex s x t)"
    "preserves (\<lambda>w. names_ok (db_users (db w))) (kv_get s)"
    "preserves (\<lambda>w. names_ok (db_users (db w))) (check_and_increment bypass s n t)"
    "preserves (\<lambda>w. names_ok (db_users (db w))) (record_event ev ou ip ra ag js)"
    for s x t n ev ou ip ra ag js
    by (intro preserves_names keeps_db_cache_calls k record_event_users)+
  have wr: "preserves (\<lambda>w. names_ok (db_users (db w))) (db_write (update_user u (rename_row v now)))" for now
    by (rule preserves_db_write) (auto simp: fault_blind_def dest: names_ok_rename [OF _ v])
  have ch: "preserves (\<lambda>w. names_ok (db_users (db w))) (change_username cf ip u v ck)" for ck
    unfolding change_username_def Let_def forget_profile_def remember_update_def store_cached_def
    by (intro preserves_rules f wr c)
  have rd: "preserves (\<lambda>w. names_ok (db_users (db w))) (read_cached as_name_update s :: _ api)" for s
    unfolding read_cached_def by (intro preserves_rules c)
  have ret: "bindE (returnOk v) g = g v" for g :: "validated_username \<Rightarrow> user_dto api"
    by (simp add: bindE_def returnOk_def fun_eq_iff)
  show ?thesis unfolding update_username_def Inr sum.case from_sum_def Let_def ret
    by (intro preserves_rules ch rd c)
qed

text \<open>C25: no change of a name, with or without failures, leaves two users with the same normalized
  name or a name that breaks the rules.\<close>

theorem update_username_keeps_names_unique:
  assumes "names_ok (db_users (db w))" and "update_username cf bypass ip rq u name w = (r, w')"
  shows "names_ok (db_users (db w'))"
  by (rule preservesE [OF update_username_preserves_names assms(2,1)])

lemma update_username_keeps_names_unique_witness:
  "names_ok (db_users (db (final (update_username config0 True ''::1'' (bearer ''acc'') ''u1'' ''alice_2'' world1))))"
proof (rule update_username_keeps_names_unique [OF _ surjective_pairing])
  have "u_username_normalized user0 = None \<or> u_username_normalized user0 = Some (u_username user0)
      \<and> wellformed_username (u_username user0)"
    by (simp add: user0_def wellformed_username_def username_min_len_def username_max_len_def username_char_def is_ascii_lower_def is_ascii_digit_def byte_def)
  then show "names_ok (db_users (db world1))"
    by (auto simp: names_ok_def)
qed

section \<open>Websocket tasks end\<close>

text \<open>A heartbeat at or after the expiry of the token ends the task of a websocket connection, at the
  latest: whatever comes afterwards is not sent.\<close>

theorem websocket_ends_at_heartbeat:
  assumes "int (cl_exp c) \<le> timestamp t"
  shows "ws_loop cf c last_pong (evs @ (t, goes_out, HeartbeatTick) # rest) w
         = ws_loop cf c last_pong (evs @ [(t, goes_out, HeartbeatTick)]) w
       \<and> (\<forall>sent ended w'. ws_loop cf c last_pong (evs @ [(t, goes_out, HeartbeatTick)]) w
            = (Inr (sent, ended), w') \<longrightarrow> ended)"
  using assms
proof (induction evs arbitrary: last_pong w)
  case Nil
  have e: "cl_exp c \<le> now_secs (w\<lparr>clock := t\<rparr>)" using Nil by (simp add: now_secs_def le_nat_iff)
  show ?case
    by (simp add: at_time_def bindE_def ws_heartbeat_def getsE_def e returnOk_def)
next
  case (Cons e evs)
  obtain t' g ev where e: "e = (t', g, ev)" by (cases e)
  have more: "ws_loop cf c lp (evs @ (t, goes_out, HeartbeatTick) # rest) v
      = ws_loop cf c lp (evs @ [(t, goes_out, HeartbeatTick)]) v" for lp v
    using Cons by blast
  have ends: "ws_loop cf c lp (evs @ [(t, goes_out, HeartbeatTick)]) v = (Inr (sent, ended), v') \<Longrightarrow> ended"
    for lp v sent ended v'
    using Cons by blast
  show ?case
    unfolding e append_Cons ws_loop.simps more
    by (auto simp: at_time_def bindE_def returnOk_def dest!: ends split: prod.splits sum.splits option.splits if_splits)
qed

lemma websocket_ends_at_heartbeat_witness:
  "ws_loop config0 acc_claims 0
     ([(1700000000000000000, True, FromHub (Some ''first''))] @ (1900000000000000000, True, HeartbeatTick)
        # [(1900000000000000001, True, FromHub (Some ''late''))]) world1
   = ws_loop config0 acc_claims 0
     ([(1700000000000000000, True, FromHub (Some ''first''))] @ [(1900000000000000000, True, HeartbeatTick)]) world1"
  by (rule conjunct1 [OF websocket_ends_at_heartbeat]) (simp add: acc_claims_def timestamp_def nanos_per_sec_def)

section \<open>Onboarding\<close>

lemma limited_strict_InrE:
  assumes "limited_strict v e1 e2 k w = (Inr x, w')"
  obtains w1 where "k w1 = (Inr x, w')"
  using assms that unfolding limited_strict_def
  by (cases "v w") (auto simp: catchE_def throwErr_def split: sum.splits)

lemma onboarded_row: "onboarded cf (onboard_row (cf_terms_current_version cf) now x)"
  by (simp add: onboarded_def onboard_row_def terms_accepted_def)

lemma build_status_completed: "obs_completed (build_onboarding_status x cf) = onboarded cf x"
  by (simp add: build_onboarding_status_def Let_def onboarded_def terms_accepted_def)

text \<open>Onboarding succeeds only for a user who confirms the age and the current terms; the answer is
  "completed", and the row of the user, with a confirmation time and the current version, says so.\<close>

theorem onboarding_completes:
  assumes "complete_onboarding cf bypass ip u p w = (Inr s, w')"
  shows "cor_age_confirmed p \<and> cor_terms_version p = cf_terms_current_version cf \<and> obs_completed s
    \<and> (\<exists>x \<in> set (db_users (db w')). u_id x = u \<and> onboarded cf x)"
proof -
  obtain w0 w1 row x w2 w3 now y where
    a: "cor_age_confirmed p" "cor_terms_version p = cf_terms_current_version cf"
    and f: "find_user u w1 = (Inr row, w0)" and x: "row = Some x"
    and g: "(getsE clock :: time api) w0 = (Inr now, w2)"
    and up: "(if onboarded cf x then returnOk x
        else callE (db_write (update_user (u_id x) (onboard_row (cf_terms_current_version cf) now)))
               (\<lambda>_. returnOk (onboard_row (cf_terms_current_version cf) now x))) w2 = ((Inr y :: api_error + user), w3)"
    and t: "(forget_profile cf u (ignoreE (record_event ''users.onboarding_complete'' (Some u) ip None None
         (JObj [(''already_complete'', JBool (onboarded cf x))])) (returnOk (build_onboarding_status y cf)))) w3 = (Inr s, w')"
    using assms unfolding complete_onboarding_def Let_def callE_def
    by (elim limited_strict_InrE run_InrE) blast
  have row: "find (\<lambda>r. u_id r = u) (db_users (db w1)) = Some x" and db2: "db w2 = db w1"
    using f x g unfolding find_user_def by (auto simp: getsE_def elim: db_read_InrE)
  have id: "u_id x = u" and mem: "x \<in> set (db_users (db w1))" using row by (auto dest: find_Some_set)
  have y: "onboarded cf y \<and> (\<exists>r \<in> set (db_users (db w3)). u_id r = u \<and> onboarded cf r)"
  proof (cases "onboarded cf x")
    case True
    then show ?thesis using up id mem db2 by (auto simp: returnOk_def)
  next
    case False
    obtain d fs where d: "update_user (u_id x) (onboard_row (cf_terms_current_version cf) now) (db w2) = Inr d"
        "w3 = w2\<lparr>faults := fs, db := d\<rparr>" and y: "y = onboard_row (cf_terms_current_version cf) now x"
      using up False unfolding callE_def by (auto simp: returnOk_def elim!: run_InrE db_write_InrE)
    have "onboard_row (cf_terms_current_version cf) now x \<in> set (db_users d)"
      unfolding update_user_Inr [OF d(1)] using mem db2 by (auto simp: update_where_def)
    moreover have "u_id (onboard_row (cf_terms_current_version cf) now x) = u"
      using id by (simp add: onboard_row_def)
    ultimately show ?thesis using y d(2) onboarded_row [of cf now x] by auto
  qed
  have "db_users (db w') = db_users (db w3)"
    by (rule keepsE [OF keeps_db_forget_profile [where g = db_users] t]) (intro keeps_rules)
  moreover have "s = build_onboarding_status y cf"
    using t by (auto simp: forget_profile_def catchE_def ignoreE_def returnOk_def split: prod.splits sum.splits)
  ultimately show ?thesis using a y by (simp add: build_status_completed)
qed

lemma onboarding_completes_witness:
  "obs_completed (the (case result (complete_onboarding config0 True ''::1'' ''u1''
      \<lparr> cor_age_confirmed = True, cor_terms_version = cf_terms_current_version config0 \<rparr> world1) of Inr s \<Rightarrow> Some s | _ \<Rightarrow> None))"
proof -
  let ?p = "\<lparr> cor_age_confirmed = True, cor_terms_version = cf_terms_current_version config0 \<rparr>"
  have "\<exists>s w'. complete_onboarding config0 True ''::1'' ''u1'' ?p world1 = (Inr s, w')"
    by (simp add: complete_onboarding_def limited_strict_def check_and_increment_def bindE_def getsE_def
        callE_def bindErr_def find_user_def guardE_def okOrE_def forget_profile_def catchE_def ignoreE_def
        returnOk_def update_user_def user_unique_def check_def delete_where_def Let_def user0_def
        split: prod.splits)
  then obtain s w' where r: "complete_onboarding config0 True ''::1'' ''u1'' ?p world1 = (Inr s, w')" by blast
  show ?thesis using onboarding_completes [OF r] by (simp add: r)
qed

end
