(* ===== verification/Worker.thy ===== *)
theory Worker
  imports VideoStore
begin

text \<open>
  The video worker (\<^verbatim>\<open>worker/src/main.rs\<close>): the classification of processing errors, the text
  of a failure, the runs of \<^verbatim>\<open>ffprobe\<close> and \<^verbatim>\<open>ffmpeg\<close> with their fallback profiles, the
  processing of one video from download to publication, the retry loop with its exponential
  backoff, and one turn of the main loop. The programs are the parameter \<^verbatim>\<open>lib_exec\<close>: what a
  run does may differ from one run to the next. The local files of a job live in a temporary
  directory that is removed when the processing ends.
\<close>

section \<open>Processing errors\<close>

datatype processing_error_kind = Transient | Permanent

record processing_error =
  pe_kind :: processing_error_kind
  pe_code :: string
  pe_message :: string

definition pe_transient :: "string \<Rightarrow> string \<Rightarrow> processing_error" where
  "pe_transient code msg = \<lparr> pe_kind = Transient, pe_code = code, pe_message = msg \<rparr>"

definition pe_permanent :: "string \<Rightarrow> string \<Rightarrow> processing_error" where
  "pe_permanent code msg = \<lparr> pe_kind = Permanent, pe_code = code, pe_message = msg \<rparr>"

definition is_transient :: "processing_error \<Rightarrow> bool" where
  "is_transient e \<longleftrightarrow> pe_kind e = Transient"

definition pe_display :: "processing_error \<Rightarrow> string" where
  "pe_display e = pe_message e @ '' ('' @ pe_code e @ '')''"

type_synonym 'a processing = "(world, processing_error, 'a) action"

section \<open>Texts of failures\<close>

definition max_error_message_chars :: nat where
  "max_error_message_chars = 300"

definition stderr_tail_bytes :: nat where
  "stderr_tail_bytes = 8 * 1024"

text \<open>
  \<^verbatim>\<open>String::from_utf8_lossy\<close>: every maximal ill-formed part becomes U+FFFD.
  \<open>utf8_follow b\<close> gives the ranges of the bytes that must follow the first byte \<open>b\<close>.
\<close>

definition utf8_follow :: "nat \<Rightarrow> (nat \<times> nat) list option" where
  "utf8_follow b =
     (if b < 0x80 then Some []
      else if 0xC2 \<le> b \<and> b \<le> 0xDF then Some [(0x80, 0xBF)]
      else if b = 0xE0 then Some [(0xA0, 0xBF), (0x80, 0xBF)]
      else if 0xE1 \<le> b \<and> b \<le> 0xEF \<and> b \<noteq> 0xED then Some [(0x80, 0xBF), (0x80, 0xBF)]
      else if b = 0xED then Some [(0x80, 0x9F), (0x80, 0xBF)]
      else if b = 0xF0 then Some [(0x90, 0xBF), (0x80, 0xBF), (0x80, 0xBF)]
      else if 0xF1 \<le> b \<and> b \<le> 0xF3 then Some [(0x80, 0xBF), (0x80, 0xBF), (0x80, 0xBF)]
      else if b = 0xF4 then Some [(0x80, 0x8F), (0x80, 0xBF), (0x80, 0xBF)]
      else None)"

fun matched :: "(nat \<times> nat) list \<Rightarrow> string \<Rightarrow> nat" where
  "matched ((lo, hi) # rs) (c # cs) =
     (if lo \<le> byte c \<and> byte c \<le> hi then Suc (matched rs cs) else 0)"
| "matched _ _ = 0"

definition replacement_char :: string where
  "replacement_char = map char_of [0xEF, 0xBF, 0xBD :: nat]"

function from_utf8_lossy :: "string \<Rightarrow> string" where
  "from_utf8_lossy [] = []"
| "from_utf8_lossy (c # cs) =
     (case utf8_follow (byte c) of
        None \<Rightarrow> replacement_char @ from_utf8_lossy cs
      | Some rs \<Rightarrow>
          (let n = matched rs cs in
           (if n = length rs then c # take n cs else replacement_char)
             @ from_utf8_lossy (drop n cs)))"
  by pat_completeness auto
termination
  by (relation "measure length") auto

definition tail_text :: "string \<Rightarrow> nat \<Rightarrow> string" where
  "tail_text bytes limit =
     (if bytes = [] then [] else from_utf8_lossy (drop (length bytes - limit) bytes))"

definition blank_controls :: "string \<Rightarrow> string" where
  "blank_controls s =
     map (\<lambda>c. if byte c = 10 \<or> byte c = 13 \<or> byte c = 9 then CHR '' '' else c) s"

definition sanitize_error_message :: "string \<Rightarrow> string" where
  "sanitize_error_message msg = concat (take max_error_message_chars (chars (blank_controls msg)))"

section \<open>Running programs\<close>

definition run_command_with_timeout ::
  "libs \<Rightarrow> string \<Rightarrow> string list \<Rightarrow> nat \<Rightarrow> command_output processing" where
  "run_command_with_timeout L program args timeout w =
     (let (outcome, fs) = lib_exec L (drawn w) program args (local_files w);
          w' = w\<lparr>local_files := fs, drawn := Suc (drawn w)\<rparr> in
      case outcome of
        ExecFinished out \<Rightarrow> (Inr out, w')
      | ExecFailed e \<Rightarrow>
          (Inl (pe_transient ''PROCESS_EXEC_FAILED'' (program @ '' spawn/wait failed: '' @ e)), w')
      | ExecTimedOut \<Rightarrow>
          (Inl (pe_transient ''PROCESS_TIMEOUT''
             (program @ '' exceeded timeout of '' @ show_nat timeout @ ''s'')), w'))"

text \<open>Reading an optional field of a JSON object: absent and \<^verbatim>\<open>null\<close> are the same.\<close>

definition json_optional :: "(json \<Rightarrow> 'a option) \<Rightarrow> string \<Rightarrow> json \<Rightarrow> 'a option option" where
  "json_optional f k v =
     (case json_field k v of
        None \<Rightarrow> Some None
      | Some JNull \<Rightarrow> Some None
      | Some x \<Rightarrow> map_option Some (f x))"

record ffprobe_output =
  fp_streams :: "string option list option"
  fp_duration :: "string option option"

text \<open>A stream is its codec type, the format its duration.\<close>

fun ffprobe_stream :: "json \<Rightarrow> string option option" where
  "ffprobe_stream (JObj fs) = json_optional json_str ''codec_type'' (JObj fs)"
| "ffprobe_stream _ = None"

fun ffprobe_streams :: "json \<Rightarrow> string option list option" where
  "ffprobe_streams (JArr vs) = those (map ffprobe_stream vs)"
| "ffprobe_streams _ = None"

fun ffprobe_format :: "json \<Rightarrow> string option option" where
  "ffprobe_format (JObj fs) = json_optional json_str ''duration'' (JObj fs)"
| "ffprobe_format _ = None"

definition parse_ffprobe :: "json \<Rightarrow> ffprobe_output option" where
  "parse_ffprobe v =
     (case v of
        JObj fs \<Rightarrow>
          (case (json_optional ffprobe_streams ''streams'' v, json_optional ffprobe_format ''format'' v) of
             (Some s, Some f) \<Rightarrow> Some \<lparr> fp_streams = s, fp_duration = f \<rparr>
           | _ \<Rightarrow> None)
      | _ \<Rightarrow> None)"

definition has_video_stream :: "ffprobe_output \<Rightarrow> bool" where
  "has_video_stream p \<longleftrightarrow>
     list_ex (\<lambda>codec. codec = Some ''video'') (case fp_streams p of None \<Rightarrow> [] | Some ss \<Rightarrow> ss)"

definition duration_seconds :: "libs \<Rightarrow> ffprobe_output \<Rightarrow> int option" where
  "duration_seconds L p =
     Option.bind (Option.bind (fp_duration p) (\<lambda>d. d)) (lib_f64_round_i32 L)"

definition run_ffprobe_preflight :: "libs \<Rightarrow> string \<Rightarrow> nat \<Rightarrow> int option processing" where
  "run_ffprobe_preflight L input timeout =
     bindE (run_command_with_timeout L ''ffprobe''
         [''-v'', ''error'', ''-print_format'', ''json'', ''-show_streams'', ''-show_format'', input]
         (max timeout 5)) (\<lambda>out.
       if \<not> co_success out
       then throwErr (pe_permanent ''INVALID_MEDIA''
              (''ffprobe failed: '' @ sanitize_error_message (tail_text (co_stderr out) stderr_tail_bytes)))
       else
         okOrE (pe_permanent ''CORRUPT_INPUT'' (lib_failure_text L (OtherError (co_stdout out))))
           (Option.bind (lib_json_parse L (co_stdout out)) parse_ffprobe) (\<lambda>p.
         guardE (has_video_stream p) (pe_permanent ''NO_VIDEO_STREAM'' ''Input has no video stream'')
        (guardE (case duration_seconds L p of None \<Rightarrow> True | Some d \<Rightarrow> \<not> d \<le> 0)
           (pe_permanent ''INVALID_MEDIA'' ''Input media duration is not positive'')
           (returnOk (duration_seconds L p)))))"

definition transcode_tail :: "string \<Rightarrow> string list" where
  "transcode_tail output =
     [''-c:v'', ''libx264'', ''-pix_fmt'', ''yuv420p'', ''-vf'',
      ''scale='' @ [CHR 0x27] @ ''min(1920,iw)'' @ [CHR 0x27] @ '':'' @ [CHR 0x27] @ ''min(1080,ih)''
        @ [CHR 0x27] @ '':force_original_aspect_ratio=decrease:force_divisible_by=2'',
      ''-movflags'', ''+faststart'', ''-y'', output]"

definition build_transcode_profiles :: "string \<Rightarrow> string \<Rightarrow> (string \<times> string list) list" where
  "build_transcode_profiles input output =
     [(''primary_h264_aac'',
       [''-hide_banner'', ''-loglevel'', ''error'', ''-i'', input, ''-c:a'', ''aac'', ''-b:a'', ''128k'',
        ''-preset'', ''medium'', ''-crf'', ''23'', ''-maxrate'', ''2M'', ''-bufsize'', ''4M'']
        @ transcode_tail output),
      (''fallback_tolerant_decode'',
       [''-hide_banner'', ''-loglevel'', ''error'', ''-fflags'', ''+genpts+discardcorrupt'',
        ''-err_detect'', ''ignore_err'', ''-analyzeduration'', ''100M'', ''-probesize'', ''100M'',
        ''-i'', input, ''-c:a'', ''aac'', ''-b:a'', ''96k'', ''-preset'', ''veryfast'', ''-crf'', ''26'']
        @ transcode_tail output),
      (''fallback_no_audio'',
       [''-hide_banner'', ''-loglevel'', ''error'', ''-fflags'', ''+genpts+discardcorrupt'',
        ''-analyzeduration'', ''100M'', ''-probesize'', ''100M'', ''-i'', input, ''-an'',
        ''-preset'', ''veryfast'', ''-crf'', ''26'']
        @ transcode_tail output)]"

text \<open>The profiles in order: a transient error ends the search, any other moves on.\<close>

fun try_profiles ::
  "libs \<Rightarrow> nat \<Rightarrow> (string \<times> string list) list \<Rightarrow> string option \<Rightarrow> unit processing" where
  "try_profiles L timeout [] last_err =
     throwErr (pe_permanent ''TRANSCODE_FAILED_PERMANENT''
       (''All transcode profiles failed''
          @ (case last_err of None \<Rightarrow> [] | Some m \<Rightarrow> '': '' @ sanitize_error_message m)))"
| "try_profiles L timeout (profile # profiles) last_err =
     catchE (run_command_with_timeout L ''ffmpeg'' (snd profile) (max timeout 15))
       (\<lambda>e. if is_transient e then throwErr e
            else try_profiles L timeout profiles (Some (pe_message e)))
       (\<lambda>out. if co_success out then returnOk ()
              else try_profiles L timeout profiles
                     (Some (sanitize_error_message (tail_text (co_stderr out) stderr_tail_bytes))))"

definition run_transcode_fallbacks :: "libs \<Rightarrow> nat \<Rightarrow> string \<Rightarrow> string \<Rightarrow> unit processing" where
  "run_transcode_fallbacks L timeout input output =
     try_profiles L timeout (build_transcode_profiles input output) None"

text \<open>Both callers of the thumbnail step only ask whether it succeeded.\<close>

definition generate_thumbnail :: "libs \<Rightarrow> string \<Rightarrow> string \<Rightarrow> nat \<Rightarrow> unit io" where
  "generate_thumbnail L input output timeout =
     bindErr (\<lambda>e. OtherError (pe_display e))
       (run_command_with_timeout L ''ffmpeg''
          [''-hide_banner'', ''-loglevel'', ''error'', ''-i'', input, ''-ss'', ''00:00:01'',
           ''-vframes'', ''1'', ''-vf'', ''scale=480:-1'', ''-y'', output] (max timeout 5)) (\<lambda>out.
       guardE (co_success out) (OtherError (tail_text (co_stderr out) stderr_tail_bytes)) (returnOk ()))"

section \<open>The realtime message\<close>

definition build_realtime_video_payload :: "string \<Rightarrow> string \<Rightarrow> video \<Rightarrow> bool \<Rightarrow> json" where
  "build_realtime_video_payload endpoint bucket v liked =
     (let published = has_published_status v;
          public_object = published \<or> v_s3_bucket v = bucket;
          url_bucket = (if published then bucket else v_s3_bucket v);
          url = (if public_object then Some (endpoint @ ''/'' @ url_bucket @ ''/'' @ v_s3_key v) else None);
          thumbnail = (if public_object
                       then Some (endpoint @ ''/'' @ bucket @ ''/'' @ v_id v @ ''_thumb.jpg'') else None) in
      JObj
       [(''id'', JStr (v_id v)), (''title'', json_opt_str (v_title v)),
        (''description'', json_opt_str (v_description v)), (''status'', JStr (v_status v)),
        (''created_at'', JNum (v_created_at v)), (''updated_at'', JNum (v_updated_at v)),
        (''is_anonymous'', JBool (v_is_anonymous v)), (''is_nsfw'', json_opt_bool (v_is_nsfw v)),
        (''is_liked'', JBool liked), (''like_count'', JNum (v_like_count v)),
        (''url'', json_opt_str url), (''thumbnail_url'', json_opt_str thumbnail),
        (''processing_error_code'', json_opt_str (v_processing_error_code v)),
        (''processing_error_message'', json_opt_str (v_processing_error_message v))])"

definition worker_publish_signal ::
  "config \<Rightarrow> uuid \<Rightarrow> string \<Rightarrow> string option \<Rightarrow> video \<Rightarrow> unit io" where
  "worker_publish_signal cf user_id event_type previous_status v =
     bindE (is_liked user_id (v_id v)) (\<lambda>liked.
     bindE new_v4 (\<lambda>event_id.
     bindE (getsE clock) (\<lambda>now.
       publish_video_status_event user_id
         (JObj [(''type'', JStr event_type), (''event_id'', JStr event_id), (''event_at'', JNum now),
                (''version'', JNum 1), (''previous_status'', json_opt_str previous_status),
                (''video'', build_realtime_video_payload (cf_minio_public_endpoint cf)
                             (cf_minio_bucket_videos cf) v liked)]))))"

section \<open>Processing one video\<close>

text \<open>
  \<^verbatim>\<open>TempDir\<close>: a fresh directory whose files go away with it. Creating it can fail.
\<close>

definition new_temp_dir :: "string io" where
  "new_temp_dir = external (OtherError ''tempdir'')
     (\<lambda>w. (Inr (''/tmp/'' @ uuid_src w (drawn w)), w\<lparr>drawn := Suc (drawn w)\<rparr>))"

definition remove_dir :: "string \<Rightarrow> world \<Rightarrow> world" where
  "remove_dir dir w =
     w\<lparr>local_files := (\<lambda>p. if prefix (dir @ ''/'') p then None else local_files w p)\<rparr>"

definition with_dir :: "string \<Rightarrow> 'a processing \<Rightarrow> 'a processing" where
  "with_dir dir m w = (case m w of (r, w') \<Rightarrow> (r, remove_dir dir w'))"

definition video_key :: "uuid \<Rightarrow> string" where
  "video_key i = i @ ''.mp4''"

definition thumb_key :: "uuid \<Rightarrow> string" where
  "thumb_key i = i @ ''_thumb.jpg''"

definition publish_row :: "config \<Rightarrow> uuid \<Rightarrow> int option \<Rightarrow> video \<Rightarrow> video" where
  "publish_row cf i duration v =
     v\<lparr> v_status := ''PUBLISHED'', v_s3_bucket := cf_minio_bucket_videos cf,
        v_s3_key := video_key i, v_duration_seconds := duration,
        v_processing_error_code := None, v_processing_error_message := None,
        v_failed_at := None \<rparr>"

definition make_thumbnail :: "libs \<Rightarrow> string \<Rightarrow> string \<Rightarrow> string \<Rightarrow> nat \<Rightarrow> bool processing" where
  "make_thumbnail L input output thumb timeout =
     catchE (generate_thumbnail L output thumb timeout)
       (\<lambda>_. catchE (generate_thumbnail L input thumb timeout)
              (\<lambda>_. returnOk False) (\<lambda>_. returnOk True))
       (\<lambda>_. returnOk True)"

text \<open>Steps 3 to 7, inside the temporary directory, then 8 and 9.\<close>

definition transient_as :: "libs \<Rightarrow> string \<Rightarrow> failure \<Rightarrow> processing_error" where
  "transient_as L code e = pe_transient code (lib_failure_text L e)"

definition prepare_media :: "app \<Rightarrow> video_process_job \<Rightarrow> video \<Rightarrow> string \<Rightarrow> int option processing" where
  "prepare_media ap job v dir =
     (let cf = ap_config ap; L = ap_libs ap;
          input = dir @ ''/input.mp4''; output = dir @ ''/output.mp4''; thumb = dir @ ''/thumb.jpg'' in
      bindErr (transient_as L ''RAW_DOWNLOAD_FAILED'')
        (download_file (v_s3_bucket v) (v_s3_key v) input) (\<lambda>_.
      bindE (run_ffprobe_preflight L input (cf_ffmpeg_transcode_timeout_secs cf)) (\<lambda>duration.
      bindE (run_transcode_fallbacks L (cf_ffmpeg_transcode_timeout_secs cf) input output) (\<lambda>_.
      bindE (make_thumbnail L input output thumb (cf_ffmpeg_thumbnail_timeout_secs cf)) (\<lambda>ready.
      bindErr (transient_as L ''PUBLISHED_UPLOAD_FAILED'')
        (upload_file (cf_minio_bucket_videos cf) (video_key (vpj_video_id job)) output) (\<lambda>_.
      ignoreE (if ready
               then upload_file (cf_minio_bucket_videos cf) (thumb_key (vpj_video_id job)) thumb
               else returnOk ())
        (returnOk duration)))))))"

definition announce_published :: "app \<Rightarrow> video_process_job \<Rightarrow> video \<Rightarrow> unit processing" where
  "announce_published ap job pub =
     bindE worker_invalidate_feed_cache (\<lambda>_.
     bindE (invalidate_user_video_cache (vpj_user_id job)) (\<lambda>_.
     ignoreE (worker_publish_signal (ap_config ap) (vpj_user_id job) ''video.status.published''
                (Some ''PROCESSING'') pub)
       (returnOk ())))"

definition publish_video :: "app \<Rightarrow> video_process_job \<Rightarrow> video \<Rightarrow> int option \<Rightarrow> unit processing" where
  "publish_video ap job v duration =
     bindErr (transient_as (ap_libs ap) ''DB_WRITE_FAILED'')
       (update_video_row (v_id v) (publish_row (ap_config ap) (vpj_video_id job) duration))
       (announce_published ap job)"

definition process_video :: "app \<Rightarrow> video_process_job \<Rightarrow> unit processing" where
  "process_video ap job =
     (let L = ap_libs ap in
      bindErr (transient_as L ''DB_READ_FAILED'') (find_video (vpj_video_id job)) (\<lambda>row.
      okOrE (pe_permanent ''VIDEO_NOT_FOUND'' ''Video not found in database'') row (\<lambda>v.
      bindErr (transient_as L ''TEMP_DIR_FAILED'') new_temp_dir (\<lambda>dir.
        with_dir dir (bindE (prepare_media ap job v dir) (publish_video ap job v))))))"

section \<open>Retrying\<close>

text \<open>
  \<^verbatim>\<open>config.worker_retry_backoff_base_secs * 2_u64.pow(attempt - 1)\<close> in 64 bits, and the
  sleep of that many seconds.
\<close>

definition backoff_secs :: "64 word \<Rightarrow> 8 word \<Rightarrow> 64 word" where
  "backoff_secs base attempt = base * 2 ^ unat (attempt - 1)"

definition sleep_secs :: "nat \<Rightarrow> world \<Rightarrow> world" where
  "sleep_secs n w = w\<lparr>clock := clock w + secs (int n)\<rparr>"

lemma unat_next: "attempt < bound \<Longrightarrow> unat (attempt + 1 :: 8 word) = Suc (unat attempt)"
  using unsigned_less [of bound, where ?'a = nat] by (simp add: word_less_nat_alt unat_word_ariths)

text \<open>
  The loop keeps the last error it saw; a success only breaks out of it. It answers that
  error and the state it ended in.
\<close>

function retry_loop ::
  "app \<Rightarrow> video_process_job \<Rightarrow> 8 word \<Rightarrow> processing_error option \<Rightarrow> world
     \<Rightarrow> processing_error option \<times> world" where
  "retry_loop ap job attempt last_error w =
     (let maxi = cf_worker_retry_max_attempts (ap_config ap) in
      if attempt \<le> maxi then
        (case process_video ap job w of
           (Inr _, w1) \<Rightarrow> (last_error, w1)
         | (Inl e, w1) \<Rightarrow>
             if is_transient e \<and> attempt < maxi
             then retry_loop ap job (attempt + 1) (Some e)
                    (sleep_secs (unat (backoff_secs (cf_worker_retry_backoff_base_secs (ap_config ap)) attempt)) w1)
             else (Some e, w1))
      else (last_error, w))"
  by pat_completeness auto
termination
  by (relation "measure (\<lambda>(ap, job, attempt, last_error, w).
        unat (cf_worker_retry_max_attempts (ap_config ap)) - unat attempt)")
    (auto simp: unat_next diff_less_mono2 word_less_nat_alt)

declare retry_loop.simps [simp del]

definition fail_row :: "processing_error \<Rightarrow> time \<Rightarrow> video \<Rightarrow> video" where
  "fail_row e now v =
     v\<lparr> v_status := ''FAILED'', v_processing_error_code := Some (pe_code e),
        v_processing_error_message := Some (sanitize_error_message (pe_message e)),
        v_failed_at := Some now \<rparr>"

text \<open>\<^verbatim>\<open>if let Some(err) = last_error && let Ok(Some(v)) = find_by_id(..)\<close>.\<close>

definition mark_failed ::
  "app \<Rightarrow> video_process_job \<Rightarrow> processing_error \<Rightarrow> (world, processing_error, unit) action" where
  "mark_failed ap job e =
     catchE (find_video (vpj_video_id job)) (\<lambda>_. returnOk ()) (\<lambda>row.
       case row of
         None \<Rightarrow> returnOk ()
       | Some v \<Rightarrow>
           bindE (getsE clock) (\<lambda>now.
           catchE (update_video_row (v_id v) (fail_row e now))
             (\<lambda>_. invalidate_user_video_cache (vpj_user_id job))
             (\<lambda>updated.
                ignoreE (worker_publish_signal (ap_config ap) (vpj_user_id job)
                           ''video.status.failed'' (Some (v_status v)) updated)
                  (invalidate_user_video_cache (vpj_user_id job)))))"

definition handle_job :: "app \<Rightarrow> video_process_job \<Rightarrow> world \<Rightarrow> world" where
  "handle_job ap job w =
     (case retry_loop ap job 1 None w of
        (None, w1) \<Rightarrow> w1
      | (Some e, w1) \<Rightarrow> final (mark_failed ap job e w1))"

text \<open>One turn of the main loop.\<close>

definition worker_step :: "app \<Rightarrow> world \<Rightarrow> world" where
  "worker_step ap w =
     (case pop_video_job w of
        (Inr (Some job), w1) \<Rightarrow> handle_job ap job w1
      | (Inr None, w1) \<Rightarrow> sleep_secs 1 w1
      | (Inl _, w1) \<Rightarrow> sleep_secs 5 w1)"

section \<open>Frames\<close>

text \<open>What the steps of a job never touch: the clock and the queues.\<close>

definition queues :: "world \<Rightarrow> time \<times> video_process_job list \<times> json list" where
  "queues w = (clock w, video_queue w, bulk_queue w)"

lemma queues_eq: "queues w = queues w' \<longleftrightarrow>
   clock w = clock w' \<and> video_queue w = video_queue w' \<and> bulk_queue w = bulk_queue w'"
  by (simp add: queues_def)

lemma keeps_run_command [keeps_rules]:
  "keeps db (run_command_with_timeout L p args t)" "keeps queues (run_command_with_timeout L p args t)"
  "keeps objects (run_command_with_timeout L p args t)"
  "preserves (\<lambda>w. faults w = []) (run_command_with_timeout L p args t)"
  by (auto simp: keeps_def preserves_def run_command_with_timeout_def queues_def Let_def
      split: prod.splits exec_result.splits)

lemma with_dir_run [simp]:
  "fst (with_dir dir m w) = fst (m w)" "snd (with_dir dir m w) = remove_dir dir (snd (m w))"
  by (simp_all add: with_dir_def split: prod.split)

lemma remove_dir_parts [simp]:
  "db (remove_dir dir w) = db w" "queues (remove_dir dir w) = queues w"
  "faults (remove_dir dir w) = faults w" "objects (remove_dir dir w) = objects w"
  by (simp_all add: remove_dir_def queues_def)

lemma keeps_with_dir [keeps_rules]:
  "keeps db m \<Longrightarrow> keeps db (with_dir dir m)" "keeps queues m \<Longrightarrow> keeps queues (with_dir dir m)"
  by (simp_all add: keeps_def)

lemma quiet_with_dir:
  "preserves (\<lambda>w. faults w = []) m \<Longrightarrow> preserves (\<lambda>w. faults w = []) (with_dir dir m)"
  by (simp add: preserves_def)

lemma keeps_queues_calls [keeps_rules]:
  "keeps queues get_conn" "keeps queues (kv_keys p)" "keeps queues (kv_del_all ks)"
  "keeps queues (db_read f)" "keeps queues (update_video_row i g)" "keeps queues new_temp_dir"
  "keeps queues (download_file b k q)" "keeps queues (upload_file b k q)" "keeps queues new_v4"
  unfolding kv_defs db_read_def update_video_row_def new_temp_dir_def download_file_def upload_file_def
  by ((rule keeps_external; simp add: queues_def split: sum.split option.split)
      | simp add: keeps_def new_v4_def queues_def)+

lemma keeps_publish_event [keeps_rules]:
  "keeps queues (publish_video_status_event u j)" "keeps objects (publish_video_status_event u j)"
  unfolding publish_video_status_event_def get_conn_def
  by (intro keeps_rules keeps_external; simp add: queues_def)+

lemma keeps_queues_caches [keeps_rules]:
  "keeps queues (drop_keys p)" "keeps queues (invalidate_user_video_cache u)"
  "keeps queues worker_invalidate_feed_cache" "keeps queues (find_video i)" "keeps queues (is_liked u i)"
  "keeps queues (worker_publish_signal cf u t ps v)"
  unfolding drop_keys_def invalidate_user_video_cache_def worker_invalidate_feed_cache_def
    find_video_def is_liked_def worker_publish_signal_def
  by (intro keeps_rules)+

lemma keeps_try_profiles [keeps_rules]:
  "keeps db (try_profiles L n ps le)" "keeps queues (try_profiles L n ps le)"
  "keeps objects (try_profiles L n ps le)"
  "preserves (\<lambda>w. faults w = []) (try_profiles L n ps le)"
  by (induction ps arbitrary: le) (simp_all add: keeps_rules quiet_rules)

lemma keeps_preflight [keeps_rules]:
  "keeps db (run_ffprobe_preflight L i n)" "keeps queues (run_ffprobe_preflight L i n)"
  "keeps objects (run_ffprobe_preflight L i n)"
  "preserves (\<lambda>w. faults w = []) (run_ffprobe_preflight L i n)"
  unfolding run_ffprobe_preflight_def by (intro keeps_rules quiet_rules)+

lemma keeps_thumbnail [keeps_rules]:
  "keeps db (make_thumbnail L i out th n)" "keeps queues (make_thumbnail L i out th n)"
  "keeps objects (make_thumbnail L i out th n)"
  "preserves (\<lambda>w. faults w = []) (make_thumbnail L i out th n)"
  unfolding make_thumbnail_def generate_thumbnail_def by (intro keeps_rules quiet_rules)+

lemma keeps_db_worker [keeps_rules]:
  "keeps db new_temp_dir" "keeps db (worker_publish_signal cf u t ps v)"
  unfolding new_temp_dir_def worker_publish_signal_def
  by (rule keeps_external; simp) (intro keeps_rules)

lemma quiet_worker:
  "preserves (\<lambda>w. faults w = []) new_temp_dir"
  "preserves (\<lambda>w. faults w = []) (worker_publish_signal cf u t ps v)"
  unfolding new_temp_dir_def worker_publish_signal_def is_liked_def
  by (rule keeps_faults_external; simp) (intro quiet_rules)

lemma keeps_process_video:
  "keeps queues (process_video ap job)" "preserves (\<lambda>w. faults w = []) (process_video ap job)"
  unfolding process_video_def prepare_media_def publish_video_def announce_published_def
    run_transcode_fallbacks_def Let_def
  by (intro keeps_rules) (intro quiet_rules quiet_with_dir quiet_worker no_faults_video_calls
      keeps_try_profiles keeps_preflight keeps_thumbnail)

lemma keeps_objects_calls [keeps_rules]:
  "keeps objects get_conn" "keeps objects (kv_keys p)" "keeps objects (kv_del_all ks)"
  "keeps objects (db_read f)" "keeps objects (update_video_row i g)" "keeps objects new_v4"
  unfolding kv_defs db_read_def update_video_row_def
  by ((rule keeps_external; simp split: sum.split option.split)
      | simp add: keeps_def new_v4_def)+

lemma keeps_objects_caches [keeps_rules]:
  "keeps objects (invalidate_user_video_cache u)" "keeps objects worker_invalidate_feed_cache"
  "keeps objects (worker_publish_signal cf u t ps v)"
  unfolding drop_keys_def invalidate_user_video_cache_def worker_invalidate_feed_cache_def
    is_liked_def worker_publish_signal_def
  by (intro keeps_rules)+

lemma upload_file_Inr: "upload_file b k p w = (Inr u, w') \<Longrightarrow> objects w' (b, k) \<noteq> None"
  by (auto simp: upload_file_def external.simps split: list.splits fault.splits option.splits)

lemma upload_file_adds: "preserves (\<lambda>w. objects w q \<noteq> None) (upload_file b k p)"
  by (auto simp: preserves_def upload_file_def external.simps split: list.splits fault.splits option.splits)

section \<open>What a processed video looks like\<close>

definition published_as :: "app \<Rightarrow> uuid \<Rightarrow> world \<Rightarrow> world \<Rightarrow> bool" where
  "published_as ap i w w' \<longleftrightarrow>
     (\<exists>d. db w' = (db w)\<lparr>db_videos :=
            update_where (\<lambda>v. v_id v = i) (publish_row (ap_config ap) i d) (db_videos (db w))\<rparr>)
     \<and> objects w' (cf_minio_bucket_videos (ap_config ap), video_key i) \<noteq> None"

lemma keeps_prepare_media [keeps_rules]: "keeps db (prepare_media ap job v dir)"
  unfolding prepare_media_def run_transcode_fallbacks_def Let_def by (intro keeps_rules)

lemma quiet_prepare: "preserves (\<lambda>w. faults w = []) (prepare_media ap job v dir)"
  unfolding prepare_media_def run_transcode_fallbacks_def Let_def
  by (intro quiet_rules keeps_try_profiles keeps_preflight keeps_thumbnail)

lemma prepare_media_Inr:
  assumes "prepare_media ap job v dir w = (Inr d, w')"
  shows "objects w' (cf_minio_bucket_videos (ap_config ap), video_key (vpj_video_id job)) \<noteq> None"
proof -
  let ?cf = "ap_config ap" and ?i = "vpj_video_id job"
  let ?thumb = "\<lambda>ready. if ready
       then upload_file (cf_minio_bucket_videos ?cf) (thumb_key ?i) (dir @ ''/thumb.jpg'') else returnOk ()"
  obtain w1 u w2 ready r where
    up: "upload_file (cf_minio_bucket_videos ?cf) (video_key ?i) (dir @ ''/output.mp4'') w1 = (Inr u, w2)" and
    th: "?thumb ready w2 = (r, w')"
    using assms unfolding prepare_media_def Let_def
    by (elim run_InrE ignoreE_InrE) (auto simp: returnOk_def)
  have "preserves (\<lambda>w. objects w q \<noteq> None) (?thumb ready)" for q
    by (intro preserves_rules upload_file_adds)
  from preservesD [OF this upload_file_Inr [OF up]] show ?thesis by (simp add: th)
qed

lemma keeps_announce_published:
  "keeps db (announce_published ap job v)" "keeps objects (announce_published ap job v)"
  unfolding announce_published_def by (intro keeps_rules)+

lemma publish_video_Inr:
  assumes "publish_video ap job v d w = (Inr u, w')"
  shows "db w' = (db w)\<lparr>db_videos := update_where (\<lambda>r. v_id r = v_id v)
           (publish_row (ap_config ap) (vpj_video_id job) d) (db_videos (db w))\<rparr> \<and> objects w' = objects w"
proof -
  obtain p w1 where
    s1: "update_video_row (v_id v) (publish_row (ap_config ap) (vpj_video_id job) d) w = (Inr p, w1)" and
    s2: "announce_published ap job p w1 = (Inr u, w')"
    using assms unfolding publish_video_def by (elim run_InrE) auto
  show ?thesis
    using update_video_row_Inr [OF s1] keepsE [OF keeps_announce_published(1) s2]
      keepsE [OF keeps_announce_published(2) s2] keepsE [OF keeps_objects_calls(5) s1]
    by auto
qed

lemma process_video_Inr:
  assumes "process_video ap job w = (Inr u, w')"
  shows "video_exists (db w) (vpj_video_id job) \<and> published_as ap (vpj_video_id job) w w'"
proof -
  from assms obtain v w1 dir w2 where
    s1: "find_video (vpj_video_id job) w = (Inr (Some v), w1)" and
    s2: "new_temp_dir w1 = (Inr dir, w2)" and
    s3: "with_dir dir (bindE (prepare_media ap job v dir) (publish_video ap job v)) w2 = (Inr u, w')"
    unfolding process_video_def Let_def by (elim run_InrE) auto
  have f: "find (\<lambda>v. v_id v = vpj_video_id job) (db_videos (db w)) = Some v"
    using db_read_Inr [OF s1 [unfolded find_video_def]] by simp
  then have v: "v \<in> set (db_videos (db w))" "v_id v = vpj_video_id job"
    using find_Some_set [OF f] by simp_all
  obtain w5 where s4: "bindE (prepare_media ap job v dir) (publish_video ap job v) w2 = (Inr u, w5)"
    "w' = remove_dir dir w5"
    using s3 by (auto simp: with_dir_def split: prod.splits)
  obtain d w4 where s5: "prepare_media ap job v dir w2 = (Inr d, w4)"
    "publish_video ap job v d w4 = (Inr u, w5)" using s4(1) by (elim run_InrE) auto
  have "db w4 = db w"
    using keepsE [OF keeps_db_video_calls(1) s1] keepsE [OF keeps_db_worker(1) s2]
      keepsE [OF keeps_prepare_media s5(1)]
    by (simp add: keeps_rules)
  then show ?thesis
    using prepare_media_Inr [OF s5(1)] publish_video_Inr [OF s5(2)] s4(2) v
    by (auto simp: published_as_def video_exists_def list_ex_iff)
qed

text \<open>Without failing calls, a processing that ends in an error has not touched the database.\<close>

lemma announce_published_quiet: "fst (announce_published ap job v w) = Inr ()"
  by (auto simp: announce_published_def worker_invalidate_feed_cache_def invalidate_user_video_cache_def
      drop_keys_def action_defs split: prod.splits sum.splits)

lemma publish_video_Inl:
  assumes "faults w = []" and "publish_video ap job v d w = (Inl e, w')"
  shows "db w' = db w"
proof (cases "update_video_row (v_id v) (publish_row (ap_config ap) (vpj_video_id job) d) w")
  case (Pair r w1)
  then show ?thesis
  proof (cases r)
    case (Inl a)
    then show ?thesis using assms Pair
      by (auto simp: publish_video_def bindErr_def update_video_row_def split: sum.splits option.splits)
  next
    case (Inr p)
    then have "fst (publish_video ap job v d w) = Inr ()"
      using Pair announce_published_quiet by (simp add: publish_video_def bindErr_def)
    then show ?thesis using assms(2) by simp
  qed
qed

lemma process_video_Inl:
  assumes q: "faults w = []" and r: "process_video ap job w = (Inl e, w')"
  shows "db w' = db w"
proof (cases "find (\<lambda>v. v_id v = vpj_video_id job) (db_videos (db w))")
  case None
  then show ?thesis using q r
    by (simp add: process_video_def bindErr_def throwErr_def Let_def)
next
  case (Some v)
  let ?dir = "''/tmp/'' @ uuid_src w (drawn w)"
  let ?w1 = "w\<lparr>drawn := Suc (drawn w)\<rparr>"
  have t: "new_temp_dir w = (Inr ?dir, ?w1)" using q by (simp add: new_temp_dir_def)
  have q1: "faults ?w1 = []" using q by simp
  obtain s where s: "bindE (prepare_media ap job v ?dir) (publish_video ap job v) ?w1 = (Inl e, s)"
    "w' = remove_dir ?dir s"
    using r Some q by (auto simp: process_video_def bindErr_def t with_dir_def Let_def split: prod.splits)
  obtain x w2 where p: "prepare_media ap job v ?dir ?w1 = (x, w2)" by fastforce
  have d: "db w2 = db w" using keepsE [OF keeps_prepare_media p] by simp
  show ?thesis
  proof (cases x)
    case (Inl a)
    then show ?thesis using s p d by (simp add: bindE_def)
  next
    case (Inr m)
    have "faults w2 = []" using preservesD [OF quiet_prepare q1, of ap job v ?dir] unfolding p by simp
    then show ?thesis using publish_video_Inl [of w2 ap job v m e s] s p d Inr by (simp add: bindE_def)
  qed
qed

section \<open>The retry loop\<close>

definition settled :: "uuid \<Rightarrow> database \<Rightarrow> bool" where
  "settled i d \<longleftrightarrow> (\<forall>v \<in> set (db_videos d). v_id v = i \<longrightarrow> v_status v \<in> {''PUBLISHED'', ''FAILED''})"

text \<open>\<open>touched i w w'\<close>: only rows of video \<open>i\<close> may differ, and those are published or failed.\<close>

definition touched :: "uuid \<Rightarrow> video list \<Rightarrow> video list \<Rightarrow> bool" where
  "touched i vs vs' \<longleftrightarrow>
     (\<exists>g. (\<forall>v. v_id (g v) = v_id v \<and> v_status (g v) \<in> {''PUBLISHED'', ''FAILED''})
        \<and> vs' = update_where (\<lambda>v. v_id v = i) g vs)"

lemma touched_by:
  "(\<And>v. v_id (g v) = v_id v) \<Longrightarrow> (\<And>v. v_status (g v) \<in> {''PUBLISHED'', ''FAILED''})
     \<Longrightarrow> touched i vs (update_where (\<lambda>v. v_id v = i) g vs)"
  unfolding touched_def by blast

lemma touched_trans: "touched i us vs \<Longrightarrow> touched i vs ws \<Longrightarrow> touched i us ws"
proof -
  assume "touched i us vs" "touched i vs ws"
  then obtain g h where g: "\<And>v. v_id (g v) = v_id v" and vs: "vs = update_where (\<lambda>v. v_id v = i) g us"
    and h: "\<And>v. v_id (h v) = v_id v" "\<And>v. v_status (h v) \<in> {''PUBLISHED'', ''FAILED''}"
    and ws: "ws = update_where (\<lambda>v. v_id v = i) h vs"
    unfolding touched_def by blast
  have "ws = update_where (\<lambda>v. v_id v = i) (\<lambda>v. h (g v)) us"
    by (simp add: ws vs update_where_def g)
  then show ?thesis
    using touched_by [of "\<lambda>v. h (g v)" i us] g h by simp
qed

lemma touched_rows:
  assumes "touched i vs vs'" and "v' \<in> set vs'"
  shows "(v_id v' = i \<and> v_status v' \<in> {''PUBLISHED'', ''FAILED''}) \<or> (v_id v' \<noteq> i \<and> v' \<in> set vs)"
proof -
  obtain g where g: "\<forall>v. v_id (g v) = v_id v \<and> v_status (g v) \<in> {''PUBLISHED'', ''FAILED''}"
    and vs': "vs' = update_where (\<lambda>v. v_id v = i) g vs"
    using assms(1) unfolding touched_def by blast
  obtain v where v: "v \<in> set vs" "v' = (if v_id v = i then g v else v)"
    using assms(2) unfolding vs' set_update_where by blast
  show ?thesis
  proof (cases "v_id v = i")
    case True
    then show ?thesis using v(2) g by metis
  next
    case False
    then show ?thesis using v by simp
  qed
qed

lemma touched_settled: "touched i (db_videos d) (db_videos d') \<Longrightarrow> settled i d'"
  unfolding settled_def by (intro ballI impI) (blast dest: touched_rows)

lemma touched_keeps_settled:
  "touched i (db_videos d) (db_videos d') \<Longrightarrow> settled k d \<Longrightarrow> settled k d'"
  unfolding settled_def by (intro ballI impI) (blast dest: touched_rows)

lemma touched_absent:
  "\<forall>v \<in> set vs. v_id v \<noteq> i \<Longrightarrow> touched i vs vs"
proof -
  assume a: "\<forall>v \<in> set vs. v_id v \<noteq> i"
  then have "vs = update_where (\<lambda>v. v_id v = i) (\<lambda>v. v\<lparr>v_status := ''FAILED''\<rparr>) vs"
    by (simp add: update_where_def map_idI)
  then show ?thesis using touched_by [of "\<lambda>v. v\<lparr>v_status := ''FAILED''\<rparr>" i vs] by simp
qed

lemma published_as_touched:
  "published_as ap i w w' \<Longrightarrow> touched i (db_videos (db w)) (db_videos (db w'))"
  by (auto simp: published_as_def publish_row_def intro!: touched_by)

lemma sleep_secs_simps [simp]:
  "db (sleep_secs n w) = db w" "faults (sleep_secs n w) = faults w"
  "clock (sleep_secs n w) = clock w + secs (int n)" "video_queue (sleep_secs n w) = video_queue w"
  "bulk_queue (sleep_secs n w) = bulk_queue w"
  by (simp_all add: sleep_secs_def)

text \<open>
  Without failing calls the loop ends with a published video, or with an error and an
  untouched or a published video.
\<close>

lemma retry_loop_post:
  assumes "faults w = []" and "retry_loop ap job attempt last_error w = (r, w')"
  shows "faults w' = [] \<and> video_queue w' = video_queue w
     \<and> (db w' = db w \<or> touched (vpj_video_id job) (db_videos (db w)) (db_videos (db w')))
     \<and> (r = None \<longrightarrow> attempt \<le> cf_worker_retry_max_attempts (ap_config ap)
          \<longrightarrow> touched (vpj_video_id job) (db_videos (db w)) (db_videos (db w')))"
  using assms
proof (induction ap job attempt last_error w rule: retry_loop.induct)
  case (1 ap job attempt last_error w)
  let ?max = "cf_worker_retry_max_attempts (ap_config ap)"
  let ?base = "cf_worker_retry_backoff_base_secs (ap_config ap)"
  obtain x w1 where run: "process_video ap job w = (x, w1)" by fastforce
  have q: "faults w1 = []" "queues w1 = queues w"
    using preservesD [OF keeps_process_video(2) "1.prems"(1), of ap job]
      keepsD [OF keeps_process_video(1), of ap job w] by (simp_all add: run)
  show ?case
  proof (cases "attempt \<le> ?max")
    case False
    then show ?thesis using "1.prems" by (simp add: retry_loop.simps [of _ _ _ _ w] Let_def)
  next
    case le: True
    show ?thesis
    proof (cases x)
      case (Inr u)
      with run have "touched (vpj_video_id job) (db_videos (db w)) (db_videos (db w1))"
        using process_video_Inr [of ap job w u w1] published_as_touched by blast
      then show ?thesis using "1.prems"(2) le run Inr q
        by (simp add: retry_loop.simps [of _ _ _ _ w] Let_def queues_eq)
    next
      case (Inl e)
      have d: "db w1 = db w" using process_video_Inl [OF "1.prems"(1)] run Inl by simp
      show ?thesis
      proof (cases "is_transient e \<and> attempt < ?max")
        case True
        let ?w2 = "sleep_secs (unat (backoff_secs ?base attempt)) w1"
        have r: "retry_loop ap job (attempt + 1) (Some e) ?w2 = (r, w')"
          using "1.prems"(2) le run Inl True by (simp add: retry_loop.simps [of _ _ _ _ w] Let_def)
        have "attempt + 1 \<le> ?max" using True by (simp add: inc_le)
        then show ?thesis
          using "1.IH" [OF refl le run [symmetric] Inl True _ r] q d
          by (simp add: queues_eq sleep_secs_def)
      next
        case False
        have "retry_loop ap job attempt last_error w = (Some e, w1)"
          by (subst retry_loop.simps) (simp only: Let_def le if_True run Inl prod.case sum.case False if_False)
        then show ?thesis using "1.prems"(2) q d by (simp add: queues_eq)
      qed
    qed
  qed
qed

lemma worker_publish_signal_quiet: "faults w = [] \<Longrightarrow> faults (snd (worker_publish_signal cf u t ps v w)) = []"
  by (rule preservesD [OF quiet_worker(2)])

text \<open>Marking a video as failed, without failing calls.\<close>

lemma mark_failed_post:
  assumes "faults w = []"
  shows "faults (final (mark_failed ap job e w)) = []"
    and "video_queue (final (mark_failed ap job e w)) = video_queue w"
    and "touched (vpj_video_id job) (db_videos (db w)) (db_videos (db (final (mark_failed ap job e w))))"
    and "find (\<lambda>v. v_id v = vpj_video_id job) (db_videos (db w)) = Some v
         \<Longrightarrow> db_videos (db (final (mark_failed ap job e w)))
              = update_where (\<lambda>v. v_id v = vpj_video_id job) (fail_row e (clock w)) (db_videos (db w))"
proof -
  let ?i = "vpj_video_id job"
  have "preserves (\<lambda>w. faults w = []) (mark_failed ap job e)" "keeps queues (mark_failed ap job e)"
    unfolding mark_failed_def
    by (intro quiet_rules no_faults_video_calls quiet_worker) (intro keeps_rules)
  from preservesD [OF this(1) assms] keepsD [OF this(2), of w]
  show "faults (final (mark_failed ap job e w)) = []"
    "video_queue (final (mark_failed ap job e w)) = video_queue w" by (simp_all add: queues_eq)
  show found: "db_videos (db (final (mark_failed ap job e w)))
      = update_where (\<lambda>v. v_id v = ?i) (fail_row e (clock w)) (db_videos (db w))"
    if f: "find (\<lambda>v. v_id v = ?i) (db_videos (db w)) = Some v" for v
  proof -
    let ?f = "fail_row e (clock w)"
    have v: "v_id v = ?i" using find_Some_set [OF f] by simp
    let ?w1 = "w\<lparr>db := (db w)\<lparr>db_videos := update_where (\<lambda>v. v_id v = ?i) ?f (db_videos (db w))\<rparr>\<rparr>"
    have u: "update_video_row (v_id v) ?f w = (Inr (?f v), ?w1)"
      using update_video_row_ok [OF assms] f v by simp
    have k: "keeps db (ignoreE (worker_publish_signal (ap_config ap) (vpj_user_id job)
        ''video.status.failed'' (Some (v_status v)) (?f v)) (invalidate_user_video_cache (vpj_user_id job)
        :: unit processing))"
      by (intro keeps_rules)
    show ?thesis
      using keepsD [OF k, of ?w1] assms f
      by (simp add: mark_failed_def catchE_def getsE_def bindE_def u)
  qed
  show "touched ?i (db_videos (db w)) (db_videos (db (final (mark_failed ap job e w))))"
  proof (cases "find (\<lambda>v. v_id v = ?i) (db_videos (db w))")
    case None
    then have "\<forall>v \<in> set (db_videos (db w)). v_id v \<noteq> ?i" by (auto simp: find_None_iff)
    moreover have "final (mark_failed ap job e w) = w"
      using None assms by (simp add: mark_failed_def catchE_def returnOk_def)
    ultimately show ?thesis by (simp add: touched_absent)
  next
    case (Some v)
    show ?thesis unfolding found [OF Some] by (rule touched_by) (simp_all add: fail_row_def)
  qed
qed

lemma handle_job_post:
  assumes q: "faults w = []" and m: "1 \<le> cf_worker_retry_max_attempts (ap_config ap)"
  shows "faults (handle_job ap job w) = [] \<and> video_queue (handle_job ap job w) = video_queue w
     \<and> touched (vpj_video_id job) (db_videos (db w)) (db_videos (db (handle_job ap job w)))"
proof -
  obtain r w1 where run: "retry_loop ap job 1 None w = (r, w1)" by fastforce
  note p = retry_loop_post [OF q run]
  show ?thesis
  proof (cases r)
    case None
    with p m run show ?thesis by (simp add: handle_job_def)
  next
    case (Some e)
    have q1: "faults w1 = []" using p by simp
    note f = mark_failed_post(1,2,3) [OF q1, where ap = ap and job = job and e = e]
    have "touched (vpj_video_id job) (db_videos (db w)) (db_videos (db (final (mark_failed ap job e w1))))"
      using p f(3) touched_trans by (cases "db w1 = db w") auto
    with p f Some run show ?thesis by (simp add: handle_job_def)
  qed
qed

text \<open>C3: the worker gets through its queue: after as many turns as jobs were waiting, the queue
  is empty and every video that had a job is published or marked as failed, as long as no call
  to a service fails and at least one attempt is allowed.\<close>

theorem worker_settles_every_job:
  assumes "faults w = []" and "1 \<le> cf_worker_retry_max_attempts (ap_config ap)"
  shows "video_queue ((worker_step ap ^^ length (video_queue w)) w) = []
     \<and> (\<forall>job \<in> set (video_queue w).
          settled (vpj_video_id job) (db ((worker_step ap ^^ length (video_queue w)) w)))"
proof -
  have step: "\<exists>w'. worker_step ap w = w' \<and> faults w' = [] \<and> video_queue w' = js
      \<and> touched (vpj_video_id j) (db_videos (db w)) (db_videos (db w'))"
    if "faults w = []" "video_queue w = js @ [j]" for w :: world and js j
  proof -
    have pop: "pop_video_job w = (Inr (Some j), w\<lparr>video_queue := js\<rparr>)"
      using that by (simp add: pop_video_job_def bindE_def)
    show ?thesis
      using handle_job_post [of "w\<lparr>video_queue := js\<rparr>" ap j] that assms(2) by (simp add: worker_step_def pop)
  qed
  have "\<forall>w :: world. faults w = [] \<longrightarrow> video_queue w = js \<longrightarrow>
      (let w' = (worker_step ap ^^ length js) w in
       video_queue w' = [] \<and> (\<forall>k. settled k (db w) \<longrightarrow> settled k (db w'))
       \<and> (\<forall>job \<in> set js. settled (vpj_video_id job) (db w')))" for js
  proof (induction js rule: rev_induct)
    case (snoc j js)
    show ?case
    proof (intro allI impI)
      fix w :: world assume q: "faults w = []" and v: "video_queue w = js @ [j]"
      obtain w1 where w1: "worker_step ap w = w1" "faults w1 = []" "video_queue w1 = js"
        and t: "touched (vpj_video_id j) (db_videos (db w)) (db_videos (db w1))"
        using step [OF q v] by blast
      have n: "(worker_step ap ^^ length (js @ [j])) w = (worker_step ap ^^ length js) w1"
        by (simp add: funpow_swap1 w1(1))
      show "let w' = (worker_step ap ^^ length (js @ [j])) w in
         video_queue w' = [] \<and> (\<forall>k. settled k (db w) \<longrightarrow> settled k (db w'))
         \<and> (\<forall>job \<in> set (js @ [j]). settled (vpj_video_id job) (db w'))"
        using snoc.IH [rule_format, OF w1(2,3)] touched_settled [OF t] touched_keeps_settled [OF t]
        unfolding n Let_def by auto
    qed
  qed simp
  from this [of "video_queue w"] assms(1) show ?thesis by (simp add: Let_def)
qed

text \<open>C28: a successful processing leaves the video published: its row names the public object,
  which exists, and carries no error any more; the other rows are as they were.\<close>

theorem processed_video_is_published:
  assumes "process_video ap job w = (Inr u, w')"
  shows "(\<exists>v \<in> set (db_videos (db w')). v_id v = vpj_video_id job \<and> v_status v = ''PUBLISHED''
            \<and> v_s3_bucket v = cf_minio_bucket_videos (ap_config ap)
            \<and> v_s3_key v = video_key (vpj_video_id job)
            \<and> v_processing_error_code v = None \<and> v_failed_at v = None)
     \<and> objects w' (cf_minio_bucket_videos (ap_config ap), video_key (vpj_video_id job)) \<noteq> None
     \<and> (\<forall>v \<in> set (db_videos (db w)). v_id v \<noteq> vpj_video_id job \<longrightarrow> v \<in> set (db_videos (db w')))"
proof -
  let ?i = "vpj_video_id job"
  note p = process_video_Inr [OF assms]
  from p obtain v where v: "v \<in> set (db_videos (db w))" "v_id v = ?i"
    by (auto simp: video_exists_def list_ex_iff)
  from p obtain d where d: "set (db_videos (db w'))
      = (\<lambda>r. if v_id r = ?i then publish_row (ap_config ap) ?i d r else r) ` set (db_videos (db w))"
    by (auto simp: published_as_def set_update_where)
  have "publish_row (ap_config ap) ?i d v \<in> set (db_videos (db w'))"
    unfolding d by (rule rev_image_eqI [OF v(1)]) (simp add: v(2))
  then have 1: "\<exists>r \<in> set (db_videos (db w')). v_id r = ?i \<and> v_status r = ''PUBLISHED''
            \<and> v_s3_bucket r = cf_minio_bucket_videos (ap_config ap) \<and> v_s3_key r = video_key ?i
            \<and> v_processing_error_code r = None \<and> v_failed_at r = None"
    by (rule bexI [rotated]) (simp add: publish_row_def v(2))
  have 2: "r \<in> set (db_videos (db w'))" if "r \<in> set (db_videos (db w))" "v_id r \<noteq> ?i" for r
    unfolding d by (rule rev_image_eqI [OF that(1)]) (simp add: that(2))
  show ?thesis using p 1 2 by (auto simp: published_as_def)
qed

text \<open>The retry loop remembers an error it has recovered from: when the first attempt ends in
  a transient error and the second succeeds, the video is published and then marked as failed.\<close>

theorem recovered_video_is_marked_failed:
  assumes "process_video ap job w = (Inl e, w1)" and "is_transient e"
    and "1 < cf_worker_retry_max_attempts (ap_config ap)"
    and "process_video ap job
           (sleep_secs (unat (backoff_secs (cf_worker_retry_backoff_base_secs (ap_config ap)) 1)) w1)
         = (Inr (), w2)"
    and "faults w2 = []"
  shows "\<exists>v \<in> set (db_videos (db (handle_job ap job w))). v_id v = vpj_video_id job
           \<and> v_status v = ''FAILED'' \<and> v_processing_error_code v = Some (pe_code e)
           \<and> v_s3_bucket v = cf_minio_bucket_videos (ap_config ap)
           \<and> v_s3_key v = video_key (vpj_video_id job)"
proof -
  let ?i = "vpj_video_id job"
  have le: "1 \<le> cf_worker_retry_max_attempts (ap_config ap)"
    "(2 :: 8 word) \<le> cf_worker_retry_max_attempts (ap_config ap)"
    using assms(3) inc_le [of 1 "cf_worker_retry_max_attempts (ap_config ap)"] by simp_all
  have "retry_loop ap job 1 None w = (Some e, w2)"
    by (subst retry_loop.simps, subst retry_loop.simps) (simp add: assms le Let_def)
  then have h: "handle_job ap job w = final (mark_failed ap job e w2)" by (simp add: handle_job_def)
  note p = process_video_Inr [OF assms(4)]
  let ?w = "sleep_secs (unat (backoff_secs (cf_worker_retry_backoff_base_secs (ap_config ap)) 1)) w1"
  from p obtain v where v: "v \<in> set (db_videos (db ?w))" "v_id v = ?i"
    by (auto simp: video_exists_def list_ex_iff)
  from p obtain d where d: "set (db_videos (db w2))
      = (\<lambda>r. if v_id r = ?i then publish_row (ap_config ap) ?i d r else r) ` set (db_videos (db ?w))"
    by (auto simp: published_as_def set_update_where)
  let ?p = "publish_row (ap_config ap) ?i d v"
  have pub: "?p \<in> set (db_videos (db w2))"
    unfolding d by (rule rev_image_eqI [OF v(1)]) (simp add: v(2))
  have pid: "v_id ?p = ?i" by (simp add: publish_row_def v(2))
  obtain r where r: "find (\<lambda>v. v_id v = ?i) (db_videos (db w2)) = Some r"
    using pub pid by (cases "find (\<lambda>v. v_id v = ?i) (db_videos (db w2))") (auto simp: find_None_iff)
  have "fail_row e (clock w2) ?p \<in> set (db_videos (db (handle_job ap job w)))"
    unfolding h mark_failed_post(4) [OF assms(5) r] set_update_where
    by (rule rev_image_eqI [OF pub]) (simp add: pid)
  then show ?thesis
    by (rule bexI [rotated]) (simp add: fail_row_def publish_row_def v(2))
qed

lemma unat_mult_power:
  assumes "unat b * 2 ^ k < 2 ^ 64"
  shows "unat (b * 2 ^ k :: 64 word) = unat b * 2 ^ k"
proof -
  have "unat (b * 2 ^ k) = unat (word_of_nat (unat b * 2 ^ k) :: 64 word)"
    by (rule arg_cong [where f = unat]) simp
  also have "\<dots> = (unat b * 2 ^ k) mod 2 ^ 64" by (simp only: unat_of_nat) simp
  finally show ?thesis using assms by simp
qed

lemma backoff_budget:
  assumes "unat b * 2 ^ m < 2 ^ 64" and "attempt < maxi" and "1 \<le> attempt" and "m = unat (maxi :: 8 word)"
  shows "unat (backoff_secs b attempt) = unat b * 2 ^ (unat attempt - 1)"
proof -
  have a: "unat (attempt - 1) = unat attempt - 1" using assms(3) by (simp add: unat_sub)
  have "unat attempt - 1 \<le> m" using assms(2,4) by (simp add: word_less_nat_alt)
  then have "unat b * 2 ^ (unat attempt - 1) \<le> unat b * 2 ^ m" by (intro mult_le_mono2 power_increasing) simp_all
  then show ?thesis
    unfolding backoff_secs_def a using assms(1) by (intro unat_mult_power) linarith
qed

lemma secs_int_add: "secs (int m) + secs (int n) = secs (int (m + n))"
  by (simp add: secs_def distrib_right)

lemma retry_loop_clock:
  assumes "retry_loop ap job attempt last_error w = (r, w')" and "1 \<le> attempt"
    and "attempt \<le> cf_worker_retry_max_attempts (ap_config ap)"
    and "unat (cf_worker_retry_backoff_base_secs (ap_config ap))
           * 2 ^ unat (cf_worker_retry_max_attempts (ap_config ap)) < 2 ^ 64"
  shows "clock w \<le> clock w' \<and> clock w' \<le> clock w + secs (int (unat (cf_worker_retry_backoff_base_secs (ap_config ap))
     * (2 ^ (unat (cf_worker_retry_max_attempts (ap_config ap)) - 1) - 2 ^ (unat attempt - 1))))"
  using assms
proof (induction ap job attempt last_error w rule: retry_loop.induct)
  case (1 ap job attempt last_error w)
  let ?max = "cf_worker_retry_max_attempts (ap_config ap)"
  let ?b = "cf_worker_retry_backoff_base_secs (ap_config ap)"
  obtain x w1 where run: "process_video ap job w = (x, w1)" by fastforce
  have c: "clock w1 = clock w"
    using keepsD [OF keeps_process_video(1), of ap job w] by (simp add: run queues_eq)
  note le = "1.prems"(3)
  show ?case
  proof (cases "\<exists>e. x = Inl e \<and> is_transient e \<and> attempt < ?max")
    case False
    then have "w' = w1" using "1.prems"(1) le run
      by (subst (asm) retry_loop.simps) (auto simp: Let_def split: sum.splits)
    then show ?thesis using c by (simp add: secs_def nanos_per_sec_def)
  next
    case True
    then obtain e where e: "x = Inl e" "is_transient e" "attempt < ?max" by blast
    let ?s = "unat (backoff_secs ?b attempt)"
    have r: "retry_loop ap job (attempt + 1) (Some e) (sleep_secs ?s w1) = (r, w')"
      using "1.prems"(1) le run e by (simp add: retry_loop.simps [of _ _ _ _ w] Let_def)
    have n: "unat (attempt + 1) = Suc (unat attempt)" by (rule unat_next [OF e(3)])
    have a1: "1 \<le> unat attempt" using "1.prems"(2) by (simp add: word_le_nat_alt)
    have am: "unat attempt < unat ?max" using e(3) by (simp add: word_less_nat_alt)
    have b: "?s = unat ?b * 2 ^ (unat attempt - 1)"
      by (rule backoff_budget [OF "1.prems"(4) e(3) "1.prems"(2) refl])
    have ih: "clock (sleep_secs ?s w1) \<le> clock w' \<and> clock w' \<le> clock (sleep_secs ?s w1)
        + secs (int (unat ?b * (2 ^ (unat ?max - 1) - 2 ^ (unat (attempt + 1) - 1))))"
      by (rule "1.IH" [OF refl le run [symmetric] e(1) _ r]) (use e n am "1.prems"(4) in
          \<open>simp_all add: word_le_nat_alt\<close>)
    have p: "(2::nat) ^ unat attempt = 2 * 2 ^ (unat attempt - 1)"
      using a1 by (metis Suc_diff_1 less_eq_Suc_le One_nat_def power_Suc)
    have "(2::nat) ^ unat attempt \<le> 2 ^ (unat ?max - 1)"
      by (rule power_increasing) (use am in simp_all)
    then have "(2::nat) ^ (unat attempt - 1) + (2 ^ (unat ?max - 1) - 2 ^ unat attempt)
        = 2 ^ (unat ?max - 1) - 2 ^ (unat attempt - 1)" unfolding p by linarith
    then have "?s + unat ?b * (2 ^ (unat ?max - 1) - 2 ^ unat attempt)
        = unat ?b * (2 ^ (unat ?max - 1) - 2 ^ (unat attempt - 1))"
      unfolding b by (metis add_mult_distrib2)
    then have "secs (int ?s) + secs (int (unat ?b * (2 ^ (unat ?max - 1) - 2 ^ unat attempt)))
        = secs (int (unat ?b * (2 ^ (unat ?max - 1) - 2 ^ (unat attempt - 1))))"
      by (simp only: secs_int_add)
    moreover have "0 \<le> secs (int ?s)" by (simp add: secs_def nanos_per_sec_def)
    ultimately show ?thesis using ih c n by (simp only: sleep_secs_simps diff_Suc_1) linarith
  qed
qed

text \<open>C40: a job is given up in bounded time: whatever the runs do, the backoff between the
  attempts adds up to less than \<^verbatim>\<open>base * 2^(max - 1)\<close> seconds.\<close>

theorem retries_end_in_bounded_time:
  assumes "unat (cf_worker_retry_backoff_base_secs (ap_config ap))
             * 2 ^ unat (cf_worker_retry_max_attempts (ap_config ap)) < 2 ^ 64"
  shows "clock w \<le> clock (handle_job ap job w)
     \<and> clock (handle_job ap job w) \<le> clock w + secs (int
         (unat (cf_worker_retry_backoff_base_secs (ap_config ap))
            * (2 ^ (unat (cf_worker_retry_max_attempts (ap_config ap)) - 1) - 1)))"
proof (cases "1 \<le> cf_worker_retry_max_attempts (ap_config ap)")
  case True
  obtain r w1 where run: "retry_loop ap job 1 None w = (r, w1)" by fastforce
  have "keeps clock (mark_failed ap job e)" for e
  proof -
    have "keeps queues (mark_failed ap job e)" unfolding mark_failed_def by (intro keeps_rules)
    then show ?thesis by (simp add: keeps_def queues_eq)
  qed
  then have "clock (handle_job ap job w) = clock w1"
    by (simp add: handle_job_def run keepsD split: option.split)
  then show ?thesis using retry_loop_clock [OF run _ True assms] by simp
next
  case False
  then have "retry_loop ap job 1 None w = (None, w)" by (simp add: retry_loop.simps Let_def)
  then show ?thesis by (simp add: handle_job_def secs_def nanos_per_sec_def)
qed

text \<open>The two programs that announce a change of a video's status send the same view of it:
  the worker's own construction is the one of the API's handlers.\<close>

theorem realtime_payload_agrees:
  "build_realtime_video_payload (cf_minio_public_endpoint cf) (cf_minio_bucket_videos cf) v liked
     = user_video_json (video_model_to_user_dto cf v liked)"
  by (simp add: build_realtime_video_payload_def user_video_json_def video_model_to_user_dto_def Let_def)

section \<open>Sample runs\<close>

definition worker_app :: app where
  "worker_app = \<lparr> ap_config = config0, ap_libs = libs0 \<rparr>"

definition job0 :: video_process_job where
  "job0 = \<lparr> vpj_video_id = ''v1'', vpj_user_id = ''u1'', vpj_raw_bucket = ''videos'',
     vpj_raw_key = ''v1.mp4'' \<rparr>"

definition worker_world :: world where
  "worker_world = world1\<lparr> objects := (\<lambda>_. Some \<lparr> so_size = 1000, so_head = ''raw'' \<rparr>),
     video_queue := [job0] \<rparr>"

text \<open>The programs of the sample, except that their first run times out.\<close>

definition flaky_app :: app where
  "flaky_app = \<lparr> ap_config = config0, ap_libs = libs0\<lparr> lib_exec := (\<lambda>n p args fs.
     if n = 1 then (ExecTimedOut, fs) else lib_exec libs0 n p args fs) \<rparr> \<rparr>"

lemma announce_published_result: "\<exists>w'. announce_published ap job v w = (Inr (), w')"
  using announce_published_quiet [of ap job v w] by (metis prod.collapse)

lemma flaky_config [simp]: "ap_config flaky_app = config0"
  by (simp add: flaky_app_def)

lemma last_transcode_tail [simp]: "last (xs @ transcode_tail p) = p"
  by (simp add: transcode_tail_def)

lemma sample_command:
  "drawn w \<noteq> 1 \<Longrightarrow> run_command_with_timeout (ap_libs flaky_app) p args t w =
     (Inr \<lparr> co_success = True, co_stdout = (if p = ''ffprobe'' then ''probe'' else []), co_stderr = [] \<rparr>,
      w\<lparr> local_files := (if p = ''ffprobe'' then local_files w
           else (local_files w)(last args := Some \<lparr> so_size = 500, so_head = ''out'' \<rparr>)),
         drawn := Suc (drawn w) \<rparr>)"
  by (simp add: run_command_with_timeout_def flaky_app_def libs0_def)

lemma sample_preflight:
  "drawn w \<noteq> 1 \<Longrightarrow> run_ffprobe_preflight (ap_libs flaky_app) i t w = (Inr (Some 5), w\<lparr>drawn := Suc (drawn w)\<rparr>)"
  by (simp add: run_ffprobe_preflight_def bindE_def sample_command)
    (simp add: flaky_app_def libs0_def parse_ffprobe_def json_optional_def has_video_stream_def
      duration_seconds_def returnOk_def)

lemma sample_transcode:
  "drawn w \<noteq> 1 \<Longrightarrow> run_transcode_fallbacks (ap_libs flaky_app) t i p w =
     (Inr (), w\<lparr> local_files := (local_files w)(p := Some \<lparr> so_size = 500, so_head = ''out'' \<rparr>),
        drawn := Suc (drawn w) \<rparr>)"
  by (simp add: run_transcode_fallbacks_def build_transcode_profiles_def catchE_def sample_command returnOk_def
      del: append.simps)

lemma sample_thumbnail:
  "drawn w \<noteq> 1 \<Longrightarrow> make_thumbnail (ap_libs flaky_app) i p th t w =
     (Inr True, w\<lparr> local_files := (local_files w)(th := Some \<lparr> so_size = 500, so_head = ''out'' \<rparr>),
        drawn := Suc (drawn w) \<rparr>)"
  by (simp add: make_thumbnail_def generate_thumbnail_def catchE_def bindErr_def sample_command returnOk_def)

lemma sample_prepare:
  assumes "faults w = []" "1 < drawn w" "objects w (''videos'', ''v1.mp4'') \<noteq> None"
  shows "\<exists>w'. prepare_media flaky_app job0 video0 dir w = (Inr (Some 5), w') \<and> db w' = db w \<and> faults w' = []"
proof -
  obtain ob where ob: "objects w (''videos'', ''v1.mp4'') = Some ob" using assms(3) by blast
  let ?w1 = "w\<lparr>local_files := (local_files w)(dir @ ''/input.mp4'' := Some ob)\<rparr>"
  have 1: "download_file (v_s3_bucket video0) (v_s3_key video0) (dir @ ''/input.mp4'') w = (Inr (), ?w1)"
    using assms ob by (simp add: download_file_def video0_def)
  show ?thesis
    unfolding prepare_media_def Let_def bindErr_def bindE_def 1
    using assms
    by (simp add: sample_preflight sample_transcode sample_thumbnail upload_file_def ignoreE_def returnOk_def)
qed

lemma sample_run:
  assumes "faults w = []" "db w = db world1" "1 \<le> drawn w" "objects w (''videos'', ''v1.mp4'') \<noteq> None"
  shows "\<exists>w'. process_video flaky_app job0 w = (Inr (), w') \<and> faults w' = []"
proof -
  let ?w1 = "w\<lparr>drawn := Suc (drawn w)\<rparr>"
  have f: "find (\<lambda>v. v_id v = vpj_video_id job0) (db_videos (db w)) = Some video0"
    by (simp add: assms(2) video0_def job0_def)
  obtain dir where t: "new_temp_dir w = (Inr dir, ?w1)" using assms by (simp add: new_temp_dir_def)
  obtain w2 where p: "prepare_media flaky_app job0 video0 dir ?w1 = (Inr (Some 5), w2)"
    "db w2 = db w" "faults w2 = []" using sample_prepare [of ?w1 dir] assms by auto
  have fv: "find (\<lambda>v. v_id v = v_id video0) (db_videos (db w2)) = Some video0"
    using f p(2) by (simp add: job0_def video0_def)
  obtain w3 where pub: "publish_video flaky_app job0 video0 (Some 5) w2 = (Inr (), w3)"
    using announce_published_result [of flaky_app job0] update_video_row_ok [OF p(3) fv]
    unfolding publish_video_def bindErr_def by simp blast
  have r: "process_video flaky_app job0 w = (Inr (), remove_dir dir w3)"
    using assms(1) by (simp add: process_video_def Let_def bindErr_def f t with_dir_def bindE_def p pub)
  show ?thesis
    using preservesD [OF keeps_process_video(2) assms(1), of flaky_app job0] r by auto
qed

lemma processed_video_is_published_witness:
  "\<exists>w'. process_video flaky_app job0 (worker_world\<lparr>drawn := 1\<rparr>) = (Inr (), w')
     \<and> objects w' (''videos'', ''v1.mp4'') \<noteq> None"
proof -
  obtain w' where r: "process_video flaky_app job0 (worker_world\<lparr>drawn := 1\<rparr>) = (Inr (), w')"
    using sample_run [of "worker_world\<lparr>drawn := 1\<rparr>"] by (auto simp: worker_world_def)
  from processed_video_is_published [OF r] r show ?thesis
    by (auto simp: job0_def video_key_def config0_def)
qed

text \<open>The first attempt times out (its first run has the number 1), the second succeeds.\<close>

lemma recovered_video_is_marked_failed_witness:
  "\<exists>v \<in> set (db_videos (db (handle_job flaky_app job0 worker_world))).
     v_id v = ''v1'' \<and> v_status v = ''FAILED'' \<and> v_processing_error_code v = Some ''PROCESS_TIMEOUT''"
proof -
  let ?e = "pe_transient ''PROCESS_TIMEOUT'' (''ffprobe exceeded timeout of '' @ show_nat 300 @ ''s'')"
  have w: "faults worker_world = []" "db worker_world = db world1" "drawn worker_world = 0"
    "objects worker_world = (\<lambda>_. Some \<lparr> so_size = 1000, so_head = ''raw'' \<rparr>)"
    by (simp_all add: worker_world_def)
  have f: "find (\<lambda>v. v_id v = vpj_video_id job0) (db_videos (db worker_world)) = Some video0"
    by (simp add: w video0_def job0_def)
  obtain dir where t: "new_temp_dir worker_world = (Inr dir, worker_world\<lparr>drawn := 1\<rparr>)"
    by (simp add: new_temp_dir_def w)
  have pf: "run_ffprobe_preflight (ap_libs flaky_app) i 300 v = (Inl ?e, v\<lparr>drawn := 2\<rparr>)" if "drawn v = 1" for i v
    using that by (simp add: run_ffprobe_preflight_def bindE_def run_command_with_timeout_def flaky_app_def)
  have p: "\<exists>v. prepare_media flaky_app job0 video0 dir (worker_world\<lparr>drawn := 1\<rparr>) = (Inl ?e, v)
      \<and> db v = db world1 \<and> drawn v = 2 \<and> faults v = [] \<and> objects v = objects worker_world"
    by (simp add: prepare_media_def Let_def bindErr_def bindE_def download_file_def w pf config0_def)
  obtain w1 where r1: "process_video flaky_app job0 worker_world = (Inl ?e, w1)"
    and w1: "db w1 = db world1" "drawn w1 = 2" "faults w1 = []" "objects w1 = objects worker_world"
    using p w(1) by (auto simp: process_video_def Let_def bindErr_def f t with_dir_def bindE_def remove_dir_def)
  let ?w2 = "sleep_secs (unat (backoff_secs (cf_worker_retry_backoff_base_secs (ap_config flaky_app)) 1)) w1"
  obtain w3 where r2: "process_video flaky_app job0 ?w2 = (Inr (), w3)" "faults w3 = []"
    using sample_run [of ?w2] w1 w by (auto simp: sleep_secs_def)
  show ?thesis
    using recovered_video_is_marked_failed [OF r1 _ _ r2]
    by (auto simp: is_transient_def pe_transient_def config0_def job0_def)
qed

lemma worker_settles_every_job_witness:
  "video_queue (worker_step worker_app worker_world) = []
   \<and> settled ''v1'' (db (worker_step worker_app worker_world))"
  using worker_settles_every_job [of worker_world worker_app]
  by (simp add: worker_world_def worker_app_def config0_def job0_def)

lemma retries_end_in_bounded_time_witness:
  "clock (handle_job worker_app job0 worker_world) \<le> clock worker_world + secs 6"
  using retries_end_in_bounded_time [of worker_app worker_world job0]
  by (simp add: worker_app_def config0_def)

end
