(* ===== verification/Bulk.thy ===== *)
theory Bulk
  imports Worker Downloads
begin

text \<open>
  Bulk downloads: the job a client creates (\<^verbatim>\<open>api/src/videos/handlers.rs\<close>) and the worker that
  makes its archive (\<^verbatim>\<open>worker/src/bulk_download.rs\<close>), with retries and the marking of failed and
  stale jobs.
\<close>

section \<open>Creating a job\<close>

record create_bulk_download_request =
  cbd_video_ids :: "uuid list"
  cbd_idempotency_key :: "string option"

record bulk_download_job_response =
  bdr_job_id :: uuid
  bdr_status :: string
  bdr_video_count :: nat
  bdr_created_at :: time
  bdr_download_url :: "string option"
  bdr_zip_size_bytes :: "int option"
  bdr_error_message :: "string option"
  bdr_completed_at :: "time option"
  bdr_expires_at :: "time option"

definition bulk_job_response :: "download_job \<Rightarrow> bulk_download_job_response" where
  "bulk_job_response j =
     \<lparr> bdr_job_id = dj_id j, bdr_status = dj_status j, bdr_video_count = length (dj_video_ids j),
       bdr_created_at = dj_created_at j, bdr_download_url = dj_zip_url j,
       bdr_zip_size_bytes = dj_zip_size_bytes j, bdr_error_message = dj_error_message j,
       bdr_completed_at = dj_completed_at j, bdr_expires_at = dj_expires_at j \<rparr>"

definition bulk_idempotency_cache_key :: "string \<Rightarrow> string" where
  "bulk_idempotency_cache_key k = ''bulk_download:idempotency:'' @ k"

definition find_job :: "uuid \<Rightarrow> download_job option io" where
  "find_job i = db_read (\<lambda>d. find (\<lambda>j. dj_id j = i) (db_download_jobs d))"

text \<open>The job a key was used for: a failing call, and a text that is no key of a job, count as none.\<close>

definition existing_bulk_job :: "string \<Rightarrow> download_job option api" where
  "existing_bulk_job k =
     catchE get_conn (\<lambda>_. returnOk None) (\<lambda>_.
     catchE (kv_get (bulk_idempotency_cache_key k)) (\<lambda>_. returnOk None) (\<lambda>v.
       case Option.bind v as_text of
         None \<Rightarrow> returnOk None
       | Some i \<Rightarrow> catchE (find_job i) (\<lambda>_. returnOk None) returnOk))"

definition is_active_job :: "uuid \<Rightarrow> download_job \<Rightarrow> bool" where
  "is_active_job u j \<longleftrightarrow> dj_user_id j = u \<and> dj_status j \<in> {''PENDING'', ''PROCESSING''}"

definition utc_midnight :: "time \<Rightarrow> time" where
  "utc_midnight now = (now div days 1) * days 1"

definition is_job_since :: "uuid \<Rightarrow> time \<Rightarrow> download_job \<Rightarrow> bool" where
  "is_job_since u t j \<longleftrightarrow> dj_user_id j = u \<and> t \<le> dj_created_at j"

definition count_jobs :: "(download_job \<Rightarrow> bool) \<Rightarrow> (nat \<Rightarrow> 'a api) \<Rightarrow> 'a api" where
  "count_jobs p k = bindErr (\<lambda>_. internal_error ''Failed to check job limits'')
     (db_read (\<lambda>d. length (filter p (db_download_jobs d)))) k"

definition available_for_bulk :: "uuid list \<Rightarrow> video \<Rightarrow> bool" where
  "available_for_bulk is v \<longleftrightarrow> v_id v \<in> set is \<and> v_deleted_at v = None \<and> v_status v = ''PUBLISHED''
     \<and> v_moderation_state v = ''VISIBLE''"

definition missing_ids :: "video list \<Rightarrow> uuid list \<Rightarrow> uuid list" where
  "missing_ids found is = filter (\<lambda>i. i \<notin> v_id ` set found) is"

definition new_download_job :: "uuid \<Rightarrow> uuid list \<Rightarrow> string \<Rightarrow> uuid \<Rightarrow> time \<Rightarrow> download_job" where
  "new_download_job u is key i now =
     \<lparr> dj_id = i, dj_user_id = u, dj_video_ids = is, dj_status = ''PENDING'',
       dj_idempotency_key = Some key, dj_zip_s3_key = None, dj_zip_url = None,
       dj_zip_size_bytes = None, dj_error_message = None, dj_partial_manifest = None,
       dj_retry_count = 0, dj_created_at = now, dj_updated_at = None, dj_completed_at = None,
       dj_expires_at = Some (now + days 7) \<rparr>"

definition bulk_payload :: "uuid \<Rightarrow> uuid \<Rightarrow> uuid list \<Rightarrow> json" where
  "bulk_payload i u is =
     JObj [(''job_id'', JStr i), (''user_id'', JStr u), (''video_ids'', JArr (map JStr is))]"

text \<open>The key is cached and the job is queued, each when a connection is there; failures are dropped.\<close>

definition announce_bulk_job :: "string \<Rightarrow> uuid \<Rightarrow> uuid \<Rightarrow> uuid list \<Rightarrow> unit api" where
  "announce_bulk_job key i u is =
     bindE (catchE get_conn (\<lambda>_. returnOk ())
              (\<lambda>_. ignoreE (kv_set_ex (bulk_idempotency_cache_key key) (KText i) 86400) (returnOk ()))) (\<lambda>_.
     catchE get_conn (\<lambda>_. returnOk ())
       (\<lambda>_. ignoreE (external RedisError (\<lambda>w. (Inr (), w\<lparr>bulk_queue := bulk_payload i u is # bulk_queue w\<rparr>)))
              (returnOk ())))"

definition store_bulk_job :: "uuid \<Rightarrow> uuid list \<Rightarrow> string \<Rightarrow> download_job api" where
  "store_bulk_job u is key =
     bindE new_v4 (\<lambda>i.
     bindE (getsE clock) (\<lambda>now.
     let j = new_download_job u is key i now in
     bindErr (\<lambda>_. internal_error ''Failed to create download job'') (db_write (insert_download_job j)) (\<lambda>_.
       returnOk j)))"

definition check_bulk_limits :: "uuid \<Rightarrow> 'a api \<Rightarrow> 'a api" where
  "check_bulk_limits u k =
     count_jobs (is_active_job u) (\<lambda>active.
     guardE (active < 3)
       (too_many_requests ''Maximum 3 active bulk download jobs. Please wait for existing jobs to complete.'')
    (bindE (getsE clock) (\<lambda>now.
     count_jobs (is_job_since u (utc_midnight now)) (\<lambda>daily.
     guardE (daily < 10)
       (too_many_requests ''Daily limit of 10 bulk downloads reached. Resets at midnight UTC.'') k))))"

definition check_bulk_videos :: "uuid list \<Rightarrow> 'a api \<Rightarrow> 'a api" where
  "check_bulk_videos is k =
     bindErr (\<lambda>_. internal_error ''Failed to validate videos'')
       (db_read (\<lambda>d. filter (available_for_bulk is) (db_videos d))) (\<lambda>found.
       guardE (length found = length is)
         (bad_request (''Some videos are not available: ['' @ join_with '', '' (missing_ids found is) @ '']'')) k)"

definition create_new_bulk_job :: "uuid \<Rightarrow> uuid list \<Rightarrow> string \<Rightarrow> bulk_download_job_response api" where
  "create_new_bulk_job u is key =
     check_bulk_limits u
    (check_bulk_videos is
    (bindE (store_bulk_job u is key) (\<lambda>j.
     bindE (announce_bulk_job key (dj_id j) u is) (\<lambda>_.
       returnOk (bulk_job_response j)))))"

definition bulk_key :: "uuid \<Rightarrow> string option \<Rightarrow> string api" where
  "bulk_key u given =
     (case given of
        Some k \<Rightarrow> returnOk k
      | None \<Rightarrow> bindE new_v4 (\<lambda>i. returnOk (''bulk:'' @ u @ '':'' @ i)))"

definition create_bulk_download ::
  "uuid \<Rightarrow> create_bulk_download_request \<Rightarrow> bulk_download_job_response api" where
  "create_bulk_download u p =
     guardE (cbd_video_ids p \<noteq> []) (bad_request ''No video IDs provided'')
    (guardE (length (cbd_video_ids p) \<le> 10) (bad_request ''Maximum 10 videos per bulk download'')
    (bindE (bulk_key u (cbd_idempotency_key p)) (\<lambda>key.
     bindE (existing_bulk_job key) (\<lambda>existing.
       case existing of
         Some j \<Rightarrow> returnOk (bulk_job_response j)
       | None \<Rightarrow> create_new_bulk_job u (cbd_video_ids p) key))))"

record bulk_download_status =
  bds_job_id :: uuid
  bds_status :: string
  bds_video_ids :: "uuid list"
  bds_created_at :: time
  bds_download_url :: "string option"
  bds_zip_size_bytes :: "int option"
  bds_error_message :: "string option"
  bds_partial_manifest :: "json option"
  bds_completed_at :: "time option"
  bds_expires_at :: "time option"
  bds_retry_count :: int

definition get_bulk_download_status :: "uuid \<Rightarrow> uuid \<Rightarrow> bulk_download_status api" where
  "get_bulk_download_status u i =
     bindErr (\<lambda>_. internal_error ''Failed to fetch job status'') (find_job i) (\<lambda>row.
     okOrE (not_found ''Download job not found'') row (\<lambda>j.
     guardE (dj_user_id j = u) (not_found ''Download job not found'')
       (returnOk \<lparr> bds_job_id = dj_id j, bds_status = dj_status j, bds_video_ids = dj_video_ids j,
          bds_created_at = dj_created_at j, bds_download_url = dj_zip_url j,
          bds_zip_size_bytes = dj_zip_size_bytes j, bds_error_message = dj_error_message j,
          bds_partial_manifest = dj_partial_manifest j, bds_completed_at = dj_completed_at j,
          bds_expires_at = dj_expires_at j, bds_retry_count = dj_retry_count j \<rparr>)))"

section \<open>The worker\<close>

definition update_job_row :: "uuid \<Rightarrow> (download_job \<Rightarrow> download_job) \<Rightarrow> unit io" where
  "update_job_row i f = db_write (update_download_job i f)"

definition bulk_error_text :: "libs \<Rightarrow> failure \<Rightarrow> string" where
  "bulk_error_text L e = (case e of OtherError s \<Rightarrow> s | _ \<Rightarrow> lib_failure_text L e)"

text \<open>The second check of the videos: it does not ask for their moderation state.\<close>

definition bulk_available :: "uuid list \<Rightarrow> video \<Rightarrow> bool" where
  "bulk_available is v \<longleftrightarrow> v_id v \<in> set is \<and> v_deleted_at v = None \<and> v_status v = ''PUBLISHED''"

definition bulk_dir :: "string \<Rightarrow> download_job \<Rightarrow> string" where
  "bulk_dir tmp j = tmp @ ''/bulk_'' @ dj_id j"

definition create_dir_all :: "string \<Rightarrow> unit io" where
  "create_dir_all dir = external (OtherError ''io'') (\<lambda>w. (Inr (), w))"

text \<open>One video: its file, or the reason it is left out.\<close>

definition fetch_one :: "libs \<Rightarrow> string \<Rightarrow> video list \<Rightarrow> uuid \<Rightarrow> (string + video \<times> string) io" where
  "fetch_one L dir avail i =
     (case find (\<lambda>v. v_id v = i) (rev avail) of
        None \<Rightarrow> returnOk (Inl ''Video no longer available'')
      | Some v \<Rightarrow>
          (let dest = dir @ ''/'' @ v_id v @ ''.mp4'' in
           catchE (download_file (v_s3_bucket v) (v_s3_key v) dest)
             (\<lambda>e. returnOk (Inl (lib_failure_text L e))) (\<lambda>_. returnOk (Inr (v, dest)))))"

definition success_entry :: "uuid \<Rightarrow> video \<Rightarrow> json" where
  "success_entry i v = JObj [(''video_id'', JStr i), (''filename'', JStr (i @ ''.mp4'')),
     (''size_bytes'', JNum (v_size_bytes v))]"

definition failure_entry :: "uuid \<Rightarrow> string \<Rightarrow> json" where
  "failure_entry i reason = JObj [(''video_id'', JStr i), (''reason'', JStr reason)]"

fun fetch_videos ::
  "libs \<Rightarrow> string \<Rightarrow> video list \<Rightarrow> uuid list \<Rightarrow> ((video \<times> string) list \<times> json list \<times> json list) io" where
  "fetch_videos L dir avail [] = returnOk ([], [], [])"
| "fetch_videos L dir avail (i # is) =
     bindE (fetch_one L dir avail i) (\<lambda>r.
     bindE (fetch_videos L dir avail is) (\<lambda>(files, good, bad).
       case r of
         Inl reason \<Rightarrow> returnOk (files, good, failure_entry i reason # bad)
       | Inr (v, path) \<Rightarrow> returnOk ((v, path) # files, success_entry i v # good, bad)))"

definition bulk_manifest :: "download_job \<Rightarrow> json list \<Rightarrow> json list \<Rightarrow> json" where
  "bulk_manifest j good bad =
     JObj [(''job_id'', JStr (dj_id j)), (''requested_videos'', JNum (int (length (dj_video_ids j)))),
           (''successful'', JArr good), (''failed'', JArr bad)]"

definition create_zip :: "libs \<Rightarrow> string \<Rightarrow> (video \<times> string) list \<Rightarrow> json \<Rightarrow> nat io" where
  "create_zip L zip_path files manifest = external (OtherError ''io'')
     (\<lambda>w. case those (map (\<lambda>(v, path). map_option (Pair (v_id v @ ''.mp4'')) (local_files w path)) files) of
            None \<Rightarrow> (Inl (OtherError ''io''), w)
          | Some entries \<Rightarrow>
              (let z = lib_zip L manifest entries in
               (Inr (so_size z), w\<lparr>local_files := (local_files w)(zip_path := Some z)\<rparr>)))"

definition completed_job :: "string \<Rightarrow> string \<Rightarrow> int \<Rightarrow> json \<Rightarrow> time \<Rightarrow> download_job \<Rightarrow> download_job" where
  "completed_job key url n manifest now j =
     j\<lparr> dj_status := ''COMPLETED'', dj_zip_s3_key := Some key, dj_zip_url := Some url,
        dj_zip_size_bytes := Some n, dj_partial_manifest := Some manifest,
        dj_completed_at := Some now, dj_updated_at := Some now \<rparr>"

definition process_job :: "app \<Rightarrow> string \<Rightarrow> download_job \<Rightarrow> unit io" where
  "process_job ap tmp j =
     (let cf = ap_config ap; L = ap_libs ap; dir = bulk_dir tmp j;
          zip_path = dir @ ''/'' @ dj_id j @ ''.zip'';
          zip_key = ''bulk_downloads/'' @ dj_user_id j @ ''/'' @ dj_id j @ ''.zip'' in
      bindE (db_read (\<lambda>d. filter (bulk_available (dj_video_ids j)) (db_videos d))) (\<lambda>avail.
      bindE (create_dir_all dir) (\<lambda>_.
      bindE (fetch_videos L dir avail (dj_video_ids j)) (\<lambda>(files, good, bad).
      guardE (files \<noteq> []) (OtherError ''No videos available to download'')
     (bindE (create_zip L zip_path files (bulk_manifest j good bad)) (\<lambda>n.
      bindE (upload_file (cf_minio_bucket_videos cf) zip_key zip_path) (\<lambda>_.
      bindE (getsE clock) (\<lambda>now.
      okOrE StorageError (lib_presigned_get L (cf_minio_bucket_videos cf) zip_key 86400 now) (\<lambda>url.
      bindE (update_job_row (dj_id j) (completed_job zip_key url (int n) (bulk_manifest j good bad) now)) (\<lambda>_.
        modifyE (remove_dir dir)))))))))))"

definition retried_job :: "int \<Rightarrow> time \<Rightarrow> download_job \<Rightarrow> download_job" where
  "retried_job n now j = j\<lparr> dj_retry_count := n, dj_updated_at := Some now \<rparr>"

function process_job_with_retries :: "app \<Rightarrow> string \<Rightarrow> download_job \<Rightarrow> int \<Rightarrow> unit io" where
  "process_job_with_retries ap tmp j attempt =
     (if attempt < 3
      then catchE (process_job ap tmp j)
        (\<lambda>e. if attempt + 1 < 3
             then bindE (getsE clock) (\<lambda>now.
                  bindE (update_job_row (dj_id j) (retried_job (attempt + 1) now)) (\<lambda>_.
                  bindE (modifyE (sleep_secs (2 ^ nat (attempt + 1)))) (\<lambda>_.
                    process_job_with_retries ap tmp j (attempt + 1))))
             else throwErr e)
        returnOk
      else throwErr (OtherError ''Max retries exceeded''))"
  by auto
termination by (relation "measure (\<lambda>(ap, tmp, j, attempt). nat (3 - attempt))") auto

declare process_job_with_retries.simps [simp del]

definition failed_job :: "string \<Rightarrow> time \<Rightarrow> download_job \<Rightarrow> download_job" where
  "failed_job text now j =
     j\<lparr> dj_status := ''FAILED'', dj_error_message := Some text, dj_completed_at := Some now,
        dj_updated_at := Some now \<rparr>"

definition mark_job_failed :: "download_job \<Rightarrow> string \<Rightarrow> unit io" where
  "mark_job_failed j text = bindE (getsE clock) (\<lambda>now. update_job_row (dj_id j) (failed_job text now))"

text \<open>\<^verbatim>\<open>BRPOP\<close> waits a second for a job; its failure counts as none.\<close>

definition pop_bulk_job :: "json option io" where
  "pop_bulk_job =
     catchE (external RedisError (\<lambda>w.
         if bulk_queue w = [] then (Inr None, sleep_secs 1 w)
         else (Inr (Some (last (bulk_queue w))), w\<lparr>bulk_queue := butlast (bulk_queue w)\<rparr>)))
       (\<lambda>_. returnOk None) returnOk"

definition started_job :: "time \<Rightarrow> download_job \<Rightarrow> download_job" where
  "started_job now j = j\<lparr> dj_status := ''PROCESSING'', dj_updated_at := Some now \<rparr>"

definition run_bulk_job :: "app \<Rightarrow> string \<Rightarrow> uuid \<Rightarrow> bool io" where
  "run_bulk_job ap tmp i =
     bindE (find_job i) (\<lambda>row.
     okOrE (OtherError (''Job not found: '' @ i)) row (\<lambda>j.
     bindE (getsE clock) (\<lambda>now.
     bindE (update_job_row (dj_id j) (started_job now)) (\<lambda>_.
     catchE (process_job_with_retries ap tmp j (dj_retry_count j))
       (\<lambda>e. bindE (mark_job_failed j (bulk_error_text (ap_libs ap) e)) (\<lambda>_. returnOk True))
       (\<lambda>_. returnOk True)))))"

text \<open>A payload without a text \<^verbatim>\<open>job_id\<close> is a panic of the task.\<close>

definition process_next_job :: "app \<Rightarrow> string \<Rightarrow> bool io" where
  "process_next_job ap tmp =
     bindE get_conn (\<lambda>_.
     bindE pop_bulk_job (\<lambda>popped.
       case popped of
         None \<Rightarrow> returnOk False
       | Some payload \<Rightarrow>
           okOrE (OtherError ''panic'') (Option.bind (json_field ''job_id'' payload) json_str)
             (run_bulk_job ap tmp)))"

text \<open>One turn of the loop.\<close>

definition bulk_turn :: "app \<Rightarrow> string \<Rightarrow> world \<Rightarrow> world" where
  "bulk_turn ap tmp w =
     (case process_next_job ap tmp w of
        (Inr processed, w') \<Rightarrow> if processed then w' else sleep_secs 5 w'
      | (Inl _, w') \<Rightarrow> sleep_secs 10 w')"

definition is_stale_job :: "time \<Rightarrow> download_job \<Rightarrow> bool" where
  "is_stale_job now j \<longleftrightarrow> dj_status j = ''PENDING'' \<and> dj_created_at j < now - secs 3600"

definition cleanup_stale_jobs :: "unit io" where
  "cleanup_stale_jobs =
     bindE (getsE clock) (\<lambda>now.
     bindE (db_read (\<lambda>d. filter (is_stale_job now) (db_download_jobs d))) (\<lambda>stale.
       forE stale (\<lambda>j. mark_job_failed j ''Job timeout - worker did not process within 1 hour'')))"

section \<open>Keys are not bound to their user\<close>

text \<open>A known idempotency key answers the job it was used for, with its download address, to
  whoever presents the key.\<close>

theorem bulk_key_answers_any_user:
  assumes "faults w = []" and "cbd_video_ids p \<noteq> []" and "length (cbd_video_ids p) \<le> 10"
    and "cbd_idempotency_key p = Some k"
    and "kv_live w (bulk_idempotency_cache_key k) = Some (KText i)"
    and "find (\<lambda>j. dj_id j = i) (db_download_jobs (db w)) = Some j"
  shows "create_bulk_download u p w = (Inr (bulk_job_response j), w)"
  using assms
  by (simp add: create_bulk_download_def bulk_key_def existing_bulk_job_def catchE_def find_job_def
      returnOk_def bindE_def)

definition leaked_job :: download_job where
  "leaked_job = \<lparr> dj_id = ''j1'', dj_user_id = ''u1'', dj_video_ids = [''v1''], dj_status = ''COMPLETED'',
     dj_idempotency_key = Some ''key'', dj_zip_s3_key = Some ''z'', dj_zip_url = Some ''http://zip'',
     dj_zip_size_bytes = Some 10, dj_error_message = None, dj_partial_manifest = None,
     dj_retry_count = 0, dj_created_at = 1, dj_updated_at = None, dj_completed_at = Some 2,
     dj_expires_at = Some 3 \<rparr>"

definition leak_world :: world where
  "leak_world = kv_put (bulk_idempotency_cache_key ''key'') (KText ''j1'') None
     (world0\<lparr>db := empty_db\<lparr>db_download_jobs := [leaked_job]\<rparr>\<rparr>)"

lemma bulk_key_answers_any_user_witness:
  "create_bulk_download ''u2'' \<lparr> cbd_video_ids = [''v9''], cbd_idempotency_key = Some ''key'' \<rparr> leak_world
     = (Inr (bulk_job_response leaked_job), leak_world)
   \<and> dj_user_id leaked_job = ''u1'' \<and> bdr_download_url (bulk_job_response leaked_job) = Some ''http://zip''"
proof -
  have "faults leak_world = []" by (simp add: leak_world_def)
  moreover have "kv_live leak_world (bulk_idempotency_cache_key ''key'') = Some (KText ''j1'')"
    by (simp add: leak_world_def kv_live_put)
  moreover have "find (\<lambda>j. dj_id j = ''j1'') (db_download_jobs (db leak_world)) = Some leaked_job"
    by (simp add: leak_world_def leaked_job_def)
  ultimately show ?thesis
    using bulk_key_answers_any_user [of leak_world "\<lparr> cbd_video_ids = [''v9''], cbd_idempotency_key = Some ''key'' \<rparr>"
        "''key''" "''j1''" leaked_job "''u2''"]
    by (simp add: leaked_job_def bulk_job_response_def)
qed

section \<open>The limits on jobs\<close>

lemma count_jobs_InrE:
  assumes "count_jobs p k w = (Inr x, w')"
  obtains fs where "k (length (filter p (db_download_jobs (db w)))) (w\<lparr>faults := fs\<rparr>) = (Inr x, w')"
  using assms unfolding count_jobs_def by (elim run_InrE db_read_InrE) blast

lemma check_bulk_limits_InrE:
  assumes "check_bulk_limits u k w = (Inr x, w')"
  obtains fs where "k (w\<lparr>faults := fs\<rparr>) = (Inr x, w')"
    "length (filter (is_active_job u) (db_download_jobs (db w))) < 3"
    "length (filter (is_job_since u (utc_midnight (clock w))) (db_download_jobs (db w))) < 10"
  using assms unfolding check_bulk_limits_def
  by (elim count_jobs_InrE run_InrE) (auto simp: getsE_def)

lemma check_bulk_videos_InrE:
  assumes "check_bulk_videos is k w = (Inr x, w')"
  obtains fs where "k (w\<lparr>faults := fs\<rparr>) = (Inr x, w')"
    "length (filter (available_for_bulk is) (db_videos (db w))) = length is"
  using assms unfolding check_bulk_videos_def by (elim run_InrE db_read_InrE) auto

lemma all_available:
  assumes "distinct (map v_id vs)" and "length (filter (available_for_bulk is) vs) = length is"
  shows "distinct is \<and> (\<forall>i \<in> set is. \<exists>v \<in> set vs. v_id v = i \<and> available_for_bulk is v)"
proof -
  let ?f = "filter (available_for_bulk is) vs"
  have d: "distinct (map v_id ?f)" using assms(1) by (simp add: distinct_map_filter)
  have s: "set (map v_id ?f) \<subseteq> set is" by (auto simp: available_for_bulk_def)
  have c: "card (set (map v_id ?f)) = length is" using distinct_card [OF d] assms(2) by simp
  have "length is \<le> card (set is)" using card_mono [OF _ s] c by simp
  then have di: "distinct is" using card_length [of "is"] by (intro card_distinct) simp
  then have "set (map v_id ?f) = set is"
    using s c distinct_card [OF di] by (intro card_subset_eq) auto
  then show ?thesis using di by (force simp: available_for_bulk_def)
qed

lemma store_bulk_job_InrE:
  assumes "store_bulk_job u is key w = (Inr j, w')"
  obtains "dj_user_id j = u" "dj_video_ids j = is" "dj_status j = ''PENDING''" "dj_created_at j = clock w"
    "db_download_jobs (db w') = db_download_jobs (db w) @ [j]" "db_videos (db w') = db_videos (db w)"
  using assms unfolding store_bulk_job_def Let_def db_write_def
  by (elim run_InrE external_InrE)
    (auto simp: new_v4_def getsE_def returnOk_def insert_download_job_def check_def new_download_job_def
      split: sum.splits if_splits)

lemma keeps_db_announce: "keeps db (announce_bulk_job key i u is)" "keeps db (existing_bulk_job k)"
  "keeps db (bulk_key u g)" "keeps clock (existing_bulk_job k)" "keeps clock (bulk_key u g)"
  unfolding announce_bulk_job_def existing_bulk_job_def bulk_key_def find_job_def
  by ((rule keeps_external; simp; fail) | intro keeps_rules | (simp add: keeps_def new_v4_def; fail))+

text \<open>C26: a new job is only made for distinct videos that are published, visible and not deleted,
  and leaves its user with at most three active jobs and ten jobs of the day.\<close>

theorem new_bulk_job_within_limits:
  assumes "create_bulk_download u p w = (Inr r, w')"
    and "db_download_jobs (db w') \<noteq> db_download_jobs (db w)"
    and "distinct (map v_id (db_videos (db w)))"
  shows "length (filter (is_active_job u) (db_download_jobs (db w'))) \<le> 3
    \<and> length (filter (is_job_since u (utc_midnight (clock w))) (db_download_jobs (db w'))) \<le> 10
    \<and> distinct (cbd_video_ids p)
    \<and> (\<forall>i \<in> set (cbd_video_ids p). \<exists>v \<in> set (db_videos (db w)). v_id v = i \<and> available_for_bulk (cbd_video_ids p) v)"
proof -
  obtain key w1 existing w2 where
    s1: "bulk_key u (cbd_idempotency_key p) w = (Inr key, w1)" and
    s2: "existing_bulk_job key w1 = (Inr existing, w2)" and
    s3: "(case existing of Some j \<Rightarrow> returnOk (bulk_job_response j)
       | None \<Rightarrow> create_new_bulk_job u (cbd_video_ids p) key) w2 = (Inr r, w')"
    using assms(1) unfolding create_bulk_download_def by (elim run_InrE)
  have w2: "db w2 = db w" "clock w2 = clock w"
    using keepsE [OF keeps_db_announce(3) s1] keepsE [OF keeps_db_announce(2) s2]
      keepsE [OF keeps_db_announce(5) s1] keepsE [OF keeps_db_announce(4) s2] by simp_all
  have "existing = None" using s3 assms(2) w2 by (cases existing) (auto simp: returnOk_def)
  then have "create_new_bulk_job u (cbd_video_ids p) key w2 = (Inr r, w')" using s3 by simp
  then obtain fs w3 j w4 x w5 where
    lim: "length (filter (is_active_job u) (db_download_jobs (db w2))) < 3"
      "length (filter (is_job_since u (utc_midnight (clock w2))) (db_download_jobs (db w2))) < 10" and
    av: "length (filter (available_for_bulk (cbd_video_ids p)) (db_videos (db w2))) = length (cbd_video_ids p)" and
    st: "store_bulk_job u (cbd_video_ids p) key (w2\<lparr>faults := fs\<rparr>) = (Inr j, w4)" and
    an: "announce_bulk_job key (dj_id j) u (cbd_video_ids p) w4 = (Inr x, w')"
    unfolding create_new_bulk_job_def
    by (elim check_bulk_limits_InrE check_bulk_videos_InrE run_InrE) (auto simp: returnOk_def)
  have "db w' = db w4" using keepsE [OF keeps_db_announce(1) an] .
  then show ?thesis
    using st lim av w2 all_available [OF assms(3)] by (elim store_bulk_job_InrE) simp
qed

lemma announce_bulk_job_Inr: "\<exists>w'. announce_bulk_job key i u is w = (Inr (), w')"
  by (cases "get_conn w" rule: prod.exhaust; cases "fst (get_conn w)")
    (auto simp: announce_bulk_job_def bindE_def catchE_def ignoreE_def returnOk_def split: sum.split prod.split)

lemma sample_bulk_job:
  "\<exists>r w'. create_bulk_download ''u1'' \<lparr> cbd_video_ids = [''v1''], cbd_idempotency_key = Some ''k'' \<rparr> world1 = (Inr r, w')
     \<and> db_download_jobs (db w') \<noteq> db_download_jobs (db world1)"
proof -
  let ?j = "new_download_job ''u1'' [''v1''] ''k'' (uuid_src world1 0) (clock world1)"
  let ?w = "world1\<lparr>drawn := 1, db := (db world1)\<lparr>db_download_jobs := [?j]\<rparr>\<rparr>"
  have ex: "existing_bulk_job ''k'' world1 = (Inr None, world1)"
    by (simp add: existing_bulk_job_def catchE_def returnOk_def)
  have lim: "check_bulk_limits u k world1 = k world1" for u and k :: "bulk_download_job_response api"
    by (simp add: check_bulk_limits_def count_jobs_def bindErr_def empty_db_def bindE_def getsE_def)
  have vid: "check_bulk_videos [''v1''] k world1 = k world1" for k :: "bulk_download_job_response api"
    by (simp add: check_bulk_videos_def bindErr_def available_for_bulk_def video0_def)
  have st: "store_bulk_job ''u1'' [''v1''] ''k'' world1 = (Inr ?j, ?w)"
    by (simp add: store_bulk_job_def bindE_def new_v4_def getsE_def Let_def bindErr_def insert_download_job_def
        check_def empty_db_def returnOk_def)
  obtain w' where an: "announce_bulk_job ''k'' (dj_id ?j) ''u1'' [''v1''] ?w = (Inr (), w')"
    using announce_bulk_job_Inr by blast
  have "create_bulk_download ''u1'' \<lparr> cbd_video_ids = [''v1''], cbd_idempotency_key = Some ''k'' \<rparr> world1
      = (Inr (bulk_job_response ?j), w')"
    using ex lim vid st an by (simp add: create_bulk_download_def bulk_key_def bindE_def create_new_bulk_job_def returnOk_def)
  moreover have "db w' = db ?w" using keepsE [OF keeps_db_announce(1) an] .
  ultimately show ?thesis by (auto simp: empty_db_def)
qed

lemma new_bulk_job_within_limits_witness:
  "\<exists>r w'. create_bulk_download ''u1'' \<lparr> cbd_video_ids = [''v1''], cbd_idempotency_key = Some ''k'' \<rparr> world1 = (Inr r, w')
     \<and> length (filter (is_active_job ''u1'') (db_download_jobs (db w'))) \<le> 3"
proof -
  obtain r w' where r: "create_bulk_download ''u1'' \<lparr> cbd_video_ids = [''v1''], cbd_idempotency_key = Some ''k'' \<rparr> world1 = (Inr r, w')"
    "db_download_jobs (db w') \<noteq> db_download_jobs (db world1)" using sample_bulk_job by blast
  show ?thesis using new_bulk_job_within_limits [OF r] r(1) by auto
qed

section \<open>Every job is settled\<close>

definition job_settled :: "uuid \<Rightarrow> string set \<Rightarrow> world \<Rightarrow> bool" where
  "job_settled i ss w \<longleftrightarrow> (\<forall>j \<in> set (db_download_jobs (db w)). dj_id j = i \<longrightarrow> dj_status j \<in> ss)"

definition job_there :: "uuid \<Rightarrow> json list \<Rightarrow> world \<Rightarrow> bool" where
  "job_there i q w \<longleftrightarrow> faults w = [] \<and> i \<in> dj_id ` set (db_download_jobs (db w)) \<and> bulk_queue w = q"

lemma job_there_frame:
  "preserves (\<lambda>w. faults w = []) m \<Longrightarrow> keeps db m \<Longrightarrow> keeps bulk_queue m \<Longrightarrow> preserves (job_there i q) m"
  by (auto simp: preserves_def keeps_def job_there_def)

lemma keeps_bulk_queue_calls [keeps_rules]:
  "keeps bulk_queue get_conn" "keeps bulk_queue (db_read f)" "keeps bulk_queue (db_write g)"
  "keeps bulk_queue (download_file b k p)" "keeps bulk_queue (upload_file b k p)"
  "keeps bulk_queue (create_dir_all dir)" "keeps bulk_queue (create_zip L zp files man)"
  unfolding get_conn_def db_read_def db_write_def download_file_def upload_file_def create_dir_all_def
    create_zip_def Let_def
  by (rule keeps_external; simp split: option.split sum.split)+

lemma bulk_file_calls:
  "keeps db (create_dir_all dir)" "keeps db (create_zip L zp files man)"
  "preserves (\<lambda>w. faults w = []) (create_dir_all dir)" "preserves (\<lambda>w. faults w = []) (create_zip L zp files man)"
  unfolding create_dir_all_def create_zip_def Let_def
  by ((rule keeps_external keeps_faults_external; simp split: option.split)+)

lemma update_job_row_quiet:
  assumes "faults w = []"
  shows "update_job_row k f w =
     (if k \<in> dj_id ` set (db_download_jobs (db w))
      then (Inr (), w\<lparr>db := (db w)\<lparr>db_download_jobs := update_where (\<lambda>j. dj_id j = k) f (db_download_jobs (db w))\<rparr>\<rparr>)
      else (Inl (DbError RecordNotUpdated), w))"
proof -
  show ?thesis
    using assms by (auto simp: update_job_row_def update_download_job_def check_def list_ex_iff)
qed

lemma update_where_ids:
  "(\<And>j. dj_id (f j) = dj_id j) \<Longrightarrow> dj_id ` set (update_where p f js) = dj_id ` set js"
  using map_update_where [of dj_id f p js] by (metis set_map)

lemma job_there_update:
  assumes "\<And>j. dj_id (f j) = dj_id j"
  shows "preserves (job_there i q) (update_job_row k f)"
proof (rule preservesI)
  fix w assume "job_there i q w"
  then show "job_there i q (snd (update_job_row k f w))"
    by (simp add: job_there_def update_job_row_quiet update_where_ids [OF assms])
qed

lemma fetch_one_frame: "preserves (job_there i q) (fetch_one L dir avail k)"
  unfolding fetch_one_def Let_def
  by (intro preserves_case_option preserves_catchE preserves_returnOk job_there_frame no_faults_calls
      keeps_db_calls keeps_bulk_queue_calls)

lemma fetch_videos_frame: "preserves (job_there i q) (fetch_videos L dir avail is)"
  by (induction "is") (auto intro!: preserves_rules fetch_one_frame)

lemma job_there_sleep: "preserves (job_there i q) (modifyE (sleep_secs n))"
  "preserves (job_there i q) (modifyE (remove_dir dir))"
  by (auto simp: preserves_def modifyE_def job_there_def sleep_secs_def remove_dir_def)

lemma process_job_frame: "preserves (job_there i q) (process_job ap tmp j)"
  unfolding process_job_def Let_def
  by (intro preserves_bindE preserves_case_prod preserves_guardE preserves_okOrE preserves_getsE
      fetch_videos_frame job_there_sleep job_there_frame no_faults_calls keeps_db_calls
      keeps_bulk_queue_calls bulk_file_calls job_there_update) (simp add: completed_job_def)

lemma retries_frame: "preserves (job_there i q) (process_job_with_retries ap tmp j attempt)"
proof (induction ap tmp j attempt rule: process_job_with_retries.induct)
  case (1 ap tmp j attempt)
  have u: "preserves (job_there i q) (update_job_row (dj_id j) (retried_job n now))" for n now
    by (rule job_there_update) (simp add: retried_job_def)
  have e: "preserves (job_there i q) (if attempt + 1 < 3
      then bindE (getsE clock) (\<lambda>now.
           bindE (update_job_row (dj_id j) (retried_job (attempt + 1) now)) (\<lambda>_.
           bindE (modifyE (sleep_secs (2 ^ nat (attempt + 1)))) (\<lambda>_.
             process_job_with_retries ap tmp j (attempt + 1))))
      else throwErr e)" if "attempt < 3" for e
    using 1 [OF that] by (auto intro!: preserves_bindE preserves_getsE preserves_throwErr u job_there_sleep)
  show ?case
    by (subst process_job_with_retries.simps)
      (cases "attempt < 3"; simp only: if_True if_False;
        intro preserves_catchE process_job_frame e preserves_returnOk preserves_throwErr; assumption?)
qed

lemma update_job_row_settles:
  assumes "update_job_row i f w = (Inr x, w')" and "\<And>j. dj_status (f j) \<in> ss" and "\<And>j. dj_id (f j) = dj_id j"
  shows "job_settled i ss w'"
proof -
  have "db_download_jobs (db w') = update_where (\<lambda>j. dj_id j = i) f (db_download_jobs (db w))"
    using assms(1) unfolding update_job_row_def db_write_def
    by (elim external_InrE) (auto simp: update_download_job_def check_def split: sum.splits if_splits)
  then show ?thesis using assms(2,3) by (auto simp: job_settled_def set_update_where)
qed

lemma process_job_settles:
  assumes "process_job ap tmp j w = (Inr x, w')"
  shows "job_settled (dj_id j) {''COMPLETED''} w'"
proof -
  obtain key url n man now w1 y w2 where
    u: "update_job_row (dj_id j) (completed_job key url n man now) w1 = (Inr y, w2)" and
    d: "db w' = db w2"
    using assms unfolding process_job_def Let_def
    by (elim run_InrE) (auto simp: modifyE_def elim!: run_InrE split: prod.splits)
  have "job_settled (dj_id j) {''COMPLETED''} w2"
    by (rule update_job_row_settles [OF u]) (simp_all add: completed_job_def)
  then show ?thesis using d by (simp add: job_settled_def)
qed

lemma retries_settle:
  "process_job_with_retries ap tmp j attempt w = (Inr x, w') \<Longrightarrow> job_settled (dj_id j) {''COMPLETED''} w'"
proof (induction ap tmp j attempt arbitrary: w rule: process_job_with_retries.induct)
  case (1 ap tmp j attempt)
  have lt: "attempt < 3" using 1(2) by (subst (asm) process_job_with_retries.simps) (auto simp: throwErr_def split: if_splits)
  obtain r w1 where p: "process_job ap tmp j w = (r, w1)" by (cases "process_job ap tmp j w")
  show ?case
  proof (cases r)
    case (Inr y)
    then show ?thesis using 1(2) lt p process_job_settles [of ap tmp j w y w1]
      by (subst (asm) process_job_with_retries.simps) (auto simp: catchE_def returnOk_def)
  next
    case (Inl e)
    then show ?thesis using 1(2) lt p 1(1) [OF lt]
      by (subst (asm) process_job_with_retries.simps)
        (auto simp: catchE_def throwErr_def elim!: run_InrE split: if_splits)
  qed
qed

lemma mark_job_failed_quiet:
  assumes "job_there (dj_id j) q w"
  shows "\<exists>w'. mark_job_failed j text w = (Inr (), w') \<and> job_there (dj_id j) q w' \<and> job_settled (dj_id j) {''FAILED''} w'"
proof -
  have f: "dj_id (failed_job text now j) = dj_id j" "dj_status (failed_job text now j) = ''FAILED''" for now j
    by (simp_all add: failed_job_def)
  obtain w' where u: "update_job_row (dj_id j) (failed_job text (clock w)) w = (Inr (), w')"
    using assms by (simp add: job_there_def update_job_row_quiet)
  moreover have "job_there (dj_id j) q w'"
    using preservesD [OF job_there_update [where f = "failed_job text (clock w)" and k = "dj_id j"] assms] u f by simp
  moreover have "job_settled (dj_id j) {''FAILED''} w'"
    by (rule update_job_row_settles [OF u]) (simp_all add: f)
  ultimately show ?thesis by (simp add: mark_job_failed_def bindE_def getsE_def)
qed

lemma run_bulk_job_settles:
  assumes "faults w = []" and "find (\<lambda>j. dj_id j = i) (db_download_jobs (db w)) = Some j"
  shows "\<exists>w'. run_bulk_job ap tmp i w = (Inr True, w') \<and> job_there i (bulk_queue w) w'
     \<and> job_settled i {''COMPLETED'', ''FAILED''} w'"
proof -
  have j: "dj_id j = i" "j \<in> set (db_download_jobs (db w))" using find_Some_set [OF assms(2)] by simp_all
  have there: "job_there i (bulk_queue w) w" using assms(1) j by (auto simp: job_there_def)
  have s: "dj_id (started_job now x) = dj_id x" for now x by (simp add: started_job_def)
  obtain w1 where u: "update_job_row i (started_job (clock w)) w = (Inr (), w1)"
    using there by (simp add: job_there_def update_job_row_quiet)
  have t1: "job_there i (bulk_queue w) w1"
    using preservesD [OF job_there_update [where f = "started_job (clock w)" and k = i] there] u s by simp
  obtain r w2 where p: "process_job_with_retries ap tmp j (dj_retry_count j) w1 = (r, w2)"
    by (cases "process_job_with_retries ap tmp j (dj_retry_count j) w1")
  have t2: "job_there i (bulk_queue w) w2" using preservesD [OF retries_frame [of i "bulk_queue w" ap tmp j "dj_retry_count j"] t1] p by simp
  have run: "run_bulk_job ap tmp i w = catchE (process_job_with_retries ap tmp j (dj_retry_count j))
       (\<lambda>e. bindE (mark_job_failed j (bulk_error_text (ap_libs ap) e)) (\<lambda>_. returnOk True))
       (\<lambda>_. returnOk True) w1"
    using assms u j by (simp add: run_bulk_job_def find_job_def bindE_def getsE_def)
  show ?thesis
  proof (cases r)
    case (Inr x)
    have "job_settled i {''COMPLETED''} w2" using retries_settle p Inr j(1) by blast
    then show ?thesis using run p Inr t2 by (auto simp: catchE_def returnOk_def job_settled_def)
  next
    case (Inl e)
    obtain w3 where "mark_job_failed j (bulk_error_text (ap_libs ap) e) w2 = (Inr (), w3)"
      "job_there i (bulk_queue w) w3" "job_settled i {''FAILED''} w3"
      using mark_job_failed_quiet [of j "bulk_queue w" w2] t2 j(1) by metis
    then show ?thesis using run p Inl by (auto simp: catchE_def bindE_def returnOk_def job_settled_def)
  qed
qed

text \<open>C27: when no call to a service fails, one turn of the worker takes the oldest job off the queue,
  and whatever happens to its videos the job ends as completed or as failed.\<close>

theorem bulk_turn_settles_job:
  assumes "faults w = []" and "bulk_queue w = q @ [bulk_payload i u is]"
    and "i \<in> dj_id ` set (db_download_jobs (db w))"
  shows "bulk_queue (bulk_turn ap tmp w) = q \<and> i \<in> dj_id ` set (db_download_jobs (db (bulk_turn ap tmp w)))
     \<and> job_settled i {''COMPLETED'', ''FAILED''} (bulk_turn ap tmp w)"
proof -
  let ?w = "w\<lparr>bulk_queue := q\<rparr>"
  obtain j where j: "find (\<lambda>j. dj_id j = i) (db_download_jobs (db ?w)) = Some j"
    using assms(3) by (cases "find (\<lambda>j. dj_id j = i) (db_download_jobs (db w))") (auto simp: find_None_iff)
  have f: "faults ?w = []" using assms(1) by simp
  obtain w' where r: "run_bulk_job ap tmp i ?w = (Inr True, w')" "job_there i q w'"
    "job_settled i {''COMPLETED'', ''FAILED''} w'"
    using run_bulk_job_settles [OF f j, of ap tmp] by auto
  have "process_next_job ap tmp w = (Inr True, w')"
    using assms(1,2) r(1) by (simp add: process_next_job_def bindE_def pop_bulk_job_def catchE_def returnOk_def
        bulk_payload_def butlast_append)
  then show ?thesis using r(2,3) by (simp add: bulk_turn_def job_there_def)
qed

lemma bulk_turn_settles_job_witness:
  "job_settled ''j1'' {''COMPLETED'', ''FAILED''}
     (bulk_turn download_app ''/tmp''
        (world0\<lparr>db := empty_db\<lparr>db_download_jobs := [leaked_job]\<rparr>,
                bulk_queue := [bulk_payload ''j1'' ''u1'' [''v1'']]\<rparr>))"
  using bulk_turn_settles_job [of "world0\<lparr>db := empty_db\<lparr>db_download_jobs := [leaked_job]\<rparr>,
      bulk_queue := [bulk_payload ''j1'' ''u1'' [''v1'']]\<rparr>" "[]" "''j1''" "''u1''" "[''v1'']" download_app "''/tmp''"]
  by (simp add: leaked_job_def)

end
