(* ===== verification/Deletion.thy ===== *)
theory Deletion
  imports Tokens Moderation Likes Worker Bulk
begin

text \<open>
  What the deletion of a row takes with it (\<^verbatim>\<open>ON DELETE CASCADE\<close> and \<^verbatim>\<open>ON DELETE SET NULL\<close> of the
  migrations), and the worker that removes accounts for good thirty days after their deletion
  (\<^verbatim>\<open>worker/src/account_cleanup.rs\<close>).
\<close>

section \<open>Cascades\<close>

definition delete_videos :: "(video \<Rightarrow> bool) \<Rightarrow> database \<Rightarrow> database" where
  "delete_videos p d =
     (let gone = set (map v_id (filter p (db_videos d))) in
      delete_abuse_reports (\<lambda>r. ar_video_id r \<in> gone)
        (d\<lparr> db_videos := delete_where p (db_videos d),
            db_likes := delete_where (\<lambda>l. l_video_id l \<in> gone) (db_likes d),
            db_send_tickets := delete_where (\<lambda>t. st_video_id t \<in> gone) (db_send_tickets d) \<rparr>))"

definition forget_actor :: "uuid \<Rightarrow> security_event \<Rightarrow> security_event" where
  "forget_actor u e = (if se_user_id e = Some u then e\<lparr>se_user_id := None\<rparr> else e)"

text \<open>The rows of a user that go with it; \<^verbatim>\<open>download_jobs\<close> and the audit log have no foreign key.\<close>

definition delete_user :: "uuid \<Rightarrow> database \<Rightarrow> database" where
  "delete_user u d =
     (let d = delete_videos (\<lambda>v. v_user_id v = u) d;
          d = delete_abuse_reports (\<lambda>r. ar_reporter_user_id r = u) d;
          d = delete_refresh_tokens (\<lambda>t. rt_user_id t = u) d in
      d\<lparr> db_users := delete_where (\<lambda>x. u_id x = u) (db_users d),
         db_likes := delete_where (\<lambda>l. l_user_id l = u) (db_likes d),
         db_extension_sessions := delete_where (\<lambda>s. es_user_id s = u) (db_extension_sessions d),
         db_send_tickets := delete_where (\<lambda>t. st_user_id t = u) (db_send_tickets d),
         db_user_bans := delete_where (\<lambda>b. ub_user_id b = u) (db_user_bans d),
         db_security_events := map (forget_actor u) (db_security_events d) \<rparr>)"

text \<open>\<^verbatim>\<open>delete_by_id(id).exec()\<close>, with the number of rows it deleted.\<close>

definition exec_delete_user :: "uuid \<Rightarrow> nat io" where
  "exec_delete_user u = external (DbError DbConn)
     (\<lambda>w. (Inr (length (filter (\<lambda>x. u_id x = u) (db_users (db w)))), w\<lparr>db := delete_user u (db w)\<rparr>))"

definition exec_delete_video :: "uuid \<Rightarrow> nat io" where
  "exec_delete_video i = external (DbError DbConn)
     (\<lambda>w. (Inr (length (filter (\<lambda>v. v_id v = i) (db_videos (db w)))), w\<lparr>db := delete_videos (\<lambda>v. v_id v = i) (db w)\<rparr>))"

section \<open>The clean-up worker\<close>

definition account_expired :: "time \<Rightarrow> user \<Rightarrow> bool" where
  "account_expired now x \<longleftrightarrow> (case u_deleted_at x of None \<Rightarrow> False | Some t \<Rightarrow> t < now - days 30)"

definition delete_stored_video :: "video \<Rightarrow> unit io" where
  "delete_stored_video v =
     ignoreE (delete_file (v_s3_bucket v) (v_s3_key v))
    (ignoreE (delete_file (v_s3_bucket v) (thumb_key (v_id v))) (returnOk ()))"

definition clean_up_account :: "uuid \<Rightarrow> unit io" where
  "clean_up_account u =
     bindE (db_read (\<lambda>d. filter (\<lambda>v. v_user_id v = u) (db_videos d))) (\<lambda>vs.
     bindE (forE vs delete_stored_video) (\<lambda>_.
     bindE (exec_delete_user u) (\<lambda>_. returnOk ())))"

definition process_expired_accounts :: "unit io" where
  "process_expired_accounts =
     bindE (getsE clock) (\<lambda>now.
     bindE (db_read (\<lambda>d. filter (account_expired now) (db_users d))) (\<lambda>expired.
       forE expired (\<lambda>x. clean_up_account (u_id x))))"

section \<open>Referential integrity\<close>

text \<open>Every foreign key of the schema.\<close>

definition fk_ok :: "database \<Rightarrow> bool" where
  "fk_ok d \<longleftrightarrow>
     (\<forall>v \<in> set (db_videos d). user_exists d (v_user_id v) \<and> source_report_ok d (v_moderation_source_report_id v))
   \<and> (\<forall>l \<in> set (db_likes d). user_exists d (l_user_id l) \<and> video_exists d (l_video_id l))
   \<and> (\<forall>t \<in> set (db_refresh_tokens d). user_exists d (rt_user_id t) \<and> replaced_by_ok t (db_refresh_tokens d))
   \<and> (\<forall>s \<in> set (db_extension_sessions d). user_exists d (es_user_id s))
   \<and> (\<forall>t \<in> set (db_send_tickets d). user_exists d (st_user_id t) \<and> video_exists d (st_video_id t))
   \<and> (\<forall>b \<in> set (db_user_bans d). user_exists d (ub_user_id b))
   \<and> (\<forall>r \<in> set (db_abuse_reports d). user_exists d (ar_reporter_user_id r) \<and> video_exists d (ar_video_id r))
   \<and> (\<forall>e \<in> set (db_security_events d). case se_user_id e of None \<Rightarrow> True | Some u \<Rightarrow> user_exists d u)"

text \<open>No row names the user, in a column that has a foreign key.\<close>

definition erased :: "uuid \<Rightarrow> database \<Rightarrow> bool" where
  "erased u d \<longleftrightarrow>
     (\<forall>x \<in> set (db_users d). u_id x \<noteq> u) \<and> (\<forall>v \<in> set (db_videos d). v_user_id v \<noteq> u)
   \<and> (\<forall>l \<in> set (db_likes d). l_user_id l \<noteq> u) \<and> (\<forall>t \<in> set (db_refresh_tokens d). rt_user_id t \<noteq> u)
   \<and> (\<forall>s \<in> set (db_extension_sessions d). es_user_id s \<noteq> u) \<and> (\<forall>t \<in> set (db_send_tickets d). st_user_id t \<noteq> u)
   \<and> (\<forall>b \<in> set (db_user_bans d). ub_user_id b \<noteq> u) \<and> (\<forall>r \<in> set (db_abuse_reports d). ar_reporter_user_id r \<noteq> u)
   \<and> (\<forall>e \<in> set (db_security_events d). se_user_id e \<noteq> Some u)"

lemma delete_abuse_reports_tables [simp]:
  "db_users (delete_abuse_reports p d) = db_users d" "db_likes (delete_abuse_reports p d) = db_likes d"
  "db_refresh_tokens (delete_abuse_reports p d) = db_refresh_tokens d"
  "db_extension_sessions (delete_abuse_reports p d) = db_extension_sessions d"
  "db_send_tickets (delete_abuse_reports p d) = db_send_tickets d"
  "db_user_bans (delete_abuse_reports p d) = db_user_bans d"
  "db_security_events (delete_abuse_reports p d) = db_security_events d"
  "db_abuse_reports (delete_abuse_reports p d) = delete_where p (db_abuse_reports d)"
  "db_videos (delete_abuse_reports p d)
     = map (clear_source_report (set (map ar_id (filter p (db_abuse_reports d))))) (db_videos d)"
  by (simp_all add: delete_abuse_reports_def Let_def)

lemma delete_refresh_tokens_tables [simp]:
  "db_users (delete_refresh_tokens p d) = db_users d" "db_likes (delete_refresh_tokens p d) = db_likes d"
  "db_videos (delete_refresh_tokens p d) = db_videos d"
  "db_extension_sessions (delete_refresh_tokens p d) = db_extension_sessions d"
  "db_send_tickets (delete_refresh_tokens p d) = db_send_tickets d"
  "db_user_bans (delete_refresh_tokens p d) = db_user_bans d"
  "db_security_events (delete_refresh_tokens p d) = db_security_events d"
  "db_abuse_reports (delete_refresh_tokens p d) = db_abuse_reports d"
  by (simp_all add: delete_refresh_tokens_def Let_def)

lemma delete_videos_tables [simp]:
  "db_users (delete_videos p d) = db_users d"
  "db_refresh_tokens (delete_videos p d) = db_refresh_tokens d"
  "db_extension_sessions (delete_videos p d) = db_extension_sessions d"
  "db_user_bans (delete_videos p d) = db_user_bans d"
  "db_security_events (delete_videos p d) = db_security_events d"
  by (simp_all add: delete_videos_def Let_def)

lemma clear_source_report_simps [simp]:
  "v_id (clear_source_report g v) = v_id v" "v_user_id (clear_source_report g v) = v_user_id v"
  "v_like_count (clear_source_report g v) = v_like_count v"
  by (simp_all add: clear_source_report_def split: option.split)

section \<open>Deletions keep the foreign keys\<close>

lemma user_exists_iff: "user_exists d u \<longleftrightarrow> (\<exists>x \<in> set (db_users d). u_id x = u)"
  by (auto simp: user_exists_def list_ex_iff)

lemma video_exists_iff: "video_exists d i \<longleftrightarrow> (\<exists>v \<in> set (db_videos d). v_id v = i)"
  by (auto simp: video_exists_def list_ex_iff)

lemma source_report_cleared:
  "source_report_ok d (v_moderation_source_report_id v) \<Longrightarrow> db_abuse_reports d' = delete_where p (db_abuse_reports d)
    \<Longrightarrow> source_report_ok d' (v_moderation_source_report_id
          (clear_source_report (set (map ar_id (filter p (db_abuse_reports d)))) v))"
  by (auto simp: source_report_ok_def clear_source_report_def list_ex_iff split: option.splits)

lemma replaced_by_cleared:
  assumes "replaced_by_ok t (db_refresh_tokens d)" and "t' = clear_replaced_by (set (map rt_id (filter p (db_refresh_tokens d)))) t"
  shows "replaced_by_ok t' (db_refresh_tokens (delete_refresh_tokens p d))"
  using assms by (auto simp: replaced_by_ok_def clear_replaced_by_def delete_refresh_tokens_def Let_def list_ex_iff
      split: option.splits if_splits)

lemma fk_ok_delete_abuse_reports:
  assumes "fk_ok d"
  shows "fk_ok (delete_abuse_reports p d)"
proof -
  have u: "user_exists (delete_abuse_reports p d) i = user_exists d i"
    and v: "video_exists (delete_abuse_reports p d) i = video_exists d i" for i
    by (auto simp: user_exists_iff video_exists_iff)
  have "user_exists d (v_user_id x) \<and> source_report_ok (delete_abuse_reports p d) (v_moderation_source_report_id x)"
    if x: "x \<in> set (db_videos (delete_abuse_reports p d))" for x
  proof -
    obtain y where "y \<in> set (db_videos d)" "x = clear_source_report (set (map ar_id (filter p (db_abuse_reports d)))) y"
      using x unfolding delete_abuse_reports_tables by auto
    then show ?thesis using source_report_cleared [of d y "delete_abuse_reports p d" p] assms
      by (simp add: fk_ok_def del: set_map)
  qed
  then show ?thesis using assms unfolding fk_ok_def u v
    by (simp only: delete_abuse_reports_tables set_delete_where mem_Collect_eq) simp
qed

lemma fk_ok_delete_refresh_tokens:
  assumes "fk_ok d"
  shows "fk_ok (delete_refresh_tokens p d)"
proof -
  have u: "user_exists (delete_refresh_tokens p d) i = user_exists d i"
    and v: "video_exists (delete_refresh_tokens p d) i = video_exists d i"
    and s: "source_report_ok (delete_refresh_tokens p d) r = source_report_ok d r" for i r
    by (simp_all add: user_exists_iff video_exists_iff source_report_ok_def split: option.split)
  have "user_exists d (rt_user_id t) \<and> replaced_by_ok t (db_refresh_tokens (delete_refresh_tokens p d))"
    if t: "t \<in> set (db_refresh_tokens (delete_refresh_tokens p d))" for t
  proof -
    obtain q where q: "q \<in> set (db_refresh_tokens d)"
        "t = clear_replaced_by (set (map rt_id (filter p (db_refresh_tokens d)))) q"
      using t by (auto simp: delete_refresh_tokens_def Let_def)
    then have "replaced_by_ok q (db_refresh_tokens d)" "user_exists d (rt_user_id q)"
      using assms by (auto simp: fk_ok_def)
    then show ?thesis using replaced_by_cleared [OF _ q(2)] q(2) by (simp del: set_map)
  qed
  then show ?thesis using assms unfolding fk_ok_def u v s by simp
qed

lemma fk_ok_delete_videos:
  assumes "fk_ok d"
  shows "fk_ok (delete_videos p d)"
proof -
  define gone where "gone = set (map v_id (filter p (db_videos d)))"
  define d1 where "d1 = delete_abuse_reports (\<lambda>r. ar_video_id r \<in> gone) d"
  have 1: "fk_ok d1" unfolding d1_def by (rule fk_ok_delete_abuse_reports [OF assms])
  have r: "ar_video_id r \<notin> gone" if "r \<in> set (db_abuse_reports d1)" for r
    using that by (simp add: d1_def)
  let ?clear = "clear_source_report (set (map ar_id (filter (\<lambda>r. ar_video_id r \<in> gone) (db_abuse_reports d))))"
  have eq: "delete_videos p d = d1\<lparr> db_videos := map ?clear (delete_where p (db_videos d)),
      db_likes := delete_where (\<lambda>l. l_video_id l \<in> gone) (db_likes d),
      db_send_tickets := delete_where (\<lambda>t. st_video_id t \<in> gone) (db_send_tickets d) \<rparr>"
    unfolding delete_videos_def d1_def Let_def gone_def delete_abuse_reports_def by simp
  have u: "user_exists (delete_videos p d) i = user_exists d1 i" for i
    by (simp add: user_exists_iff eq)
  have v: "video_exists (delete_videos p d) i" if "video_exists d i" "i \<notin> gone" for i
    using that by (force simp: video_exists_iff eq gone_def)
  have ex: "video_exists d1 i = video_exists d i" for i by (auto simp: video_exists_iff d1_def)
  have s: "source_report_ok (delete_videos p d) i = source_report_ok d1 i" for i
    by (simp add: source_report_ok_def eq split: option.split)
  have sub: "set (db_videos (delete_videos p d)) \<subseteq> set (db_videos d1)"
    by (auto simp: eq d1_def)
  have likes: "l \<in> set (db_likes d1) \<and> l_video_id l \<notin> gone" if "l \<in> set (db_likes (delete_videos p d))" for l
    using that by (simp add: eq d1_def)
  have tickets: "t \<in> set (db_send_tickets d1) \<and> st_video_id t \<notin> gone"
    if "t \<in> set (db_send_tickets (delete_videos p d))" for t
    using that by (simp add: eq d1_def)
  have rest: "db_refresh_tokens (delete_videos p d) = db_refresh_tokens d1"
    "db_extension_sessions (delete_videos p d) = db_extension_sessions d1"
    "db_user_bans (delete_videos p d) = db_user_bans d1"
    "db_abuse_reports (delete_videos p d) = db_abuse_reports d1"
    "db_security_events (delete_videos p d) = db_security_events d1"
    by (simp_all add: eq)
  show ?thesis
    unfolding fk_ok_def u s rest
  proof (intro conjI)
    show "\<forall>x \<in> set (db_videos (delete_videos p d)). user_exists d1 (v_user_id x)
        \<and> source_report_ok d1 (v_moderation_source_report_id x)"
      using 1 sub unfolding fk_ok_def by blast
    show "\<forall>l \<in> set (db_likes (delete_videos p d)). user_exists d1 (l_user_id l) \<and> video_exists (delete_videos p d) (l_video_id l)"
      using 1 likes v unfolding fk_ok_def ex by blast
    show "\<forall>t \<in> set (db_send_tickets (delete_videos p d)). user_exists d1 (st_user_id t) \<and> video_exists (delete_videos p d) (st_video_id t)"
      using 1 tickets v unfolding fk_ok_def ex by blast
    show "\<forall>x \<in> set (db_abuse_reports d1). user_exists d1 (ar_reporter_user_id x) \<and> video_exists (delete_videos p d) (ar_video_id x)"
      using 1 r v unfolding fk_ok_def ex by blast
  qed (use 1 in \<open>simp_all add: fk_ok_def\<close>)
qed

lemma fk_ok_delete_user:
  assumes "fk_ok d"
  shows "fk_ok (delete_user u d)"
proof -
  define d1 where "d1 = delete_refresh_tokens (\<lambda>t. rt_user_id t = u)
      (delete_abuse_reports (\<lambda>r. ar_reporter_user_id r = u) (delete_videos (\<lambda>v. v_user_id v = u) d))"
  have 1: "fk_ok d1"
    unfolding d1_def by (intro fk_ok_delete_refresh_tokens fk_ok_delete_abuse_reports fk_ok_delete_videos assms)
  have eq: "delete_user u d = d1\<lparr> db_users := delete_where (\<lambda>x. u_id x = u) (db_users d1),
         db_likes := delete_where (\<lambda>l. l_user_id l = u) (db_likes d1),
         db_extension_sessions := delete_where (\<lambda>s. es_user_id s = u) (db_extension_sessions d1),
         db_send_tickets := delete_where (\<lambda>t. st_user_id t = u) (db_send_tickets d1),
         db_user_bans := delete_where (\<lambda>b. ub_user_id b = u) (db_user_bans d1),
         db_security_events := map (forget_actor u) (db_security_events d1) \<rparr>"
    unfolding delete_user_def d1_def Let_def by simp
  have ue: "user_exists (delete_user u d) i \<longleftrightarrow> user_exists d1 i \<and> i \<noteq> u" for i
    by (auto simp: user_exists_iff eq)
  have ve: "video_exists (delete_user u d) i = video_exists d1 i"
    and se: "source_report_ok (delete_user u d) r = source_report_ok d1 r" for i r
    by (simp_all add: video_exists_iff source_report_ok_def eq split: option.split)
  have own: "\<forall>v \<in> set (db_videos d1). v_user_id v \<noteq> u" "\<forall>t \<in> set (db_refresh_tokens d1). rt_user_id t \<noteq> u"
    "\<forall>r \<in> set (db_abuse_reports d1). ar_reporter_user_id r \<noteq> u"
    by (auto simp: d1_def delete_videos_def Let_def delete_refresh_tokens_def)
  have "case se_user_id e of None \<Rightarrow> True | Some i \<Rightarrow> user_exists (delete_user u d) i"
    if e: "e \<in> set (db_security_events (delete_user u d))" for e
  proof -
    obtain q where "q \<in> set (db_security_events d1)" "e = forget_actor u q" using e by (auto simp: eq)
    then show ?thesis using 1 unfolding fk_ok_def ue
      by (auto simp: forget_actor_def split: option.splits if_splits)
  qed
  then show ?thesis using 1 own unfolding fk_ok_def ue ve se by (auto simp: eq)
qed

lemma delete_user_erases: "erased u (delete_user u d)"
  by (auto simp: erased_def delete_user_def Let_def delete_refresh_tokens_def delete_videos_def forget_actor_def)

lemma erased_delete_user: "erased u d \<Longrightarrow> erased u (delete_user v d)"
  by (auto simp: erased_def delete_user_def Let_def delete_refresh_tokens_def delete_videos_def forget_actor_def)

section \<open>A run of the clean-up\<close>

definition video_objects :: "video \<Rightarrow> (string \<times> string) set" where
  "video_objects v = {(v_s3_bucket v, v_s3_key v), (v_s3_bucket v, thumb_key (v_id v))}"

definition objects_without :: "(string \<times> string) set \<Rightarrow> world \<Rightarrow> world" where
  "objects_without K w = w\<lparr>objects := (\<lambda>k. if k \<in> K then None else objects w k)\<rparr>"

lemma objects_without_simps [simp]:
  "faults (objects_without K w) = faults w" "db (objects_without K w) = db w" "clock (objects_without K w) = clock w"
  "objects (objects_without K w) k = (if k \<in> K then None else objects w k)"
  "objects_without {} w = w" "objects_without J (objects_without K w) = objects_without (K \<union> J) w"
  by (auto simp: objects_without_def fun_eq_iff)

lemma delete_stored_video_run:
  "faults w = [] \<Longrightarrow> delete_stored_video v w = (Inr (), objects_without (video_objects v) w)"
  by (auto simp: delete_stored_video_def ignoreE_def delete_file_def returnOk_def objects_without_def
      video_objects_def fun_eq_iff)

lemma delete_stored_videos_run:
  "faults w = [] \<Longrightarrow> forE vs delete_stored_video w = (Inr (), objects_without (\<Union> (video_objects ` set vs)) w)"
  by (induction vs arbitrary: w) (simp_all add: delete_stored_video_run bindE_def returnOk_def)

lemma clean_up_account_run:
  assumes "faults w = []"
  shows "clean_up_account u w = (Inr (), objects_without (\<Union> (video_objects ` {v \<in> set (db_videos (db w)). v_user_id v = u}))
           (w\<lparr>db := delete_user u (db w)\<rparr>))"
  using assms
  by (simp add: clean_up_account_def bindE_def db_read_def delete_stored_videos_run exec_delete_user_def returnOk_def)
    (cases w, auto simp: objects_without_def fun_eq_iff)

lemma delete_user_users: "db_users (delete_user u d) = delete_where (\<lambda>x. u_id x = u) (db_users d)"
  by (simp add: delete_user_def Let_def)

lemma delete_user_videos:
  assumes "v \<in> set (db_videos d)" and "v_user_id v \<noteq> u"
  shows "\<exists>y \<in> set (db_videos (delete_user u d)). v_user_id y = v_user_id v \<and> video_objects y = video_objects v"
proof -
  have same: "video_objects (clear_source_report g y) = video_objects y" for g y
    by (simp add: video_objects_def clear_source_report_def split: option.split)
  show ?thesis using assms by (auto simp: delete_user_def Let_def delete_videos_def same)
qed

lemma clean_up_accounts_run:
  assumes "faults w = []"
  shows "\<exists>w'. forE us (\<lambda>x. clean_up_account (u_id x)) w = (Inr (), w') \<and> faults w' = []
    \<and> (\<forall>x \<in> set us. erased (u_id x) (db w')) \<and> (\<forall>u. erased u (db w) \<longrightarrow> erased u (db w'))
    \<and> db_users (db w') = delete_where (\<lambda>y. u_id y \<in> u_id ` set us) (db_users (db w))
    \<and> (\<forall>v \<in> set (db_videos (db w)). v_user_id v \<in> u_id ` set us \<longrightarrow> (\<forall>k \<in> video_objects v. objects w' k = None))
    \<and> (\<forall>k. objects w k = None \<longrightarrow> objects w' k = None) \<and> (fk_ok (db w) \<longrightarrow> fk_ok (db w'))"
  using assms
proof (induction us arbitrary: w)
  case Nil
  then show ?case by (simp add: returnOk_def delete_where_def)
next
  case (Cons x us)
  define w1 where "w1 = objects_without (\<Union> (video_objects ` {v \<in> set (db_videos (db w)). v_user_id v = u_id x}))
      (w\<lparr>db := delete_user (u_id x) (db w)\<rparr>)"
  have run: "clean_up_account (u_id x) w = (Inr (), w1)"
    unfolding w1_def by (rule clean_up_account_run) (use Cons in simp)
  have w1: "faults w1 = []" "db w1 = delete_user (u_id x) (db w)"
    using Cons.prems by (simp_all add: w1_def)
  obtain w' where rest: "forE us (\<lambda>x. clean_up_account (u_id x)) w1 = (Inr (), w')" "faults w' = []"
    and e: "\<forall>x \<in> set us. erased (u_id x) (db w')" "\<forall>u. erased u (db w1) \<longrightarrow> erased u (db w')"
    and u: "db_users (db w') = delete_where (\<lambda>y. u_id y \<in> u_id ` set us) (db_users (db w1))"
    and v: "\<forall>v \<in> set (db_videos (db w1)). v_user_id v \<in> u_id ` set us \<longrightarrow> (\<forall>k \<in> video_objects v. objects w' k = None)"
    and o: "\<forall>k. objects w1 k = None \<longrightarrow> objects w' k = None" and f: "fk_ok (db w1) \<longrightarrow> fk_ok (db w')"
    using Cons.IH [OF w1(1)] by blast
  have "forE (x # us) (\<lambda>x. clean_up_account (u_id x)) w = (Inr (), w')"
    by (simp add: bindE_def run rest(1))
  moreover have "erased (u_id x) (db w')" using e(2) delete_user_erases [of "u_id x" "db w"] by (simp add: w1(2))
  moreover have "\<forall>u. erased u (db w) \<longrightarrow> erased u (db w')" using e(2) erased_delete_user by (simp add: w1(2))
  moreover have "db_users (db w') = delete_where (\<lambda>y. u_id y \<in> u_id ` set (x # us)) (db_users (db w))"
    by (simp add: u w1(2) delete_user_users delete_where_def)
  moreover have "objects w' k = None" if y: "y \<in> set (db_videos (db w))" "v_user_id y \<in> u_id ` set (x # us)"
      and k: "k \<in> video_objects y" for y k
  proof (cases "v_user_id y = u_id x")
    case True
    then have "objects w1 k = None" using y k by (auto simp: w1_def)
    then show ?thesis using o by blast
  next
    case False
    then show ?thesis using delete_user_videos [OF y(1) False] v y(2) k by (auto simp: w1(2))
  qed
  moreover have "objects w k = None \<longrightarrow> objects w' k = None" for k using o [rule_format, of k] by (simp add: w1_def)
  moreover have "fk_ok (db w) \<longrightarrow> fk_ok (db w')" using f fk_ok_delete_user by (simp add: w1(2))
  ultimately show ?case using rest(2) e(1) by (intro exI [of _ w']) auto
qed


definition abandoned :: world where
  "abandoned = world1\<lparr> db := empty_db\<lparr> db_users := [user0\<lparr>u_deleted_at := Some 0\<rparr>], db_videos := [video0] \<rparr>,
     objects := (\<lambda>k. Some \<lparr> so_size = 10, so_head = '''' \<rparr>) \<rparr>"


text \<open>The likes of a deleted user go, the counters they were counted in stay.\<close>

lemma deletion_leaves_counters:
  "\<exists>d u. fk_ok d \<and> counters_true d \<and> \<not> counters_true (delete_user u d)"
proof -
  let ?d = "empty_db\<lparr> db_users := [user0, user0\<lparr>u_id := ''u2'', u_google_id := ''g2''\<rparr>],
      db_videos := [video0\<lparr>v_like_count := 1\<rparr>],
      db_likes := [\<lparr> l_user_id = ''u2'', l_video_id = v_id video0, l_created_at = 0 \<rparr>] \<rparr>"
  have "fk_ok ?d"
    by (simp add: empty_db_def fk_ok_def user_exists_def video_exists_def user0_def video0_def source_report_ok_def)
  moreover have "counters_true ?d"
    by (simp add: empty_db_def counters_true_def likes_of_def like_pair_def)
  moreover have "\<not> counters_true (delete_user ''u2'' ?d)"
    by (simp add: empty_db_def counters_true_def likes_of_def like_pair_def delete_user_def delete_videos_def
        delete_refresh_tokens_def delete_where_def Let_def video0_def delete_abuse_reports_def)
  ultimately show ?thesis by blast
qed

end
