(* ===== verification/System.thy ===== *)
theory System
  imports Uploads Search Username
begin

text \<open>
  \<^verbatim>\<open>api/src/system/handlers.rs\<close>: the terms of service with their entity tags, and the two mode
  flags.
\<close>

section \<open>Entity tags\<close>

definition if_none_match_matches :: "request \<Rightarrow> string \<Rightarrow> bool" where
  "if_none_match_matches rq expected_etag =
     (case map_of (rq_headers rq) ''if-none-match'' of
        Some (Some value) \<Rightarrow> list_ex (\<lambda>c. c = ''*'' \<or> c = expected_etag) (map trim (split_on CHR '','' value))
      | _ \<Rightarrow> False)"

text \<open>An answer with its status: without a body when the client has it already. A tag that is no
  header value is refused; a header value has bytes from 32 on, without 127, and the tab.\<close>

datatype 'a cacheable = NotModified string | FullBody string 'a

definition header_value_ok :: "string \<Rightarrow> bool" where
  "header_value_ok s = list_all (\<lambda>c. c = CHR 9 \<or> (32 \<le> byte c \<and> byte c \<noteq> 127)) s"

definition cacheable_json_response :: "'a \<Rightarrow> string \<Rightarrow> request \<Rightarrow> 'a cacheable api" where
  "cacheable_json_response body etag rq =
     guardE (header_value_ok etag) (internal_error ''Invalid ETag'')
       (returnOk (if if_none_match_matches rq etag then NotModified etag else FullBody etag body))"

section \<open>Terms\<close>

record terms_response =
  tr_language :: string
  tr_version :: string
  tr_url :: "string option"
  tr_content_type :: "string option"
  tr_content_sha256 :: "string option"
  tr_content :: "string option"
  tr_effective_at :: "string option"
  tr_jurisdictions :: "string list"
  tr_legal_contact_email :: "string option"
  tr_abuse_contact_email :: "string option"

record terms_bundle_response =
  tb_version :: string
  tb_default_language :: string
  tb_available_languages :: "string list"
  tb_en :: terms_response
  tb_tr :: terms_response

definition get_terms_document :: "config \<Rightarrow> string \<Rightarrow> localized_terms_document option" where
  "get_terms_document cf language = map_of (cf_terms_documents cf) language"

definition build_terms_response_for_language :: "config \<Rightarrow> string \<Rightarrow> api_error + terms_response" where
  "build_terms_response_for_language cf language =
     (case get_terms_document cf language of
        None \<Rightarrow> Inl (not_found ''Terms language not found'')
      | Some d \<Rightarrow> Inr \<lparr> tr_language = ltd_language d, tr_version = ltd_version d, tr_url = ltd_url d,
          tr_content_type = ltd_content_type d, tr_content_sha256 = ltd_content_sha256 d,
          tr_content = ltd_content d, tr_effective_at = ltd_effective_at d,
          tr_jurisdictions = ltd_jurisdictions d, tr_legal_contact_email = cf_terms_legal_contact_email cf,
          tr_abuse_contact_email = cf_terms_abuse_contact_email cf \<rparr>)"

definition terms_bundle :: "config \<Rightarrow> terms_bundle_response api" where
  "terms_bundle cf =
     bindE (from_sum (build_terms_response_for_language cf ''en'')) (\<lambda>en.
     bindE (from_sum (build_terms_response_for_language cf ''tr'')) (\<lambda>tr.
       returnOk \<lparr> tb_version = cf_terms_current_version cf, tb_default_language = cf_terms_default_language cf,
         tb_available_languages = [''en'', ''tr''], tb_en = en, tb_tr = tr \<rparr>))"

definition quoted :: "string \<Rightarrow> string" where
  "quoted s = CHR 34 # s @ [CHR 34]"

definition get_terms :: "config \<Rightarrow> request \<Rightarrow> terms_bundle_response cacheable api" where
  "get_terms cf rq =
     bindE (terms_bundle cf) (\<lambda>b. cacheable_json_response b (quoted (cf_terms_bundle_content_sha256 cf)) rq)"

definition json_opt :: "string option \<Rightarrow> json" where
  "json_opt v = (case v of None \<Rightarrow> JNull | Some s \<Rightarrow> JStr s)"

definition terms_json :: "terms_response \<Rightarrow> json" where
  "terms_json r = JObj
     [(''language'', JStr (tr_language r)), (''version'', JStr (tr_version r)), (''url'', json_opt (tr_url r)),
      (''content_type'', json_opt (tr_content_type r)), (''content_sha256'', json_opt (tr_content_sha256 r)),
      (''content'', json_opt (tr_content r)), (''effective_at'', json_opt (tr_effective_at r)),
      (''jurisdictions'', JArr (map JStr (tr_jurisdictions r))),
      (''legal_contact_email'', json_opt (tr_legal_contact_email r)),
      (''abuse_contact_email'', json_opt (tr_abuse_contact_email r))]"

text \<open>The tag of one language is the hash of its content, and the hash of the answer when it has none.\<close>

definition get_terms_for_language :: "app \<Rightarrow> string \<Rightarrow> request \<Rightarrow> terms_response cacheable api" where
  "get_terms_for_language ap language rq =
     bindE (from_sum (build_terms_response_for_language (ap_config ap) language)) (\<lambda>r.
       let etag_seed = (case tr_content_sha256 r of
             Some hash \<Rightarrow> hash
           | None \<Rightarrow> lib_sha256_hex (ap_libs ap) (lib_json_text (ap_libs ap) (terms_json r))) in
       cacheable_json_response r (quoted etag_seed) rq)"

definition get_terms_en :: "app \<Rightarrow> request \<Rightarrow> terms_response cacheable api" where
  "get_terms_en ap = get_terms_for_language ap ''en''"

definition get_terms_tr :: "app \<Rightarrow> request \<Rightarrow> terms_response cacheable api" where
  "get_terms_tr ap = get_terms_for_language ap ''tr''"

section \<open>Modes\<close>

definition get_read_only_status :: "config \<Rightarrow> bool \<Rightarrow> uuid \<Rightarrow> bool api" where
  "get_read_only_status cf bypass u =
     limited_strict (check_and_increment bypass (read_only_status_user_key u) (cf_read_only_status_rpm_per_user cf) 60)
       (too_many_requests ''Too many read-only status requests'')
       (service_unavailable ''Read-only status temporarily unavailable'')
       (returnOk (cf_read_only_mode_enabled cf))"

definition get_maintenance_status :: "config \<Rightarrow> bool \<Rightarrow> uuid \<Rightarrow> bool api" where
  "get_maintenance_status cf bypass u =
     limited_strict (check_and_increment bypass (maintenance_status_user_key u) (cf_maintenance_status_rpm_per_user cf) 60)
       (too_many_requests ''Too many maintenance status requests'')
       (service_unavailable ''Maintenance status temporarily unavailable'')
       (returnOk (cf_maintenance_mode_enabled cf))"

section \<open>A client that has the terms gets no body\<close>

text \<open>A tag without a comma, and without blanks at its ends, is recognized when it is sent back.\<close>

definition asks_with :: "string \<Rightarrow> request \<Rightarrow> request" where
  "asks_with etag rq = rq\<lparr>rq_headers := (''if-none-match'', Some etag) # rq_headers rq\<rparr>"

lemma split_on_none: "c \<notin> set s \<Longrightarrow> split_on c s = [s]"
  by (induction c s rule: split_on.induct) (auto split: list.splits)

lemma etag_recognized:
  assumes "CHR '','' \<notin> set e" and "trim e = e"
  shows "if_none_match_matches (asks_with e rq) e"
  using assms by (simp add: if_none_match_matches_def asks_with_def split_on_none)

lemma quoted_hash:
  assumes "list_all (\<lambda>c. is_ascii_digit c \<or> is_ascii_lower c) h"
  shows "CHR '','' \<notin> set (quoted h)" and "header_value_ok (quoted h)" and "trim (quoted h) = quoted h"
proof -
  show "CHR '','' \<notin> set (quoted h)"
    using assms by (auto simp: quoted_def list_all_iff is_ascii_digit_def is_ascii_lower_def byte_def)
  show "header_value_ok (quoted h)"
    using assms by (auto simp: header_value_ok_def quoted_def list_all_iff is_ascii_digit_def is_ascii_lower_def byte_def)
  show "trim (quoted h) = quoted h"
    by (rule trim_solid)
      (use assms in \<open>auto simp: quoted_def list_all_iff is_ascii_digit_def is_ascii_lower_def is_white_space_byte byte_def\<close>)
qed

text \<open>The terms come with a tag that a later request can name: it is then answered without a body.\<close>

theorem terms_revalidation:
  assumes "list_all (\<lambda>c. is_ascii_digit c \<or> is_ascii_lower c) (cf_terms_bundle_content_sha256 cf)"
    and "get_terms cf rq w = (Inr (FullBody e b), w')"
  shows "get_terms cf (asks_with e rq) w = (Inr (NotModified e), w')"
proof -
  have e: "e = quoted (cf_terms_bundle_content_sha256 cf)"
    using assms(2) unfolding get_terms_def cacheable_json_response_def
    by (elim run_InrE) (auto simp: returnOk_def split: if_splits)
  have m: "if_none_match_matches (asks_with e rq) e"
    unfolding e by (rule etag_recognized) (use quoted_hash [OF assms(1)] in auto)
  obtain b' where t: "terms_bundle cf w = (Inr b', w')"
    using assms(2) unfolding get_terms_def cacheable_json_response_def
    by (elim run_InrE) (auto simp: returnOk_def)
  show ?thesis
    unfolding get_terms_def cacheable_json_response_def
    using m t quoted_hash(2) [OF assms(1)] by (simp add: bindE_def e guardE_def returnOk_def)
qed

lemma terms_revalidation_witness:
  "\<exists>e b. get_terms config0 (bearer ''t'') world1 = (Inr (FullBody e b), world1)
     \<and> get_terms config0 (asks_with e (bearer ''t'')) world1 = (Inr (NotModified e), world1)"
proof -
  have "list_all (\<lambda>c. is_ascii_digit c \<or> is_ascii_lower c) (cf_terms_bundle_content_sha256 config0)"
    by (simp add: config0_def is_ascii_digit_def is_ascii_lower_def byte_def)
  moreover have "\<exists>e b. get_terms config0 (bearer ''t'') world1 = (Inr (FullBody e b), world1)"
    by (simp add: get_terms_def terms_bundle_def build_terms_response_for_language_def get_terms_document_def
        config0_def from_sum_def cacheable_json_response_def guardE_def bindE_def returnOk_def bearer_def
        if_none_match_matches_def header_value_ok_def quoted_def byte_def)
  ultimately show ?thesis using terms_revalidation by blast
qed

text \<open>The tag of one language does not see the version, the dates, the jurisdictions or the contacts.\<close>

lemma language_tag_misses_metadata:
  assumes "get_terms_document (ap_config ap) l = Some d" and "ltd_content_sha256 d = Some h"
    and "header_value_ok (quoted h)" and "if_none_match_matches rq (quoted h)"
  shows "result (get_terms_for_language (ap\<lparr>ap_config := (ap_config ap)\<lparr>cf_terms_documents :=
           (l, d\<lparr>ltd_version := v, ltd_effective_at := t, ltd_jurisdictions := js\<rparr>) # cf_terms_documents (ap_config ap)\<rparr>\<rparr>) l rq w)
         = Inr (NotModified (quoted h))"
  using assms
  by (simp add: get_terms_for_language_def build_terms_response_for_language_def get_terms_document_def
      from_sum_def bindE_def returnOk_def cacheable_json_response_def guardE_def Let_def)

end
