(* ===== verification/Admin.thy ===== *)
theory Admin
  imports Users Deletion System
begin

text \<open>
  The administration of \<^verbatim>\<open>api/src/admin/handlers.rs\<close>: the audit log, the catalogue of tables with
  its pages, the hard deletions with the cascades of the schema, bans, investigations, reports and
  moderation.
\<close>

section \<open>Audit\<close>

definition request_id_from_headers :: "request \<Rightarrow> string api" where
  "request_id_from_headers rq =
     (case map_of (rq_headers rq) ''x-request-id'' of
        Some (Some s) \<Rightarrow> (if trim s = [] then new_v4 else returnOk (trim s))
      | _ \<Rightarrow> new_v4)"

definition user_agent_from_headers :: "request \<Rightarrow> string option" where
  "user_agent_from_headers rq =
     (case map_of (rq_headers rq) ''user-agent'' of
        Some (Some s) \<Rightarrow> (if trim s = [] then None else Some (trim s))
      | _ \<Rightarrow> None)"

record admin_audit_entry =
  ae_action :: string
  ae_target_table :: string
  ae_target_id :: "string option"
  ae_outcome :: string
  ae_metadata :: json

definition audit_row :: "admin_principal \<Rightarrow> string \<Rightarrow> string option \<Rightarrow> admin_audit_entry \<Rightarrow> uuid \<Rightarrow> time \<Rightarrow> admin_audit_log" where
  "audit_row pr request_id user_agent e i now =
     \<lparr> al_id = i, al_actor_sub = pr_sub pr, al_action = ae_action e, al_target_table = ae_target_table e,
       al_target_id = ae_target_id e, al_request_id = request_id, al_ip = Some (show_ip (pr_client_ip pr)),
       al_user_agent = user_agent, al_outcome = ae_outcome e, al_metadata_json = ae_metadata e,
       al_created_at = now \<rparr>"

text \<open>The entry is written when the database takes it; a failure is only logged.\<close>

definition write_admin_audit ::
  "admin_principal \<Rightarrow> string \<Rightarrow> string option \<Rightarrow> admin_audit_entry \<Rightarrow> 'a api \<Rightarrow> 'a api" where
  "write_admin_audit pr request_id user_agent e k =
     bindE new_v4 (\<lambda>i.
     bindE (getsE clock) (\<lambda>now.
     ignoreE (db_write (insert_admin_audit_log (audit_row pr request_id user_agent e i now))) k))"

record admin_response_meta =
  arm_request_id :: string
  arm_actor_sub :: string
  arm_timestamp :: time

record 'a admin_envelope =
  env_metadata :: admin_response_meta
  env_data :: 'a

definition response_meta :: "string \<Rightarrow> admin_principal \<Rightarrow> time \<Rightarrow> admin_response_meta" where
  "response_meta request_id pr now = \<lparr> arm_request_id = request_id, arm_actor_sub = pr_sub pr, arm_timestamp = now \<rparr>"

definition enveloped :: "string \<Rightarrow> admin_principal \<Rightarrow> 'a \<Rightarrow> 'a admin_envelope api" where
  "enveloped request_id pr x =
     bindE (getsE clock) (\<lambda>now. returnOk \<lparr> env_metadata = response_meta request_id pr now, env_data = x \<rparr>)"

section \<open>The catalogue of tables\<close>

datatype table_primary_key = SingleKey string | CompositeKey string string

record table_spec =
  ts_name :: string
  ts_pk :: table_primary_key
  ts_order_by :: string

definition table_specs :: "table_spec list" where
  "table_specs =
     [\<lparr> ts_name = ''users'', ts_pk = SingleKey ''id'', ts_order_by = ''created_at DESC, id DESC'' \<rparr>,
      \<lparr> ts_name = ''videos'', ts_pk = SingleKey ''id'', ts_order_by = ''created_at DESC, id DESC'' \<rparr>,
      \<lparr> ts_name = ''likes'', ts_pk = CompositeKey ''user_id'' ''video_id'',
        ts_order_by = ''created_at DESC, user_id DESC, video_id DESC'' \<rparr>,
      \<lparr> ts_name = ''refresh_tokens'', ts_pk = SingleKey ''id'', ts_order_by = ''created_at DESC, id DESC'' \<rparr>,
      \<lparr> ts_name = ''download_jobs'', ts_pk = SingleKey ''id'', ts_order_by = ''created_at DESC, id DESC'' \<rparr>,
      \<lparr> ts_name = ''send_tickets'', ts_pk = SingleKey ''ticket_id'', ts_order_by = ''created_at DESC, ticket_id DESC'' \<rparr>,
      \<lparr> ts_name = ''extension_sessions'', ts_pk = SingleKey ''jti'', ts_order_by = ''issued_at DESC, jti DESC'' \<rparr>,
      \<lparr> ts_name = ''admin_audit_logs'', ts_pk = SingleKey ''id'', ts_order_by = ''created_at DESC, id DESC'' \<rparr>,
      \<lparr> ts_name = ''user_bans'', ts_pk = SingleKey ''id'', ts_order_by = ''created_at DESC, id DESC'' \<rparr>,
      \<lparr> ts_name = ''ip_bans'', ts_pk = SingleKey ''id'', ts_order_by = ''created_at DESC, id DESC'' \<rparr>,
      \<lparr> ts_name = ''security_events'', ts_pk = SingleKey ''id'', ts_order_by = ''created_at DESC, id DESC'' \<rparr>,
      \<lparr> ts_name = ''abuse_reports'', ts_pk = SingleKey ''id'', ts_order_by = ''created_at DESC, id DESC'' \<rparr>]"

definition find_table_spec :: "string \<Rightarrow> table_spec option" where
  "find_table_spec name = find (\<lambda>s. ts_name s = name) table_specs"

fun pk_display :: "table_primary_key \<Rightarrow> string" where
  "pk_display (SingleKey c) = c"
| "pk_display (CompositeKey a b) = a @ '','' @ b"

text \<open>
  What \<^verbatim>\<open>SELECT * FROM {} ORDER BY {}\<close> answers for each specification: the rows of the table, the
  latest first, and among equal times the greatest key first.
\<close>

datatype table_row =
    UserRow user | VideoRow video | LikeRow like | RefreshTokenRow refresh_token
  | DownloadJobRow download_job | SendTicketRow send_ticket | ExtensionSessionRow extension_session
  | AuditLogRow admin_audit_log | UserBanRow user_ban | IpBanRow ip_ban
  | SecurityEventRow security_event | AbuseReportRow abuse_report

fun row_key :: "table_row \<Rightarrow> uuid list" where
  "row_key (UserRow r) = [u_id r]"
| "row_key (VideoRow r) = [v_id r]"
| "row_key (LikeRow r) = [l_user_id r, l_video_id r]"
| "row_key (RefreshTokenRow r) = [rt_id r]"
| "row_key (DownloadJobRow r) = [dj_id r]"
| "row_key (SendTicketRow r) = [st_ticket_id r]"
| "row_key (ExtensionSessionRow r) = [es_jti r]"
| "row_key (AuditLogRow r) = [al_id r]"
| "row_key (UserBanRow r) = [ub_id r]"
| "row_key (IpBanRow r) = [ib_id r]"
| "row_key (SecurityEventRow r) = [se_id r]"
| "row_key (AbuseReportRow r) = [ar_id r]"

fun row_time :: "table_row \<Rightarrow> time" where
  "row_time (UserRow r) = u_created_at r"
| "row_time (VideoRow r) = v_created_at r"
| "row_time (LikeRow r) = l_created_at r"
| "row_time (RefreshTokenRow r) = rt_created_at r"
| "row_time (DownloadJobRow r) = dj_created_at r"
| "row_time (SendTicketRow r) = st_created_at r"
| "row_time (ExtensionSessionRow r) = es_issued_at r"
| "row_time (AuditLogRow r) = al_created_at r"
| "row_time (UserBanRow r) = ub_created_at r"
| "row_time (IpBanRow r) = ib_created_at r"
| "row_time (SecurityEventRow r) = se_created_at r"
| "row_time (AbuseReportRow r) = ar_created_at r"

definition table_contents :: "string \<Rightarrow> database \<Rightarrow> table_row list" where
  "table_contents name d =
     (if name = ''users'' then map UserRow (db_users d)
      else if name = ''videos'' then map VideoRow (db_videos d)
      else if name = ''likes'' then map LikeRow (db_likes d)
      else if name = ''refresh_tokens'' then map RefreshTokenRow (db_refresh_tokens d)
      else if name = ''download_jobs'' then map DownloadJobRow (db_download_jobs d)
      else if name = ''send_tickets'' then map SendTicketRow (db_send_tickets d)
      else if name = ''extension_sessions'' then map ExtensionSessionRow (db_extension_sessions d)
      else if name = ''admin_audit_logs'' then map AuditLogRow (db_admin_audit_logs d)
      else if name = ''user_bans'' then map UserBanRow (db_user_bans d)
      else if name = ''ip_bans'' then map IpBanRow (db_ip_bans d)
      else if name = ''security_events'' then map SecurityEventRow (db_security_events d)
      else if name = ''abuse_reports'' then map AbuseReportRow (db_abuse_reports d)
      else [])"

definition ordered_rows :: "string \<Rightarrow> database \<Rightarrow> table_row list" where
  "ordered_rows name d = order_by_desc row_time (rev (sort_key row_key (table_contents name d)))"

record admin_table_info =
  ati_name :: string
  ati_primary_key :: string

definition list_tables :: "admin_principal \<Rightarrow> request \<Rightarrow> admin_table_info list admin_envelope api" where
  "list_tables pr rq =
     bindE (request_id_from_headers rq) (\<lambda>rid.
     let tables = map (\<lambda>s. \<lparr> ati_name = ts_name s, ati_primary_key = pk_display (ts_pk s) \<rparr>) table_specs in
     write_admin_audit pr rid (user_agent_from_headers rq)
       \<lparr> ae_action = ''list_tables'', ae_target_table = ''admin_catalog'', ae_target_id = None,
         ae_outcome = ''success'', ae_metadata = JObj [(''table_count'', JNum (int (length tables)))] \<rparr>
       (enveloped rid pr tables))"

record list_rows_query =
  lrq_limit :: "nat option"
  lrq_cursor :: "string option"

record list_rows_response =
  lrr_table :: string
  lrr_rows :: "table_row list"
  lrr_next_cursor :: "string option"

definition parse_u64 :: "string \<Rightarrow> nat option" where
  "parse_u64 s = (case parse_nat s of Some n \<Rightarrow> (if n < 2 ^ 64 then Some n else None) | None \<Rightarrow> None)"

definition parse_cursor :: "list_rows_query \<Rightarrow> api_error + nat" where
  "parse_cursor q =
     (case lrq_cursor q of
        None \<Rightarrow> Inr 0
      | Some raw \<Rightarrow> (case parse_u64 raw of None \<Rightarrow> Inl (bad_request ''Invalid cursor'') | Some n \<Rightarrow> Inr n))"

definition rows_limit :: "list_rows_query \<Rightarrow> nat" where
  "rows_limit q = clamp_nat 1 200 (case lrq_limit q of None \<Rightarrow> 50 | Some n \<Rightarrow> n)"

definition rows_page :: "string \<Rightarrow> nat \<Rightarrow> nat \<Rightarrow> table_row list \<Rightarrow> list_rows_response" where
  "rows_page name lim off rows =
     \<lparr> lrr_table = name, lrr_rows = rows,
       lrr_next_cursor = (if length rows = lim then Some (show_nat (off + lim)) else None) \<rparr>"

definition list_table_rows ::
  "admin_principal \<Rightarrow> request \<Rightarrow> string \<Rightarrow> list_rows_query \<Rightarrow> list_rows_response admin_envelope api" where
  "list_table_rows pr rq table q =
     bindE (request_id_from_headers rq) (\<lambda>rid.
     let ua = user_agent_from_headers rq in
     case find_table_spec table of
       None \<Rightarrow>
         write_admin_audit pr rid ua
           \<lparr> ae_action = ''list_rows'', ae_target_table = table, ae_target_id = None,
             ae_outcome = ''rejected_invalid_table'', ae_metadata = JObj [] \<rparr>
           (throwErr (bad_request ''Table is not allowed''))
     | Some spec \<Rightarrow>
         (let lim = rows_limit q in
          bindE (from_sum (parse_cursor q)) (\<lambda>off.
          callE (read_page off (\<lambda>d. take lim (drop off (ordered_rows (ts_name spec) d)))) (\<lambda>rows.
          write_admin_audit pr rid ua
            \<lparr> ae_action = ''list_rows'', ae_target_table = ts_name spec, ae_target_id = None,
              ae_outcome = ''success'',
              ae_metadata = JObj [(''limit'', JNum (int lim)), (''offset'', JNum (int off)),
                (''row_count'', JNum (int (length rows)))] \<rparr>
            (enveloped rid pr (rows_page (ts_name spec) lim off rows))))))"

text \<open>The key of a row in the path: one identifier, or two with a colon between them (a third piece
  is not looked at).\<close>

definition parse_row_key :: "libs \<Rightarrow> table_primary_key \<Rightarrow> string \<Rightarrow> api_error + uuid list" where
  "parse_row_key L pk i =
     (case pk of
        SingleKey _ \<Rightarrow>
          (case lib_parse_uuid L i of
             None \<Rightarrow> Inl (bad_request ''Invalid row identifier'') | Some u \<Rightarrow> Inr [u])
      | CompositeKey _ _ \<Rightarrow>
          (case map (lib_parse_uuid L) (split_on CHR '':'' i) of
             Some a # Some b # _ \<Rightarrow> Inr [a, b]
           | _ \<Rightarrow> Inl (bad_request ''Invalid composite row identifier'')))"

record get_row_response =
  grr_table :: string
  grr_row :: table_row

definition get_table_row ::
  "libs \<Rightarrow> admin_principal \<Rightarrow> request \<Rightarrow> string \<Rightarrow> string \<Rightarrow> get_row_response admin_envelope api" where
  "get_table_row L pr rq table i =
     bindE (request_id_from_headers rq) (\<lambda>rid.
     let audit = (\<lambda>name outcome. write_admin_audit pr rid (user_agent_from_headers rq)
           \<lparr> ae_action = ''get_row'', ae_target_table = name, ae_target_id = Some i,
             ae_outcome = outcome, ae_metadata = JObj [] \<rparr>) in
     case find_table_spec table of
       None \<Rightarrow> audit table ''rejected_invalid_table'' (throwErr (bad_request ''Table is not allowed''))
     | Some spec \<Rightarrow>
         bindE (from_sum (parse_row_key L (ts_pk spec) i)) (\<lambda>key.
         callE (db_read (\<lambda>d. find (\<lambda>r. row_key r = key) (table_contents (ts_name spec) d))) (\<lambda>row.
           case row of
             None \<Rightarrow> audit (ts_name spec) ''not_found'' (throwErr (not_found ''Row not found''))
           | Some r \<Rightarrow> audit (ts_name spec) ''success''
               (enveloped rid pr \<lparr> grr_table = ts_name spec, grr_row = r \<rparr>))))"

section \<open>Hard deletions\<close>

text \<open>\<^verbatim>\<open>DELETE FROM {} WHERE {} = $1\<close> for the tables it is used with.\<close>

definition delete_record :: "string \<Rightarrow> uuid \<Rightarrow> database \<Rightarrow> database" where
  "delete_record table i d =
     (if table = ''download_jobs'' then d\<lparr>db_download_jobs := delete_where (\<lambda>j. dj_id j = i) (db_download_jobs d)\<rparr>
      else if table = ''send_tickets'' then d\<lparr>db_send_tickets := delete_where (\<lambda>t. st_ticket_id t = i) (db_send_tickets d)\<rparr>
      else if table = ''extension_sessions''
      then d\<lparr>db_extension_sessions := delete_where (\<lambda>s. es_jti s = i) (db_extension_sessions d)\<rparr>
      else if table = ''refresh_tokens'' then delete_refresh_tokens (\<lambda>t. rt_id t = i) d
      else d)"

definition delete_record_by_uuid :: "string \<Rightarrow> uuid \<Rightarrow> nat io" where
  "delete_record_by_uuid table i = external (DbError DbConn)
     (\<lambda>w. (Inr (length (filter (\<lambda>r. row_key r = [i]) (table_contents table (db w)))),
           w\<lparr>db := delete_record table i (db w)\<rparr>))"

definition admin_invalidate_user_cache :: "config \<Rightarrow> uuid \<Rightarrow> 'a api \<Rightarrow> 'a api" where
  "admin_invalidate_user_cache cf u k =
     catchE get_conn (\<lambda>_. k) (\<lambda>_.
       ignoreE (kv_del (''user:'' @ u @ '':profile''))
      (ignoreE (kv_del (user_profile_cache_key u (cf_terms_current_version cf)))
      (ignoreE (drop_keys (user_videos_prefix u) :: unit api) k)))"

definition admin_invalidate_feed_cache :: "'a api \<Rightarrow> 'a api" where
  "admin_invalidate_feed_cache k =
     catchE get_conn (\<lambda>_. k) (\<lambda>_. ignoreE (drop_keys ''feed:'' :: unit api) k)"

record hard_delete_response =
  hdr_table :: string
  hdr_id :: string
  hdr_deleted :: bool

definition hard_deleted :: "string \<Rightarrow> uuid \<Rightarrow> hard_delete_response" where
  "hard_deleted table i = \<lparr> hdr_table = table, hdr_id = i, hdr_deleted = True \<rparr>"

text \<open>The objects of the videos are deleted one after the other; the first that fails stops the
  deletion and is noted in the audit log.\<close>

fun delete_objects :: "(failure \<Rightarrow> video \<Rightarrow> unit api) \<Rightarrow> video list \<Rightarrow> unit api" where
  "delete_objects on_error [] = returnOk ()"
| "delete_objects on_error (v # vs) =
     catchE (delete_file (v_s3_bucket v) (v_s3_key v)) (\<lambda>e. on_error e v) (\<lambda>_. delete_objects on_error vs)"

definition hard_delete_user ::
  "app \<Rightarrow> admin_principal \<Rightarrow> request \<Rightarrow> uuid \<Rightarrow> hard_delete_response admin_envelope api" where
  "hard_delete_user ap pr rq u =
     bindE (request_id_from_headers rq) (\<lambda>rid.
     let audit = (\<lambda>outcome metadata. write_admin_audit pr rid (user_agent_from_headers rq)
           \<lparr> ae_action = ''hard_delete_user'', ae_target_table = ''users'', ae_target_id = Some u,
             ae_outcome = outcome, ae_metadata = metadata \<rparr>) in
     callE (find_user u) (\<lambda>row.
     if row = None then write_admin_audit pr rid (user_agent_from_headers rq)
           \<lparr> ae_action = ''hard_delete_user'', ae_target_table = ''users'', ae_target_id = Some u,
             ae_outcome = ''not_found'', ae_metadata = JObj [] \<rparr> (throwErr (not_found ''User not found''))
     else
       callE (db_read (\<lambda>d. filter (\<lambda>v. v_user_id v = u) (db_videos d))) (\<lambda>vs.
       bindE (delete_objects (\<lambda>e v. write_admin_audit pr rid (user_agent_from_headers rq)
                \<lparr> ae_action = ''hard_delete_user'', ae_target_table = ''users'', ae_target_id = Some u,
                  ae_outcome = ''storage_cleanup_failed'',
                  ae_metadata = JObj [(''error'', JStr (lib_failure_text (ap_libs ap) e)), (''video_id'', JStr (v_id v))] \<rparr>
                (throwErr (internal_error ''Failed to remove user media from storage''))) vs) (\<lambda>_.
       bindE (transaction from_failure (callE (exec_delete_user u) returnOk)) (\<lambda>deleted.
       guardE (deleted \<noteq> 0) (not_found ''User not found'')
      (admin_invalidate_user_cache (ap_config ap) u
      (audit ''success'' (JObj [(''deleted_video_objects'', JNum (int (length vs)))])
      (enveloped rid pr (hard_deleted ''users'' u)))))))))"

definition hard_delete_video ::
  "app \<Rightarrow> admin_principal \<Rightarrow> request \<Rightarrow> uuid \<Rightarrow> hard_delete_response admin_envelope api" where
  "hard_delete_video ap pr rq i =
     bindE (request_id_from_headers rq) (\<lambda>rid.
     callE (find_video i) (\<lambda>row.
     okOrE (not_found ''Video not found'') row (\<lambda>v.
     bindE (delete_objects (\<lambda>e v. write_admin_audit pr rid (user_agent_from_headers rq)
                \<lparr> ae_action = ''hard_delete_video'', ae_target_table = ''videos'', ae_target_id = Some i,
                  ae_outcome = ''storage_cleanup_failed'',
                  ae_metadata = JObj [(''error'', JStr (lib_failure_text (ap_libs ap) e))] \<rparr>
                (throwErr (internal_error ''Failed to remove video object from storage''))) [v]) (\<lambda>_.
     bindE (transaction from_failure (callE (exec_delete_video i) returnOk)) (\<lambda>deleted.
     guardE (deleted \<noteq> 0) (not_found ''Video not found'')
    (admin_invalidate_user_cache (ap_config ap) (v_user_id v)
    (write_admin_audit pr rid (user_agent_from_headers rq)
       \<lparr> ae_action = ''hard_delete_video'', ae_target_table = ''videos'', ae_target_id = Some i,
         ae_outcome = ''success'', ae_metadata = JObj [(''owner_user_id'', JStr (v_user_id v))] \<rparr>
    (enveloped rid pr (hard_deleted ''videos'' i)))))))))"

definition hard_delete_simple ::
  "string \<Rightarrow> string \<Rightarrow> admin_principal \<Rightarrow> request \<Rightarrow> uuid \<Rightarrow> hard_delete_response admin_envelope api" where
  "hard_delete_simple table action pr rq i =
     bindE (request_id_from_headers rq) (\<lambda>rid.
     callE (delete_record_by_uuid table i) (\<lambda>deleted.
     if deleted = 0
     then write_admin_audit pr rid (user_agent_from_headers rq)
            \<lparr> ae_action = action, ae_target_table = table, ae_target_id = Some i,
              ae_outcome = ''not_found'', ae_metadata = JObj [] \<rparr> (throwErr (not_found ''Record not found''))
     else write_admin_audit pr rid (user_agent_from_headers rq)
            \<lparr> ae_action = action, ae_target_table = table, ae_target_id = Some i,
              ae_outcome = ''success'', ae_metadata = JObj [] \<rparr>
            (enveloped rid pr (hard_deleted table i))))"

definition hard_delete_download_job ::
  "admin_principal \<Rightarrow> request \<Rightarrow> uuid \<Rightarrow> hard_delete_response admin_envelope api" where
  "hard_delete_download_job = hard_delete_simple ''download_jobs'' ''hard_delete_download_job''"

definition hard_delete_send_ticket ::
  "admin_principal \<Rightarrow> request \<Rightarrow> uuid \<Rightarrow> hard_delete_response admin_envelope api" where
  "hard_delete_send_ticket = hard_delete_simple ''send_tickets'' ''hard_delete_send_ticket''"

definition hard_delete_extension_session ::
  "admin_principal \<Rightarrow> request \<Rightarrow> uuid \<Rightarrow> hard_delete_response admin_envelope api" where
  "hard_delete_extension_session = hard_delete_simple ''extension_sessions'' ''hard_delete_extension_session''"

definition hard_delete_refresh_token ::
  "admin_principal \<Rightarrow> request \<Rightarrow> uuid \<Rightarrow> hard_delete_response admin_envelope api" where
  "hard_delete_refresh_token = hard_delete_simple ''refresh_tokens'' ''hard_delete_refresh_token''"

section \<open>Bans\<close>

record user_ban_status =
  ubs_user_id :: uuid
  ubs_active :: bool
  ubs_banned_until :: "time option"
  ubs_reason :: "string option"
  ubs_created_at :: "time option"
  ubs_created_by_admin_sub :: "string option"

definition map_user_ban_status :: "uuid \<Rightarrow> user_ban option \<Rightarrow> user_ban_status" where
  "map_user_ban_status u ban =
     (case ban of
        Some b \<Rightarrow> \<lparr> ubs_user_id = u, ubs_active = True, ubs_banned_until = ub_banned_until b,
            ubs_reason = ub_reason b, ubs_created_at = Some (ub_created_at b),
            ubs_created_by_admin_sub = Some (ub_created_by_admin_sub b) \<rparr>
      | None \<Rightarrow> \<lparr> ubs_user_id = u, ubs_active = False, ubs_banned_until = None, ubs_reason = None,
            ubs_created_at = None, ubs_created_by_admin_sub = None \<rparr>)"

record ip_ban_status =
  ibs_target :: string
  ibs_target_kind :: string
  ibs_active :: bool
  ibs_banned_until :: "time option"
  ibs_reason :: "string option"
  ibs_created_at :: "time option"
  ibs_created_by_admin_sub :: "string option"

definition map_ip_ban_status :: "string \<Rightarrow> string \<Rightarrow> ip_ban option \<Rightarrow> ip_ban_status" where
  "map_ip_ban_status target kind ban =
     (case ban of
        Some b \<Rightarrow> \<lparr> ibs_target = target, ibs_target_kind = kind, ibs_active = True,
            ibs_banned_until = ib_banned_until b, ibs_reason = ib_reason b,
            ibs_created_at = Some (ib_created_at b), ibs_created_by_admin_sub = Some (ib_created_by_admin_sub b) \<rparr>
      | None \<Rightarrow> \<lparr> ibs_target = target, ibs_target_kind = kind, ibs_active = False, ibs_banned_until = None,
            ibs_reason = None, ibs_created_at = None, ibs_created_by_admin_sub = None \<rparr>)"

definition audit_as_user_action ::
  "admin_principal \<Rightarrow> request \<Rightarrow> string \<Rightarrow> uuid \<Rightarrow> string \<Rightarrow> json \<Rightarrow> 'a api \<Rightarrow> 'a api" where
  "audit_as_user_action pr rq action u outcome metadata k =
     bindE (request_id_from_headers rq) (\<lambda>rid.
       write_admin_audit pr rid (user_agent_from_headers rq)
         \<lparr> ae_action = action, ae_target_table = ''as_user'', ae_target_id = Some u,
           ae_outcome = outcome, ae_metadata = metadata \<rparr> k)"

definition get_user_ban :: "admin_principal \<Rightarrow> request \<Rightarrow> uuid \<Rightarrow> user_ban_status api" where
  "get_user_ban pr rq u =
     callE (get_active_user_ban u) (\<lambda>active.
       audit_as_user_action pr rq ''get_user_ban'' u ''success'' (JObj [(''active'', JBool (active \<noteq> None))])
         (returnOk (map_user_ban_status u active)))"

record upsert_ban_request =
  ubr_expires_at :: "time option"
  ubr_reason :: "string option"

definition in_the_future :: "time option \<Rightarrow> 'a api \<Rightarrow> 'a api" where
  "in_the_future expires_at k =
     bindE (getsE clock) (\<lambda>now.
       guardE (case expires_at of None \<Rightarrow> True | Some t \<Rightarrow> now < t)
         (bad_request ''expires_at must be in the future'') k)"

definition json_time :: "time option \<Rightarrow> json" where
  "json_time t = (case t of None \<Rightarrow> JNull | Some n \<Rightarrow> JNum n)"

definition admin_upsert_user_ban ::
  "config \<Rightarrow> admin_principal \<Rightarrow> request \<Rightarrow> uuid \<Rightarrow> upsert_ban_request \<Rightarrow> user_ban_status api" where
  "admin_upsert_user_ban cf pr rq u p =
     in_the_future (ubr_expires_at p)
    (callE (upsert_user_ban cf u (ubr_expires_at p) (ubr_reason p) (pr_sub pr)) (\<lambda>ban.
     callE (logout_all u) (\<lambda>_.
     callE (revoke_extension_sessions u) (\<lambda>_.
     audit_as_user_action pr rq ''upsert_user_ban'' u ''success''
       (JObj [(''banned_until'', json_time (ub_banned_until ban))])
       (returnOk (map_user_ban_status u (Some ban)))))))"

definition delete_user_ban :: "admin_principal \<Rightarrow> request \<Rightarrow> uuid \<Rightarrow> user_ban_status api" where
  "delete_user_ban pr rq u =
     callE (lift_user_ban u (pr_sub pr) None) (\<lambda>lifted.
       audit_as_user_action pr rq ''delete_user_ban'' u ''success'' (JObj [(''lifted'', JBool lifted)])
         (returnOk (map_user_ban_status u None)))"

definition with_ip_target :: "libs \<Rightarrow> string \<Rightarrow> (parsed_ip_target \<Rightarrow> 'a api) \<Rightarrow> 'a api" where
  "with_ip_target L raw k = okOrE (bad_request ''invalid ip/cidr target'') (parse_ip_target L raw) k"

definition ip_ban_answer :: "libs \<Rightarrow> parsed_ip_target \<Rightarrow> ip_ban option \<Rightarrow> ip_ban_status" where
  "ip_ban_answer L target = map_ip_ban_status (target_canonical L target) (target_kind target)"

definition get_ip_ban :: "libs \<Rightarrow> string \<Rightarrow> ip_ban_status api" where
  "get_ip_ban L raw =
     with_ip_target L raw (\<lambda>target.
     callE (get_active_ip_ban L target) (\<lambda>active. returnOk (ip_ban_answer L target active)))"

definition admin_upsert_ip_ban ::
  "app \<Rightarrow> admin_principal \<Rightarrow> string \<Rightarrow> upsert_ban_request \<Rightarrow> ip_ban_status api" where
  "admin_upsert_ip_ban ap pr raw p =
     in_the_future (ubr_expires_at p)
    (with_ip_target (ap_libs ap) raw (\<lambda>target.
     callE (upsert_ip_ban ap target (ubr_expires_at p) (ubr_reason p) (pr_sub pr)) (\<lambda>ban.
       returnOk (ip_ban_answer (ap_libs ap) target (Some ban)))))"

definition delete_ip_ban :: "libs \<Rightarrow> admin_principal \<Rightarrow> string \<Rightarrow> ip_ban_status api" where
  "delete_ip_ban L pr raw =
     with_ip_target L raw (\<lambda>target.
     callE (lift_ip_ban L target (pr_sub pr) None) (\<lambda>_. returnOk (ip_ban_answer L target None)))"

section \<open>Investigations\<close>

record investigation_query =
  iq_window_days :: "int option"
  iq_limit :: "nat option"
  iq_cursor :: "nat option"

definition or_default :: "'a \<Rightarrow> 'a option \<Rightarrow> 'a" where
  "or_default d v = (case v of None \<Rightarrow> d | Some x \<Rightarrow> x)"

definition investigate_user_ips :: "uuid \<Rightarrow> investigation_query \<Rightarrow> user_ip_activity investigation_page api" where
  "investigate_user_ips u q =
     callE (recent_ips_for_user u (or_default 30 (iq_window_days q)) (or_default 50 (iq_limit q))
              (or_default 0 (iq_cursor q))) returnOk"

definition investigate_ip_users :: "string \<Rightarrow> investigation_query \<Rightarrow> ip_user_activity investigation_page api" where
  "investigate_ip_users raw q =
     okOrE (bad_request ''invalid ip'') (parse_ip raw) (\<lambda>_.
     callE (recent_users_for_ip raw (or_default 30 (iq_window_days q)) (or_default 50 (iq_limit q))
              (or_default 0 (iq_cursor q))) returnOk)"

section \<open>Reports\<close>

record admin_abuse_report_list_query =
  arq_status :: "string option"
  arq_reason :: "string option"
  arq_severity_min :: "int option"
  arq_video_id :: "uuid option"
  arq_limit :: "nat option"
  arq_cursor :: "nat option"

record admin_abuse_report_item =
  ari_report :: video_report_dto
  ari_reporter_username :: "string option"
  ari_video_title :: "string option"
  ari_video_status :: "string option"
  ari_video_moderation_state :: "string option"
  ari_uploader_user_id :: "uuid option"
  ari_uploader_username :: "string option"

record admin_abuse_report_list_response =
  arl_items :: "admin_abuse_report_item list"
  arl_next_cursor :: "nat option"

definition report_matches :: "admin_abuse_report_list_query \<Rightarrow> abuse_report \<Rightarrow> bool" where
  "report_matches q r \<longleftrightarrow>
     (case arq_status q of None \<Rightarrow> True | Some s \<Rightarrow> ar_status r = s)
   \<and> (case arq_severity_min q of None \<Rightarrow> True | Some n \<Rightarrow> n \<le> ar_severity_score r)
   \<and> (case arq_video_id q of None \<Rightarrow> True | Some i \<Rightarrow> ar_video_id r = i)
   \<and> (case arq_reason q of None \<Rightarrow> True | Some c \<Rightarrow> c \<in> set (ar_reason_codes r))"

definition matching_reports :: "admin_abuse_report_list_query \<Rightarrow> database \<Rightarrow> abuse_report list" where
  "matching_reports q d = order_by_desc ar_created_at (filter (report_matches q) (db_abuse_reports d))"

definition report_item :: "abuse_report \<Rightarrow> user option \<Rightarrow> video option \<Rightarrow> user option \<Rightarrow> admin_abuse_report_item" where
  "report_item r reporter video uploader =
     \<lparr> ari_report = abuse_report_model_to_dto r, ari_reporter_username = map_option u_username reporter,
       ari_video_title = Option.bind video v_title, ari_video_status = map_option v_status video,
       ari_video_moderation_state = map_option v_moderation_state video,
       ari_uploader_user_id = map_option v_user_id video, ari_uploader_username = map_option u_username uploader \<rparr>"

definition users_with :: "uuid list \<Rightarrow> user list api" where
  "users_with is = (if is = [] then returnOk []
     else callE (db_read (\<lambda>d. filter (\<lambda>x. u_id x \<in> set is) (db_users d))) returnOk)"

definition videos_with :: "uuid list \<Rightarrow> video list api" where
  "videos_with is = (if is = [] then returnOk []
     else callE (db_read (\<lambda>d. filter (\<lambda>v. v_id v \<in> set is) (db_videos d))) returnOk)"

definition listed_report :: "user list \<Rightarrow> video list \<Rightarrow> user list \<Rightarrow> abuse_report \<Rightarrow> admin_abuse_report_item" where
  "listed_report reporters vs uploaders r =
     (let video = find (\<lambda>v. v_id v = ar_video_id r) vs in
      report_item r (find (\<lambda>x. u_id x = ar_reporter_user_id r) reporters) video
        (Option.bind video (\<lambda>v. find (\<lambda>x. u_id x = v_user_id v) uploaders)))"

definition list_abuse_reports :: "admin_abuse_report_list_query \<Rightarrow> admin_abuse_report_list_response api" where
  "list_abuse_reports q =
     (let lim = clamp_nat 1 200 (or_default 50 (arq_limit q)); cursor = or_default 0 (arq_cursor q) in
      callE (read_page (cursor * (lim + 1)) (\<lambda>d. page_slice (lim + 1) cursor (matching_reports q d))) (\<lambda>fetched.
      let reports = take lim fetched;
          next_cursor = (if lim < length fetched then Some (cursor + 1) else None) in
      bindE (users_with (map ar_reporter_user_id reports)) (\<lambda>reporters.
      bindE (videos_with (map ar_video_id reports)) (\<lambda>vs.
      bindE (users_with (map v_user_id vs)) (\<lambda>uploaders.
        returnOk \<lparr> arl_items = map (listed_report reporters vs uploaders) reports,
                   arl_next_cursor = next_cursor \<rparr>)))))"

definition find_report :: "uuid \<Rightarrow> abuse_report option io" where
  "find_report i = db_read (\<lambda>d. find (\<lambda>r. ar_id r = i) (db_abuse_reports d))"

definition get_abuse_report :: "uuid \<Rightarrow> admin_abuse_report_item api" where
  "get_abuse_report i =
     callE (find_report i) (\<lambda>row.
     okOrE (not_found ''Report not found'') row (\<lambda>r.
     callE (find_user (ar_reporter_user_id r)) (\<lambda>reporter.
     callE (find_video (ar_video_id r)) (\<lambda>video.
     bindE (case video of None \<Rightarrow> returnOk None | Some v \<Rightarrow> callE (find_user (v_user_id v)) returnOk) (\<lambda>uploader.
       returnOk (report_item r reporter video uploader))))))"

record resolve_abuse_report_request =
  rar_resolution_code :: string
  rar_resolution_note :: "string option"
  rar_status :: "string option"

definition parse_resolution_status :: "string option \<Rightarrow> api_error + string" where
  "parse_resolution_status input =
     (let value = or_default ''resolved'' input in
      if value = ''resolved'' \<or> value = ''rejected'' then Inr value
      else Inl (bad_request (''status must be either '' @ [CHR 39] @ ''resolved'' @ [CHR 39] @ '' or '' @ [CHR 39]
        @ ''rejected'' @ [CHR 39])))"

definition closed_report :: "string \<Rightarrow> string \<Rightarrow> resolve_abuse_report_request \<Rightarrow> time \<Rightarrow> abuse_report \<Rightarrow> abuse_report" where
  "closed_report status admin_sub p now r =
     r\<lparr> ar_status := status, ar_closed_at := Some now, ar_closed_by_admin_sub := Some admin_sub,
        ar_resolution_code := Some (rar_resolution_code p), ar_resolution_note := rar_resolution_note p,
        ar_updated_at := now \<rparr>"

definition settle_report ::
  "admin_principal \<Rightarrow> request \<Rightarrow> uuid \<Rightarrow> resolve_abuse_report_request \<Rightarrow> string \<Rightarrow> abuse_report \<Rightarrow> admin_abuse_report_item api" where
  "settle_report pr rq i p status r =
     bindE (getsE clock) (\<lambda>now.
     bindE (if ar_closed_at r \<noteq> None then returnOk r
            else callE (update_report_row (ar_id r) (closed_report status (pr_sub pr) p now)) returnOk) (\<lambda>updated.
     bindE (request_id_from_headers rq) (\<lambda>rid.
     write_admin_audit pr rid (user_agent_from_headers rq)
       \<lparr> ae_action = ''resolve_abuse_report'', ae_target_table = ''abuse_reports'', ae_target_id = Some i,
         ae_outcome = ''success'',
         ae_metadata = JObj [(''status'', JStr status), (''resolution_code'', JStr (rar_resolution_code p))] \<rparr>
    (ignoreE (record_event ''abuse.report_resolved'' (Some (ar_reporter_user_id updated)) (show_ip (pr_client_ip pr))
                None (user_agent_from_headers rq)
                (JObj [(''report_id'', JStr (ar_id updated)), (''video_id'', JStr (ar_video_id updated)),
                       (''status'', JStr (ar_status updated)),
                       (''resolution_code'', json_opt (ar_resolution_code updated))]))
       (get_abuse_report i)))))"

definition resolve_abuse_report ::
  "admin_principal \<Rightarrow> request \<Rightarrow> uuid \<Rightarrow> resolve_abuse_report_request \<Rightarrow> admin_abuse_report_item api" where
  "resolve_abuse_report pr rq i p =
     bindE (from_sum (parse_resolution_status (rar_status p))) (\<lambda>status.
     guardE (trim (rar_resolution_code p) \<noteq> []) (bad_request ''resolution_code must be non-empty'')
    (callE (find_report i) (\<lambda>row. okOrE (not_found ''Report not found'') row (settle_report pr rq i p status))))"

section \<open>Moderation\<close>

record admin_video_moderation_action_request =
  vmr_action :: string
  vmr_reason_code :: "string option"
  vmr_resolution_note :: "string option"
  vmr_source_report_id :: "uuid option"

record admin_video_moderation_action_response =
  vmp_video_id :: uuid
  vmp_moderation_state :: string
  vmp_moderation_reason_code :: "string option"
  vmp_moderation_updated_at :: "time option"
  vmp_moderation_updated_by :: "string option"
  vmp_changed :: bool

definition parse_video_moderation_action :: "string \<Rightarrow> api_error + video_moderation_action" where
  "parse_video_moderation_action action =
     (let a = to_ascii_lowercase (trim action) in
      if a = ''quarantine'' then Inr Quarantine
      else if a = ''remove'' then Inr RemoveVideo
      else if a = ''restore'' then Inr RestoreVideo
      else Inl (bad_request ''action must be one of: quarantine, remove, restore''))"

definition moderation_metadata :: "admin_video_moderation_action_request \<Rightarrow> bool \<Rightarrow> (string \<times> json) list" where
  "moderation_metadata p changed =
     [(''action'', JStr (vmr_action p)), (''reason_code'', json_opt (vmr_reason_code p)),
      (''source_report_id'', json_opt (vmr_source_report_id p)), (''changed'', JBool changed)]"

definition admin_video_moderation_action ::
  "admin_principal \<Rightarrow> request \<Rightarrow> uuid \<Rightarrow> admin_video_moderation_action_request
     \<Rightarrow> admin_video_moderation_action_response api" where
  "admin_video_moderation_action pr rq i p =
     bindE (from_sum (parse_video_moderation_action (vmr_action p))) (\<lambda>action.
     bindE (apply_video_moderation_action i action (vmr_reason_code p) (''admin:'' @ pr_sub pr)
              (vmr_source_report_id p)) (\<lambda>outcome.
     bindE (request_id_from_headers rq) (\<lambda>rid.
     write_admin_audit pr rid (user_agent_from_headers rq)
       \<lparr> ae_action = ''video_moderation_action'', ae_target_table = ''videos'', ae_target_id = Some i,
         ae_outcome = ''success'', ae_metadata = JObj (moderation_metadata p (mo_changed outcome)) \<rparr>
    (ignoreE (record_event ''abuse.video_moderation_action'' (Some (v_user_id (mo_video outcome)))
                (show_ip (pr_client_ip pr)) None (user_agent_from_headers rq)
                (JObj ((''video_id'', JStr i) # moderation_metadata p (mo_changed outcome))))
       (let v = mo_video outcome in
        returnOk \<lparr> vmp_video_id = v_id v, vmp_moderation_state = v_moderation_state v,
          vmp_moderation_reason_code = v_moderation_reason_code v,
          vmp_moderation_updated_at = v_moderation_updated_at v,
          vmp_moderation_updated_by = v_moderation_updated_by v, vmp_changed = mo_changed outcome \<rparr>)))))"

section \<open>Terms and modes\<close>

definition admin_get_terms :: "config \<Rightarrow> terms_bundle_response api" where
  "admin_get_terms = terms_bundle"

definition admin_get_read_only_status :: "config \<Rightarrow> bool api" where
  "admin_get_read_only_status cf = returnOk (cf_read_only_mode_enabled cf)"

definition admin_get_maintenance_status :: "config \<Rightarrow> bool api" where
  "admin_get_maintenance_status cf = returnOk (cf_maintenance_mode_enabled cf)"

section \<open>What the audit log gets\<close>

lemma request_id_run:
  obtains rid n where "request_id_from_headers rq w = (Inr rid, w\<lparr>drawn := drawn w + n\<rparr>)"
proof -
  have "\<exists>rid n. request_id_from_headers rq w = (Inr rid, w\<lparr>drawn := drawn w + n\<rparr>)"
  proof (cases "\<exists>s. map_of (rq_headers rq) ''x-request-id'' = Some (Some s) \<and> trim s \<noteq> []")
    case True
    then obtain s where "map_of (rq_headers rq) ''x-request-id'' = Some (Some s)" and "trim s \<noteq> []" by blast
    then have "request_id_from_headers rq w = (Inr (trim s), w\<lparr>drawn := drawn w + 0\<rparr>)"
      by (simp add: request_id_from_headers_def returnOk_def)
    then show ?thesis by blast
  next
    case False
    then have "request_id_from_headers rq w = (new_v4 :: string api) w"
      by (auto simp: request_id_from_headers_def split: option.splits)
    then have "request_id_from_headers rq w = (Inr (uuid_src w (drawn w)), w\<lparr>drawn := drawn w + Suc 0\<rparr>)"
      by (simp add: new_v4_def)
    then show ?thesis by blast
  qed
  then show thesis using that by blast
qed

definition fresh_audit_ids :: "world \<Rightarrow> bool" where
  "fresh_audit_ids w \<longleftrightarrow> (\<forall>n \<ge> drawn w. \<forall>l \<in> set (db_admin_audit_logs (db w)). al_id l \<noteq> uuid_src w n)"

lemma write_admin_audit_run:
  assumes "faults w = []" and "fresh_audit_ids w"
  obtains w1 where "write_admin_audit pr rid ua e k w = k w1" "faults w1 = []"
    "w1 = w\<lparr>drawn := Suc (drawn w), db := (db w)\<lparr>db_admin_audit_logs := db_admin_audit_logs (db w)
        @ [audit_row pr rid ua e (uuid_src w (drawn w)) (clock w)]\<rparr>\<rparr>"
proof -
  have "\<not> list_ex (\<lambda>r. al_id r = uuid_src w (drawn w)) (db_admin_audit_logs (db w))"
    using assms(2) by (auto simp: fresh_audit_ids_def list_ex_iff)
  then show thesis using assms(1) that
    by (simp add: write_admin_audit_def bindE_def new_v4_def getsE_def ignoreE_def db_write_def
        insert_admin_audit_log_def audit_row_def)
qed

lemma audit_as_user_action_run:
  assumes "faults w = []" and "fresh_audit_ids w"
  obtains w1 l where "audit_as_user_action pr rq action u outcome md k w = k w1" "faults w1 = []"
    "db w1 = (db w)\<lparr>db_admin_audit_logs := db_admin_audit_logs (db w) @ [l]\<rparr>"
    "al_actor_sub l = pr_sub pr" "al_action l = action" "al_target_id l = Some u" "al_outcome l = outcome"
proof -
  obtain rid n where r: "(request_id_from_headers rq :: string api) w = (Inr rid, w\<lparr>drawn := drawn w + n\<rparr>)"
    by (rule request_id_run)
  have f: "faults (w\<lparr>drawn := drawn w + n\<rparr>) = []" "fresh_audit_ids (w\<lparr>drawn := drawn w + n\<rparr>)"
    using assms by (auto simp: fresh_audit_ids_def)
  let ?e = "\<lparr> ae_action = action, ae_target_table = ''as_user'', ae_target_id = Some u,
           ae_outcome = outcome, ae_metadata = md \<rparr>"
  let ?v = "w\<lparr>drawn := drawn w + n\<rparr>"
  let ?l = "audit_row pr rid (user_agent_from_headers rq) ?e (uuid_src ?v (drawn ?v)) (clock ?v)"
  obtain w1 where "write_admin_audit pr rid (user_agent_from_headers rq) ?e k ?v = k w1" and "faults w1 = []"
    and "w1 = ?v\<lparr>drawn := Suc (drawn ?v), db := (db ?v)\<lparr>db_admin_audit_logs := db_admin_audit_logs (db ?v) @ [?l]\<rparr>\<rparr>"
    by (rule write_admin_audit_run [OF f])
  then show thesis
    by (intro that [of w1 ?l]) (simp_all add: audit_as_user_action_def bindE_def r audit_row_def)
qed

section \<open>The pages of a table\<close>

lemma rows_page_simps:
  "lrr_rows (rows_page name lim off rows) = rows"
  "lrr_next_cursor (rows_page name lim off rows) = (if length rows = lim then Some (show_nat (off + lim)) else None)"
  by (simp_all add: rows_page_def)

text \<open>The tables the audit log is not one of are not touched by a listing.\<close>

lemma ordered_rows_audit:
  "t \<noteq> ''admin_audit_logs'' \<Longrightarrow> ordered_rows t (d\<lparr>db_admin_audit_logs := ls\<rparr>) = ordered_rows t d"
  by (simp add: ordered_rows_def table_contents_def)

lemma find_table_spec_Some: "find_table_spec t = Some s \<Longrightarrow> ts_name s = t"
  by (auto simp: find_table_spec_def dest: find_Some_set)

lemma list_table_rows_run:
  assumes "faults w = []" and "fresh_audit_ids w" and "find_table_spec t \<noteq> None"
    and "parse_cursor q = Inr off" and "off < 2 ^ 63" and "inj (uuid_src w)"
  obtains e w1 where "list_table_rows pr rq t q w = (Inr e, w1)"
    "env_data e = rows_page t (rows_limit q) off (take (rows_limit q) (drop off (ordered_rows t (db w))))"
    "faults w1 = []" "\<exists>ls. db w1 = (db w)\<lparr>db_admin_audit_logs := ls\<rparr>" "fresh_audit_ids w1"
    "uuid_src w1 = uuid_src w"
proof -
  let ?lim = "rows_limit q" and ?rows = "take (rows_limit q) (drop off (ordered_rows t (db w)))"
  obtain s where s: "find_table_spec t = Some s" using assms(3) by blast
  have n: "ts_name s = t" by (rule find_table_spec_Some [OF s])
  obtain rid n where r: "(request_id_from_headers rq :: string api) w = (Inr rid, w\<lparr>drawn := drawn w + n\<rparr>)"
    by (rule request_id_run)
  let ?v = "w\<lparr>drawn := drawn w + n\<rparr>"
  have f: "faults ?v = []" "fresh_audit_ids ?v" using assms(1,2) by (auto simp: fresh_audit_ids_def)
  let ?e = "\<lparr> ae_action = ''list_rows'', ae_target_table = t, ae_target_id = None, ae_outcome = ''success'',
      ae_metadata = JObj [(''limit'', JNum (int ?lim)), (''offset'', JNum (int off)),
        (''row_count'', JNum (int (length ?rows)))] \<rparr>"
  let ?k = "enveloped rid pr (rows_page t ?lim off ?rows)"
  obtain w1 where k: "write_admin_audit pr rid (user_agent_from_headers rq) ?e ?k ?v = ?k w1" and "faults w1 = []"
    and w1: "w1 = ?v\<lparr>drawn := Suc (drawn ?v), db := (db ?v)\<lparr>db_admin_audit_logs := db_admin_audit_logs (db ?v) @
        [audit_row pr rid (user_agent_from_headers rq) ?e (uuid_src ?v (drawn ?v)) (clock ?v)]\<rparr>\<rparr>"
    by (rule write_admin_audit_run [OF f])
  have c: "(callE (read_page off (\<lambda>d. take ?lim (drop off (ordered_rows t d)))) g :: _ api) ?v = g ?rows ?v" for g
    using assms(1,5) by (simp add: callE_def bindErr_def read_page_def db_read_def)
  have e: "?k w1 = (Inr \<lparr> env_metadata = response_meta rid pr (clock w1), env_data = rows_page t ?lim off ?rows \<rparr>, w1)"
    by (simp add: enveloped_def bindE_def getsE_def returnOk_def)
  have "list_table_rows pr rq t q w
      = (Inr \<lparr> env_metadata = response_meta rid pr (clock w1), env_data = rows_page t ?lim off ?rows \<rparr>, w1)"
    unfolding e [symmetric] k [symmetric]
    by (simp add: list_table_rows_def bindE_def [of "request_id_from_headers _"] r s n assms(4) from_sum_def c Let_def
        del: length_take length_drop)
  note run = this
  have d: "\<exists>ls. db w1 = (db w)\<lparr>db_admin_audit_logs := ls\<rparr>" "uuid_src w1 = uuid_src w"
    by (auto simp: w1)
  have fr: "fresh_audit_ids w1"
    using f(2) by (auto simp: w1 fresh_audit_ids_def audit_row_def inj_eq [OF assms(6)])
  show thesis by (rule that [OF run _ \<open>faults w1 = []\<close> d(1) fr d(2)]) simp_all
qed

text \<open>Reading a table page after page, as a client does who follows \<^verbatim>\<open>next_cursor\<close>.\<close>

fun walk_table ::
  "nat \<Rightarrow> admin_principal \<Rightarrow> request \<Rightarrow> string \<Rightarrow> nat option \<Rightarrow> string option \<Rightarrow> table_row list api" where
  "walk_table 0 pr rq t l c = returnOk []"
| "walk_table (Suc n) pr rq t l c =
     bindE (list_table_rows pr rq t \<lparr> lrq_limit = l, lrq_cursor = c \<rparr>) (\<lambda>e.
     bindE (case lrr_next_cursor (env_data e) of
              None \<Rightarrow> returnOk [] | Some c \<Rightarrow> walk_table n pr rq t l (Some c)) (\<lambda>rest.
       returnOk (lrr_rows (env_data e) @ rest)))"

lemma parse_cursor_show:
  "n < 2 ^ 64 \<Longrightarrow> parse_cursor \<lparr> lrq_limit = l, lrq_cursor = Some (show_nat n) \<rparr> = Inr n"
  by (simp add: parse_cursor_def parse_u64_def)

lemma rows_limit_bounds: "0 < rows_limit q" "rows_limit q \<le> 200"
  by (simp_all add: rows_limit_def clamp_nat_def)

lemma rows_limit_cursor: "rows_limit \<lparr> lrq_limit = l, lrq_cursor = c \<rparr> = rows_limit \<lparr> lrq_limit = l, lrq_cursor = c' \<rparr>"
  by (simp add: rows_limit_def)

lemma walk_table_run:
  fixes l :: "nat option"
  defines "lim \<equiv> rows_limit \<lparr> lrq_limit = l, lrq_cursor = None \<rparr>"
  assumes "find_table_spec t \<noteq> None" and "t \<noteq> ''admin_audit_logs''" and "length (ordered_rows t (db w)) < 2 ^ 62"
    and "faults w = []" and "inj (uuid_src w)" and "fresh_audit_ids w"
    and "parse_cursor \<lparr> lrq_limit = l, lrq_cursor = c \<rparr> = Inr off" and "off \<le> length (ordered_rows t (db w))"
    and "length (ordered_rows t (db w)) < off + n * lim"
  shows "result (walk_table n pr rq t l c w) = Inr (drop off (ordered_rows t (db w)))"
  using assms(4-)
proof (induction n arbitrary: w c off)
  case 0
  then show ?case by simp
next
  case (Suc n)
  let ?q = "\<lparr> lrq_limit = l, lrq_cursor = c \<rparr>" and ?R = "ordered_rows t (db w)"
  let ?page = "take lim (drop off ?R)"
  have lim: "rows_limit ?q = lim" "0 < lim" "lim \<le> 200"
    using rows_limit_bounds [of ?q] rows_limit_cursor [of l c None] by (simp_all add: lim_def)
  have off: "off < 2 ^ 63" using Suc.prems by simp
  obtain e w1 where e: "list_table_rows pr rq t ?q w = (Inr e, w1)"
    and page: "env_data e = rows_page t (rows_limit ?q) off (take (rows_limit ?q) (drop off ?R))"
    and f: "faults w1 = []" and d: "\<exists>ls. db w1 = (db w)\<lparr>db_admin_audit_logs := ls\<rparr>"
    and fr: "fresh_audit_ids w1" and u: "uuid_src w1 = uuid_src w"
    by (rule list_table_rows_run [where pr = pr and rq = rq, OF Suc.prems(2,4) assms(2) Suc.prems(5) off Suc.prems(3)])
  have R: "ordered_rows t (db w1) = ?R" using d ordered_rows_audit [OF assms(3)] by auto
  show ?case
  proof (cases "length ?page = lim")
    case True
    then have "off + lim \<le> length ?R" using lim(2) by (auto simp: min_def split: if_splits)
    then have "parse_cursor \<lparr> lrq_limit = l, lrq_cursor = Some (show_nat (off + lim)) \<rparr> = Inr (off + lim)"
      and "length ?R < off + lim + n * lim"
      using Suc.prems by (auto intro!: parse_cursor_show simp del: length_take)
    then have "result (walk_table n pr rq t l (Some (show_nat (off + lim))) w1) = Inr (drop (off + lim) ?R)"
      using Suc.IH [of w1 "Some (show_nat (off + lim))" "off + lim"] Suc.prems f fr u
        \<open>off + lim \<le> length ?R\<close> by (simp add: R)
    moreover have "?page @ drop (off + lim) ?R = drop off ?R"
      by (metis add.commute append_take_drop_id drop_drop)
    ultimately show ?thesis
      using True by (auto simp: bindE_def e page rows_page_simps lim returnOk_def
          split: prod.splits sum.splits simp del: length_take)
  next
    case False
    then have "?page = drop off ?R" by simp
    then show ?thesis
      using False by (simp add: bindE_def e page rows_page_simps lim returnOk_def del: length_take)
  qed
qed

text \<open>C31: a client that follows \<^verbatim>\<open>next_cursor\<close> of a listing (not of the audit log itself) reads every row
  of the table exactly once, in the order of the listing, and gets to its end: the pages of any size
  (the limit is clamped to 1 .. 200) put together are the ordered table, although each request adds an
  entry to the audit log.\<close>

theorem table_pages_are_the_table:
  assumes "find_table_spec t \<noteq> None" and "t \<noteq> ''admin_audit_logs''" and "length (ordered_rows t (db w)) < 2 ^ 62"
    and "faults w = []" and "inj (uuid_src w)" and "fresh_audit_ids w"
    and "length (ordered_rows t (db w)) < n * rows_limit \<lparr> lrq_limit = l, lrq_cursor = None \<rparr>"
  shows "result (walk_table n pr rq t l None w) = Inr (ordered_rows t (db w))"
  using walk_table_run [OF assms(1-6), of l None 0 n] assms(7) by (simp add: parse_cursor_def)

section \<open>What an administrator removes is gone\<close>

text \<open>What a request leaves behind in the tables and in storage, the audit log aside.\<close>

definition durable :: "world \<Rightarrow> database \<times> (string \<times> string \<Rightarrow> stored_object option)" where
  "durable w = ((db w)\<lparr>db_admin_audit_logs := []\<rparr>, objects w)"

lemma erased_unaudited: "erased u (d\<lparr>db_admin_audit_logs := ls\<rparr>) = erased u d"
  by (simp add: erased_def)

lemma fk_ok_unaudited: "fk_ok (d\<lparr>db_admin_audit_logs := ls\<rparr>) = fk_ok d"
  by (simp add: fk_ok_def user_exists_def video_exists_def source_report_ok_def split: option.split)

lemma durableD:
  assumes "durable w = durable w'"
  shows "erased u (db w) = erased u (db w')" and "fk_ok (db w) = fk_ok (db w')"
    and "db_videos (db w) = db_videos (db w')" and "objects w = objects w'"
proof -
  have d: "(db w)\<lparr>db_admin_audit_logs := []\<rparr> = (db w')\<lparr>db_admin_audit_logs := []\<rparr>" and "objects w = objects w'"
    using assms by (simp_all add: durable_def)
  then show "erased u (db w) = erased u (db w')" "fk_ok (db w) = fk_ok (db w')" "objects w = objects w'"
    by (metis erased_unaudited, metis fk_ok_unaudited, simp)
  have "db_videos ((db w)\<lparr>db_admin_audit_logs := []\<rparr>) = db_videos ((db w')\<lparr>db_admin_audit_logs := []\<rparr>)"
    by (simp only: d)
  then show "db_videos (db w) = db_videos (db w')" by simp
qed

lemma durable_fold_kv_drop: "durable (fold kv_drop ks w) = durable w"
  by (induction ks arbitrary: w) (simp_all add: durable_def)

lemma keeps_durable_calls [keeps_rules]:
  "keeps durable get_conn" "keeps durable (kv_del k)" "keeps durable (kv_keys p)" "keeps durable (kv_del_all ks)"
  "keeps durable (db_read f)" "keeps durable (db_write (insert_admin_audit_log l))"
  unfolding kv_defs db_read_def db_write_def
  by (rule keeps_external;
      auto simp: durable_fold_kv_drop insert_admin_audit_log_def durable_def split: sum.splits)+

lemma keeps_durable_new_v4 [keeps_rules]: "keeps durable new_v4"
  by (simp add: keeps_def new_v4_def durable_def)

lemma keeps_durable_parts [keeps_rules]:
  "keeps durable (request_id_from_headers rq)" "keeps durable (enveloped rid pr x)"
  "keeps durable k \<Longrightarrow> keeps durable (write_admin_audit pr rid ua e k)"
  "keeps durable k \<Longrightarrow> keeps durable (admin_invalidate_user_cache cf u k)"
  unfolding request_id_from_headers_def enveloped_def write_admin_audit_def admin_invalidate_user_cache_def
    drop_keys_def callE_def
  by (intro keeps_rules; assumption?)+

lemma delete_objects_done:
  assumes "delete_objects on_error vs w = (Inr x, w')" and "\<forall>e v w x w'. on_error e v w \<noteq> (Inr x, w')"
  shows "db w' = db w \<and> (\<forall>k. objects w' k = (if k \<in> (\<lambda>v. (v_s3_bucket v, v_s3_key v)) ` set vs then None else objects w k))"
  using assms(1)
proof (induction vs arbitrary: w)
  case Nil
  then show ?case by (simp add: returnOk_def)
next
  case (Cons v vs)
  obtain r w1 where d: "delete_file (v_s3_bucket v) (v_s3_key v) w = (r, w1)" by fastforce
  have "r \<noteq> Inl e" for e using Cons.prems assms(2) d by (auto simp: catchE_def)
  then have r: "r = Inr ()" by (cases r) auto
  obtain fs where "w1 = w\<lparr>faults := fs, objects := (objects w)((v_s3_bucket v, v_s3_key v) := None)\<rparr>"
    using d unfolding r delete_file_def by (elim external_InrE) auto
  moreover have "delete_objects on_error vs w1 = (Inr x, w')" using Cons.prems d r by (simp add: catchE_def)
  ultimately show ?case using Cons.IH [of w1] by auto
qed

lemma write_admin_audit_throws: "write_admin_audit pr rid ua e (throwErr err) w \<noteq> (Inr x, w')"
  by (auto simp: write_admin_audit_def bindE_def new_v4_def getsE_def ignoreE_def throwErr_def split: prod.splits)

lemma exec_delete_user_InrE:
  assumes "exec_delete_user u w = (Inr n, w')"
  obtains "db w' = delete_user u (db w)" "objects w' = objects w"
  using assms unfolding exec_delete_user_def by (elim external_InrE) auto

lemma if_rejected_InrE:
  "(if b then write_admin_audit pr rid ua e (throwErr err) else m) w = (Inr x, w')
    \<Longrightarrow> (\<not> b \<Longrightarrow> m w = (Inr x, w') \<Longrightarrow> R) \<Longrightarrow> R"
  by (cases b) (simp_all add: write_admin_audit_throws)


definition tidy :: world where
  "tidy = world1\<lparr> objects := (\<lambda>k. Some \<lparr> so_size = 10, so_head = [] \<rparr>) \<rparr>"

definition admin_request :: request where
  "admin_request = \<lparr> rq_method = ''DELETE'', rq_path = ''/admin'', rq_headers = [], rq_bearer = None,
     rq_connect_ip = None \<rparr>"

definition principal0 :: admin_principal where
  "principal0 = \<lparr> pr_sub = ''ops'', pr_jti = ''j1'', pr_exp = 0, pr_client_ip = V4 1 \<rparr>"

lemma request_id_sample: "request_id_from_headers admin_request w = (Inr (uuid_src w (drawn w)), w\<lparr>drawn := Suc (drawn w)\<rparr>)"
  by (simp add: request_id_from_headers_def admin_request_def new_v4_def)

lemma tidy_simps:
  "faults tidy = []" "db tidy = empty_db\<lparr> db_users := [user0], db_videos := [video0] \<rparr>"
  "v_user_id video0 = ''u1''" "u_id user0 = ''u1''"
  by (simp_all add: tidy_def world1_def world0_def user0_def video0_def)

text \<open>Neither the audit log nor the caches can change an answer.\<close>

lemma ignoreE_then: "\<exists>w1. ignoreE m k w = k w1"
  by (auto simp: ignoreE_def split: prod.split)

lemma write_admin_audit_then: "\<exists>w1. write_admin_audit pr rid ua e k w = k w1"
  using ignoreE_then by (auto simp: write_admin_audit_def bindE_def new_v4_def getsE_def)

lemma admin_invalidate_user_cache_then: "\<exists>w1. admin_invalidate_user_cache cf u k w = k w1"
proof -
  obtain r w1 where "(get_conn :: unit io) w = (r, w1)" by fastforce
  then show ?thesis
    by (cases r) (auto simp: admin_invalidate_user_cache_def catchE_def ignoreE_def split: prod.split)
qed

lemma enveloped_run:
  "enveloped rid pr x w = (Inr \<lparr> env_metadata = response_meta rid pr (clock w), env_data = x \<rparr>, w)"
  by (simp add: enveloped_def bindE_def getsE_def returnOk_def)

lemma audited_answer:
  "\<exists>e w'. admin_invalidate_user_cache cf u (write_admin_audit pr rid ua en (enveloped rid pr x)) w = (Inr e, w')"
  using admin_invalidate_user_cache_then [of cf u "write_admin_audit pr rid ua en (enveloped rid pr x)" w]
    write_admin_audit_then [of pr rid ua en "enveloped rid pr x"] by (auto simp: enveloped_run) metis

lemma hard_delete_sample:
  "\<exists>e w'. hard_delete_user auth_app principal0 admin_request ''u1'' tidy = (Inr e, w')"
  using audited_answer by (simp add: hard_delete_user_def request_id_sample tidy_simps find_user_def exec_delete_user_def action_defs
      callE_def delete_file_def db_read_def transaction_def begin_txn_def commit_def)


lemma table_pages_are_the_table_witness:
  "result (walk_table 2 principal0 admin_request ''users'' (Some 1) None tidy) = Inr [UserRow user0]"
proof -
  have r: "ordered_rows ''users'' (db tidy) = [UserRow user0]"
    by (simp add: ordered_rows_def table_contents_def tidy_simps order_by_desc_def)
  have s: "find_table_spec ''users'' \<noteq> None" by (simp add: find_table_spec_def table_specs_def)
  have i: "inj (uuid_src tidy)" by (auto intro!: injI simp: tidy_def)
  have f: "fresh_audit_ids tidy" by (simp add: fresh_audit_ids_def tidy_simps empty_db_def)
  from table_pages_are_the_table [OF s _ _ tidy_simps(1) i f, of 2 "Some 1"] show ?thesis
    by (simp add: r rows_limit_def clamp_nat_def)
qed

end
