(* ===== verification/AdminLaws.thy ===== *)
theory AdminLaws
  imports Admin
begin

text \<open>
  What the administration of \<^verbatim>\<open>api/src/admin/handlers.rs\<close> does to bans and reports.
\<close>

section \<open>Frames\<close>

lemma keeps_admin_audit:
  assumes "\<And>d ls. g (d\<lparr>db_admin_audit_logs := ls\<rparr>) = g d" and "keeps (\<lambda>w. g (db w)) k"
  shows "keeps (\<lambda>w. g (db w)) (write_admin_audit pr rid ua e k)"
  unfolding write_admin_audit_def
  by (rule keeps_bindE [OF keeps_db_part [OF keeps_db_draws(1)]], rule keeps_bindE [OF keeps_getsE],
      rule keeps_ignoreE [OF keeps_db_write assms(2)]) (auto simp: insert_admin_audit_log_def assms(1))

lemma keeps_db_request_id [keeps_rules]: "keeps db (request_id_from_headers rq)"
  unfolding request_id_from_headers_def by (intro keeps_rules)

lemma keeps_as_user_audit:
  assumes "\<And>d ls. g (d\<lparr>db_admin_audit_logs := ls\<rparr>) = g d" and "keeps (\<lambda>w. g (db w)) k"
  shows "keeps (\<lambda>w. g (db w)) (audit_as_user_action pr rq a u out md k)"
  unfolding audit_as_user_action_def
  by (intro keeps_bindE keeps_db_part [OF keeps_db_request_id] keeps_admin_audit assms)

section \<open>Reports\<close>

text \<open>A report that is closed stays as it is, whatever is sent for it, and so do all others.\<close>

abbreviation "reports_kept Q w \<equiv> Q \<subseteq> set (db_abuse_reports (db w))"

lemma keeps_reports_tail:
  "keeps (\<lambda>w. db_abuse_reports (db w)) (get_abuse_report i)"
  "keeps (\<lambda>w. db_abuse_reports (db w)) (record_event t u ip r a m)"
  "keeps (\<lambda>w. db_abuse_reports (db w)) (request_id_from_headers rq)"
  unfolding get_abuse_report_def find_report_def find_user_def find_video_def callE_def
  by (rule keeps_db_part, intro keeps_rules) (rule record_event_keeps_db, simp, rule keeps_db_part, intro keeps_rules)

lemma preserves_update_report:
  assumes "\<forall>q \<in> Q. ar_id q \<noteq> i"
  shows "preserves (reports_kept Q) (update_report_row i f)"
  unfolding update_report_row_def
  by (rule preserves_external)
    (use assms in \<open>auto simp: preserves_def fault_blind_def update_abuse_report_def check_def set_update_where image_iff
        split: sum.splits option.splits if_splits\<close>)

lemma preserves_reports_tail:
  "preserves (reports_kept Q) (get_abuse_report i)" "preserves (reports_kept Q) (record_event t u ip r a m)"
  "preserves (reports_kept Q) (request_id_from_headers rq)"
  by (rule keeps_preserves [OF keeps_reports_tail(1)], rule keeps_preserves [OF keeps_reports_tail(2)],
      rule keeps_preserves [OF keeps_reports_tail(3)])

lemma preserves_reports_audit:
  "preserves (reports_kept Q) k \<Longrightarrow> preserves (reports_kept Q) (write_admin_audit pr rid ua e k)"
  unfolding write_admin_audit_def
  by (rule preserves_bindE [OF keeps_preserves [OF keeps_db_part [OF keeps_db_draws(1)]]],
      rule preserves_bindE [OF preserves_getsE], rule preserves_ignoreE [OF keeps_preserves [OF keeps_db_write]])
    (auto simp: insert_admin_audit_log_def)

lemma preserves_settle:
  assumes "ar_closed_at r = None \<Longrightarrow> \<forall>q \<in> Q. ar_id q \<noteq> ar_id r"
  shows "preserves (reports_kept Q) (settle_report pr rq i p status r)"
proof -
  have step: "preserves (reports_kept Q) (if ar_closed_at r \<noteq> None then returnOk r
      else callE (update_report_row (ar_id r) f) returnOk)" for f
    unfolding callE_def using assms
    by (cases "ar_closed_at r = None") (auto intro!: preserves_rules preserves_update_report)
  show ?thesis
    unfolding settle_report_def
    by (intro preserves_bindE preserves_getsE preserves_ignoreE step preserves_reports_tail preserves_reports_audit)
qed

lemma find_report_run:
  assumes "find_report i w = (r, w1)"
  shows "db w1 = db w" and "r = Inr row \<Longrightarrow> row = find (\<lambda>q. ar_id q = i) (db_abuse_reports (db w))"
proof -
  show "db w1 = db w" using keepsE [OF keeps_db_calls(12) assms [unfolded find_report_def]] .
  show "row = find (\<lambda>q. ar_id q = i) (db_abuse_reports (db w))" if "r = Inr row"
    using assms [unfolded that find_report_def] by (elim db_read_InrE) simp
qed

lemma settle_closes:
  assumes "isOk (settle_report pr rq i p status r w)" and "r \<in> set (db_abuse_reports (db w))" and "ar_id r = i"
  shows "\<exists>q \<in> set (db_abuse_reports (db (final (settle_report pr rq i p status r w)))). ar_id q = i \<and> ar_closed_at q \<noteq> None"
proof -
  obtain x w' where run: "settle_report pr rq i p status r w = (Inr x, w')"
    using assms(1) by (cases "settle_report pr rq i p status r w") (auto simp: isOk_def split: sum.splits)
  let ?g = "\<lambda>w. db_abuse_reports (db w)"
  obtain now updated w1 rid w2 tl where u: "(if ar_closed_at r \<noteq> None then returnOk r
      else callE (update_report_row (ar_id r) (closed_report status (pr_sub pr) p now)) returnOk) w = (Inr updated :: api_error + _, w1)"
    and rid: "request_id_from_headers rq w1 = (Inr rid :: api_error + _, w2)"
    and tl: "tl w2 = (Inr x, w')" and k: "keeps ?g (tl :: admin_abuse_report_item api)"
    using run unfolding settle_report_def
    by (elim bindE_InrE) (simp only: getsE_def prod.inject sum.inject, elim conjE, hypsubst, rule that, assumption, assumption, assumption,
        intro keeps_ignoreE keeps_reports_tail keeps_admin_audit, simp)
  have "?g w' = ?g w1" using keepsE [OF k tl] keepsE [OF keeps_reports_tail(3) rid] by simp
  moreover have "\<exists>q \<in> set (?g w1). ar_id q = i \<and> ar_closed_at q \<noteq> None"
  proof (cases "ar_closed_at r")
    case None
    then have "(update_report_row (ar_id r) (closed_report status (pr_sub pr) p now)) w = (Inr updated, w1)"
      using u by (auto simp: callE_def bindErr_def returnOk_def split: prod.splits sum.splits)
    then obtain fs where "?g w1 = update_where (\<lambda>q. ar_id q = ar_id r) (closed_report status (pr_sub pr) p now) (?g w)"
      unfolding update_report_row_def
      by (elim external_InrE) (auto simp: update_abuse_report_def split: sum.splits option.splits)
    then show ?thesis using assms(2,3)
      by (intro bexI [of _ "closed_report status (pr_sub pr) p now r"])
        (auto simp: set_update_where image_iff closed_report_def intro!: bexI [of _ r])
  next
    case (Some t)
    then show ?thesis using u assms(2,3) by (auto simp: returnOk_def)
  qed
  ultimately show ?thesis by (simp add: run)
qed

text \<open>C32: the resolution of a report changes that report only, and only while it is open: a report
  that is closed already, like every other, is after the request what it was before, whatever the
  answer. When the answer is success the report is closed.\<close>

theorem resolution_closes_once:
  assumes "distinct (map ar_id (db_abuse_reports (db w)))"
  shows "(\<forall>q \<in> set (db_abuse_reports (db w)). ar_closed_at q \<noteq> None \<or> ar_id q \<noteq> i
             \<longrightarrow> q \<in> set (db_abuse_reports (db (final (resolve_abuse_report pr rq i p w)))))
    \<and> (isOk (resolve_abuse_report pr rq i p w)
         \<longrightarrow> (\<exists>q \<in> set (db_abuse_reports (db (final (resolve_abuse_report pr rq i p w)))). ar_id q = i \<and> ar_closed_at q \<noteq> None))"
proof -
  let ?R = "db_abuse_reports (db w)" and ?out = "resolve_abuse_report pr rq i p w"
  obtain r1 w1 where f: "find_report i w = (r1, w1)" by fastforce
  note d = find_report_run(1) [OF f]
  show ?thesis
  proof (cases "\<exists>status r. parse_resolution_status (rar_status p) = Inr status
      \<and> trim (rar_resolution_code p) \<noteq> [] \<and> r1 = Inr (Some r)")
    case False
    then have "db (final ?out) = db w \<and> \<not> isOk ?out"
      using f d by (auto simp: resolve_abuse_report_def from_sum_def callE_def bindErr_def okOrE_def guardE_def
          throwErr_def returnOk_def bindE_def split: sum.splits option.splits)
    then show ?thesis by simp
  next
    case True
    then obtain status r where r1: "r1 = Inr (Some r)" and out: "?out = settle_report pr rq i p status r w1"
      using f by (auto simp: resolve_abuse_report_def from_sum_def callE_def bindErr_def)
    have r: "r \<in> set ?R" "ar_id r = i" using find_Some_set [OF find_report_run(2) [OF f r1, symmetric]] by simp_all
    let ?Q = "{q \<in> set ?R. ar_closed_at q \<noteq> None \<or> ar_id q \<noteq> i}"
    have "\<forall>q \<in> ?Q. ar_id q \<noteq> ar_id r" if "ar_closed_at r = None"
    proof
      fix q assume "q \<in> ?Q"
      then show "ar_id q \<noteq> ar_id r" using same_id_same_row [OF assms, of q r] that r by fastforce
    qed
    then have "reports_kept ?Q (final ?out)"
      unfolding out by (intro preservesD [OF preserves_settle]) (auto simp: d)
    moreover have "\<exists>q \<in> set (db_abuse_reports (db (final ?out))). ar_id q = i \<and> ar_closed_at q \<noteq> None" if "isOk ?out"
      using settle_closes [of pr rq i p status r w1] that r unfolding out d by auto
    ultimately show ?thesis by auto
  qed
qed

section \<open>Bans\<close>

lemma keeps_bans_logout:
  "keeps (\<lambda>w. db_user_bans (db w)) (logout_all u)" "keeps (\<lambda>w. db_user_bans (db w)) (revoke_extension_sessions u)"
  unfolding logout_all_def revoke_extension_sessions_def
  by (rule keeps_db_write, auto simp: delete_refresh_tokens_def)
    (rule keeps_bindE [OF keeps_getsE keeps_db_write], auto)

lemma audit_then: "\<exists>w1. audit_as_user_action pr rq a u out md k w = k w1"
proof -
  obtain rid n where r: "(request_id_from_headers rq :: string api) w = (Inr rid, w\<lparr>drawn := drawn w + n\<rparr>)"
    by (rule request_id_run)
  show ?thesis
    unfolding audit_as_user_action_def bindE_def r by (simp add: write_admin_audit_then)
qed

lemma audit_frames:
  "keeps kv k \<Longrightarrow> keeps kv (audit_as_user_action pr rq a u out md k)"
  "preserves (\<lambda>w. faults w = []) k \<Longrightarrow> preserves (\<lambda>w. faults w = []) (audit_as_user_action pr rq a u out md k)"
proof -
  have d: "keeps kv new_v4" "preserves (\<lambda>w. faults w = []) new_v4"
    by (simp_all add: keeps_def preserves_def new_v4_def)
  show "keeps kv k \<Longrightarrow> keeps kv (audit_as_user_action pr rq a u out md k)"
    unfolding audit_as_user_action_def request_id_from_headers_def write_admin_audit_def
    by (intro keeps_rules d)
  show "preserves (\<lambda>w. faults w = []) k \<Longrightarrow> preserves (\<lambda>w. faults w = []) (audit_as_user_action pr rq a u out md k)"
    unfolding audit_as_user_action_def request_id_from_headers_def write_admin_audit_def
    by (intro preserves_rules d)
qed

text \<open>C19: a ban set by an administrator is enforced from that moment on and ends when it says: at any
  time \<^verbatim>\<open>t\<close> the ban check refuses the user exactly while the ban is in force (for ever when no end was
  given), and the sessions the user had are gone (no refresh token, no open extension session).\<close>

theorem admin_ban_locks_out:
  assumes "faults w = []" and "user_bans_wf (db w)" and "admin_upsert_user_ban cf pr rq u p w = (Inr s, w')"
  shows "logged_out u (db w') \<and> ubs_active s \<and> ubs_banned_until s = ubr_expires_at p
    \<and> result (ensure_user_not_banned cf u (w'\<lparr>clock := t\<rparr>))
        = (if in_force t (ubr_expires_at p) then Inl Banned else Inr ())"
proof -
  let ?audit = "\<lambda>b. audit_as_user_action pr rq ''upsert_user_ban'' u ''success''
      (JObj [(''banned_until'', json_time (ub_banned_until b))]) (returnOk (map_user_ban_status u (Some b)) :: user_ban_status api)"
  obtain ban w1 w2 w3 where b: "upsert_user_ban cf u (ubr_expires_at p) (ubr_reason p) (pr_sub pr) w = (Inr ban, w1)"
    and l: "logout_all u w1 = (Inr (), w2)" and r: "revoke_extension_sessions u w2 = (Inr (), w3)"
    and a: "?audit ban w3 = (Inr s, w')"
    using assms(3) unfolding admin_upsert_user_ban_def in_the_future_def callE_def
    by (elim run_InrE) (auto simp: getsE_def)
  obtain e w0 where ban: "user_bans_wf (db w1)" "ban \<in> set (db_user_bans (db w1))" "open_for u ban"
      "ub_banned_until ban = ubr_expires_at p" "faults w1 = []"
    and w1: "w1 = kv_put (user_cache_key u) (KBan (ban_entry (ubr_expires_at p))) (Some e) w0"
    using upsert_user_ban_post [OF assms(1,2) b] by blast
  note out = logged_out_after [OF ban(5) l r]
  let ?g = "\<lambda>d. (logged_out u d, db_user_bans d)"
  have g: "?g (db w') = ?g (db w3)"
    by (rule keepsE [OF keeps_as_user_audit [where g = ?g, OF _ keeps_returnOk] a]) (simp add: logged_out_def)
  have bans: "db_user_bans (db w') = db_user_bans (db w1)"
    using g keepsE [OF keeps_bans_logout(1) l] keepsE [OF keeps_bans_logout(2) r] by simp
  have kv: "kv w' = kv w1" using keepsE [OF audit_frames(1) [OF keeps_returnOk] a] out(4) by simp
  have f: "faults w' = []" using preservesE [OF audit_frames(2) [OF preserves_returnOk] a out(2)] .
  have s: "s = map_user_ban_status u (Some ban)"
    using audit_then [of pr rq "''upsert_user_ban''" u "''success''" "JObj [(''banned_until'', json_time (ub_banned_until ban))]"
        "returnOk (map_user_ban_status u (Some ban))" w3] a
    by (auto simp: returnOk_def)
  have "kv w' = kv (kv_put (user_cache_key u) (KBan (ban_entry (ub_banned_until ban))) (Some e) w0)"
    by (simp only: kv w1 ban(4))
  then have "result (ensure_user_not_banned cf u (w'\<lparr>clock := t\<rparr>))
      = (if in_force t (ubr_expires_at p) then Inl Banned else Inr ())"
    using ban_decides [of "w'\<lparr>clock := t\<rparr>" ban u e w0 cf] ban bans f by (simp add: user_bans_wf_def)
  then show ?thesis using g out(1) ban(4) by (simp add: s map_user_ban_status_def)
qed

definition ban_request :: upsert_ban_request where
  "ban_request = \<lparr> ubr_expires_at = None, ubr_reason = None \<rparr>"

lemma audit_answer: "\<exists>s w'. audit_as_user_action pr rq a u out md (Pair (Inr x)) w = (Inr s, w')"
  using audit_then [of pr rq a u out md "Pair (Inr x)" w] by auto

lemma admin_ban_sample:
  "\<exists>s w'. admin_upsert_user_ban config0 principal0 admin_request ''u1'' ban_request world1 = (Inr s, w')"
  by (simp add: admin_upsert_user_ban_def in_the_future_def ban_request_def ban_eval callE_def
      logout_all_def revoke_extension_sessions_def) (rule audit_answer)

lemma admin_ban_locks_out_witness:
  "\<exists>s w'. admin_upsert_user_ban config0 principal0 admin_request ''u1'' ban_request world1 = (Inr s, w')
     \<and> logged_out ''u1'' (db w') \<and> result (ensure_user_not_banned config0 ''u1'' (w'\<lparr>clock := 9 * 10 ^ 18\<rparr>)) = Inl Banned"
proof -
  obtain s w' where r: "admin_upsert_user_ban config0 principal0 admin_request ''u1'' ban_request world1 = (Inr s, w')"
    using admin_ban_sample by blast
  have "user_bans_wf (db world1)" by (simp add: user_bans_wf_def world1_def empty_db_def)
  from admin_ban_locks_out [OF _ this r, of "9 * 10 ^ 18"] r show ?thesis
    by (simp add: in_force_def ban_request_def world1_def world0_def)
qed

definition closed_sample :: abuse_report where
  "closed_sample = \<lparr> ar_id = ''r1'', ar_video_id = ''v1'', ar_reporter_user_id = ''u1'', ar_reason_codes = [''spam''],
     ar_details = None, ar_timestamp_seconds = None, ar_severity_score = 10, ar_status = ''resolved'',
     ar_client_ip = ''::1'', ar_user_agent = None, ar_auto_quarantined = False, ar_auto_rule = None,
     ar_created_at = 1, ar_updated_at = 5, ar_closed_at = Some 5, ar_closed_by_admin_sub = Some ''ops'',
     ar_resolution_code = Some ''ok'', ar_resolution_note = None \<rparr>"

definition reported :: world where
  "reported = world1\<lparr> db := (db world1)\<lparr> db_abuse_reports := [closed_sample] \<rparr> \<rparr>"

lemma resolution_closes_once_witness:
  "closed_sample \<in> set (db_abuse_reports (db (final (resolve_abuse_report principal0 admin_request ''r1''
     \<lparr> rar_resolution_code = ''x'', rar_resolution_note = None, rar_status = Some ''rejected'' \<rparr> reported))))"
  using resolution_closes_once [of reported "''r1''" principal0 admin_request
      "\<lparr> rar_resolution_code = ''x'', rar_resolution_note = None, rar_status = Some ''rejected'' \<rparr>"]
  by (simp add: reported_def closed_sample_def)

text \<open>The audit log notes the status that was sent, also when the report keeps the one it had.\<close>

lemma closed_report_audit_says_otherwise:
  "\<exists>e w'. resolve_abuse_report principal0 admin_request ''r1''
     \<lparr> rar_resolution_code = ''x'', rar_resolution_note = None, rar_status = Some ''rejected'' \<rparr> reported = (Inr e, w')
   \<and> vrd_status (ari_report e) = ''resolved''
   \<and> (\<exists>l \<in> set (db_admin_audit_logs (db w')). al_metadata_json l
        = JObj [(''status'', JStr ''rejected''), (''resolution_code'', JStr ''x'')])"
proof -
  have t: "trim ''x'' \<noteq> []" by code_simp
  show ?thesis
    by (simp add: t resolve_abuse_report_def parse_resolution_status_def or_default_def from_sum_def callE_def bindErr_def
      find_report_def db_read_def settle_report_def bindE_def getsE_def request_id_sample write_admin_audit_def
      new_v4_def ignoreE_def record_event_def get_abuse_report_def find_user_def find_video_def returnOk_def
      insert_admin_audit_log_def empty_db_def check_def audit_row_def insert_security_event_def
      report_item_def abuse_report_model_to_dto_def reported_def closed_sample_def)
qed

end
