(* ===== verification/SendTickets.thy ===== *)
theory SendTickets
  imports Bulk Search
begin

text \<open>
  Send tickets of the keyboard extension (\<^verbatim>\<open>api/src/videos/handlers.rs\<close>): a ticket for one
  redemption of a video by its user, the limits on tickets, and the redemption, which reads the
  ticket first and settles it in one conditional update, so that of any number of concurrent
  redemptions one succeeds.
\<close>

section \<open>Creation\<close>

record create_send_ticket_request =
  cst_host_app_hint :: "string option"
  cst_nonce :: string

record send_ticket_response =
  str_ticket_id :: uuid
  str_media_url :: string
  str_fallback_share_url :: string
  str_expires_in_seconds :: nat

text \<open>Without a connection the nonce is not looked at; a refused \<^verbatim>\<open>SET\<close> counts as a used nonce.\<close>

definition claim_nonce :: "config \<Rightarrow> uuid \<Rightarrow> string \<Rightarrow> 'a api \<Rightarrow> 'a api" where
  "claim_nonce cf u nonce k =
     catchE get_conn (\<lambda>_. k) (\<lambda>_.
       catchE (kv_set_nx_ex (keyboard_nonce_key u nonce) (KText ''1'') (cf_keyboard_nonce_ttl_secs cf))
         (\<lambda>_. throwErr (bad_request ''Duplicate send nonce''))
         (\<lambda>fresh. guardE fresh (bad_request ''Duplicate send nonce'') k))"

definition is_ticket_since :: "uuid \<Rightarrow> time \<Rightarrow> send_ticket \<Rightarrow> bool" where
  "is_ticket_since u t r \<longleftrightarrow> st_user_id r = u \<and> t \<le> st_created_at r"

definition check_daily_cap :: "config \<Rightarrow> uuid \<Rightarrow> 'a api \<Rightarrow> 'a api" where
  "check_daily_cap cf u k =
     bindE (getsE clock) (\<lambda>now.
     callE (db_read (\<lambda>d. length (filter (is_ticket_since u (utc_midnight now)) (db_send_tickets d)))) (\<lambda>daily.
     guardE (daily < cf_keyboard_daily_send_cap cf) (too_many_requests ''Keyboard daily send cap exceeded'') k))"

definition new_send_ticket :: "config \<Rightarrow> extension_auth \<Rightarrow> video \<Rightarrow> string option \<Rightarrow> uuid \<Rightarrow> time \<Rightarrow> send_ticket" where
  "new_send_ticket cf ea v hint i now =
     \<lparr> st_ticket_id = i, st_user_id = ea_user_id ea, st_video_id = v_id v,
       st_device_id_hash = ea_device_id_hash ea, st_host_app_hint = hint, st_created_at = now,
       st_expires_at = now + secs (int (cf_keyboard_ticket_ttl_secs cf)), st_redeemed_at = None,
       st_status = ''active'' \<rparr>"

definition issue_ticket :: "config \<Rightarrow> extension_auth \<Rightarrow> string option \<Rightarrow> video \<Rightarrow> send_ticket_response api" where
  "issue_ticket cf ea hint v =
     bindE new_v4 (\<lambda>i.
     bindE (getsE clock) (\<lambda>now.
     callE (db_write (insert_send_ticket (new_send_ticket cf ea v hint i now))) (\<lambda>_.
       returnOk \<lparr> str_ticket_id = i, str_media_url = ''/videos/send-ticket/'' @ i @ ''/media'',
         str_fallback_share_url =
           cf_minio_public_endpoint cf @ ''/'' @ cf_minio_bucket_videos cf @ ''/'' @ v_s3_key v,
         str_expires_in_seconds = cf_keyboard_ticket_ttl_secs cf \<rparr>)))"

definition create_send_ticket ::
  "config \<Rightarrow> bool \<Rightarrow> extension_auth \<Rightarrow> uuid \<Rightarrow> create_send_ticket_request \<Rightarrow> send_ticket_response api" where
  "create_send_ticket cf bypass ea i p =
     (let nonce = trim (cst_nonce p); u = ea_user_id ea in
      guardE (has_scope ea ''keyboard.send'') (forbidden ''Missing scope: keyboard.send'')
     (guardE (nonce \<noteq> [] \<and> length nonce \<le> 128) (bad_request ''nonce must be between 1 and 128 characters'')
     (guardE (case cst_host_app_hint p of None \<Rightarrow> True | Some h \<Rightarrow> length h \<le> 128)
        (bad_request ''host_app_hint must be <= 128 characters'')
     (enforce_keyboard_rpm bypass (cf_keyboard_send_ticket_rpm cf) (keyboard_send_user_rpm_key u)
        (keyboard_send_session_rpm_key (ea_session_jti ea))
     (claim_nonce cf u nonce
     (check_daily_cap cf u
     (bindE (get_published_video_or_404 i) (issue_ticket cf ea (cst_host_app_hint p)))))))))"

section \<open>Redemption\<close>

definition find_send_ticket :: "uuid \<Rightarrow> uuid \<Rightarrow> database \<Rightarrow> send_ticket option" where
  "find_send_ticket i u d =
     find (\<lambda>t. st_ticket_id t = i \<and> st_user_id t = u) (db_send_tickets d)"

definition ticket_open :: "send_ticket \<Rightarrow> bool" where
  "ticket_open t \<longleftrightarrow> st_status t = ''active'' \<and> st_redeemed_at t = None"

definition expire_ticket :: "uuid \<Rightarrow> database \<Rightarrow> database" where
  "expire_ticket i d =
     d\<lparr>db_send_tickets := update_where (\<lambda>t. st_ticket_id t = i \<and> st_status t = ''active'')
          (\<lambda>t. t\<lparr>st_status := ''expired''\<rparr>) (db_send_tickets d)\<rparr>"

definition redeemable :: "uuid \<Rightarrow> uuid \<Rightarrow> time \<Rightarrow> send_ticket \<Rightarrow> bool" where
  "redeemable i u now t \<longleftrightarrow> st_ticket_id t = i \<and> st_user_id t = u \<and> st_status t = ''active''
     \<and> st_redeemed_at t = None \<and> now < st_expires_at t"

definition redeem_ticket :: "uuid \<Rightarrow> uuid \<Rightarrow> time \<Rightarrow> database \<Rightarrow> nat \<times> database" where
  "redeem_ticket i u now d =
     (length (filter (redeemable i u now) (db_send_tickets d)),
      d\<lparr>db_send_tickets := update_where (redeemable i u now)
          (\<lambda>t. t\<lparr>st_redeemed_at := Some now, st_status := ''redeemed''\<rparr>) (db_send_tickets d)\<rparr>)"

definition redeem_call :: "uuid \<Rightarrow> uuid \<Rightarrow> time \<Rightarrow> nat io" where
  "redeem_call i u now = external (DbError DbConn)
     (\<lambda>w. case redeem_ticket i u now (db w) of (n, d) \<Rightarrow> (Inr n, w\<lparr>db := d\<rparr>))"

definition redeem_send_ticket_media :: "app \<Rightarrow> extension_auth \<Rightarrow> uuid \<Rightarrow> string api" where
  "redeem_send_ticket_media ap ea i =
     (let cf = ap_config ap; L = ap_libs ap; u = ea_user_id ea in
      guardE (has_scope ea ''keyboard.send'') (forbidden ''Missing scope: keyboard.send'')
     (bindE (getsE clock) (\<lambda>now.
      callE (db_read (find_send_ticket i u)) (\<lambda>row.
      okOrE (not_found ''Send ticket not found'') row (\<lambda>t.
      guardE (ticket_open t) (bad_request ''Send ticket already redeemed'')
     (if st_expires_at t \<le> now then
        ignoreE (db_write (\<lambda>d. Inr (expire_ticket i d))) (throwErr (bad_request ''Send ticket expired''))
      else
        bindE (get_published_video_or_404 (st_video_id t)) (\<lambda>v.
        callE (redeem_call i u now) (\<lambda>n.
        guardE (n = 1) (bad_request ''Send ticket is no longer valid'')
       (bindE (getsE clock) (\<lambda>now'.
        okOrE (internal_error ''Failed to generate media URL'')
          (lib_presigned_get L (cf_minio_bucket_videos cf) (v_s3_key v) (cf_keyboard_media_url_ttl_secs cf) now')
          returnOk))))))))))"

section \<open>Redemptions side by side\<close>

text \<open>
  Redemptions of the ticket \<open>i\<close>, each with its user and between its two database calls, while time
  passes, other tickets are created and rows expire. The transitions are the database steps of
  \<^const>\<open>redeem_send_ticket_media\<close>.
\<close>

datatype ticket_pc = TicketStart uuid | TicketChecked uuid time | TicketRedeemed | TicketRefused

record ticket_race =
  tkr_db :: database
  tkr_clock :: time
  tkr_pcs :: "ticket_pc list"

inductive ticket_step :: "uuid \<Rightarrow> ticket_race \<Rightarrow> ticket_race \<Rightarrow> bool" for i :: uuid where
  ticket_check: "\<lbrakk> k < length (tkr_pcs s); tkr_pcs s ! k = TicketStart u;
      pc = (case find_send_ticket i u (tkr_db s) of
              None \<Rightarrow> TicketRefused
            | Some t \<Rightarrow> if ticket_open t \<and> tkr_clock s < st_expires_at t
                then TicketChecked u (tkr_clock s) else TicketRefused) \<rbrakk>
    \<Longrightarrow> ticket_step i s (s\<lparr>tkr_pcs := (tkr_pcs s)[k := pc]\<rparr>)"
| ticket_redeem: "\<lbrakk> k < length (tkr_pcs s); tkr_pcs s ! k = TicketChecked u now;
      redeem_ticket i u now (tkr_db s) = (n, d) \<rbrakk>
    \<Longrightarrow> ticket_step i s (s\<lparr>tkr_db := d,
          tkr_pcs := (tkr_pcs s)[k := (if n = 1 then TicketRedeemed else TicketRefused)]\<rparr>)"
| ticket_expire: "ticket_step i s (s\<lparr>tkr_db := expire_ticket j (tkr_db s)\<rparr>)"
| ticket_created: "insert_send_ticket t (tkr_db s) = Inr d \<Longrightarrow> ticket_step i s (s\<lparr>tkr_db := d\<rparr>)"
| ticket_time: "tkr_clock s \<le> now \<Longrightarrow> ticket_step i s (s\<lparr>tkr_clock := now\<rparr>)"

inductive_cases ticket_step_cases: "ticket_step i s t"

definition tickets_unique :: "database \<Rightarrow> bool" where
  "tickets_unique d \<longleftrightarrow> distinct (map st_ticket_id (db_send_tickets d))"

definition ticket_init :: "uuid \<Rightarrow> ticket_race \<Rightarrow> bool" where
  "ticket_init i s \<longleftrightarrow> tickets_unique (tkr_db s) \<and> i \<in> st_ticket_id ` set (db_send_tickets (tkr_db s))
     \<and> (\<forall>pc \<in> set (tkr_pcs s). \<exists>u. pc = TicketStart u)"

definition redeemed_count :: "ticket_race \<Rightarrow> nat" where
  "redeemed_count s = length (filter (\<lambda>pc. pc = TicketRedeemed) (tkr_pcs s))"

definition ticket_inv :: "uuid \<Rightarrow> ticket_race \<Rightarrow> bool" where
  "ticket_inv i s \<longleftrightarrow> tickets_unique (tkr_db s) \<and> i \<in> st_ticket_id ` set (db_send_tickets (tkr_db s))
     \<and> redeemed_count s \<le> 1
     \<and> (redeemed_count s = 1 \<longrightarrow> (\<forall>t \<in> set (db_send_tickets (tkr_db s)). st_ticket_id t = i \<longrightarrow> \<not> ticket_open t))"

lemma count_filter_update:
  assumes "k < length xs" and "\<not> P (xs ! k)"
  shows "length (filter P (xs[k := x])) = length (filter P xs) + (if P x then 1 else 0)"
proof -
  have "xs = take k xs @ xs ! k # drop (Suc k) xs" using assms(1) by (simp add: id_take_nth_drop)
  then have "filter P xs = filter P (take k xs) @ filter P (drop (Suc k) xs)"
    using assms(2) by (metis (no_types) filter.simps(2) filter_append)
  then show ?thesis using assms(1) by (simp add: upd_conv_take_nth_drop)
qed

text \<open>A row that is settled stays settled, and the rows keep their numbers.\<close>

definition settles :: "(send_ticket \<Rightarrow> send_ticket) \<Rightarrow> bool" where
  "settles f \<longleftrightarrow> (\<forall>t. st_ticket_id (f t) = st_ticket_id t \<and> (ticket_open (f t) \<longrightarrow> ticket_open t))"

lemma ticket_inv_update:
  assumes "ticket_inv i s" and "settles f"
  shows "ticket_inv i (s\<lparr>tkr_db := (tkr_db s)\<lparr>db_send_tickets := map f (db_send_tickets (tkr_db s))\<rparr>\<rparr>)"
  using assms unfolding ticket_inv_def settles_def tickets_unique_def redeemed_count_def
  by (auto simp: image_iff comp_def cong: map_cong)

lemma expire_settles: "expire_ticket j d = d\<lparr>db_send_tickets :=
    map (\<lambda>t. if st_ticket_id t = j \<and> st_status t = ''active'' then t\<lparr>st_status := ''expired''\<rparr> else t) (db_send_tickets d)\<rparr>"
  "settles (\<lambda>t. if st_ticket_id t = j \<and> st_status t = ''active'' then t\<lparr>st_status := ''expired''\<rparr> else t)"
  by (simp_all add: expire_ticket_def update_where_def settles_def ticket_open_def)

lemma redeem_settles: "snd (redeem_ticket i u now d) = d\<lparr>db_send_tickets :=
    map (\<lambda>t. if redeemable i u now t then t\<lparr>st_redeemed_at := Some now, st_status := ''redeemed''\<rparr> else t) (db_send_tickets d)\<rparr>"
  "settles (\<lambda>t. if redeemable i u now t then t\<lparr>st_redeemed_at := Some now, st_status := ''redeemed''\<rparr> else t)"
  by (simp_all add: redeem_ticket_def update_where_def settles_def ticket_open_def)

text \<open>The one row with the number \<open>i\<close> is what a successful update settled.\<close>

lemma redeem_ticket_one:
  assumes "tickets_unique d" and "redeem_ticket i u now d = (1, d')"
  shows "(\<exists>t \<in> set (db_send_tickets d). st_ticket_id t = i \<and> ticket_open t)
     \<and> (\<forall>t \<in> set (db_send_tickets d'). st_ticket_id t = i \<longrightarrow> \<not> ticket_open t)"
proof -
  let ?ts = "db_send_tickets d"
  have n: "filter (redeemable i u now) ?ts \<noteq> []" and d': "d' = snd (redeem_ticket i u now d)"
    using assms(2) by (auto simp: redeem_ticket_def)
  obtain t where t: "t \<in> set ?ts" "redeemable i u now t" using n by (auto simp: filter_empty_conv)
  have uniq: "x = t" if "x \<in> set ?ts" "st_ticket_id x = i" for x
    using assms(1) t that by (auto simp: tickets_unique_def distinct_map redeemable_def inj_on_def)
  have "\<not> ticket_open x" if "x \<in> set (db_send_tickets d')" "st_ticket_id x = i" for x
  proof -
    have "x \<in> (\<lambda>t. if redeemable i u now t then t\<lparr>st_redeemed_at := Some now, st_status := ''redeemed''\<rparr> else t) ` set ?ts"
      using that(1) unfolding d' redeem_settles(1) by simp
    then obtain y where y: "y \<in> set ?ts" "x = (if redeemable i u now y then y\<lparr>st_redeemed_at := Some now, st_status := ''redeemed''\<rparr> else y)"
      by (elim imageE)
    then have "st_ticket_id y = i" using that(2) by (auto split: if_splits)
    then show ?thesis using y uniq [OF y(1)] t(2) by (simp add: ticket_open_def)
  qed
  then show ?thesis using t by (auto simp: redeemable_def ticket_open_def)
qed

lemma ticket_inv_step:
  assumes "ticket_inv i s" and "ticket_step i s t"
  shows "ticket_inv i t"
  using assms(2)
proof (cases rule: ticket_step.cases)
  case (ticket_check k u pc)
  have "pc \<noteq> TicketRedeemed" unfolding ticket_check(4) by (simp split: option.split)
  then have "redeemed_count t = redeemed_count s"
    using ticket_check by (simp add: redeemed_count_def count_filter_update)
  then show ?thesis using assms(1) ticket_check by (simp add: ticket_inv_def)
next
  case (ticket_redeem k u now n d)
  let ?s = "s\<lparr>tkr_db := d\<rparr>"
  have "d = snd (redeem_ticket i u now (tkr_db s))" using ticket_redeem by simp
  then have s: "ticket_inv i ?s"
    using ticket_inv_update [OF assms(1) redeem_settles(2)] by (simp add: redeem_settles(1))
  have c: "redeemed_count t = redeemed_count s + (if n = 1 then 1 else 0)"
    using ticket_redeem by (simp add: redeemed_count_def count_filter_update)
  show ?thesis
  proof (cases "n = 1")
    case True
    note one = redeem_ticket_one [OF _ ticket_redeem(4) [unfolded True]]
    have "redeemed_count s \<noteq> 1" using assms(1) one by (auto simp: ticket_inv_def)
    then have "redeemed_count t = 1" using c True assms(1) by (simp add: ticket_inv_def)
    then show ?thesis using s one assms(1) ticket_redeem by (auto simp: ticket_inv_def)
  next
    case False
    then show ?thesis using s c ticket_redeem(1) by (simp add: ticket_inv_def redeemed_count_def)
  qed
next
  case (ticket_expire j)
  then show ?thesis
    using ticket_inv_update [OF assms(1) expire_settles(2)] by (simp add: expire_settles(1))
next
  case (ticket_created r d)
  then have d: "d = (tkr_db s)\<lparr>db_send_tickets := db_send_tickets (tkr_db s) @ [r]\<rparr>"
    "st_ticket_id r \<notin> st_ticket_id ` set (db_send_tickets (tkr_db s))"
    by (auto simp: insert_send_ticket_def check_def list_ex_iff split: if_splits)
  then have "st_ticket_id r \<noteq> i" using assms(1) by (auto simp: ticket_inv_def)
  then show ?thesis
    using assms(1) d ticket_created(1) by (auto simp: ticket_inv_def tickets_unique_def redeemed_count_def)
next
  case (ticket_time now)
  then show ?thesis using assms(1) by (simp add: ticket_inv_def redeemed_count_def)
qed

lemma ticket_init_inv: "ticket_init i s \<Longrightarrow> ticket_inv i s"
proof -
  assume a: "ticket_init i s"
  then have "filter (\<lambda>pc. pc = TicketRedeemed) (tkr_pcs s) = []"
    by (fastforce simp: ticket_init_def filter_empty_conv)
  then show ?thesis using a by (simp add: ticket_init_def ticket_inv_def redeemed_count_def)
qed

interpretation ticket_race: inductive_invariant "ticket_init i" "ticket_step i" "ticket_inv i"
  by unfold_locales (auto intro: ticket_init_inv ticket_inv_step)

text \<open>C6: however many redemptions of one ticket run side by side, and whatever else happens to the
  table of tickets, at most one of them is answered with the media.\<close>

theorem ticket_redeemed_once:
  assumes "reach (ticket_init i) (ticket_step i) s"
  shows "redeemed_count s \<le> 1"
  using ticket_race.inv_reach [OF assms] by (simp add: ticket_inv_def)

lemma ticket_redeemed_once_witness:
  "\<exists>s. reach (ticket_init ''t1'') (ticket_step ''t1'') s \<and> redeemed_count s = 1 \<and> length (tkr_pcs s) = 2"
proof -
  let ?t = "\<lparr> st_ticket_id = ''t1'', st_user_id = ''u1'', st_video_id = ''v1'', st_device_id_hash = [],
    st_host_app_hint = None, st_created_at = 0, st_expires_at = 10, st_redeemed_at = None, st_status = ''active'' \<rparr>"
  define d where "d = empty_db\<lparr>db_send_tickets := [?t]\<rparr>"
  obtain n d' where r: "redeem_ticket ''t1'' ''u1'' 5 d = (n, d')" by (cases "redeem_ticket ''t1'' ''u1'' 5 d")
  have n: "n = 1" using r by (simp add: d_def redeem_ticket_def redeemable_def)
  let ?R = "reach (ticket_init ''t1'') (ticket_step ''t1'')"
  let ?s0 = "\<lparr> tkr_db = d, tkr_clock = 5, tkr_pcs = [TicketStart ''u1'', TicketStart ''u1''] \<rparr>"
  let ?s1 = "\<lparr> tkr_db = d, tkr_clock = 5, tkr_pcs = [TicketChecked ''u1'' 5, TicketStart ''u1''] \<rparr>"
  let ?s2 = "\<lparr> tkr_db = d', tkr_clock = 5, tkr_pcs = [TicketRedeemed, TicketStart ''u1''] \<rparr>"
  have "?R ?s0" by (rule reach_init) (simp add: ticket_init_def tickets_unique_def d_def)
  moreover have "ticket_step ''t1'' ?s0 ?s1"
    using ticket_check [of 0 ?s0 "''u1''" "TicketChecked ''u1'' 5" "''t1''"]
    by (simp add: find_send_ticket_def ticket_open_def d_def)
  ultimately have "?R ?s1" by (rule reach_step)
  moreover have "ticket_step ''t1'' ?s1 ?s2"
    using ticket_redeem [of 0 ?s1 "''u1''" 5 "''t1''" n d'] r n by simp
  ultimately have s2: "?R ?s2" by (rule reach_step)
  have "redeemed_count ?s2 = 1" using ticket_redeemed_once [OF s2] by (simp add: redeemed_count_def)
  with s2 show ?thesis by (intro exI [of _ ?s2]) simp
qed

section \<open>What a redemption needs\<close>

lemma get_published_InrE:
  assumes "get_published_video_or_404 i w = (Inr v, w')"
  obtains fs where "v \<in> set (db_videos (db w))" "likeable i v" "w' = w\<lparr>faults := fs\<rparr>"
  using assms unfolding get_published_video_or_404_def callE_def
  by (elim run_InrE db_read_InrE) (auto simp: returnOk_def dest!: find_Some_set)

lemma redeem_call_InrE:
  assumes "redeem_call i u now w = (Inr n, w')"
  obtains d fs where "redeem_ticket i u now (db w) = (n, d)" "w' = w\<lparr>faults := fs, db := d\<rparr>"
  using assms unfolding redeem_call_def by (elim external_InrE) (auto split: prod.splits)

text \<open>Media is only handed out for a ticket of the caller that was open and not expired, for a
  video that is still published and visible; the ticket is settled by it.\<close>

theorem redemption_needs_open_ticket:
  assumes "redeem_send_ticket_media ap ea i w = (Inr url, w')"
  shows "\<exists>t v. find_send_ticket i (ea_user_id ea) (db w) = Some t \<and> ticket_open t \<and> clock w < st_expires_at t
     \<and> v \<in> set (db_videos (db w)) \<and> likeable (st_video_id t) v
     \<and> lib_presigned_get (ap_libs ap) (cf_minio_bucket_videos (ap_config ap)) (v_s3_key v)
          (cf_keyboard_media_url_ttl_secs (ap_config ap)) (clock w) = Some url
     \<and> redeem_ticket i (ea_user_id ea) (clock w) (db w) = (1, db w')"
  using assms unfolding redeem_send_ticket_media_def Let_def callE_def
  by (elim run_InrE db_read_InrE get_published_InrE redeem_call_InrE,
      auto simp: getsE_def returnOk_def ignoreE_def throwErr_def split: if_splits prod.splits
        elim!: run_InrE db_read_InrE get_published_InrE redeem_call_InrE, blast)

section \<open>The nonce of a ticket\<close>

text \<open>Calls do not fail, and the entry \<open>k\<close> is still there at the time \<open>T\<close>.\<close>

definition quiet_with :: "string \<Rightarrow> time \<Rightarrow> world \<Rightarrow> bool" where
  "quiet_with k T w \<longleftrightarrow> faults w = [] \<and> kv_live (w\<lparr>clock := T\<rparr>) k \<noteq> None"

lemma quiet_with_kept:
  assumes "keeps kv m" "preserves (\<lambda>w. faults w = []) m"
  shows "preserves (quiet_with k T) m"
proof (rule preservesI)
  fix w assume q: "quiet_with k T w"
  obtain r w' where r: "m w = (r, w')" by (cases "m w")
  have "kv_live (w'\<lparr>clock := T\<rparr>) = kv_live (w\<lparr>clock := T\<rparr>)"
    using keepsE [OF assms(1) r] by (intro kv_live_cong) simp_all
  moreover have "faults w' = []" using preservesD [OF assms(2), of w] q r by (simp add: quiet_with_def)
  ultimately show "quiet_with k T (snd (m w))" using q r by (simp add: quiet_with_def)
qed

lemma kv_live_clock_other:
  "k' \<noteq> k \<Longrightarrow> kv_live ((kv_put k' v t w)\<lparr>clock := T\<rparr>) k = kv_live (w\<lparr>clock := T\<rparr>) k"
  "k' \<noteq> k \<Longrightarrow> kv_live ((kv_drop k' w)\<lparr>clock := T\<rparr>) k = kv_live (w\<lparr>clock := T\<rparr>) k"
  by (simp_all add: kv_live_def kv_put_def kv_drop_def update_conv' delete_conv' split: option.split prod.split)

lemma quiet_with_calls [preserves_rules]:
  "preserves (quiet_with k T) get_conn" "preserves (quiet_with k T) (kv_get_u64 k')"
  "preserves (quiet_with k T) (db_read f)" "preserves (quiet_with k T) (db_write g)"
  by (rule quiet_with_kept; intro keeps_rules preserves_rules)+

lemma quiet_with_draw: "preserves (quiet_with k T) new_v4"
  by (rule quiet_with_kept) (simp_all add: keeps_def preserves_def new_v4_def)

lemma quiet_with_counts:
  assumes "k' \<noteq> k"
  shows "preserves (quiet_with k T) (kv_incr k' n)" "preserves (quiet_with k T) (kv_expire k' s)"
  using assms unfolding kv_defs quiet_with_def
  by (auto simp: preserves_def external.simps kv_live_clock_other split: option.splits)

lemma quiet_with_incr: "k' \<noteq> k \<Longrightarrow> preserves (quiet_with k T) (kv_incr_u64 k' n)"
  unfolding kv_incr_u64_def by (intro preserves_rules quiet_with_counts)

lemma quiet_with_limiter:
  "k' \<noteq> k \<Longrightarrow> preserves (quiet_with k T) (check_and_increment bypass k' n s)"
  unfolding check_and_increment_def check_and_increment_conn_def incr_and_expire_def Let_def
  by (intro preserves_rules quiet_with_counts quiet_with_incr)

lemma nonce_key_differs:
  "keyboard_send_user_rpm_key u \<noteq> keyboard_nonce_key u' n" "keyboard_send_session_rpm_key j \<noteq> keyboard_nonce_key u' n"
  by (simp_all add: keyboard_send_user_rpm_key_def keyboard_send_session_rpm_key_def keyboard_nonce_key_def)

lemma keeps_clock_limiter: "keeps clock (check_and_increment b k m s)"
  unfolding check_and_increment_def check_and_increment_conn_def incr_and_expire_def kv_incr_u64_def Let_def
  by (intro keeps_rules)

lemma no_faults_limiter: "preserves (\<lambda>w. faults w = []) (check_and_increment b k m s)"
  unfolding check_and_increment_def check_and_increment_conn_def incr_and_expire_def kv_incr_u64_def Let_def
  by (intro preserves_rules)

lemma limiter_clock: "preserves P (check_and_increment b k m s)
    \<Longrightarrow> preserves (\<lambda>w. P w \<and> clock w = t) (check_and_increment b k m s)"
  using keeps_clock_limiter [of b k m s] by (simp add: preserves_def keeps_def)

text \<open>What an accepted request has done up to the claim of its nonce, and what follows.\<close>

lemma create_send_ticket_InrE:
  assumes "create_send_ticket cf bypass ea i p w = (Inr x, w')" and "preserves P (check_and_increment bypass
      (keyboard_send_user_rpm_key (ea_user_id ea)) (cf_keyboard_send_ticket_rpm cf) 60)"
    and "preserves P (check_and_increment bypass
      (keyboard_send_session_rpm_key (ea_session_jti ea)) (cf_keyboard_send_ticket_rpm cf) 60)" and "P w"
  obtains w1 where "P w1" "claim_nonce cf (ea_user_id ea) (trim (cst_nonce p)) (check_daily_cap cf (ea_user_id ea)
      (bindE (get_published_video_or_404 i) (issue_ticket cf ea (cst_host_app_hint p)))) w1 = (Inr x, w')"
proof -
  let ?k = "claim_nonce cf (ea_user_id ea) (trim (cst_nonce p)) (check_daily_cap cf (ea_user_id ea)
      (bindE (get_published_video_or_404 i) (issue_ticket cf ea (cst_host_app_hint p))))"
  have "enforce_keyboard_rpm bypass (cf_keyboard_send_ticket_rpm cf) (keyboard_send_user_rpm_key (ea_user_id ea))
      (keyboard_send_session_rpm_key (ea_session_jti ea)) ?k w = (Inr x, w')"
    using assms(1) unfolding create_send_ticket_def Let_def by (elim run_InrE)
  then obtain v1 w1 v2 w2 where
    s1: "check_and_increment bypass (keyboard_send_user_rpm_key (ea_user_id ea)) (cf_keyboard_send_ticket_rpm cf) 60 w = (v1, w1)" and
    s2: "check_and_increment bypass (keyboard_send_session_rpm_key (ea_session_jti ea)) (cf_keyboard_send_ticket_rpm cf) 60 w1 = (v2, w2)" and
    k: "?k w2 = (Inr x, w')"
    unfolding enforce_keyboard_rpm_def by (meson limited_count_Inr)
  have "P w1" using preservesD [OF assms(2,4)] s1 by simp
  then have "P w2" using preservesD [OF assms(3)] s2 by fastforce
  then show ?thesis using k that by blast
qed

lemma claimed_after:
  "preserves (quiet_with k T) (check_daily_cap cf u
      (bindE (get_published_video_or_404 i) (issue_ticket cf ea h)))"
  unfolding check_daily_cap_def get_published_video_or_404_def issue_ticket_def callE_def
  by (intro preserves_rules quiet_with_draw)

lemma claim_nonce_quiet:
  assumes "faults w = []" and "claim_nonce cf u n k w = (Inr x, w')"
  shows "kv_live w (keyboard_nonce_key u n) = None
     \<and> k (kv_put (keyboard_nonce_key u n) (KText ''1'') (Some (clock w + secs (int (cf_keyboard_nonce_ttl_secs cf)))) w) = (Inr x, w')
     \<and> 0 < cf_keyboard_nonce_ttl_secs cf"
  using assms
  by (auto simp: claim_nonce_def catchE_def get_conn_def kv_set_nx_ex_def guardE_def throwErr_def split: if_splits)


text \<open>A nonce opens one ticket: after a request was accepted, every other request of the user
  with the same nonce is refused while the nonce is kept, whichever session it comes from.\<close>

theorem send_nonce_used_once:
  assumes "faults w = []" and "create_send_ticket cf bypass ea i p w = (Inr r, w1)"
    and "ea_user_id ea2 = ea_user_id ea" and "trim (cst_nonce p2) = trim (cst_nonce p)"
    and "T < clock w + secs (int (cf_keyboard_nonce_ttl_secs cf))"
  shows "isl (fst (create_send_ticket cf bypass2 ea2 i2 p2 (w1\<lparr>clock := T\<rparr>)))"
proof (rule ccontr)
  let ?u = "ea_user_id ea" and ?n = "trim (cst_nonce p)"
  let ?key = "keyboard_nonce_key ?u ?n"
  let ?P = "\<lambda>w1 :: world. faults w1 = [] \<and> clock w1 = clock w"
  have lim: "preserves ?P (check_and_increment b k m s)" for b k m s
    by (rule limiter_clock [OF no_faults_limiter])
  obtain w0 where w0: "?P w0" and c: "claim_nonce cf ?u ?n (check_daily_cap cf ?u
      (bindE (get_published_video_or_404 i) (issue_ticket cf ea (cst_host_app_hint p)))) w0 = (Inr r, w1)"
    using create_send_ticket_InrE [OF assms(2) lim lim] assms(1) by blast
  let ?w = "kv_put ?key (KText ''1'') (Some (clock w0 + secs (int (cf_keyboard_nonce_ttl_secs cf)))) w0"
  have k: "check_daily_cap cf ?u (bindE (get_published_video_or_404 i)
      (issue_ticket cf ea (cst_host_app_hint p))) ?w = (Inr r, w1)"
    using claim_nonce_quiet [OF conjunct1 [OF w0] c] by blast
  have "quiet_with ?key T ?w"
    using w0 assms(5) by (simp add: quiet_with_def kv_live_def kv_put_def update_conv')
  then have q: "quiet_with ?key T w1"
    using preservesD [OF claimed_after, of ?key T ?w cf ?u i ea "cst_host_app_hint p"] k by simp
  let ?Q = "\<lambda>w :: world. quiet_with ?key T w \<and> clock w = T"
  assume "\<not> isl (fst (create_send_ticket cf bypass2 ea2 i2 p2 (w1\<lparr>clock := T\<rparr>)))"
  moreover obtain x w2 where x: "create_send_ticket cf bypass2 ea2 i2 p2 (w1\<lparr>clock := T\<rparr>) = (x, w2)"
    by (cases "create_send_ticket cf bypass2 ea2 i2 p2 (w1\<lparr>clock := T\<rparr>)")
  ultimately obtain r2 where "x = Inr r2" by (cases x) auto
  with x have s: "create_send_ticket cf bypass2 ea2 i2 p2 (w1\<lparr>clock := T\<rparr>) = (Inr r2, w2)" by simp
  have q1: "?Q (w1\<lparr>clock := T\<rparr>)" using q by (simp add: quiet_with_def)
  have l2: "preserves ?Q (check_and_increment b k m s)" if "k \<noteq> ?key" for b k m s
    using that by (intro limiter_clock quiet_with_limiter)
  obtain w3 where w3: "?Q w3" and c2: "claim_nonce cf ?u ?n (check_daily_cap cf ?u
      (bindE (get_published_video_or_404 i2) (issue_ticket cf ea2 (cst_host_app_hint p2)))) w3 = (Inr r2, w2)"
    using create_send_ticket_InrE [OF s l2 l2 q1] assms(3,4) nonce_key_differs by metis
  have "kv_live w3 ?key = None" using claim_nonce_quiet [OF _ c2] w3 by (simp add: quiet_with_def)
  moreover have e: "w3\<lparr>clock := T\<rparr> = w3" using w3 by simp
  moreover have "kv_live (w3\<lparr>clock := T\<rparr>) ?key \<noteq> None" using w3 unfolding quiet_with_def by blast
  ultimately show False unfolding e by blast
qed


definition sample_extension :: extension_auth where
  "sample_extension = \<lparr> ea_user_id = ''u1'', ea_session_jti = ''j1'', ea_platform = ''ios'',
     ea_device_id_hash = ''d'', ea_scope = [''keyboard.send''] \<rparr>"

definition sample_ticket_request :: create_send_ticket_request where
  "sample_ticket_request = \<lparr> cst_host_app_hint = None, cst_nonce = ''n'' \<rparr>"

lemma sample_ticket:
  "\<exists>r w1. create_send_ticket config0 True sample_extension ''v1'' sample_ticket_request world1 = (Inr r, w1)"
proof -
  have t: "trim ''n'' = ''n''"
  proof -
    have c: "chars ''n'' = [''n'']" by (simp add: is_continuation_def)
    show ?thesis unfolding trim_def c trim_end_def by (simp add: is_white_space_byte byte_def)
  qed
  have c: "kv_set_nx_ex (keyboard_nonce_key ''u1'' ''n'') (KText ''1'') 300 world1
      = (Inr True, kv_put (keyboard_nonce_key ''u1'' ''n'') (KText ''1'') (Some (clock world1 + secs 300)) world1)"
    by (simp add: kv_set_nx_ex_def kv_live_def world1_def world0_def)
  let ?w = "kv_put (keyboard_nonce_key ''u1'' ''n'') (KText ''1'') (Some (clock world1 + secs 300)) world1"
  have w: "faults ?w = []" "db ?w = empty_db\<lparr> db_users := [user0], db_videos := [video0] \<rparr>"
    by (simp_all add: world1_def world0_def)
  have g: "get_published_video_or_404 ''v1'' ?w = (Inr video0, ?w)"
    using w by (simp add: get_published_video_or_404_def callE_def bindErr_def likeable_def video0_def okOrE_def returnOk_def)
  have i: "\<exists>r w1. issue_ticket config0 sample_extension None video0 ?w = (Inr r, w1)"
    using w by (simp add: issue_ticket_def bindE_def new_v4_def getsE_def callE_def bindErr_def insert_send_ticket_def
        check_def new_send_ticket_def sample_extension_def user_exists_def video_exists_def user0_def video0_def
        empty_db_def returnOk_def)
  have cf: "cf_keyboard_nonce_ttl_secs config0 = 300" "cf_keyboard_daily_send_cap config0 = 100"
    by (simp_all add: config0_def)
  have "create_send_ticket config0 True sample_extension ''v1'' sample_ticket_request world1
      = check_daily_cap config0 ''u1'' (bindE (get_published_video_or_404 ''v1'') (issue_ticket config0 sample_extension None)) ?w"
    using c by (simp add: create_send_ticket_def sample_extension_def sample_ticket_request_def t has_scope_def guardE_def
        enforce_keyboard_rpm_def limited_count_def check_and_increment_def catchE_def returnOk_def claim_nonce_def cf Let_def)
  also have "\<dots> = issue_ticket config0 sample_extension None video0 ?w"
    using w g by (simp add: check_daily_cap_def bindE_def getsE_def callE_def bindErr_def empty_db_def guardE_def cf)
  finally show ?thesis using i by simp
qed

lemma send_nonce_used_once_witness:
  "\<exists>r w1. create_send_ticket config0 True sample_extension ''v1'' sample_ticket_request world1 = (Inr r, w1)
     \<and> isl (fst (create_send_ticket config0 True sample_extension ''v1'' sample_ticket_request
         (w1\<lparr>clock := clock world1 + secs 299\<rparr>)))"
proof -
  obtain r w1 where c: "create_send_ticket config0 True sample_extension ''v1'' sample_ticket_request world1 = (Inr r, w1)"
    using sample_ticket by blast
  have "faults world1 = []" "clock world1 + secs 299 < clock world1 + secs (int (cf_keyboard_nonce_ttl_secs config0))"
    by (simp_all add: config0_def secs_def nanos_per_sec_def)
  from send_nonce_used_once [OF this(1) c refl refl this(2)] c show ?thesis by blast
qed

lemma redemption_needs_open_ticket_witness:
  "\<exists>w url w'. redeem_send_ticket_media download_app sample_extension ''t1'' w = (Inr url, w')
     \<and> redeem_ticket ''t1'' ''u1'' (clock w) (db w) = (1, db w')"
proof -
  let ?t = "\<lparr> st_ticket_id = ''t1'', st_user_id = ''u1'', st_video_id = ''v1'', st_device_id_hash = [],
    st_host_app_hint = None, st_created_at = 0, st_expires_at = clock world1 + 10, st_redeemed_at = None, st_status = ''active'' \<rparr>"
  define w where "w = world1\<lparr>db := (db world1)\<lparr>db_send_tickets := [?t]\<rparr>\<rparr>"
  have w: "faults w = []" "find_send_ticket ''t1'' ''u1'' (db w) = Some ?t" "clock w = clock world1"
    by (simp_all add: w_def find_send_ticket_def)
  have g: "get_published_video_or_404 ''v1'' w = (Inr video0, w)"
    using w by (simp add: get_published_video_or_404_def callE_def bindErr_def likeable_def video0_def okOrE_def returnOk_def w_def world1_def)
  obtain d where d: "redeem_ticket ''t1'' ''u1'' (clock w) (db w) = (1, d)"
    by (simp add: w_def redeem_ticket_def redeemable_def)
  have r: "redeem_call ''t1'' ''u1'' (clock w) w = (Inr 1, w\<lparr>db := d\<rparr>)"
    using w d by (simp add: redeem_call_def)
  have L: "lib_presigned_get (ap_libs download_app) b k n t = Some (''get:'' @ b @ ''/'' @ k)" for b k n t
    by (simp add: download_app_def libs0_def)
  have "\<exists>url w'. redeem_send_ticket_media download_app sample_extension ''t1'' w = (Inr url, w')"
    using w g r by (simp add: redeem_send_ticket_media_def sample_extension_def has_scope_def guardE_def bindE_def getsE_def
        callE_def bindErr_def okOrE_def ticket_open_def L returnOk_def Let_def)
  then obtain url w' where u: "redeem_send_ticket_media download_app sample_extension ''t1'' w = (Inr url, w')" by blast
  from redemption_needs_open_ticket [OF u]
  have "redeem_ticket ''t1'' ''u1'' (clock w) (db w) = (1, db w')" by (auto simp: sample_extension_def)
  with u show ?thesis by blast
qed

end
