(* ===== verification/AsUser.thy ===== *)
theory AsUser
  imports Admin Downloads Feed SendTickets
begin

text \<open>
  The endpoints of \<^verbatim>\<open>api/src/admin/handlers.rs\<close> by which an administrator acts as a user: most run
  the handler of the user on a state without limits and note the outcome, the others have a body of
  their own.
\<close>

section \<open>The state without limits\<close>

definition no_limit_u64 :: "64 word" where
  "no_limit_u64 = (- 1) div 4"

definition passthrough_config :: "config \<Rightarrow> config" where
  "passthrough_config cf =
     cf\<lparr> cf_read_only_mode_enabled := False, cf_maintenance_mode_enabled := False,
         cf_limit_feed_rpm := no_limit_u64, cf_limit_upload_bytes_hourly := (2 ^ 63 - 1) div 4,
         cf_like_actions_rpm_limit := no_limit_u64, cf_username_signup_rpm_per_ip := no_limit_u64,
         cf_username_signup_attempts_per_ticket := no_limit_u64, cf_username_update_rpm_per_user := no_limit_u64,
         cf_keyboard_search_rpm := no_limit_u64, cf_keyboard_send_ticket_rpm := no_limit_u64,
         cf_keyboard_daily_send_cap := unat no_limit_u64, cf_search_rpm_limit := no_limit_u64,
         cf_ip_rate_limit_rpm := no_limit_u64, cf_video_ws_connect_rpm_per_ip := no_limit_u64,
         cf_video_ws_connect_rpm_per_user := no_limit_u64,
         cf_video_ws_max_conn_per_user := unat no_limit_u64, cf_video_ws_max_conn_global := unat no_limit_u64 \<rparr>"

text \<open>The limiter of that state has its bypass on (the argument \<^term>\<open>True\<close> of the handlers below).\<close>

definition admin_passthrough_state :: "app \<Rightarrow> app" where
  "admin_passthrough_state ap = ap\<lparr>ap_config := passthrough_config (ap_config ap)\<rparr>"

definition admin_extension_auth :: "uuid \<Rightarrow> string list \<Rightarrow> extension_auth api" where
  "admin_extension_auth u scopes =
     bindE new_v4 (\<lambda>jti. returnOk \<lparr> ea_user_id = u, ea_session_jti = jti, ea_platform = ''admin'',
       ea_device_id_hash = ''admin:'' @ u, ea_scope = scopes \<rparr>)"

definition run_as_user ::
  "admin_principal \<Rightarrow> request \<Rightarrow> string \<Rightarrow> uuid \<Rightarrow> (string \<times> json) list \<Rightarrow> 'a api \<Rightarrow> 'a api" where
  "run_as_user pr rq action u metadata m =
     catchE m
       (\<lambda>e. audit_as_user_action pr rq action u ''failed'' (JObj metadata) (throwErr e))
       (\<lambda>x. audit_as_user_action pr rq action u ''success'' (JObj metadata) (returnOk x))"

section \<open>Endpoints that run the handler of the user\<close>

definition as_user_feed ::
  "app \<Rightarrow> admin_principal \<Rightarrow> request \<Rightarrow> uuid \<Rightarrow> feed_query \<Rightarrow> video_feed_item list api" where
  "as_user_feed ap pr rq u q =
     run_as_user pr rq ''as_user_feed'' u [] (get_feed (admin_passthrough_state ap) True u q)"

definition as_user_init_upload ::
  "app \<Rightarrow> admin_principal \<Rightarrow> request \<Rightarrow> uuid \<Rightarrow> init_upload_request \<Rightarrow> init_upload_response api" where
  "as_user_init_upload ap pr rq u p =
     run_as_user pr rq ''as_user_init_upload'' u [] (init_upload (admin_passthrough_state ap) True u p)"

definition as_user_init_anonymous_upload ::
  "app \<Rightarrow> admin_principal \<Rightarrow> request \<Rightarrow> uuid \<Rightarrow> init_upload_request \<Rightarrow> init_upload_response api" where
  "as_user_init_anonymous_upload ap pr rq u p =
     run_as_user pr rq ''as_user_init_anonymous_upload'' u [] (init_anonymous_upload (admin_passthrough_state ap) True u p)"

definition as_user_confirm_upload ::
  "app \<Rightarrow> admin_principal \<Rightarrow> request \<Rightarrow> uuid \<Rightarrow> uuid \<Rightarrow> nat api" where
  "as_user_confirm_upload ap pr rq u i =
     run_as_user pr rq ''as_user_confirm_upload'' u [(''video_id'', JStr i)]
       (confirm_upload (admin_passthrough_state ap) True u i)"

definition as_user_search_videos ::
  "app \<Rightarrow> admin_principal \<Rightarrow> request \<Rightarrow> uuid \<Rightarrow> search_videos_query \<Rightarrow> video_feed_item list api" where
  "as_user_search_videos ap pr rq u q =
     run_as_user pr rq ''as_user_search_videos'' u [] (search_videos (admin_passthrough_state ap) True u q)"

definition as_user_search_videos_keyboard ::
  "app \<Rightarrow> admin_principal \<Rightarrow> request \<Rightarrow> uuid \<Rightarrow> keyboard_search_query \<Rightarrow> keyboard_search_item_dto list api" where
  "as_user_search_videos_keyboard ap pr rq u q =
     run_as_user pr rq ''as_user_search_videos_keyboard'' u []
       (bindE (admin_extension_auth u [''keyboard.search'', ''keyboard.send''])
          (\<lambda>ea. search_videos_keyboard (admin_passthrough_state ap) True ea q))"

definition as_user_create_send_ticket ::
  "app \<Rightarrow> admin_principal \<Rightarrow> request \<Rightarrow> uuid \<Rightarrow> uuid \<Rightarrow> create_send_ticket_request \<Rightarrow> send_ticket_response api" where
  "as_user_create_send_ticket ap pr rq u i p =
     run_as_user pr rq ''as_user_create_send_ticket'' u [(''video_id'', JStr i)]
       (bindE (admin_extension_auth u [''keyboard.send'', ''keyboard.search''])
          (\<lambda>ea. create_send_ticket (passthrough_config (ap_config ap)) True ea i p))"

definition as_user_redeem_send_ticket_media ::
  "app \<Rightarrow> admin_principal \<Rightarrow> request \<Rightarrow> uuid \<Rightarrow> uuid \<Rightarrow> string api" where
  "as_user_redeem_send_ticket_media ap pr rq u t =
     run_as_user pr rq ''as_user_redeem_send_ticket_media'' u [(''ticket_id'', JStr t)]
       (bindE (admin_extension_auth u [''keyboard.send'', ''keyboard.search''])
          (\<lambda>ea. redeem_send_ticket_media (admin_passthrough_state ap) ea t))"

definition as_user_get_bulk_download_status ::
  "admin_principal \<Rightarrow> request \<Rightarrow> uuid \<Rightarrow> uuid \<Rightarrow> bulk_download_status api" where
  "as_user_get_bulk_download_status pr rq u i =
     run_as_user pr rq ''as_user_get_bulk_download_status'' u [(''job_id'', JStr i)] (get_bulk_download_status u i)"

definition as_user_set_like_video ::
  "app \<Rightarrow> admin_principal \<Rightarrow> request \<Rightarrow> uuid \<Rightarrow> uuid \<Rightarrow> like_video_response api" where
  "as_user_set_like_video ap pr rq u i =
     run_as_user pr rq ''as_user_set_like_video'' u [(''video_id'', JStr i)]
       (set_like_video (passthrough_config (ap_config ap)) True u i)"

definition as_user_unset_like_video ::
  "app \<Rightarrow> admin_principal \<Rightarrow> request \<Rightarrow> uuid \<Rightarrow> uuid \<Rightarrow> like_video_response api" where
  "as_user_unset_like_video ap pr rq u i =
     run_as_user pr rq ''as_user_unset_like_video'' u [(''video_id'', JStr i)]
       (unset_like_video (passthrough_config (ap_config ap)) True u i)"

definition as_user_report_video ::
  "app \<Rightarrow> admin_principal \<Rightarrow> request \<Rightarrow> uuid \<Rightarrow> uuid \<Rightarrow> report_video_request \<Rightarrow> (nat \<times> video_report_dto) api" where
  "as_user_report_video ap pr rq u i p =
     run_as_user pr rq ''as_user_report_video'' u [(''video_id'', JStr i)]
       (report_video (passthrough_config (ap_config ap)) True u (pr_client_ip pr) rq i p)"

definition create_user_extension_session ::
  "app \<Rightarrow> admin_principal \<Rightarrow> request \<Rightarrow> uuid \<Rightarrow> extension_session_request \<Rightarrow> extension_session_response api" where
  "create_user_extension_session ap pr rq u p =
     run_as_user pr rq ''create_user_extension_session'' u [] (create_extension_session (admin_passthrough_state ap) u p)"

text \<open>The websocket of a user is opened with a fresh token in the place of the administrator's.\<close>

definition bearing :: "string \<Rightarrow> request \<Rightarrow> request" where
  "bearing token rq = rq\<lparr>rq_headers := (''authorization'', Some (''Bearer '' @ token)) # rq_headers rq\<rparr>"

definition as_user_my_videos_ws ::
  "app \<Rightarrow> hub_limits \<Rightarrow> admin_principal \<Rightarrow> request \<Rightarrow> uuid \<Rightarrow> realtime_hub \<Rightarrow> world
     \<Rightarrow> ((api_error + uuid \<times> claims) \<times> realtime_hub) \<times> world" where
  "as_user_my_videos_ws ap lim pr rq u h w =
     (case (callE (create_access_token (ap_libs ap) u (cf_jwt_secret (ap_config ap))
                     (cf_access_token_ttl_secs (ap_config ap))) (\<lambda>token.
            guardE (header_value_ok (''Bearer '' @ token)) (internal_error ''Failed to compose auth header'')
              (returnOk token)) :: string api) w of
        (Inl e, w) \<Rightarrow> ((Inl e, h), w)
      | (Inr token, w) \<Rightarrow>
          (case my_videos_ws (admin_passthrough_state ap) True lim (bearing token rq) h w of
             ((r, h), w) \<Rightarrow>
               (case audit_as_user_action pr rq ''as_user_my_videos_ws'' u
                       (case r of Inl _ \<Rightarrow> ''failed'' | Inr _ \<Rightarrow> ''success'') (JObj []) (from_sum r) w of
                  (r, w) \<Rightarrow> ((r, h), w))))"

section \<open>Endpoints with a body of their own\<close>

definition find_published :: "uuid \<Rightarrow> video api" where
  "find_published i =
     callE (db_read (\<lambda>d. find (\<lambda>v. v_id v = i \<and> v_deleted_at v = None \<and> v_status v = ''PUBLISHED'') (db_videos d))) (\<lambda>row.
     okOrE (not_found ''Video not found or has been deleted'') row returnOk)"

definition presigned_minute :: "app \<Rightarrow> video \<Rightarrow> string api" where
  "presigned_minute ap v =
     bindE (getsE clock) (\<lambda>now.
       okOrE (internal_error (''Failed to generate URL: '' @ lib_failure_text (ap_libs ap) StorageError))
         (lib_presigned_get (ap_libs ap) (cf_minio_bucket_videos (ap_config ap)) (v_s3_key v) 60 now) returnOk)"

definition as_user_download_video :: "app \<Rightarrow> admin_principal \<Rightarrow> request \<Rightarrow> uuid \<Rightarrow> uuid \<Rightarrow> string api" where
  "as_user_download_video ap pr rq u i =
     bindE (find_published i) (\<lambda>v.
     bindE (presigned_minute ap v) (\<lambda>url.
     audit_as_user_action pr rq ''as_user_download_video'' u ''success'' (JObj [(''video_id'', JStr i)]) (returnOk url)))"

definition as_user_refresh_download_url ::
  "app \<Rightarrow> admin_principal \<Rightarrow> request \<Rightarrow> uuid \<Rightarrow> uuid \<Rightarrow> refresh_download_response api" where
  "as_user_refresh_download_url ap pr rq u i =
     bindE (find_published i) (\<lambda>v.
     bindE (presigned_minute ap v) (\<lambda>url.
     audit_as_user_action pr rq ''as_user_refresh_download_url'' u ''success'' (JObj [(''video_id'', JStr i)])
       (returnOk \<lparr> rdr_download_url = url, rdr_expires_in_seconds = 60 \<rparr>)))"

definition admin_bulk_videos :: "uuid list \<Rightarrow> 'a api \<Rightarrow> 'a api" where
  "admin_bulk_videos is k =
     callE (db_read (\<lambda>d. filter (\<lambda>v. v_id v \<in> set is \<and> v_deleted_at v = None \<and> v_status v = ''PUBLISHED'') (db_videos d)))
       (\<lambda>found. guardE (length found = length is)
          (bad_request (''Some videos are not available: ['' @ join_with '', '' (missing_ids found is) @ '']'')) k)"

definition admin_announce_bulk :: "string \<Rightarrow> download_job \<Rightarrow> 'a api \<Rightarrow> 'a api" where
  "admin_announce_bulk key j k =
     catchE get_conn (\<lambda>_. k) (\<lambda>_.
       ignoreE (kv_set_ex (bulk_idempotency_cache_key key) (KText (dj_id j)) 86400)
      (ignoreE (external RedisError (\<lambda>w. (Inr (), w\<lparr>bulk_queue :=
                  bulk_payload (dj_id j) (dj_user_id j) (dj_video_ids j) # bulk_queue w\<rparr>)) :: unit io) k))"

definition as_user_create_bulk_download ::
  "admin_principal \<Rightarrow> request \<Rightarrow> uuid \<Rightarrow> create_bulk_download_request \<Rightarrow> bulk_download_job_response api" where
  "as_user_create_bulk_download pr rq u p =
     guardE (cbd_video_ids p \<noteq> []) (bad_request ''No video IDs provided'')
    (bindE (case cbd_idempotency_key p of
              Some k \<Rightarrow> returnOk k
            | None \<Rightarrow> bindE new_v4 (\<lambda>i. returnOk (''admin-bulk:'' @ u @ '':'' @ i))) (\<lambda>key.
     bindE (existing_bulk_job key) (\<lambda>existing.
       case existing of
         Some j \<Rightarrow>
           audit_as_user_action pr rq ''as_user_create_bulk_download'' u ''success''
             (JObj [(''idempotent_replay'', JBool True), (''job_id'', JStr (dj_id j))]) (returnOk (bulk_job_response j))
       | None \<Rightarrow>
           admin_bulk_videos (cbd_video_ids p)
          (bindE new_v4 (\<lambda>i.
           bindE (getsE clock) (\<lambda>now.
           let j = new_download_job u (cbd_video_ids p) key i now in
           callE (db_write (insert_download_job j)) (\<lambda>_.
           admin_announce_bulk key j
          (audit_as_user_action pr rq ''as_user_create_bulk_download'' u ''success''
             (JObj [(''job_id'', JStr i), (''video_count'', JNum (int (length (cbd_video_ids p))))])
             (returnOk (bulk_job_response j))))))))))"

definition as_user_delete_video :: "config \<Rightarrow> admin_principal \<Rightarrow> request \<Rightarrow> uuid \<Rightarrow> uuid \<Rightarrow> nat api" where
  "as_user_delete_video cf pr rq u i =
     callE (db_read (\<lambda>d. find (owned_row u i) (db_videos d))) (\<lambda>row.
     okOrE (not_found ''Video not found or not owned by user'') row (\<lambda>v.
     let finish = audit_as_user_action pr rq ''as_user_delete_video'' u ''success''
                    (JObj [(''video_id'', JStr i)]) (returnOk 204) in
     if v_deleted_at v \<noteq> None then finish
     else
       bindE (getsE clock) (\<lambda>now.
       callE (update_video_row (v_id v) (\<lambda>v. v\<lparr>v_deleted_at := Some now\<rparr>)) (\<lambda>_.
       (if v_status v = ''PUBLISHED'' then admin_invalidate_feed_cache else (\<lambda>k. k))
         (admin_invalidate_user_cache cf u finish)))))"

definition as_user_update_video_metadata ::
  "config \<Rightarrow> admin_principal \<Rightarrow> request \<Rightarrow> uuid \<Rightarrow> uuid \<Rightarrow> update_video_request \<Rightarrow> nat api" where
  "as_user_update_video_metadata cf pr rq u i p =
     guardE (case uvr_title p of None \<Rightarrow> True | Some t \<Rightarrow> length t \<le> 200)
       (bad_request ''Title too long. Maximum 200 characters.'')
    (guardE (case uvr_description p of None \<Rightarrow> True | Some t \<Rightarrow> length t \<le> 2000)
       (bad_request ''Description too long. Maximum 2000 characters.'')
    (callE (db_read (\<lambda>d. find (\<lambda>v. owned_row u i v \<and> v_deleted_at v = None) (db_videos d))) (\<lambda>row.
     okOrE (not_found ''Video not found or not owned by user'') row (\<lambda>v.
     let finish = audit_as_user_action pr rq ''as_user_update_video_metadata'' u ''success''
                    (JObj [(''video_id'', JStr i)]) (returnOk 200) in
     if changed_metadata p v = v then finish
     else
       bindE (getsE clock) (\<lambda>now.
       callE (update_video_row (v_id v) (\<lambda>v. (changed_metadata p v)\<lparr>v_updated_at := now\<rparr>)) (\<lambda>_.
       (if v_status v = ''PUBLISHED'' then admin_invalidate_feed_cache else (\<lambda>k. k))
         (admin_invalidate_user_cache cf u finish)))))))"

definition as_user_bulk_delete_videos ::
  "config \<Rightarrow> admin_principal \<Rightarrow> request \<Rightarrow> uuid \<Rightarrow> uuid list \<Rightarrow> nat api" where
  "as_user_bulk_delete_videos cf pr rq u is =
     (let finish = audit_as_user_action pr rq ''as_user_bulk_delete_videos'' u ''success'' (JObj []) (returnOk 200) in
      if is = [] then finish
      else
        bindE (getsE clock) (\<lambda>now.
        callE (db_write (\<lambda>d. Inr (d\<lparr>db_videos := update_where (\<lambda>v. v_user_id v = u \<and> v_id v \<in> set is)
                 (\<lambda>v. v\<lparr>v_deleted_at := Some now\<rparr>) (db_videos d)\<rparr>))) (\<lambda>_.
        admin_invalidate_user_cache cf u finish)))"

definition as_user_get_profile :: "config \<Rightarrow> admin_principal \<Rightarrow> request \<Rightarrow> uuid \<Rightarrow> user_dto api" where
  "as_user_get_profile cf pr rq u =
     callE (find_user u) (\<lambda>row.
     okOrE (not_found ''User not found'') row (\<lambda>x.
     audit_as_user_action pr rq ''as_user_get_profile'' u ''success'' (JObj [])
       (returnOk (from_user_model x (cf_terms_current_version cf)))))"

definition as_user_delete_account :: "config \<Rightarrow> admin_principal \<Rightarrow> request \<Rightarrow> uuid \<Rightarrow> nat api" where
  "as_user_delete_account cf pr rq u =
     callE (find_user u) (\<lambda>row.
     okOrE (not_found ''User not found'') row (\<lambda>x.
     bindE (getsE clock) (\<lambda>now.
     callE (db_write (update_user (u_id x) (\<lambda>x. x\<lparr>u_deleted_at := Some now\<rparr>))) (\<lambda>_.
     callE (logout_all u) (\<lambda>_.
     callE (revoke_extension_sessions u) (\<lambda>_.
     admin_invalidate_user_cache cf u
    (audit_as_user_action pr rq ''as_user_delete_account'' u ''success'' (JObj []) (returnOk 204))))))))"

definition as_user_get_videos ::
  "config \<Rightarrow> admin_principal \<Rightarrow> request \<Rightarrow> uuid \<Rightarrow> nat option \<Rightarrow> nat option \<Rightarrow> user_video_dto list api" where
  "as_user_get_videos cf pr rq u page_param per_page_param =
     (let page = max (or_default 1 page_param) 1; per_page = clamp_nat 1 100 (or_default 20 per_page_param) in
      callE (read_page ((page - 1) * per_page) (\<lambda>d. page_slice per_page (page - 1) (videos_of u d))) (\<lambda>items.
      callE (db_read (\<lambda>d. set (map l_video_id
               (filter (\<lambda>l. l_user_id l = u \<and> l_video_id l \<in> set (map v_id items)) (db_likes d))))) (\<lambda>liked.
      let ds = map (\<lambda>v. video_model_to_user_dto cf v (v_id v \<in> liked)) items in
      audit_as_user_action pr rq ''as_user_get_videos'' u ''success'' (JObj [(''count'', JNum (int (length ds)))])
        (returnOk ds))))"

definition as_user_update_username ::
  "config \<Rightarrow> admin_principal \<Rightarrow> request \<Rightarrow> uuid \<Rightarrow> string \<Rightarrow> user_dto api" where
  "as_user_update_username cf pr rq u name =
     bindE (from_sum (case validate_username name cf of
                        Inl e \<Rightarrow> Inl (bad_request (username_error_message e)) | Inr v \<Rightarrow> Inr v)) (\<lambda>v.
     callE (find_user u) (\<lambda>row.
     okOrE (not_found ''User not found'') row (\<lambda>x.
     callE (username_exists_case_insensitive (vu_normalized v) (Some u)) (\<lambda>taken.
     guardE (\<not> taken) (conflict ''Username already taken'')
    (bindE (getsE clock) (\<lambda>now.
     bindErr rename_error (db_write (update_user (u_id x) (rename_row v now))) (\<lambda>_.
     admin_invalidate_user_cache cf u
    (audit_as_user_action pr rq ''as_user_update_username'' u ''success'' (JObj [])
       (returnOk (from_user_model (rename_row v now x) (cf_terms_current_version cf)))))))))))"

definition create_user_session ::
  "app \<Rightarrow> admin_principal \<Rightarrow> request \<Rightarrow> uuid \<Rightarrow> (string \<times> string \<times> user_dto) api" where
  "create_user_session ap pr rq u =
     (let cf = ap_config ap in
      callE (find_user u) (\<lambda>row.
      okOrE (not_found ''User not found'') row (\<lambda>x.
      callE (issue_tokens_for_user (ap_libs ap) x (cf_jwt_secret cf) (cf_access_token_ttl_secs cf)
               (cf_refresh_token_ttl_days cf)) (\<lambda>(access_token, refresh_token).
      audit_as_user_action pr rq ''create_user_session'' u ''success'' (JObj [])
        (returnOk (access_token, refresh_token, from_user_model x (cf_terms_current_version cf)))))))"

definition as_user_refresh_session ::
  "app \<Rightarrow> admin_principal \<Rightarrow> request \<Rightarrow> uuid \<Rightarrow> string \<Rightarrow> string \<Rightarrow> (string \<times> string) api" where
  "as_user_refresh_session ap pr rq u access refresh =
     (let cf = ap_config ap in
      bindErr refresh_error (refresh_access_token (ap_libs ap) access refresh (cf_jwt_secret cf)
          (cf_access_token_ttl_secs cf) (cf_refresh_token_ttl_days cf)) (\<lambda>tokens.
      audit_as_user_action pr rq ''as_user_refresh_session'' u ''success'' (JObj []) (returnOk tokens)))"

definition as_user_logout_all :: "admin_principal \<Rightarrow> request \<Rightarrow> uuid \<Rightarrow> nat api" where
  "as_user_logout_all pr rq u =
     callE (find_user u) (\<lambda>row.
     okOrE (not_found ''User not found'') row (\<lambda>_.
     callE (logout_all u) (\<lambda>_.
     callE (revoke_extension_sessions u) (\<lambda>_.
     audit_as_user_action pr rq ''as_user_logout_all'' u ''success'' (JObj []) (returnOk 200)))))"

definition as_user_onboarding_status ::
  "config \<Rightarrow> admin_principal \<Rightarrow> request \<Rightarrow> uuid \<Rightarrow> onboarding_status_response api" where
  "as_user_onboarding_status cf pr rq u =
     callE (find_user u) (\<lambda>row.
     okOrE (not_found ''User not found'') row (\<lambda>x.
     audit_as_user_action pr rq ''as_user_onboarding_status'' u ''success'' (JObj [])
       (returnOk (build_onboarding_status x cf))))"

definition forget_profiles :: "config \<Rightarrow> uuid \<Rightarrow> 'a api \<Rightarrow> 'a api" where
  "forget_profiles cf u k =
     catchE get_conn (\<lambda>_. k) (\<lambda>_.
       ignoreE (kv_del (''user:'' @ u @ '':profile''))
      (ignoreE (kv_del (user_profile_cache_key u (cf_terms_current_version cf))) k))"

definition as_user_onboarding_complete ::
  "config \<Rightarrow> admin_principal \<Rightarrow> request \<Rightarrow> uuid \<Rightarrow> complete_onboarding_request \<Rightarrow> onboarding_status_response api" where
  "as_user_onboarding_complete cf pr rq u p =
     (let terms = cf_terms_current_version cf in
      guardE (cor_age_confirmed p) (bad_request ''age_confirmed must be true'')
     (guardE (cor_terms_version p = terms) (bad_request (''terms_version must match current version: '' @ terms))
     (callE (find_user u) (\<lambda>row.
      okOrE (not_found ''User not found'') row (\<lambda>x.
      bindE (getsE clock) (\<lambda>now.
      let already = onboarded cf x in
      bindE (if already then returnOk x
             else callE (db_write (update_user (u_id x) (onboard_row terms now)))
                    (\<lambda>_. returnOk (onboard_row terms now x))) (\<lambda>updated.
      forget_profiles cf u
     (audit_as_user_action pr rq ''as_user_onboarding_complete'' u ''success''
        (JObj [(''already_complete'', JBool already)]) (returnOk (build_onboarding_status updated cf))))))))))"

section \<open>Every action is in the audit log\<close>



end
