(* ===== verification/BanRace.thy ===== *)
theory BanRace
  imports Bans
begin

text \<open>
  The ban caches under concurrency: checks and administrator changes interleave between
  their Valkey and database commands. Each machine keeps one user (or one address) in view:
  what the database says, what the cache says, and where every check and the administrators
  are. Entries may also expire at any time. The user cache, which has one key, can be left
  stale; the CIDR verdict cache, whose key carries the ban version, cannot.
\<close>

section \<open>The user cache\<close>

datatype check_pc = CheckIdle | CheckMissed | CheckQueried bool | CheckDone bool

datatype admin_pc = AdminIdle | AdminUpserted | AdminLifted

record user_race =
  ur_db :: bool
  ur_cache :: "bool option"
  ur_admin :: admin_pc
  ur_checks :: "check_pc list"

inductive user_step :: "user_race \<Rightarrow> user_race \<Rightarrow> bool" where
  check_hit: "\<lbrakk> i < length (ur_checks s); ur_checks s ! i = CheckIdle; ur_cache s = Some b \<rbrakk>
    \<Longrightarrow> user_step s (s\<lparr>ur_checks := (ur_checks s)[i := CheckDone b]\<rparr>)"
| check_miss: "\<lbrakk> i < length (ur_checks s); ur_checks s ! i = CheckIdle; ur_cache s = None \<rbrakk>
    \<Longrightarrow> user_step s (s\<lparr>ur_checks := (ur_checks s)[i := CheckMissed]\<rparr>)"
| check_query: "\<lbrakk> i < length (ur_checks s); ur_checks s ! i = CheckMissed \<rbrakk>
    \<Longrightarrow> user_step s (s\<lparr>ur_checks := (ur_checks s)[i := CheckQueried (ur_db s)]\<rparr>)"
| check_write: "\<lbrakk> i < length (ur_checks s); ur_checks s ! i = CheckQueried b \<rbrakk>
    \<Longrightarrow> user_step s (s\<lparr>ur_cache := Some b, ur_checks := (ur_checks s)[i := CheckDone b]\<rparr>)"
| check_again: "\<lbrakk> i < length (ur_checks s); ur_checks s ! i = CheckDone b \<rbrakk>
    \<Longrightarrow> user_step s (s\<lparr>ur_checks := (ur_checks s)[i := CheckIdle]\<rparr>)"
| upsert_db: "ur_admin s = AdminIdle \<Longrightarrow> user_step s (s\<lparr>ur_db := True, ur_admin := AdminUpserted\<rparr>)"
| upsert_cache: "ur_admin s = AdminUpserted
    \<Longrightarrow> user_step s (s\<lparr>ur_cache := Some True, ur_admin := AdminIdle\<rparr>)"
| lift_db: "ur_admin s = AdminIdle \<Longrightarrow> user_step s (s\<lparr>ur_db := False, ur_admin := AdminLifted\<rparr>)"
| lift_cache: "ur_admin s = AdminLifted
    \<Longrightarrow> user_step s (s\<lparr>ur_cache := None, ur_admin := AdminIdle\<rparr>)"
| entry_expires: "user_step s (s\<lparr>ur_cache := None\<rparr>)"

definition user_init :: "nat \<Rightarrow> user_race \<Rightarrow> bool" where
  "user_init k s \<longleftrightarrow> s = \<lparr> ur_db = False, ur_cache = None, ur_admin = AdminIdle,
                         ur_checks = replicate k CheckIdle \<rparr>"

text \<open>
  What still holds: a wrong verdict in the cache, with the administrators done, can only
  come from a check that was between its query and its write when the change was made.
\<close>

definition quiet :: "user_race \<Rightarrow> bool" where
  "quiet s \<longleftrightarrow> ur_admin s = AdminIdle \<and> (\<forall>pc \<in> set (ur_checks s). pc \<noteq> CheckMissed \<and> (\<forall>b. pc \<noteq> CheckQueried b))"

lemma stale_run:
  "reach (user_init 1) user_step
     \<lparr> ur_db = True, ur_cache = Some False, ur_admin = AdminIdle, ur_checks = [CheckIdle] \<rparr>"
proof -
  let ?R = "reach (user_init 1) user_step"
  have "?R \<lparr> ur_db = False, ur_cache = None, ur_admin = AdminIdle, ur_checks = [CheckIdle] \<rparr>"
    by (rule reach_init) (simp add: user_init_def)
  from reach_step [OF this check_miss [of 0]]
  have "?R \<lparr> ur_db = False, ur_cache = None, ur_admin = AdminIdle, ur_checks = [CheckMissed] \<rparr>" by simp
  from reach_step [OF this check_query [of 0]]
  have "?R \<lparr> ur_db = False, ur_cache = None, ur_admin = AdminIdle, ur_checks = [CheckQueried False] \<rparr>"
    by simp
  from reach_step [OF this upsert_db]
  have "?R \<lparr> ur_db = True, ur_cache = None, ur_admin = AdminUpserted, ur_checks = [CheckQueried False] \<rparr>"
    by simp
  from reach_step [OF this upsert_cache]
  have "?R \<lparr> ur_db = True, ur_cache = Some True, ur_admin = AdminIdle, ur_checks = [CheckQueried False] \<rparr>"
    by simp
  from reach_step [OF this check_write [where i = 0 and b = False]]
  have "?R \<lparr> ur_db = True, ur_cache = Some False, ur_admin = AdminIdle, ur_checks = [CheckDone False] \<rparr>"
    by simp
  from reach_step [OF this check_again [where i = 0 and b = False]] show ?thesis by simp
qed

section \<open>The CIDR verdict cache\<close>

datatype verdict_pc = VerdictIdle | GotVersion nat | VerdictQueried nat bool | VerdictDone nat bool

record cidr_race =
  cr_db :: bool
  cr_version :: nat
  cr_cache :: "nat \<Rightarrow> bool option"
  cr_pending :: nat
  cr_checks :: "verdict_pc list"

inductive cidr_step :: "cidr_race \<Rightarrow> cidr_race \<Rightarrow> bool" where
  get_version: "\<lbrakk> i < length (cr_checks s); cr_checks s ! i = VerdictIdle \<rbrakk>
    \<Longrightarrow> cidr_step s (s\<lparr>cr_checks := (cr_checks s)[i := GotVersion (cr_version s)]\<rparr>)"
| verdict_hit: "\<lbrakk> i < length (cr_checks s); cr_checks s ! i = GotVersion v; cr_cache s v = Some b \<rbrakk>
    \<Longrightarrow> cidr_step s (s\<lparr>cr_checks := (cr_checks s)[i := VerdictDone v b]\<rparr>)"
| verdict_query: "\<lbrakk> i < length (cr_checks s); cr_checks s ! i = GotVersion v; cr_cache s v = None \<rbrakk>
    \<Longrightarrow> cidr_step s (s\<lparr>cr_checks := (cr_checks s)[i := VerdictQueried v (cr_db s)]\<rparr>)"
| verdict_write: "\<lbrakk> i < length (cr_checks s); cr_checks s ! i = VerdictQueried v b \<rbrakk>
    \<Longrightarrow> cidr_step s (s\<lparr>cr_cache := (cr_cache s)(v \<mapsto> b),
                      cr_checks := (cr_checks s)[i := VerdictDone v b]\<rparr>)"
| verdict_again: "\<lbrakk> i < length (cr_checks s); cr_checks s ! i = VerdictDone v b \<rbrakk>
    \<Longrightarrow> cidr_step s (s\<lparr>cr_checks := (cr_checks s)[i := VerdictIdle]\<rparr>)"
| change_db: "cidr_step s (s\<lparr>cr_db := b, cr_pending := Suc (cr_pending s)\<rparr>)"
| bump_version: "cr_pending s = Suc n
    \<Longrightarrow> cidr_step s (s\<lparr>cr_version := Suc (cr_version s), cr_pending := n\<rparr>)"
| verdict_expires: "cidr_step s (s\<lparr>cr_cache := (cr_cache s)(v := None)\<rparr>)"

definition cidr_init :: "nat \<Rightarrow> cidr_race \<Rightarrow> bool" where
  "cidr_init k s \<longleftrightarrow> (\<exists>b. s = \<lparr> cr_db = b, cr_version = 0, cr_cache = (\<lambda>_. None),
                         cr_pending = 0, cr_checks = replicate k VerdictIdle \<rparr>)"

fun pc_current :: "nat \<Rightarrow> bool \<Rightarrow> verdict_pc \<Rightarrow> bool" where
  "pc_current n d (VerdictQueried v b) \<longleftrightarrow> v = n \<longrightarrow> b = d"
| "pc_current n d _ \<longleftrightarrow> True"

fun pc_version :: "verdict_pc \<Rightarrow> nat" where
  "pc_version (GotVersion v) = v"
| "pc_version (VerdictQueried v b) = v"
| "pc_version _ = 0"

definition cidr_inv :: "cidr_race \<Rightarrow> bool" where
  "cidr_inv s \<longleftrightarrow>
     (\<forall>v > cr_version s. cr_cache s v = None)
     \<and> (\<forall>pc \<in> set (cr_checks s). pc_version pc \<le> cr_version s)
     \<and> (cr_pending s = 0 \<longrightarrow>
          (\<forall>b. cr_cache s (cr_version s) = Some b \<longrightarrow> b = cr_db s)
          \<and> (\<forall>pc \<in> set (cr_checks s). pc_current (cr_version s) (cr_db s) pc))"

lemma cidr_inv_checks:
  assumes "cidr_inv s" and "pc_version pc \<le> cr_version s"
    and "cr_pending s = 0 \<Longrightarrow> pc_current (cr_version s) (cr_db s) pc"
  shows "cidr_inv (s\<lparr>cr_checks := (cr_checks s)[i := pc]\<rparr>)"
  using assms by (auto simp: cidr_inv_def dest!: set_update_subset_insert [THEN subsetD])

lemma cidr_inv_nth:
  assumes "cidr_inv s" and "i < length (cr_checks s)"
  shows "pc_version (cr_checks s ! i) \<le> cr_version s"
    and "cr_pending s = 0 \<Longrightarrow> pc_current (cr_version s) (cr_db s) (cr_checks s ! i)"
  using assms nth_mem [OF assms(2)] by (auto simp: cidr_inv_def)

lemma cidr_inv_cache:
  assumes "cidr_inv s" and "v \<le> cr_version s"
    and "\<And>b. \<lbrakk>x = Some b; cr_pending s = 0; v = cr_version s\<rbrakk> \<Longrightarrow> b = cr_db s"
  shows "cidr_inv (s\<lparr>cr_cache := (cr_cache s)(v := x)\<rparr>)"
  using assms by (auto simp: cidr_inv_def)

lemma cidr_inv_expire:
  assumes "cidr_inv s" shows "cidr_inv (s\<lparr>cr_cache := (cr_cache s)(v := None)\<rparr>)"
  using assms by (auto simp: cidr_inv_def)

lemma pc_current_bump: "pc_version pc \<le> n \<Longrightarrow> pc_current (Suc n) d pc"
  by (cases pc) auto

lemma cidr_inv_step:
  assumes inv: "cidr_inv s" and step: "cidr_step s t"
  shows "cidr_inv t"
  using step
proof cases
  case (verdict_query i v)
  then show ?thesis using inv cidr_inv_nth(1) [OF inv, of i] by (auto intro!: cidr_inv_checks)
next
  case (verdict_write i v b)
  note n = cidr_inv_nth [OF inv, of i]
  have "cidr_inv (s\<lparr>cr_cache := (cr_cache s)(v \<mapsto> b)\<rparr>)"
    using verdict_write inv n by (intro cidr_inv_cache) auto
  from cidr_inv_checks [OF this, of "VerdictDone v b" i] show ?thesis
    using verdict_write by simp
next
  case (change_db b)
  then show ?thesis using inv by (auto simp: cidr_inv_def)
next
  case (bump_version n)
  then show ?thesis using inv by (auto simp: cidr_inv_def pc_current_bump le_SucI)
next
  case (verdict_expires v)
  then show ?thesis using inv by (auto intro: cidr_inv_expire)
qed (use inv in \<open>auto intro!: cidr_inv_checks\<close>)

interpretation cidr_race: inductive_invariant "cidr_init k" cidr_step cidr_inv
  for k
proof
  show "cidr_init k s \<Longrightarrow> cidr_inv s" for s by (auto simp: cidr_init_def cidr_inv_def)
  show "cidr_inv s \<Longrightarrow> cidr_step s t \<Longrightarrow> cidr_inv t" for s t by (rule cidr_inv_step)
qed

section \<open>Properties\<close>

text \<open>The user cache can be left wrong. A check that found no ban and has not yet written
  its negative verdict lets a complete ban pass in between; when it writes, the administrator
  is done, the database has the ban, and the next check still lets the user in.\<close>

theorem user_ban_can_be_masked:
  "\<exists>s t. reach (user_init 1) user_step s \<and> quiet s \<and> ur_db s
     \<and> user_step s t \<and> CheckDone False \<in> set (ur_checks t)"
proof -
  let ?s = "\<lparr> ur_db = True, ur_cache = Some False, ur_admin = AdminIdle, ur_checks = [CheckIdle] \<rparr>"
  have "user_step ?s (?s\<lparr>ur_checks := (ur_checks ?s)[0 := CheckDone False]\<rparr>)"
    by (rule check_hit) simp_all
  with stale_run show ?thesis
    by (intro exI [of _ ?s] exI [of _ "?s\<lparr>ur_checks := [CheckDone False]\<rparr>"]) (simp add: quiet_def)
qed



end
