(* ===== verification/Configuration.thy ===== *)
theory Configuration
  imports System
begin

text \<open>
  What the processes read when they start (\<^verbatim>\<open>shared/src/config.rs\<close>): the variables of the
  environment with their defaults, and the terms of service in two languages.
\<close>

section \<open>The environment\<close>

text \<open>The environment (after \<^verbatim>\<open>.env\<close>), the files that can be read, and the reading of a JSON object of
  strings. A start ends with an error, or with a panic where the source says \<^verbatim>\<open>expect\<close>.\<close>

record surroundings =
  sr_var :: "string \<Rightarrow> string option"
  sr_file :: "string \<Rightarrow> string option"
  sr_json_map :: "string \<Rightarrow> (string \<times> string) list option"

datatype startup_error = ConfigError string | ParseFailure string | StartupPanic string

definition bindS :: "startup_error + 'a \<Rightarrow> ('a \<Rightarrow> startup_error + 'b) \<Rightarrow> startup_error + 'b" where
  "bindS m k = (case m of Inl e \<Rightarrow> Inl e | Inr x \<Rightarrow> k x)"

lemma bindS_simps [simp]: "bindS (Inl e) k = Inl e" "bindS (Inr x) k = k x"
  by (simp_all add: bindS_def)

lemma bindS_InrE:
  "bindS m k = Inr y \<Longrightarrow> (\<And>x. m = Inr x \<Longrightarrow> k x = Inr y \<Longrightarrow> R) \<Longrightarrow> R"
  by (cases m) auto

definition ensureS :: "bool \<Rightarrow> startup_error \<Rightarrow> startup_error + 'b \<Rightarrow> startup_error + 'b" where
  "ensureS b e k = (if b then k else Inl e)"

lemma ensureS_InrE: "ensureS b e k = Inr y \<Longrightarrow> (b \<Longrightarrow> k = Inr y \<Longrightarrow> R) \<Longrightarrow> R"
  by (auto simp: ensureS_def split: if_splits)

definition env_or :: "surroundings \<Rightarrow> string \<Rightarrow> string \<Rightarrow> string" where
  "env_or sr key d = (case sr_var sr key of None \<Rightarrow> d | Some v \<Rightarrow> v)"

definition non_empty :: "string \<Rightarrow> string option" where
  "non_empty s = (if s = [] then None else Some s)"

definition env_opt_trimmed :: "surroundings \<Rightarrow> string \<Rightarrow> string option" where
  "env_opt_trimmed sr key = Option.bind (sr_var sr key) (\<lambda>v. non_empty (trim v))"

definition parse_csv_list :: "string \<Rightarrow> string list" where
  "parse_csv_list value = filter (\<lambda>s. s \<noteq> []) (map trim (split_on CHR '','' value))"

text \<open>\<^verbatim>\<open>parse\<close> into an unsigned or signed integer of some width, and into a truth value.\<close>

definition parse_unsigned :: "nat \<Rightarrow> string \<Rightarrow> nat option" where
  "parse_unsigned w s = (case parse_nat s of Some n \<Rightarrow> (if n < 2 ^ w then Some n else None) | None \<Rightarrow> None)"

definition parse_signed :: "nat \<Rightarrow> string \<Rightarrow> int option" where
  "parse_signed w s =
     (case s of
        c # t \<Rightarrow> (if c = CHR ''-'' \<and> t \<noteq> [] \<and> list_all is_ascii_digit t
                 then (if digits_val t \<le> 2 ^ (w - 1) then Some (- int (digits_val t)) else None)
                 else case parse_nat s of
                   Some n \<Rightarrow> (if n < 2 ^ (w - 1) then Some (int n) else None) | None \<Rightarrow> None)
      | [] \<Rightarrow> None)"

definition parse_bool :: "string \<Rightarrow> bool option" where
  "parse_bool s = (if s = ''true'' then Some True else if s = ''false'' then Some False else None)"

text \<open>A flag that is not a truth value counts as its default.\<close>

definition env_flag :: "surroundings \<Rightarrow> string \<Rightarrow> bool \<Rightarrow> bool" where
  "env_flag sr key d =
     (case parse_bool (env_or sr key (if d then ''true'' else ''false'')) of None \<Rightarrow> d | Some b \<Rightarrow> b)"

section \<open>Terms\<close>

text \<open>The position of the first occurrence, as \<^verbatim>\<open>str::find\<close>.\<close>

fun find_str :: "string \<Rightarrow> string \<Rightarrow> nat option" where
  "find_str [] p = (if p = [] then Some 0 else None)"
| "find_str (c # cs) p = (if prefix p (c # cs) then Some 0 else map_option Suc (find_str cs p))"

definition newline :: char where "newline = CHR 10"

definition front_open :: string where "front_open = ''---'' @ [newline]"

definition front_close :: string where "front_close = newline # ''---'' @ [newline]"

definition parse_terms_frontmatter ::
  "libs \<Rightarrow> string \<Rightarrow> startup_error + terms_frontmatter option \<times> string" where
  "parse_terms_frontmatter L raw =
     (if \<not> prefix front_open raw then Inr (None, raw)
      else
        let rest = drop (length front_open) raw in
        case find_str rest front_close of
          None \<Rightarrow> Inl (ConfigError ''TERMS_CONTENT has opening frontmatter marker but missing closing marker'')
        | Some close_pos \<Rightarrow>
            (case lib_yaml_frontmatter L (take close_pos rest) of
               None \<Rightarrow> Inl (ConfigError ''Failed to parse terms frontmatter YAML'')
             | Some fm \<Rightarrow>
                 Inr (Some fm, dropWhile (\<lambda>c. c = newline) (drop (close_pos + length front_close) rest))))"

record localized_terms_source =
  lts_url :: "string option"
  lts_content_raw :: "string option"
  lts_content_type_override :: "string option"

text \<open>A variable of one language, for English also the one without a language.\<close>

definition language_var :: "surroundings \<Rightarrow> bool \<Rightarrow> string \<Rightarrow> string \<Rightarrow> string option" where
  "language_var sr legacy name lang =
     (case env_opt_trimmed sr (name @ ''_'' @ lang) of
        Some v \<Rightarrow> Some v
      | None \<Rightarrow> if legacy then env_opt_trimmed sr name else None)"

definition load_localized_terms_source ::
  "surroundings \<Rightarrow> string \<Rightarrow> bool \<Rightarrow> startup_error + localized_terms_source" where
  "load_localized_terms_source sr language legacy =
     (let lang = to_ascii_uppercase language;
          var = (\<lambda>name. language_var sr legacy name lang);
          content_inline = var ''TERMS_CONTENT''; content_file_path = var ''TERMS_CONTENT_FILE_PATH'' in
      ensureS (\<not> (content_inline \<noteq> None \<and> content_file_path \<noteq> None))
        (ConfigError (''Set either TERMS_CONTENT_'' @ lang @ '' or TERMS_CONTENT_FILE_PATH_'' @ lang @ '', not both''))
     (bindS (case content_file_path of
               None \<Rightarrow> Inr content_inline
             | Some path \<Rightarrow>
                 (case sr_file sr path of
                    None \<Rightarrow> Inl (ConfigError (''Failed to read TERMS_CONTENT_FILE_PATH_'' @ lang))
                  | Some text \<Rightarrow> Inr (Some text))) (\<lambda>content_raw.
        Inr \<lparr> lts_url = var ''TERMS_URL'', lts_content_raw = content_raw,
              lts_content_type_override = var ''TERMS_CONTENT_TYPE'' \<rparr>)))"

definition build_localized_terms_document ::
  "libs \<Rightarrow> string \<Rightarrow> localized_terms_source \<Rightarrow> string \<Rightarrow> bool \<Rightarrow> string list \<Rightarrow> startup_error + localized_terms_document" where
  "build_localized_terms_document L language source current require_match jurisdictions =
     ensureS (\<not> (lts_url source = None \<and> lts_content_raw source = None))
       (ConfigError (''Terms for language '' @ language @ '' must configure either URL or embedded content''))
    (bindS (case lts_content_raw source of
              None \<Rightarrow> Inr (None, None)
            | Some raw \<Rightarrow> bindS (parse_terms_frontmatter L raw) (\<lambda>(fm, body). Inr (fm, Some body))) (\<lambda>(fm, content).
     ensureS (\<not> (require_match \<and> (case Option.bind fm tf_version of None \<Rightarrow> False | Some v \<Rightarrow> trim v \<noteq> current)))
       (ConfigError (''Terms frontmatter version for language '' @ language @ '' does not match TERMS_CURRENT_VERSION''))
    (let content_type = map_option (\<lambda>_. trim (case lts_content_type_override source of
           None \<Rightarrow> ''text/markdown'' | Some t \<Rightarrow> t)) content in
     ensureS (content_type \<noteq> Some [])
       (ConfigError (''Terms content type for language '' @ language @ '' must be non-empty when embedded content is configured''))
       (Inr \<lparr> ltd_language = language, ltd_version = current, ltd_url = lts_url source,
          ltd_content_type = content_type, ltd_content_sha256 = map_option (lib_sha256_hex L) content,
          ltd_content = content,
          ltd_effective_at = Option.bind (Option.bind fm tf_effective_at) (\<lambda>v. non_empty (trim v)),
          ltd_jurisdictions = (case Option.bind fm tf_jurisdictions of
              Some (i # is) \<Rightarrow> i # is | _ \<Rightarrow> jurisdictions) \<rparr>))))"

section \<open>The settings\<close>

text \<open>What only the start-up uses is kept beside the configuration of the handlers.\<close>

record settings = config +
  st_server_host :: string
  st_server_port :: nat
  st_database_url :: string
  st_valkey_url :: string
  st_auth_require_username_on_google_signup :: bool
  st_terms_url :: "string option"
  st_terms_content :: "string option"
  st_terms_content_type :: "string option"
  st_terms_content_sha256 :: "string option"
  st_terms_effective_at :: "string option"
  st_terms_jurisdictions :: "string list"
  st_terms_require_version_match :: bool
  st_google_client_id :: string
  st_google_client_secret :: string
  st_minio_endpoint :: string
  st_minio_access_key :: string
  st_minio_secret_key :: string
  st_security_events_purge_interval_secs :: nat
  st_abuse_report_purge_interval_secs :: nat
  st_otc_rate_limit_max_attempts :: "32 word"
  st_otc_rate_limit_window_seconds :: nat
  st_search_timeout_secs :: nat
  st_draft_video_cleanup_hours :: nat

text \<open>One field after the other, in the order of the source: the first that cannot be read decides
  the error.\<close>

fun steps :: "('s \<Rightarrow> startup_error + 's) list \<Rightarrow> 's \<Rightarrow> startup_error + 's" where
  "steps [] s = Inr s"
| "steps (f # fs) s = bindS (f s) (steps fs)"

definition field :: "surroundings \<Rightarrow> string \<Rightarrow> string \<Rightarrow> (string \<Rightarrow> 'v option) \<Rightarrow> (('v \<Rightarrow> 'v) \<Rightarrow> 's \<Rightarrow> 's) \<Rightarrow> 's \<Rightarrow> startup_error + 's" where
  "field sr key d parse upd s =
     (case parse (env_or sr key d) of None \<Rightarrow> Inl (ParseFailure key) | Some v \<Rightarrow> Inr (upd (\<lambda>_. v) s))"

definition text_field :: "surroundings \<Rightarrow> string \<Rightarrow> string \<Rightarrow> ((string \<Rightarrow> string) \<Rightarrow> 's \<Rightarrow> 's) \<Rightarrow> 's \<Rightarrow> startup_error + 's" where
  "text_field sr key d upd s = Inr (upd (\<lambda>_. env_or sr key d) s)"

definition flag_field :: "surroundings \<Rightarrow> string \<Rightarrow> bool \<Rightarrow> ((bool \<Rightarrow> bool) \<Rightarrow> 's \<Rightarrow> 's) \<Rightarrow> 's \<Rightarrow> startup_error + 's" where
  "flag_field sr key d upd s = Inr (upd (\<lambda>_. env_flag sr key d) s)"

definition required_field :: "surroundings \<Rightarrow> string \<Rightarrow> ((string \<Rightarrow> string) \<Rightarrow> 's \<Rightarrow> 's) \<Rightarrow> 's \<Rightarrow> startup_error + 's" where
  "required_field sr key upd s =
     (case sr_var sr key of None \<Rightarrow> Inl (StartupPanic key) | Some v \<Rightarrow> Inr (upd (\<lambda>_. v) s))"

abbreviation "u16 \<equiv> parse_unsigned 16"

abbreviation "u64 \<equiv> parse_unsigned 64"

abbreviation "i64 \<equiv> parse_signed 64"

definition u64_word :: "string \<Rightarrow> 64 word option" where
  "u64_word s = map_option of_nat (parse_unsigned 64 s)"

definition u32_word :: "string \<Rightarrow> 32 word option" where
  "u32_word s = map_option of_nat (parse_unsigned 32 s)"

definition u8_word :: "string \<Rightarrow> 8 word option" where
  "u8_word s = map_option of_nat (parse_unsigned 8 s)"

definition without_trailing_slashes :: "string \<Rightarrow> string" where
  "without_trailing_slashes s = rev (dropWhile (\<lambda>c. c = CHR ''/'') (rev s))"

definition load_server :: "surroundings \<Rightarrow> settings \<Rightarrow> startup_error + settings" where
  "load_server sr = steps
     [text_field sr ''SERVER_HOST'' ''0.0.0.0'' st_server_host_update,
      (\<lambda>s. case u16 (env_or sr ''SERVER_PORT'' ''3000'') of
             None \<Rightarrow> Inl (StartupPanic ''SERVER_PORT'') | Some p \<Rightarrow> Inr (s\<lparr>st_server_port := p\<rparr>)),
      (\<lambda>s. Inr (s\<lparr>cf_oauth_redirect_base_url
              := without_trailing_slashes (env_or sr ''OAUTH_REDIRECT_BASE_URL'' ''http://localhost:80'')\<rparr>)),
      (\<lambda>s. Inr (s\<lparr>cf_frontend_app_url
              := without_trailing_slashes (env_or sr ''FRONTEND_APP_URL'' ''http://localhost:3000'')\<rparr>)),
      text_field sr ''CORS_ALLOWED_ORIGINS'' [] cf_cors_allowed_origins_update,
      text_field sr ''ENVIRONMENT'' ''development'' cf_environment_update,
      flag_field sr ''REQUIRE_CLOUDFLARE_HEADERS'' False cf_require_cloudflare_headers_update,
      required_field sr ''DATABASE_URL'' st_database_url_update,
      required_field sr ''VALKEY_URL'' st_valkey_url_update,
      required_field sr ''JWT_SECRET'' cf_jwt_secret_update,
      field sr ''ACCESS_TOKEN_TTL_SECS'' ''900'' u64 cf_access_token_ttl_secs_update,
      field sr ''REFRESH_TOKEN_TTL_DAYS'' ''14'' u16 cf_refresh_token_ttl_days_update,
      flag_field sr ''AUTH_REQUIRE_USERNAME_ON_GOOGLE_SIGNUP'' True st_auth_require_username_on_google_signup_update]"

definition load_modes :: "surroundings \<Rightarrow> settings \<Rightarrow> startup_error + settings" where
  "load_modes sr = steps
     [flag_field sr ''READ_ONLY_MODE_ENABLED'' False cf_read_only_mode_enabled_update,
      flag_field sr ''MAINTENANCE_MODE_ENABLED'' False cf_maintenance_mode_enabled_update,
      text_field sr ''USERNAME_RESERVED_VALUES'' [] cf_username_reserved_values_update]"

definition load_storage :: "surroundings \<Rightarrow> settings \<Rightarrow> startup_error + settings" where
  "load_storage sr = steps
     [required_field sr ''GOOGLE_CLIENT_ID'' st_google_client_id_update,
      required_field sr ''GOOGLE_CLIENT_SECRET'' st_google_client_secret_update,
      text_field sr ''MOBILE_APP_SCHEME'' ''memegy://'' cf_mobile_app_scheme_update,
      required_field sr ''MINIO_ENDPOINT'' st_minio_endpoint_update,
      required_field sr ''MINIO_ROOT_USER'' st_minio_access_key_update,
      required_field sr ''MINIO_ROOT_PASSWORD'' st_minio_secret_key_update,
      required_field sr ''MINIO_BUCKET_VIDEOS'' cf_minio_bucket_videos_update,
      required_field sr ''MINIO_BUCKET_RAW'' cf_minio_bucket_raw_update,
      (\<lambda>s. case sr_var sr ''MINIO_PUBLIC_ENDPOINT'' of
             Some v \<Rightarrow> Inr (s\<lparr>cf_minio_public_endpoint := v\<rparr>)
           | None \<Rightarrow> required_field sr ''MINIO_ENDPOINT'' cf_minio_public_endpoint_update s),
      field sr ''PRESIGNED_URL_EXPIRY_SECS'' ''3600'' u64 cf_presigned_url_expiry_secs_update]"

definition load_uploads_and_feed :: "surroundings \<Rightarrow> settings \<Rightarrow> startup_error + settings" where
  "load_uploads_and_feed sr = steps
     [field sr ''MAX_FILE_SIZE_BYTES'' ''33554432'' i64 cf_max_file_size_bytes_update,
      field sr ''LIMIT_UPLOAD_BYTES_HOURLY'' ''268435456'' i64 cf_limit_upload_bytes_hourly_update,
      field sr ''UPLOAD_SIZE_TOLERANCE_BYTES'' ''0'' u64 cf_upload_size_tolerance_bytes_update,
      field sr ''MIN_VIDEO_SIZE_BYTES'' ''1024'' u64 cf_min_video_size_bytes_update,
      field sr ''FEED_PAGE_SIZE'' ''20'' u64 cf_feed_page_size_update,
      field sr ''FEED_CACHE_TTL_SECS'' ''300'' u64 cf_feed_cache_ttl_secs_update,
      field sr ''LIMIT_FEED_RPM'' ''60'' u64_word cf_limit_feed_rpm_update]"

definition load_request_limits :: "surroundings \<Rightarrow> settings \<Rightarrow> startup_error + settings" where
  "load_request_limits sr = steps
     [field sr ''RATE_LIMIT_WINDOW_SECS'' ''3600'' u64 cf_rate_limit_window_secs_update,
      field sr ''IP_RATE_LIMIT_RPM'' ''30'' u64_word cf_ip_rate_limit_rpm_update,
      field sr ''LIKE_ACTIONS_RPM_LIMIT'' ''60'' u64_word cf_like_actions_rpm_limit_update,
      field sr ''LIKE_ACTIONS_WINDOW_SECS'' ''60'' u64 cf_like_actions_window_secs_update,
      field sr ''USERNAME_SIGNUP_RPM_PER_IP'' ''20'' u64_word cf_username_signup_rpm_per_ip_update,
      field sr ''USERNAME_SIGNUP_ATTEMPTS_PER_TICKET'' ''10'' u64_word cf_username_signup_attempts_per_ticket_update,
      field sr ''USERNAME_UPDATE_RPM_PER_USER'' ''5'' u64_word cf_username_update_rpm_per_user_update,
      field sr ''READ_ONLY_STATUS_RPM_PER_USER'' ''20'' u64_word cf_read_only_status_rpm_per_user_update,
      field sr ''MAINTENANCE_STATUS_RPM_PER_USER'' ''20'' u64_word cf_maintenance_status_rpm_per_user_update,
      field sr ''ONBOARDING_STATUS_RPM_PER_USER'' ''30'' u64_word cf_onboarding_status_rpm_per_user_update,
      field sr ''ONBOARDING_COMPLETE_RPM_PER_USER'' ''10'' u64_word cf_onboarding_complete_rpm_per_user_update]"

definition load_moderation :: "surroundings \<Rightarrow> settings \<Rightarrow> startup_error + settings" where
  "load_moderation sr = steps
     [field sr ''REPORT_CREATE_RPM_PER_USER'' ''10'' u64_word cf_report_create_rpm_per_user_update,
      field sr ''REPORT_CREATE_RPM_PER_IP'' ''20'' u64_word cf_report_create_rpm_per_ip_update,
      field sr ''REPORT_DETAILS_MAX_CHARS'' ''2000'' u64 cf_report_details_max_chars_update,
      field sr ''REPORT_REASON_MAX_COUNT'' ''5'' u64 cf_report_reason_max_count_update,
      flag_field sr ''AUTO_QUARANTINE_ENABLED'' True cf_auto_quarantine_enabled_update,
      field sr ''AUTO_QUARANTINE_WINDOW_SECS'' ''1800'' u64 cf_auto_quarantine_window_secs_update,
      field sr ''AUTO_QUARANTINE_SEVERE_DISTINCT_REPORTERS'' ''2'' u64 cf_auto_quarantine_severe_distinct_reporters_update,
      field sr ''SECURITY_EVENTS_RETENTION_DAYS'' ''180'' i64 cf_security_events_retention_days_update,
      field sr ''SECURITY_EVENTS_PURGE_INTERVAL_SECS'' ''86400'' u64 st_security_events_purge_interval_secs_update,
      field sr ''ABUSE_REPORT_RETENTION_DAYS'' ''365'' i64 cf_abuse_report_retention_days_update,
      field sr ''ABUSE_REPORT_PURGE_INTERVAL_SECS'' ''86400'' u64 st_abuse_report_purge_interval_secs_update,
      field sr ''BAN_USER_CACHE_NEGATIVE_TTL_SECS'' ''60'' u64 cf_ban_user_cache_negative_ttl_secs_update,
      field sr ''BAN_USER_CACHE_PERMANENT_TTL_SECS'' ''21600'' u64 cf_ban_user_cache_permanent_ttl_secs_update,
      field sr ''BAN_IP_CACHE_NEGATIVE_TTL_SECS'' ''60'' u64 cf_ban_ip_cache_negative_ttl_secs_update,
      field sr ''BAN_IP_CACHE_PERMANENT_TTL_SECS'' ''21600'' u64 cf_ban_ip_cache_permanent_ttl_secs_update,
      field sr ''BAN_IP_VERDICT_TTL_SECS'' ''60'' u64 cf_ban_ip_verdict_ttl_secs_update,
      field sr ''OTC_RATE_LIMIT_MAX_ATTEMPTS'' ''5'' u32_word st_otc_rate_limit_max_attempts_update,
      field sr ''OTC_RATE_LIMIT_WINDOW_SECONDS'' ''60'' u64 st_otc_rate_limit_window_seconds_update]"

definition load_search_and_keyboard :: "surroundings \<Rightarrow> settings \<Rightarrow> startup_error + settings" where
  "load_search_and_keyboard sr = steps
     [field sr ''SEARCH_MAX_TOKENS'' ''50'' u64 cf_search_max_tokens_update,
      field sr ''SEARCH_MAX_TOKEN_LENGTH'' ''50'' u64 cf_search_max_token_length_update,
      field sr ''SEARCH_MAX_QUERY_CHARS'' ''200'' u64 cf_search_max_query_chars_update,
      field sr ''SEARCH_TIMEOUT_SECS'' ''5'' u64 st_search_timeout_secs_update,
      field sr ''SEARCH_CACHE_TTL_SECS'' ''10'' u64 cf_search_cache_ttl_secs_update,
      field sr ''SEARCH_RPM_LIMIT'' ''30'' u64_word cf_search_rpm_limit_update,
      field sr ''EXTENSION_TOKEN_TTL_SECS'' ''600'' u64 cf_extension_token_ttl_secs_update,
      field sr ''KEYBOARD_SEARCH_RPM'' ''60'' u64_word cf_keyboard_search_rpm_update,
      field sr ''KEYBOARD_SEARCH_MAX_LIMIT'' ''20'' u64 cf_keyboard_search_max_limit_update,
      field sr ''KEYBOARD_SEND_TICKET_RPM'' ''30'' u64_word cf_keyboard_send_ticket_rpm_update,
      field sr ''KEYBOARD_DAILY_SEND_CAP'' ''100'' u64 cf_keyboard_daily_send_cap_update,
      field sr ''KEYBOARD_NONCE_TTL_SECS'' ''300'' u64 cf_keyboard_nonce_ttl_secs_update,
      field sr ''KEYBOARD_TICKET_TTL_SECS'' ''45'' u64 cf_keyboard_ticket_ttl_secs_update,
      field sr ''KEYBOARD_MEDIA_URL_TTL_SECS'' ''30'' u64 cf_keyboard_media_url_ttl_secs_update]"

definition load_worker_and_realtime :: "surroundings \<Rightarrow> settings \<Rightarrow> startup_error + settings" where
  "load_worker_and_realtime sr = steps
     [field sr ''DRAFT_VIDEO_CLEANUP_HOURS'' ''2'' u16 st_draft_video_cleanup_hours_update,
      field sr ''WORKER_RETRY_MAX_ATTEMPTS'' ''3'' u8_word cf_worker_retry_max_attempts_update,
      field sr ''WORKER_RETRY_BACKOFF_BASE_SECS'' ''2'' u64_word cf_worker_retry_backoff_base_secs_update,
      field sr ''FFMPEG_TRANSCODE_TIMEOUT_SECS'' ''180'' u64 cf_ffmpeg_transcode_timeout_secs_update,
      field sr ''FFMPEG_THUMBNAIL_TIMEOUT_SECS'' ''30'' u64 cf_ffmpeg_thumbnail_timeout_secs_update,
      flag_field sr ''VIDEO_WS_ENABLED'' True cf_video_ws_enabled_update,
      field sr ''VIDEO_WS_MAX_CONN_PER_USER'' ''3'' u64 cf_video_ws_max_conn_per_user_update,
      field sr ''VIDEO_WS_MAX_CONN_GLOBAL'' ''5000'' u64 cf_video_ws_max_conn_global_update,
      field sr ''VIDEO_WS_CONNECT_RPM_PER_IP'' ''30'' u64_word cf_video_ws_connect_rpm_per_ip_update,
      field sr ''VIDEO_WS_CONNECT_RPM_PER_USER'' ''60'' u64_word cf_video_ws_connect_rpm_per_user_update,
      field sr ''VIDEO_WS_SEND_BUFFER'' ''64'' u64 cf_video_ws_send_buffer_update,
      field sr ''VIDEO_WS_HEARTBEAT_SECS'' ''20'' u64 cf_video_ws_heartbeat_secs_update]"

definition supported_terms_languages :: "string list" where
  "supported_terms_languages = [''en'', ''tr'']"

definition terms_jurisdictions_of :: "surroundings \<Rightarrow> string list" where
  "terms_jurisdictions_of sr =
     (case parse_csv_list (env_or sr ''TERMS_JURISDICTIONS'' ''US,TR,GLOBAL'') of
        [] \<Rightarrow> [''US'', ''TR'', ''GLOBAL''] | i # is \<Rightarrow> i # is)"

fun load_documents ::
  "libs \<Rightarrow> surroundings \<Rightarrow> string \<Rightarrow> bool \<Rightarrow> string list \<Rightarrow> startup_error + (string \<times> localized_terms_document) list" where
  "load_documents L sr current require_match [] = Inr []"
| "load_documents L sr current require_match (language # ls) =
     bindS (load_localized_terms_source sr language (language = ''en'')) (\<lambda>source.
     bindS (build_localized_terms_document L language source current require_match (terms_jurisdictions_of sr)) (\<lambda>d.
     bindS (load_documents L sr current require_match ls) (\<lambda>ds. Inr ((language, d) # ds))))"

definition document_json :: "localized_terms_document \<Rightarrow> json" where
  "document_json d = JObj
     [(''language'', JStr (ltd_language d)), (''version'', JStr (ltd_version d)), (''url'', json_opt (ltd_url d)),
      (''content_type'', json_opt (ltd_content_type d)), (''content_sha256'', json_opt (ltd_content_sha256 d)),
      (''content'', json_opt (ltd_content d)), (''effective_at'', json_opt (ltd_effective_at d)),
      (''jurisdictions'', JArr (map JStr (ltd_jurisdictions d)))]"

text \<open>The hash over everything a client is shown of the terms; it is the tag of the bundle.\<close>

definition bundle_hash ::
  "libs \<Rightarrow> string \<Rightarrow> string \<Rightarrow> (string \<times> localized_terms_document) list \<Rightarrow> string option \<Rightarrow> string option \<Rightarrow> string" where
  "bundle_hash L current language documents legal abuse =
     lib_sha256_hex L (lib_json_text L (JObj
       [(''version'', JStr current), (''default_language'', JStr language),
        (''documents'', JObj (map (\<lambda>(l, d). (l, document_json d)) documents)),
        (''legal_contact_email'', json_opt legal), (''abuse_contact_email'', json_opt abuse)]))"

definition load_terms :: "libs \<Rightarrow> surroundings \<Rightarrow> settings \<Rightarrow> startup_error + settings" where
  "load_terms L sr s =
     (let current = trim (env_or sr ''TERMS_CURRENT_VERSION'' ''v1'');
          require_match = env_flag sr ''TERMS_REQUIRE_VERSION_MATCH'' True;
          language = to_ascii_lowercase (trim (env_or sr ''TERMS_DEFAULT_LANGUAGE'' ''en''));
          legal = env_opt_trimmed sr ''TERMS_LEGAL_CONTACT_EMAIL'';
          abuse = env_opt_trimmed sr ''TERMS_ABUSE_CONTACT_EMAIL'' in
      ensureS (current \<noteq> []) (ConfigError ''TERMS_CURRENT_VERSION must be non-empty'')
     (ensureS (language \<in> set supported_terms_languages)
        (ConfigError (''TERMS_DEFAULT_LANGUAGE '' @ language @ '' is not supported. Supported values: en,tr''))
     (bindS (load_documents L sr current require_match supported_terms_languages) (\<lambda>documents.
      case map_of documents language of
        None \<Rightarrow> Inl (ConfigError (''Terms default language '' @ language @ '' is not configured''))
      | Some d \<Rightarrow>
          Inr (s\<lparr> cf_terms_current_version := current, st_terms_url := ltd_url d, st_terms_content := ltd_content d,
             st_terms_content_type := ltd_content_type d, st_terms_content_sha256 := ltd_content_sha256 d,
             st_terms_effective_at := ltd_effective_at d, st_terms_jurisdictions := ltd_jurisdictions d,
             st_terms_require_version_match := require_match,
             cf_terms_default_language := language, cf_terms_documents := documents,
             cf_terms_legal_contact_email := legal, cf_terms_abuse_contact_email := abuse,
             cf_terms_bundle_content_sha256 := bundle_hash L current language documents legal abuse \<rparr>)))))"

definition load_admin :: "surroundings \<Rightarrow> settings \<Rightarrow> startup_error + settings" where
  "load_admin sr s =
     (let raw = env_or sr ''ADMIN_JWT_PUBLIC_KEYS_JSON'' [] in
      bindS (if trim raw = [] then Inr []
             else case sr_json_map sr raw of
               None \<Rightarrow> Inl (ConfigError ''ADMIN_JWT_PUBLIC_KEYS_JSON must be valid JSON map'')
             | Some m \<Rightarrow> Inr m) (\<lambda>keys.
      steps
        [field sr ''ADMIN_JWT_MAX_TTL_SECS'' ''300'' u64 cf_admin_jwt_max_ttl_secs_update,
         field sr ''ADMIN_JWT_CLOCK_SKEW_SECS'' ''60'' u64 cf_admin_jwt_clock_skew_secs_update,
         flag_field sr ''ADMIN_REPLAY_PROTECTION_ENABLED'' True cf_admin_replay_protection_enabled_update,
         text_field sr ''ADMIN_ALLOWED_IP_CIDRS'' [] cf_admin_allowed_ip_cidrs_update,
         (\<lambda>s. Inr (s\<lparr> cf_admin_api_enabled := env_flag sr ''ADMIN_API_ENABLED'' False,
            cf_admin_jwt_issuer := env_opt_trimmed sr ''ADMIN_JWT_ISSUER'',
            cf_admin_jwt_audience := env_opt_trimmed sr ''ADMIN_JWT_AUDIENCE'', cf_admin_jwt_public_keys := keys \<rparr>)),
         (\<lambda>s. ensureS (cf_admin_api_enabled s \<longrightarrow> cf_admin_jwt_issuer s \<noteq> None)
                (ConfigError ''ADMIN_JWT_ISSUER must be set when ADMIN_API_ENABLED=true'') (Inr s)),
         (\<lambda>s. ensureS (cf_admin_api_enabled s \<longrightarrow> cf_admin_jwt_audience s \<noteq> None)
                (ConfigError ''ADMIN_JWT_AUDIENCE must be set when ADMIN_API_ENABLED=true'') (Inr s)),
         (\<lambda>s. ensureS (cf_admin_api_enabled s \<longrightarrow> cf_admin_jwt_public_keys s \<noteq> [])
                (ConfigError ''ADMIN_JWT_PUBLIC_KEYS_JSON must define at least one key when ADMIN_API_ENABLED=true'')
                (Inr s))] s))"

definition blank_config :: config where
  "blank_config = \<lparr> cf_environment = [], cf_require_cloudflare_headers = False,
     cf_jwt_secret = [], cf_access_token_ttl_secs = 0, cf_refresh_token_ttl_days = 0,
     cf_terms_current_version = [], cf_read_only_mode_enabled = False,
     cf_maintenance_mode_enabled = False, cf_username_reserved_values = [],
     cf_oauth_redirect_base_url = [], cf_frontend_app_url = [],
     cf_mobile_app_scheme = [], cf_minio_bucket_videos = [],
     cf_minio_bucket_raw = [], cf_minio_public_endpoint = [],
     cf_max_file_size_bytes = 0, cf_limit_upload_bytes_hourly = 0,
     cf_upload_size_tolerance_bytes = 0, cf_min_video_size_bytes = 0,
     cf_feed_cache_ttl_secs = 0, cf_ip_rate_limit_rpm = 0, cf_like_actions_rpm_limit = 0,
     cf_like_actions_window_secs = 0, cf_username_signup_rpm_per_ip = 0,
     cf_username_signup_attempts_per_ticket = 0, cf_username_update_rpm_per_user = 0,
     cf_report_create_rpm_per_user = 0, cf_report_create_rpm_per_ip = 0,
     cf_report_details_max_chars = 0, cf_report_reason_max_count = 0,
     cf_auto_quarantine_enabled = False, cf_auto_quarantine_window_secs = 0,
     cf_auto_quarantine_severe_distinct_reporters = 0, cf_security_events_retention_days = 0,
     cf_abuse_report_retention_days = 0, cf_ban_user_cache_negative_ttl_secs = 0,
     cf_ban_user_cache_permanent_ttl_secs = 0, cf_ban_ip_cache_negative_ttl_secs = 0,
     cf_ban_ip_cache_permanent_ttl_secs = 0, cf_ban_ip_verdict_ttl_secs = 0,
     cf_extension_token_ttl_secs = 0, cf_keyboard_send_ticket_rpm = 0,
     cf_keyboard_daily_send_cap = 0, cf_keyboard_nonce_ttl_secs = 0,
     cf_keyboard_ticket_ttl_secs = 0, cf_worker_retry_max_attempts = 0,
     cf_worker_retry_backoff_base_secs = 0, cf_admin_api_enabled = False,
     cf_admin_jwt_issuer = None, cf_admin_jwt_audience = None,
     cf_admin_jwt_public_keys = [], cf_admin_jwt_max_ttl_secs = 0,
     cf_admin_jwt_clock_skew_secs = 0, cf_admin_replay_protection_enabled = False,
     cf_admin_allowed_ip_cidrs = [], cf_ffmpeg_transcode_timeout_secs = 0,
     cf_ffmpeg_thumbnail_timeout_secs = 0, cf_presigned_url_expiry_secs = 0,
     cf_feed_page_size = 0, cf_limit_feed_rpm = 0, cf_rate_limit_window_secs = 0,
     cf_read_only_status_rpm_per_user = 0, cf_maintenance_status_rpm_per_user = 0,
     cf_onboarding_status_rpm_per_user = 0, cf_onboarding_complete_rpm_per_user = 0,
     cf_search_max_tokens = 0, cf_search_max_token_length = 0, cf_search_max_query_chars = 0,
     cf_search_cache_ttl_secs = 0, cf_search_rpm_limit = 0, cf_keyboard_search_rpm = 0,
     cf_keyboard_search_max_limit = 0, cf_keyboard_media_url_ttl_secs = 0,
     cf_video_ws_enabled = False, cf_video_ws_max_conn_per_user = 0,
     cf_video_ws_max_conn_global = 0, cf_video_ws_connect_rpm_per_ip = 0,
     cf_video_ws_connect_rpm_per_user = 0, cf_video_ws_send_buffer = 0,
     cf_video_ws_heartbeat_secs = 0, cf_cors_allowed_origins = [], cf_terms_default_language = [],
     cf_terms_documents = [], cf_terms_legal_contact_email = None, cf_terms_abuse_contact_email = None,
     cf_terms_bundle_content_sha256 = [] \<rparr>"

text \<open>The record before anything is read; no field of it is left in the end.\<close>

definition blank_settings :: settings where
  "blank_settings = config.extend blank_config (settings.fields [] 0 [] [] False None None None None None [] False [] [] [] [] [] 0 0 0 0 0 0)"

definition from_env :: "libs \<Rightarrow> surroundings \<Rightarrow> startup_error + settings" where
  "from_env L sr = steps
     [load_terms L sr, load_admin sr, load_server sr, load_modes sr, load_storage sr, load_uploads_and_feed sr,
      load_request_limits sr, load_moderation sr, load_search_and_keyboard sr, load_worker_and_realtime sr]
     blank_settings"

section \<open>Reading in steps\<close>

lemma steps_ConsE: "steps (f # fs) s = Inr t \<Longrightarrow> (\<And>u. f s = Inr u \<Longrightarrow> steps fs u = Inr t \<Longrightarrow> R) \<Longrightarrow> R"
  by (auto elim: bindS_InrE)

lemma steps_keeps:
  assumes "steps fs s = Inr t" and "list_all (\<lambda>f. \<forall>s t. f s = Inr t \<longrightarrow> g t = g s) fs"
  shows "g t = g s"
  using assms by (induction fs arbitrary: s) (auto elim!: bindS_InrE)

lemma field_keeps:
  "(\<And>v s. g (upd (\<lambda>_. v) s) = g s) \<Longrightarrow> \<forall>s t. field sr key d parse upd s = Inr t \<longrightarrow> g t = g s"
  "(\<And>v s. g (upd' (\<lambda>_. v) s) = g s) \<Longrightarrow> \<forall>s t. text_field sr key d' upd' s = Inr t \<longrightarrow> g t = g s"
  "(\<And>v s. g (upd'' (\<lambda>_. v) s) = g s) \<Longrightarrow> \<forall>s t. flag_field sr key b upd'' s = Inr t \<longrightarrow> g t = g s"
  "(\<And>v s. g (upd' (\<lambda>_. v) s) = g s) \<Longrightarrow> \<forall>s t. required_field sr key upd' s = Inr t \<longrightarrow> g t = g s"
  by (auto simp: field_def text_field_def flag_field_def required_field_def split: option.splits)

text \<open>What the terms and the administration have read is not touched by the rest.\<close>

definition terms_of :: "settings \<Rightarrow> _" where
  "terms_of s = (cf_terms_current_version s, cf_terms_default_language s, cf_terms_documents s,
     cf_terms_legal_contact_email s, cf_terms_abuse_contact_email s, cf_terms_bundle_content_sha256 s)"

definition kept :: "settings \<Rightarrow> _" where
  "kept s = (terms_of s, cf_admin_api_enabled s, cf_admin_jwt_issuer s, cf_admin_jwt_audience s,
     cf_admin_jwt_public_keys s)"

lemma groups_keep:
  shows "load_server sr s = Inr t \<Longrightarrow> kept t = kept s" and "load_modes sr s = Inr t \<Longrightarrow> kept t = kept s"
    and "load_storage sr s = Inr t \<Longrightarrow> kept t = kept s" and "load_uploads_and_feed sr s = Inr t \<Longrightarrow> kept t = kept s"
    and "load_request_limits sr s = Inr t \<Longrightarrow> kept t = kept s" and "load_moderation sr s = Inr t \<Longrightarrow> kept t = kept s"
    and "load_search_and_keyboard sr s = Inr t \<Longrightarrow> kept t = kept s"
    and "load_worker_and_realtime sr s = Inr t \<Longrightarrow> kept t = kept s"
  unfolding load_server_def load_modes_def load_storage_def load_uploads_and_feed_def load_request_limits_def
    load_moderation_def load_search_and_keyboard_def load_worker_and_realtime_def
  by (erule steps_keeps; simp only: list.pred_inject; intro conjI TrueI field_keeps;
      auto simp: kept_def terms_of_def required_field_def split: option.splits)+

lemma admin_keeps_terms: "load_admin sr s = Inr t \<Longrightarrow> terms_of t = terms_of s"
  unfolding load_admin_def Let_def
  by (elim bindS_InrE, erule steps_keeps, simp only: list.pred_inject, intro conjI TrueI field_keeps)
    (auto simp: terms_of_def ensureS_def)

lemma from_env_InrE:
  assumes "from_env L sr = Inr s"
  obtains s1 s2 where "load_terms L sr blank_settings = Inr s1" "load_admin sr s1 = Inr s2" "kept s = kept s2"
    "terms_of s = terms_of s1"
proof -
  obtain s1 s2 where t: "load_terms L sr blank_settings = Inr s1" and a: "load_admin sr s1 = Inr s2"
    and r: "steps [load_server sr, load_modes sr, load_storage sr, load_uploads_and_feed sr, load_request_limits sr,
      load_moderation sr, load_search_and_keyboard sr, load_worker_and_realtime sr] s2 = Inr s"
    using assms unfolding from_env_def by (elim steps_ConsE) (simp add: that)
  have "kept s = kept s2"
    by (rule steps_keeps [OF r]) (use groups_keep in \<open>simp add: Let_def\<close>)
  then show thesis using that t a admin_keeps_terms [OF a] by (simp add: kept_def)
qed

section \<open>What a configuration that was read promises\<close>

text \<open>C34: a process that has started with the administration on has an issuer, an audience and at least
  one key to check administrators with, and neither name is empty.\<close>

theorem admin_api_needs_its_keys:
  assumes "from_env L sr = Inr s" and "cf_admin_api_enabled s"
  shows "(\<exists>i. cf_admin_jwt_issuer s = Some i \<and> i \<noteq> []) \<and> (\<exists>a. cf_admin_jwt_audience s = Some a \<and> a \<noteq> [])
    \<and> cf_admin_jwt_public_keys s \<noteq> []"
proof -
  obtain s1 s2 where a: "load_admin sr s1 = Inr s2" and k: "kept s = kept s2"
    using assms(1) by (rule from_env_InrE)
  have gate: "cf_admin_api_enabled s2 \<longrightarrow> cf_admin_jwt_issuer s2 \<noteq> None \<and> cf_admin_jwt_audience s2 \<noteq> None
      \<and> cf_admin_jwt_public_keys s2 \<noteq> []"
    and names: "cf_admin_jwt_issuer s2 = env_opt_trimmed sr ''ADMIN_JWT_ISSUER''"
      "cf_admin_jwt_audience s2 = env_opt_trimmed sr ''ADMIN_JWT_AUDIENCE''"
    using a unfolding load_admin_def Let_def by (auto elim!: bindS_InrE steps_ConsE ensureS_InrE)
  have "i \<noteq> []" if "env_opt_trimmed sr key = Some i" for i key
    using that by (auto simp: env_opt_trimmed_def non_empty_def bind_eq_Some_conv split: if_splits)
  then show ?thesis using assms(2) gate names k by (auto simp: kept_def)
qed

lemma load_documents_langs: "load_documents L sr v m ls = Inr ds \<Longrightarrow> map fst ds = ls"
  by (induction ls arbitrary: ds) (auto elim!: bindS_InrE)

definition proper_document :: "libs \<Rightarrow> string \<Rightarrow> string \<times> localized_terms_document \<Rightarrow> bool" where
  "proper_document L current p \<longleftrightarrow>
     ltd_language (snd p) = fst p \<and> ltd_version (snd p) = current
   \<and> (ltd_url (snd p) \<noteq> None \<or> ltd_content (snd p) \<noteq> None)
   \<and> ltd_content_sha256 (snd p) = map_option (lib_sha256_hex L) (ltd_content (snd p))"

lemma build_document_proper:
  "build_localized_terms_document L language source current m js = Inr d \<Longrightarrow> proper_document L current (language, d)"
  unfolding build_localized_terms_document_def Let_def
  by (auto simp: proper_document_def elim!: bindS_InrE ensureS_InrE split: option.splits prod.splits)

lemma load_documents_proper: "load_documents L sr v m ls = Inr ds \<Longrightarrow> \<forall>p \<in> set ds. proper_document L v p"
  by (induction ls arbitrary: ds) (auto elim!: bindS_InrE intro: build_document_proper)

text \<open>A process that has started serves the terms in both languages: the bundle is answered, its
  version is not empty, and each document is of that version and has an address or a text, whose
  hash it carries.\<close>

theorem loaded_terms_are_served:
  assumes "from_env L sr = Inr s"
  shows "\<exists>b. terms_bundle (config.truncate s) w = (Inr b, w) \<and> tb_version b \<noteq> []
    \<and> tb_default_language b \<in> {''en'', ''tr''}
    \<and> (\<forall>d \<in> {tb_en b, tb_tr b}. tr_version d = tb_version b \<and> (tr_url d \<noteq> None \<or> tr_content d \<noteq> None)
         \<and> tr_content_sha256 d = map_option (lib_sha256_hex L) (tr_content d))
    \<and> tr_language (tb_en b) = ''en'' \<and> tr_language (tb_tr b) = ''tr''"
proof -
  obtain s1 s2 where t: "load_terms L sr blank_settings = Inr s1" and k: "terms_of s = terms_of s1"
    using assms by (rule from_env_InrE)
  let ?v = "trim (env_or sr ''TERMS_CURRENT_VERSION'' ''v1'')"
  obtain ds m where ds: "load_documents L sr ?v m supported_terms_languages = Inr ds"
    and s1: "cf_terms_documents s1 = ds" "cf_terms_current_version s1 = ?v" "?v \<noteq> []"
      "cf_terms_default_language s1 \<in> set supported_terms_languages"
    using t unfolding load_terms_def Let_def by (elim ensureS_InrE bindS_InrE) (auto split: option.splits)
  have "map fst ds = [''en'', ''tr'']" using load_documents_langs [OF ds] by (simp add: supported_terms_languages_def)
  then obtain en tr where d: "ds = [(''en'', en), (''tr'', tr)]" by (cases ds; cases "tl ds") auto
  have p: "proper_document L ?v (''en'', en)" "proper_document L ?v (''tr'', tr)"
    using load_documents_proper [OF ds] by (simp_all add: d)
  have c: "cf_terms_documents s = ds" "cf_terms_current_version s = ?v"
      "cf_terms_default_language s = cf_terms_default_language s1"
    using k s1 by (simp_all add: terms_of_def)
  show ?thesis
    using p s1(3,4) by (simp add: terms_bundle_def build_terms_response_for_language_def get_terms_document_def
        config.truncate_def c d from_sum_def bindE_def returnOk_def proper_document_def supported_terms_languages_def)
qed

section \<open>Frontmatter\<close>

lemma find_str_append:
  assumes "\<forall>k < length s. \<not> prefix p (drop k s @ p)"
  shows "find_str (s @ p @ t) p = Some (length s)"
  using assms
proof (induction s)
  case Nil
  have "prefix p (p @ t)" by simp
  then show ?case by (cases "p @ t") auto
next
  case (Cons c cs)
  have "\<not> prefix p ((c # cs) @ p)" using Cons.prems by fastforce
  then have "\<not> prefix p ((c # cs) @ p @ t)"
    using prefix_length_prefix [of p "(c # cs) @ p @ t" "(c # cs) @ p"] by auto
  moreover have "\<forall>k < length cs. \<not> prefix p (drop k cs @ p)"
    using Cons.prems by (auto dest: spec [of _ "Suc _"])
  ultimately show ?case using Cons.IH by simp
qed

text \<open>A text with frontmatter is taken apart where it was put together: between the markers goes to
  the YAML reader, and what follows is the body, without the line breaks at its start; a text that
  does not start with the marker is all body.\<close>

theorem frontmatter_taken_apart:
  assumes "\<forall>k < length yaml. \<not> prefix front_close (drop k yaml @ front_close)"
    and "lib_yaml_frontmatter L yaml = Some fm" and "\<not> prefix front_open plain"
  shows "parse_terms_frontmatter L (front_open @ yaml @ front_close @ body)
      = Inr (Some fm, dropWhile (\<lambda>c. c = newline) body)
    \<and> parse_terms_frontmatter L plain = Inr (None, plain)"
  using find_str_append [OF assms(1), of body] assms(2,3)
  by (simp_all add: parse_terms_frontmatter_def)

text \<open>An empty frontmatter is not recognized: its closing marker would need a line break of its own.\<close>

lemma empty_frontmatter_refused:
  "parse_terms_frontmatter libs0 (front_open @ tl front_close @ ''Body'')
    = Inl (ConfigError ''TERMS_CONTENT has opening frontmatter marker but missing closing marker'')"
  by (simp add: parse_terms_frontmatter_def front_open_def front_close_def newline_def)

text \<open>A flag that is neither true nor false counts as its default, without a word; a number that cannot be
  read stops the start.\<close>

lemma unreadable_flag_is_default:
  "sr_var sr key = Some ''1'' \<Longrightarrow> env_flag sr key d = d"
  "sr_var sr key = Some ''no'' \<Longrightarrow> env_flag sr key d = d"
  "sr_var sr key = Some ''no'' \<Longrightarrow> field sr key t u64 upd s = Inl (ParseFailure key)"
  by (simp_all add: env_flag_def env_or_def parse_bool_def field_def parse_unsigned_def parse_nat_def
      is_ascii_digit_def byte_def)

section \<open>The smallest environment\<close>

lemma steps_total: "list_all (\<lambda>f. \<forall>s. \<exists>t. f s = Inr t) fs \<Longrightarrow> \<exists>t. steps fs s = Inr t"
  by (induction fs arbitrary: s) (auto simp: bindS_def split: sum.split, metis Inr_not_Inl)

lemma field_total:
  "sr_var sr key = None \<Longrightarrow> parse d \<noteq> None \<Longrightarrow> \<forall>s. \<exists>t. field sr key d parse upd s = Inr t"
  "\<forall>s. \<exists>t. text_field sr key d' upd' s = Inr t" "\<forall>s. \<exists>t. flag_field sr key b upd'' s = Inr t"
  "sr_var sr key \<noteq> None \<Longrightarrow> \<forall>s. \<exists>t. required_field sr key upd' s = Inr t"
  by (auto simp: field_def env_or_def text_field_def flag_field_def required_field_def)

definition required_keys :: "string list" where
  "required_keys = [''DATABASE_URL'', ''VALKEY_URL'', ''JWT_SECRET'', ''GOOGLE_CLIENT_ID'', ''GOOGLE_CLIENT_SECRET'',
     ''MINIO_ENDPOINT'', ''MINIO_ROOT_USER'', ''MINIO_ROOT_PASSWORD'', ''MINIO_BUCKET_VIDEOS'', ''MINIO_BUCKET_RAW'']"

definition named_keys :: "string list" where
  "named_keys = required_keys @ [''TERMS_URL_EN'', ''TERMS_URL_TR'', ''ADMIN_API_ENABLED'', ''ADMIN_JWT_ISSUER'',
     ''ADMIN_JWT_AUDIENCE'', ''ADMIN_JWT_PUBLIC_KEYS_JSON'']"

lemmas parses = parse_unsigned_def parse_signed_def u64_word_def u32_word_def u8_word_def parse_nat_def Let_def
  is_ascii_digit_def digits_val_def digit_val_def byte_def

lemma groups_total:
  assumes n: "\<And>k. k \<notin> set named_keys \<Longrightarrow> sr_var sr k = None" and r: "\<And>k. k \<in> set required_keys \<Longrightarrow> sr_var sr k \<noteq> None"
  shows "\<exists>t. load_modes sr s = Inr t" and "\<exists>t. load_uploads_and_feed sr s = Inr t"
    and "\<exists>t. load_request_limits sr s = Inr t" and "\<exists>t. load_moderation sr s = Inr t"
    and "\<exists>t. load_search_and_keyboard sr s = Inr t" and "\<exists>t. load_worker_and_realtime sr s = Inr t"
    and "\<exists>t. load_server sr s = Inr t" and "\<exists>t. load_storage sr s = Inr t"
proof -
  have p: "sr_var sr ''SERVER_PORT'' = None" "sr_var sr ''MINIO_PUBLIC_ENDPOINT'' = None"
    by (intro n; simp add: named_keys_def required_keys_def)+
  have m: "sr_var sr ''MINIO_ENDPOINT'' \<noteq> None" by (intro r) (simp add: required_keys_def)
  have port: "\<exists>q. u16 (env_or sr ''SERVER_PORT'' ''3000'') = Some q"
    by (simp add: env_or_def p parses)
  show "\<exists>t. load_modes sr s = Inr t" "\<exists>t. load_uploads_and_feed sr s = Inr t"
    "\<exists>t. load_request_limits sr s = Inr t" "\<exists>t. load_moderation sr s = Inr t"
    "\<exists>t. load_search_and_keyboard sr s = Inr t" "\<exists>t. load_worker_and_realtime sr s = Inr t"
    "\<exists>t. load_server sr s = Inr t" "\<exists>t. load_storage sr s = Inr t"
    unfolding load_server_def load_modes_def load_storage_def load_uploads_and_feed_def load_request_limits_def
      load_moderation_def load_search_and_keyboard_def load_worker_and_realtime_def
    by (rule steps_total; simp only: list.pred_inject; intro conjI TrueI field_total n r;
        use m port in \<open>auto simp: named_keys_def required_keys_def required_field_def p intro: exI\<close>;
        simp add: parses)+
qed

lemma rest_total:
  assumes "\<And>k. k \<notin> set named_keys \<Longrightarrow> sr_var sr k = None" and "\<And>k. k \<in> set required_keys \<Longrightarrow> sr_var sr k \<noteq> None"
    and "load_terms L sr blank_settings = Inr s1" and "load_admin sr s1 = Inr s2"
  shows "\<exists>s. from_env L sr = Inr s"
proof -
  note g = groups_total [of sr, OF assms(1,2)]
  have "\<exists>t. steps [load_server sr, load_modes sr, load_storage sr, load_uploads_and_feed sr, load_request_limits sr,
      load_moderation sr, load_search_and_keyboard sr, load_worker_and_realtime sr] s2 = Inr t"
    by (rule steps_total) (use g in simp)
  then show ?thesis by (simp add: from_env_def assms(3,4))
qed

text \<open>The terms with an address for each language and nothing else.\<close>

lemma upper_langs: "to_ascii_uppercase ''en'' = ''EN''" "to_ascii_uppercase ''tr'' = ''TR''"
  by code_simp+

lemma default_terms: "trim ''v1'' = ''v1''" "to_ascii_lowercase (trim ''en'') = ''en''"
  by code_simp+

lemma terms_by_address:
  assumes "\<And>k. k \<notin> set named_keys \<Longrightarrow> sr_var sr k = None"
    and "env_opt_trimmed sr ''TERMS_URL_EN'' = Some e" and "env_opt_trimmed sr ''TERMS_URL_TR'' = Some t"
  obtains s where "load_terms L sr blank_settings = Inr s" "cf_terms_current_version s = ''v1''"
    "cf_terms_default_language s = ''en''"
proof -
  have n: "sr_var sr ''TERMS_CURRENT_VERSION'' = None" "sr_var sr ''TERMS_DEFAULT_LANGUAGE'' = None"
    "sr_var sr ''TERMS_CONTENT_EN'' = None" "sr_var sr ''TERMS_CONTENT'' = None" "sr_var sr ''TERMS_CONTENT_TR'' = None"
    "sr_var sr ''TERMS_CONTENT_FILE_PATH_EN'' = None" "sr_var sr ''TERMS_CONTENT_FILE_PATH'' = None"
    "sr_var sr ''TERMS_CONTENT_FILE_PATH_TR'' = None"
    by (intro assms(1); simp add: named_keys_def required_keys_def)+
  have en: "load_localized_terms_source sr ''en'' True = Inr \<lparr> lts_url = Some e, lts_content_raw = None,
      lts_content_type_override = language_var sr True ''TERMS_CONTENT_TYPE'' ''EN'' \<rparr>"
    and tr: "load_localized_terms_source sr ''tr'' False = Inr \<lparr> lts_url = Some t, lts_content_raw = None,
      lts_content_type_override = language_var sr False ''TERMS_CONTENT_TYPE'' ''TR'' \<rparr>"
    using assms(2,3)
    by (simp_all add: load_localized_terms_source_def upper_langs Let_def language_var_def env_opt_trimmed_def n
        ensureS_def)
  show thesis
    by (rule that, simp add: load_terms_def Let_def env_or_def n default_terms supported_terms_languages_def en tr
        build_localized_terms_document_def ensureS_def) simp_all
qed

lemma steps_need:
  "steps fs s = Inr t \<Longrightarrow> required_field sr k upd \<in> set fs \<Longrightarrow> sr_var sr k \<noteq> None"
  by (induction fs arbitrary: s) (auto elim!: bindS_InrE simp: required_field_def split: option.splits)

lemma server_needs:
  assumes "load_server sr s = Inr t"
  shows "sr_var sr ''DATABASE_URL'' \<noteq> None" and "sr_var sr ''VALKEY_URL'' \<noteq> None" and "sr_var sr ''JWT_SECRET'' \<noteq> None"
  using steps_need [OF assms [unfolded load_server_def], of sr "''DATABASE_URL''" st_database_url_update]
    steps_need [OF assms [unfolded load_server_def], of sr "''VALKEY_URL''" st_valkey_url_update]
    steps_need [OF assms [unfolded load_server_def], of sr "''JWT_SECRET''" cf_jwt_secret_update]
  by simp_all

lemma storage_needs:
  assumes "load_storage sr s = Inr t"
  shows "sr_var sr ''GOOGLE_CLIENT_ID'' \<noteq> None" and "sr_var sr ''GOOGLE_CLIENT_SECRET'' \<noteq> None"
    and "sr_var sr ''MINIO_ENDPOINT'' \<noteq> None" and "sr_var sr ''MINIO_ROOT_USER'' \<noteq> None"
    and "sr_var sr ''MINIO_ROOT_PASSWORD'' \<noteq> None" and "sr_var sr ''MINIO_BUCKET_VIDEOS'' \<noteq> None"
    and "sr_var sr ''MINIO_BUCKET_RAW'' \<noteq> None"
  using steps_need [OF assms [unfolded load_storage_def], of sr "''GOOGLE_CLIENT_ID''" st_google_client_id_update]
    steps_need [OF assms [unfolded load_storage_def], of sr "''GOOGLE_CLIENT_SECRET''" st_google_client_secret_update]
    steps_need [OF assms [unfolded load_storage_def], of sr "''MINIO_ENDPOINT''" st_minio_endpoint_update]
    steps_need [OF assms [unfolded load_storage_def], of sr "''MINIO_ROOT_USER''" st_minio_access_key_update]
    steps_need [OF assms [unfolded load_storage_def], of sr "''MINIO_ROOT_PASSWORD''" st_minio_secret_key_update]
    steps_need [OF assms [unfolded load_storage_def], of sr "''MINIO_BUCKET_VIDEOS''" cf_minio_bucket_videos_update]
    steps_need [OF assms [unfolded load_storage_def], of sr "''MINIO_BUCKET_RAW''" cf_minio_bucket_raw_update]
  by simp_all

lemma from_env_needs:
  assumes "from_env L sr = Inr s" and "k \<in> set required_keys"
  shows "sr_var sr k \<noteq> None"
proof -
  obtain s1 s2 s3 s4 where "load_server sr s1 = Inr s2" and "load_storage sr s3 = Inr s4"
    using assms(1) unfolding from_env_def by (elim steps_ConsE)
  then show ?thesis using server_needs [of sr s1 s2] storage_needs [of sr s3 s4] assms(2)
    by (auto simp: required_keys_def)
qed

lemma admin_off_total:
  assumes "\<And>k. k \<notin> set (''TERMS_URL_EN'' # ''TERMS_URL_TR'' # required_keys) \<Longrightarrow> sr_var sr k = None"
  shows "\<exists>t. load_admin sr s = Inr t"
proof -
  have n: "sr_var sr ''ADMIN_JWT_PUBLIC_KEYS_JSON'' = None" "sr_var sr ''ADMIN_JWT_MAX_TTL_SECS'' = None"
    "sr_var sr ''ADMIN_JWT_CLOCK_SKEW_SECS'' = None" "sr_var sr ''ADMIN_API_ENABLED'' = None"
    by (intro assms; simp add: required_keys_def)+
  have "trim [] = []" by code_simp
  then show ?thesis
    by (simp add: load_admin_def Let_def env_or_def n field_def text_field_def flag_field_def env_flag_def
        parse_bool_def ensureS_def parses)
qed

text \<open>With an address for the terms in each language, the ten variables without a default are all a
  start needs: it succeeds exactly when they are set, whatever their values; everything else has a
  default that can be read.\<close>

theorem required_variables_suffice:
  assumes "\<And>k. k \<notin> set (''TERMS_URL_EN'' # ''TERMS_URL_TR'' # required_keys) \<Longrightarrow> sr_var sr k = None"
    and "env_opt_trimmed sr ''TERMS_URL_EN'' \<noteq> None" and "env_opt_trimmed sr ''TERMS_URL_TR'' \<noteq> None"
  shows "(\<exists>s. from_env L sr = Inr s) \<longleftrightarrow> (\<forall>k \<in> set required_keys. sr_var sr k \<noteq> None)"
proof
  assume "\<exists>s. from_env L sr = Inr s"
  then show "\<forall>k \<in> set required_keys. sr_var sr k \<noteq> None" using from_env_needs by blast
next
  assume r: "\<forall>k \<in> set required_keys. sr_var sr k \<noteq> None"
  have n: "sr_var sr k = None" if "k \<notin> set named_keys" for k
    by (rule assms(1)) (use that in \<open>simp add: named_keys_def\<close>)
  obtain s1 where "load_terms L sr blank_settings = Inr s1"
    using terms_by_address [OF n] assms(2,3) by blast
  moreover obtain s2 where "load_admin sr s1 = Inr s2" using admin_off_total [OF assms(1)] by blast
  ultimately show "\<exists>s. from_env L sr = Inr s" using rest_total [OF n] r by blast
qed

definition small_environment :: surroundings where
  "small_environment = \<lparr> sr_var = map_of
       [(''DATABASE_URL'', ''db''), (''VALKEY_URL'', ''kv''), (''JWT_SECRET'', ''s''), (''GOOGLE_CLIENT_ID'', ''g''),
        (''GOOGLE_CLIENT_SECRET'', ''gs''), (''MINIO_ENDPOINT'', ''http://minio''), (''MINIO_ROOT_USER'', ''u''),
        (''MINIO_ROOT_PASSWORD'', ''p''), (''MINIO_BUCKET_VIDEOS'', ''v''), (''MINIO_BUCKET_RAW'', ''r''),
        (''TERMS_URL_EN'', ''http://en''), (''TERMS_URL_TR'', ''http://tr'')],
     sr_file = (\<lambda>_. None), sr_json_map = (\<lambda>_. Some [(''k'', ''pem'')]) \<rparr>"

lemma small_urls: "env_opt_trimmed small_environment ''TERMS_URL_EN'' = Some ''http://en''"
  "env_opt_trimmed small_environment ''TERMS_URL_TR'' = Some ''http://tr''"
  by code_simp+

lemma required_variables_suffice_witness: "\<exists>s. from_env libs0 small_environment = Inr s"
proof -
  have "sr_var small_environment k = None" if "k \<notin> set (''TERMS_URL_EN'' # ''TERMS_URL_TR'' # required_keys)" for k
    using that by (auto simp: small_environment_def required_keys_def)
  moreover have "\<forall>k \<in> set required_keys. sr_var small_environment k \<noteq> None"
    by (simp add: small_environment_def required_keys_def)
  ultimately show ?thesis
    using required_variables_suffice [of small_environment libs0] by (auto simp: small_urls)
qed

definition admin_environment :: surroundings where
  "admin_environment = small_environment\<lparr> sr_var := (sr_var small_environment)(''ADMIN_API_ENABLED'' \<mapsto> ''true'',
     ''ADMIN_JWT_ISSUER'' \<mapsto> ''iss'', ''ADMIN_JWT_AUDIENCE'' \<mapsto> ''aud'', ''ADMIN_JWT_PUBLIC_KEYS_JSON'' \<mapsto> ''{k: pem}'') \<rparr>"

lemma admin_environment_starts:
  "\<exists>s. from_env libs0 admin_environment = Inr s \<and> cf_admin_api_enabled s"
proof -
  have n: "sr_var admin_environment k = None" if "k \<notin> set named_keys" for k
    using that by (auto simp: admin_environment_def small_environment_def named_keys_def required_keys_def)
  have r: "sr_var admin_environment k \<noteq> None" if "k \<in> set required_keys" for k
    using that by (auto simp: admin_environment_def small_environment_def required_keys_def)
  have u: "env_opt_trimmed admin_environment ''TERMS_URL_EN'' = Some ''http://en''"
    "env_opt_trimmed admin_environment ''TERMS_URL_TR'' = Some ''http://tr''"
    using small_urls by (simp_all add: env_opt_trimmed_def admin_environment_def)
  obtain s1 where t: "load_terms libs0 admin_environment blank_settings = Inr s1"
    by (rule terms_by_address [OF n u])
  have tr: "trim ''{k: pem}'' = ''{k: pem}''" "trim ''iss'' = ''iss''" "trim ''aud'' = ''aud''" by code_simp+
  obtain s2 where a: "load_admin admin_environment s1 = Inr s2" and e: "cf_admin_api_enabled s2"
    by (simp add: load_admin_def Let_def env_or_def admin_environment_def small_environment_def field_def
        text_field_def flag_field_def env_flag_def parse_bool_def ensureS_def env_opt_trimmed_def non_empty_def tr parses)
  obtain s where s: "from_env libs0 admin_environment = Inr s" using rest_total [OF n r t a] by blast
  obtain s1' s2' where "load_terms libs0 admin_environment blank_settings = Inr s1'"
      "load_admin admin_environment s1' = Inr s2'" "kept s = kept s2'"
    using from_env_InrE [OF s] by metis
  then have "cf_admin_api_enabled s" using t a e by (simp add: kept_def)
  then show ?thesis using s by blast
qed

lemma admin_api_needs_its_keys_witness:
  "\<exists>s. from_env libs0 admin_environment = Inr s \<and> cf_admin_jwt_public_keys s \<noteq> []"
  using admin_environment_starts admin_api_needs_its_keys by blast

lemma loaded_terms_are_served_witness:
  "\<exists>s b. from_env libs0 admin_environment = Inr s \<and> terms_bundle (config.truncate s) world0 = (Inr b, world0)
     \<and> tr_language (tb_en b) = ''en''"
proof -
  obtain s where s: "from_env libs0 admin_environment = Inr s" using admin_environment_starts by blast
  from loaded_terms_are_served [OF this, of world0] s show ?thesis by blast
qed

lemma frontmatter_taken_apart_witness:
  "parse_terms_frontmatter libs0 (front_open @ ''version: v1'' @ front_close @ ''Body'')
     = Inr (Some \<lparr> tf_version = None, tf_effective_at = None, tf_jurisdictions = None \<rparr>, ''Body'')"
proof -
  have a: "\<forall>k < length ''version: v1''. \<not> prefix front_close (drop k ''version: v1'' @ front_close)"
    by (simp add: front_close_def newline_def less_Suc_eq)
  have "\<not> prefix front_open []" by (simp add: front_open_def)
  from frontmatter_taken_apart [OF a _ this, of libs0] show ?thesis by (simp add: libs0_def newline_def)
qed

end
