(* ===== verification/Schema.thy ===== *)
theory Schema
  imports Prelude
begin

text \<open>
  Schemas of the database as \<^verbatim>\<open>shared/migration\<close> builds them: tables, columns, keys, checks, indexes and
  triggers, the operations of a migration on them, and that these keep a schema sound.
\<close>

section \<open>Schemas\<close>

datatype column_type =
    CUuid | CString | CText | CBigInteger | CInteger | CSmallInteger | CBoolean | CTimestamp | CJson
  | CTsVector | CArray column_type

datatype default_value = CurrentTimestamp | DefaultText string | DefaultNumber int | DefaultBool bool

record column =
  co_name :: string
  co_type :: column_type
  co_nullable :: bool
  co_default :: "default_value option"

text \<open>The conditions of partial indexes and of \<^verbatim>\<open>CHECK\<close> constraints.\<close>

datatype condition =
    IsNull string | IsNotNull string | EqualsText string string | IsFalse string
  | OneOf string "string list" | HasElements string
  | Both condition condition | Either condition condition

fun condition_columns :: "condition \<Rightarrow> string list" where
  "condition_columns (IsNull c) = [c]"
| "condition_columns (IsNotNull c) = [c]"
| "condition_columns (EqualsText c _) = [c]"
| "condition_columns (IsFalse c) = [c]"
| "condition_columns (OneOf c _) = [c]"
| "condition_columns (HasElements c) = [c]"
| "condition_columns (Both p q) = condition_columns p @ condition_columns q"
| "condition_columns (Either p q) = condition_columns p @ condition_columns q"

datatype fk_action = NoAction | Cascade | SetNull

record foreign_key =
  fk_name :: string
  fk_column :: string
  fk_target :: string
  fk_target_column :: string
  fk_on_delete :: fk_action
  fk_on_update :: fk_action

datatype index_key = Ascending string | Descending string | LowerOf string | Gin string

fun key_column :: "index_key \<Rightarrow> string" where
  "key_column (Ascending c) = c"
| "key_column (Descending c) = c"
| "key_column (LowerOf c) = c"
| "key_column (Gin c) = c"

record index_def =
  ix_name :: string
  ix_unique :: bool
  ix_keys :: "index_key list"
  ix_where :: "condition option"

definition index_columns :: "index_def \<Rightarrow> string list" where
  "index_columns i = map key_column (ix_keys i)
     @ (case ix_where i of None \<Rightarrow> [] | Some p \<Rightarrow> condition_columns p)"

text \<open>Constraints carry the names the database knows them by.\<close>

record table_def =
  td_name :: string
  td_columns :: "column list"
  td_primary_key :: "string \<times> string list"
  td_unique :: "(string \<times> string list) list"
  td_foreign_keys :: "foreign_key list"
  td_checks :: "(string \<times> condition) list"
  td_indexes :: "index_def list"
  td_triggers :: "(string \<times> string) list"

record schema =
  sm_tables :: "table_def list"
  sm_functions :: "string list"

definition empty_schema :: schema where
  "empty_schema = \<lparr> sm_tables = [], sm_functions = [] \<rparr>"

definition column_names :: "table_def \<Rightarrow> string list" where
  "column_names t = map co_name (td_columns t)"

definition constraint_names :: "table_def \<Rightarrow> string list" where
  "constraint_names t = fst (td_primary_key t) # map fst (td_unique t) @ map fk_name (td_foreign_keys t)
     @ map fst (td_checks t)"

definition index_names :: "schema \<Rightarrow> string list" where
  "index_names s = concat (map (\<lambda>t. map ix_name (td_indexes t)) (sm_tables s))"

definition find_table :: "schema \<Rightarrow> string \<Rightarrow> table_def option" where
  "find_table s n = find (\<lambda>t. td_name t = n) (sm_tables s)"

definition has_column :: "schema \<Rightarrow> string \<Rightarrow> string \<Rightarrow> bool" where
  "has_column s n c \<longleftrightarrow> list_ex (\<lambda>t. td_name t = n \<and> c \<in> set (column_names t)) (sm_tables s)"

text \<open>What a foreign key may refer to: a column that is the primary key or unique by itself.\<close>

definition is_key :: "table_def \<Rightarrow> string \<Rightarrow> bool" where
  "is_key t c \<longleftrightarrow> snd (td_primary_key t) = [c] \<or> [c] \<in> snd ` set (td_unique t)"

definition has_key :: "schema \<Rightarrow> string \<Rightarrow> string \<Rightarrow> bool" where
  "has_key s n c \<longleftrightarrow> list_ex (\<lambda>t. td_name t = n \<and> is_key t c) (sm_tables s)"

text \<open>A table is sound in a schema when all it names is there.\<close>

definition names_ok :: "table_def \<Rightarrow> bool" where
  "names_ok t \<longleftrightarrow> distinct (column_names t) \<and> set (snd (td_primary_key t)) \<subseteq> set (column_names t)
   \<and> list_all (\<lambda>(_, cs). set cs \<subseteq> set (column_names t)) (td_unique t)
   \<and> list_all (\<lambda>f. fk_column f \<in> set (column_names t)) (td_foreign_keys t)
   \<and> list_all (\<lambda>(_, p). set (condition_columns p) \<subseteq> set (column_names t)) (td_checks t)
   \<and> list_all (\<lambda>i. set (index_columns i) \<subseteq> set (column_names t)) (td_indexes t)"

definition links_ok :: "schema \<Rightarrow> table_def \<Rightarrow> bool" where
  "links_ok s t \<longleftrightarrow> list_all (\<lambda>f. has_key s (fk_target f) (fk_target_column f)) (td_foreign_keys t)
   \<and> list_all (\<lambda>(_, f). f \<in> set (sm_functions s)) (td_triggers t)"

definition schema_ok :: "schema \<Rightarrow> bool" where
  "schema_ok s \<longleftrightarrow> distinct (map td_name (sm_tables s)) \<and> distinct (index_names s)
   \<and> (\<forall>t \<in> set (sm_tables s). names_ok t \<and> links_ok s t)"

section \<open>Operations\<close>

datatype alteration =
    AddColumn column | AddColumnIfMissing column | DropColumn string | DropColumnIfThere string
  | AddForeignKey foreign_key | DropForeignKey string
  | AddCheck string condition | DropConstraintIfThere string

datatype operation =
    CreateTable table_def | DropTable string | AlterTable string "alteration list"
  | CreateIndex string index_def | CreateIndexIfMissing string index_def
  | DropIndex string | DropIndexIfThere string
  | ReplaceFunction string | DropFunctionIfThere string
  | CreateTrigger string string string | DropTriggerIfThere string string
  | UpdateRows string string

datatype schema_error = Duplicate string | Missing string | StillUsed string | Unsound string

type_synonym 'a result = "schema_error + 'a"

fun thenR :: "'a result \<Rightarrow> ('a \<Rightarrow> 'b result) \<Rightarrow> 'b result" where
  "thenR (Inl e) k = Inl e"
| "thenR (Inr x) k = k x"

definition demand :: "bool \<Rightarrow> schema_error \<Rightarrow> 'a result \<Rightarrow> 'a result" where
  "demand b e k = (if b then k else Inl e)"

lemma thenR_Inr [simp]: "thenR m k = Inr y \<longleftrightarrow> (\<exists>x. m = Inr x \<and> k x = Inr y)"
  by (cases m) auto

lemma demand_Inr [simp]: "demand b e k = Inr y \<longleftrightarrow> b \<and> k = Inr y"
  by (simp add: demand_def)

definition put_table :: "string \<Rightarrow> table_def \<Rightarrow> schema \<Rightarrow> schema" where
  "put_table n t s = s\<lparr> sm_tables := map (\<lambda>u. if td_name u = n then t else u) (sm_tables s) \<rparr>"

text \<open>The tables whose keys refer to a column (or, for a table, to any of its columns).\<close>

definition referenced :: "schema \<Rightarrow> string \<Rightarrow> (string \<Rightarrow> bool) \<Rightarrow> bool" where
  "referenced s n p \<longleftrightarrow>
     list_ex (\<lambda>t. list_ex (\<lambda>f. fk_target f = n \<and> p (fk_target_column f)) (td_foreign_keys t)) (sm_tables s)"

text \<open>Dropping a column drops the indexes and the constraints of its table that mention it.\<close>

definition without_column :: "string \<Rightarrow> table_def \<Rightarrow> table_def" where
  "without_column c t = t\<lparr>
     td_columns := filter (\<lambda>k. co_name k \<noteq> c) (td_columns t),
     td_primary_key := (fst (td_primary_key t), if c \<in> set (snd (td_primary_key t)) then [] else snd (td_primary_key t)),
     td_unique := filter (\<lambda>(_, cs). c \<notin> set cs) (td_unique t),
     td_foreign_keys := filter (\<lambda>f. fk_column f \<noteq> c) (td_foreign_keys t),
     td_checks := filter (\<lambda>(_, p). c \<notin> set (condition_columns p)) (td_checks t),
     td_indexes := filter (\<lambda>i. c \<notin> set (index_columns i)) (td_indexes t) \<rparr>"

fun alter :: "schema \<Rightarrow> table_def \<Rightarrow> alteration \<Rightarrow> table_def result" where
  "alter s t (AddColumn c) =
     demand (co_name c \<notin> set (column_names t)) (Duplicate (co_name c))
       (Inr (t\<lparr> td_columns := td_columns t @ [c] \<rparr>))"
| "alter s t (AddColumnIfMissing c) =
     (if co_name c \<in> set (column_names t) then Inr t else Inr (t\<lparr> td_columns := td_columns t @ [c] \<rparr>))"
| "alter s t (DropColumn c) =
     demand (c \<in> set (column_names t)) (Missing c)
    (demand (\<not> referenced s (td_name t) (\<lambda>k. k = c)) (StillUsed c) (Inr (without_column c t)))"
| "alter s t (DropColumnIfThere c) =
     (if c \<notin> set (column_names t) then Inr t
      else demand (\<not> referenced s (td_name t) (\<lambda>k. k = c)) (StillUsed c) (Inr (without_column c t)))"
| "alter s t (AddForeignKey f) =
     demand (fk_name f \<notin> set (constraint_names t)) (Duplicate (fk_name f))
    (demand (fk_column f \<in> set (column_names t)) (Missing (fk_column f))
    (demand (has_key s (fk_target f) (fk_target_column f)) (Missing (fk_target_column f))
       (Inr (t\<lparr> td_foreign_keys := td_foreign_keys t @ [f] \<rparr>))))"
| "alter s t (DropForeignKey n) =
     demand (n \<in> set (map fk_name (td_foreign_keys t))) (Missing n)
       (Inr (t\<lparr> td_foreign_keys := filter (\<lambda>f. fk_name f \<noteq> n) (td_foreign_keys t) \<rparr>))"
| "alter s t (AddCheck n p) =
     demand (n \<notin> set (constraint_names t)) (Duplicate n)
    (demand (set (condition_columns p) \<subseteq> set (column_names t)) (Unsound n)
       (Inr (t\<lparr> td_checks := td_checks t @ [(n, p)] \<rparr>)))"
| "alter s t (DropConstraintIfThere n) =
     Inr (t\<lparr> td_foreign_keys := filter (\<lambda>f. fk_name f \<noteq> n) (td_foreign_keys t),
             td_checks := filter (\<lambda>(m, _). m \<noteq> n) (td_checks t) \<rparr>)"

text \<open>The alterations of one statement come one after the other, each on the schema as it then is.\<close>

fun alter_all :: "string \<Rightarrow> alteration list \<Rightarrow> schema \<Rightarrow> schema result" where
  "alter_all n [] s = Inr s"
| "alter_all n (a # as) s =
     (case find_table s n of
        None \<Rightarrow> Inl (Missing n)
      | Some t \<Rightarrow> thenR (alter s t a) (\<lambda>t'. alter_all n as (put_table n t' s)))"

definition create_index :: "string \<Rightarrow> index_def \<Rightarrow> schema \<Rightarrow> schema result" where
  "create_index n i s =
     (case find_table s n of
        None \<Rightarrow> Inl (Missing n)
      | Some t \<Rightarrow>
          demand (ix_name i \<notin> set (index_names s)) (Duplicate (ix_name i))
         (demand (set (index_columns i) \<subseteq> set (column_names t)) (Unsound (ix_name i))
            (Inr (put_table n (t\<lparr> td_indexes := td_indexes t @ [i] \<rparr>) s))))"

definition drop_index :: "string \<Rightarrow> schema \<Rightarrow> schema" where
  "drop_index n s = s\<lparr> sm_tables :=
     map (\<lambda>t. t\<lparr> td_indexes := filter (\<lambda>i. ix_name i \<noteq> n) (td_indexes t) \<rparr>) (sm_tables s) \<rparr>"

fun perform :: "operation \<Rightarrow> schema \<Rightarrow> schema result" where
  "perform (CreateTable t) s =
     (if td_name t \<in> set (map td_name (sm_tables s)) then Inr s
      else
        let s' = s\<lparr> sm_tables := sm_tables s @ [t] \<rparr> in
        demand (names_ok t \<and> links_ok s' t \<and> td_indexes t = []) (Unsound (td_name t)) (Inr s'))"
| "perform (DropTable n) s =
     demand (n \<in> set (map td_name (sm_tables s))) (Missing n)
    (let s' = s\<lparr> sm_tables := filter (\<lambda>t. td_name t \<noteq> n) (sm_tables s) \<rparr> in
     demand (\<not> referenced s' n (\<lambda>_. True)) (StillUsed n) (Inr s'))"
| "perform (AlterTable n as) s = alter_all n as s"
| "perform (CreateIndex n i) s = create_index n i s"
| "perform (CreateIndexIfMissing n i) s =
     (if ix_name i \<in> set (index_names s) then Inr s else create_index n i s)"
| "perform (DropIndex n) s = demand (n \<in> set (index_names s)) (Missing n) (Inr (drop_index n s))"
| "perform (DropIndexIfThere n) s = Inr (drop_index n s)"
| "perform (ReplaceFunction f) s =
     Inr (if f \<in> set (sm_functions s) then s else s\<lparr> sm_functions := sm_functions s @ [f] \<rparr>)"
| "perform (DropFunctionIfThere f) s =
     demand (\<not> list_ex (\<lambda>t. f \<in> snd ` set (td_triggers t)) (sm_tables s)) (StillUsed f)
       (Inr (s\<lparr> sm_functions := filter (\<lambda>g. g \<noteq> f) (sm_functions s) \<rparr>))"
| "perform (CreateTrigger n g f) s =
     (case find_table s n of
        None \<Rightarrow> Inl (Missing n)
      | Some t \<Rightarrow>
          demand (g \<notin> fst ` set (td_triggers t)) (Duplicate g)
         (demand (f \<in> set (sm_functions s)) (Missing f)
            (Inr (put_table n (t\<lparr> td_triggers := td_triggers t @ [(g, f)] \<rparr>) s))))"
| "perform (DropTriggerIfThere n g) s =
     (case find_table s n of
        None \<Rightarrow> Inr s
      | Some t \<Rightarrow> Inr (put_table n (t\<lparr> td_triggers := filter (\<lambda>(h, _). h \<noteq> g) (td_triggers t) \<rparr>) s))"
| "perform (UpdateRows n c) s = demand (has_column s n c) (Missing c) (Inr s)"

fun perform_all :: "operation list \<Rightarrow> schema \<Rightarrow> schema result" where
  "perform_all [] s = Inr s"
| "perform_all (p # ps) s = thenR (perform p s) (perform_all ps)"

lemma perform_all_append: "perform_all (ps @ qs) s = thenR (perform_all ps s) (perform_all qs)"
proof (induction ps arbitrary: s)
  case (Cons p ps)
  then show ?case by (cases "perform p s") simp_all
qed simp

section \<open>Operations keep a schema sound\<close>

lemma has_key_put:
  assumes "find_table s n = Some t" and "td_name t' = n" and "distinct (map td_name (sm_tables s))"
  shows "has_key (put_table n t' s) m c \<longleftrightarrow> (if m = n then is_key t' c else has_key s m c)"
proof -
  have t: "t \<in> set (sm_tables s)" "td_name t = n"
    using assms(1) by (auto simp: find_table_def find_Some_iff)
  show ?thesis using t assms(2)
    by (auto simp: has_key_def put_table_def list_ex_iff)
qed

lemma tables_put: "u \<in> set (sm_tables (put_table n t s)) \<Longrightarrow> u = t \<or> (u \<in> set (sm_tables s) \<and> td_name u \<noteq> n)"
  by (auto simp: put_table_def)

lemma functions_put [simp]: "sm_functions (put_table n t s) = sm_functions s"
  by (simp add: put_table_def)

lemma names_put: "td_name t = n \<Longrightarrow> map td_name (sm_tables (put_table n t s)) = map td_name (sm_tables s)"
  by (auto simp: put_table_def)

lemma map_other: "n \<notin> td_name ` set ts \<Longrightarrow> map (\<lambda>u. if td_name u = n then x else u) ts = ts"
  by (induction ts) auto

lemma find_split:
  assumes "find (\<lambda>t. td_name t = n) ts = Some t" and "distinct (map td_name ts)"
  obtains xs ys where "ts = xs @ t # ys" "td_name t = n" "n \<notin> td_name ` set xs" "n \<notin> td_name ` set ys"
proof -
  have "t \<in> set ts" "td_name t = n" using assms(1) by (auto simp: find_Some_iff)
  then obtain xs ys where "ts = xs @ t # ys" by (meson split_list)
  then show thesis using that assms(2) \<open>td_name t = n\<close> by auto
qed

lemma distinct_middle:
  "distinct (as @ bs @ cs) \<Longrightarrow> distinct bs' \<Longrightarrow> set bs' - set bs \<subseteq> - set (as @ bs @ cs) \<Longrightarrow> distinct (as @ bs' @ cs)"
  by auto

lemma index_names_put:
  assumes "find_table s n = Some t" and "distinct (map td_name (sm_tables s))"
    and "distinct (index_names s)" and "distinct (map ix_name (td_indexes t'))"
    and "set (map ix_name (td_indexes t')) - set (map ix_name (td_indexes t)) \<subseteq> - set (index_names s)"
  shows "distinct (index_names (put_table n t' s))"
proof -
  obtain xs ys where ts: "sm_tables s = xs @ t # ys" "td_name t = n" "n \<notin> td_name ` set xs" "n \<notin> td_name ` set ys"
    using find_split [OF assms(1) [unfolded find_table_def] assms(2)] .
  let ?names = "\<lambda>ts. concat (map (\<lambda>t. map ix_name (td_indexes t)) ts)"
  have old: "index_names s = ?names xs @ map ix_name (td_indexes t) @ ?names ys"
    and new: "index_names (put_table n t' s) = ?names xs @ map ix_name (td_indexes t') @ ?names ys"
    using ts by (simp_all add: index_names_def put_table_def map_other)
  show ?thesis unfolding new
    by (rule distinct_middle [OF assms(3) [unfolded old] assms(4) assms(5) [unfolded old]])
qed

text \<open>Replacing a table by one that is sound and still has the keys others refer to.\<close>

lemma schema_ok_put:
  assumes ok: "schema_ok s" and t: "find_table s n = Some t" and n: "td_name t' = n" and names: "names_ok t'"
    and fks: "\<forall>f \<in> set (td_foreign_keys t'). f \<in> set (td_foreign_keys t) \<or> has_key s (fk_target f) (fk_target_column f)"
    and triggers: "\<forall>g \<in> set (td_triggers t'). g \<in> set (td_triggers t) \<or> snd g \<in> set (sm_functions s)"
    and kept: "\<forall>c. is_key t c \<and> referenced s n (\<lambda>k. k = c) \<longrightarrow> is_key t' c"
    and more_keys: "\<forall>f \<in> set (td_foreign_keys t'). f \<notin> set (td_foreign_keys t) \<and> fk_target f = n \<longrightarrow> is_key t' (fk_target_column f)"
    and i: "distinct (map ix_name (td_indexes t'))"
      "set (map ix_name (td_indexes t')) - set (map ix_name (td_indexes t)) \<subseteq> - set (index_names s)"
  shows "schema_ok (put_table n t' s)"
proof -
  have d: "distinct (map td_name (sm_tables s))" "distinct (index_names s)"
    and each: "\<And>u. u \<in> set (sm_tables s) \<Longrightarrow> names_ok u \<and> links_ok s u"
    using ok by (auto simp: schema_ok_def)
  have tt: "t \<in> set (sm_tables s)" "td_name t = n" using t by (auto simp: find_table_def find_Some_iff)
  have key_of_t: "is_key t c \<longleftrightarrow> has_key s n c" for c
    using tt d(1) by (auto simp: has_key_def list_ex_iff distinct_map dest: inj_onD)
  have keeps: "has_key (put_table n t' s) (fk_target f) (fk_target_column f)"
    if "u \<in> set (sm_tables s)" and "f \<in> set (td_foreign_keys u)" for u f
  proof (cases "fk_target f = n")
    case True
    have "has_key s n (fk_target_column f)" using each [OF that(1)] that(2) True by (auto simp: links_ok_def list_all_iff)
    moreover have "referenced s n (\<lambda>k. k = fk_target_column f)"
      using that True by (auto simp: referenced_def list_ex_iff)
    ultimately show ?thesis using kept key_of_t True by (simp add: has_key_put [OF t n d(1)])
  next
    case False
    then show ?thesis using each [OF that(1)] that(2)
      by (auto simp: has_key_put [OF t n d(1)] links_ok_def list_all_iff)
  qed
  have "links_ok (put_table n t' s) t'"
    unfolding links_ok_def list_all_iff
    using keeps [OF tt(1)] fks more_keys triggers each [OF tt(1)]
    by (auto simp: has_key_put [OF t n d(1)] links_ok_def list_all_iff split: if_splits)
  moreover have "links_ok (put_table n t' s) u" if "u \<in> set (sm_tables s)" for u
    using keeps [OF that] each [OF that] by (auto simp: links_ok_def list_all_iff)
  ultimately show ?thesis
    using d each names names_put [OF n, of s] index_names_put [OF t d i]
    by (auto simp: schema_ok_def dest: tables_put)
qed

lemma schema_okD:
  assumes "schema_ok s" and "find_table s n = Some t"
  shows "t \<in> set (sm_tables s)" and "td_name t = n" and "names_ok t" and "links_ok s t"
    and "distinct (map ix_name (td_indexes t))" and "set (map ix_name (td_indexes t)) \<subseteq> set (index_names s)"
proof -
  show t: "t \<in> set (sm_tables s)" "td_name t = n" using assms(2) by (auto simp: find_table_def find_Some_iff)
  show "names_ok t" "links_ok s t" using assms(1) t by (auto simp: schema_ok_def)
  have "distinct (index_names s)" using assms(1) by (simp add: schema_ok_def)
  then show "distinct (map ix_name (td_indexes t))"
    using t(1) by (auto simp: index_names_def distinct_concat_iff)
  show "set (map ix_name (td_indexes t)) \<subseteq> set (index_names s)" using t(1) by (auto simp: index_names_def)
qed

lemma distinct_map_filter': "distinct (map f xs) \<Longrightarrow> distinct (map f (filter P xs))"
  by (induction xs) auto

lemma names_ok_without:
  assumes "names_ok t"
  shows "names_ok (without_column c t)"
proof -
  let ?t = "without_column c t"
  have cols: "set (column_names ?t) = set (column_names t) - {c}"
    by (auto simp: column_names_def without_column_def)
  have d: "distinct (column_names ?t)"
    using assms by (auto simp: names_ok_def column_names_def without_column_def distinct_map_filter')
  have fields: "td_unique ?t = filter (\<lambda>(_, cs). c \<notin> set cs) (td_unique t)"
    "td_primary_key ?t = (fst (td_primary_key t), if c \<in> set (snd (td_primary_key t)) then [] else snd (td_primary_key t))"
    "td_foreign_keys ?t = filter (\<lambda>f. fk_column f \<noteq> c) (td_foreign_keys t)"
    "td_checks ?t = filter (\<lambda>(_, p). c \<notin> set (condition_columns p)) (td_checks t)"
    "td_indexes ?t = filter (\<lambda>i. c \<notin> set (index_columns i)) (td_indexes t)"
    by (simp_all add: without_column_def)
  show ?thesis
    using assms d unfolding names_ok_def fields cols list_all_iff by auto
qed

lemma alter_name: "alter s t a = Inr t' \<Longrightarrow> td_name t' = td_name t"
  by (cases a) (auto simp: without_column_def split: if_splits)

lemma column_names_simps [simp]:
  "column_names (t\<lparr> td_foreign_keys := fs \<rparr>) = column_names t" "column_names (t\<lparr> td_checks := ps \<rparr>) = column_names t"
  "column_names (t\<lparr> td_indexes := is \<rparr>) = column_names t" "column_names (t\<lparr> td_triggers := gs \<rparr>) = column_names t"
  by (simp_all add: column_names_def)

lemma list_all_filter [simp]: "list_all P xs \<Longrightarrow> list_all P (filter Q xs)"
  by (simp add: list_all_iff)

lemma names_ok_add:
  assumes "names_ok t" and "co_name c \<notin> set (column_names t)"
  shows "names_ok (t\<lparr> td_columns := td_columns t @ [c] \<rparr>)"
proof -
  have "set cs \<subseteq> set (column_names t) \<Longrightarrow> set cs \<subseteq> set (column_names (t\<lparr> td_columns := td_columns t @ [c] \<rparr>))" for cs
    by (auto simp: column_names_def)
  then show ?thesis using assms by (auto simp: names_ok_def column_names_def list_all_iff)
qed

lemma names_ok_alter:
  assumes "alter s t a = Inr t'" and "names_ok t"
  shows "names_ok t'"
proof (cases a)
  case (AddColumn c)
  with assms names_ok_add show ?thesis by auto
next
  case (AddColumnIfMissing c)
  with assms names_ok_add show ?thesis by (auto split: if_splits)
next
  case (DropColumn c)
  with assms names_ok_without show ?thesis by auto
next
  case (DropColumnIfThere c)
  with assms names_ok_without show ?thesis by (auto split: if_splits)
next
  case (AddForeignKey f)
  with assms show ?thesis by (auto simp: names_ok_def)
next
  case (DropForeignKey n)
  with assms show ?thesis by (auto simp: names_ok_def)
next
  case (AddCheck n p)
  with assms show ?thesis by (auto simp: names_ok_def)
next
  case (DropConstraintIfThere n)
  with assms show ?thesis by (auto simp: names_ok_def)
qed

lemma alter_parts:
  assumes "alter s t a = Inr t'"
  shows "\<forall>f \<in> set (td_foreign_keys t'). f \<in> set (td_foreign_keys t) \<or> has_key s (fk_target f) (fk_target_column f)"
    and "td_triggers t' = td_triggers t"
    and "\<forall>c. is_key t c \<and> referenced s (td_name t) (\<lambda>k. k = c) \<longrightarrow> is_key t' c"
    and "distinct (map ix_name (td_indexes t)) \<Longrightarrow> distinct (map ix_name (td_indexes t'))"
    and "set (td_indexes t') \<subseteq> set (td_indexes t)"
  using assms by (cases a; force simp: is_key_def without_column_def distinct_map_filter' split: if_splits)+

text \<open>A key that refers to the table it is added to refers to a column that stays a key.\<close>

lemma alter_own_keys:
  assumes "alter s t a = Inr t'" and "schema_ok s" and "find_table s (td_name t) = Some t"
    and "f \<in> set (td_foreign_keys t')" and "f \<notin> set (td_foreign_keys t)" and "fk_target f = td_name t"
  shows "is_key t' (fk_target_column f)"
proof -
  have "a = AddForeignKey f \<and> has_key s (td_name t) (fk_target_column f)"
    using assms(1,4-6) by (cases a) (auto simp: without_column_def split: if_splits)
  moreover have "is_key t (fk_target_column f)" if "has_key s (td_name t) (fk_target_column f)"
    using that assms(2) schema_okD(1) [OF assms(2,3)]
    by (auto simp: has_key_def list_ex_iff schema_ok_def distinct_map dest: inj_onD)
  ultimately show ?thesis using assms(1) by (auto simp: is_key_def)
qed

lemma schema_ok_alter:
  assumes "schema_ok s" and "find_table s n = Some t" and "alter s t a = Inr t'"
  shows "schema_ok (put_table n t' s)"
proof (rule schema_ok_put [OF assms(1,2)])
  note t = schema_okD [OF assms(1,2)]
  note p = alter_parts [OF assms(3), unfolded t(2)]
  show "td_name t' = n" using alter_name [OF assms(3)] t(2) by simp
  show "names_ok t'" using names_ok_alter [OF assms(3)] t(3) by simp
  show "\<forall>f \<in> set (td_foreign_keys t'). f \<in> set (td_foreign_keys t) \<or> has_key s (fk_target f) (fk_target_column f)"
    by (rule p(1))
  show "\<forall>g \<in> set (td_triggers t'). g \<in> set (td_triggers t) \<or> snd g \<in> set (sm_functions s)" using p(2) by simp
  show "\<forall>c. is_key t c \<and> referenced s n (\<lambda>k. k = c) \<longrightarrow> is_key t' c" by (rule p(3))
  show "\<forall>f \<in> set (td_foreign_keys t'). f \<notin> set (td_foreign_keys t) \<and> fk_target f = n \<longrightarrow> is_key t' (fk_target_column f)"
    using alter_own_keys [OF assms(3,1)] assms(2) t(2) by simp
  show "distinct (map ix_name (td_indexes t'))" by (rule p(4) [OF t(5)])
  show "set (map ix_name (td_indexes t')) - set (map ix_name (td_indexes t)) \<subseteq> - set (index_names s)"
    using p(5) by auto
qed

lemma schema_ok_alter_all: "alter_all n as s = Inr s' \<Longrightarrow> schema_ok s \<Longrightarrow> schema_ok s'"
  by (induction as arbitrary: s) (auto split: option.splits dest: schema_ok_alter)

lemma schema_ok_create_index:
  assumes "create_index n i s = Inr s'" and "schema_ok s"
  shows "schema_ok s'"
proof -
  obtain t where t: "find_table s n = Some t" "ix_name i \<notin> set (index_names s)"
      "set (index_columns i) \<subseteq> set (column_names t)" "s' = put_table n (t\<lparr> td_indexes := td_indexes t @ [i] \<rparr>) s"
    using assms(1) by (auto simp: create_index_def split: option.splits)
  note k = schema_okD [OF assms(2) t(1)]
  show ?thesis unfolding t(4)
    by (rule schema_ok_put [OF assms(2) t(1)])
      (use k t(2,3) in \<open>auto simp: names_ok_def column_names_def is_key_def\<close>)
qed

lemma schema_ok_drop_index: "schema_ok s \<Longrightarrow> schema_ok (drop_index n s)"
proof -
  assume ok: "schema_ok s"
  have "index_names (drop_index n s) = filter (\<lambda>m. m \<noteq> n) (index_names s)"
    by (simp add: index_names_def drop_index_def filter_concat filter_map comp_def)
  moreover have "map td_name (sm_tables (drop_index n s)) = map td_name (sm_tables s)"
    by (simp add: drop_index_def)
  moreover have "has_key (drop_index n s) = has_key s"
    by (intro ext) (auto simp: has_key_def drop_index_def list_ex_iff is_key_def)
  moreover have "sm_functions (drop_index n s) = sm_functions s" by (simp add: drop_index_def)
  moreover have "names_ok (t\<lparr> td_indexes := filter P (td_indexes t) \<rparr>)" if "names_ok t" for t P
    using that by (auto simp: names_ok_def column_names_def list_all_iff)
  moreover have "\<exists>t \<in> set (sm_tables s). u = t\<lparr> td_indexes := filter (\<lambda>i. ix_name i \<noteq> n) (td_indexes t) \<rparr>"
    if "u \<in> set (sm_tables (drop_index n s))" for u
    using that by (auto simp: drop_index_def)
  ultimately show ?thesis using ok
    by (fastforce simp: schema_ok_def links_ok_def)
qed

lemma schema_ok_tables:
  assumes "schema_ok s" and "sm_functions s' = sm_functions s" and "distinct (map td_name (sm_tables s'))"
    and "distinct (index_names s')"
    and "\<And>t. t \<in> set (sm_tables s') \<Longrightarrow> t \<in> set (sm_tables s) \<or> names_ok t \<and> links_ok s' t"
    and "\<And>t f. t \<in> set (sm_tables s) \<Longrightarrow> t \<in> set (sm_tables s') \<Longrightarrow> f \<in> set (td_foreign_keys t) \<Longrightarrow>
      has_key s (fk_target f) (fk_target_column f) \<Longrightarrow> has_key s' (fk_target f) (fk_target_column f)"
  shows "schema_ok s'"
proof -
  have "names_ok t \<and> links_ok s' t" if t: "t \<in> set (sm_tables s')" for t
  proof (cases "t \<in> set (sm_tables s)")
    case True
    then have "names_ok t" "links_ok s t" using assms(1) by (auto simp: schema_ok_def)
    then show ?thesis using assms(2,6) t True by (simp add: links_ok_def list_all_iff)
  qed (use assms(5) t in blast)
  then show ?thesis using assms(3,4) by (simp add: schema_ok_def)
qed

lemma schema_ok_functions:
  assumes "schema_ok s" and "sm_tables s' = sm_tables s"
    and "\<And>t g. t \<in> set (sm_tables s) \<Longrightarrow> g \<in> set (td_triggers t) \<Longrightarrow> snd g \<in> set (sm_functions s) \<Longrightarrow> snd g \<in> set (sm_functions s')"
  shows "schema_ok s'"
proof -
  have "has_key s' = has_key s" "index_names s' = index_names s"
    by (simp_all add: has_key_def index_names_def fun_eq_iff assms(2))
  then show ?thesis using assms by (fastforce simp: schema_ok_def links_ok_def list_all_iff)
qed

lemma schema_ok_create:
  assumes "schema_ok s" and "td_name t \<notin> set (map td_name (sm_tables s))" and "td_indexes t = []"
    and "names_ok t" and "links_ok (s\<lparr> sm_tables := sm_tables s @ [t] \<rparr>) t"
  shows "schema_ok (s\<lparr> sm_tables := sm_tables s @ [t] \<rparr>)"
proof (rule schema_ok_tables [OF assms(1)])
  show "distinct (index_names (s\<lparr> sm_tables := sm_tables s @ [t] \<rparr>))"
    using assms(1,3) by (simp add: schema_ok_def index_names_def)
qed (use assms in \<open>auto simp: schema_ok_def has_key_def\<close>)

lemma schema_ok_drop:
  assumes "schema_ok s" and "\<not> referenced (s\<lparr> sm_tables := filter (\<lambda>t. td_name t \<noteq> n) (sm_tables s) \<rparr>) n (\<lambda>_. True)"
  shows "schema_ok (s\<lparr> sm_tables := filter (\<lambda>t. td_name t \<noteq> n) (sm_tables s) \<rparr>)"
proof (rule schema_ok_tables [OF assms(1)])
  have "distinct (concat (map f ts)) \<Longrightarrow> distinct (concat (map f (filter P ts)))" for f :: "table_def \<Rightarrow> string list" and P ts
    by (induction ts) auto
  then show "distinct (index_names (s\<lparr> sm_tables := filter (\<lambda>t. td_name t \<noteq> n) (sm_tables s) \<rparr>))"
    using assms(1) by (simp add: schema_ok_def index_names_def)
next
  fix t f
  assume "t \<in> set (sm_tables (s\<lparr> sm_tables := filter (\<lambda>t. td_name t \<noteq> n) (sm_tables s) \<rparr>))" "f \<in> set (td_foreign_keys t)"
    "has_key s (fk_target f) (fk_target_column f)"
  moreover from this have "fk_target f \<noteq> n" using assms(2) by (auto simp: referenced_def list_ex_iff)
  ultimately show "has_key (s\<lparr> sm_tables := filter (\<lambda>t. td_name t \<noteq> n) (sm_tables s) \<rparr>) (fk_target f) (fk_target_column f)"
    by (auto simp: has_key_def list_ex_iff)
qed (use assms(1) in \<open>auto simp: schema_ok_def distinct_map_filter'\<close>)

lemma schema_ok_triggers:
  assumes "schema_ok s" and "find_table s n = Some t" and "\<forall>g \<in> set gs. g \<in> set (td_triggers t) \<or> snd g \<in> set (sm_functions s)"
  shows "schema_ok (put_table n (t\<lparr> td_triggers := gs \<rparr>) s)"
  by (rule schema_ok_put [OF assms(1,2)])
    (use schema_okD [OF assms(1,2)] assms(3) in \<open>auto simp: names_ok_def is_key_def\<close>)

lemma perform_keeps_ok:
  assumes "perform p s1 = Inr s2" and "schema_ok s1"
  shows "schema_ok s2"
  using assms
proof (cases p)
  case (ReplaceFunction f)
  with assms show ?thesis by (auto intro: schema_ok_functions split: if_splits)
next
  case (DropFunctionIfThere f)
  with assms show ?thesis by (force simp: list_ex_iff intro!: schema_ok_functions [of s1])
qed (auto simp: Let_def schema_ok_create schema_ok_drop schema_ok_alter_all schema_ok_drop_index
    split: if_splits option.splits intro: schema_ok_create_index schema_ok_triggers)

lemma perform_all_keeps_ok: "perform_all ps s = Inr s' \<Longrightarrow> schema_ok s \<Longrightarrow> schema_ok s'"
  by (induction ps arbitrary: s) (auto dest: perform_keeps_ok)

text \<open>Whatever a migration does to a sound schema leaves it sound, if the database accepts it: tables,
  columns and indexes keep distinct names, and every key, check, index and trigger names columns, keys
  and functions that are there.\<close>

theorem migration_keeps_schema_sound:
  assumes "perform_all ps s = Inr s'" and "schema_ok s"
  shows "schema_ok s'"
  using perform_all_keeps_ok [OF assms] .

lemma migration_keeps_schema_sound_witness:
  "schema_ok \<lparr> sm_tables = [], sm_functions = [''f''] \<rparr>"
proof -
  have "schema_ok empty_schema" by (simp add: schema_ok_def empty_schema_def index_names_def)
  moreover have "perform_all [ReplaceFunction ''f''] empty_schema = Inr \<lparr> sm_tables = [], sm_functions = [''f''] \<rparr>"
    by (simp add: empty_schema_def)
  ultimately show ?thesis by (rule migration_keeps_schema_sound [rotated])
qed

end
