(* ===== verification/Migrations.thy ===== *)
theory Migrations
  imports Schema
begin

text \<open>
  The nineteen migrations of \<^verbatim>\<open>shared/migration\<close>, that each is undone by its way back, what a start
  does with them, and the keys, checks and columns they end with.
\<close>

section \<open>The migrations\<close>

definition not_null :: "string \<Rightarrow> column_type \<Rightarrow> column" where
  "not_null n ty = \<lparr> co_name = n, co_type = ty, co_nullable = False, co_default = None \<rparr>"

definition nullable :: "string \<Rightarrow> column_type \<Rightarrow> column" where
  "nullable n ty = \<lparr> co_name = n, co_type = ty, co_nullable = True, co_default = None \<rparr>"

definition with_default :: "string \<Rightarrow> column_type \<Rightarrow> default_value \<Rightarrow> column" where
  "with_default n ty v = \<lparr> co_name = n, co_type = ty, co_nullable = False, co_default = Some v \<rparr>"

definition reference :: "string \<Rightarrow> string \<Rightarrow> string \<Rightarrow> fk_action \<Rightarrow> fk_action \<Rightarrow> foreign_key" where
  "reference n c target on_delete on_update = \<lparr> fk_name = n, fk_column = c, fk_target = target,
     fk_target_column = ''id'', fk_on_delete = on_delete, fk_on_update = on_update \<rparr>"

definition index_on :: "string \<Rightarrow> string list \<Rightarrow> index_def" where
  "index_on n cs = \<lparr> ix_name = n, ix_unique = False, ix_keys = map Ascending cs, ix_where = None \<rparr>"

definition table_of :: "string \<Rightarrow> string list \<Rightarrow> column list \<Rightarrow> foreign_key list \<Rightarrow> table_def" where
  "table_of n key cs fs = \<lparr> td_name = n, td_columns = cs, td_primary_key = (n @ ''_pkey'', key), td_unique = [],
     td_foreign_keys = fs, td_checks = [], td_indexes = [], td_triggers = [] \<rparr>"

record migration =
  mg_name :: string
  mg_up :: "operation list"
  mg_down :: "operation list"

definition m20220101_000001_create_table :: migration where
  "m20220101_000001_create_table = \<lparr> mg_name = ''m20220101_000001_create_table'',
     mg_up =
       [CreateTable ((table_of ''users'' [''id'']
          [not_null ''id'' CUuid, not_null ''google_id'' CString, not_null ''username'' CString, not_null ''email'' CString,
           with_default ''created_at'' CTimestamp CurrentTimestamp, with_default ''updated_at'' CTimestamp CurrentTimestamp] [])
          \<lparr> td_unique := [(''users_google_id_key'', [''google_id''])] \<rparr>),
        CreateTable (table_of ''refresh_tokens'' [''id'']
          [not_null ''id'' CUuid, not_null ''user_id'' CUuid, not_null ''token_hash'' CString, not_null ''expires_at'' CTimestamp,
           with_default ''created_at'' CTimestamp CurrentTimestamp]
          [reference ''fk_refresh_tokens_users'' ''user_id'' ''users'' Cascade Cascade])],
     mg_down = [DropTable ''refresh_tokens'', DropTable ''users''] \<rparr>"

definition m20260128_171456_create_videos_table :: migration where
  "m20260128_171456_create_videos_table = \<lparr> mg_name = ''m20260128_171456_m20220101_000002_create_videos_table'',
     mg_up =
       [CreateTable (table_of ''videos'' [''id'']
          [not_null ''id'' CUuid, not_null ''user_id'' CUuid, nullable ''title'' CString, nullable ''description'' CString,
           not_null ''s3_bucket'' CString, not_null ''s3_key'' CString, with_default ''status'' CString (DefaultText ''DRAFT''),
           with_default ''size_bytes'' CBigInteger (DefaultNumber 0), with_default ''like_count'' CBigInteger (DefaultNumber 0),
           with_default ''created_at'' CTimestamp CurrentTimestamp, with_default ''updated_at'' CTimestamp CurrentTimestamp]
          [reference ''fk_videos_users'' ''user_id'' ''users'' Cascade NoAction])],
     mg_down = [DropTable ''videos''] \<rparr>"

definition m20260128_171917_create_likes_table :: migration where
  "m20260128_171917_create_likes_table = \<lparr> mg_name = ''m20260128_171917_m20220101_000003_create_likes_table'',
     mg_up =
       [CreateTable ((table_of ''likes'' [''user_id'', ''video_id'']
          [not_null ''user_id'' CUuid, not_null ''video_id'' CUuid, with_default ''created_at'' CTimestamp CurrentTimestamp]
          [reference ''fk_likes_users'' ''user_id'' ''users'' Cascade NoAction,
           reference ''fk_likes_videos'' ''video_id'' ''videos'' Cascade NoAction])
          \<lparr> td_primary_key := (''pk_likes'', [''user_id'', ''video_id'']) \<rparr>)],
     mg_down = [DropTable ''likes''] \<rparr>"

definition m20260131_000001_add_indexes :: migration where
  "m20260131_000001_add_indexes = \<lparr> mg_name = ''m20260131_000001_add_indexes'',
     mg_up =
       [CreateIndex ''videos'' (index_on ''idx_videos_status'' [''status'']),
        CreateIndex ''videos'' (index_on ''idx_videos_status_created_at'' [''status'', ''created_at'']),
        CreateIndex ''videos'' (index_on ''idx_videos_status_like_count'' [''status'', ''like_count'']),
        CreateIndex ''videos'' (index_on ''idx_videos_user_id'' [''user_id'']),
        CreateIndex ''likes'' (index_on ''idx_likes_video_id'' [''video_id'']),
        CreateIndex ''refresh_tokens'' (index_on ''idx_refresh_tokens_user_id'' [''user_id''])],
     mg_down =
       [DropIndex ''idx_videos_status'', DropIndex ''idx_videos_status_created_at'',
        DropIndex ''idx_videos_status_like_count'', DropIndex ''idx_videos_user_id'',
        DropIndex ''idx_likes_video_id'', DropIndex ''idx_refresh_tokens_user_id''] \<rparr>"

definition m20260131_000002_add_anonymous_videos :: migration where
  "m20260131_000002_add_anonymous_videos = \<lparr> mg_name = ''m20260131_000002_add_anonymous_videos'',
     mg_up =
       [AlterTable ''videos'' [AddColumn (with_default ''is_anonymous'' CBoolean (DefaultBool False))],
        CreateIndex ''videos'' (index_on ''idx_videos_is_anonymous'' [''is_anonymous''])],
     mg_down = [DropIndex ''idx_videos_is_anonymous'', AlterTable ''videos'' [DropColumn ''is_anonymous'']] \<rparr>"

definition m20260131_000003_add_soft_delete :: migration where
  "m20260131_000003_add_soft_delete = \<lparr> mg_name = ''m20260131_000003_add_soft_delete'',
     mg_up =
       [AlterTable ''videos'' [AddColumn (nullable ''deleted_at'' CTimestamp)],
        CreateIndex ''videos'' (index_on ''idx_videos_deleted_at'' [''deleted_at''])],
     mg_down = [DropIndex ''idx_videos_deleted_at'', AlterTable ''videos'' [DropColumn ''deleted_at'']] \<rparr>"

definition m20260131_175303_create_download_jobs :: migration where
  "m20260131_175303_create_download_jobs = \<lparr> mg_name = ''m20260131_175303_create_download_jobs'',
     mg_up =
       [CreateTable (table_of ''download_jobs'' [''id'']
          [not_null ''id'' CUuid, not_null ''user_id'' CUuid, not_null ''video_ids'' (CArray CUuid),
           with_default ''status'' CString (DefaultText ''PENDING''), nullable ''idempotency_key'' CString,
           nullable ''zip_s3_key'' CString, nullable ''zip_url'' CString, nullable ''zip_size_bytes'' CBigInteger,
           nullable ''error_message'' CText, nullable ''partial_manifest'' CJson,
           with_default ''retry_count'' CInteger (DefaultNumber 0), with_default ''created_at'' CTimestamp CurrentTimestamp,
           nullable ''updated_at'' CTimestamp, nullable ''completed_at'' CTimestamp, nullable ''expires_at'' CTimestamp] []),
        CreateIndex ''download_jobs'' (index_on ''idx_download_jobs_user_id'' [''user_id'']),
        CreateIndex ''download_jobs''
          ((index_on ''idx_download_jobs_idempotency_key'' [''idempotency_key''])\<lparr> ix_unique := True \<rparr>),
        CreateIndex ''download_jobs'' (index_on ''idx_download_jobs_status'' [''status'']),
        CreateIndex ''download_jobs'' (index_on ''idx_download_jobs_created_at'' [''created_at''])],
     mg_down = [DropTable ''download_jobs''] \<rparr>"

definition m20260131_210000_add_fulltext_search :: migration where
  "m20260131_210000_add_fulltext_search = \<lparr> mg_name = ''m20260131_210000_add_fulltext_search'',
     mg_up =
       [AlterTable ''videos'' [AddColumn (nullable ''search_vector'' CTsVector)],
        CreateIndex ''videos''
          \<lparr> ix_name = ''idx_videos_search_vector'', ix_unique = False, ix_keys = [Gin ''search_vector''], ix_where = None \<rparr>,
        ReplaceFunction ''videos_search_vector_update'',
        CreateTrigger ''videos'' ''videos_search_vector_trigger'' ''videos_search_vector_update'',
        UpdateRows ''videos'' ''search_vector''],
     mg_down =
       [DropTriggerIfThere ''videos'' ''videos_search_vector_trigger'', DropFunctionIfThere ''videos_search_vector_update'',
        DropIndexIfThere ''idx_videos_search_vector'', AlterTable ''videos'' [DropColumn ''search_vector'']] \<rparr>"

definition m20260201_000001_add_user_deletion_and_avatar :: migration where
  "m20260201_000001_add_user_deletion_and_avatar = \<lparr> mg_name = ''m20260201_000001_add_user_deletion_and_avatar'',
     mg_up =
       [AlterTable ''users'' [AddColumn (nullable ''deleted_at'' CTimestamp), AddColumn (nullable ''avatar_url'' CText)],
        CreateIndex ''users'' (index_on ''idx_users_deleted_at'' [''deleted_at''])],
     mg_down =
       [DropIndex ''idx_users_deleted_at'', AlterTable ''users'' [DropColumn ''deleted_at'', DropColumn ''avatar_url'']] \<rparr>"

definition m20260203_214537_add_refresh_token_rotation_fields :: migration where
  "m20260203_214537_add_refresh_token_rotation_fields = \<lparr> mg_name = ''m20260203_214537_add_refresh_token_rotation_fields'',
     mg_up =
       [AlterTable ''refresh_tokens''
          [AddColumn (nullable ''replaced_by'' CUuid), AddColumn (nullable ''replaced_at'' CTimestamp),
           AddForeignKey (reference ''fk-refresh_tokens-replaced_by'' ''replaced_by'' ''refresh_tokens'' SetNull Cascade)]],
     mg_down =
       [AlterTable ''refresh_tokens''
          [DropForeignKey ''fk-refresh_tokens-replaced_by'', DropColumn ''replaced_by'', DropColumn ''replaced_at'']] \<rparr>"

definition m20260207_000001_add_video_processing_failure_fields :: migration where
  "m20260207_000001_add_video_processing_failure_fields = \<lparr>
     mg_name = ''m20260207_000001_add_video_processing_failure_fields'',
     mg_up =
       [AlterTable ''videos''
          [AddColumn (nullable ''processing_error_code'' CString), AddColumn (nullable ''processing_error_message'' CText),
           AddColumn (nullable ''failed_at'' CTimestamp)],
        CreateIndex ''videos'' (index_on ''idx_videos_failed_at'' [''failed_at''])],
     mg_down =
       [DropIndex ''idx_videos_failed_at'',
        AlterTable ''videos''
          [DropColumn ''processing_error_code'', DropColumn ''processing_error_message'', DropColumn ''failed_at'']] \<rparr>"

definition extension_sessions_table :: table_def where
  "extension_sessions_table = table_of ''extension_sessions'' [''jti'']
       [not_null ''jti'' CUuid, not_null ''user_id'' CUuid, not_null ''device_id_hash'' CString,
        not_null ''platform'' CString, not_null ''scope'' (CArray CString),
        with_default ''issued_at'' CTimestamp CurrentTimestamp, not_null ''expires_at'' CTimestamp,
        nullable ''revoked_at'' CTimestamp]
       [reference ''fk_extension_sessions_users'' ''user_id'' ''users'' Cascade Cascade]"

definition send_tickets_table :: table_def where
  "send_tickets_table = table_of ''send_tickets'' [''ticket_id'']
       [not_null ''ticket_id'' CUuid, not_null ''user_id'' CUuid, not_null ''video_id'' CUuid,
        not_null ''device_id_hash'' CString, nullable ''host_app_hint'' CString,
        with_default ''created_at'' CTimestamp CurrentTimestamp, not_null ''expires_at'' CTimestamp,
        nullable ''redeemed_at'' CTimestamp, with_default ''status'' CString (DefaultText ''active'')]
       [reference ''fk_send_tickets_users'' ''user_id'' ''users'' Cascade Cascade,
        reference ''fk_send_tickets_videos'' ''video_id'' ''videos'' Cascade Cascade]"

definition m20260207_010000_create_extension_sessions_and_send_tickets :: migration where
  "m20260207_010000_create_extension_sessions_and_send_tickets = \<lparr>
     mg_name = ''m20260207_010000_create_extension_sessions_and_send_tickets'',
     mg_up =
       [CreateTable extension_sessions_table,
        CreateIndex ''extension_sessions'' (index_on ''idx_extension_sessions_user_revoked'' [''user_id'', ''revoked_at'']),
        CreateIndex ''extension_sessions'' (index_on ''idx_extension_sessions_expires_at'' [''expires_at'']),
        CreateTable send_tickets_table,
        CreateIndex ''send_tickets'' ((index_on ''idx_send_tickets_active_by_user'' [''user_id'', ''expires_at''])
          \<lparr> ix_where := Some (Both (IsNull ''redeemed_at'') (EqualsText ''status'' ''active'')) \<rparr>)],
     mg_down = [DropTable ''send_tickets'', DropTable ''extension_sessions''] \<rparr>"

definition m20260207_020000_add_keyboard_duration_and_indexes :: migration where
  "m20260207_020000_add_keyboard_duration_and_indexes = \<lparr>
     mg_name = ''m20260207_020000_add_keyboard_duration_and_indexes'',
     mg_up =
       [AlterTable ''videos'' [AddColumn (nullable ''duration_seconds'' CInteger)],
        CreateIndex ''send_tickets'' (index_on ''idx_send_tickets_user_created_at'' [''user_id'', ''created_at'']),
        CreateIndex ''extension_sessions''
          (index_on ''idx_extension_sessions_active_lookup'' [''user_id'', ''revoked_at'', ''expires_at''])],
     mg_down =
       [DropIndex ''idx_extension_sessions_active_lookup'', DropIndex ''idx_send_tickets_user_created_at'',
        AlterTable ''videos'' [DropColumn ''duration_seconds'']] \<rparr>"

definition m20260208_000001_add_username_normalization :: migration where
  "m20260208_000001_add_username_normalization = \<lparr> mg_name = ''m20260208_000001_add_username_normalization'',
     mg_up =
       [AlterTable ''users''
          [AddColumn (nullable ''username_normalized'' CString), AddColumn (nullable ''username_updated_at'' CTimestamp)],
        CreateIndex ''users''
          ((index_on ''idx_users_username_normalized_unique'' [''username_normalized''])\<lparr> ix_unique := True \<rparr>),
        CreateIndexIfMissing ''users'' \<lparr> ix_name = ''idx_users_lower_username'', ix_unique = False,
          ix_keys = [LowerOf ''username''], ix_where = None \<rparr>],
     mg_down =
       [DropIndexIfThere ''idx_users_lower_username'', DropIndex ''idx_users_username_normalized_unique'',
        AlterTable ''users'' [DropColumn ''username_updated_at'', DropColumn ''username_normalized'']] \<rparr>"

definition m20260208_000002_create_admin_audit_logs :: migration where
  "m20260208_000002_create_admin_audit_logs = \<lparr> mg_name = ''m20260208_000002_create_admin_audit_logs'',
     mg_up =
       [CreateTable (table_of ''admin_audit_logs'' [''id'']
          [not_null ''id'' CUuid, not_null ''actor_sub'' CString, not_null ''action'' CString,
           not_null ''target_table'' CString, nullable ''target_id'' CString, not_null ''request_id'' CString,
           nullable ''ip'' CString, nullable ''user_agent'' CString, not_null ''outcome'' CString,
           not_null ''metadata_json'' CJson, with_default ''created_at'' CTimestamp CurrentTimestamp] []),
        CreateIndex ''admin_audit_logs'' (index_on ''idx_admin_audit_logs_created_at'' [''created_at'']),
        CreateIndex ''admin_audit_logs'' (index_on ''idx_admin_audit_logs_actor_sub'' [''actor_sub''])],
     mg_down = [DropTable ''admin_audit_logs''] \<rparr>"

definition m20260219_000001_add_user_onboarding_terms :: migration where
  "m20260219_000001_add_user_onboarding_terms = \<lparr> mg_name = ''m20260219_000001_add_user_onboarding_terms'',
     mg_up =
       [AlterTable ''users''
          [AddColumn (nullable ''age_confirmed_at'' CTimestamp), AddColumn (nullable ''terms_accepted_at'' CTimestamp),
           AddColumn (nullable ''terms_accepted_version'' CText)],
        AlterTable ''users'' [AddCheck ''chk_users_terms_fields_consistent''
          (Either (Both (IsNull ''terms_accepted_at'') (IsNull ''terms_accepted_version''))
                  (Both (IsNotNull ''terms_accepted_at'') (IsNotNull ''terms_accepted_version'')))]],
     mg_down =
       [AlterTable ''users'' [DropConstraintIfThere ''chk_users_terms_fields_consistent''],
        AlterTable ''users''
          [DropColumn ''age_confirmed_at'', DropColumn ''terms_accepted_at'', DropColumn ''terms_accepted_version'']] \<rparr>"

definition m20260219_000002_add_video_is_nsfw :: migration where
  "m20260219_000002_add_video_is_nsfw = \<lparr> mg_name = ''m20260219_000002_add_video_is_nsfw'',
     mg_up =
       [AlterTable ''videos'' [AddColumn (nullable ''is_nsfw'' CBoolean)],
        CreateIndex ''videos'' (index_on ''idx_videos_is_nsfw'' [''is_nsfw'']),
        CreateIndex ''videos'' \<lparr> ix_name = ''idx_videos_sfw_created_at'', ix_unique = False,
          ix_keys = [Descending ''created_at'', Descending ''id''],
          ix_where = Some (Both (IsNull ''deleted_at'') (IsFalse ''is_nsfw'')) \<rparr>,
        CreateIndex ''videos'' \<lparr> ix_name = ''idx_videos_sfw_like_count_created_at'', ix_unique = False,
          ix_keys = [Descending ''like_count'', Descending ''created_at'', Descending ''id''],
          ix_where = Some (Both (IsNull ''deleted_at'') (IsFalse ''is_nsfw'')) \<rparr>],
     mg_down =
       [DropIndexIfThere ''idx_videos_sfw_like_count_created_at'', DropIndexIfThere ''idx_videos_sfw_created_at'',
        DropIndex ''idx_videos_is_nsfw'', AlterTable ''videos'' [DropColumn ''is_nsfw'']] \<rparr>"

definition user_bans_table :: table_def where
  "user_bans_table = table_of ''user_bans'' [''id'']
       [not_null ''id'' CUuid, not_null ''user_id'' CUuid, nullable ''reason'' CText, nullable ''banned_until'' CTimestamp,
        not_null ''created_by_admin_sub'' CString, with_default ''created_at'' CTimestamp CurrentTimestamp,
        nullable ''lifted_at'' CTimestamp, nullable ''lifted_by_admin_sub'' CString, nullable ''lift_reason'' CText]
       [reference ''fk_user_bans_user_id'' ''user_id'' ''users'' Cascade Cascade]"

definition ip_bans_table :: table_def where
  "ip_bans_table = table_of ''ip_bans'' [''id'']
       [not_null ''id'' CUuid, not_null ''target'' CString, not_null ''target_kind'' CString,
        not_null ''ip_family'' CSmallInteger, nullable ''cidr_prefix'' CSmallInteger, nullable ''reason'' CText,
        nullable ''banned_until'' CTimestamp, not_null ''created_by_admin_sub'' CString,
        with_default ''created_at'' CTimestamp CurrentTimestamp, nullable ''lifted_at'' CTimestamp,
        nullable ''lifted_by_admin_sub'' CString, nullable ''lift_reason'' CText] []"

definition security_events_table :: table_def where
  "security_events_table = table_of ''security_events'' [''id'']
       [not_null ''id'' CUuid, nullable ''user_id'' CUuid, not_null ''event_type'' CString, not_null ''ip'' CString,
        nullable ''request_id'' CString, nullable ''user_agent'' CString, not_null ''metadata_json'' CJson,
        with_default ''created_at'' CTimestamp CurrentTimestamp]
       [reference ''fk_security_events_user_id'' ''user_id'' ''users'' SetNull Cascade]"

definition ban_indexes :: "operation list" where
  "ban_indexes =
     [CreateIndex ''user_bans'' \<lparr> ix_name = ''uniq_user_bans_active_user'', ix_unique = True,
       ix_keys = [Ascending ''user_id''], ix_where = Some (IsNull ''lifted_at'') \<rparr>,
     CreateIndex ''user_bans'' \<lparr> ix_name = ''idx_user_bans_active_user'', ix_unique = False,
       ix_keys = [Ascending ''user_id'', Descending ''created_at''], ix_where = Some (IsNull ''lifted_at'') \<rparr>,
     CreateIndex ''user_bans'' (index_on ''idx_user_bans_banned_until'' [''banned_until'']),
     CreateIndex ''ip_bans'' \<lparr> ix_name = ''uniq_ip_bans_active_target'', ix_unique = True,
       ix_keys = [Ascending ''target''], ix_where = Some (IsNull ''lifted_at'') \<rparr>,
     CreateIndex ''ip_bans'' \<lparr> ix_name = ''idx_ip_bans_exact_active'', ix_unique = False,
       ix_keys = [Ascending ''target''],
       ix_where = Some (Both (IsNull ''lifted_at'') (EqualsText ''target_kind'' ''ip'')) \<rparr>,
     CreateIndex ''ip_bans'' \<lparr> ix_name = ''idx_ip_bans_cidr_active'', ix_unique = False,
       ix_keys = [Ascending ''ip_family'', Descending ''cidr_prefix'', Descending ''created_at''],
       ix_where = Some (Both (IsNull ''lifted_at'') (EqualsText ''target_kind'' ''cidr'')) \<rparr>,
     CreateIndex ''ip_bans'' (index_on ''idx_ip_bans_banned_until'' [''banned_until'']),
     CreateIndex ''security_events'' (index_on ''idx_security_events_user_created_at'' [''user_id'', ''created_at'']),
     CreateIndex ''security_events'' (index_on ''idx_security_events_ip_created_at'' [''ip'', ''created_at'']),
     CreateIndex ''security_events'' (index_on ''idx_security_events_created_at'' [''created_at'']),
     CreateIndex ''security_events''
       (index_on ''idx_security_events_event_type_created_at'' [''event_type'', ''created_at''])]"

definition m20260220_000001_create_bans_and_security_events :: migration where
  "m20260220_000001_create_bans_and_security_events = \<lparr> mg_name = ''m20260220_000001_create_bans_and_security_events'',
     mg_up =
       [CreateTable user_bans_table,
        CreateTable ip_bans_table,
        AlterTable ''ip_bans'' [AddCheck ''chk_ip_bans_target_kind'' (OneOf ''target_kind'' [''ip'', ''cidr''])],
        CreateTable security_events_table] @ ban_indexes,
     mg_down =
       [DropTable ''security_events'', AlterTable ''ip_bans'' [DropConstraintIfThere ''chk_ip_bans_target_kind''],
        DropTable ''ip_bans'', DropTable ''user_bans''] \<rparr>"

definition visible_videos :: condition where
  "visible_videos = Both (IsNull ''deleted_at'') (EqualsText ''moderation_state'' ''VISIBLE'')"

definition abuse_reports_table :: table_def where
  "abuse_reports_table = table_of ''abuse_reports'' [''id'']
       [not_null ''id'' CUuid, not_null ''video_id'' CUuid, not_null ''reporter_user_id'' CUuid,
        not_null ''reason_codes'' (CArray CText), nullable ''details'' CText, nullable ''timestamp_seconds'' CInteger,
        with_default ''severity_score'' CSmallInteger (DefaultNumber 0),
        with_default ''status'' CText (DefaultText ''open''), not_null ''client_ip'' CText, nullable ''user_agent'' CText,
        with_default ''auto_quarantined'' CBoolean (DefaultBool False), nullable ''auto_rule'' CText,
        with_default ''created_at'' CTimestamp CurrentTimestamp, with_default ''updated_at'' CTimestamp CurrentTimestamp,
        nullable ''closed_at'' CTimestamp, nullable ''closed_by_admin_sub'' CText,
        nullable ''resolution_code'' CText, nullable ''resolution_note'' CText]
       [reference ''fk_abuse_reports_video_id'' ''video_id'' ''videos'' Cascade Cascade,
        reference ''fk_abuse_reports_reporter_user_id'' ''reporter_user_id'' ''users'' Cascade Cascade]"

definition moderation_columns :: "operation list" where
  "moderation_columns =
     [AlterTable ''videos''
       [AddColumnIfMissing (with_default ''moderation_state'' CText (DefaultText ''VISIBLE''))],
     AlterTable ''videos'' [AddColumnIfMissing (nullable ''moderation_reason_code'' CText)],
     AlterTable ''videos'' [AddColumnIfMissing (nullable ''moderation_updated_at'' CTimestamp)],
     AlterTable ''videos'' [AddColumnIfMissing (nullable ''moderation_updated_by'' CText)],
     AlterTable ''videos'' [AddColumnIfMissing (nullable ''moderation_source_report_id'' CUuid)],
     AlterTable ''videos'' [AddCheck ''chk_videos_moderation_state''
       (OneOf ''moderation_state'' [''VISIBLE'', ''QUARANTINED'', ''REMOVED''])],
     AlterTable ''videos'' [AddForeignKey
       (reference ''fk_videos_moderation_source_report'' ''moderation_source_report_id'' ''abuse_reports'' SetNull Cascade)]]"

definition report_indexes :: "operation list" where
  "report_indexes =
     [CreateIndexIfMissing ''abuse_reports'' \<lparr> ix_name = ''uniq_abuse_reports_open_video_reporter'', ix_unique = True,
       ix_keys = [Ascending ''video_id'', Ascending ''reporter_user_id''], ix_where = Some (IsNull ''closed_at'') \<rparr>,
     CreateIndexIfMissing ''abuse_reports'' \<lparr> ix_name = ''idx_abuse_reports_queue'', ix_unique = False,
       ix_keys = [Ascending ''status'', Descending ''severity_score'', Ascending ''created_at''],
       ix_where = Some (IsNull ''closed_at'') \<rparr>,
     CreateIndexIfMissing ''abuse_reports'' \<lparr> ix_name = ''idx_abuse_reports_video_created_at'', ix_unique = False,
       ix_keys = [Ascending ''video_id'', Descending ''created_at''], ix_where = None \<rparr>,
     CreateIndexIfMissing ''abuse_reports'' \<lparr> ix_name = ''idx_abuse_reports_reporter_created_at'', ix_unique = False,
       ix_keys = [Ascending ''reporter_user_id'', Descending ''created_at''], ix_where = None \<rparr>,
     CreateIndexIfMissing ''videos'' \<lparr> ix_name = ''idx_videos_visible_latest'', ix_unique = False,
       ix_keys = [Descending ''created_at'', Descending ''id''], ix_where = Some visible_videos \<rparr>,
     CreateIndexIfMissing ''videos'' \<lparr> ix_name = ''idx_videos_visible_popular'', ix_unique = False,
       ix_keys = [Descending ''like_count'', Descending ''created_at'', Descending ''id''],
       ix_where = Some visible_videos \<rparr>,
     CreateIndexIfMissing ''videos'' \<lparr> ix_name = ''idx_videos_visible_nsfw_filter'', ix_unique = False,
       ix_keys = [Ascending ''is_nsfw'', Descending ''created_at'', Descending ''id''],
       ix_where = Some visible_videos \<rparr>]"

definition undo_abuse_reports :: "operation list" where
  "undo_abuse_reports =
     [DropIndexIfThere ''idx_videos_visible_nsfw_filter'', DropIndexIfThere ''idx_videos_visible_popular'',
     DropIndexIfThere ''idx_videos_visible_latest'', DropIndexIfThere ''idx_abuse_reports_reporter_created_at'',
     DropIndexIfThere ''idx_abuse_reports_video_created_at'', DropIndexIfThere ''idx_abuse_reports_queue'',
     DropIndexIfThere ''uniq_abuse_reports_open_video_reporter'',
     AlterTable ''videos'' [DropConstraintIfThere ''fk_videos_moderation_source_report''],
     AlterTable ''videos'' [DropConstraintIfThere ''chk_videos_moderation_state''],
     AlterTable ''videos'' [DropColumnIfThere ''moderation_source_report_id''],
     AlterTable ''videos'' [DropColumnIfThere ''moderation_updated_by''],
     AlterTable ''videos'' [DropColumnIfThere ''moderation_updated_at''],
     AlterTable ''videos'' [DropColumnIfThere ''moderation_reason_code''],
     AlterTable ''videos'' [DropColumnIfThere ''moderation_state''],
     AlterTable ''abuse_reports'' [DropConstraintIfThere ''chk_abuse_reports_reason_codes_nonempty''],
     AlterTable ''abuse_reports'' [DropConstraintIfThere ''chk_abuse_reports_status''],
     DropTable ''abuse_reports'']"

definition m20260220_000002_create_abuse_reports_and_video_moderation :: migration where
  "m20260220_000002_create_abuse_reports_and_video_moderation = \<lparr>
     mg_name = ''m20260220_000002_create_abuse_reports_and_video_moderation'',
     mg_up =
       [CreateTable abuse_reports_table,
        AlterTable ''abuse_reports'' [AddCheck ''chk_abuse_reports_status''
          (OneOf ''status'' [''open'', ''under_review'', ''auto_quarantined'', ''resolved'', ''rejected''])],
        AlterTable ''abuse_reports'' [AddCheck ''chk_abuse_reports_reason_codes_nonempty'' (HasElements ''reason_codes'')]]
         @ moderation_columns @ report_indexes,
     mg_down = undo_abuse_reports \<rparr>"

definition migrations :: "migration list" where
  "migrations =
     [m20220101_000001_create_table, m20260128_171456_create_videos_table, m20260128_171917_create_likes_table,
      m20260131_000001_add_indexes, m20260131_000002_add_anonymous_videos, m20260131_000003_add_soft_delete,
      m20260131_175303_create_download_jobs, m20260131_210000_add_fulltext_search,
      m20260201_000001_add_user_deletion_and_avatar, m20260203_214537_add_refresh_token_rotation_fields,
      m20260207_000001_add_video_processing_failure_fields, m20260207_010000_create_extension_sessions_and_send_tickets,
      m20260207_020000_add_keyboard_duration_and_indexes, m20260208_000001_add_username_normalization,
      m20260208_000002_create_admin_audit_logs, m20260219_000001_add_user_onboarding_terms,
      m20260219_000002_add_video_is_nsfw, m20260220_000001_create_bans_and_security_events,
      m20260220_000002_create_abuse_reports_and_video_moderation]"

section \<open>There and back\<close>

definition schema_at :: "nat \<Rightarrow> schema result" where
  "schema_at n = perform_all (concat (map mg_up (take n migrations))) empty_schema"

text \<open>Migrations one after the other, each undone on trial: what undoing it gives beside the schema before,
  and in the end the schema beside the one expected.\<close>

fun trials :: "schema \<Rightarrow> schema \<Rightarrow> migration list \<Rightarrow> (schema result \<times> schema result) list" where
  "trials expected s [] = [(Inr s, Inr expected)]"
| "trials expected s (m # ms) =
     (case perform_all (mg_up m) s of
        Inl e \<Rightarrow> [(Inl e, Inr s)]
      | Inr s' \<Rightarrow> (perform_all (mg_down m) s', Inr s) # trials expected s' ms)"

definition agree :: "(schema result \<times> schema result) list \<Rightarrow> bool" where
  "agree ps \<longleftrightarrow> list_all (\<lambda>(x, y). x = y) ps"

definition indexes_for :: "string \<Rightarrow> operation list \<Rightarrow> index_def list" where
  "indexes_for n ps = concat (map (\<lambda>p. case p of
     CreateIndex m i \<Rightarrow> if m = n then [i] else []
   | CreateIndexIfMissing m i \<Rightarrow> if m = n then [i] else [] | _ \<Rightarrow> []) ps)"

text \<open>The schemas after fifteen, after eighteen and after all migrations.\<close>

definition users_before :: table_def where
  "users_before = (table_of ''users'' [''id'']
       [not_null ''id'' CUuid, not_null ''google_id'' CString, not_null ''username'' CString, not_null ''email'' CString,
        with_default ''created_at'' CTimestamp CurrentTimestamp, with_default ''updated_at'' CTimestamp CurrentTimestamp,
        nullable ''deleted_at'' CTimestamp, nullable ''avatar_url'' CText, nullable ''username_normalized'' CString,
        nullable ''username_updated_at'' CTimestamp] [])
     \<lparr> td_unique := [(''users_google_id_key'', [''google_id''])],
       td_indexes :=
         [index_on ''idx_users_deleted_at'' [''deleted_at''],
          (index_on ''idx_users_username_normalized_unique'' [''username_normalized''])\<lparr> ix_unique := True \<rparr>,
          \<lparr> ix_name = ''idx_users_lower_username'', ix_unique = False, ix_keys = [LowerOf ''username''], ix_where = None \<rparr>] \<rparr>"

definition videos_before :: table_def where
  "videos_before = (table_of ''videos'' [''id'']
       [not_null ''id'' CUuid, not_null ''user_id'' CUuid, nullable ''title'' CString, nullable ''description'' CString,
        not_null ''s3_bucket'' CString, not_null ''s3_key'' CString, with_default ''status'' CString (DefaultText ''DRAFT''),
        with_default ''size_bytes'' CBigInteger (DefaultNumber 0), with_default ''like_count'' CBigInteger (DefaultNumber 0),
        with_default ''created_at'' CTimestamp CurrentTimestamp, with_default ''updated_at'' CTimestamp CurrentTimestamp,
        with_default ''is_anonymous'' CBoolean (DefaultBool False), nullable ''deleted_at'' CTimestamp,
        nullable ''search_vector'' CTsVector, nullable ''processing_error_code'' CString,
        nullable ''processing_error_message'' CText, nullable ''failed_at'' CTimestamp, nullable ''duration_seconds'' CInteger]
       [reference ''fk_videos_users'' ''user_id'' ''users'' Cascade NoAction])
     \<lparr> td_indexes :=
         [index_on ''idx_videos_status'' [''status''],
          index_on ''idx_videos_status_created_at'' [''status'', ''created_at''],
          index_on ''idx_videos_status_like_count'' [''status'', ''like_count''],
          index_on ''idx_videos_user_id'' [''user_id''], index_on ''idx_videos_is_anonymous'' [''is_anonymous''],
          index_on ''idx_videos_deleted_at'' [''deleted_at''],
          \<lparr> ix_name = ''idx_videos_search_vector'', ix_unique = False, ix_keys = [Gin ''search_vector''], ix_where = None \<rparr>,
          index_on ''idx_videos_failed_at'' [''failed_at'']],
       td_triggers := [(''videos_search_vector_trigger'', ''videos_search_vector_update'')] \<rparr>"

definition tables_between :: "table_def list" where
  "tables_between =
     [(table_of ''likes'' [''user_id'', ''video_id'']
         [not_null ''user_id'' CUuid, not_null ''video_id'' CUuid, with_default ''created_at'' CTimestamp CurrentTimestamp]
         [reference ''fk_likes_users'' ''user_id'' ''users'' Cascade NoAction,
          reference ''fk_likes_videos'' ''video_id'' ''videos'' Cascade NoAction])
       \<lparr> td_primary_key := (''pk_likes'', [''user_id'', ''video_id'']),
         td_indexes := [index_on ''idx_likes_video_id'' [''video_id'']] \<rparr>,
      (table_of ''download_jobs'' [''id'']
         [not_null ''id'' CUuid, not_null ''user_id'' CUuid, not_null ''video_ids'' (CArray CUuid),
          with_default ''status'' CString (DefaultText ''PENDING''), nullable ''idempotency_key'' CString,
          nullable ''zip_s3_key'' CString, nullable ''zip_url'' CString, nullable ''zip_size_bytes'' CBigInteger,
          nullable ''error_message'' CText, nullable ''partial_manifest'' CJson,
          with_default ''retry_count'' CInteger (DefaultNumber 0), with_default ''created_at'' CTimestamp CurrentTimestamp,
          nullable ''updated_at'' CTimestamp, nullable ''completed_at'' CTimestamp, nullable ''expires_at'' CTimestamp] [])
       \<lparr> td_indexes :=
           [index_on ''idx_download_jobs_user_id'' [''user_id''],
            (index_on ''idx_download_jobs_idempotency_key'' [''idempotency_key''])\<lparr> ix_unique := True \<rparr>,
            index_on ''idx_download_jobs_status'' [''status''], index_on ''idx_download_jobs_created_at'' [''created_at'']] \<rparr>,
      extension_sessions_table\<lparr> td_indexes :=
        [index_on ''idx_extension_sessions_user_revoked'' [''user_id'', ''revoked_at''],
         index_on ''idx_extension_sessions_expires_at'' [''expires_at''],
         index_on ''idx_extension_sessions_active_lookup'' [''user_id'', ''revoked_at'', ''expires_at'']] \<rparr>,
      send_tickets_table\<lparr> td_indexes :=
        [(index_on ''idx_send_tickets_active_by_user'' [''user_id'', ''expires_at''])
           \<lparr> ix_where := Some (Both (IsNull ''redeemed_at'') (EqualsText ''status'' ''active'')) \<rparr>,
         index_on ''idx_send_tickets_user_created_at'' [''user_id'', ''created_at'']] \<rparr>,
      (table_of ''admin_audit_logs'' [''id'']
         [not_null ''id'' CUuid, not_null ''actor_sub'' CString, not_null ''action'' CString,
          not_null ''target_table'' CString, nullable ''target_id'' CString, not_null ''request_id'' CString,
          nullable ''ip'' CString, nullable ''user_agent'' CString, not_null ''outcome'' CString,
          not_null ''metadata_json'' CJson, with_default ''created_at'' CTimestamp CurrentTimestamp] [])
       \<lparr> td_indexes :=
           [index_on ''idx_admin_audit_logs_created_at'' [''created_at''],
            index_on ''idx_admin_audit_logs_actor_sub'' [''actor_sub'']] \<rparr>]"

definition refresh_tokens_after :: table_def where
  "refresh_tokens_after = (table_of ''refresh_tokens'' [''id'']
       [not_null ''id'' CUuid, not_null ''user_id'' CUuid, not_null ''token_hash'' CString, not_null ''expires_at'' CTimestamp,
        with_default ''created_at'' CTimestamp CurrentTimestamp, nullable ''replaced_by'' CUuid,
        nullable ''replaced_at'' CTimestamp]
       [reference ''fk_refresh_tokens_users'' ''user_id'' ''users'' Cascade Cascade,
        reference ''fk-refresh_tokens-replaced_by'' ''replaced_by'' ''refresh_tokens'' SetNull Cascade])
     \<lparr> td_indexes := [index_on ''idx_refresh_tokens_user_id'' [''user_id'']] \<rparr>"

definition schema_15 :: schema where
  "schema_15 = \<lparr> sm_tables = [users_before, refresh_tokens_after, videos_before] @ tables_between,
     sm_functions = [''videos_search_vector_update''] \<rparr>"

definition users_after :: table_def where
  "users_after = users_before
     \<lparr> td_columns := td_columns users_before @ [nullable ''age_confirmed_at'' CTimestamp,
         nullable ''terms_accepted_at'' CTimestamp, nullable ''terms_accepted_version'' CText],
       td_checks := [(''chk_users_terms_fields_consistent'',
         Either (Both (IsNull ''terms_accepted_at'') (IsNull ''terms_accepted_version''))
                (Both (IsNotNull ''terms_accepted_at'') (IsNotNull ''terms_accepted_version'')))] \<rparr>"

definition videos_between :: table_def where
  "videos_between = videos_before
     \<lparr> td_columns := td_columns videos_before @ [nullable ''is_nsfw'' CBoolean],
       td_indexes := td_indexes videos_before @
         [index_on ''idx_videos_is_nsfw'' [''is_nsfw''],
          \<lparr> ix_name = ''idx_videos_sfw_created_at'', ix_unique = False,
            ix_keys = [Descending ''created_at'', Descending ''id''],
            ix_where = Some (Both (IsNull ''deleted_at'') (IsFalse ''is_nsfw'')) \<rparr>,
          \<lparr> ix_name = ''idx_videos_sfw_like_count_created_at'', ix_unique = False,
            ix_keys = [Descending ''like_count'', Descending ''created_at'', Descending ''id''],
            ix_where = Some (Both (IsNull ''deleted_at'') (IsFalse ''is_nsfw'')) \<rparr>] \<rparr>"

definition ban_tables :: "table_def list" where
  "ban_tables =
     [user_bans_table\<lparr> td_indexes := indexes_for ''user_bans'' ban_indexes \<rparr>,
      ip_bans_table
        \<lparr> td_checks := [(''chk_ip_bans_target_kind'', OneOf ''target_kind'' [''ip'', ''cidr''])],
          td_indexes := indexes_for ''ip_bans'' ban_indexes \<rparr>,
      security_events_table\<lparr> td_indexes := indexes_for ''security_events'' ban_indexes \<rparr>]"

definition schema_18 :: schema where
  "schema_18 = \<lparr> sm_tables = [users_after, refresh_tokens_after, videos_between] @ tables_between @ ban_tables,
     sm_functions = [''videos_search_vector_update''] \<rparr>"

definition migrated :: schema where
  "migrated = \<lparr> sm_tables =
       [users_after, refresh_tokens_after,
        videos_between
          \<lparr> td_columns := td_columns videos_between @
              [with_default ''moderation_state'' CText (DefaultText ''VISIBLE''), nullable ''moderation_reason_code'' CText,
               nullable ''moderation_updated_at'' CTimestamp, nullable ''moderation_updated_by'' CText,
               nullable ''moderation_source_report_id'' CUuid],
            td_foreign_keys := td_foreign_keys videos_between @
              [reference ''fk_videos_moderation_source_report'' ''moderation_source_report_id'' ''abuse_reports'' SetNull Cascade],
            td_checks := [(''chk_videos_moderation_state'',
              OneOf ''moderation_state'' [''VISIBLE'', ''QUARANTINED'', ''REMOVED''])],
            td_indexes := td_indexes videos_between @ indexes_for ''videos'' report_indexes \<rparr>]
       @ tables_between @ ban_tables @
       [abuse_reports_table
          \<lparr> td_checks := [(''chk_abuse_reports_status'',
                OneOf ''status'' [''open'', ''under_review'', ''auto_quarantined'', ''resolved'', ''rejected'']),
              (''chk_abuse_reports_reason_codes_nonempty'', HasElements ''reason_codes'')],
            td_indexes := indexes_for ''abuse_reports'' report_indexes \<rparr>],
     sm_functions = [''videos_search_vector_update''] \<rparr>"

text \<open>Both sides are evaluated, and then they are the same text.\<close>

lemma early_trials:
  assumes "\<And>ps. P ps = agree ps"
  shows "P (trials schema_15 empty_schema (take 15 migrations))"
  by (code_simp, simp only: assms agree_def list.pred_inject prod.case refl simp_thms)

lemma late_trials:
  assumes "\<And>ps. P ps = agree ps"
  shows "P (trials schema_18 schema_15 (take 3 (drop 15 migrations)))"
  by (code_simp, simp only: assms agree_def list.pred_inject prod.case refl simp_thms)

lemma last_trial:
  assumes "\<And>ps. P ps = agree ps"
  shows "P (trials migrated schema_18 (drop 18 migrations))"
  by (code_simp, simp only: assms agree_def list.pred_inject prod.case refl simp_thms)

lemma agree_simps [simp]: "agree []" "agree ((x, y) # ps) \<longleftrightarrow> x = y \<and> agree ps"
  by (simp_all add: agree_def)

lemma trials_append:
  "agree (trials s1 s ms) \<Longrightarrow> agree (trials s2 s1 ns) \<Longrightarrow> agree (trials s2 s (ms @ ns))"
  by (induction ms arbitrary: s) (auto split: sum.splits)

lemma trials_agree: "agree (trials migrated empty_schema migrations)"
proof -
  have "migrations = take 15 migrations @ take 3 (drop 15 migrations) @ drop 18 migrations"
    by (simp add: migrations_def)
  then show ?thesis
    using trials_append [OF early_trials [of agree, OF refl]
        trials_append [OF late_trials [of agree, OF refl] last_trial [of agree, OF refl]]] by simp
qed

lemma trials_end: "agree (trials s' s ms) \<Longrightarrow> perform_all (concat (map mg_up ms)) s = Inr s'"
  by (induction ms arbitrary: s) (auto simp: perform_all_append split: sum.splits)

lemma schema_at_end: "schema_at (length migrations) = Inr migrated"
  using trials_end [OF trials_agree] by (simp add: schema_at_def)

lemma trials_step:
  assumes "agree (trials s' s ms)" and "n < length ms"
  shows "\<exists>s1 s2. perform_all (concat (map mg_up (take n ms))) s = Inr s1
    \<and> perform_all (mg_up (ms ! n)) s1 = Inr s2 \<and> perform_all (mg_down (ms ! n)) s2 = Inr s1"
  using assms
proof (induction ms arbitrary: s n)
  case (Cons m ms)
  obtain s1 where s1: "perform_all (mg_up m) s = Inr s1" "perform_all (mg_down m) s1 = Inr s" "agree (trials s' s1 ms)"
    using Cons.prems(1) by (auto split: sum.splits)
  show ?case
  proof (cases n)
    case 0
    with s1 show ?thesis by simp
  next
    case (Suc k)
    then show ?thesis using Cons.IH [OF s1(3), of k] Cons.prems(2) s1(1) by (simp add: perform_all_append)
  qed
qed simp

lemma schema_at_Suc:
  "n < length migrations \<Longrightarrow> schema_at (Suc n) = thenR (schema_at n) (perform_all (mg_up (migrations ! n)))"
  by (simp add: schema_at_def take_Suc_conv_app_nth perform_all_append)

text \<open>C24: every migration can be applied where it stands in the list, and its way back leads exactly to
  the schema before it, down to the order of columns and indexes.\<close>

theorem migrations_reversible:
  assumes "n < length migrations"
  shows "\<exists>s s'. schema_at n = Inr s \<and> schema_at (Suc n) = Inr s' \<and> perform_all (mg_down (migrations ! n)) s' = Inr s"
  using trials_step [OF trials_agree assms] assms
  by (auto simp: schema_at_Suc) (simp add: schema_at_def)

lemma migrations_reversible_witness:
  "\<exists>s s'. schema_at 18 = Inr s \<and> schema_at 19 = Inr s' \<and> perform_all (mg_down (migrations ! 18)) s' = Inr s"
  using migrations_reversible [of 18] by (simp add: migrations_def)

lemma schema_at_total: "n \<le> length migrations \<Longrightarrow> \<exists>s. schema_at n = Inr s"
proof (induction n)
  case 0
  show ?case by (simp add: schema_at_def)
next
  case (Suc n)
  then show ?case using trials_step [OF trials_agree, of n]
    by (auto simp: schema_at_Suc) (simp add: schema_at_def)
qed

text \<open>What a start does: the migrations whose names are not recorded as applied, in their order.\<close>

definition pending :: "string list \<Rightarrow> migration list" where
  "pending applied = filter (\<lambda>m. mg_name m \<notin> set applied) migrations"

definition migrator_up :: "string list \<times> schema \<Rightarrow> (string list \<times> schema) result" where
  "migrator_up db = (case db of (applied, s) \<Rightarrow>
     thenR (perform_all (concat (map mg_up (pending applied))) s)
       (\<lambda>s'. Inr (applied @ map mg_name (pending applied), s')))"

lemma migration_names_distinct: "distinct (map mg_name migrations)"
  by code_simp

lemma filter_names_take:
  assumes "distinct (map f xs)"
  shows "filter (\<lambda>x. f x \<notin> set (map f (take n xs))) xs = drop n xs"
proof -
  have d: "distinct (map f (take n xs @ drop n xs))" using assms by simp
  have "filter (\<lambda>x. f x \<notin> set (map f (take n xs))) (take n xs) = []" by (simp add: filter_empty_conv)
  moreover have "filter (\<lambda>x. f x \<notin> set (map f (take n xs))) (drop n xs) = drop n xs"
    by (rule filter_True) (use d in \<open>fastforce simp del: append_take_drop_id\<close>)
  ultimately show ?thesis by (metis append_take_drop_id filter_append self_append_conv2)
qed



lemma schema_at_ok:
  assumes "schema_at n = Inr s"
  shows "schema_ok s"
proof -
  have "schema_ok empty_schema" by (simp add: schema_ok_def empty_schema_def index_names_def)
  then show ?thesis using assms perform_all_keeps_ok unfolding schema_at_def by blast
qed

section \<open>The constraints of the schema\<close>

definition key_constraints :: "schema \<Rightarrow> (string \<times> string \<times> string list \<times> condition option) list" where
  "key_constraints s = concat (map (\<lambda>t.
     (td_name t, fst (td_primary_key t), snd (td_primary_key t), None)
     # map (\<lambda>(n, cs). (td_name t, n, cs, None)) (td_unique t)
     @ map (\<lambda>i. (td_name t, ix_name i, map key_column (ix_keys i), ix_where i)) (filter ix_unique (td_indexes t)))
     (sm_tables s))"

definition foreign_keys_of :: "schema \<Rightarrow> (string \<times> foreign_key) list" where
  "foreign_keys_of s = concat (map (\<lambda>t. map (Pair (td_name t)) (td_foreign_keys t)) (sm_tables s))"

definition checks_of :: "schema \<Rightarrow> (string \<times> string \<times> condition) list" where
  "checks_of s = concat (map (\<lambda>t. map (Pair (td_name t)) (td_checks t)) (sm_tables s))"

definition columns_of :: "schema \<Rightarrow> (string \<times> column list) list" where
  "columns_of s = map (\<lambda>t. (td_name t, td_columns t)) (sm_tables s)"

lemma migrated_keys:
  "key_constraints migrated =
     [(''users'', ''users_pkey'', [''id''], None),
      (''users'', ''users_google_id_key'', [''google_id''], None),
      (''users'', ''idx_users_username_normalized_unique'', [''username_normalized''], None),
      (''refresh_tokens'', ''refresh_tokens_pkey'', [''id''], None),
      (''videos'', ''videos_pkey'', [''id''], None),
      (''likes'', ''pk_likes'', [''user_id'', ''video_id''], None),
      (''download_jobs'', ''download_jobs_pkey'', [''id''], None),
      (''download_jobs'', ''idx_download_jobs_idempotency_key'', [''idempotency_key''], None),
      (''extension_sessions'', ''extension_sessions_pkey'', [''jti''], None),
      (''send_tickets'', ''send_tickets_pkey'', [''ticket_id''], None),
      (''admin_audit_logs'', ''admin_audit_logs_pkey'', [''id''], None),
      (''user_bans'', ''user_bans_pkey'', [''id''], None),
      (''user_bans'', ''uniq_user_bans_active_user'', [''user_id''], Some (IsNull ''lifted_at'')),
      (''ip_bans'', ''ip_bans_pkey'', [''id''], None),
      (''ip_bans'', ''uniq_ip_bans_active_target'', [''target''], Some (IsNull ''lifted_at'')),
      (''security_events'', ''security_events_pkey'', [''id''], None),
      (''abuse_reports'', ''abuse_reports_pkey'', [''id''], None),
      (''abuse_reports'', ''uniq_abuse_reports_open_video_reporter'', [''video_id'', ''reporter_user_id''],
        Some (IsNull ''closed_at''))]"
  by code_simp

lemma migrated_foreign_keys:
  "foreign_keys_of migrated =
     [(''refresh_tokens'', reference ''fk_refresh_tokens_users'' ''user_id'' ''users'' Cascade Cascade),
      (''refresh_tokens'', reference ''fk-refresh_tokens-replaced_by'' ''replaced_by'' ''refresh_tokens'' SetNull Cascade),
      (''videos'', reference ''fk_videos_users'' ''user_id'' ''users'' Cascade NoAction),
      (''videos'', reference ''fk_videos_moderation_source_report'' ''moderation_source_report_id'' ''abuse_reports'' SetNull Cascade),
      (''likes'', reference ''fk_likes_users'' ''user_id'' ''users'' Cascade NoAction),
      (''likes'', reference ''fk_likes_videos'' ''video_id'' ''videos'' Cascade NoAction),
      (''extension_sessions'', reference ''fk_extension_sessions_users'' ''user_id'' ''users'' Cascade Cascade),
      (''send_tickets'', reference ''fk_send_tickets_users'' ''user_id'' ''users'' Cascade Cascade),
      (''send_tickets'', reference ''fk_send_tickets_videos'' ''video_id'' ''videos'' Cascade Cascade),
      (''user_bans'', reference ''fk_user_bans_user_id'' ''user_id'' ''users'' Cascade Cascade),
      (''security_events'', reference ''fk_security_events_user_id'' ''user_id'' ''users'' SetNull Cascade),
      (''abuse_reports'', reference ''fk_abuse_reports_video_id'' ''video_id'' ''videos'' Cascade Cascade),
      (''abuse_reports'', reference ''fk_abuse_reports_reporter_user_id'' ''reporter_user_id'' ''users'' Cascade Cascade)]"
  by code_simp

lemma migrated_checks:
  "checks_of migrated =
     [(''users'', ''chk_users_terms_fields_consistent'',
        Either (Both (IsNull ''terms_accepted_at'') (IsNull ''terms_accepted_version''))
               (Both (IsNotNull ''terms_accepted_at'') (IsNotNull ''terms_accepted_version''))),
      (''videos'', ''chk_videos_moderation_state'', OneOf ''moderation_state'' [''VISIBLE'', ''QUARANTINED'', ''REMOVED'']),
      (''ip_bans'', ''chk_ip_bans_target_kind'', OneOf ''target_kind'' [''ip'', ''cidr'']),
      (''abuse_reports'', ''chk_abuse_reports_status'',
        OneOf ''status'' [''open'', ''under_review'', ''auto_quarantined'', ''resolved'', ''rejected'']),
      (''abuse_reports'', ''chk_abuse_reports_reason_codes_nonempty'', HasElements ''reason_codes'')]"
  by code_simp

lemma migrated_columns:
  "columns_of migrated =
     [(''users'',
        [not_null ''id'' CUuid, not_null ''google_id'' CString, not_null ''username'' CString, not_null ''email'' CString,
         with_default ''created_at'' CTimestamp CurrentTimestamp, with_default ''updated_at'' CTimestamp CurrentTimestamp,
         nullable ''deleted_at'' CTimestamp, nullable ''avatar_url'' CText, nullable ''username_normalized'' CString,
         nullable ''username_updated_at'' CTimestamp, nullable ''age_confirmed_at'' CTimestamp,
         nullable ''terms_accepted_at'' CTimestamp, nullable ''terms_accepted_version'' CText]),
      (''refresh_tokens'',
        [not_null ''id'' CUuid, not_null ''user_id'' CUuid, not_null ''token_hash'' CString, not_null ''expires_at'' CTimestamp,
         with_default ''created_at'' CTimestamp CurrentTimestamp, nullable ''replaced_by'' CUuid,
         nullable ''replaced_at'' CTimestamp]),
      (''videos'',
        [not_null ''id'' CUuid, not_null ''user_id'' CUuid, nullable ''title'' CString, nullable ''description'' CString,
         not_null ''s3_bucket'' CString, not_null ''s3_key'' CString, with_default ''status'' CString (DefaultText ''DRAFT''),
         with_default ''size_bytes'' CBigInteger (DefaultNumber 0), with_default ''like_count'' CBigInteger (DefaultNumber 0),
         with_default ''created_at'' CTimestamp CurrentTimestamp, with_default ''updated_at'' CTimestamp CurrentTimestamp,
         with_default ''is_anonymous'' CBoolean (DefaultBool False), nullable ''deleted_at'' CTimestamp,
         nullable ''search_vector'' CTsVector, nullable ''processing_error_code'' CString,
         nullable ''processing_error_message'' CText, nullable ''failed_at'' CTimestamp, nullable ''duration_seconds'' CInteger,
         nullable ''is_nsfw'' CBoolean, with_default ''moderation_state'' CText (DefaultText ''VISIBLE''),
         nullable ''moderation_reason_code'' CText, nullable ''moderation_updated_at'' CTimestamp,
         nullable ''moderation_updated_by'' CText, nullable ''moderation_source_report_id'' CUuid]),
      (''likes'',
        [not_null ''user_id'' CUuid, not_null ''video_id'' CUuid, with_default ''created_at'' CTimestamp CurrentTimestamp]),
      (''download_jobs'',
        [not_null ''id'' CUuid, not_null ''user_id'' CUuid, not_null ''video_ids'' (CArray CUuid),
         with_default ''status'' CString (DefaultText ''PENDING''), nullable ''idempotency_key'' CString,
         nullable ''zip_s3_key'' CString, nullable ''zip_url'' CString, nullable ''zip_size_bytes'' CBigInteger,
         nullable ''error_message'' CText, nullable ''partial_manifest'' CJson,
         with_default ''retry_count'' CInteger (DefaultNumber 0), with_default ''created_at'' CTimestamp CurrentTimestamp,
         nullable ''updated_at'' CTimestamp, nullable ''completed_at'' CTimestamp, nullable ''expires_at'' CTimestamp]),
      (''extension_sessions'',
        [not_null ''jti'' CUuid, not_null ''user_id'' CUuid, not_null ''device_id_hash'' CString,
         not_null ''platform'' CString, not_null ''scope'' (CArray CString),
         with_default ''issued_at'' CTimestamp CurrentTimestamp, not_null ''expires_at'' CTimestamp,
         nullable ''revoked_at'' CTimestamp]),
      (''send_tickets'',
        [not_null ''ticket_id'' CUuid, not_null ''user_id'' CUuid, not_null ''video_id'' CUuid,
         not_null ''device_id_hash'' CString, nullable ''host_app_hint'' CString,
         with_default ''created_at'' CTimestamp CurrentTimestamp, not_null ''expires_at'' CTimestamp,
         nullable ''redeemed_at'' CTimestamp, with_default ''status'' CString (DefaultText ''active'')]),
      (''admin_audit_logs'',
        [not_null ''id'' CUuid, not_null ''actor_sub'' CString, not_null ''action'' CString,
         not_null ''target_table'' CString, nullable ''target_id'' CString, not_null ''request_id'' CString,
         nullable ''ip'' CString, nullable ''user_agent'' CString, not_null ''outcome'' CString,
         not_null ''metadata_json'' CJson, with_default ''created_at'' CTimestamp CurrentTimestamp]),
      (''user_bans'',
        [not_null ''id'' CUuid, not_null ''user_id'' CUuid, nullable ''reason'' CText, nullable ''banned_until'' CTimestamp,
         not_null ''created_by_admin_sub'' CString, with_default ''created_at'' CTimestamp CurrentTimestamp,
         nullable ''lifted_at'' CTimestamp, nullable ''lifted_by_admin_sub'' CString, nullable ''lift_reason'' CText]),
      (''ip_bans'',
        [not_null ''id'' CUuid, not_null ''target'' CString, not_null ''target_kind'' CString,
         not_null ''ip_family'' CSmallInteger, nullable ''cidr_prefix'' CSmallInteger, nullable ''reason'' CText,
         nullable ''banned_until'' CTimestamp, not_null ''created_by_admin_sub'' CString,
         with_default ''created_at'' CTimestamp CurrentTimestamp, nullable ''lifted_at'' CTimestamp,
         nullable ''lifted_by_admin_sub'' CString, nullable ''lift_reason'' CText]),
      (''security_events'',
        [not_null ''id'' CUuid, nullable ''user_id'' CUuid, not_null ''event_type'' CString, not_null ''ip'' CString,
         nullable ''request_id'' CString, nullable ''user_agent'' CString, not_null ''metadata_json'' CJson,
         with_default ''created_at'' CTimestamp CurrentTimestamp]),
      (''abuse_reports'',
        [not_null ''id'' CUuid, not_null ''video_id'' CUuid, not_null ''reporter_user_id'' CUuid,
         not_null ''reason_codes'' (CArray CText), nullable ''details'' CText, nullable ''timestamp_seconds'' CInteger,
         with_default ''severity_score'' CSmallInteger (DefaultNumber 0),
         with_default ''status'' CText (DefaultText ''open''), not_null ''client_ip'' CText, nullable ''user_agent'' CText,
         with_default ''auto_quarantined'' CBoolean (DefaultBool False), nullable ''auto_rule'' CText,
         with_default ''created_at'' CTimestamp CurrentTimestamp, with_default ''updated_at'' CTimestamp CurrentTimestamp,
         nullable ''closed_at'' CTimestamp, nullable ''closed_by_admin_sub'' CText,
         nullable ''resolution_code'' CText, nullable ''resolution_note'' CText])]"
  by code_simp

text \<open>The index on \<^verbatim>\<open>videos.deleted_at\<close> covers every row, though the migration announces a partial one.\<close>

lemma deleted_index_is_full:
  "CreateIndex ''videos'' \<lparr> ix_name = ''idx_videos_deleted_at'', ix_unique = False, ix_keys = [Ascending ''deleted_at''],
     ix_where = None \<rparr> \<in> set (mg_up m20260131_000003_add_soft_delete)"
  by (simp add: m20260131_000003_add_soft_delete_def index_on_def)

end
