(* ===== verification/Router.thy ===== *)
theory Router
  imports Session
begin

text \<open>
  The routes of the API (\<^verbatim>\<open>lib.rs\<close>, \<^verbatim>\<open>admin/router.rs\<close>, \<^verbatim>\<open>videos/router.rs\<close>, \<^verbatim>\<open>users/router.rs\<close>,
  \<^verbatim>\<open>system/router.rs\<close>), the layers around them, and which handlers a request can reach.
\<close>

section \<open>Patterns\<close>

text \<open>
  A pattern is a path whose segments starting with a colon capture. The choice among the patterns a path fits
  is the framework's: it is a parameter, of which only the documented is assumed, that it takes a pattern the
  path fits if there is one, and a literal segment before a capture.
\<close>

datatype segment = Lit string | Cap string

definition segment_of :: "string \<Rightarrow> segment" where
  "segment_of s = (if s \<noteq> [] \<and> hd s = CHR '':'' then Cap (tl s) else Lit s)"

definition parts :: "string \<Rightarrow> string list" where
  "parts path = tl (split_on CHR ''/'' path)"

definition pattern :: "string \<Rightarrow> segment list" where
  "pattern path = map segment_of (parts path)"

fun shape :: "segment \<Rightarrow> string option" where
  "shape (Lit s) = Some s"
| "shape (Cap _) = None"

fun fits :: "segment list \<Rightarrow> string list \<Rightarrow> bool" where
  "fits [] [] \<longleftrightarrow> True"
| "fits (Lit s # p) (x # xs) \<longleftrightarrow> x = s \<and> fits p xs"
| "fits (Cap _ # p) (_ # xs) \<longleftrightarrow> fits p xs"
| "fits _ _ \<longleftrightarrow> False"

fun literal_first :: "segment list \<Rightarrow> segment list \<Rightarrow> bool" where
  "literal_first (Lit _ # _) (Cap _ # _) \<longleftrightarrow> True"
| "literal_first (x # p) (y # q) \<longleftrightarrow> shape x = shape y \<and> literal_first p q"
| "literal_first _ _ \<longleftrightarrow> False"

record route =
  rt_path :: string
  rt_methods :: "(string \<times> string) list"
  rt_limited :: bool

definition route :: "string \<Rightarrow> (string \<times> string) list \<Rightarrow> route" where
  "route path methods = \<lparr> rt_path = path, rt_methods = methods, rt_limited = False \<rparr>"

definition nest :: "string \<Rightarrow> route list \<Rightarrow> route list" where
  "nest pre rs = map (\<lambda>r. r\<lparr>rt_path := pre @ rt_path r\<rparr>) rs"

definition route_shape :: "route \<Rightarrow> string option list" where
  "route_shape r = map shape (pattern (rt_path r))"

definition fits_route :: "string \<Rightarrow> route \<Rightarrow> bool" where
  "fits_route path r = fits (pattern (rt_path r)) (parts path)"

definition before :: "route \<Rightarrow> route \<Rightarrow> bool" where
  "before r q = literal_first (pattern (rt_path r)) (pattern (rt_path q))"

text \<open>A registration panics when two routes have the same shape, or a route has a method twice.\<close>

definition registers :: "route list \<Rightarrow> bool" where
  "registers rs \<longleftrightarrow> distinct (map route_shape rs) \<and> list_all (\<lambda>r. distinct (map fst (rt_methods r))) rs"

definition documented_choice :: "(route list \<Rightarrow> string \<Rightarrow> route option) \<Rightarrow> bool" where
  "documented_choice pick \<longleftrightarrow> (\<forall>rs path. registers rs \<longrightarrow> (case pick rs path of
     None \<Rightarrow> [] \<notin> set (parts path) \<longrightarrow> list_all (\<lambda>r. \<not> fits_route path r) rs
   | Some r \<Rightarrow> r \<in> set rs \<and> fits_route path r \<and> list_all (\<lambda>q. fits_route path q \<longrightarrow> \<not> before q r) rs))"

definition first_choice :: "route list \<Rightarrow> string \<Rightarrow> route option" where
  "first_choice rs path =
     find (\<lambda>r. fits_route path r \<and> list_all (\<lambda>q. fits_route path q \<longrightarrow> \<not> before q r) rs) rs"

lemma fits_length: "fits p xs \<Longrightarrow> length p = length xs"
  by (induction p xs rule: fits.induct) auto

text \<open>Of two patterns a path fits that differ in shape, one has a literal first.\<close>

lemma literal_first_cases:
  assumes "fits p xs" and "fits q xs" and "map shape p \<noteq> map shape q"
  shows "literal_first p q \<or> literal_first q p"
  using assms
proof (induction p xs arbitrary: q rule: fits.induct)
  case (2 s p x xs)
  then show ?case by (cases q; cases "hd q") auto
next
  case (3 n p x xs)
  then show ?case by (cases q; cases "hd q") auto
next
  case 1
  then show ?case by (cases q) auto
qed auto

fun literal_weight :: "segment list \<Rightarrow> nat" where
  "literal_weight [] = 0"
| "literal_weight (Lit _ # p) = 2 ^ length p + literal_weight p"
| "literal_weight (Cap _ # p) = literal_weight p"

lemma literal_weight_bound: "literal_weight p < 2 ^ length p"
  by (induction p rule: literal_weight.induct) auto

lemma literal_first_weight:
  assumes "literal_first p q" and "length p = length q"
  shows "literal_weight q < literal_weight p"
  using assms
proof (induction p arbitrary: q)
  case (Cons x p)
  then obtain y q' where "q = y # q'" by (cases q) auto
  with Cons literal_weight_bound [of q'] show ?case by (cases x; cases y) auto
qed auto

lemma first_choice_documented: "documented_choice first_choice"
proof -
  have max: "\<exists>r\<in>set rs. fits_route path r \<and> list_all (\<lambda>q. fits_route path q \<longrightarrow> \<not> before q r) rs"
    if q: "q \<in> set rs" "fits_route path q" for rs path q
  proof -
    let ?S = "{r \<in> set rs. fits_route path r}"
    let ?w = "\<lambda>r. literal_weight (pattern (rt_path r))"
    have "finite (?w ` ?S)" "?w ` ?S \<noteq> {}" using q by auto
    from Max_in [OF this] obtain r where r: "r \<in> ?S" "?w r = Max (?w ` ?S)" by auto
    have "\<not> before r' r" if "r' \<in> ?S" for r'
    proof
      assume "before r' r"
      then have "?w r < ?w r'" using literal_first_weight that r(1)
        by (auto simp: before_def fits_route_def dest!: fits_length)
      moreover have "?w r' \<le> ?w r" unfolding r(2) by (rule Max_ge) (use that in auto)
      ultimately show False by simp
    qed
    then show ?thesis using r(1) by (auto simp: list_all_iff)
  qed
  show ?thesis
    unfolding documented_choice_def
  proof (intro allI impI)
    fix rs path
    show "case first_choice rs path of None \<Rightarrow> [] \<notin> set (parts path) \<longrightarrow> list_all (\<lambda>r. \<not> fits_route path r) rs
      | Some r \<Rightarrow> r \<in> set rs \<and> fits_route path r \<and> list_all (\<lambda>q. fits_route path q \<longrightarrow> \<not> before q r) rs"
    proof (cases "first_choice rs path")
      case None
      then have "\<not> fits_route path r" if "r \<in> set rs" for r
        using max [OF that, of path] by (auto simp: first_choice_def find_None_iff list_all_iff)
      with None show ?thesis by (simp add: list_all_iff)
    next
      case (Some r)
      then have "r \<in> set rs \<and> fits_route path r \<and> list_all (\<lambda>q. fits_route path q \<longrightarrow> \<not> before q r) rs"
        by (auto simp: first_choice_def find_Some_iff)
      with Some show ?thesis by simp
    qed
  qed
qed

section \<open>The routes\<close>

text \<open>A handler is named by its module and its function.\<close>

definition base_routes :: "route list" where
  "base_routes =
     [route ''/health'' [(''GET'', ''health'')],
      route ''/docs'' [(''GET'', ''serve_docs'')],
      route ''/openapi.yaml'' [(''GET'', ''serve_openapi'')],
      route ''/auth/google/login'' [(''GET'', ''auth::google_login'')],
      route ''/auth/google/callback'' [(''GET'', ''auth::google_callback'')],
      route ''/auth/refresh'' [(''POST'', ''auth::refresh_token'')],
      route ''/auth/logout'' [(''POST'', ''auth::logout'')],
      route ''/auth/signup/complete'' [(''POST'', ''auth::signup_complete'')],
      route ''/auth/extension/session'' [(''POST'', ''auth::create_extension_session'')],
      route ''/auth/dev/login'' [(''POST'', ''auth::dev_login'')],
      route ''/auth/exchange-otc'' [(''POST'', ''auth::exchange_otc'')]]"

definition videos_router :: "route list" where
  "videos_router =
     [route ''/feed'' [(''GET'', ''videos::get_feed'')],
      route ''/videos/init'' [(''POST'', ''videos::init_upload'')],
      route ''/videos/init/anonymous'' [(''POST'', ''videos::init_anonymous_upload'')],
      route ''/videos/:id/confirm'' [(''POST'', ''videos::confirm_upload'')],
      route ''/videos/:id/report'' [(''POST'', ''videos::report_video'')],
      route ''/videos/search'' [(''GET'', ''videos::search_videos'')],
      route ''/videos/search/keyboard'' [(''GET'', ''videos::search_videos_keyboard'')],
      route ''/videos/:id/send-ticket'' [(''POST'', ''videos::create_send_ticket'')],
      route ''/videos/send-ticket/:ticket_id/media'' [(''GET'', ''videos::redeem_send_ticket_media'')],
      route ''/videos/:id/download'' [(''GET'', ''videos::download_video'')],
      route ''/videos/:id/download/refresh'' [(''POST'', ''videos::refresh_download_url'')],
      route ''/videos/download/bulk'' [(''POST'', ''videos::create_bulk_download'')],
      route ''/videos/download/bulk/:id'' [(''GET'', ''videos::get_bulk_download_status'')],
      route ''/videos/:id/like'' [(''PUT'', ''videos::set_like_video''), (''DELETE'', ''videos::unset_like_video'')],
      route ''/videos/:id'' [(''DELETE'', ''videos::delete_video''), (''PATCH'', ''videos::update_video_metadata'')],
      route ''/videos/bulk-delete'' [(''POST'', ''videos::bulk_delete_videos'')]]"

definition system_router :: "route list" where
  "system_router =
     [route ''/terms'' [(''GET'', ''system::get_terms'')],
      route ''/terms/en'' [(''GET'', ''system::get_terms_en'')],
      route ''/terms/tr'' [(''GET'', ''system::get_terms_tr'')],
      route ''/read-only'' [(''GET'', ''system::get_read_only_status'')],
      route ''/maintenance'' [(''GET'', ''system::get_maintenance_status'')]]"

definition users_router :: "route list" where
  "users_router =
     [route ''/me'' [(''GET'', ''users::get_me''), (''DELETE'', ''users::delete_account'')],
      route ''/me/onboarding/status'' [(''GET'', ''users::get_onboarding_status'')],
      route ''/me/onboarding/complete'' [(''POST'', ''users::complete_onboarding'')],
      route ''/me/username'' [(''PUT'', ''users::update_username'')],
      route ''/me/reports'' [(''GET'', ''users::get_my_reports'')],
      route ''/me/videos'' [(''GET'', ''users::get_my_videos'')],
      route ''/me/videos/ws'' [(''GET'', ''users::my_videos_ws'')]]"

definition admin_router :: "route list" where
  "admin_router =
     [route ''/db/tables'' [(''GET'', ''admin::list_tables'')],
      route ''/db/tables/:table/rows'' [(''GET'', ''admin::list_table_rows'')],
      route ''/db/tables/:table/rows/:id'' [(''GET'', ''admin::get_table_row'')],
      route ''/users/:id/hard'' [(''DELETE'', ''admin::hard_delete_user'')],
      route ''/videos/:id/hard'' [(''DELETE'', ''admin::hard_delete_video'')],
      route ''/download-jobs/:id/hard'' [(''DELETE'', ''admin::hard_delete_download_job'')],
      route ''/send-tickets/:id/hard'' [(''DELETE'', ''admin::hard_delete_send_ticket'')],
      route ''/extension-sessions/:id/hard'' [(''DELETE'', ''admin::hard_delete_extension_session'')],
      route ''/refresh-tokens/:id/hard'' [(''DELETE'', ''admin::hard_delete_refresh_token'')],
      route ''/users/:user_id/ban''
        [(''GET'', ''admin::get_user_ban''),
         (''PUT'', ''admin::upsert_user_ban''),
         (''DELETE'', ''admin::delete_user_ban'')],
      route ''/ip-bans''
        [(''GET'', ''admin::get_ip_ban''),
         (''PUT'', ''admin::upsert_ip_ban''),
         (''DELETE'', ''admin::delete_ip_ban'')],
      route ''/security/users/:user_id/ips'' [(''GET'', ''admin::investigate_user_ips'')],
      route ''/security/ips/:ip/users'' [(''GET'', ''admin::investigate_ip_users'')],
      route ''/abuse/reports'' [(''GET'', ''admin::list_abuse_reports'')],
      route ''/abuse/reports/:report_id''
        [(''GET'', ''admin::get_abuse_report''),
         (''POST'', ''admin::resolve_abuse_report'')],
      route ''/moderation/videos/:video_id/action'' [(''POST'', ''admin::admin_video_moderation_action'')],
      route ''/system/terms'' [(''GET'', ''admin::admin_get_terms'')],
      route ''/system/read-only'' [(''GET'', ''admin::admin_get_read_only_status'')],
      route ''/system/maintenance'' [(''GET'', ''admin::admin_get_maintenance_status'')],
      route ''/users/:user_id/feed'' [(''GET'', ''admin::as_user_feed'')],
      route ''/users/:user_id/onboarding/status'' [(''GET'', ''admin::as_user_onboarding_status'')],
      route ''/users/:user_id/onboarding/complete'' [(''POST'', ''admin::as_user_onboarding_complete'')],
      route ''/users/:user_id/profile'' [(''GET'', ''admin::as_user_get_profile'')],
      route ''/users/:user_id/account'' [(''DELETE'', ''admin::as_user_delete_account'')],
      route ''/users/:user_id/username'' [(''PUT'', ''admin::as_user_update_username'')],
      route ''/users/:user_id/videos'' [(''GET'', ''admin::as_user_get_videos'')],
      route ''/users/:user_id/videos/init'' [(''POST'', ''admin::as_user_init_upload'')],
      route ''/users/:user_id/videos/init/anonymous'' [(''POST'', ''admin::as_user_init_anonymous_upload'')],
      route ''/users/:user_id/videos/:id/confirm'' [(''POST'', ''admin::as_user_confirm_upload'')],
      route ''/users/:user_id/videos/search'' [(''GET'', ''admin::as_user_search_videos'')],
      route ''/users/:user_id/videos/search/keyboard'' [(''GET'', ''admin::as_user_search_videos_keyboard'')],
      route ''/users/:user_id/videos/:id/send-ticket'' [(''POST'', ''admin::as_user_create_send_ticket'')],
      route ''/users/:user_id/videos/send-ticket/:ticket_id/media''
        [(''GET'', ''admin::as_user_redeem_send_ticket_media'')],
      route ''/users/:user_id/videos/:id/download'' [(''GET'', ''admin::as_user_download_video'')],
      route ''/users/:user_id/videos/:id/download/refresh'' [(''POST'', ''admin::as_user_refresh_download_url'')],
      route ''/users/:user_id/videos/download/bulk'' [(''POST'', ''admin::as_user_create_bulk_download'')],
      route ''/users/:user_id/videos/download/bulk/:id'' [(''GET'', ''admin::as_user_get_bulk_download_status'')],
      route ''/users/:user_id/videos/:id/like''
        [(''PUT'', ''admin::as_user_set_like_video''),
         (''DELETE'', ''admin::as_user_unset_like_video'')],
      route ''/users/:user_id/videos/:id''
        [(''DELETE'', ''admin::as_user_delete_video''),
         (''PATCH'', ''admin::as_user_update_video_metadata'')],
      route ''/users/:user_id/videos/:id/report'' [(''POST'', ''admin::as_user_report_video'')],
      route ''/users/:user_id/videos/bulk-delete'' [(''POST'', ''admin::as_user_bulk_delete_videos'')],
      route ''/users/:user_id/videos/ws'' [(''GET'', ''admin::as_user_my_videos_ws'')],
      route ''/users/:user_id/session'' [(''POST'', ''admin::create_user_session'')],
      route ''/users/:user_id/session/refresh'' [(''POST'', ''admin::as_user_refresh_session'')],
      route ''/users/:user_id/session/logout'' [(''POST'', ''admin::as_user_logout_all'')],
      route ''/users/:user_id/extension-session'' [(''POST'', ''admin::create_user_extension_session'')]]"

definition public_routes :: "config \<Rightarrow> route list" where
  "public_routes cf =
     map (\<lambda>r. r\<lparr>rt_limited := True\<rparr>)
       (base_routes
        @ (if cf_environment cf = ''development'' \<or> cf_environment cf = ''test''
           then [route ''/metrics'' [(''GET'', ''metrics_handler'')]] else [])
        @ videos_router @ nest ''/system'' system_router @ nest ''/users'' users_router)"

definition app_routes :: "config \<Rightarrow> route list" where
  "app_routes cf =
     public_routes cf @ (if cf_admin_api_enabled cf then nest ''/admin'' admin_router else [])"

text \<open>With both conditions on; the other tables are parts of this one.\<close>

definition full_routes :: "route list" where
  "full_routes = map (\<lambda>r. r\<lparr>rt_limited := True\<rparr>)
       (base_routes @ [route ''/metrics'' [(''GET'', ''metrics_handler'')]]
        @ videos_router @ nest ''/system'' system_router @ nest ''/users'' users_router)
     @ nest ''/admin'' admin_router"

lemma full_registers: "registers full_routes"
  by code_simp

lemma registers_append: "registers (xs @ ys @ zs) \<Longrightarrow> registers (xs @ zs) \<and> registers (xs @ ys)"
  by (auto simp: registers_def)

lemma app_routes_register: "registers (app_routes cf)"
proof -
  let ?p = "map (\<lambda>r. r\<lparr>rt_limited := True\<rparr>)"
  let ?m = "?p [route ''/metrics'' [(''GET'', ''metrics_handler'')]]"
  let ?rest = "?p (videos_router @ nest ''/system'' system_router @ nest ''/users'' users_router)"
  have "registers (?p base_routes @ ?m @ ?rest @ nest ''/admin'' admin_router)"
    using full_registers by (simp add: full_routes_def)
  moreover from this have "registers (?p base_routes @ ?rest @ nest ''/admin'' admin_router)"
    by (rule registers_append [THEN conjunct1])
  ultimately have "registers (?p base_routes @ ?m @ ?rest)" "registers (?p base_routes @ ?rest)"
    using registers_append [of "?p base_routes @ ?m @ ?rest" "nest ''/admin'' admin_router" "[]"]
      registers_append [of "?p base_routes @ ?rest" "nest ''/admin'' admin_router" "[]"] by simp_all
  then show ?thesis
    using \<open>registers (?p base_routes @ ?m @ _ @ _)\<close> \<open>registers (?p base_routes @ ?rest @ _)\<close>
    by (simp add: app_routes_def public_routes_def)
qed

lemma app_routes_in_full: "set (app_routes cf) \<subseteq> set full_routes"
  by (auto simp: app_routes_def public_routes_def full_routes_def)

section \<open>Which route a request takes\<close>

definition literals :: "route \<Rightarrow> string list" where
  "literals r = concat (map (\<lambda>s. case s of Lit x \<Rightarrow> [x] | Cap _ \<Rightarrow> []) (pattern (rt_path r)))"

text \<open>The values a path has for the captures of a route, when it fits the route.\<close>

fun captured :: "segment list \<Rightarrow> string list \<Rightarrow> string list" where
  "captured (Cap _ # p) (x # xs) = x # captured p xs"
| "captured (Lit _ # p) (_ # xs) = captured p xs"
| "captured _ _ = []"

definition values_of :: "string \<Rightarrow> route \<Rightarrow> string list" where
  "values_of path r = captured (pattern (rt_path r)) (parts path)"

lemma shape_eqI:
  assumes "fits p xs" and "fits q xs" and "set (captured p xs) \<inter> set (concat (map (\<lambda>s. case s of Lit x \<Rightarrow> [x] | Cap _ \<Rightarrow> []) q)) = {}"
    and "\<not> literal_first p q"
  shows "map shape p = map shape q"
  using assms
proof (induction p xs arbitrary: q rule: fits.induct)
  case (2 s p x xs)
  then show ?case by (cases q; cases "hd q") auto
next
  case (3 n p x xs)
  then show ?case by (cases q; cases "hd q") auto
next
  case 1
  then show ?case by (cases q) auto
qed auto

lemma registers_shape:
  assumes "registers rs" and "r \<in> set rs" and "q \<in> set rs" and "route_shape r = route_shape q"
  shows "r = q"
  using assms by (auto simp: registers_def distinct_map inj_on_def)

lemma choice_takes:
  assumes "documented_choice pick" and "registers rs" and "r \<in> set rs" and "fits_route path r"
    and "[] \<notin> set (parts path)" and "\<And>q. q \<in> set rs \<Longrightarrow> set (values_of path r) \<inter> set (literals q) = {}"
  shows "pick rs path = Some r"
proof -
  from assms(1,2) have c: "case pick rs path of
     None \<Rightarrow> [] \<notin> set (parts path) \<longrightarrow> list_all (\<lambda>r. \<not> fits_route path r) rs
   | Some q \<Rightarrow> q \<in> set rs \<and> fits_route path q \<and> list_all (\<lambda>p. fits_route path p \<longrightarrow> \<not> before p q) rs"
    by (simp add: documented_choice_def)
  then obtain q where q: "pick rs path = Some q" "q \<in> set rs" "fits_route path q" "\<not> before r q"
    using assms(3-5) by (cases "pick rs path") (auto simp: list_all_iff)
  have "route_shape r = route_shape q" unfolding route_shape_def
    by (rule shape_eqI [of _ "parts path"])
       (use assms(4) assms(6) [OF q(2)] q(3,4) in \<open>simp_all add: fits_route_def values_of_def literals_def before_def\<close>)
  with registers_shape [OF assms(2,3) q(2)] q(1) show ?thesis by simp
qed

text \<open>C30: no route is shadowed by another: a request whose path fits a route, with identifiers that are not
  themselves words of the routes (a UUID is none), is taken to that route, whatever administration and
  environment are configured.\<close>

theorem no_route_is_shadowed:
  assumes "documented_choice pick" and "r \<in> set (app_routes cf)" and "fits_route path r"
    and "[] \<notin> set (parts path)" and "list_all (\<lambda>x. x \<notin> set (concat (map literals full_routes))) (values_of path r)"
  shows "pick (app_routes cf) path = Some r"
  by (rule choice_takes [OF assms(1) app_routes_register assms(2-4)])
     (use app_routes_in_full [of cf] assms(5) in \<open>fastforce simp: list_all_iff\<close>)

lemma no_route_is_shadowed_witness:
  "first_choice (app_routes config0) ''/videos/0b1e/confirm'' =
     Some \<lparr> rt_path = ''/videos/:id/confirm'', rt_methods = [(''POST'', ''videos::confirm_upload'')], rt_limited = True \<rparr>"
  by (rule no_route_is_shadowed [OF first_choice_documented])
     (simp add: app_routes_def public_routes_def videos_router_def route_def, code_simp, code_simp, code_simp)

section \<open>Serving a request\<close>

text \<open>The handler a route has for a method; \<^verbatim>\<open>get\<close> also answers \<^verbatim>\<open>HEAD\<close>.\<close>

definition handler_for :: "route \<Rightarrow> string \<Rightarrow> string option" where
  "handler_for r verb = (case map_of (rt_methods r) verb of
     Some h \<Rightarrow> Some h
   | None \<Rightarrow> if verb = ''HEAD'' then map_of (rt_methods r) ''GET'' else None)"

text \<open>
  The layers from the outside: CORS, which answers \<^verbatim>\<open>OPTIONS\<close> itself, the guard of the platform, on public
  routes the limit by address, the handler. \<open>refuse\<close> is what the framework answers where no route or no
  method is found, with the layers around it.
\<close>

definition serve ::
  "app \<Rightarrow> bool \<Rightarrow> (route list \<Rightarrow> string \<Rightarrow> route option) \<Rightarrow> (string \<Rightarrow> request \<Rightarrow> 'a api)
     \<Rightarrow> (nat \<Rightarrow> request \<Rightarrow> 'a api) \<Rightarrow> (request \<Rightarrow> 'a api) \<Rightarrow> request \<Rightarrow> 'a api" where
  "serve ap bypass pick handler refuse preflight rq =
     (if rq_method rq = ''OPTIONS'' then preflight rq
      else platform_mode_guard ap rq
        (case pick (app_routes (ap_config ap)) (rq_path rq) of
           None \<Rightarrow> refuse 404 rq
         | Some r \<Rightarrow>
             let answer = (case handler_for r (rq_method rq) of None \<Rightarrow> refuse 405 rq | Some h \<Rightarrow> handler h rq)
             in if rt_limited r then ip_rate_limit ap bypass rq answer else answer))"

lemma split_on_first:
  assumes "d \<notin> set p"
  shows "(\<exists>xs. split_on d s = p # xs) \<longleftrightarrow> s = p \<or> prefix (p @ [d]) s"
  using assms
proof (induction s arbitrary: p)
  case (Cons c s)
  show ?case
  proof (cases p)
    case Nil
    then show ?thesis by (auto split: list.splits)
  next
    case (Cons b q)
    with Cons.IH [of q] Cons.prems show ?thesis by (auto split: list.splits)
  qed
qed auto

text \<open>The first word of a path: \<^verbatim>\<open>admin\<close> on the routes of the administration, and only there.\<close>

lemma first_words:
  "list_all (\<lambda>r. case pattern (rt_path r) of Lit s # p \<Rightarrow> (s = ''admin'') = (\<not> rt_limited r) | _ \<Rightarrow> False) full_routes"
  by code_simp

lemma admin_path_iff:
  assumes "r \<in> set (app_routes cf)" and "fits_route (CHR ''/'' # path) r"
  shows "is_admin_path (CHR ''/'' # path) \<longleftrightarrow> \<not> rt_limited r"
proof -
  have "r \<in> set full_routes" using app_routes_in_full assms(1) by blast
  then have "case pattern (rt_path r) of Lit s # p \<Rightarrow> (s = ''admin'') = (\<not> rt_limited r) | _ \<Rightarrow> False"
    by (rule bspec [OF first_words [unfolded list_all_iff]])
  then obtain s p where p: "pattern (rt_path r) = Lit s # p" "s = ''admin'' \<longleftrightarrow> \<not> rt_limited r"
    by (auto split: list.splits segment.splits)
  with assms(2) obtain xs where "split_on CHR ''/'' path = s # xs"
    by (auto simp: fits_route_def parts_def neq_Nil_conv elim: fits.elims)
  then have "s = ''admin'' \<longleftrightarrow> path = ''admin'' \<or> prefix (''admin'' @ ''/'') path"
    using split_on_first [of "CHR ''/''" "''admin''" path] by auto
  with p(2) show ?thesis by (auto simp: is_admin_path_def starts_with_def)
qed


text \<open>C38: the guard lets the administration through in maintenance by the text of the path, the router nests
  its routes: both mean the same requests, and exactly the others are limited by address.\<close>

theorem admin_paths_are_admin_routes:
  assumes "r \<in> set (app_routes cf)" and "fits_route (CHR ''/'' # path) r"
  shows "is_admin_path (CHR ''/'' # path) \<longleftrightarrow> \<not> rt_limited r"
  using admin_path_iff [OF assms] .

lemma admin_paths_are_admin_routes_witness:
  "is_admin_path ''/admin/ip-bans''"
proof -
  have "nest ''/admin'' [route ''/ip-bans'' [(''GET'', ''admin::get_ip_ban''), (''PUT'', ''admin::upsert_ip_ban''),
      (''DELETE'', ''admin::delete_ip_ban'')]] ! 0 \<in> set (app_routes config0)" (is "?r \<in> _")
    by (simp add: app_routes_def config0_def nest_def admin_router_def)
  moreover have "fits_route ''/admin/ip-bans'' ?r" "\<not> rt_limited ?r" by code_simp+
  ultimately show ?thesis using admin_paths_are_admin_routes [of ?r config0 "''admin/ip-bans''"] by blast
qed

text \<open>The handlers that are open under a configuration.\<close>

definition maintenance_handlers :: "string list" where
  "maintenance_handlers =
     [''health'', ''auth::google_login'', ''auth::google_callback'', ''auth::exchange_otc'', ''auth::dev_login'',
      ''system::get_maintenance_status'']"

definition open_handlers :: "config \<Rightarrow> string list" where
  "open_handlers cf =
     (if cf_maintenance_mode_enabled cf then maintenance_handlers
      else concat (map (\<lambda>r. map snd (rt_methods r)) (public_routes cf)))
     @ (if cf_admin_api_enabled cf then concat (map (\<lambda>r. map snd (rt_methods r)) admin_router) else [])"

text \<open>The routes of the requests the guard lets through in maintenance.\<close>

definition open_routes :: "(string \<times> string \<times> string) list" where
  "open_routes =
     [(''GET'', ''/health'', ''health''), (''GET'', ''/auth/google/login'', ''auth::google_login''),
      (''GET'', ''/auth/google/callback'', ''auth::google_callback''),
      (''POST'', ''/auth/exchange-otc'', ''auth::exchange_otc''), (''POST'', ''/auth/dev/login'', ''auth::dev_login''),
      (''GET'', ''/system/maintenance'', ''system::get_maintenance_status'')]"

definition plain_route :: "string \<times> string \<times> string \<Rightarrow> route" where
  "plain_route x = (case x of (verb, path, h) \<Rightarrow> \<lparr> rt_path = path, rt_methods = [(verb, h)], rt_limited = True \<rparr>)"

lemma open_routes_there: "x \<in> set open_routes \<Longrightarrow> plain_route x \<in> set (app_routes cf)"
  by (auto simp: open_routes_def plain_route_def app_routes_def public_routes_def base_routes_def route_def nest_def
      system_router_def)

lemma open_routes_plain:
  "list_all (\<lambda>x. case x of (verb, path, h) \<Rightarrow> fits_route path (plain_route x) \<and> [] \<notin> set (parts path)
     \<and> values_of path (plain_route x) = []) open_routes"
  by code_simp

lemma open_routes_listed:
  "is_maintenance_allowlisted verb path \<longleftrightarrow> (\<exists>h. (verb, path, h) \<in> set open_routes)"
proof -
  have "is_maintenance_allowlisted verb path \<longleftrightarrow> (verb, path) \<in> set (map (\<lambda>(v, p, h). (v, p)) open_routes)"
    by (simp only: is_maintenance_allowlisted_def open_routes_def list.map prod.case)
  then show ?thesis by force
qed

lemma open_route_taken:
  assumes "documented_choice pick" and "(verb, path, h) \<in> set open_routes"
  shows "pick (app_routes cf) path = Some (plain_route (verb, path, h))"
  by (rule choice_takes [OF assms(1) app_routes_register open_routes_there [OF assms(2)]])
     (use bspec [OF open_routes_plain [unfolded list_all_iff] assms(2)] in auto)

lemma handler_for_route: "handler_for r verb = Some h \<Longrightarrow> h \<in> snd ` set (rt_methods r)"
  by (auto simp: handler_for_def split: option.splits if_splits dest!: map_of_SomeD intro: rev_image_eqI)

lemma open_routes_handlers: "(verb, path, h) \<in> set open_routes \<Longrightarrow> h \<in> set maintenance_handlers"
  by (auto simp: open_routes_def maintenance_handlers_def)

text \<open>Which handler a request that passes the guard can run.\<close>

lemma reached_is_open:
  assumes "documented_choice pick" and "pick (app_routes cf) (CHR ''/'' # path) = Some r"
    and "handler_for r verb = Some h"
    and "cf_maintenance_mode_enabled cf \<Longrightarrow> is_admin_path (CHR ''/'' # path) \<or> is_maintenance_allowlisted verb (CHR ''/'' # path)"
  shows "h \<in> set (open_handlers cf)"
proof -
  from assms(1,2) have r: "r \<in> set (app_routes cf)" "fits_route (CHR ''/'' # path) r"
    using app_routes_register [of cf] unfolding documented_choice_def by (fastforce split: option.splits)+
  have pub: "rt_limited q" if "q \<in> set (public_routes cf)" for q using that by (auto simp: public_routes_def)
  have adm: "h \<in> set (open_handlers cf)" if "r \<notin> set (public_routes cf)"
  proof -
    from that r(1) obtain q where "q \<in> set admin_router" "rt_methods q = rt_methods r" "cf_admin_api_enabled cf"
      by (auto simp: app_routes_def nest_def split: if_splits)
    then show ?thesis using handler_for_route [OF assms(3)]
      by (simp add: open_handlers_def) (metis)
  qed
  show ?thesis
  proof (cases "r \<in> set (public_routes cf) \<and> cf_maintenance_mode_enabled cf")
    case True
    then have "\<not> is_admin_path (CHR ''/'' # path)"
      using admin_path_iff [OF r] pub by blast
    with True assms(4) obtain g where g: "(verb, CHR ''/'' # path, g) \<in> set open_routes"
      using open_routes_listed by blast
    with open_route_taken [OF assms(1) this, of cf] assms(2,3) have "h = g"
      by (simp add: plain_route_def handler_for_def)
    then show ?thesis using open_routes_handlers [OF g] True by (simp add: open_handlers_def)
  next
    case False
    have "h \<in> set (concat (map (\<lambda>r. map snd (rt_methods r)) (public_routes cf)))" if "r \<in> set (public_routes cf)"
      using handler_for_route [OF assms(3)] that by auto
    with False show ?thesis using adm by (cases "r \<in> set (public_routes cf)") (simp_all add: open_handlers_def)
  qed
qed

text \<open>C16: only open handlers run: whatever the others do, a request is answered the same and leaves the same
  world. In maintenance these are the six of the allow list, without the administration none of its handlers,
  in production not the one of the metrics.\<close>

theorem only_open_handlers_run:
  assumes "documented_choice pick" and "rq_path rq = CHR ''/'' # path"
    and "\<And>h. h \<in> set (open_handlers (ap_config ap)) \<Longrightarrow> handler h rq = handler' h rq"
  shows "serve ap bypass pick handler refuse preflight rq = serve ap bypass pick handler' refuse preflight rq"
proof (cases "cf_maintenance_mode_enabled (ap_config ap) \<and> \<not> is_admin_path (rq_path rq)
    \<and> \<not> is_maintenance_allowlisted (rq_method rq) (rq_path rq)")
  case True
  then show ?thesis by (simp add: serve_def platform_mode_guard_def guardE_def)
next
  case False
  have "handler h rq = handler' h rq"
    if "pick (app_routes (ap_config ap)) (rq_path rq) = Some r" "handler_for r (rq_method rq) = Some h" for r h
    by (rule assms(3), rule reached_is_open [OF assms(1) _ that(2)]) (use that(1) False assms(2) in auto)
  then show ?thesis
    by (auto simp: serve_def Let_def split: option.splits intro!: arg_cong [of _ _ "platform_mode_guard ap rq"])
qed

definition closed_app :: app where
  "closed_app = \<lparr> ap_config = config0\<lparr>cf_maintenance_mode_enabled := True, cf_admin_api_enabled := False\<rparr>,
     ap_libs = libs0 \<rparr>"

lemma only_open_handlers_run_witness:
  "\<forall>(handler :: string \<Rightarrow> request \<Rightarrow> unit api) refuse preflight rq.
     serve closed_app False first_choice handler refuse preflight (rq\<lparr>rq_path := ''/videos/init''\<rparr>)
   = serve closed_app False first_choice
       (\<lambda>h. if h \<in> set maintenance_handlers then handler h else (\<lambda>_. throwErr (internal_error ''closed'')))
       refuse preflight (rq\<lparr>rq_path := ''/videos/init''\<rparr>)"
proof (intro allI)
  fix handler :: "string \<Rightarrow> request \<Rightarrow> unit api" and refuse preflight and rq :: request
  show "serve closed_app False first_choice handler refuse preflight (rq\<lparr>rq_path := ''/videos/init''\<rparr>)
   = serve closed_app False first_choice
       (\<lambda>h. if h \<in> set maintenance_handlers then handler h else (\<lambda>_. throwErr (internal_error ''closed'')))
       refuse preflight (rq\<lparr>rq_path := ''/videos/init''\<rparr>)"
    by (rule only_open_handlers_run [OF first_choice_documented])
       (simp_all add: open_handlers_def closed_app_def)
qed

text \<open>And the open ones can be reached: a request of the allow list that passes the check of its address
  and the limit runs its handler, in maintenance as well.\<close>

lemma allow_list_is_served:
  assumes "documented_choice pick" and "(rq_method rq, rq_path rq, h) \<in> set open_routes"
  shows "serve ap bypass pick handler refuse preflight rq =
    platform_mode_guard ap rq (ip_rate_limit ap bypass rq (handler h rq))"
proof -
  have "rq_method rq \<noteq> ''OPTIONS''" using assms(2) by (auto simp: open_routes_def)
  then show ?thesis
    using open_route_taken [OF assms] by (simp add: serve_def plain_route_def handler_for_def)
qed

section \<open>Requests from other origins\<close>

text \<open>
  What the CORS layer allows; \<^verbatim>\<open>None\<close> where building it panics, on a wildcard among listed origins. Which
  texts are header values is the framework's.
\<close>

datatype allowed = AnyAllowed | Listed "string list"

record cors =
  cors_origins :: allowed
  cors_methods :: allowed
  cors_headers :: allowed
  cors_credentials :: bool

definition configured_origins :: "(string \<Rightarrow> bool) \<Rightarrow> config \<Rightarrow> string list" where
  "configured_origins header_value cf =
     filter header_value (filter (\<lambda>s. s \<noteq> []) (map trim (split_on CHR '','' (cf_cors_allowed_origins cf))))"

definition cors_layer :: "(string \<Rightarrow> bool) \<Rightarrow> config \<Rightarrow> cors option" where
  "cors_layer header_value cf =
     (if cf_cors_allowed_origins cf = [] then
        if cf_environment cf = ''development''
        then Some \<lparr> cors_origins = AnyAllowed, cors_methods = AnyAllowed, cors_headers = AnyAllowed, cors_credentials = False \<rparr>
        else Some \<lparr> cors_origins = Listed [], cors_methods = Listed [], cors_headers = Listed [], cors_credentials = False \<rparr>
      else if ''*'' \<in> set (configured_origins header_value cf) then None
      else Some \<lparr> cors_origins = Listed (configured_origins header_value cf),
             cors_methods = Listed [''GET'', ''POST'', ''PUT'', ''DELETE'', ''OPTIONS''],
             cors_headers = Listed [''authorization'', ''content-type''], cors_credentials = True \<rparr>)"

fun allows :: "allowed \<Rightarrow> string \<Rightarrow> bool" where
  "allows AnyAllowed _ \<longleftrightarrow> True"
| "allows (Listed xs) x \<longleftrightarrow> x \<in> set xs"

text \<open>Only origins of the list may send credentials, and outside of development no origin is allowed that
  is not in the list.\<close>

theorem cors_needs_listed_origin:
  assumes "cors_layer header_value cf = Some c" and "allows (cors_origins c) origin"
    and "cors_credentials c \<or> cf_environment cf \<noteq> ''development''"
  shows "origin \<in> set (map trim (split_on CHR '','' (cf_cors_allowed_origins cf))) \<and> header_value origin \<and> origin \<noteq> []
    \<and> origin \<noteq> ''*''"
  using assms by (auto simp: cors_layer_def configured_origins_def split: if_splits)

lemma cors_needs_listed_origin_witness:
  "''https://a'' \<noteq> ''*'' \<and> cors_layer (\<lambda>_. True) (config0\<lparr>cf_cors_allowed_origins := ''https://a''\<rparr>) \<noteq> None"
proof -
  let ?cf = "config0\<lparr>cf_cors_allowed_origins := ''https://a''\<rparr>"
  have "trim ''https://a'' = ''https://a''" by (rule trim_visible) code_simp
  then have "configured_origins (\<lambda>_. True) ?cf = [''https://a'']" by (simp add: configured_origins_def)
  then have c: "cors_layer (\<lambda>_. True) ?cf = Some \<lparr> cors_origins = Listed [''https://a''],
      cors_methods = Listed [''GET'', ''POST'', ''PUT'', ''DELETE'', ''OPTIONS''],
      cors_headers = Listed [''authorization'', ''content-type''], cors_credentials = True \<rparr>"
    by (simp add: cors_layer_def)
  from cors_needs_listed_origin [OF c, of "''https://a''"] c show ?thesis by simp
qed

text \<open>A method the routes have and the layer refuses to other origins: changing the metadata of a video.\<close>

lemma cors_refuses_patch:
  assumes "cors_layer header_value cf = Some c" and "cors_credentials c"
  shows "\<not> allows (cors_methods c) ''PATCH''
    \<and> (\<exists>r\<in>set (app_routes cf). rt_path r = ''/videos/:id'' \<and> handler_for r ''PATCH'' = Some ''videos::update_video_metadata'')"
proof -
  have "route ''/videos/:id'' [(''DELETE'', ''videos::delete_video''), (''PATCH'', ''videos::update_video_metadata'')]
      \<lparr>rt_limited := True\<rparr> \<in> set (app_routes cf)" (is "?r \<in> _")
    by (simp add: app_routes_def public_routes_def videos_router_def)
  moreover have "rt_path ?r = ''/videos/:id''" "handler_for ?r ''PATCH'' = Some ''videos::update_video_metadata''"
    by (simp_all add: route_def handler_for_def)
  ultimately show ?thesis using assms by (auto simp: cors_layer_def split: if_splits intro!: bexI [of _ ?r])
qed

text \<open>A list of origins with a wildcard stops the start.\<close>

lemma wildcard_origin_panics: "cors_layer (\<lambda>_. True) (cf\<lparr>cf_cors_allowed_origins := ''*''\<rparr>) = None"
proof -
  have "configured_origins (\<lambda>_. True) (cf\<lparr>cf_cors_allowed_origins := ''*''\<rparr>) = [''*'']"
    using trim_visible [of "''*''"] by (simp add: configured_origins_def byte_def)
  then show ?thesis by (simp add: cors_layer_def)
qed

text \<open>Building the router: CORS, then the routes, whose registration panics on routes of the same shape.\<close>

definition create_router :: "(string \<Rightarrow> bool) \<Rightarrow> config \<Rightarrow> (cors \<times> route list) option" where
  "create_router header_value cf =
     (case cors_layer header_value cf of
        None \<Rightarrow> None
      | Some c \<Rightarrow> if registers (app_routes cf) then Some (c, app_routes cf) else None)"

text \<open>The router can be built under every configuration but one with a wildcard among the listed origins.\<close>

theorem router_builds:
  "create_router header_value cf = None
     \<longleftrightarrow> cf_cors_allowed_origins cf \<noteq> [] \<and> ''*'' \<in> set (configured_origins header_value cf)"
  by (simp add: create_router_def app_routes_register cors_layer_def)

end
