(* ===== verification/Tables.thy ===== *)
theory Tables
  imports Migrations Admin Deletion
begin

text \<open>
  The rows of the model as rows of the migrated schema: their columns and types, what the keys, foreign
  keys and checks of the schema mean for a database, and that the writes of \<open>World\<close> refuse exactly the
  rows that would break one.
\<close>

section \<open>Rows\<close>

datatype sql_value =
    VNull | VText string | VNumber int | VBool bool | VTime time | VJson json | VArray "sql_value list"

definition opt :: "('a \<Rightarrow> sql_value) \<Rightarrow> 'a option \<Rightarrow> sql_value" where
  "opt f x = (case x of None \<Rightarrow> VNull | Some y \<Rightarrow> f y)"

lemma opt_simps [simp]: "opt f None = VNull" "opt f (Some y) = f y"
  by (simp_all add: opt_def)

definition texts :: "string list \<Rightarrow> sql_value" where
  "texts ss = VArray (map VText ss)"

text \<open>The columns of an entity, as the ORM writes them.\<close>

fun row_columns :: "table_row \<Rightarrow> (string \<times> sql_value) list" where
  "row_columns (UserRow r) =
     [(''id'', VText (u_id r)), (''google_id'', VText (u_google_id r)), (''username'', VText (u_username r)),
      (''username_normalized'', opt VText (u_username_normalized r)), (''email'', VText (u_email r)),
      (''avatar_url'', opt VText (u_avatar_url r)), (''username_updated_at'', opt VTime (u_username_updated_at r)),
      (''age_confirmed_at'', opt VTime (u_age_confirmed_at r)), (''terms_accepted_at'', opt VTime (u_terms_accepted_at r)),
      (''terms_accepted_version'', opt VText (u_terms_accepted_version r)), (''deleted_at'', opt VTime (u_deleted_at r)),
      (''created_at'', VTime (u_created_at r)), (''updated_at'', VTime (u_updated_at r))]"
| "row_columns (VideoRow r) =
     [(''id'', VText (v_id r)), (''user_id'', VText (v_user_id r)), (''title'', opt VText (v_title r)),
      (''description'', opt VText (v_description r)), (''s3_bucket'', VText (v_s3_bucket r)), (''s3_key'', VText (v_s3_key r)),
      (''status'', VText (v_status r)), (''size_bytes'', VNumber (v_size_bytes r)),
      (''duration_seconds'', opt VNumber (v_duration_seconds r)), (''like_count'', VNumber (v_like_count r)),
      (''is_anonymous'', VBool (v_is_anonymous r)), (''is_nsfw'', opt VBool (v_is_nsfw r)),
      (''moderation_state'', VText (v_moderation_state r)), (''moderation_reason_code'', opt VText (v_moderation_reason_code r)),
      (''moderation_updated_at'', opt VTime (v_moderation_updated_at r)),
      (''moderation_updated_by'', opt VText (v_moderation_updated_by r)),
      (''moderation_source_report_id'', opt VText (v_moderation_source_report_id r)),
      (''processing_error_code'', opt VText (v_processing_error_code r)),
      (''processing_error_message'', opt VText (v_processing_error_message r)), (''failed_at'', opt VTime (v_failed_at r)),
      (''deleted_at'', opt VTime (v_deleted_at r)), (''created_at'', VTime (v_created_at r)),
      (''updated_at'', VTime (v_updated_at r))]"
| "row_columns (LikeRow r) =
     [(''user_id'', VText (l_user_id r)), (''video_id'', VText (l_video_id r)), (''created_at'', VTime (l_created_at r))]"
| "row_columns (RefreshTokenRow r) =
     [(''id'', VText (rt_id r)), (''user_id'', VText (rt_user_id r)), (''token_hash'', VText (rt_token_hash r)),
      (''expires_at'', VTime (rt_expires_at r)), (''created_at'', VTime (rt_created_at r)),
      (''replaced_by'', opt VText (rt_replaced_by r)), (''replaced_at'', opt VTime (rt_replaced_at r))]"
| "row_columns (DownloadJobRow r) =
     [(''id'', VText (dj_id r)), (''user_id'', VText (dj_user_id r)), (''video_ids'', texts (dj_video_ids r)),
      (''status'', VText (dj_status r)), (''idempotency_key'', opt VText (dj_idempotency_key r)),
      (''zip_s3_key'', opt VText (dj_zip_s3_key r)), (''zip_url'', opt VText (dj_zip_url r)),
      (''zip_size_bytes'', opt VNumber (dj_zip_size_bytes r)), (''error_message'', opt VText (dj_error_message r)),
      (''partial_manifest'', opt VJson (dj_partial_manifest r)), (''retry_count'', VNumber (dj_retry_count r)),
      (''created_at'', VTime (dj_created_at r)), (''updated_at'', opt VTime (dj_updated_at r)),
      (''completed_at'', opt VTime (dj_completed_at r)), (''expires_at'', opt VTime (dj_expires_at r))]"
| "row_columns (SendTicketRow r) =
     [(''ticket_id'', VText (st_ticket_id r)), (''user_id'', VText (st_user_id r)), (''video_id'', VText (st_video_id r)),
      (''device_id_hash'', VText (st_device_id_hash r)), (''host_app_hint'', opt VText (st_host_app_hint r)),
      (''created_at'', VTime (st_created_at r)), (''expires_at'', VTime (st_expires_at r)),
      (''redeemed_at'', opt VTime (st_redeemed_at r)), (''status'', VText (st_status r))]"
| "row_columns (ExtensionSessionRow r) =
     [(''jti'', VText (es_jti r)), (''user_id'', VText (es_user_id r)), (''device_id_hash'', VText (es_device_id_hash r)),
      (''platform'', VText (es_platform r)), (''scope'', texts (es_scope r)), (''issued_at'', VTime (es_issued_at r)),
      (''expires_at'', VTime (es_expires_at r)), (''revoked_at'', opt VTime (es_revoked_at r))]"
| "row_columns (AuditLogRow r) =
     [(''id'', VText (al_id r)), (''actor_sub'', VText (al_actor_sub r)), (''action'', VText (al_action r)),
      (''target_table'', VText (al_target_table r)), (''target_id'', opt VText (al_target_id r)),
      (''request_id'', VText (al_request_id r)), (''ip'', opt VText (al_ip r)), (''user_agent'', opt VText (al_user_agent r)),
      (''outcome'', VText (al_outcome r)), (''metadata_json'', VJson (al_metadata_json r)), (''created_at'', VTime (al_created_at r))]"
| "row_columns (UserBanRow r) =
     [(''id'', VText (ub_id r)), (''user_id'', VText (ub_user_id r)), (''reason'', opt VText (ub_reason r)),
      (''banned_until'', opt VTime (ub_banned_until r)), (''created_by_admin_sub'', VText (ub_created_by_admin_sub r)),
      (''created_at'', VTime (ub_created_at r)), (''lifted_at'', opt VTime (ub_lifted_at r)),
      (''lifted_by_admin_sub'', opt VText (ub_lifted_by_admin_sub r)), (''lift_reason'', opt VText (ub_lift_reason r))]"
| "row_columns (IpBanRow r) =
     [(''id'', VText (ib_id r)), (''target'', VText (ib_target r)), (''target_kind'', VText (ib_target_kind r)),
      (''ip_family'', VNumber (ib_ip_family r)), (''cidr_prefix'', opt VNumber (ib_cidr_prefix r)),
      (''reason'', opt VText (ib_reason r)), (''banned_until'', opt VTime (ib_banned_until r)),
      (''created_by_admin_sub'', VText (ib_created_by_admin_sub r)), (''created_at'', VTime (ib_created_at r)),
      (''lifted_at'', opt VTime (ib_lifted_at r)), (''lifted_by_admin_sub'', opt VText (ib_lifted_by_admin_sub r)),
      (''lift_reason'', opt VText (ib_lift_reason r))]"
| "row_columns (SecurityEventRow r) =
     [(''id'', VText (se_id r)), (''user_id'', opt VText (se_user_id r)), (''event_type'', VText (se_event_type r)),
      (''ip'', VText (se_ip r)), (''request_id'', opt VText (se_request_id r)), (''user_agent'', opt VText (se_user_agent r)),
      (''metadata_json'', VJson (se_metadata_json r)), (''created_at'', VTime (se_created_at r))]"
| "row_columns (AbuseReportRow r) =
     [(''id'', VText (ar_id r)), (''video_id'', VText (ar_video_id r)), (''reporter_user_id'', VText (ar_reporter_user_id r)),
      (''reason_codes'', texts (ar_reason_codes r)), (''details'', opt VText (ar_details r)),
      (''timestamp_seconds'', opt VNumber (ar_timestamp_seconds r)), (''severity_score'', VNumber (ar_severity_score r)),
      (''status'', VText (ar_status r)), (''client_ip'', VText (ar_client_ip r)), (''user_agent'', opt VText (ar_user_agent r)),
      (''auto_quarantined'', VBool (ar_auto_quarantined r)), (''auto_rule'', opt VText (ar_auto_rule r)),
      (''created_at'', VTime (ar_created_at r)), (''updated_at'', VTime (ar_updated_at r)),
      (''closed_at'', opt VTime (ar_closed_at r)), (''closed_by_admin_sub'', opt VText (ar_closed_by_admin_sub r)),
      (''resolution_code'', opt VText (ar_resolution_code r)), (''resolution_note'', opt VText (ar_resolution_note r))]"

fun row_table :: "table_row \<Rightarrow> string" where
  "row_table (UserRow _) = ''users''"
| "row_table (VideoRow _) = ''videos''"
| "row_table (LikeRow _) = ''likes''"
| "row_table (RefreshTokenRow _) = ''refresh_tokens''"
| "row_table (DownloadJobRow _) = ''download_jobs''"
| "row_table (SendTicketRow _) = ''send_tickets''"
| "row_table (ExtensionSessionRow _) = ''extension_sessions''"
| "row_table (AuditLogRow _) = ''admin_audit_logs''"
| "row_table (UserBanRow _) = ''user_bans''"
| "row_table (IpBanRow _) = ''ip_bans''"
| "row_table (SecurityEventRow _) = ''security_events''"
| "row_table (AbuseReportRow _) = ''abuse_reports''"

fun has_type :: "column_type \<Rightarrow> sql_value \<Rightarrow> bool" where
  "has_type ty (VText _) = (ty = CUuid \<or> ty = CString \<or> ty = CText)"
| "has_type ty (VNumber _) = (ty = CBigInteger \<or> ty = CInteger \<or> ty = CSmallInteger)"
| "has_type ty (VBool _) = (ty = CBoolean)"
| "has_type ty (VTime _) = (ty = CTimestamp)"
| "has_type ty (VJson _) = (ty = CJson)"
| "has_type ty (VArray vs) = (case ty of CArray e \<Rightarrow> list_all (has_type e) vs | _ \<Rightarrow> False)"
| "has_type _ VNull = False"

definition fits :: "column \<Rightarrow> sql_value \<Rightarrow> bool" where
  "fits c v \<longleftrightarrow> (if v = VNull then co_nullable c else has_type (co_type c) v)"

definition find_column :: "column list \<Rightarrow> string \<Rightarrow> column option" where
  "find_column cs n = find (\<lambda>c. co_name c = n) cs"

text \<open>A row fits a table: each of its columns is there with its type, \<^verbatim>\<open>NULL\<close> only where it may be, and a
  column it does not give is nullable or has a default.\<close>

definition row_fits :: "column list \<Rightarrow> table_row \<Rightarrow> bool" where
  "row_fits cs r \<longleftrightarrow>
     list_all (\<lambda>(n, v). case find_column cs n of None \<Rightarrow> False | Some c \<Rightarrow> fits c v) (row_columns r)
   \<and> list_all (\<lambda>c. co_name c \<in> set (map fst (row_columns r)) \<or> co_nullable c \<or> co_default c \<noteq> None) cs"

lemma column_simps [simp]:
  "co_name (not_null n ty) = n" "co_name (nullable n ty) = n" "co_name (with_default n ty v) = n"
  "co_type (not_null n ty) = ty" "co_type (nullable n ty) = ty" "co_type (with_default n ty v) = ty"
  "\<not> co_nullable (not_null n ty)" "co_nullable (nullable n ty)" "\<not> co_nullable (with_default n ty v)"
  "co_default (with_default n ty v) = Some v"
  by (simp_all add: not_null_def nullable_def with_default_def)

lemma fits_simps [simp]:
  "has_type (co_type c) (VText s) \<Longrightarrow> fits c (VText s)" "has_type (co_type c) (VNumber m) \<Longrightarrow> fits c (VNumber m)"
  "has_type (co_type c) (VBool b) \<Longrightarrow> fits c (VBool b)" "has_type (co_type c) (VTime t) \<Longrightarrow> fits c (VTime t)"
  "has_type (co_type c) (VJson j) \<Longrightarrow> fits c (VJson j)" "has_type (co_type c) (VArray vs) \<Longrightarrow> fits c (VArray vs)"
  by (simp_all add: fits_def)

lemma fits_opt [simp]: "co_nullable c \<Longrightarrow> (\<And>y. fits c (f y)) \<Longrightarrow> fits c (opt f x)"
  by (cases x) (auto simp: fits_def)

lemma fits_texts [simp]: "co_type c = CArray ty \<Longrightarrow> ty \<in> {CUuid, CString, CText} \<Longrightarrow> fits c (texts ss)"
  by (auto simp: fits_def texts_def list_all_iff)


section \<open>What the constraints mean\<close>

definition row_value :: "table_row \<Rightarrow> string \<Rightarrow> sql_value" where
  "row_value r c = (case map_of (row_columns r) c of None \<Rightarrow> VNull | Some v \<Rightarrow> v)"

text \<open>The truth of a condition; \<^verbatim>\<open>NULL\<close> makes a comparison unknown.\<close>

fun truth :: "(string \<Rightarrow> sql_value) \<Rightarrow> condition \<Rightarrow> bool option" where
  "truth v (IsNull c) = Some (v c = VNull)"
| "truth v (IsNotNull c) = Some (v c \<noteq> VNull)"
| "truth v (EqualsText c s) = (if v c = VNull then None else Some (v c = VText s))"
| "truth v (IsFalse c) = (if v c = VNull then None else Some (v c = VBool False))"
| "truth v (OneOf c ss) = (if v c = VNull then None else Some (v c \<in> VText ` set ss))"
| "truth v (HasElements c) = Some (case v c of VArray (x # xs) \<Rightarrow> True | _ \<Rightarrow> False)"
| "truth v (Both p q) =
     (case (truth v p, truth v q) of
        (Some False, _) \<Rightarrow> Some False | (_, Some False) \<Rightarrow> Some False
      | (Some True, Some True) \<Rightarrow> Some True | _ \<Rightarrow> None)"
| "truth v (Either p q) =
     (case (truth v p, truth v q) of
        (Some True, _) \<Rightarrow> Some True | (_, Some True) \<Rightarrow> Some True
      | (Some False, Some False) \<Rightarrow> Some False | _ \<Rightarrow> None)"

definition all_rows :: "database \<Rightarrow> table_row list" where
  "all_rows d = map UserRow (db_users d) @ map VideoRow (db_videos d) @ map LikeRow (db_likes d)
     @ map RefreshTokenRow (db_refresh_tokens d) @ map DownloadJobRow (db_download_jobs d)
     @ map SendTicketRow (db_send_tickets d) @ map ExtensionSessionRow (db_extension_sessions d)
     @ map AuditLogRow (db_admin_audit_logs d) @ map UserBanRow (db_user_bans d) @ map IpBanRow (db_ip_bans d)
     @ map SecurityEventRow (db_security_events d) @ map AbuseReportRow (db_abuse_reports d)"

definition rows_in :: "database \<Rightarrow> string \<Rightarrow> table_row list" where
  "rows_in d n = filter (\<lambda>r. row_table r = n) (all_rows d)"

text \<open>A row counts for a unique key when it meets the condition of the key and has no \<^verbatim>\<open>NULL\<close> in it.\<close>

definition counts_for :: "string list \<times> condition option \<Rightarrow> table_row \<Rightarrow> bool" where
  "counts_for k r \<longleftrightarrow> (case snd k of None \<Rightarrow> True | Some p \<Rightarrow> truth (row_value r) p = Some True)
     \<and> VNull \<notin> set (map (row_value r) (fst k))"

definition key_holds :: "database \<Rightarrow> string \<times> string \<times> string list \<times> condition option \<Rightarrow> bool" where
  "key_holds d k = (case k of (n, _, cs, w) \<Rightarrow>
     distinct (map (\<lambda>r. map (row_value r) cs) (filter (counts_for (cs, w)) (rows_in d n))))"

definition refers_ok :: "database \<Rightarrow> foreign_key \<Rightarrow> table_row \<Rightarrow> bool" where
  "refers_ok d f r \<longleftrightarrow> row_value r (fk_column f) = VNull
     \<or> list_ex (\<lambda>p. row_value p (fk_target_column f) = row_value r (fk_column f)) (rows_in d (fk_target f))"

definition foreign_key_holds :: "database \<Rightarrow> string \<times> foreign_key \<Rightarrow> bool" where
  "foreign_key_holds d k = list_all (refers_ok d (snd k)) (rows_in d (fst k))"

definition passes :: "table_row \<Rightarrow> string \<times> string \<times> condition \<Rightarrow> bool" where
  "passes r c \<longleftrightarrow> (row_table r = fst c \<longrightarrow> truth (row_value r) (snd (snd c)) \<noteq> Some False)"

definition satisfies :: "schema \<Rightarrow> database \<Rightarrow> bool" where
  "satisfies s d \<longleftrightarrow> list_all (key_holds d) (key_constraints s) \<and> list_all (foreign_key_holds d) (foreign_keys_of s)
   \<and> list_all (\<lambda>c. list_all (\<lambda>r. passes r c) (all_rows d)) (checks_of s)"

section \<open>Inserting a row\<close>

fun append_row :: "table_row \<Rightarrow> database \<Rightarrow> database" where
  "append_row (UserRow r) d = d\<lparr> db_users := db_users d @ [r] \<rparr>"
| "append_row (VideoRow r) d = d\<lparr> db_videos := db_videos d @ [r] \<rparr>"
| "append_row (LikeRow r) d = d\<lparr> db_likes := db_likes d @ [r] \<rparr>"
| "append_row (RefreshTokenRow r) d = d\<lparr> db_refresh_tokens := db_refresh_tokens d @ [r] \<rparr>"
| "append_row (DownloadJobRow r) d = d\<lparr> db_download_jobs := db_download_jobs d @ [r] \<rparr>"
| "append_row (SendTicketRow r) d = d\<lparr> db_send_tickets := db_send_tickets d @ [r] \<rparr>"
| "append_row (ExtensionSessionRow r) d = d\<lparr> db_extension_sessions := db_extension_sessions d @ [r] \<rparr>"
| "append_row (AuditLogRow r) d = d\<lparr> db_admin_audit_logs := db_admin_audit_logs d @ [r] \<rparr>"
| "append_row (UserBanRow r) d = d\<lparr> db_user_bans := db_user_bans d @ [r] \<rparr>"
| "append_row (IpBanRow r) d = d\<lparr> db_ip_bans := db_ip_bans d @ [r] \<rparr>"
| "append_row (SecurityEventRow r) d = d\<lparr> db_security_events := db_security_events d @ [r] \<rparr>"
| "append_row (AbuseReportRow r) d = d\<lparr> db_abuse_reports := db_abuse_reports d @ [r] \<rparr>"

fun insert_row :: "table_row \<Rightarrow> database \<Rightarrow> db_error + database" where
  "insert_row (UserRow r) = insert_user r"
| "insert_row (VideoRow r) = insert_video r"
| "insert_row (LikeRow r) = insert_like r"
| "insert_row (RefreshTokenRow r) = insert_refresh_token r"
| "insert_row (DownloadJobRow r) = insert_download_job r"
| "insert_row (SendTicketRow r) = insert_send_ticket r"
| "insert_row (ExtensionSessionRow r) = insert_extension_session r"
| "insert_row (AuditLogRow r) = insert_admin_audit_log r"
| "insert_row (UserBanRow r) = insert_user_ban r"
| "insert_row (IpBanRow r) = insert_ip_ban r"
| "insert_row (SecurityEventRow r) = insert_security_event r"
| "insert_row (AbuseReportRow r) = insert_abuse_report r"

lemma rows_in_append:
  "rows_in (append_row r d) n = (if row_table r = n then rows_in d n @ [r] else rows_in d n)"
  by (cases r) (auto simp: rows_in_def all_rows_def filter_map comp_def)

lemma set_all_rows_append: "set (all_rows (append_row r d)) = insert r (set (all_rows d))"
  by (cases r) (auto simp: all_rows_def)

lemma key_holds_append:
  "key_holds (append_row r d) (n, k, cs, w) \<longleftrightarrow> key_holds d (n, k, cs, w)
     \<and> (row_table r = n \<and> counts_for (cs, w) r
         \<longrightarrow> \<not> list_ex (\<lambda>q. counts_for (cs, w) q \<and> map (row_value q) cs = map (row_value r) cs) (rows_in d n))"
proof -
  have "map (row_value r) cs \<notin> (\<lambda>q. map (row_value q) cs) ` {q \<in> A. counts_for (cs, w) q}
      \<longleftrightarrow> \<not> (\<exists>q \<in> A. counts_for (cs, w) q \<and> map (row_value q) cs = map (row_value r) cs)" for A
    unfolding image_iff by (simp del: map_eq_conv) metis
  then show ?thesis
    by (auto simp: key_holds_def rows_in_append list_ex_iff simp del: map_eq_conv)
qed

lemma refers_ok_grows: "refers_ok d f q \<Longrightarrow> refers_ok (append_row r d) f q"
  by (auto simp: refers_ok_def rows_in_append list_ex_iff)

lemma foreign_key_holds_append:
  "foreign_key_holds d (n, f) \<Longrightarrow>
     foreign_key_holds (append_row r d) (n, f) \<longleftrightarrow> (row_table r = n \<longrightarrow> refers_ok (append_row r d) f r)"
  using refers_ok_grows by (auto simp: foreign_key_holds_def rows_in_append list_all_iff)

text \<open>What an insert has to look at: the constraints of the table of the row.\<close>

definition row_admitted :: "schema \<Rightarrow> database \<Rightarrow> table_row \<Rightarrow> bool" where
  "row_admitted s d r \<longleftrightarrow>
     list_all (\<lambda>(n, _, cs, w). counts_for (cs, w) r
        \<longrightarrow> \<not> list_ex (\<lambda>q. counts_for (cs, w) q \<and> map (row_value q) cs = map (row_value r) cs) (rows_in d n))
       (filter (\<lambda>k. fst k = row_table r) (key_constraints s))
   \<and> list_all (\<lambda>(_, f). refers_ok (append_row r d) f r) (filter (\<lambda>k. fst k = row_table r) (foreign_keys_of s))"

lemma satisfies_append:
  assumes "satisfies s d" and "list_all (passes r) (checks_of s)"
  shows "satisfies s (append_row r d) \<longleftrightarrow> row_admitted s d r"
proof -
  have "list_all (key_holds (append_row r d)) (key_constraints s) \<longleftrightarrow>
      list_all (\<lambda>(n, _, cs, w). counts_for (cs, w) r
        \<longrightarrow> \<not> list_ex (\<lambda>q. counts_for (cs, w) q \<and> map (row_value q) cs = map (row_value r) cs) (rows_in d n))
       (filter (\<lambda>k. fst k = row_table r) (key_constraints s))"
    using assms(1) by (auto simp: satisfies_def list_all_iff key_holds_append)
  moreover have "list_all (foreign_key_holds (append_row r d)) (foreign_keys_of s) \<longleftrightarrow>
      list_all (\<lambda>(_, f). refers_ok (append_row r d) f r) (filter (\<lambda>k. fst k = row_table r) (foreign_keys_of s))"
    using assms(1) by (auto simp: satisfies_def list_all_iff foreign_key_holds_append)
  moreover have "list_all (\<lambda>c. list_all (\<lambda>q. passes q c) (all_rows (append_row r d))) (checks_of s)"
    using assms by (auto simp: satisfies_def list_all_iff set_all_rows_append)
  ultimately show ?thesis by (simp add: satisfies_def row_admitted_def)
qed

lemma rows_of_table:
  "filter (\<lambda>r. row_table r = n) (map UserRow us) = (if n = ''users'' then map UserRow us else [])"
  "filter (\<lambda>r. row_table r = n) (map VideoRow vs) = (if n = ''videos'' then map VideoRow vs else [])"
  "filter (\<lambda>r. row_table r = n) (map LikeRow ls) = (if n = ''likes'' then map LikeRow ls else [])"
  "filter (\<lambda>r. row_table r = n) (map RefreshTokenRow ts) = (if n = ''refresh_tokens'' then map RefreshTokenRow ts else [])"
  "filter (\<lambda>r. row_table r = n) (map DownloadJobRow js) = (if n = ''download_jobs'' then map DownloadJobRow js else [])"
  "filter (\<lambda>r. row_table r = n) (map SendTicketRow ss) = (if n = ''send_tickets'' then map SendTicketRow ss else [])"
  "filter (\<lambda>r. row_table r = n) (map ExtensionSessionRow es) = (if n = ''extension_sessions'' then map ExtensionSessionRow es else [])"
  "filter (\<lambda>r. row_table r = n) (map AuditLogRow as) = (if n = ''admin_audit_logs'' then map AuditLogRow as else [])"
  "filter (\<lambda>r. row_table r = n) (map UserBanRow bs) = (if n = ''user_bans'' then map UserBanRow bs else [])"
  "filter (\<lambda>r. row_table r = n) (map IpBanRow is) = (if n = ''ip_bans'' then map IpBanRow is else [])"
  "filter (\<lambda>r. row_table r = n) (map SecurityEventRow vs') = (if n = ''security_events'' then map SecurityEventRow vs' else [])"
  "filter (\<lambda>r. row_table r = n) (map AbuseReportRow rs) = (if n = ''abuse_reports'' then map AbuseReportRow rs else [])"
  by (auto simp: filter_map comp_def)

lemma rows_in_tables:
  "rows_in d ''users'' = map UserRow (db_users d)" "rows_in d ''videos'' = map VideoRow (db_videos d)"
  "rows_in d ''likes'' = map LikeRow (db_likes d)" "rows_in d ''refresh_tokens'' = map RefreshTokenRow (db_refresh_tokens d)"
  "rows_in d ''download_jobs'' = map DownloadJobRow (db_download_jobs d)"
  "rows_in d ''send_tickets'' = map SendTicketRow (db_send_tickets d)"
  "rows_in d ''extension_sessions'' = map ExtensionSessionRow (db_extension_sessions d)"
  "rows_in d ''admin_audit_logs'' = map AuditLogRow (db_admin_audit_logs d)"
  "rows_in d ''user_bans'' = map UserBanRow (db_user_bans d)" "rows_in d ''ip_bans'' = map IpBanRow (db_ip_bans d)"
  "rows_in d ''security_events'' = map SecurityEventRow (db_security_events d)"
  "rows_in d ''abuse_reports'' = map AbuseReportRow (db_abuse_reports d)"
  by (simp_all add: rows_in_def all_rows_def rows_of_table)

lemma reference_simps [simp]:
  "fk_column (reference n c t a b) = c" "fk_target (reference n c t a b) = t" "fk_target_column (reference n c t a b) = ''id''"
  "fk_name (reference n c t a b) = n" "fk_on_delete (reference n c t a b) = a"
  by (simp_all add: reference_def)

lemma opt_null [simp]: "opt VText x = VNull \<longleftrightarrow> x = None" "VNull = opt VText x \<longleftrightarrow> x = None"
  "opt VTime t = VNull \<longleftrightarrow> t = None" "VNull = opt VTime t \<longleftrightarrow> t = None"
  by (cases x; cases t; simp)+

lemma opt_text [simp]: "opt VText x = VText s \<longleftrightarrow> x = Some s" "VText s = opt VText x \<longleftrightarrow> x = Some s"
  by (cases x; auto)+

lemma opt_texts [simp]: "opt VText x = opt VText y \<longleftrightarrow> x = y"
  by (cases x; cases y; simp)

lemma comp_row [simp]: "(P \<circ> UserRow) = (\<lambda>x. P (UserRow x))"
  by (simp add: comp_def)

text \<open>The constraints table by table.\<close>

lemma keys_in:
  "filter (\<lambda>k. fst k = ''users'') (key_constraints migrated) =
     [(''users'', ''users_pkey'', [''id''], None),
      (''users'', ''users_google_id_key'', [''google_id''], None),
      (''users'', ''idx_users_username_normalized_unique'', [''username_normalized''], None)]"
  "filter (\<lambda>k. fst k = ''videos'') (key_constraints migrated) = [(''videos'', ''videos_pkey'', [''id''], None)]"
  "filter (\<lambda>k. fst k = ''likes'') (key_constraints migrated) = [(''likes'', ''pk_likes'', [''user_id'', ''video_id''], None)]"
  "filter (\<lambda>k. fst k = ''refresh_tokens'') (key_constraints migrated) = [(''refresh_tokens'', ''refresh_tokens_pkey'', [''id''], None)]"
  "filter (\<lambda>k. fst k = ''download_jobs'') (key_constraints migrated) =
     [(''download_jobs'', ''download_jobs_pkey'', [''id''], None),
      (''download_jobs'', ''idx_download_jobs_idempotency_key'', [''idempotency_key''], None)]"
  "filter (\<lambda>k. fst k = ''send_tickets'') (key_constraints migrated) = [(''send_tickets'', ''send_tickets_pkey'', [''ticket_id''], None)]"
  "filter (\<lambda>k. fst k = ''extension_sessions'') (key_constraints migrated) =
     [(''extension_sessions'', ''extension_sessions_pkey'', [''jti''], None)]"
  "filter (\<lambda>k. fst k = ''admin_audit_logs'') (key_constraints migrated) =
     [(''admin_audit_logs'', ''admin_audit_logs_pkey'', [''id''], None)]"
  "filter (\<lambda>k. fst k = ''user_bans'') (key_constraints migrated) =
     [(''user_bans'', ''user_bans_pkey'', [''id''], None),
      (''user_bans'', ''uniq_user_bans_active_user'', [''user_id''], Some (IsNull ''lifted_at''))]"
  "filter (\<lambda>k. fst k = ''ip_bans'') (key_constraints migrated) =
     [(''ip_bans'', ''ip_bans_pkey'', [''id''], None),
      (''ip_bans'', ''uniq_ip_bans_active_target'', [''target''], Some (IsNull ''lifted_at''))]"
  "filter (\<lambda>k. fst k = ''security_events'') (key_constraints migrated) = [(''security_events'', ''security_events_pkey'', [''id''], None)]"
  "filter (\<lambda>k. fst k = ''abuse_reports'') (key_constraints migrated) =
     [(''abuse_reports'', ''abuse_reports_pkey'', [''id''], None),
      (''abuse_reports'', ''uniq_abuse_reports_open_video_reporter'', [''video_id'', ''reporter_user_id''],
        Some (IsNull ''closed_at''))]"
  by (simp_all add: migrated_keys)

lemma references_in:
  "filter (\<lambda>k. fst k = ''users'') (foreign_keys_of migrated) = []"
  "filter (\<lambda>k. fst k = ''videos'') (foreign_keys_of migrated) =
     [(''videos'', reference ''fk_videos_users'' ''user_id'' ''users'' Cascade NoAction),
      (''videos'', reference ''fk_videos_moderation_source_report'' ''moderation_source_report_id'' ''abuse_reports'' SetNull Cascade)]"
  "filter (\<lambda>k. fst k = ''likes'') (foreign_keys_of migrated) =
     [(''likes'', reference ''fk_likes_users'' ''user_id'' ''users'' Cascade NoAction),
      (''likes'', reference ''fk_likes_videos'' ''video_id'' ''videos'' Cascade NoAction)]"
  "filter (\<lambda>k. fst k = ''refresh_tokens'') (foreign_keys_of migrated) =
     [(''refresh_tokens'', reference ''fk_refresh_tokens_users'' ''user_id'' ''users'' Cascade Cascade),
      (''refresh_tokens'', reference ''fk-refresh_tokens-replaced_by'' ''replaced_by'' ''refresh_tokens'' SetNull Cascade)]"
  "filter (\<lambda>k. fst k = ''download_jobs'') (foreign_keys_of migrated) = []"
  "filter (\<lambda>k. fst k = ''send_tickets'') (foreign_keys_of migrated) =
     [(''send_tickets'', reference ''fk_send_tickets_users'' ''user_id'' ''users'' Cascade Cascade),
      (''send_tickets'', reference ''fk_send_tickets_videos'' ''video_id'' ''videos'' Cascade Cascade)]"
  "filter (\<lambda>k. fst k = ''extension_sessions'') (foreign_keys_of migrated) =
     [(''extension_sessions'', reference ''fk_extension_sessions_users'' ''user_id'' ''users'' Cascade Cascade)]"
  "filter (\<lambda>k. fst k = ''admin_audit_logs'') (foreign_keys_of migrated) = []"
  "filter (\<lambda>k. fst k = ''user_bans'') (foreign_keys_of migrated) =
     [(''user_bans'', reference ''fk_user_bans_user_id'' ''user_id'' ''users'' Cascade Cascade)]"
  "filter (\<lambda>k. fst k = ''ip_bans'') (foreign_keys_of migrated) = []"
  "filter (\<lambda>k. fst k = ''security_events'') (foreign_keys_of migrated) =
     [(''security_events'', reference ''fk_security_events_user_id'' ''user_id'' ''users'' SetNull Cascade)]"
  "filter (\<lambda>k. fst k = ''abuse_reports'') (foreign_keys_of migrated) =
     [(''abuse_reports'', reference ''fk_abuse_reports_video_id'' ''video_id'' ''videos'' Cascade Cascade),
      (''abuse_reports'', reference ''fk_abuse_reports_reporter_user_id'' ''reporter_user_id'' ''users'' Cascade Cascade)]"
  by (simp_all add: migrated_foreign_keys)

text \<open>The columns the constraints read.\<close>

lemma row_values [simp]:
  "row_value (UserRow u) ''id'' = VText (u_id u)" "row_value (UserRow u) ''google_id'' = VText (u_google_id u)"
  "row_value (UserRow u) ''username_normalized'' = opt VText (u_username_normalized u)"
  "row_value (VideoRow v) ''id'' = VText (v_id v)" "row_value (VideoRow v) ''user_id'' = VText (v_user_id v)"
  "row_value (VideoRow v) ''moderation_source_report_id'' = opt VText (v_moderation_source_report_id v)"
  "row_value (LikeRow l) ''user_id'' = VText (l_user_id l)" "row_value (LikeRow l) ''video_id'' = VText (l_video_id l)"
  "row_value (RefreshTokenRow t) ''id'' = VText (rt_id t)" "row_value (RefreshTokenRow t) ''user_id'' = VText (rt_user_id t)"
  "row_value (RefreshTokenRow t) ''replaced_by'' = opt VText (rt_replaced_by t)"
  "row_value (DownloadJobRow j) ''id'' = VText (dj_id j)"
  "row_value (DownloadJobRow j) ''idempotency_key'' = opt VText (dj_idempotency_key j)"
  "row_value (SendTicketRow k) ''ticket_id'' = VText (st_ticket_id k)" "row_value (SendTicketRow k) ''user_id'' = VText (st_user_id k)"
  "row_value (SendTicketRow k) ''video_id'' = VText (st_video_id k)"
  "row_value (ExtensionSessionRow s) ''jti'' = VText (es_jti s)" "row_value (ExtensionSessionRow s) ''user_id'' = VText (es_user_id s)"
  "row_value (AuditLogRow a) ''id'' = VText (al_id a)"
  "row_value (UserBanRow b) ''id'' = VText (ub_id b)" "row_value (UserBanRow b) ''user_id'' = VText (ub_user_id b)"
  "row_value (UserBanRow b) ''lifted_at'' = opt VTime (ub_lifted_at b)"
  "row_value (IpBanRow i) ''id'' = VText (ib_id i)" "row_value (IpBanRow i) ''target'' = VText (ib_target i)"
  "row_value (IpBanRow i) ''lifted_at'' = opt VTime (ib_lifted_at i)"
  "row_value (SecurityEventRow e) ''id'' = VText (se_id e)" "row_value (SecurityEventRow e) ''user_id'' = opt VText (se_user_id e)"
  "row_value (AbuseReportRow r) ''id'' = VText (ar_id r)" "row_value (AbuseReportRow r) ''video_id'' = VText (ar_video_id r)"
  "row_value (AbuseReportRow r) ''reporter_user_id'' = VText (ar_reporter_user_id r)"
  "row_value (AbuseReportRow r) ''closed_at'' = opt VTime (ar_closed_at r)"
  by (simp_all add: row_value_def)

lemma rows_of_users_videos:
  "db_users (append_row r d) = (case r of UserRow u \<Rightarrow> db_users d @ [u] | _ \<Rightarrow> db_users d)"
  "db_videos (append_row r d) = (case r of VideoRow v \<Rightarrow> db_videos d @ [v] | _ \<Rightarrow> db_videos d)"
  "db_refresh_tokens (append_row r d) = (case r of RefreshTokenRow t \<Rightarrow> db_refresh_tokens d @ [t] | _ \<Rightarrow> db_refresh_tokens d)"
  "db_abuse_reports (append_row r d) = (case r of AbuseReportRow a \<Rightarrow> db_abuse_reports d @ [a] | _ \<Rightarrow> db_abuse_reports d)"
  by (cases r; simp)+

lemma refers_ok_simps:
  "refers_ok d (reference n c ''users'' a b) r \<longleftrightarrow>
     row_value r c = VNull \<or> (\<exists>u \<in> set (db_users d). VText (u_id u) = row_value r c)"
  "refers_ok d (reference n c ''videos'' a b) r \<longleftrightarrow>
     row_value r c = VNull \<or> (\<exists>v \<in> set (db_videos d). VText (v_id v) = row_value r c)"
  "refers_ok d (reference n c ''refresh_tokens'' a b) r \<longleftrightarrow>
     row_value r c = VNull \<or> (\<exists>t \<in> set (db_refresh_tokens d). VText (rt_id t) = row_value r c)"
  "refers_ok d (reference n c ''abuse_reports'' a b) r \<longleftrightarrow>
     row_value r c = VNull \<or> (\<exists>q \<in> set (db_abuse_reports d). VText (ar_id q) = row_value r c)"
  by (simp_all add: refers_ok_def rows_in_tables list_ex_iff)

lemmas admission_simps = counts_for_def rows_in_tables refers_ok_simps rows_of_users_videos user_exists_def
  video_exists_def list_ex_iff

lemma admitted_user:
  "row_admitted migrated d (UserRow u) \<longleftrightarrow> \<not> user_exists d (u_id u) \<and> (\<exists>x. user_unique u (db_users d) = Inr x)"
  unfolding row_admitted_def row_table.simps keys_in references_in
  by (auto simp: admission_simps user_unique_def check_def split: option.splits) force

lemma admitted_video:
  "row_admitted migrated d (VideoRow v) \<longleftrightarrow> \<not> video_exists d (v_id v) \<and> user_exists d (v_user_id v)
     \<and> source_report_ok d (v_moderation_source_report_id v)"
  unfolding row_admitted_def row_table.simps keys_in references_in
  by (auto simp: admission_simps source_report_ok_def split: option.splits)

lemma admitted_like:
  "row_admitted migrated d (LikeRow l) \<longleftrightarrow>
     \<not> list_ex (\<lambda>r. l_user_id r = l_user_id l \<and> l_video_id r = l_video_id l) (db_likes d)
     \<and> user_exists d (l_user_id l) \<and> video_exists d (l_video_id l)"
  unfolding row_admitted_def row_table.simps keys_in references_in
  by (auto simp: admission_simps)

lemma admitted_refresh_token:
  "row_admitted migrated d (RefreshTokenRow t) \<longleftrightarrow> \<not> list_ex (\<lambda>r. rt_id r = rt_id t) (db_refresh_tokens d)
     \<and> user_exists d (rt_user_id t) \<and> replaced_by_ok t (db_refresh_tokens d @ [t])"
  unfolding row_admitted_def row_table.simps keys_in references_in
  by (auto simp: admission_simps replaced_by_ok_def split: option.splits)

lemma admitted_download_job:
  "row_admitted migrated d (DownloadJobRow j) \<longleftrightarrow> \<not> list_ex (\<lambda>r. dj_id r = dj_id j) (db_download_jobs d)
     \<and> \<not> (dj_idempotency_key j \<noteq> None \<and> list_ex (\<lambda>r. dj_idempotency_key r = dj_idempotency_key j) (db_download_jobs d))"
  unfolding row_admitted_def row_table.simps keys_in references_in
  by (auto simp: admission_simps split: option.splits)

lemma admitted_send_ticket:
  "row_admitted migrated d (SendTicketRow k) \<longleftrightarrow> \<not> list_ex (\<lambda>r. st_ticket_id r = st_ticket_id k) (db_send_tickets d)
     \<and> user_exists d (st_user_id k) \<and> video_exists d (st_video_id k)"
  unfolding row_admitted_def row_table.simps keys_in references_in
  by (auto simp: admission_simps)

lemma admitted_extension_session:
  "row_admitted migrated d (ExtensionSessionRow s) \<longleftrightarrow> \<not> list_ex (\<lambda>r. es_jti r = es_jti s) (db_extension_sessions d)
     \<and> user_exists d (es_user_id s)"
  unfolding row_admitted_def row_table.simps keys_in references_in
  by (auto simp: admission_simps)

lemma admitted_audit_log:
  "row_admitted migrated d (AuditLogRow a) \<longleftrightarrow> \<not> list_ex (\<lambda>r. al_id r = al_id a) (db_admin_audit_logs d)"
  unfolding row_admitted_def row_table.simps keys_in references_in
  by (auto simp: admission_simps)

lemma admitted_user_ban:
  "row_admitted migrated d (UserBanRow b) \<longleftrightarrow> \<not> list_ex (\<lambda>r. ub_id r = ub_id b) (db_user_bans d)
     \<and> \<not> (ub_lifted_at b = None \<and> list_ex (\<lambda>r. ub_user_id r = ub_user_id b \<and> ub_lifted_at r = None) (db_user_bans d))
     \<and> user_exists d (ub_user_id b)"
  unfolding row_admitted_def row_table.simps keys_in references_in
  by (auto simp: admission_simps split: option.splits)

lemma admitted_ip_ban:
  "row_admitted migrated d (IpBanRow i) \<longleftrightarrow> \<not> list_ex (\<lambda>r. ib_id r = ib_id i) (db_ip_bans d)
     \<and> \<not> (ib_lifted_at i = None \<and> list_ex (\<lambda>r. ib_target r = ib_target i \<and> ib_lifted_at r = None) (db_ip_bans d))"
  unfolding row_admitted_def row_table.simps keys_in references_in
  by (auto simp: admission_simps split: option.splits)

lemma admitted_security_event:
  "row_admitted migrated d (SecurityEventRow e) \<longleftrightarrow> \<not> list_ex (\<lambda>r. se_id r = se_id e) (db_security_events d)
     \<and> (case se_user_id e of None \<Rightarrow> True | Some x \<Rightarrow> user_exists d x)"
  unfolding row_admitted_def row_table.simps keys_in references_in
  by (auto simp: admission_simps split: option.splits)

lemma admitted_abuse_report:
  "row_admitted migrated d (AbuseReportRow r) \<longleftrightarrow> \<not> list_ex (\<lambda>q. ar_id q = ar_id r) (db_abuse_reports d)
     \<and> \<not> (ar_closed_at r = None \<and> list_ex (\<lambda>q. ar_video_id q = ar_video_id r
            \<and> ar_reporter_user_id q = ar_reporter_user_id r \<and> ar_closed_at q = None) (db_abuse_reports d))
     \<and> video_exists d (ar_video_id r) \<and> user_exists d (ar_reporter_user_id r)"
  unfolding row_admitted_def row_table.simps keys_in references_in
  by (auto simp: admission_simps split: option.splits)

lemmas admitted = admitted_user admitted_video admitted_like admitted_refresh_token admitted_download_job admitted_send_ticket
  admitted_extension_session admitted_audit_log admitted_user_ban admitted_ip_ban admitted_security_event admitted_abuse_report


lemma satisfies_empty: "satisfies migrated empty_db"
  by (simp add: satisfies_def list_all_iff key_holds_def foreign_key_holds_def rows_in_def all_rows_def empty_db_def
      split_def)


text \<open>\<open>fk_ok\<close> of the deletions is the whole of the foreign keys of the schema.\<close>

lemma fk_ok_is_schema: "fk_ok d \<longleftrightarrow> list_all (foreign_key_holds d) (foreign_keys_of migrated)"
proof -
  have users: "user_exists d i \<longleftrightarrow> (\<exists>u \<in> set (db_users d). u_id u = i)" for i
    by (simp add: user_exists_def list_ex_iff)
  have videos: "video_exists d i \<longleftrightarrow> (\<exists>v \<in> set (db_videos d). v_id v = i)" for i
    by (simp add: video_exists_def list_ex_iff)
  have reports: "source_report_ok d x \<longleftrightarrow> x = None \<or> (\<exists>q \<in> set (db_abuse_reports d). Some (ar_id q) = x)" for x
    by (auto simp: source_report_ok_def list_ex_iff split: option.splits)
  have tokens: "replaced_by_ok t (db_refresh_tokens d) \<longleftrightarrow>
      rt_replaced_by t = None \<or> (\<exists>q \<in> set (db_refresh_tokens d). Some (rt_id q) = rt_replaced_by t)" for t
    by (auto simp: replaced_by_ok_def list_ex_iff split: option.splits)
  have events: "(case x of None \<Rightarrow> True | Some u \<Rightarrow> user_exists d u) \<longleftrightarrow>
      x = None \<or> (\<exists>u \<in> set (db_users d). Some (u_id u) = x)" for x
    by (auto simp: users split: option.splits)
  have strings: "VText i = opt VText x \<longleftrightarrow> Some i = x" for i x
    by (cases x) auto
  show ?thesis
    unfolding fk_ok_def events reports tokens users videos migrated_foreign_keys foreign_key_holds_def
    by (simp add: rows_in_tables list.pred_map comp_def refers_ok_simps strings ball_conj_distrib list_all_iff
        del: opt_text)
      (rule iffI; elim conjE; intro conjI; assumption)
qed

section \<open>The catalogue of the administration\<close>

text \<open>The columns an \<^verbatim>\<open>ORDER BY\<close> names.\<close>

definition order_columns :: "string \<Rightarrow> string list" where
  "order_columns s = map (\<lambda>p. takeWhile (\<lambda>c. c \<noteq> CHR '' '') (dropWhile (\<lambda>c. c = CHR '' '') p)) (split_on CHR '','' s)"

fun pk_columns :: "table_primary_key \<Rightarrow> string list" where
  "pk_columns (SingleKey c) = [c]"
| "pk_columns (CompositeKey a b) = [a, b]"

definition spec_matches :: "schema \<Rightarrow> table_spec \<Rightarrow> bool" where
  "spec_matches s t \<longleftrightarrow> list_ex (\<lambda>k. fst k = ts_name t \<and> fst (snd (snd k)) = pk_columns (ts_pk t)
       \<and> snd (snd (snd k)) = None) (key_constraints s)
   \<and> (case map_of (columns_of s) (ts_name t) of
        None \<Rightarrow> False
      | Some cs \<Rightarrow> set (pk_columns (ts_pk t) @ order_columns (ts_order_by t)) \<subseteq> set (map co_name cs))"

lemma order_columns_values:
  "order_columns ''created_at DESC, id DESC'' = [''created_at'', ''id'']"
  "order_columns ''created_at DESC, user_id DESC, video_id DESC'' = [''created_at'', ''user_id'', ''video_id'']"
  "order_columns ''created_at DESC, ticket_id DESC'' = [''created_at'', ''ticket_id'']"
  "order_columns ''issued_at DESC, jti DESC'' = [''issued_at'', ''jti'']"
  by code_simp+

text \<open>The administrator's catalogue names every table of the migrated schema once, with its primary key,
  and sorts by columns the table has.\<close>

theorem catalogue_matches_schema:
  "list_all (spec_matches migrated) table_specs \<and> distinct (map ts_name table_specs)
   \<and> set (map ts_name table_specs) = set (map fst (columns_of migrated))"
  unfolding spec_matches_def migrated_keys migrated_columns by code_simp

section \<open>The relations of the entities\<close>

datatype relation = HasMany string | BelongsTo string string fk_action fk_action

text \<open>\<open>BelongsTo column target on_delete on_update\<close>; the target column is \<^verbatim>\<open>id\<close>.\<close>

definition user_relations :: "relation list" where
  "user_relations = [HasMany ''likes'', HasMany ''refresh_tokens'', HasMany ''videos'']"

definition video_relations :: "relation list" where
  "video_relations = [HasMany ''abuse_reports'', HasMany ''likes'', BelongsTo ''user_id'' ''users'' Cascade NoAction]"

definition like_relations :: "relation list" where
  "like_relations = [BelongsTo ''user_id'' ''users'' Cascade NoAction, BelongsTo ''video_id'' ''videos'' Cascade NoAction]"

definition refresh_token_relations :: "relation list" where
  "refresh_token_relations =
     [BelongsTo ''user_id'' ''users'' Cascade Cascade, BelongsTo ''replaced_by'' ''refresh_tokens'' SetNull Cascade]"

definition extension_session_relations :: "relation list" where
  "extension_session_relations = [BelongsTo ''user_id'' ''users'' Cascade Cascade]"

definition send_ticket_relations :: "relation list" where
  "send_ticket_relations =
     [BelongsTo ''user_id'' ''users'' Cascade Cascade, BelongsTo ''video_id'' ''videos'' Cascade Cascade]"

definition user_ban_relations :: "relation list" where
  "user_ban_relations = [BelongsTo ''user_id'' ''users'' Cascade Cascade]"

definition security_event_relations :: "relation list" where
  "security_event_relations = [BelongsTo ''user_id'' ''users'' SetNull Cascade]"

definition abuse_report_relations :: "relation list" where
  "abuse_report_relations =
     [BelongsTo ''video_id'' ''videos'' Cascade Cascade, BelongsTo ''reporter_user_id'' ''users'' Cascade Cascade]"

definition entity_relations :: "(string \<times> relation list) list" where
  "entity_relations =
     [(''users'', user_relations), (''videos'', video_relations), (''likes'', like_relations),
      (''refresh_tokens'', refresh_token_relations), (''extension_sessions'', extension_session_relations),
      (''send_tickets'', send_ticket_relations), (''user_bans'', user_ban_relations),
      (''security_events'', security_event_relations), (''abuse_reports'', abuse_report_relations),
      (''download_jobs'', []), (''ip_bans'', []), (''admin_audit_logs'', [])]"

definition declared_keys :: "(string \<times> string \<times> string \<times> fk_action \<times> fk_action) list" where
  "declared_keys = concat (map (\<lambda>(n, rs). concat (map (\<lambda>r. case r of
     BelongsTo c t d u \<Rightarrow> [(n, c, t, d, u)] | HasMany _ \<Rightarrow> []) rs)) entity_relations)"

definition schema_keys :: "schema \<Rightarrow> (string \<times> string \<times> string \<times> fk_action \<times> fk_action) list" where
  "schema_keys s = map (\<lambda>(n, f). (n, fk_column f, fk_target f, fk_on_delete f, fk_on_update f)) (foreign_keys_of s)"

text \<open>The entities and the migrations tell the same story: each relation of an entity is a foreign key of
  the schema with the same actions on deletion and update, the only key without a relation is the report
  a moderation refers to, and each collection is the other end of a relation.\<close>

theorem relations_match_schema:
  "set (schema_keys migrated)
     = insert (''videos'', ''moderation_source_report_id'', ''abuse_reports'', SetNull, Cascade) (set declared_keys)
   \<and> list_all (\<lambda>(n, rs). list_all (\<lambda>r. case r of HasMany m \<Rightarrow> list_ex (\<lambda>k. fst k = m \<and> fst (snd (snd k)) = n) declared_keys
       | BelongsTo c t d u \<Rightarrow> True) rs) entity_relations"
  unfolding schema_keys_def migrated_foreign_keys by code_simp

end
