(* ===== verification/Spec2Isabelle.thy ===== *)
theory Spec2Isabelle
  imports Admin AdminLaws App AsUser AuthHandlers BanRace Bans Bulk Calls Configuration Deletion Downloads Entities Feed Ip Likes Migrations Moderation Prelude RateLimit Realtime Router Schema Search SecurityEvents SendTickets Session System Tables Text Tokens Uploads Username Users VideoStore Worker World
begin

text \<open>
  This library models the backend of a video sharing service: an HTTP API (\<^verbatim>\<open>src/src/api\<close>), a worker
  that transcodes and archives videos (\<^verbatim>\<open>src/src/worker\<close>), and what both share
  (\<^verbatim>\<open>src/src/shared\<close>). The two processes meet in a PostgreSQL database, a Valkey store (caches,
  counters, queues, channels) and an object store.

  How the model is built. A handler is a function from the world to a result and a world (\<open>Prelude\<close>:
  \<open>bindE\<close>, \<open>bindErr\<close>, \<open>catchE\<close>, \<open>guardE\<close>, \<open>okOrE\<close>, one combinator for each way the source goes on or
  returns early). The world (\<open>World\<close>) holds the clock, the tables as lists of rows, the Valkey entries
  with their expiry, the queues, the objects, the local files, the streams of random identifiers, and
  the faults still to come: every call to a service takes the next one, and may be answered, not done,
  or done with the answer lost, so a theorem without a hypothesis on \<open>faults\<close> holds whatever fails.
  Strings are their UTF-8 bytes (\<open>Text\<close>), times are nanoseconds, \<^verbatim>\<open>u64\<close> counters are words of 64 bits,
  sizes and lifetimes are naturals. Third-party code (signatures, hashes, OAuth, presigned addresses,
  ranking of full-text search, ffmpeg, zip) is the record \<open>libs\<close> of \<open>App\<close>; what a theorem needs of it
  is a hypothesis with a witness.

  Theories and source files.
  \<^item> \<open>Prelude\<close>, \<open>Text\<close>, \<open>World\<close>, \<open>Calls\<close>: actions, invariants of actions (\<open>preserves\<close>, \<open>keeps\<close> and their
    rules), tables, the locale of inductive invariants; byte strings; the services and the
    constraints their writes check (\<^verbatim>\<open>shared/src/queue.rs\<close>, \<^verbatim>\<open>storage.rs\<close>, the migrations); elimination rules for
    calls that succeed.
  \<^item> \<open>Entities\<close>, \<open>App\<close>: the rows (\<^verbatim>\<open>shared/src/entities\<close>), cached values, configuration, errors
    (\<^verbatim>\<open>api/src/error.rs\<close>).
  \<^item> \<open>RateLimit\<close> (\<^verbatim>\<open>services/rate_limiter.rs\<close>), \<open>Ip\<close> (\<^verbatim>\<open>middleware\<close>: address of the client),
    \<open>Bans\<close>, \<open>BanRace\<close> (\<^verbatim>\<open>services/ban_service.rs\<close> and its middleware): counters in a window and
    bans, alone and with requests side by side.
  \<^item> \<open>Tokens\<close> (\<^verbatim>\<open>auth/service.rs\<close>, one-time codes), \<open>Session\<close> (the extractors of users,
    extensions and administrators), \<open>Username\<close> (\<^verbatim>\<open>users/username.rs\<close>), \<open>AuthHandlers\<close>
    (\<^verbatim>\<open>auth/handlers.rs\<close>, \<^verbatim>\<open>users/extension.rs\<close>), \<open>SecurityEvents\<close>.
  \<^item> \<open>VideoStore\<close> (rows of videos, invalidation of caches, feed cache), \<open>Uploads\<close>, \<open>Feed\<close>, \<open>Likes\<close>,
    \<open>Downloads\<close>, \<open>Bulk\<close>, \<open>Search\<close>, \<open>SendTickets\<close> (\<^verbatim>\<open>videos/handlers.rs\<close> and, for \<open>Bulk\<close>, its half of
    the worker), \<open>Moderation\<close> (\<^verbatim>\<open>services/abuse_report_service.rs\<close> and the report handlers),
    \<open>Worker\<close> (\<^verbatim>\<open>worker/src/main.rs\<close>).
  \<^item> \<open>Router\<close> (\<^verbatim>\<open>api/src/lib.rs\<close> and the routers of the modules): routes, layers and CORS; which handler
    a request reaches. Which pattern the framework takes is a parameter with the documented law.
  \<^item> \<open>Realtime\<close> (\<^verbatim>\<open>realtime/hub.rs\<close>, \<^verbatim>\<open>subscriber.rs\<close> and the task of a connection): the hub of
    websocket connections as a step relation of hub, connections and subscriber, with the simulation by
    which it refines a set of subscribers that are owed messages.
  \<^item> \<open>Users\<close> (\<^verbatim>\<open>users/handlers.rs\<close>), \<open>Deletion\<close> (the cascades of the foreign keys and
    \<^verbatim>\<open>worker/src/account_cleanup.rs\<close>), \<open>System\<close> (\<^verbatim>\<open>system/handlers.rs\<close>), \<open>Admin\<close>,
    \<open>AdminLaws\<close>, \<open>AsUser\<close> (\<^verbatim>\<open>admin/handlers.rs\<close>: audit log, tables, hard deletions, bans, reports, and
    the endpoints by which an administrator acts as a user).
  \<^item> \<open>Configuration\<close> (\<^verbatim>\<open>shared/src/config.rs\<close>): the environment read field by field with its
    defaults and errors, and the terms of service with their frontmatter, which \<open>System\<close> serves.
  \<^item> \<open>Schema\<close> (the statements a migration can make, as operations on a schema that are refused as
    PostgreSQL refuses them), \<open>Migrations\<close> (\<^verbatim>\<open>shared/migration/src\<close>: the nineteen migrations up and
    down, and what \<^verbatim>\<open>Migrator::up\<close> does at a start), \<open>Tables\<close> (the rows of \<open>Entities\<close> as rows of that
    schema: its types, keys, checks and references beside the inserts of \<open>World\<close>, the catalogue of
    \<open>Admin\<close> and the relations of \<^verbatim>\<open>shared/src/entities\<close>).

  What the lemmas show. Each component has its operations, their behaviour on the branches, and the
  invariants they keep; the properties of the manifest stand at the end of their section. Locales state
  the interfaces: \<open>windowed_counter\<close> (the limiter, interpreted on the Valkey counter),
  \<open>one_time_store\<close> (codes), \<open>inductive_invariant\<close> (state machines, interpreted for the limiter, the
  ban caches, the tickets, the delivery of messages and the capacity of the hub). Races are step relations over the database steps of the handlers
  (\<open>RateLimit\<close>, \<open>BanRace\<close>, \<open>Tokens\<close>, \<open>SendTickets\<close>, \<open>Realtime\<close>).

  Bounds. Nothing in the model has fuel: loops are structural over lists, over the number of attempts
  (at most the configured retries) or have a termination proof by the length of the text.
  The migrations are evaluated in three stretches (up to the fifteenth, the eighteenth and the last), each
  compared with the schema written out.

  Not modelled. Logging, metrics and the audit logger of \<^verbatim>\<open>api/src/audit\<close> (they do not change results); start-up, the static documents and OpenAPI; the wire format of JSON and HTTP
  below the level of the request and response records; the text of SQL, the body of the search trigger and
  PostgreSQL's locks; the contents of videos; the timeouts around statements, which are calls
  that fail (their text differs). Two requests interleave only where a step relation says so;
  elsewhere a handler runs alone.
\<close>


end
